(* ===== verification/Prelude.thy ===== *)
theory Prelude
  imports
    Complex_Main
    "HOL-Library.Char_ord"
    "HOL-Library.List_Lexorder"
    "HOL-Library.Product_Lexorder"
begin

text \<open>
  Shared vocabulary of the development: the exceptions of the Python sources as
  values, the sequencing of computations that may raise, counters and per-shard
  vectors as lists updated by index, and the generic lemmas on sums, bounds and
  list updates that the component proofs use.

  Python \<open>float\<close> values of the simulation are finite and are modelled by \<open>real\<close>
  (rounding is not modelled); values read from text, where infinities and NaN can
  occur, have their own type in the theory of Python values.
\<close>

named_theorems wf_intros \<open>introduction rules for well-formedness invariants\<close>
named_theorems bound_intros \<open>introduction rules for interval membership\<close>
named_theorems result_simps \<open>evaluation of computations that may raise\<close>

subsection \<open>Exceptions as values\<close>

datatype exn =
    ValueError
  | RuntimeError
  | KeyError
  | IndexError
  | ZeroDivisionError
  | OverflowError
  | FileNotFoundError
  | TypeError
  | AttributeError
  | AssertionError

type_synonym 'a result = "exn + 'a"

abbreviation raise :: "exn \<Rightarrow> 'a result" where
  "raise e \<equiv> Inl e"

abbreviation return :: "'a \<Rightarrow> 'a result" where
  "return x \<equiv> Inr x"

fun bind_result :: "'a result \<Rightarrow> ('a \<Rightarrow> 'b result) \<Rightarrow> 'b result" where
  "bind_result (Inl e) f = Inl e"
| "bind_result (Inr x) f = f x"

definition check :: "bool \<Rightarrow> exn \<Rightarrow> unit result" where
  "check ok e = (if ok then Inr () else Inl e)"

text \<open>A list comprehension whose element expression may raise.\<close>

fun traverse :: "('a \<Rightarrow> 'b result) \<Rightarrow> 'a list \<Rightarrow> 'b list result" where
  "traverse f [] = Inr []"
| "traverse f (x # xs) =
     bind_result (f x) (\<lambda>y. bind_result (traverse f xs) (\<lambda>ys. Inr (y # ys)))"

lemma bind_result_eq_Inr [result_simps]:
  "bind_result r f = Inr y \<longleftrightarrow> (\<exists>x. r = Inr x \<and> f x = Inr y)"
  by (cases r) auto

lemma bind_result_eq_Inl [result_simps]:
  "bind_result r f = Inl e \<longleftrightarrow> r = Inl e \<or> (\<exists>x. r = Inr x \<and> f x = Inl e)"
  by (cases r) auto

lemma check_eq_Inr [result_simps, simp]: "check b e = Inr u \<longleftrightarrow> b"
  by (simp add: check_def)

lemma check_eq_Inl [result_simps, simp]: "check b e = Inl e' \<longleftrightarrow> \<not> b \<and> e' = e"
  by (auto simp: check_def)

lemma check_True [simp]: "check True e = Inr ()"
  by (simp add: check_def)

lemma check_False [simp]: "check False e = Inl e"
  by (simp add: check_def)

lemma traverse_Inr_iff:
  "traverse f xs = Inr ys \<longleftrightarrow> list_all2 (\<lambda>x y. f x = Inr y) xs ys"
proof (induction xs arbitrary: ys)
  case Nil
  then show ?case by auto
next
  case (Cons x xs)
  then show ?case by (cases ys) (auto simp: result_simps)
qed

lemma traverse_length: "traverse f xs = Inr ys \<Longrightarrow> length ys = length xs"
  by (simp add: traverse_Inr_iff list_all2_lengthD)

lemma traverse_total:
  "(\<And>x. x \<in> set xs \<Longrightarrow> f x = Inr (g x)) \<Longrightarrow> traverse f xs = Inr (map g xs)"
  by (induction xs) auto

text \<open>A loop over a list whose body may raise.\<close>

fun fold_result :: "('x \<Rightarrow> 's \<Rightarrow> 's result) \<Rightarrow> 'x list \<Rightarrow> 's \<Rightarrow> 's result" where
  "fold_result f [] s = Inr s"
| "fold_result f (x # xs) s = bind_result (f x s) (fold_result f xs)"

lemma fold_result_append: "fold_result f (xs @ ys) s = bind_result (fold_result f xs s) (fold_result f ys)"
proof (induction xs arbitrary: s)
  case Nil
  then show ?case by simp
next
  case (Cons x xs)
  then show ?case by (cases "f x s") simp_all
qed

lemma fold_result_single [simp]: "fold_result f [x] = f x"
proof
  fix s
  show "fold_result f [x] s = f x s" by (cases "f x s") simp_all
qed

lemma fold_result_inv:
  assumes "fold_result f xs s = Inr t" and "P [] s"
    and "\<And>ys x a b. P ys a \<Longrightarrow> x \<in> set xs \<Longrightarrow> f x a = Inr b \<Longrightarrow> P (ys @ [x]) b"
  shows "P xs t"
proof -
  have "P (zs @ ys) t" if "fold_result f ys a = Inr t" "P zs a" "set ys \<subseteq> set xs" for ys zs a
    using that
  proof (induction ys arbitrary: zs a)
    case Nil
    then show ?case by simp
  next
    case (Cons y ys)
    then obtain b where "f y a = Inr b" "fold_result f ys b = Inr t" by (auto simp: result_simps)
    then show ?case using Cons.IH [of b "zs @ [y]"] Cons.prems assms(3) by simp
  qed
  from this [of xs s "[]"] show ?thesis using assms(1,2) by simp
qed

lemma fold_result_total:
  "(\<And>x s. x \<in> set xs \<Longrightarrow> f x s = Inr (g x s)) \<Longrightarrow> fold_result f xs s = Inr (fold g xs s)"
  by (induction xs arbitrary: s) auto

lemma fold_result_map: "fold_result f (map g xs) = fold_result (\<lambda>x. f (g x)) xs"
proof
  fix s
  show "fold_result f (map g xs) s = fold_result (\<lambda>x. f (g x)) xs s"
    by (induction xs arbitrary: s) (auto intro: arg_cong [where f = "bind_result _"])
qed

subsection \<open>Vectors updated by index\<close>

text \<open>\<open>xs[i] += d\<close> for an index in range.\<close>

definition bump :: "nat \<Rightarrow> 'a::plus \<Rightarrow> 'a list \<Rightarrow> 'a list" where
  "bump i d xs = xs[i := xs ! i + d]"

lemma length_bump [simp]: "length (bump i d xs) = length xs"
  by (simp add: bump_def)

lemma sum_list_bump [simp]:
  fixes d :: "'a::comm_monoid_add"
  assumes "i < length xs"
  shows "sum_list (bump i d xs) = sum_list xs + d"
  using assms
proof (induction xs arbitrary: i)
  case Nil
  then show ?case by simp
next
  case (Cons x xs)
  then show ?case
    by (cases i) (simp_all add: bump_def ac_simps)
qed

lemma nth_bump: "i < length xs \<Longrightarrow> bump i d xs ! j = (if j = i then xs ! i + d else xs ! j)"
  by (simp add: bump_def nth_list_update)

lemma bump_nonneg:
  fixes d :: "'a::linordered_ab_group_add"
  assumes "\<forall>x\<in>set xs. 0 \<le> x" and "0 \<le> d"
  shows "\<forall>x\<in>set (bump i d xs). 0 \<le> x"
proof (cases "i < length xs")
  case True
  then have "0 \<le> xs ! i + d" using assms by simp
  then show ?thesis
    using assms(1) set_update_subset_insert [of xs i "xs ! i + d"] by (auto simp: bump_def)
next
  case False
  then show ?thesis using assms(1) by (simp add: bump_def list_update_beyond)
qed

subsection \<open>Counters\<close>

text \<open>\<open>counter[key] += d\<close> on a dictionary in insertion order.\<close>

fun counter_add :: "'k \<Rightarrow> 'a::plus \<Rightarrow> ('k \<times> 'a) list \<Rightarrow> ('k \<times> 'a) list" where
  "counter_add k d [] = [(k, d)]"
| "counter_add k d ((k', v) # kvs) = (if k = k' then (k, v + d) # kvs else (k', v) # counter_add k d kvs)"

subsection \<open>Sums, maxima and shares of lists of reals\<close>

lemma sum_list_replicate_zero [simp]: "sum_list (replicate n (0::'a::comm_monoid_add)) = 0"
  by (induction n) auto

lemma sum_list_nonneg_real: "(\<forall>x\<in>set xs. 0 \<le> (x::real)) \<Longrightarrow> 0 \<le> sum_list xs"
  by (rule sum_list_nonneg) auto

lemma member_le_sum_list_real:
  assumes "\<forall>x\<in>set xs. 0 \<le> (x::real)" and "y \<in> set xs"
  shows "y \<le> sum_list xs"
  using assms
proof (induction xs)
  case Nil
  then show ?case by simp
next
  case (Cons x xs)
  then show ?case
    using sum_list_nonneg_real [of xs] by force
qed

lemma sum_list_map_divide:
  "sum_list (map (\<lambda>x. f x / c) xs) = sum_list (map f xs) / (c::real)"
  by (induction xs) (simp_all add: add_divide_distrib)

lemma sum_list_map_real: "sum_list (map real xs) = real (sum_list xs)"
  by (induction xs) simp_all

lemma sum_list_map_mono_real:
  "(\<And>x. x \<in> set xs \<Longrightarrow> f x \<le> (g x :: real)) \<Longrightarrow> sum_list (map f xs) \<le> sum_list (map g xs)"
  by (induction xs) (auto intro: add_mono)

lemma sum_list_map_bounds:
  assumes "\<And>x. x \<in> set xs \<Longrightarrow> 0 \<le> f x \<and> f x \<le> (c::real)"
  shows "0 \<le> sum_list (map f xs) \<and> sum_list (map f xs) \<le> c * length xs"
  using assms
proof (induction xs)
  case Nil
  then show ?case by simp
next
  case (Cons x xs)
  have "0 \<le> f x \<and> f x \<le> c" using Cons.prems by simp
  moreover have "0 \<le> sum_list (map f xs) \<and> sum_list (map f xs) \<le> c * length xs"
    using Cons by simp
  ultimately show ?case by (simp add: algebra_simps)
qed

subsection \<open>Pointwise relations on vectors\<close>

lemma list_all2_le_sum_list:
  "list_all2 (\<le>) xs (ys :: real list) \<Longrightarrow> sum_list xs \<le> sum_list ys"
  by (induction rule: list_all2_induct) auto

lemma list_all2_bump:
  assumes "list_all2 (\<le>) xs (ys :: real list)" and "d \<le> e"
  shows "list_all2 (\<le>) (bump i d xs) (bump i e ys)"
  using assms
  by (cases "i < length ys") (auto simp: list_all2_conv_all_nth bump_def nth_list_update list_update_beyond add_mono add_increasing2)

lemma list_all2_bump_right:
  assumes "list_all2 (\<le>) xs (ys :: real list)" and "0 \<le> e"
  shows "list_all2 (\<le>) xs (bump i e ys)"
  using assms
  by (cases "i < length ys") (auto simp: list_all2_conv_all_nth bump_def nth_list_update list_update_beyond add_mono add_increasing2)

lemma list_all2_weaken:
  "list_all2 P xs ys \<Longrightarrow> (\<And>x y. x \<in> set xs \<Longrightarrow> P x y \<Longrightarrow> Q x y) \<Longrightarrow> list_all2 Q xs ys"
  by (induction rule: list_all2_induct) auto

lemma list_all2_set2: "list_all2 P xs ys \<Longrightarrow> y \<in> set ys \<Longrightarrow> \<exists>x\<in>set xs. P x y"
  by (induction rule: list_all2_induct) auto

subsection \<open>Maps that only grow\<close>

lemma map_le_upd_fresh: "m k = None \<Longrightarrow> m \<subseteq>\<^sub>m m(k \<mapsto> v)"
  by (auto simp: map_le_def)

lemma map_le_lookup: "m \<subseteq>\<^sub>m m' \<Longrightarrow> m k = Some v \<Longrightarrow> m' k = Some v"
  by (auto simp: map_le_def dom_def)

lemma map_le_defined: "m \<subseteq>\<^sub>m m' \<Longrightarrow> m k \<noteq> None \<Longrightarrow> m' k \<noteq> None"
  by (auto simp: map_le_def dom_def)

subsection \<open>Loops whose steps keep an invariant and a preorder\<close>

text \<open>
  The contract of a loop body: every iteration keeps the invariant and moves the state up
  in a preorder. The loop then does both; the clients interpret it with their own step.
\<close>

locale loop_contract =
  fixes step :: "'x \<Rightarrow> 's \<Rightarrow> 's"
    and inv :: "'s \<Rightarrow> bool"
    and grows :: "'s \<Rightarrow> 's \<Rightarrow> bool"
  assumes step_inv: "inv s \<Longrightarrow> inv (step x s)"
    and step_grows: "inv s \<Longrightarrow> grows s (step x s)"
    and grows_refl: "grows s s"
    and grows_trans: "grows s t \<Longrightarrow> grows t u \<Longrightarrow> grows s u"
begin

lemma fold_inv: "inv s \<Longrightarrow> inv (fold step xs s)"
  by (induction xs arbitrary: s) (simp_all add: step_inv)

lemma fold_grows: "inv s \<Longrightarrow> grows s (fold step xs s)"
proof (induction xs arbitrary: s)
  case Nil
  then show ?case by (simp add: grows_refl)
next
  case (Cons x xs)
  then have "grows s (step x s)" "grows (step x s) (fold step xs (step x s))"
    by (simp_all add: step_inv step_grows)
  then show ?case by (simp add: grows_trans)
qed

end

end
