(* ===== verification/PyValues.thy ===== *)
theory PyValues
  imports Prelude
begin

text \<open>
  The parts of Python's built-in values that the sources use on text: \<open>str.strip\<close>,
  \<open>str.lower\<close>, \<open>str.startswith\<close>, \<open>str.split\<close>, substring tests, \<open>int(text, base)\<close>
  and \<open>float(text)\<close>. Text is ASCII: one \<open>char\<close> is one code point.

  \<open>pyfloat\<close> is the type of values that \<open>float(text)\<close> can return: finite numbers,
  the two infinities and NaN, with the comparisons and the arithmetic of IEEE 754 up to
  rounding. Comparisons with NaN are false, so that \<open>max(0.0, nan)\<close> is \<open>0.0\<close>, as in
  Python, where \<open>max\<close> keeps its first argument unless the second is greater.
\<close>

section \<open>Strings\<close>

definition is_space :: "char \<Rightarrow> bool" where
  "is_space c \<longleftrightarrow> (let n = (of_char c :: nat) in n = 32 \<or> (9 \<le> n \<and> n \<le> 13) \<or> (28 \<le> n \<and> n \<le> 31))"

definition strip_by :: "(char \<Rightarrow> bool) \<Rightarrow> string \<Rightarrow> string" where
  "strip_by p s = rev (dropWhile p (rev (dropWhile p s)))"

definition py_strip :: "string \<Rightarrow> string" where
  "py_strip s = strip_by is_space s"

definition lower_char :: "char \<Rightarrow> char" where
  "lower_char c =
     (let n = (of_char c :: nat) in if 65 \<le> n \<and> n \<le> 90 then char_of (n + 32) else c)"

definition py_lower :: "string \<Rightarrow> string" where
  "py_lower s = map lower_char s"

fun starts_with :: "string \<Rightarrow> string \<Rightarrow> bool" where
  "starts_with [] s = True"
| "starts_with (p # ps) [] = False"
| "starts_with (p # ps) (c # cs) = (p = c \<and> starts_with ps cs)"

text \<open>\<open>p in s\<close> on strings.\<close>

fun contains_str :: "string \<Rightarrow> string \<Rightarrow> bool" where
  "contains_str p [] = (p = [])"
| "contains_str p (c # cs) = (starts_with p (c # cs) \<or> contains_str p cs)"

text \<open>\<open>s.split(sep)\<close> for a one-character separator: always at least one part.\<close>

fun split_on :: "char \<Rightarrow> string \<Rightarrow> string list" where
  "split_on sep [] = [[]]"
| "split_on sep (c # cs) =
     (if c = sep then [] # split_on sep cs
      else (case split_on sep cs of
              [] \<Rightarrow> [[c]]
            | p # ps \<Rightarrow> (c # p) # ps))"

fun join_with :: "string \<Rightarrow> string list \<Rightarrow> string" where
  "join_with sep [] = []"
| "join_with sep [s] = s"
| "join_with sep (s # t # ts) = s @ sep @ join_with sep (t # ts)"

definition last_chars :: "nat \<Rightarrow> string \<Rightarrow> string" where
  "last_chars n s = drop (length s - n) s"

fun nat_to_string :: "nat \<Rightarrow> string" where
  "nat_to_string n =
     (if n < 10 then [char_of (48 + n)]
      else nat_to_string (n div 10) @ [char_of (48 + n mod 10)])"

declare nat_to_string.simps [simp del]

lemma split_on_nonempty: "split_on sep s \<noteq> []"
  by (induction s) (auto split: list.splits)

lemma split_on_no_sep: "p \<in> set (split_on sep s) \<Longrightarrow> sep \<notin> set p"
proof (induction s arbitrary: p)
  case Nil
  then show ?case by simp
next
  case (Cons c cs)
  obtain q qs where q: "split_on sep cs = q # qs"
    using split_on_nonempty [of sep cs] by (cases "split_on sep cs") auto
  with Cons show ?case by (auto split: if_splits)
qed

lemma strip_by_idem [simp]: "strip_by p (strip_by p s) = strip_by p s"
proof -
  let ?t = "dropWhile p s"
  have "strip_by p s = [] \<or> \<not> p (hd (strip_by p s))"
  proof (cases "rev (dropWhile p (rev ?t))")
    case Nil
    then show ?thesis by (simp add: strip_by_def)
  next
    case (Cons c cs)
    have "\<exists>ys. ?t = rev (dropWhile p (rev ?t)) @ ys"
      by (metis rev_append rev_rev_ident takeWhile_dropWhile_id)
    then obtain ys where "?t = (c # cs) @ ys" using Cons by auto
    then have "hd ?t = c" and "?t \<noteq> []" by simp_all
    then have "\<not> p c" using hd_dropWhile [of p s] by simp
    then show ?thesis using Cons by (simp add: strip_by_def)
  qed
  then have "dropWhile p (strip_by p s) = strip_by p s"
    by (cases "strip_by p s") auto
  then show ?thesis
    by (simp add: strip_by_def)
qed

lemma py_strip_idem [simp]: "py_strip (py_strip s) = py_strip s"
  by (simp add: py_strip_def)

section \<open>Integers from text\<close>

definition digit_val :: "char \<Rightarrow> nat option" where
  "digit_val c =
     (let n = (of_char c :: nat)
      in if 48 \<le> n \<and> n \<le> 57 then Some (n - 48)
         else if 97 \<le> n \<and> n \<le> 122 then Some (n - 87)
         else if 65 \<le> n \<and> n \<le> 90 then Some (n - 55)
         else None)"

text \<open>
  Digits of a base with single underscores allowed between them; the flag says that the
  previous character was a digit.
\<close>

fun parse_digits :: "nat \<Rightarrow> bool \<Rightarrow> nat \<Rightarrow> string \<Rightarrow> nat option" where
  "parse_digits b prev acc [] = (if prev then Some acc else None)"
| "parse_digits b prev acc (c # cs) =
     (if c = CHR ''_'' then (if prev then parse_digits b False acc cs else None)
      else (case digit_val c of
              None \<Rightarrow> None
            | Some d \<Rightarrow> if d < b then parse_digits b True (acc * b + d) cs else None))"

fun split_sign :: "string \<Rightarrow> bool \<times> string" where
  "split_sign [] = (False, [])"
| "split_sign (c # cs) =
     (if c = CHR ''-'' then (True, cs) else if c = CHR ''+'' then (False, cs) else (False, c # cs))"

definition drop_base_prefix :: "nat \<Rightarrow> string \<Rightarrow> string" where
  "drop_base_prefix b s =
     (if b = 16 \<and> (starts_with ''0x'' s \<or> starts_with ''0X'' s)
      then (if starts_with ''_'' (drop 2 s) then drop 3 s else drop 2 s)
      else s)"

text \<open>\<open>int(s, b)\<close>; \<open>None\<close> is the ValueError.\<close>

definition py_int :: "nat \<Rightarrow> string \<Rightarrow> int option" where
  "py_int b s =
     (let (neg, t) = split_sign (py_strip s)
      in map_option (\<lambda>n. if neg then - int n else int n)
           (parse_digits b False 0 (drop_base_prefix b t)))"

text \<open>\<open>s.isdigit()\<close>.\<close>

definition is_digits :: "string \<Rightarrow> bool" where
  "is_digits s \<longleftrightarrow> s \<noteq> [] \<and>
     list_all (\<lambda>c. 48 \<le> (of_char c :: nat) \<and> (of_char c :: nat) \<le> 57) s"

section \<open>Floats\<close>

datatype pyfloat = Fin real | PInf | NInf | NaN

instantiation pyfloat :: "{zero, one, plus, minus, uminus, times, ord}"
begin

definition zero_pyfloat :: pyfloat where
  "zero_pyfloat = Fin 0"

definition one_pyfloat :: pyfloat where
  "one_pyfloat = Fin 1"

fun plus_pyfloat :: "pyfloat \<Rightarrow> pyfloat \<Rightarrow> pyfloat" where
  "plus_pyfloat NaN y = NaN"
| "plus_pyfloat x NaN = NaN"
| "plus_pyfloat PInf NInf = NaN"
| "plus_pyfloat NInf PInf = NaN"
| "plus_pyfloat PInf y = PInf"
| "plus_pyfloat x PInf = PInf"
| "plus_pyfloat NInf y = NInf"
| "plus_pyfloat x NInf = NInf"
| "plus_pyfloat (Fin a) (Fin b) = Fin (a + b)"

fun uminus_pyfloat :: "pyfloat \<Rightarrow> pyfloat" where
  "uminus_pyfloat (Fin a) = Fin (- a)"
| "uminus_pyfloat PInf = NInf"
| "uminus_pyfloat NInf = PInf"
| "uminus_pyfloat NaN = NaN"

definition minus_pyfloat :: "pyfloat \<Rightarrow> pyfloat \<Rightarrow> pyfloat" where
  "minus_pyfloat x y = x + (- y)"

definition inf_of_sign :: "real \<Rightarrow> pyfloat" where
  "inf_of_sign a = (if a > 0 then PInf else if a < 0 then NInf else NaN)"

fun times_pyfloat :: "pyfloat \<Rightarrow> pyfloat \<Rightarrow> pyfloat" where
  "times_pyfloat NaN y = NaN"
| "times_pyfloat x NaN = NaN"
| "times_pyfloat (Fin a) (Fin b) = Fin (a * b)"
| "times_pyfloat (Fin a) PInf = inf_of_sign a"
| "times_pyfloat (Fin a) NInf = inf_of_sign (- a)"
| "times_pyfloat PInf (Fin b) = inf_of_sign b"
| "times_pyfloat NInf (Fin b) = inf_of_sign (- b)"
| "times_pyfloat PInf PInf = PInf"
| "times_pyfloat NInf NInf = PInf"
| "times_pyfloat PInf NInf = NInf"
| "times_pyfloat NInf PInf = NInf"

fun less_pyfloat :: "pyfloat \<Rightarrow> pyfloat \<Rightarrow> bool" where
  "less_pyfloat NaN y = False"
| "less_pyfloat x NaN = False"
| "less_pyfloat (Fin a) (Fin b) = (a < b)"
| "less_pyfloat NInf NInf = False"
| "less_pyfloat NInf y = True"
| "less_pyfloat x NInf = False"
| "less_pyfloat PInf y = False"
| "less_pyfloat x PInf = True"

definition less_eq_pyfloat :: "pyfloat \<Rightarrow> pyfloat \<Rightarrow> bool" where
  "less_eq_pyfloat x y \<longleftrightarrow> x < y \<or> (x = y \<and> x \<noteq> NaN)"

instance ..

end

fun is_finite :: "pyfloat \<Rightarrow> bool" where
  "is_finite (Fin a) = True"
| "is_finite _ = False"

fun fin_val :: "pyfloat \<Rightarrow> real" where
  "fin_val (Fin a) = a"
| "fin_val _ = 0"

text \<open>\<open>x / y\<close> for a denominator that is not zero (division by zero raises).\<close>

fun fdiv :: "pyfloat \<Rightarrow> pyfloat \<Rightarrow> pyfloat" where
  "fdiv NaN y = NaN"
| "fdiv x NaN = NaN"
| "fdiv (Fin a) (Fin b) = Fin (a / b)"
| "fdiv (Fin a) y = Fin 0"
| "fdiv PInf (Fin b) = (if b < 0 then NInf else PInf)"
| "fdiv NInf (Fin b) = (if b < 0 then PInf else NInf)"
| "fdiv x y = NaN"

text \<open>Python's two-argument \<open>max\<close> and \<open>min\<close>: the first argument unless the second is better.\<close>

definition fmax :: "pyfloat \<Rightarrow> pyfloat \<Rightarrow> pyfloat" where
  "fmax x y = (if x < y then y else x)"

definition fmin :: "pyfloat \<Rightarrow> pyfloat \<Rightarrow> pyfloat" where
  "fmin x y = (if y < x then y else x)"

definition fsum :: "pyfloat list \<Rightarrow> pyfloat" where
  "fsum xs = fold (\<lambda>x acc. acc + x) xs (Fin 0)"

text \<open>\<open>math.log1p\<close> on nonnegative arguments, and on infinity and NaN.\<close>

fun flog1p :: "pyfloat \<Rightarrow> pyfloat" where
  "flog1p (Fin a) = Fin (ln (1 + a))"
| "flog1p PInf = PInf"
| "flog1p NInf = NaN"
| "flog1p NaN = NaN"

definition split_once :: "(char \<Rightarrow> bool) \<Rightarrow> string \<Rightarrow> string \<times> string option" where
  "split_once p s =
     (case dropWhile (\<lambda>c. \<not> p c) s of
        [] \<Rightarrow> (s, None)
      | c # r \<Rightarrow> (takeWhile (\<lambda>c. \<not> p c) s, Some r))"

definition parse_mantissa :: "string \<Rightarrow> real option" where
  "parse_mantissa m =
     (case split_once (\<lambda>c. c = CHR ''.'') m of
        (ip, None) \<Rightarrow> map_option real (parse_digits 10 False 0 ip)
      | (ip, Some fp) \<Rightarrow>
          (let places = length (filter (\<lambda>c. c \<noteq> CHR ''_'') fp) in
           if ip = [] \<and> fp = [] then None
           else if fp = [] then map_option real (parse_digits 10 False 0 ip)
           else if ip = [] then
             map_option (\<lambda>f. real f / 10 ^ places) (parse_digits 10 False 0 fp)
           else
             Option.bind (parse_digits 10 False 0 ip) (\<lambda>i.
               map_option (\<lambda>f. real i + real f / 10 ^ places)
                 (parse_digits 10 False 0 fp))))"

definition parse_decimal :: "string \<Rightarrow> real option" where
  "parse_decimal s =
     (case split_once (\<lambda>c. c = CHR ''e'' \<or> c = CHR ''E'') s of
        (m, None) \<Rightarrow> parse_mantissa m
      | (m, Some e) \<Rightarrow>
          Option.bind (parse_mantissa m) (\<lambda>x.
            let (neg, ds) = split_sign e
            in map_option (\<lambda>k. if neg then x / 10 ^ k else x * 10 ^ k)
                 (parse_digits 10 False 0 ds)))"

text \<open>The least magnitude that a double rounds to infinity.\<close>

definition double_overflow :: real where
  "double_overflow = 2 ^ 1024 - 2 ^ 970"

text \<open>\<open>float(s)\<close>; \<open>None\<close> is the ValueError.\<close>

definition py_float :: "string \<Rightarrow> pyfloat option" where
  "py_float s =
     (let (neg, t) = split_sign (py_strip s); u = py_lower t
      in if u = ''inf'' \<or> u = ''infinity'' then Some (if neg then NInf else PInf)
         else if u = ''nan'' then Some NaN
         else map_option
                (\<lambda>x. if x \<ge> double_overflow then (if neg then NInf else PInf)
                     else Fin (if neg then - x else x))
                (parse_decimal t))"

text \<open>\<open>math.isclose(a, b, rel_tol=1e-9, abs_tol=1e-9)\<close>.\<close>

fun isclose :: "pyfloat \<Rightarrow> pyfloat \<Rightarrow> bool" where
  "isclose (Fin a) (Fin b) \<longleftrightarrow> a = b \<or>
     \<bar>a - b\<bar> \<le> 1 / 10 ^ 9 * \<bar>b\<bar> \<or> \<bar>a - b\<bar> \<le> 1 / 10 ^ 9 * \<bar>a\<bar> \<or> \<bar>a - b\<bar> \<le> 1 / 10 ^ 9"
| "isclose PInf PInf \<longleftrightarrow> True"
| "isclose NInf NInf \<longleftrightarrow> True"
| "isclose _ _ \<longleftrightarrow> False"

subsection \<open>Arithmetic of finite values\<close>

lemma pyfloat_less_Fin [simp]: "Fin a < Fin b \<longleftrightarrow> a < b"
  by simp

lemma pyfloat_le_Fin [simp]: "Fin a \<le> Fin b \<longleftrightarrow> a \<le> b"
  by (auto simp: less_eq_pyfloat_def)

lemma pyfloat_minus_Fin [simp]: "Fin a - Fin b = Fin (a - b)"
  by (simp add: minus_pyfloat_def)

lemma fmax_Fin [simp]: "fmax (Fin a) (Fin b) = Fin (max a b)"
  by (simp add: fmax_def max_def)

lemma fmin_Fin [simp]: "fmin (Fin a) (Fin b) = Fin (min a b)"
  by (auto simp: fmin_def min_def)

lemma fsum_fold_Fin:
  "fold (\<lambda>x acc. acc + x) (map Fin xs) (Fin a) = Fin (a + sum_list xs)"
  by (induction xs arbitrary: a) (simp_all add: add.assoc)

lemma fsum_Fin [simp]: "fsum (map Fin xs) = Fin (sum_list xs)"
  by (simp add: fsum_def fsum_fold_Fin)

lemma is_finite_iff: "is_finite x \<longleftrightarrow> (\<exists>a. x = Fin a)"
  by (cases x) auto

lemma Fin_fin_val: "is_finite x \<Longrightarrow> Fin (fin_val x) = x"
  by (cases x) auto

lemma map_Fin_fin_val: "list_all is_finite xs \<Longrightarrow> map (Fin \<circ> fin_val) xs = xs"
  by (induction xs) (auto simp: Fin_fin_val)

lemma fin_val_map:
  assumes "list_all is_finite xs"
  obtains ys where "xs = map Fin ys"
proof
  show "xs = map Fin (map fin_val xs)"
    using map_Fin_fin_val [OF assms] by simp
qed

section \<open>Plain numbers\<close>

text \<open>Evaluation of a number without a sign, a point or an exponent.\<close>

definition plain_digits :: "string \<Rightarrow> nat option" where
  "plain_digits s =
     (if split_sign (py_strip s) = (False, s) \<and> py_lower s \<notin> {''inf'', ''infinity'', ''nan''} \<and>
         split_once (\<lambda>c. c = CHR ''e'' \<or> c = CHR ''E'') s = (s, None) \<and>
         split_once (\<lambda>c. c = CHR ''.'') s = (s, None)
      then parse_digits 10 False 0 s else None)"

lemma py_float_plain:
  "plain_digits s = Some n \<Longrightarrow> real n < double_overflow \<Longrightarrow> py_float s = Some (Fin (real n))"
  by (auto simp: plain_digits_def py_float_def parse_decimal_def parse_mantissa_def split: if_splits)

end
