(* ===== verification/Mechanism.thy ===== *)
theory Mechanism
  imports PyValues
begin

text \<open>
  The configuration layer: the constants of \<open>config.py\<close>, the size of the policy's
  input vector, and the versioned mechanism switches of \<open>mechanism.py\<close> with their
  validation. Command-line namespaces are records whose fields are optional where the
  source reads them with \<open>getattr\<close> and a default. \<open>load_statistics\<close> is the summary
  of a per-shard load vector that both the offline and the on-chain reports use.
\<close>

section \<open>Constants\<close>

definition EPS :: real where
  "EPS = 1 / 10 ^ 8"

definition IOT_FEATURE_DIM :: nat where
  "IOT_FEATURE_DIM = 10"

definition LOAD_SEMANTICS_VERSION :: string where
  "LOAD_SEMANTICS_VERSION = ''primary_owner_execution_v1''"

definition IOT_DENSE_BALANCED_REWARD_MODE :: string where
  "IOT_DENSE_BALANCED_REWARD_MODE = ''iot_dense_balanced''"

definition IOT_DENSE_BALANCED_LOW_LOAD_BONUS_WEIGHT :: real where
  "IOT_DENSE_BALANCED_LOW_LOAD_BONUS_WEIGHT = 25 / 100"

definition IOT_DENSE_BALANCED_LOW_LOAD_BONUS_CAP :: real where
  "IOT_DENSE_BALANCED_LOW_LOAD_BONUS_CAP = 18 / 100"

definition V3_STATE_LAYOUT :: string where
  "V3_STATE_LAYOUT = ''iot_cost_by_shard_no_address_flag_v3_1''"

definition V3_PREVIOUS_STATE_LAYOUT :: string where
  "V3_PREVIOUS_STATE_LAYOUT = ''iot_cost_by_shard_v3''"

section \<open>Size of the policy input\<close>

definition state_dim :: "int \<Rightarrow> int \<Rightarrow> int" where
  "state_dim shards iot_feature_dim =
     (let base_dim = 11 * shards + 1;
          base_dim = (if iot_feature_dim > 0 then base_dim + shards else base_dim)
      in base_dim + max 0 iot_feature_dim)"

definition address_flag_dim :: "string \<Rightarrow> string option \<Rightarrow> int result" where
  "address_flag_dim version layout =
     (if version = ''legacy'' then return 1
      else if version \<noteq> ''v3'' \<or>
              layout \<notin> {None, Some V3_STATE_LAYOUT, Some V3_PREVIOUS_STATE_LAYOUT}
      then raise ValueError
      else return (if layout = Some V3_PREVIOUS_STATE_LAYOUT then 1 else 0))"

definition input_dim :: "int \<Rightarrow> int \<Rightarrow> string \<Rightarrow> string option \<Rightarrow> int result" where
  "input_dim shards iot_feature_dim version layout =
     bind_result (address_flag_dim version layout) (\<lambda>flag_dim.
       return (state_dim shards iot_feature_dim +
               (if version = ''v3'' then shards - 1 + flag_dim else 0)))"

section \<open>Mechanism switches\<close>

record mech_args =
  arg_mechanism_version :: "string option"
  arg_feature_mode :: "string option"
  arg_scene_cost_mode :: "string option"
  arg_tx_identity :: "string option"
  arg_mdp_mode :: "string option"
  arg_capacity_backlog_mode :: "int option"
  arg_keep_placement :: "bool option"
  arg_rollout_batches :: "int option"
  arg_reward_mode :: "string option"
  arg_local_reward_weight :: "pyfloat option"
  arg_action_reward_scale :: "pyfloat option"
  arg_supervised_coef :: "pyfloat option"

record mech_settings =
  mechanism_version :: string
  feature_mode :: string
  scene_cost_mode :: string

definition getattr :: "'a option \<Rightarrow> 'a \<Rightarrow> 'a" where
  "getattr field dflt = (case field of None \<Rightarrow> dflt | Some v \<Rightarrow> v)"

definition settings :: "mech_args \<Rightarrow> mech_settings result" where
  "settings args =
     (let version = getattr (arg_mechanism_version args) ''legacy'';
          features = getattr (arg_feature_mode args) ''full'';
          cost = getattr (arg_scene_cost_mode args) ''auto''
      in if version \<notin> {''legacy'', ''v3''} \<or> features \<notin> {''full'', ''no_iot''}
         then raise ValueError
         else let cost = (if cost = ''auto''
                          then (if version = ''v3'' then ''cross'' else ''legacy'') else cost)
              in if version = ''legacy'' \<and> (features \<noteq> ''full'' \<or> cost \<noteq> ''legacy'')
                 then raise ValueError
                 else if version = ''v3'' \<and> cost \<notin> {''cross'', ''off''}
                 then raise ValueError
                 else return \<lparr>mechanism_version = version, feature_mode = features,
                              scene_cost_mode = cost\<rparr>)"

record mech_metadata = mech_settings +
  trajectory_version :: string
  reward_load_basis :: string
  state_layout :: string

definition metadata :: "mech_args \<Rightarrow> mech_metadata option result" where
  "metadata args =
     bind_result (settings args) (\<lambda>r.
       return (if mechanism_version r = ''legacy'' then None
               else Some \<lparr>mechanism_version = mechanism_version r,
                          feature_mode = feature_mode r,
                          scene_cost_mode = scene_cost_mode r,
                          trajectory_version = ''batch_clock_continuous_v1'',
                          reward_load_basis = ''stage'',
                          state_layout = V3_STATE_LAYOUT\<rparr>))"

definition validate_args :: "mech_args \<Rightarrow> mech_settings result" where
  "validate_args args =
     bind_result (settings args) (\<lambda>config.
       if mechanism_version config = ''v3'' then
         (let w = getattr (arg_local_reward_weight args) (Fin (65 / 100));
              scale = getattr (arg_action_reward_scale args) (Fin (1 / 10))
          in if arg_tx_identity args \<noteq> Some ''iot_v2'' \<or> arg_mdp_mode args \<noteq> Some ''iot''
             then raise ValueError
             else if getattr (arg_capacity_backlog_mode args) 0 \<noteq> 0 then raise ValueError
             else if getattr (arg_keep_placement args) False then raise ValueError
             else if getattr (arg_rollout_batches args) 8 < 1 then raise ValueError
             else if getattr (arg_reward_mode args) ''iot_dense_balanced''
                     \<noteq> ''iot_dense_balanced'' then raise ValueError
             else if \<not> (Fin 0 \<le> w \<and> w \<le> Fin 1) then raise ValueError
             else if \<not> is_finite scale \<or> scale \<le> Fin 0 then raise ValueError
             else if getattr (arg_supervised_coef args) (Fin 0) \<noteq> Fin 0 then raise ValueError
             else return config)
       else return config)"

section \<open>Statistics of a load vector\<close>

record load_stats =
  ls_loads :: "real list"
  ls_total :: real
  ls_variance :: real
  ls_normalized_variance :: "real option"
  ls_jain_fairness :: "real option"
  ls_max_share :: "real option"

definition list_max :: "'a::linorder list \<Rightarrow> 'a" where
  "list_max xs = fold max (tl xs) (hd xs)"

definition list_min :: "'a::linorder list \<Rightarrow> 'a" where
  "list_min xs = fold min (tl xs) (hd xs)"

definition load_statistics :: "pyfloat list \<Rightarrow> load_stats result" where
  "load_statistics loads =
     (if loads = [] \<or> \<not> list_all (\<lambda>v. is_finite v \<and> \<not> v < Fin 0) loads
      then raise ValueError
      else
        (let values = map fin_val loads;
             n = real (length values);
             total = sum_list values;
             mean = total / n;
             variance = sum_list (map (\<lambda>v. (v - mean)\<^sup>2) values) / n
         in return
           \<lparr>ls_loads = values, ls_total = total, ls_variance = variance,
            ls_normalized_variance =
              (if mean \<noteq> 0 then Some (variance / (mean * mean)) else None),
            ls_jain_fairness =
              (if total \<noteq> 0
               then Some (total * total / (n * sum_list (map (\<lambda>v. v * v) values)))
               else None),
            ls_max_share = (if total \<noteq> 0 then Some (list_max values / total) else None)\<rparr>))"

section \<open>Lemmas\<close>

lemma EPS_pos [simp]: "0 < EPS"
  by (simp add: EPS_def)

lemma EPS_nonneg [simp]: "0 \<le> EPS"
  by (simp add: EPS_def)

lemma EPS_less_one: "EPS < 1"
  by (simp add: EPS_def)

lemma getattr_simps [simp]: "getattr None d = d" "getattr (Some v) d = v"
  by (simp_all add: getattr_def)

lemma settings_cases:
  assumes "settings args = Inr s"
  shows "(mechanism_version s = ''legacy'' \<and> feature_mode s = ''full'' \<and>
            scene_cost_mode s = ''legacy'') \<or>
         (mechanism_version s = ''v3'' \<and> feature_mode s \<in> {''full'', ''no_iot''} \<and>
            scene_cost_mode s \<in> {''cross'', ''off''})"
  using assms by (auto simp: settings_def Let_def split: if_splits)

lemma list_max_Max: "xs \<noteq> [] \<Longrightarrow> list_max xs = Max (set xs)"
  by (cases xs) (simp_all add: list_max_def Max.set_eq_fold del: set_simps list.set)

lemma list_min_Min: "xs \<noteq> [] \<Longrightarrow> list_min xs = Min (set xs)"
  by (cases xs) (simp_all add: list_min_def Min.set_eq_fold del: set_simps list.set)

lemma list_max_ge: "x \<in> set xs \<Longrightarrow> x \<le> list_max xs"
  by (cases "xs = []") (auto simp: list_max_Max)

lemma list_max_in: "xs \<noteq> [] \<Longrightarrow> list_max xs \<in> set xs"
  by (simp add: list_max_Max)

lemma list_min_le: "x \<in> set xs \<Longrightarrow> list_min xs \<le> x"
  by (cases "xs = []") (auto simp: list_min_Min)

lemma list_min_in: "xs \<noteq> [] \<Longrightarrow> list_min xs \<in> set xs"
  by (simp add: list_min_Min)

text \<open>The variance identity, and Cauchy's inequality for a list as its consequence.\<close>

lemma sum_list_sq_dev:
  "sum_list (map (\<lambda>v. (v - m)\<^sup>2) xs) =
   sum_list (map (\<lambda>v. v * v) xs) - 2 * m * sum_list xs + length xs * (m * m :: real)"
  by (induction xs) (simp_all add: power2_eq_square algebra_simps)

lemma variance_identity:
  assumes "xs \<noteq> []" and "m = sum_list xs / length xs"
  shows "sum_list (map (\<lambda>v. (v - m)\<^sup>2) xs) =
         sum_list (map (\<lambda>v. v * v) xs) - length xs * (m * m :: real)"
proof -
  have "sum_list xs = m * length xs" using assms by simp
  then show ?thesis by (simp add: sum_list_sq_dev algebra_simps)
qed

lemma sum_list_sq_nonneg: "0 \<le> sum_list (map (\<lambda>v. (f v)\<^sup>2 :: real) xs)"
  by (induction xs) auto

lemma cauchy_list:
  "(sum_list xs)\<^sup>2 \<le> length xs * sum_list (map (\<lambda>v. v * v) (xs :: real list))"
proof (cases "xs = []")
  case False
  let ?n = "real (length xs)" and ?m = "sum_list xs / length xs"
  let ?s = "sum_list (map (\<lambda>v. v * v) xs)"
  have n: "0 < ?n" using False by simp
  have "0 \<le> ?s - ?n * (?m * ?m)"
    using sum_list_sq_nonneg [of "\<lambda>v. v - ?m" xs] variance_identity [OF False refl] by simp
  then have "?n * (?n * (?m * ?m)) \<le> ?n * ?s"
    using n by (intro mult_left_mono) simp_all
  moreover have "?n * (?n * (?m * ?m)) = (sum_list xs)\<^sup>2"
    using n by (simp add: power2_eq_square)
  ultimately show ?thesis by simp
qed simp

lemma sum_list_sq_le:
  assumes "\<forall>x\<in>set xs. 0 \<le> (x::real)"
  shows "sum_list (map (\<lambda>v. v * v) xs) \<le> (sum_list xs)\<^sup>2"
  using assms
proof (induction xs)
  case Nil
  then show ?case by simp
next
  case (Cons x xs)
  then have "0 \<le> x * sum_list xs" by (simp add: sum_list_nonneg_real)
  with Cons show ?case by (simp add: power2_eq_square algebra_simps)
qed

lemma sum_list_le_length_max:
  "sum_list xs \<le> length xs * list_max (xs :: real list)"
proof -
  have "sum_list (map (\<lambda>x. x) xs) \<le> sum_list (map (\<lambda>_. list_max xs) xs)"
    by (rule sum_list_map_mono_real) (rule list_max_ge)
  then show ?thesis by (simp add: sum_list_triv)
qed

end
