(* ===== verification/Reward.thy ===== *)
theory Reward
  imports Mechanism
begin

text \<open>
  The numeric core of \<open>offline_env.py\<close>: clamping and normalisation, the two local
  (per placement) reward functions, and \<open>spring_reward\<close>, the reward of a transaction
  batch in its five modes together with the diagnostic parts it reports. A reward mode the
  code does not know raises; the empty batch has reward 0.
\<close>

section \<open>Numeric helpers\<close>

definition clamp :: "real \<Rightarrow> real \<Rightarrow> real \<Rightarrow> real" where
  "clamp v lo hi = (if v < lo then lo else if v > hi then hi else v)"

definition max_load_share :: "real list \<Rightarrow> real" where
  "max_load_share loads =
     (let total = sum_list loads in
      if total \<le> EPS then 0 else clamp (list_max loads / total) 0 1)"

definition tps_ceiling_from_load_per_tx :: "real \<Rightarrow> real \<Rightarrow> real" where
  "tps_ceiling_from_load_per_tx per_shard_capacity_tps max_load_per_tx =
     (if per_shard_capacity_tps \<le> EPS \<or> max_load_per_tx \<le> EPS then 0
      else per_shard_capacity_tps / max_load_per_tx)"

definition normalize_state_value :: "real \<Rightarrow> int \<Rightarrow> int \<Rightarrow> real" where
  "normalize_state_value v max_block_size tx_batch_size =
     (let denom = real_of_int (max max_block_size tx_batch_size);
          denom = (if denom \<le> 0 then 100 else denom);
          x = ln (1 + max 0 v) / ln (1 + denom * 4)
      in clamp x 0 1)"

definition address_flag_from_related_count :: "nat \<Rightarrow> real" where
  "address_flag_from_related_count related_count = (if related_count \<ge> 4 then 1 else 0)"

section \<open>Local rewards\<close>

definition local_action_reward ::
  "int \<Rightarrow> bool \<Rightarrow> int \<Rightarrow> real \<Rightarrow> nat \<Rightarrow> real \<Rightarrow> real \<times> real" where
  "local_action_reward chosen_shard related_known related_shard related_weight
       shard_load_before load_mean_before =
     (let reward = (if related_known
                    then (if chosen_shard = related_shard then 1.2 * related_weight
                          else - (1.0 * related_weight))
                    else 0)
      in if load_mean_before > 1 / 10 ^ 9 then
           (let load_penalty = real shard_load_before / load_mean_before
            in if load_penalty > 1 then
                 (let reward = reward - 0.70 * (load_penalty - 1);
                      reward = (if load_penalty > 1.25
                                then reward - 0.35 * (load_penalty - 1.25) else reward)
                  in (reward, load_penalty))
               else (reward + 0.08 * (1 - load_penalty), load_penalty))
         else (reward, 0))"

definition iot_dense_action_reward ::
  "int \<Rightarrow> real list \<Rightarrow> real \<Rightarrow> real \<Rightarrow> real \<Rightarrow> real \<Rightarrow> real \<Rightarrow> real \<times> real" where
  "iot_dense_action_reward chosen_shard sender_pos communication_cost_weight
       shard_load_before load_mean_before low_load_bonus_weight low_load_bonus_cap =
     (let anchor_mass = (if 0 \<le> chosen_shard \<and> chosen_shard < int (length sender_pos)
                         then clamp (sender_pos ! nat chosen_shard) 0 1 else 0);
          cross_penalty = (if sum_list sender_pos > EPS then 1 - anchor_mass else 0);
          reward = 1.4 * anchor_mass - 0.8 * cross_penalty;
          reward = reward - 0.45 * clamp communication_cost_weight 0 1 * cross_penalty
      in if load_mean_before > 1 / 10 ^ 9 then
           (let load_penalty = shard_load_before / load_mean_before
            in if load_penalty > 1 then
                 (let reward = reward - 0.55 * (load_penalty - 1);
                      reward = (if load_penalty > 1.5
                                then reward - 0.35 * (load_penalty - 1.5) else reward)
                  in (reward, load_penalty))
               else
                 (let underuse_gap = 1 - load_penalty;
                      reward = reward + 0.10 * underuse_gap;
                      bonus_cap = max 0 low_load_bonus_cap;
                      reward = (if low_load_bonus_weight > 0 \<and> bonus_cap > 0
                                then reward + min bonus_cap (low_load_bonus_weight * underuse_gap)
                                else reward)
                  in (reward, load_penalty)))
         else (reward, 0))"

section \<open>The reward of a batch\<close>

record reward_params =
  lambda_weight :: real
  beta :: real
  load_penalty_weight :: real
  active_shard_bonus_weight :: real
  hotspot_penalty_weight :: real
  hotspot_threshold :: real
  min_active_load_share :: real
  backlog_penalty_weight :: real
  reward_mode :: string
  iot_cstr_weight :: real
  iot_balance_weight :: real
  iot_comm_cost_weight :: real
  iot_hotspot_weight :: real

text \<open>The defaults of \<open>config.py\<close>.\<close>

definition default_params :: reward_params where
  "default_params = \<lparr>
     lambda_weight = 0.5, beta = 0.1, load_penalty_weight = 0, active_shard_bonus_weight = 0,
     hotspot_penalty_weight = 0, hotspot_threshold = 0.45, min_active_load_share = 0.03,
     backlog_penalty_weight = 0, reward_mode = IOT_DENSE_BALANCED_REWARD_MODE,
     iot_cstr_weight = 0.55, iot_balance_weight = 0.30, iot_comm_cost_weight = 0.10,
     iot_hotspot_weight = 0.05\<rparr>"

definition IOT_DENSE_REWARD_MODES :: "string list" where
  "IOT_DENSE_REWARD_MODES = [''iot_dense'', IOT_DENSE_BALANCED_REWARD_MODE]"

definition IOT_GLOBAL_REWARD_MODES :: "string list" where
  "IOT_GLOBAL_REWARD_MODES = [''iot'', ''iot_dense'', IOT_DENSE_BALANCED_REWARD_MODE]"

record reward_parts =
  rp_effective_tx :: real
  rp_cross_tx :: real
  rp_cross_rate :: real
  rp_raw_load_variance :: real
  rp_normalized_load_variance :: real
  rp_r_cstr :: real
  rp_r_wlb :: real
  rp_abs_load_diff :: real
  rp_active_shards :: nat
  rp_active_shard_ratio :: real
  rp_max_load_share :: real
  rp_hotspot_penalty :: real
  rp_load_aware_bonus :: real
  rp_backlog_penalty :: real
  rp_communication_cost :: real
  rp_reward_load_total :: real
  rp_reward_mode :: string

text \<open>The load vector the balance terms are computed from, after the two fallbacks.\<close>

definition load_basis_of :: "real list \<Rightarrow> real list option \<Rightarrow> real list" where
  "load_basis_of effective_loads balance_loads =
     (let shard_count = max 1 (length effective_loads);
          basis = (case balance_loads of None \<Rightarrow> effective_loads | Some b \<Rightarrow> b);
          basis = (if length basis \<noteq> shard_count then effective_loads else basis)
      in if sum_list basis \<le> EPS then effective_loads else basis)"

definition balance_stats :: "real list \<Rightarrow> nat \<Rightarrow> real \<times> real \<times> real" where
  "balance_stats load_basis shard_count =
     (let avg_load = sum_list load_basis / real shard_count;
          raw_abs_diff = sum_list (map (\<lambda>l. \<bar>l - avg_load\<bar>) load_basis);
          raw_var = sum_list (map (\<lambda>l. (l - avg_load) * (l - avg_load)) load_basis)
                      / real shard_count;
          norm_var = raw_var / (avg_load * avg_load + EPS);
          norm_var = norm_var / (1 + norm_var);
          normalized_abs_diff = (if avg_load > EPS then raw_abs_diff / (avg_load + EPS) else 0)
      in (raw_var, norm_var, normalized_abs_diff))"

definition reward_of_mode ::
  "reward_params \<Rightarrow> real \<Rightarrow> real \<Rightarrow> real \<Rightarrow> real \<Rightarrow> real \<Rightarrow> real \<Rightarrow> real \<Rightarrow> real result" where
  "reward_of_mode p r_cstr r_wlb norm_var hotspot_penalty load_aware_bonus backlog_penalty
       communication_cost =
     (let base_reward = lambda_weight p * r_cstr + (1 - lambda_weight p) * r_wlb;
          mode = py_lower (py_strip (reward_mode p))
      in if mode = ''paper'' then return base_reward
         else if mode = ''enhanced'' then
           return (base_reward - load_penalty_weight p * norm_var + load_aware_bonus
                   - backlog_penalty_weight p * clamp backlog_penalty 0 1)
         else if mode \<in> set IOT_GLOBAL_REWARD_MODES then
           return (iot_cstr_weight p * r_cstr + iot_balance_weight p * r_wlb
                   - iot_comm_cost_weight p * clamp communication_cost 0 1
                   - iot_hotspot_weight p * hotspot_penalty)
         else raise ValueError)"

definition spring_reward ::
  "reward_params \<Rightarrow> real list \<Rightarrow> real list \<Rightarrow> real list option \<Rightarrow> real \<Rightarrow> real \<Rightarrow>
     (real \<times> reward_parts) result" where
  "spring_reward p effective_loads cross_loads balance_loads backlog_penalty communication_cost =
     (let effective_tx = sum_list effective_loads;
          cross_tx = sum_list cross_loads;
          shard_count = max 1 (length effective_loads)
      in if effective_tx \<le> EPS then
           return (0, \<lparr>rp_effective_tx = 0, rp_cross_tx = 0, rp_cross_rate = 0,
             rp_raw_load_variance = 0, rp_normalized_load_variance = 0, rp_r_cstr = 0,
             rp_r_wlb = 0, rp_abs_load_diff = 0, rp_active_shards = 0,
             rp_active_shard_ratio = 0, rp_max_load_share = 0, rp_hotspot_penalty = 0,
             rp_load_aware_bonus = 0, rp_backlog_penalty = 0, rp_communication_cost = 0,
             rp_reward_load_total = 0, rp_reward_mode = reward_mode p\<rparr>)
         else
           (let cross_rate = clamp (cross_tx / effective_tx) 0 1;
                r_cstr = clamp (1 - cross_rate) 0 1;
                load_basis = load_basis_of effective_loads balance_loads;
                load_total = sum_list load_basis;
                (raw_var, norm_var, normalized_abs_diff) = balance_stats load_basis shard_count;
                balance_score = clamp (1 - norm_var) 0 1;
                r_wlb = clamp (exp (- beta p * normalized_abs_diff) * balance_score) 0 1;
                load_shares = map (\<lambda>l. clamp (l / (load_total + EPS)) 0 1) load_basis;
                active_threshold = clamp (min_active_load_share p) 0 1;
                active_shards = length (filter (\<lambda>s. s \<ge> active_threshold) load_shares);
                active_shard_ratio = real active_shards / real shard_count;
                max_share = (if load_shares = [] then 0 else list_max load_shares);
                hot_threshold = clamp (hotspot_threshold p) 0 (1 - EPS);
                hotspot_penalty =
                  clamp ((max_share - hot_threshold) / (1 - hot_threshold + EPS)) 0 1;
                load_aware_bonus = active_shard_bonus_weight p * active_shard_ratio
                                   - hotspot_penalty_weight p * hotspot_penalty
            in bind_result
                 (reward_of_mode p r_cstr r_wlb norm_var hotspot_penalty load_aware_bonus
                    backlog_penalty communication_cost)
                 (\<lambda>reward. return (reward,
                    \<lparr>rp_effective_tx = effective_tx, rp_cross_tx = cross_tx,
                     rp_cross_rate = cross_rate, rp_raw_load_variance = raw_var,
                     rp_normalized_load_variance = norm_var, rp_r_cstr = r_cstr,
                     rp_r_wlb = r_wlb, rp_abs_load_diff = normalized_abs_diff,
                     rp_active_shards = active_shards,
                     rp_active_shard_ratio = active_shard_ratio,
                     rp_max_load_share = max_share, rp_hotspot_penalty = hotspot_penalty,
                     rp_load_aware_bonus = load_aware_bonus,
                     rp_backlog_penalty = clamp backlog_penalty 0 1,
                     rp_communication_cost = clamp communication_cost 0 1,
                     rp_reward_load_total = load_total,
                     rp_reward_mode = py_lower (py_strip (reward_mode p))\<rparr>))))"

section \<open>Lemmas\<close>

lemma clamp_ge [simp]: "lo \<le> hi \<Longrightarrow> lo \<le> clamp v lo hi"
  by (simp add: clamp_def)

lemma clamp_le [simp]: "lo \<le> hi \<Longrightarrow> clamp v lo hi \<le> hi"
  by (simp add: clamp_def)

lemma clamp_bounds [bound_intros]: "lo \<le> hi \<Longrightarrow> lo \<le> clamp v lo hi \<and> clamp v lo hi \<le> hi"
  by simp

lemma clamp_id: "lo \<le> v \<Longrightarrow> v \<le> hi \<Longrightarrow> clamp v lo hi = v"
  by (simp add: clamp_def)

lemma normalize_state_value_bounds:
  "0 \<le> normalize_state_value v m b \<and> normalize_state_value v m b \<le> 1"
  by (simp add: normalize_state_value_def Let_def)

lemma max_load_share_bounds: "0 \<le> max_load_share loads \<and> max_load_share loads \<le> 1"
  by (simp add: max_load_share_def Let_def)

lemma norm_var_bounds:
  fixes x :: real
  assumes "0 \<le> x"
  shows "0 \<le> x / (1 + x) \<and> x / (1 + x) < 1"
  using assms by (simp add: field_simps)

lemma balance_stats_bounds:
  assumes "balance_stats basis n = (rv, nv, ad)"
  shows "0 \<le> rv" and "0 \<le> nv" and "nv < 1" and "0 \<le> ad"
proof -
  define avg where "avg = sum_list basis / real n"
  define x where "x = rv / (avg * avg + EPS)"
  have eqs: "rv = sum_list (map (\<lambda>l. (l - avg) * (l - avg)) basis) / real n"
    "nv = x / (1 + x)"
    "ad = (if avg > EPS then sum_list (map (\<lambda>l. \<bar>l - avg\<bar>) basis) / (avg + EPS) else 0)"
    using assms by (auto simp only: balance_stats_def Let_def avg_def x_def prod.inject)
  show rv: "0 \<le> rv"
    using sum_list_sq_nonneg [of "\<lambda>l. l - avg" basis]
    by (simp add: eqs(1) power2_eq_square)
  have "0 \<le> x"
    using rv by (simp add: x_def add_nonneg_pos)
  then show "0 \<le> nv" "nv < 1" using norm_var_bounds by (simp_all add: eqs(2))
  have "0 \<le> sum_list (map (\<lambda>l. \<bar>l - avg\<bar>) basis)"
    by (rule sum_list_nonneg) auto
  then show "0 \<le> ad"
    using EPS_pos by (simp add: eqs(3) del: EPS_pos)
qed

text \<open>What the code reports about a batch: every share, rate and penalty is in the unit interval.\<close>

definition parts_in_unit :: "reward_parts \<Rightarrow> bool" where
  "parts_in_unit q \<longleftrightarrow>
     (\<forall>x \<in> {rp_cross_rate q, rp_normalized_load_variance q, rp_r_cstr q, rp_r_wlb q,
            rp_active_shard_ratio q, rp_max_load_share q, rp_hotspot_penalty q,
            rp_backlog_penalty q, rp_communication_cost q}. 0 \<le> x \<and> x \<le> 1)"

lemma list_max_clamp_bounds:
  assumes "xs \<noteq> []" and "\<forall>x\<in>set xs. 0 \<le> x \<and> x \<le> (1::real)"
  shows "0 \<le> list_max xs \<and> list_max xs \<le> 1"
  using list_max_in [OF assms(1)] assms(2) by blast

lemma length_load_basis_le: "length (load_basis_of eff bal) \<le> max 1 (length eff)"
  by (simp add: load_basis_of_def Let_def split: option.splits)

lemma filter_ratio_bounds:
  assumes "length xs \<le> n" and "0 < n"
  shows "0 \<le> real (length (filter P xs)) / real n \<and> real (length (filter P xs)) / real n \<le> 1"
  using assms order_trans [OF length_filter_le [of P xs] assms(1)] by (simp add: field_simps)

lemma spring_reward_parts:
  assumes "spring_reward p eff cross bal bp cc = Inr (r, q)"
  shows "parts_in_unit q"
proof (cases "sum_list eff \<le> EPS")
  case True
  then show ?thesis using assms by (auto simp: spring_reward_def Let_def parts_in_unit_def)
next
  case False
  let ?n = "max 1 (length eff)" and ?basis = "load_basis_of eff bal"
  obtain rv nv ad where bs: "balance_stats ?basis ?n = (rv, nv, ad)"
    by (cases "balance_stats ?basis ?n") auto
  let ?shares = "map (\<lambda>l. clamp (l / (sum_list ?basis + EPS)) 0 1) ?basis"
  have shares: "\<forall>x\<in>set ?shares. 0 \<le> x \<and> x \<le> 1" by auto
  have nv: "0 \<le> nv" "nv \<le> 1" using balance_stats_bounds [OF bs] by auto
  have ratio: "0 \<le> real (length (filter P ?shares)) / real ?n \<and>
               real (length (filter P ?shares)) / real ?n \<le> 1" for P
    using length_load_basis_le [of eff bal] by (intro filter_ratio_bounds) simp_all
  have "?shares \<noteq> [] \<Longrightarrow> 0 \<le> list_max ?shares \<and> list_max ?shares \<le> 1"
    using shares by (rule list_max_clamp_bounds [rotated])
  then show ?thesis
    using assms False bs nv ratio
    by (auto simp: spring_reward_def Let_def parts_in_unit_def result_simps split: if_splits)
qed

lemma spring_reward_value:
  assumes "spring_reward p eff cross bal bp cc = Inr (r, q)" and "\<not> sum_list eff \<le> EPS"
  shows "reward_of_mode p (rp_r_cstr q) (rp_r_wlb q) (rp_normalized_load_variance q)
           (rp_hotspot_penalty q) (rp_load_aware_bonus q) bp cc = Inr r"
  using assms
  by (cases "balance_stats (load_basis_of eff bal) (max 1 (length eff))")
     (auto simp: spring_reward_def Let_def result_simps split: if_splits)

lemma convex_unit:
  fixes a b l :: real
  assumes "0 \<le> l" "l \<le> 1" "0 \<le> a" "a \<le> 1" "0 \<le> b" "b \<le> 1"
  shows "0 \<le> l * a + (1 - l) * b \<and> l * a + (1 - l) * b \<le> 1"
proof
  show "0 \<le> l * a + (1 - l) * b" using assms by simp
  have "l * a \<le> l * 1" "(1 - l) * b \<le> (1 - l) * 1"
    using assms by (auto intro: mult_left_le)
  then show "l * a + (1 - l) * b \<le> 1" by simp
qed

end
