(* ===== verification/TxModel.thy ===== *)
theory TxModel
  imports Reward
begin

text \<open>
  Transactions as the environment sees them (\<open>Tx\<close> of \<open>offline_env.py\<close>), their related
  anchors, and the per-account scene aggregation of \<open>iot_v2.py\<close>. The record is
  parametric in the type of its float fields: loaders that read text produce transactions
  over \<open>pyfloat\<close>, the environment runs on transactions over \<open>real\<close>.
\<close>

record 'f tx =
  tx_sender :: string
  tx_recipient :: string
  tx_related :: "string list"
  tx_related_weights :: "'f list"
  tx_iot_features :: "'f list"
  tx_cost_weight :: 'f
  tx_real_accounts :: bool
  tx_value :: int
  tx_recipient_iot_features :: "'f list"
  tx_recipient_cost_weight :: 'f

definition tx_related_addresses :: "'f tx \<Rightarrow> string list" where
  "tx_related_addresses tx =
     (if tx_related tx \<noteq> [] then tx_related tx
      else if tx_recipient tx \<noteq> [] then [tx_recipient tx]
      else [])"

text \<open>Weights rescaled to sum 1; uniform when their sum is negligible.\<close>

definition normalize_weights :: "real list \<Rightarrow> real list" where
  "normalize_weights weights =
     (let total = sum_list weights in
      if total \<le> EPS then map (\<lambda>_. 1 / real (length weights)) weights
      else map (\<lambda>w. w / total) weights)"

definition tx_related_weight_pairs :: "real tx \<Rightarrow> (string \<times> real) list" where
  "tx_related_weight_pairs tx =
     (let anchors = tx_related_addresses tx in
      if anchors = [] then []
      else
        (let weights = tx_related_weights tx;
             weights = (if length weights \<noteq> length anchors
                        then map (\<lambda>_. 1) anchors else weights);
             weights = map (max 0) weights
         in zip anchors (normalize_weights weights)))"

section \<open>Batches of transactions\<close>

fun cut_batches :: "nat \<Rightarrow> nat \<Rightarrow> 'a list \<Rightarrow> 'a list list" where
  "cut_batches 0 bs txs = []"
| "cut_batches (Suc fuel) bs txs =
     (if txs = [] then [] else take bs txs # cut_batches fuel bs (drop bs txs))"

text \<open>\<open>range(0, len(txs), batch_size)\<close> has at most \<open>len(txs)\<close> elements: the fuel is enough.\<close>

definition iter_batches :: "'a list \<Rightarrow> int \<Rightarrow> 'a list list result" where
  "iter_batches txs batch_size =
     (if batch_size \<le> 0 then raise ValueError
      else return (cut_batches (length txs) (nat batch_size) txs))"

section \<open>Per-account scenes of a batch\<close>

text \<open>The keys of a dictionary filled in the order of a list.\<close>

definition first_occurrences :: "'a list \<Rightarrow> 'a list" where
  "first_occurrences xs = rev (remdups (rev xs))"

text \<open>The contributions of one transaction: address, peer, features, cost, in both directions.\<close>

definition scene_records :: "real tx \<Rightarrow> (string \<times> string \<times> real list \<times> real) list" where
  "scene_records tx =
     [(tx_sender tx, tx_recipient tx, tx_iot_features tx, tx_cost_weight tx),
      (tx_recipient tx, tx_sender tx, tx_recipient_iot_features tx, tx_recipient_cost_weight tx)]"

definition account_scene ::
  "(string \<times> string \<times> real list \<times> real) list \<Rightarrow> string \<Rightarrow> (real list \<times> real) result" where
  "account_scene records address =
     (let mine = filter (\<lambda>(a, _). a = address) records;
          feats = map (\<lambda>(_, _, f, _). f) mine;
          costs = map (\<lambda>(_, _, _, c). c) mine;
          peers = set (map (\<lambda>(_, p, _, _). p) mine);
          n = real (length mine)
      in if list_ex (\<lambda>f. length f < 10) feats then raise IndexError
         else
           (let features = map (\<lambda>i. sum_list (map (\<lambda>f. f ! i) feats) / n) [0..<10];
                features = features[0 := min 1 (real (card peers) / 4)];
                features = features[2 := list_min (map (\<lambda>f. f ! 2) feats)]
            in return (features, sum_list costs / n)))"

definition batch_account_scenes :: "real tx list \<Rightarrow> (string \<times> real list \<times> real) list result" where
  "batch_account_scenes txs =
     (let records = concat (map scene_records txs);
          addresses = first_occurrences (map fst records)
      in traverse (\<lambda>a. bind_result (account_scene records a) (\<lambda>s. return (a, s))) addresses)"

section \<open>Lemmas\<close>

lemma set_first_occurrences [simp]: "set (first_occurrences xs) = set xs"
  by (simp add: first_occurrences_def)

lemma distinct_first_occurrences [simp]: "distinct (first_occurrences xs)"
  by (simp add: first_occurrences_def)

lemma normalize_weights_length [simp]: "length (normalize_weights ws) = length ws"
  by (simp add: normalize_weights_def Let_def)

lemma normalize_weights_sum:
  assumes "ws \<noteq> []"
  shows "sum_list (normalize_weights ws) = 1"
proof (cases "sum_list ws \<le> EPS")
  case True
  have "sum_list (map (\<lambda>_. 1 / real (length ws)) ws) = real (length ws) * (1 / real (length ws))"
    by (simp add: sum_list_triv)
  then show ?thesis using True assms by (simp add: normalize_weights_def)
next
  case False
  then have "sum_list ws \<noteq> 0" using EPS_pos by linarith
  then show ?thesis
    using False sum_list_map_divide [of "\<lambda>w. w" "sum_list ws" ws]
    by (simp add: normalize_weights_def)
qed

lemma normalize_weights_nonneg:
  assumes "\<forall>w\<in>set ws. 0 \<le> w"
  shows "\<forall>w\<in>set (normalize_weights ws). 0 \<le> w"
  using assms sum_list_nonneg_real [OF assms]
  by (auto simp: normalize_weights_def Let_def)

lemma tx_related_weight_pairs_sum:
  assumes "tx_related_addresses tx \<noteq> []"
  shows "sum_list (map snd (tx_related_weight_pairs tx)) = 1"
    and "map fst (tx_related_weight_pairs tx) = tx_related_addresses tx"
    and "\<forall>(a, w) \<in> set (tx_related_weight_pairs tx). 0 \<le> w"
proof -
  let ?ws = "map (max 0) (if length (tx_related_weights tx) \<noteq> length (tx_related_addresses tx)
                          then map (\<lambda>_. 1) (tx_related_addresses tx) else tx_related_weights tx)"
  have eq: "tx_related_weight_pairs tx = zip (tx_related_addresses tx) (normalize_weights ?ws)"
    using assms by (simp add: tx_related_weight_pairs_def Let_def)
  have len: "length ?ws = length (tx_related_addresses tx)" by auto
  then have "?ws \<noteq> []" using assms by force
  then show "sum_list (map snd (tx_related_weight_pairs tx)) = 1"
    using len by (simp add: eq normalize_weights_sum del: map_map)
  show "map fst (tx_related_weight_pairs tx) = tx_related_addresses tx"
    using len by (simp add: eq)
  have "\<forall>w\<in>set (normalize_weights ?ws). 0 \<le> w"
    by (rule normalize_weights_nonneg) auto
  then show "\<forall>(a, w) \<in> set (tx_related_weight_pairs tx). 0 \<le> w"
    by (auto simp: eq dest: set_zip_rightD)
qed

lemma concat_cut_batches: "0 < bs \<Longrightarrow> length txs \<le> fuel \<Longrightarrow> concat (cut_batches fuel bs txs) = txs"
proof (induction fuel arbitrary: txs)
  case 0
  then show ?case by simp
next
  case (Suc fuel)
  show ?case
  proof (cases "txs = []")
    case False
    then have "length (drop bs txs) \<le> fuel" using Suc.prems by (cases txs) auto
    then show ?thesis using Suc False by simp
  qed simp
qed

lemma cut_batches_sizes:
  assumes "0 < bs" and "b \<in> set (cut_batches fuel bs txs)"
  shows "b \<noteq> [] \<and> length b \<le> bs"
  using assms
proof (induction fuel arbitrary: txs)
  case (Suc fuel)
  then show ?case by (auto split: if_splits)
qed simp

lemma cut_batches_full:
  assumes "0 < bs" and "Suc i < length (cut_batches fuel bs txs)"
  shows "length (cut_batches fuel bs txs ! i) = bs"
  using assms
proof (induction fuel arbitrary: txs i)
  case (Suc fuel)
  then have ne: "txs \<noteq> []" by (auto split: if_splits)
  show ?case
  proof (cases i)
    case 0
    have "cut_batches fuel bs (drop bs txs) \<noteq> []" using Suc.prems ne 0 by auto
    then have "drop bs txs \<noteq> []" by (cases fuel) auto
    then show ?thesis using ne 0 by simp
  next
    case (Suc j)
    then show ?thesis using Suc.IH [of j "drop bs txs"] Suc.prems ne by simp
  qed
qed simp

end
