(* ===== verification/Sha256.thy ===== *)
theory Sha256
  imports Prelude "HOL-Library.Word"
begin

unbundle bit_operations_syntax

text \<open>
  The digest the sources take from Python's standard \<open>hashlib\<close>: SHA-256 of a byte
  string (FIPS 180-4), on 32-bit words with wrap-around addition. The clients only use
  that it is a fixed function of the bytes and that its value is a natural number, but
  the definition is the standard's, so that a shard computed from a non-hexadecimal
  address is the shard the program computes.
\<close>

definition sha_k :: "32 word list" where
  "sha_k = [
    1116352408, 1899447441, 3049323471, 3921009573, 961987163, 1508970993, 2453635748, 2870763221,
    3624381080, 310598401, 607225278, 1426881987, 1925078388, 2162078206, 2614888103, 3248222580,
    3835390401, 4022224774, 264347078, 604807628, 770255983, 1249150122, 1555081692, 1996064986,
    2554220882, 2821834349, 2952996808, 3210313671, 3336571891, 3584528711, 113926993, 338241895,
    666307205, 773529912, 1294757372, 1396182291, 1695183700, 1986661051, 2177026350, 2456956037,
    2730485921, 2820302411, 3259730800, 3345764771, 3516065817, 3600352804, 4094571909, 275423344,
    430227734, 506948616, 659060556, 883997877, 958139571, 1322822218, 1537002063, 1747873779,
    1955562222, 2024104815, 2227730452, 2361852424, 2428436474, 2756734187, 3204031479, 3329325298]"

definition sha_init :: "32 word list" where
  "sha_init = [1779033703, 3144134277, 1013904242, 2773480762,
               1359893119, 2600822924, 528734635, 1541459225]"

definition rotr :: "nat \<Rightarrow> 32 word \<Rightarrow> 32 word" where
  "rotr n x = drop_bit n x OR push_bit (32 - n) x"

definition sha_next_word :: "32 word list \<Rightarrow> 32 word" where
  "sha_next_word w =
     (let t = length w;
          a = w ! (t - 15);
          b = w ! (t - 2);
          s0 = rotr 7 a XOR rotr 18 a XOR drop_bit 3 a;
          s1 = rotr 17 b XOR rotr 19 b XOR drop_bit 10 b
      in w ! (t - 16) + s0 + w ! (t - 7) + s1)"

definition sha_schedule :: "32 word list \<Rightarrow> 32 word list" where
  "sha_schedule blk = ((\<lambda>w. w @ [sha_next_word w]) ^^ 48) blk"

fun sha_round :: "32 word \<times> 32 word \<Rightarrow> 32 word list \<Rightarrow> 32 word list" where
  "sha_round (k, w) [a, b, c, d, e, f, g, h] =
     (let s1 = rotr 6 e XOR rotr 11 e XOR rotr 25 e;
          ch = (e AND f) XOR (NOT e AND g);
          t1 = h + s1 + ch + k + w;
          s0 = rotr 2 a XOR rotr 13 a XOR rotr 22 a;
          maj = (a AND b) XOR (a AND c) XOR (b AND c)
      in [t1 + s0 + maj, a, b, c, d + t1, e, f, g])"
| "sha_round _ st = st"

definition sha_compress :: "32 word list \<Rightarrow> 32 word list \<Rightarrow> 32 word list" where
  "sha_compress blk st =
     map2 (+) st (fold sha_round (zip sha_k (sha_schedule blk)) st)"

fun be_word :: "8 word list \<Rightarrow> 32 word" where
  "be_word [a, b, c, d] =
     push_bit 24 (ucast a) OR push_bit 16 (ucast b) OR push_bit 8 (ucast c) OR ucast d"
| "be_word _ = 0"

text \<open>Cutting a list into pieces of \<open>n\<close>; the fuel is the length of the list.\<close>

fun chunk :: "nat \<Rightarrow> nat \<Rightarrow> 'a list \<Rightarrow> 'a list list" where
  "chunk 0 n xs = []"
| "chunk (Suc fuel) n xs = (if xs = [] then [] else take n xs # chunk fuel n (drop n xs))"

definition sha_pad :: "8 word list \<Rightarrow> 8 word list" where
  "sha_pad msg =
     (let n = length msg; zeros = (119 - n mod 64) mod 64; bits = 8 * n
      in msg @ [0x80] @ replicate zeros 0 @
         map (\<lambda>i. of_nat (bits div 256 ^ (7 - i) mod 256)) [0..<8])"

definition sha_blocks :: "8 word list \<Rightarrow> 32 word list list" where
  "sha_blocks msg =
     (let padded = sha_pad msg
      in map (\<lambda>b. map be_word (chunk 16 4 b)) (chunk (length padded) 64 padded))"

definition word_bytes :: "32 word \<Rightarrow> nat list" where
  "word_bytes w =
     [unat (drop_bit 24 w), unat (drop_bit 16 w AND 0xff),
      unat (drop_bit 8 w AND 0xff), unat (w AND 0xff)]"

text \<open>The digest as its list of bytes, and a byte list read in big-endian order.\<close>

definition sha256_bytes :: "string \<Rightarrow> nat list" where
  "sha256_bytes s =
     concat (map word_bytes
       (fold sha_compress (sha_blocks (map (\<lambda>c. of_nat (of_char c)) s)) sha_init))"

definition hex_char :: "nat \<Rightarrow> char" where
  "hex_char n = (if n < 10 then char_of (48 + n) else char_of (87 + n))"

text \<open>\<open>hexdigest()\<close>.\<close>

definition hexdigest :: "string \<Rightarrow> string" where
  "hexdigest s = concat (map (\<lambda>b. [hex_char (b div 16), hex_char (b mod 16)]) (sha256_bytes s))"

definition from_bytes_big :: "nat list \<Rightarrow> nat" where
  "from_bytes_big bs = fold (\<lambda>b acc. acc * 256 + b) bs 0"

end
