(* ===== verification/ActionMask.thy ===== *)
theory ActionMask
  imports Prelude Sha256
begin

text \<open>
  Candidate masks and action selection: \<open>action_mask.py\<close> (normalising a 0/1 mask,
  testing an action against it, taking the best allowed action) and \<open>action_select.py\<close>
  (the deterministic argmax with a stable tie break). A msk is a list of numbers, as it
  arrives from the environment or from a request, and \<open>None\<close> when it is absent.

  The locale \<open>mask_choice\<close> is the contract that the environment and the inference
  fallback rely on: whatever the scores and the msk, the chosen shard is a shard of the
  msk and no allowed shard scores higher.
\<close>

section \<open>Masks\<close>

definition normalize_action_mask :: "'a::linordered_idom list option \<Rightarrow> int \<Rightarrow> int list" where
  "normalize_action_mask msk shards =
     (let shard_count = nat (max 0 shards) in
      if shard_count = 0 then []
      else
        (let vals = (case msk of None \<Rightarrow> [] | Some m \<Rightarrow> m);
             normalized = map (\<lambda>sid. if (if sid < length vals then vals ! sid else 1) > 0
                                     then 1 else 0) [0..<shard_count]
         in if \<not> list_ex (\<lambda>x. x \<noteq> 0) normalized then replicate shard_count 1
            else normalized))"

definition action_allowed :: "'a::linordered_idom list option \<Rightarrow> int \<Rightarrow> int \<Rightarrow> bool" where
  "action_allowed msk action shards =
     (let normalized = normalize_action_mask msk shards
      in 0 \<le> action \<and> action < int (length normalized) \<and> normalized ! nat action > 0)"

text \<open>One iteration of the loop of \<open>best_allowed_action\<close>; \<open>None\<close> is the score minus infinity.\<close>

definition best_step ::
  "real list \<Rightarrow> int list \<Rightarrow> nat \<Rightarrow> nat \<times> real option \<Rightarrow> nat \<times> real option" where
  "best_step scores normalized sid best =
     (if sid \<ge> length normalized \<or> normalized ! sid \<le> 0 then best
      else
        (let score = (if sid < length scores then scores ! sid else 0)
         in if (case snd best of None \<Rightarrow> True | Some b \<Rightarrow> score > b) then (sid, Some score)
            else best))"

definition best_allowed_action ::
  "real list \<Rightarrow> 'a::linordered_idom list option \<Rightarrow> int \<Rightarrow> nat" where
  "best_allowed_action scores msk shards =
     fst (fold (best_step scores (normalize_action_mask msk shards))
            [0..<nat (max 0 shards)] (0, None))"

section \<open>Deterministic argmax\<close>

definition stable_hash_index :: "string \<Rightarrow> int \<Rightarrow> int" where
  "stable_hash_index key md =
     (if md \<le> 0 then 0
      else int (from_bytes_big (take 8 (sha256_bytes key))) mod md)"

text \<open>\<open>max(range(n), key=...)\<close>: the first index of a maximal value.\<close>

definition argmax_step :: "'a::linorder list \<Rightarrow> nat \<Rightarrow> nat \<Rightarrow> nat" where
  "argmax_step xs i best = (if xs ! i > xs ! best then i else best)"

definition argmax :: "'a::linorder list \<Rightarrow> nat" where
  "argmax xs = fold (argmax_step xs) [1..<length xs] 0"

definition tie_aware_argmax :: "real list \<Rightarrow> string \<Rightarrow> real \<Rightarrow> bool \<Rightarrow> nat" where
  "tie_aware_argmax probabilities key tie_eps enable_tie_break =
     (if probabilities = [] then 0
      else
        (let best = argmax probabilities in
         if \<not> enable_tie_break \<or> tie_eps \<le> 0 then best
         else
           (let best_prob = probabilities ! best;
                candidates = filter (\<lambda>idx. best_prob - probabilities ! idx \<le> tie_eps)
                               [0..<length probabilities]
            in if length candidates \<le> 1 then best
               else candidates ! nat (stable_hash_index key (int (length candidates))))))"

definition distribution_floor_shortfall :: "real list \<Rightarrow> real \<Rightarrow> real" where
  "distribution_floor_shortfall vals floor_v = sum_list (map (\<lambda>v. max 0 (floor_v - v)) vals)"

section \<open>Properties of masks\<close>

lemma length_normalize [simp]: "length (normalize_action_mask msk n) = nat n"
  by (auto simp: normalize_action_mask_def Let_def)

lemma set_normalize: "set (normalize_action_mask msk n) \<subseteq> {0, 1}"
  by (auto simp: normalize_action_mask_def Let_def set_replicate_conv_if)

lemma normalize_nth_01: "i < nat n \<Longrightarrow> normalize_action_mask msk n ! i \<in> {0, 1}"
  by (rule subsetD [OF set_normalize nth_mem]) simp

lemma normalize_has_one:
  assumes "0 < n"
  shows "\<exists>i < nat n. normalize_action_mask msk n ! i = 1"
proof (rule ccontr)
  let ?m = "normalize_action_mask msk n"
  assume "\<not> ?thesis"
  then have zero: "\<forall>x\<in>set ?m. x = 0"
    using normalize_nth_01 [of _ n msk] by (fastforce simp: in_set_conv_nth)
  have "?m = replicate (nat n) 1 \<or> list_ex (\<lambda>x. x \<noteq> 0) ?m"
    using assms by (auto simp: normalize_action_mask_def Let_def)
  then show False
    using zero assms by (auto simp: list_ex_iff)
qed

lemma action_allowed_iff:
  "action_allowed msk a n \<longleftrightarrow>
     0 \<le> a \<and> a < n \<and> normalize_action_mask msk n ! nat a = 1"
  using normalize_nth_01 [of "nat a" n msk] by (auto simp: action_allowed_def Let_def)

text \<open>A mask that already is a 0/1 vector of the right length with a 1 is left as it is.\<close>

lemma normalize_id:
  assumes "length m = nat n" and "set m \<subseteq> {0, 1 :: int}" and "1 \<in> set m"
  shows "normalize_action_mask (Some m) n = m"
proof -
  have "0 < length m" using assms(3) by (cases m) auto
  moreover have "m ! i \<in> {0, 1}" if "i < length m" for i
    using assms(2) that by (rule subsetD [OF _ nth_mem])
  then have "map (\<lambda>sid. if (if sid < length m then m ! sid else 1) > 0 then 1 else 0)
        [0..<nat n] = m"
    using assms(1) by (intro nth_equalityI) fastforce+
  moreover have "list_ex (\<lambda>x. x \<noteq> 0) m"
    using assms(3) by (auto simp: list_ex_iff intro: bexI [of _ 1])
  ultimately show ?thesis
    using assms(1) by (simp add: normalize_action_mask_def Let_def max_def)
qed

section \<open>The loop of the best allowed action\<close>

definition score_at :: "real list \<Rightarrow> nat \<Rightarrow> real" where
  "score_at scores sid = (if sid < length scores then scores ! sid else 0)"

text \<open>What the loop knows after the first \<open>k\<close> shards.\<close>

definition best_inv :: "real list \<Rightarrow> int list \<Rightarrow> nat \<Rightarrow> nat \<times> real option \<Rightarrow> bool" where
  "best_inv scores m k st \<longleftrightarrow>
     (case snd st of
        None \<Rightarrow> fst st = 0 \<and> (\<forall>j<k. j < length m \<longrightarrow> m ! j \<le> 0)
      | Some b \<Rightarrow> fst st < k \<and> fst st < length m \<and> m ! fst st > 0 \<and> b = score_at scores (fst st) \<and>
          (\<forall>j<k. j < length m \<longrightarrow> m ! j > 0 \<longrightarrow>
             score_at scores j \<le> b \<and> (j < fst st \<longrightarrow> score_at scores j < b)))"

lemma best_step_inv:
  assumes "best_inv scores m k st"
  shows "best_inv scores m (Suc k) (best_step scores m k st)"
proof (cases "k < length m \<and> m ! k > 0")
  case False
  then have "best_step scores m k st = st" by (auto simp: best_step_def)
  then show ?thesis
    using assms False by (auto simp: best_inv_def less_Suc_eq split: option.splits)
next
  case True
  then show ?thesis
    using assms
    by (cases st; cases "snd st")
       (auto simp: best_inv_def best_step_def score_at_def [symmetric] less_Suc_eq Let_def
             split: option.splits dest: order.strict_trans1 order.strict_trans2)
qed

lemma best_fold_inv: "best_inv scores m k (fold (best_step scores m) [0..<k] (0, None))"
proof (induction k)
  case 0
  then show ?case by (simp add: best_inv_def)
next
  case (Suc k)
  then show ?case by (simp add: best_step_inv)
qed

text \<open>The result is allowed, no allowed shard scores higher, and earlier ones score less.\<close>

lemma best_allowed_action_spec:
  fixes msk :: "'a::linordered_idom list option" and scores :: "real list"
  assumes "0 < n"
  defines "b \<equiv> best_allowed_action scores msk n"
  shows "action_allowed msk (int b) n"
    and "\<And>j. action_allowed msk (int j) n \<Longrightarrow> score_at scores j \<le> score_at scores b"
    and "\<And>j. action_allowed msk (int j) n \<Longrightarrow> j < b \<Longrightarrow> score_at scores j < score_at scores b"
proof -
  let ?m = "normalize_action_mask msk n"
  let ?st = "fold (best_step scores ?m) [0..<nat n] (0, None)"
  have inv: "best_inv scores ?m (nat n) ?st" by (rule best_fold_inv)
  have b: "b = fst ?st" using assms by (simp add: best_allowed_action_def max_def)
  obtain i where i: "i < nat n" "?m ! i = 1" using normalize_has_one [OF assms(1)] by blast
  have "snd ?st \<noteq> None"
    using inv i by (auto simp: best_inv_def split: option.splits)
  then have *: "b < nat n" "?m ! b > 0"
    "\<forall>j<nat n. ?m ! j > 0 \<longrightarrow>
       score_at scores j \<le> score_at scores b \<and> (j < b \<longrightarrow> score_at scores j < score_at scores b)"
    using inv b by (auto simp: best_inv_def split: option.splits)
  show "action_allowed msk (int b) n" using * by (simp add: action_allowed_def Let_def)
  show "\<And>j. action_allowed msk (int j) n \<Longrightarrow> score_at scores j \<le> score_at scores b"
    "\<And>j. action_allowed msk (int j) n \<Longrightarrow> j < b \<Longrightarrow> score_at scores j < score_at scores b"
    using * by (auto simp: action_allowed_def Let_def)
qed

section \<open>The contract of a choice under a msk\<close>

locale mask_choice =
  fixes allowed :: "int list option \<Rightarrow> int \<Rightarrow> int \<Rightarrow> bool"
    and pick :: "real list \<Rightarrow> int list option \<Rightarrow> int \<Rightarrow> nat"
  assumes allowed_range: "allowed m a n \<Longrightarrow> 0 \<le> a \<and> a < n"
    and pick_allowed: "0 < n \<Longrightarrow> allowed m (int (pick sc m n)) n"
    and pick_best:
      "0 < n \<Longrightarrow> allowed m (int j) n \<Longrightarrow> score_at sc j \<le> score_at sc (pick sc m n)"
begin

text \<open>Keeping an allowed proposal and replacing any other one is always allowed.\<close>

lemma guarded_allowed:
  assumes "0 < n"
  shows "allowed m (if a < 0 \<or> a \<ge> n \<or> \<not> allowed m a n then int (pick sc m n) else a) n"
  using assms pick_allowed by auto

lemma guarded_range:
  assumes "0 < n"
  shows "0 \<le> (if a < 0 \<or> a \<ge> n \<or> \<not> allowed m a n then int (pick sc m n) else a)"
    and "(if a < 0 \<or> a \<ge> n \<or> \<not> allowed m a n then int (pick sc m n) else a) < n"
  using allowed_range [OF guarded_allowed [OF assms]] by blast+

lemma pick_in_range: "0 < n \<Longrightarrow> pick sc m n < nat n"
  using allowed_range [OF pick_allowed [of n m sc]] by linarith

end

interpretation am: mask_choice action_allowed best_allowed_action
proof unfold_locales
  show "action_allowed m a n \<Longrightarrow> 0 \<le> a \<and> a < n" for m :: "int list option" and a n
    by (simp add: action_allowed_iff)
qed (rule best_allowed_action_spec; assumption)+

section \<open>Properties of the argmax\<close>

lemma argmax_fold:
  assumes "k \<le> length xs" and "0 < k"
  defines "b \<equiv> fold (argmax_step xs) [1..<k] 0"
  shows "b < k \<and> (\<forall>j<k. xs ! j \<le> xs ! b) \<and> (\<forall>j<b. xs ! j < xs ! b)"
  using assms unfolding b_def
proof (induction k)
  case 0
  then show ?case by simp
next
  case (Suc k)
  show ?case
  proof (cases "k = 0")
    case True
    then show ?thesis by simp
  next
    case False
    with Suc show ?thesis
      by (auto simp: argmax_step_def less_Suc_eq dest: order.strict_trans1)
  qed
qed

lemma argmax_spec:
  assumes "xs \<noteq> []"
  shows "argmax xs < length xs" and "\<And>j. j < length xs \<Longrightarrow> xs ! j \<le> xs ! argmax xs"
    and "\<And>j. j < argmax xs \<Longrightarrow> xs ! j < xs ! argmax xs"
  using argmax_fold [of "length xs" xs] assms by (auto simp: argmax_def)

lemma stable_hash_index_range: "0 < n \<Longrightarrow> 0 \<le> stable_hash_index k n \<and> stable_hash_index k n < n"
  by (simp add: stable_hash_index_def)

lemma tie_aware_argmax_near_max:
  assumes "ps \<noteq> []"
  shows "tie_aware_argmax ps key eps enable < length ps \<and>
         (\<forall>j<length ps. ps ! j - max 0 eps \<le> ps ! tie_aware_argmax ps key eps enable)"
proof -
  let ?b = "argmax ps"
  let ?c = "filter (\<lambda>i. ps ! ?b - ps ! i \<le> eps) [0..<length ps]"
  note am = argmax_spec [OF assms]
  show ?thesis
  proof (cases "enable \<and> 0 < eps \<and> 1 < length ?c")
    case True
    let ?i = "?c ! nat (stable_hash_index key (int (length ?c)))"
    have "nat (stable_hash_index key (int (length ?c))) < length ?c"
      using stable_hash_index_range [of "int (length ?c)" key] True by linarith
    then have "?i \<in> set ?c" by (rule nth_mem)
    then have "?i < length ps" "ps ! ?b - ps ! ?i \<le> eps" by auto
    moreover have "tie_aware_argmax ps key eps enable = ?i"
      using assms True by (simp add: tie_aware_argmax_def Let_def)
    ultimately show ?thesis using am(2) True by fastforce
  next
    case False
    then have "tie_aware_argmax ps key eps enable = ?b"
      using assms by (auto simp: tie_aware_argmax_def Let_def)
    moreover have "ps ! j - max 0 eps \<le> ps ! ?b" if "j < length ps" for j
      using am(2) [OF that] by linarith
    ultimately show ?thesis using am(1) by simp
  qed
qed

lemma shortfall_zero_iff:
  "distribution_floor_shortfall vals fl = 0 \<longleftrightarrow> (\<forall>v\<in>set vals. fl \<le> v)"
proof -
  have "0 \<le> distribution_floor_shortfall vals fl" for vals
    by (auto simp: distribution_floor_shortfall_def intro!: sum_list_nonneg)
  then show ?thesis
    by (induction vals)
       (auto simp: distribution_floor_shortfall_def add_nonneg_eq_0_iff max_def)
qed

end
