(* ===== verification/Heuristic.thy ===== *)
theory Heuristic
  imports ActionMask PyValues
begin

text \<open>
  The address hash and the heuristic policy of \<open>heuristic.py\<close>: \<open>addr2shard\<close> maps an
  address to a shard by its last eight hexadecimal digits, or by SHA-256 when they are not
  hexadecimal; \<open>heuristic_from_state\<close> is the fallback that reads the placement score off
  a state vector. A shard count is positive wherever an address is hashed (the
  environment's constructor rejects any other), so the modulus is never by zero.
\<close>

definition strip_0x :: "string \<Rightarrow> string" where
  "strip_0x addr = (if starts_with ''0x'' addr \<or> starts_with ''0X'' addr then drop 2 addr else addr)"

definition addr_hash :: "string \<Rightarrow> int" where
  "addr_hash addr =
     (let addr = strip_0x (py_strip addr);
          addr = (if length addr > 8 then last_chars 8 addr else addr)
      in case py_int 16 addr of
           Some v \<Rightarrow> v
         | None \<Rightarrow> int (from_bytes_big (sha256_bytes addr)))"

definition addr2shard :: "string \<Rightarrow> nat \<Rightarrow> nat" where
  "addr2shard addr shards = nat (addr_hash addr mod int shards)"

text \<open>The loads of the five most recent windows, summed per shard.\<close>

definition window_loads :: "real list \<Rightarrow> nat \<Rightarrow> real list" where
  "window_loads recent_num shards =
     map (\<lambda>sid. sum_list (map (\<lambda>w. recent_num ! (w * shards + sid)) [0..<5])) [0..<shards]"

definition heuristic_scores_from_state :: "real list \<Rightarrow> nat \<Rightarrow> real list" where
  "heuristic_scores_from_state state shards =
     (if length state < 11 * shards + 1 then replicate shards 0
      else
        (let recent_num = take (5 * shards) state;
             sender_pos = take shards (drop (10 * shards) state);
             loads = window_loads recent_num shards
         in map (\<lambda>sid. - (loads ! sid) +
                       (if sid < length sender_pos then 1000 * sender_pos ! sid else 0))
              [0..<shards]))"

definition heuristic_from_state ::
  "real list \<Rightarrow> nat \<Rightarrow> 'a::linordered_idom list option \<Rightarrow> nat" where
  "heuristic_from_state state shards action_mask =
     (let scores = heuristic_scores_from_state state shards;
          msk = normalize_action_mask action_mask (int shards)
      in best_allowed_action scores (Some msk) (int shards))"

section \<open>Properties\<close>

lemma addr2shard_less [simp]: "0 < shards \<Longrightarrow> addr2shard addr shards < shards"
  by (simp add: addr2shard_def nat_less_iff)

lemma length_heuristic_scores [simp]: "length (heuristic_scores_from_state s n) = n"
  by (simp add: heuristic_scores_from_state_def Let_def)

lemma normalize_normalize [simp]:
  "0 < n \<Longrightarrow> normalize_action_mask (Some (normalize_action_mask m n)) n = normalize_action_mask m n"
proof (rule normalize_id)
  assume "0 < n"
  then show "1 \<in> set (normalize_action_mask m n)"
    using normalize_has_one [of n m] by (metis length_normalize nth_mem)
qed (simp_all add: set_normalize)

lemma action_allowed_normalized [simp]:
  "0 < n \<Longrightarrow> action_allowed (Some (normalize_action_mask m n)) a n = action_allowed m a n"
  by (simp add: action_allowed_iff)

lemma heuristic_from_state_allowed:
  assumes "0 < shards"
  shows "action_allowed m (int (heuristic_from_state s shards m)) (int shards)"
  using am.pick_allowed [of "int shards" "Some (normalize_action_mask m (int shards))"
      "heuristic_scores_from_state s shards"] assms
  by (simp add: heuristic_from_state_def Let_def)

lemma strip_0x_prefix:
  assumes "\<not> starts_with ''0x'' a" and "\<not> starts_with ''0X'' a"
  shows "strip_0x (''0x'' @ a) = strip_0x a"
  using assms by (simp add: strip_0x_def)

end
