(* ===== verification/OfflineEnv.thy ===== *)
theory OfflineEnv
  imports TxModel Heuristic
begin

text \<open>
  The placement environment \<open>SpringOfflineEnv\<close> of \<open>offline_env.py\<close>: its configuration
  and state, the constructor and \<open>reset\<close>, the observation of an address (the shards its
  related addresses live on, the state vector), the candidate mask, and the placement of
  one address under a policy.

  Shard numbers are natural numbers; \<open>-1\<close> (no related shard) and the action a policy
  returns are integers. The dictionaries of the code are maps, its sets are sets, its
  counters association lists in insertion order. The policy is an argument: a function
  of the state vector, the address, the summary and the observation, which threads a state
  of its own (a random generator, a network), may look at the environment it was made for,
  and may raise.
\<close>

section \<open>Configuration and state\<close>

record window =
  w_num :: "real list"
  w_cross :: "real list"

record env =
  env_shards :: nat
  env_tx_batch_size :: int
  env_max_block_size :: int
  env_block_interval_ms :: int
  env_per_shard_capacity_tps :: real
  env_sender_pos_mode :: int
  env_temporal_top_k :: int
  env_local_reward_weight :: real
  env_action_reward_scale :: real
  env_capacity_backlog_mode :: int
  env_params :: reward_params
  env_iot_feature_dim :: nat
  env_candidate_top_k :: nat
  env_capacity_guard :: int
  env_capacity_guard_factor :: real
  env_candidate_load_weight :: real
  env_mechanism_version :: string
  env_feature_mode :: string
  env_scene_cost_mode :: string
  addr_shard :: "string \<rightharpoonup> nat"
  shard_load :: "nat list"
  pending_loads :: "real list"
  pending_effective_loads :: "real list"
  pending_cross_loads :: "real list"
  recent_stats :: "window list"
  temporal_neighbors :: "string \<Rightarrow> (string \<times> nat) list"
  batch_id :: nat
  cost_relations :: "string \<Rightarrow> (string \<times> real) list"
  current_cost_vector :: "real list"

record sender_pos_info =
  sp_sender_pos :: "real list"
  sp_related_summary :: string
  sp_related_known :: bool
  sp_related_shard :: int
  sp_related_weight :: real
  sp_related_in_current_batch :: bool
  sp_related_count :: nat
  sp_action_mask :: "int list"

record policy_output =
  po_action :: int
  po_log_prob :: real
  po_value :: real
  po_confidence :: real
  po_entropy :: real
  po_source :: string

record placement_action =
  pa_batch_id :: nat
  pa_address :: string
  pa_related :: string
  pa_state :: "real list"
  pa_next_state :: "real list"
  pa_action :: nat
  pa_log_prob :: real
  pa_value :: real
  pa_confidence :: real
  pa_entropy :: real
  pa_local_reward :: real
  pa_reward :: real
  pa_done :: bool
  pa_related_known :: bool
  pa_related_shard :: int
  pa_related_weight :: real
  pa_related_count :: nat
  pa_sender_pos :: "real list"
  pa_same_as_related :: bool
  pa_related_in_current_batch :: bool
  pa_shard_load_before :: nat
  pa_shard_load_mean_before :: real
  pa_load_penalty :: real
  pa_source :: string
  pa_action_mask :: "int list"
  pa_cost_by_shard :: "real list"

type_synonym 'p policy =
  "env \<Rightarrow> 'p \<Rightarrow> real list \<Rightarrow> string \<Rightarrow> string \<Rightarrow> sender_pos_info \<Rightarrow> (policy_output \<times> 'p) result"

section \<open>Construction and reset\<close>

definition zero_window :: "nat \<Rightarrow> window" where
  "zero_window n = \<lparr>w_num = replicate n 0, w_cross = replicate n 0\<rparr>"

definition reset :: "env \<Rightarrow> env" where
  "reset e =
     (let n = env_shards e in
      e\<lparr>addr_shard := Map.empty, shard_load := replicate n 0,
        pending_loads := replicate n 0, pending_effective_loads := replicate n 0,
        pending_cross_loads := replicate n 0,
        recent_stats := replicate 5 (zero_window n),
        temporal_neighbors := (\<lambda>_. []), batch_id := 0\<rparr>)"

record env_args =
  ea_shards :: int
  ea_tx_batch_size :: int
  ea_max_block_size :: int
  ea_block_interval_ms :: int
  ea_sender_pos_mode :: int
  ea_temporal_top_k :: int
  ea_local_reward_weight :: real
  ea_action_reward_scale :: real
  ea_capacity_backlog_mode :: int
  ea_params :: reward_params
  ea_iot_feature_dim :: int
  ea_candidate_top_k :: int
  ea_capacity_guard :: int
  ea_capacity_guard_factor :: real
  ea_candidate_load_weight :: real
  ea_mechanism_version :: string
  ea_feature_mode :: string
  ea_scene_cost_mode :: string

definition make_env :: "env_args \<Rightarrow> env result" where
  "make_env a =
     (if ea_shards a \<le> 0 then raise ValueError
      else if ea_tx_batch_size a \<le> 0 then raise ValueError
      else if ea_block_interval_ms a \<le> 0 then raise ValueError
      else if ea_mechanism_version a \<notin> {''legacy'', ''v3''} \<or>
              ea_feature_mode a \<notin> {''full'', ''no_iot''} then raise ValueError
      else if ea_mechanism_version a = ''v3'' \<and>
              (ea_iot_feature_dim a \<noteq> 10 \<or> ea_capacity_backlog_mode a \<noteq> 0)
      then raise ValueError
      else if ea_mechanism_version a = ''v3'' \<and>
              (ea_scene_cost_mode a \<notin> {''cross'', ''off''} \<or>
               reward_mode (ea_params a) \<noteq> ''iot_dense_balanced'')
      then raise ValueError
      else
        (let n = nat (ea_shards a) in
         return (reset
          \<lparr>env_shards = n,
           env_tx_batch_size = ea_tx_batch_size a,
           env_max_block_size = ea_max_block_size a,
           env_block_interval_ms = ea_block_interval_ms a,
           env_per_shard_capacity_tps =
             real_of_int (ea_max_block_size a) * 1000 / real_of_int (ea_block_interval_ms a),
           env_sender_pos_mode = ea_sender_pos_mode a,
           env_temporal_top_k = ea_temporal_top_k a,
           env_local_reward_weight = ea_local_reward_weight a,
           env_action_reward_scale = ea_action_reward_scale a,
           env_capacity_backlog_mode = ea_capacity_backlog_mode a,
           env_params = (ea_params a)
             \<lparr>reward_mode := py_lower (py_strip (reward_mode (ea_params a)))\<rparr>,
           env_iot_feature_dim = nat (max 0 (ea_iot_feature_dim a)),
           env_candidate_top_k = nat (max 0 (ea_candidate_top_k a)),
           env_capacity_guard = ea_capacity_guard a,
           env_capacity_guard_factor = max 1 (ea_capacity_guard_factor a),
           env_candidate_load_weight = max 0 (ea_candidate_load_weight a),
           env_mechanism_version = ea_mechanism_version a,
           env_feature_mode = ea_feature_mode a,
           env_scene_cost_mode = ea_scene_cost_mode a,
           addr_shard = Map.empty, shard_load = [], pending_loads = [],
           pending_effective_loads = [], pending_cross_loads = [], recent_stats = [],
           temporal_neighbors = (\<lambda>_. []), batch_id = 0,
           cost_relations = (\<lambda>_. []), current_cost_vector = replicate n 0\<rparr>)))"

section \<open>Observation of an address\<close>

definition normalize_count :: "env \<Rightarrow> real \<Rightarrow> real" where
  "normalize_count e v = normalize_state_value v (env_max_block_size e) (env_tx_batch_size e)"

definition build_state_from_sender_pos ::
  "env \<Rightarrow> real list \<Rightarrow> real \<Rightarrow> real list option \<Rightarrow> real list result" where
  "build_state_from_sender_pos e sender_pos flag iot_features =
     (let n = env_shards e;
          nums = concat (map (\<lambda>stat. map (\<lambda>sid. normalize_count e (w_num stat ! sid)) [0..<n])
                          (recent_stats e));
          crosses = concat (map (\<lambda>stat. map (\<lambda>sid. normalize_count e (w_cross stat ! sid)) [0..<n])
                          (recent_stats e));
          pos = map (\<lambda>sid. clamp (if sid < length sender_pos then sender_pos ! sid else 0) 0 1)
                  [0..<n];
          flags = (if env_mechanism_version e = ''legacy'' then [if flag \<noteq> 0 then 1 else 0] else []);
          total_load = real (sum_list (shard_load e));
          extra = (case iot_features of None \<Rightarrow> [] | Some f \<Rightarrow> f);
          iot = (if env_iot_feature_dim e > 0 then
                   map (\<lambda>sid.
                      let load = (if sid < length (shard_load e) then real (shard_load e ! sid) else 0)
                      in clamp (if total_load > EPS then load / total_load else 0) 0 1) [0..<n]
                   @ map (\<lambda>idx.
                      let v = (if idx < length extra then extra ! idx else 0);
                          v = (if env_feature_mode e = ''no_iot'' \<and> idx > 0 then 0 else v)
                      in clamp v 0 1) [0..<env_iot_feature_dim e]
                 else []);
          cost = (if env_mechanism_version e = ''v3'' then
                    (if env_feature_mode e = ''full''
                     then map (\<lambda>v. clamp v 0 1) (current_cost_vector e)
                     else replicate n 0)
                  else []);
          state = nums @ crosses @ pos @ flags @ iot @ cost
      in bind_result
           (input_dim (int n) (int (env_iot_feature_dim e)) (env_mechanism_version e) None)
           (\<lambda>expected_dim.
              if int (length state) \<noteq> expected_dim then raise RuntimeError else return state))"

text \<open>The relation graph of a batch; missing keys are the empty set.\<close>

definition add_related ::
  "string \<Rightarrow> string \<Rightarrow> (string \<Rightarrow> string set) \<Rightarrow> (string \<Rightarrow> string set)" where
  "add_related a b related =
     (if a \<noteq> [] \<and> b \<noteq> [] \<and> a \<noteq> b then related(a := insert b (related a)) else related)"

definition batch_related_step ::
  "env \<Rightarrow> 'f tx \<Rightarrow> (string \<Rightarrow> string set) \<Rightarrow> (string \<Rightarrow> string set)" where
  "batch_related_step e tx related =
     (if env_sender_pos_mode e = 1 then add_related (tx_recipient tx) (tx_sender tx) related
      else add_related (tx_recipient tx) (tx_sender tx)
             (add_related (tx_sender tx) (tx_recipient tx) related))"

definition build_batch_related :: "env \<Rightarrow> 'f tx list \<Rightarrow> (string \<Rightarrow> string set)" where
  "build_batch_related e txs = fold (batch_related_step e) txs (\<lambda>_. {})"

definition build_iot_batch_related :: "'f tx list \<Rightarrow> (string \<Rightarrow> string set)" where
  "build_iot_batch_related txs =
     fold (\<lambda>tx related.
             if tx_sender tx = [] then related
             else fold (\<lambda>anchor rel. if anchor \<noteq> [] \<and> anchor \<noteq> tx_sender tx
                          then rel(tx_sender tx := insert anchor (rel (tx_sender tx))) else rel)
                    (tx_related_addresses tx) related)
       txs (\<lambda>_. {})"

text \<open>\<open>Counter.most_common(k)\<close>: stable, by decreasing count.\<close>

definition most_common :: "nat \<Rightarrow> (string \<times> nat) list \<Rightarrow> string list" where
  "most_common k counter = map fst (take k (sort_key (\<lambda>pc. - int (snd pc)) counter))"

definition temporal_related :: "env \<Rightarrow> string \<Rightarrow> string list" where
  "temporal_related e addr =
     (if env_sender_pos_mode e \<noteq> 2 \<or> env_temporal_top_k e \<le> 0 then []
      else most_common (nat (env_temporal_top_k e)) (temporal_neighbors e addr))"

definition related_keys_of ::
  "env \<Rightarrow> string \<Rightarrow> string option \<Rightarrow> (string \<Rightarrow> string set) \<Rightarrow> string list" where
  "related_keys_of e addr fallback_related batch_related =
     (let related_set = batch_related addr;
          related_set = (if env_sender_pos_mode e = 2
                         then related_set \<union> set (temporal_related e addr) else related_set);
          related_set = (case fallback_related of
              None \<Rightarrow> related_set
            | Some f \<Rightarrow> if f \<noteq> [] \<and> (env_sender_pos_mode e \<noteq> 1 \<or> related_set = {})
                        then insert f related_set else related_set)
      in sorted_list_of_set {peer \<in> related_set. peer \<noteq> [] \<and> peer \<noteq> addr})"

text \<open>One peer of the counting loop: counts, number of known peers, found in this batch.\<close>

definition count_peer ::
  "env \<Rightarrow> (string \<rightharpoonup> nat) \<Rightarrow> string \<Rightarrow> nat list \<times> nat \<times> bool \<Rightarrow> nat list \<times> nat \<times> bool" where
  "count_peer e batch_placement peer st =
     (case st of (counts, known, in_batch) \<Rightarrow>
        (case batch_placement peer of
           Some sid \<Rightarrow>
             if sid < env_shards e then (bump sid 1 counts, known + 1, True)
             else (case addr_shard e peer of
                     Some s \<Rightarrow> if s < env_shards e then (bump s 1 counts, known + 1, in_batch) else st
                   | None \<Rightarrow> st)
         | None \<Rightarrow>
             (case addr_shard e peer of
                Some s \<Rightarrow> if s < env_shards e then (bump s 1 counts, known + 1, in_batch) else st
              | None \<Rightarrow> st)))"

definition major_step :: "nat \<times> nat \<Rightarrow> int \<times> nat \<Rightarrow> int \<times> nat" where
  "major_step sc major =
     (if snd sc > snd major then (int (fst sc), snd sc) else major)"

definition summary_of :: "string list \<Rightarrow> string" where
  "summary_of related_keys =
     (let summary_keys = take 8 related_keys;
          base = join_with '','' summary_keys
      in if length related_keys > length summary_keys
         then base @ '',+'' @ nat_to_string (length related_keys - length summary_keys)
         else base)"

definition build_sender_pos ::
  "env \<Rightarrow> string \<Rightarrow> string option \<Rightarrow> (string \<rightharpoonup> nat) \<Rightarrow> (string \<Rightarrow> string set) \<Rightarrow>
     sender_pos_info" where
  "build_sender_pos e addr fallback_related batch_placement batch_related =
     (let n = env_shards e;
          related_keys = related_keys_of e addr fallback_related batch_related;
          (shard_counts, known_count, in_batch) =
            fold (count_peer e batch_placement) related_keys (replicate n 0, 0, False);
          (major_shard, major_count) =
            fold major_step (zip [0..<n] shard_counts) (-1, 0);
          sender_pos = (if known_count > 0
                        then map (\<lambda>c. real c / real known_count) shard_counts
                        else replicate n 0);
          related_weight = (if known_count > 0 then real major_count / real known_count else 0)
      in \<lparr>sp_sender_pos = sender_pos,
          sp_related_summary = summary_of related_keys,
          sp_related_known = (known_count > 0 \<and> major_shard \<ge> 0),
          sp_related_shard = major_shard,
          sp_related_weight = related_weight,
          sp_related_in_current_batch = in_batch,
          sp_related_count = length related_keys,
          sp_action_mask = []\<rparr>)"

section \<open>Candidate masks\<close>

definition candidate_load_pressures :: "env \<Rightarrow> real list" where
  "candidate_load_pressures e =
     (let placement_total = real (sum_list (shard_load e));
          placement_scale = real_of_int (max 1 (env_max_block_size e));
          window_count = real (max 1 (length (recent_stats e)))
      in map (\<lambda>sid.
            let placement = (if placement_total > EPS \<and> sid < length (shard_load e)
                             then real (shard_load e ! sid) / placement_total * placement_scale
                             else 0);
                recent = sum_list (map (\<lambda>stat. w_num stat ! sid)
                           (filter (\<lambda>stat. sid < length (w_num stat)) (recent_stats e)))
                         / window_count
            in max 0 (placement + recent)) [0..<env_shards e])"

definition candidate_scores :: "env \<Rightarrow> string \<Rightarrow> real list \<Rightarrow> real list" where
  "candidate_scores e addr sender_pos =
     (let hash_sid = addr2shard addr (env_shards e);
          pressures = candidate_load_pressures e
      in map (\<lambda>sid.
            let related_score = (if sid < length sender_pos then sender_pos ! sid else 0);
                load = (if sid < length pressures then pressures ! sid else 0);
                score = 1000 * related_score - env_candidate_load_weight e * load
            in if sid = hash_sid then score + 0.001 else score) [0..<env_shards e])"

text \<open>The shards whose pressure is within the guard, if there is any; else all of them.\<close>

definition guard_mask :: "env \<Rightarrow> int list" where
  "guard_mask e =
     (let n = env_shards e; ones = replicate n 1 in
      if env_capacity_guard e \<noteq> 0 \<and> shard_load e \<noteq> [] then
        (let pressures = candidate_load_pressures e;
             mean_load = sum_list pressures / real (max 1 n)
         in if mean_load > EPS then
              (let threshold = mean_load * env_capacity_guard_factor e;
                   guarded = map (\<lambda>load. if load \<le> threshold then 1 else 0) (take n pressures)
               in if list_ex (\<lambda>x. x \<noteq> 0) guarded then guarded else ones)
            else ones)
      else ones)"

text \<open>The best \<open>k\<close> of the allowed shards by (score, smaller shard first).\<close>

definition top_candidates :: "real list \<Rightarrow> nat \<Rightarrow> nat list \<Rightarrow> nat list" where
  "top_candidates scores k allowed =
     take (min k (length allowed)) (rev (sort_key (\<lambda>sid. (scores ! sid, - int sid)) allowed))"

definition build_candidate_action_mask :: "env \<Rightarrow> string \<Rightarrow> real list \<Rightarrow> int list" where
  "build_candidate_action_mask e addr sender_pos =
     (let n = env_shards e; top_k = env_candidate_top_k e in
      if n \<le> 0 then []
      else if top_k \<le> 0 \<and> env_capacity_guard e = 0 then replicate n 1
      else
        (let m = guard_mask e;
             m = (if top_k > 0 \<and> top_k < n then
                    (let scores = candidate_scores e addr sender_pos;
                         allowed = filter (\<lambda>sid. sid < length m \<and> m ! sid > 0) [0..<n];
                         keep = set (top_candidates scores top_k allowed)
                     in map (\<lambda>sid. if sid \<in> keep then 1 else 0) [0..<n])
                  else m)
         in normalize_action_mask (Some m) (int n)))"

definition best_candidate_action :: "env \<Rightarrow> string \<Rightarrow> real list \<Rightarrow> int list \<Rightarrow> nat" where
  "best_candidate_action e addr sender_pos action_mask =
     best_allowed_action (candidate_scores e addr sender_pos) (Some action_mask)
       (int (env_shards e))"

definition safe_policy_output ::
  "env \<Rightarrow> policy_output \<Rightarrow> string \<Rightarrow> real list \<Rightarrow> int list \<Rightarrow> policy_output" where
  "safe_policy_output e out address sender_pos action_mask =
     (let action = po_action out in
      if action < 0 \<or> action \<ge> int (env_shards e) \<or>
         \<not> action_allowed (Some action_mask) action (int (env_shards e))
      then \<lparr>po_action = int (best_candidate_action e address sender_pos action_mask),
            po_log_prob = 0, po_value = 0, po_confidence = 0, po_entropy = 0,
            po_source = po_source out @ ''_capacity_guard''\<rparr>
      else out)"

section \<open>Placing one address\<close>

text \<open>The distribution over shards of the communication cost of an address to its peers.\<close>

definition cost_vector :: "env \<Rightarrow> string \<Rightarrow> real list" where
  "cost_vector e addr =
     (let peers = sort (cost_relations e addr);
          total_cost = sum_list (map snd peers);
          zeros = replicate (env_shards e) 0
      in if total_cost > EPS then
           fold (\<lambda>(peer, cost) v. case addr_shard e peer of
                    None \<Rightarrow> v
                  | Some sid \<Rightarrow> bump sid (cost / total_cost) v) peers zeros
         else zeros)"

definition placement_local_reward ::
  "env \<Rightarrow> sender_pos_info \<Rightarrow> nat \<Rightarrow> nat \<Rightarrow> real \<Rightarrow> real \<Rightarrow> real \<times> real" where
  "placement_local_reward e info chosen_shard shard_load_before load_mean_before cost_weight =
     (if reward_mode (env_params e) \<in> set IOT_DENSE_REWARD_MODES \<and> env_iot_feature_dim e > 0
      then
        (let balanced = (reward_mode (env_params e) = IOT_DENSE_BALANCED_REWARD_MODE);
             bonus_w = (if balanced then IOT_DENSE_BALANCED_LOW_LOAD_BONUS_WEIGHT else 0);
             bonus_cap = (if balanced then IOT_DENSE_BALANCED_LOW_LOAD_BONUS_CAP else 0);
             (local_reward, load_penalty) =
               iot_dense_action_reward (int chosen_shard) (sp_sender_pos info)
                 (if env_mechanism_version e = ''legacy'' then cost_weight else 0)
                 (real shard_load_before) load_mean_before bonus_w bonus_cap;
             local_reward =
               (if env_mechanism_version e = ''v3'' \<and> env_scene_cost_mode e = ''cross''
                then local_reward - 0.45 * max 0 (sum_list (current_cost_vector e)
                                                   - current_cost_vector e ! chosen_shard)
                else local_reward)
         in (local_reward, load_penalty))
      else
        local_action_reward (int chosen_shard) (sp_related_known info) (sp_related_shard info)
          (sp_related_weight info) shard_load_before load_mean_before)"

record request =
  rq_addr :: string
  rq_fallback :: "string option"
  rq_features :: "real list option"
  rq_cost :: real

definition placement_record ::
  "nat \<Rightarrow> string \<Rightarrow> env \<Rightarrow> sender_pos_info \<Rightarrow> policy_output \<Rightarrow> real list \<Rightarrow> real list \<Rightarrow> nat \<Rightarrow>
     real \<Rightarrow> real \<times> real \<Rightarrow> placement_action" where
  "placement_record bid addr e info out state next_state shard_load_before load_mean_before rewards =
     (let chosen_shard = nat (po_action out) in
      \<lparr>pa_batch_id = bid, pa_address = addr,
       pa_related = sp_related_summary info,
       pa_state = state, pa_next_state = next_state,
       pa_action = chosen_shard, pa_log_prob = po_log_prob out,
       pa_value = po_value out, pa_confidence = po_confidence out,
       pa_entropy = po_entropy out, pa_local_reward = fst rewards,
       pa_reward = 0, pa_done = False,
       pa_related_known = sp_related_known info,
       pa_related_shard = sp_related_shard info,
       pa_related_weight = sp_related_weight info,
       pa_related_count = sp_related_count info,
       pa_sender_pos = sp_sender_pos info,
       pa_same_as_related =
         (if env_iot_feature_dim e > 0
          then sp_related_known info \<and> chosen_shard < length (sp_sender_pos info) \<and>
               sp_sender_pos info ! chosen_shard > EPS
          else sp_related_known info \<and> int chosen_shard = sp_related_shard info),
       pa_related_in_current_batch = sp_related_in_current_batch info,
       pa_shard_load_before = shard_load_before,
       pa_shard_load_mean_before = load_mean_before,
       pa_load_penalty = snd rewards,
       pa_source = po_source out,
       pa_action_mask = sp_action_mask info,
       pa_cost_by_shard = current_cost_vector e\<rparr>)"

definition place_address ::
  "'p policy \<Rightarrow> (string \<Rightarrow> string set) \<Rightarrow> nat \<Rightarrow> request \<Rightarrow> env \<times> (string \<rightharpoonup> nat) \<times> 'p \<Rightarrow>
     (placement_action option \<times> env \<times> (string \<rightharpoonup> nat) \<times> 'p) result" where
  "place_address policy batch_related bid rq st =
     (case st of (e0, batch_placement, p) \<Rightarrow>
      let addr = rq_addr rq in
      if addr = [] \<or> addr_shard e0 addr \<noteq> None then return (None, e0, batch_placement, p)
      else
        (let e = e0\<lparr>current_cost_vector := cost_vector e0 addr\<rparr>;
             info = build_sender_pos e addr (rq_fallback rq) batch_placement batch_related
         in bind_result
             (build_state_from_sender_pos e (sp_sender_pos info)
                (address_flag_from_related_count (sp_related_count info)) (rq_features rq))
             (\<lambda>state.
                let action_mask = build_candidate_action_mask e addr (sp_sender_pos info);
                    info = info\<lparr>sp_action_mask := action_mask\<rparr>
                in bind_result (policy e p state addr (sp_related_summary info) info) (\<lambda>(raw, p').
                let out = safe_policy_output e raw addr (sp_sender_pos info) action_mask;
                    chosen_shard = nat (po_action out);
                    shard_load_before = shard_load e ! chosen_shard;
                    load_mean_before = (if shard_load e \<noteq> []
                       then real (sum_list (shard_load e)) / real (length (shard_load e)) else 0);
                    rewards = placement_local_reward e info chosen_shard shard_load_before
                                load_mean_before (rq_cost rq);
                    e' = e\<lparr>addr_shard := (addr_shard e)(addr \<mapsto> chosen_shard),
                           shard_load := bump chosen_shard 1 (shard_load e)\<rparr>;
                    batch_placement' = batch_placement(addr \<mapsto> chosen_shard);
                    next_info = build_sender_pos e' addr (rq_fallback rq) batch_placement'
                                  batch_related
                in bind_result
                    (build_state_from_sender_pos e' (sp_sender_pos next_info)
                       (address_flag_from_related_count (sp_related_count next_info))
                       (rq_features rq))
                    (\<lambda>next_state.
                       return (Some (placement_record bid addr e info out state next_state
                                       shard_load_before load_mean_before rewards),
                         e', batch_placement', p'))))))"

end
