(* ===== verification/EnvInvariant.thy ===== *)
theory EnvInvariant
  imports OfflineEnv
begin

text \<open>
  The well-formedness invariant of the environment and what the operations of one
  placement guarantee: the constructor and \<open>reset\<close> establish it, the state vector always
  has the declared size and unit entries, the relation vector is a distribution, the
  candidate mask is a nonempty 0/1 vector of at most \<open>candidate_top_k\<close> shards, and placing
  an address never raises, never moves an address that is already placed, and puts a new one
  on a shard that its mask allows.
\<close>

section \<open>Well-formed environments\<close>

definition nonneg_vec :: "nat \<Rightarrow> real list \<Rightarrow> bool" where
  "nonneg_vec n v \<longleftrightarrow> length v = n \<and> (\<forall>x\<in>set v. 0 \<le> x)"

definition wf_window :: "nat \<Rightarrow> window \<Rightarrow> bool" where
  "wf_window n w \<longleftrightarrow> nonneg_vec n (w_num w) \<and> nonneg_vec n (w_cross w)"

definition wf_config :: "env \<Rightarrow> bool" where
  "wf_config e \<longleftrightarrow>
     0 < env_shards e \<and> env_mechanism_version e \<in> {''legacy'', ''v3''} \<and>
     (env_mechanism_version e = ''v3'' \<longrightarrow> 0 < env_iot_feature_dim e)"

definition wf_env :: "env \<Rightarrow> bool" where
  "wf_env e \<longleftrightarrow>
     (let n = env_shards e in
      wf_config e \<and> length (shard_load e) = n \<and>
      (\<forall>a s. addr_shard e a = Some s \<longrightarrow> s < n) \<and>
      length (recent_stats e) = 5 \<and> (\<forall>w\<in>set (recent_stats e). wf_window n w) \<and>
      nonneg_vec n (pending_loads e) \<and> nonneg_vec n (pending_effective_loads e) \<and>
      nonneg_vec n (pending_cross_loads e) \<and> length (current_cost_vector e) = n)"

lemma nonneg_vec_zero [simp]: "nonneg_vec n (replicate n 0)"
  by (simp add: nonneg_vec_def)

lemma wf_zero_window [simp]: "wf_window n (zero_window n)"
  by (simp add: wf_window_def zero_window_def)

lemma wf_env_reset:
  assumes "wf_config e" and "length (current_cost_vector e) = env_shards e"
  shows "wf_env (reset e)"
  using assms by (simp add: wf_env_def reset_def Let_def wf_config_def)

lemma make_env_wf: "make_env a = Inr e \<Longrightarrow> wf_env e"
  unfolding make_env_def Let_def
  by (auto intro!: wf_env_reset simp: wf_config_def split: if_splits)

lemma wf_env_shards: "wf_env e \<Longrightarrow> 0 < env_shards e"
  by (simp add: wf_env_def wf_config_def Let_def)

lemma wf_env_cost_vector:
  "wf_env e \<Longrightarrow> length v = env_shards e \<Longrightarrow> wf_env (e\<lparr>current_cost_vector := v\<rparr>)"
  by (simp add: wf_env_def wf_config_def Let_def)

lemma wf_env_place:
  "wf_env e \<Longrightarrow> s < env_shards e \<Longrightarrow>
   wf_env (e\<lparr>addr_shard := (addr_shard e)(a \<mapsto> s), shard_load := bump s 1 (shard_load e)\<rparr>)"
  by (auto simp: wf_env_def wf_config_def Let_def)

lemma length_cost_vector [simp]: "length (cost_vector e a) = env_shards e"
proof -
  have "length (fold (\<lambda>(peer, cost) v. case addr_shard e peer of
             None \<Rightarrow> v | Some sid \<Rightarrow> bump sid (cost / t) v) ps v) = length v" for ps v and t :: real
    by (induction ps arbitrary: v) (auto split: option.splits)
  then show ?thesis by (simp add: cost_vector_def Let_def)
qed

section \<open>The state vector\<close>

lemma length_concat_const:
  "(\<And>x. x \<in> set xs \<Longrightarrow> length (f x) = n) \<Longrightarrow> length (concat (map f xs)) = length xs * n"
  by (induction xs) auto

lemma normalize_count_bounds: "0 \<le> normalize_count e v \<and> normalize_count e v \<le> 1"
  by (simp add: normalize_count_def normalize_state_value_bounds)

lemma build_state_total:
  assumes "wf_env e"
  shows "\<exists>s. build_state_from_sender_pos e pos flag feats = Inr s \<and>
             input_dim (int (env_shards e)) (int (env_iot_feature_dim e))
               (env_mechanism_version e) None = Inr (int (length s)) \<and>
             (\<forall>x\<in>set s. 0 \<le> x \<and> x \<le> 1)"
proof -
  let ?n = "env_shards e" and ?d = "env_iot_feature_dim e"
  have v: "env_mechanism_version e \<in> {''legacy'', ''v3''}"
    and v3: "env_mechanism_version e = ''v3'' \<longrightarrow> 0 < ?d"
    and len: "length (recent_stats e) = 5" "length (current_cost_vector e) = ?n"
    using assms by (simp_all add: wf_env_def wf_config_def Let_def)
  note dims = input_dim_def address_flag_dim_def state_dim_def
  have windows: "length (concat (map (\<lambda>stat. map (\<lambda>sid. normalize_count e (g stat ! sid)) [0..<?n])
                   (recent_stats e))) = 5 * ?n" for g
    using length_concat_const
      [of "recent_stats e" "\<lambda>stat. map (\<lambda>sid. normalize_count e (g stat ! sid)) [0..<?n]" ?n] len
    by simp
  show ?thesis
    using v v3 len
    by (auto simp: build_state_from_sender_pos_def Let_def dims windows normalize_count_bounds)
qed

section \<open>The relation vector\<close>

definition counts_inv :: "nat \<Rightarrow> nat list \<times> nat \<times> bool \<Rightarrow> bool" where
  "counts_inv n st \<longleftrightarrow> length (fst st) = n \<and> sum_list (fst st) = fst (snd st)"

lemma count_peer_inv: "counts_inv (env_shards e) st \<Longrightarrow> counts_inv (env_shards e) (count_peer e bp peer st)"
  by (cases st) (auto simp: counts_inv_def count_peer_def split: option.splits)

lemma fold_count_peer_inv:
  "counts_inv (env_shards e) st \<Longrightarrow> counts_inv (env_shards e) (fold (count_peer e bp) ks st)"
  by (induction ks arbitrary: st) (simp_all add: count_peer_inv)

text \<open>The major shard is the first one with the largest positive count.\<close>

definition major_inv :: "nat list \<Rightarrow> nat \<Rightarrow> int \<times> nat \<Rightarrow> bool" where
  "major_inv cs k m \<longleftrightarrow>
     (if snd m = 0 then fst m = -1 \<and> (\<forall>j<k. cs ! j = 0)
      else (\<exists>i<k. fst m = int i \<and> cs ! i = snd m \<and> (\<forall>j<k. cs ! j \<le> cs ! i) \<and>
                  (\<forall>j<i. cs ! j < cs ! i)))"

lemma major_fold:
  assumes "k \<le> length cs"
  shows "major_inv cs k (fold major_step (zip [0..<k] cs) (-1, 0))"
  using assms
proof (induction k)
  case 0
  then show ?case by (simp add: major_inv_def)
next
  case (Suc k)
  have "zip [0..<Suc k] cs = zip [0..<k] cs @ [(k, cs ! k)]"
    using Suc.prems by (intro nth_equalityI) (auto simp: nth_append less_Suc_eq)
  then have step: "fold major_step (zip [0..<Suc k] cs) (-1, 0) =
        major_step (k, cs ! k) (fold major_step (zip [0..<k] cs) (-1, 0))"
    by simp
  obtain s c where m: "fold major_step (zip [0..<k] cs) (-1, 0) = (s, c)" by force
  then have inv: "major_inv cs k (s, c)" using Suc by simp
  show ?case
  proof (cases "cs ! k > c")
    case True
    have "cs ! j < cs ! k" if "j < k" for j
      using inv that True by (fastforce simp: major_inv_def split: if_splits)
    then show ?thesis
      unfolding step m using True
      by (auto simp: major_step_def major_inv_def less_Suc_eq intro: less_imp_le)
  next
    case False
    then show ?thesis
      unfolding step m using inv
      by (auto simp: major_step_def major_inv_def less_Suc_eq split: if_splits)
  qed
qed

lemma sum_list_nat_zero: "sum_list (cs :: nat list) = 0 \<Longrightarrow> j < length cs \<Longrightarrow> cs ! j = 0"
  by (simp add: sum_list_eq_0_iff)

definition pos_distribution :: "nat \<Rightarrow> sender_pos_info \<Rightarrow> bool" where
  "pos_distribution n info \<longleftrightarrow>
     length (sp_sender_pos info) = n \<and> (\<forall>x\<in>set (sp_sender_pos info). 0 \<le> x \<and> x \<le> 1) \<and>
     (if sp_related_known info
      then sum_list (sp_sender_pos info) = 1 \<and> 0 \<le> sp_related_shard info \<and>
           sp_related_shard info < int n \<and>
           sp_related_weight info = sp_sender_pos info ! nat (sp_related_shard info) \<and>
           (\<forall>x\<in>set (sp_sender_pos info). x \<le> sp_related_weight info)
      else sp_sender_pos info = replicate n 0 \<and> sp_related_shard info = -1 \<and>
           sp_related_weight info = 0)"

lemma build_sender_pos_distribution:
  "pos_distribution (env_shards e) (build_sender_pos e addr fb bp br)"
proof -
  let ?n = "env_shards e" and ?ks = "related_keys_of e addr fb br"
  obtain cs known inb where f: "fold (count_peer e bp) ?ks (replicate ?n 0, 0, False) = (cs, known, inb)"
    by (metis prod_cases3)
  have "counts_inv ?n (fold (count_peer e bp) ?ks (replicate ?n 0, 0, False))"
    by (rule fold_count_peer_inv) (simp add: counts_inv_def sum_list_replicate)
  then have cs: "length cs = ?n" "sum_list cs = known" by (simp_all add: f counts_inv_def)
  obtain ms mc where m: "fold major_step (zip [0..<?n] cs) (-1, 0) = (ms, mc)" by force
  have maj: "major_inv cs ?n (ms, mc)" using major_fold [of ?n cs] cs m by simp
  have eq: "build_sender_pos e addr fb bp br =
      \<lparr>sp_sender_pos = (if known > 0 then map (\<lambda>c. real c / real known) cs else replicate ?n 0),
       sp_related_summary = summary_of ?ks,
       sp_related_known = (known > 0 \<and> ms \<ge> 0), sp_related_shard = ms,
       sp_related_weight = (if known > 0 then real mc / real known else 0),
       sp_related_in_current_batch = inb, sp_related_count = length ?ks, sp_action_mask = []\<rparr>"
    by (simp add: build_sender_pos_def Let_def f m)
  show ?thesis
  proof (cases "known > 0")
    case True
    have "\<not> (\<forall>j<?n. cs ! j = 0)"
      using True cs by (metis gr_implies_not0 in_set_conv_nth sum_list_eq_0_iff)
    then obtain i where i: "i < ?n" "ms = int i" "cs ! i = mc" "\<forall>j<?n. cs ! j \<le> cs ! i"
      using maj by (auto simp: major_inv_def split: if_splits)
    have le: "c \<le> known" if "c \<in> set cs" for c
      using member_le_sum_list [OF that] cs by simp
    have "sum_list (map (\<lambda>c. real c / real known) cs) = 1"
      using True cs by (simp add: sum_list_map_divide sum_list_map_real)
    moreover have "c \<le> mc" if "c \<in> set cs" for c
      using that i cs by (auto simp: in_set_conv_nth)
    ultimately show ?thesis
      using True i cs le by (auto simp: pos_distribution_def eq field_simps)
  next
    case False
    then have "\<forall>j<?n. cs ! j = 0" using cs sum_list_nat_zero [of cs] by simp
    moreover have "mc = 0" using maj calculation by (auto simp: major_inv_def split: if_splits)
    ultimately have "ms = -1" using maj by (simp add: major_inv_def)
    then show ?thesis using False by (simp add: pos_distribution_def eq)
  qed
qed

section \<open>The candidate mask\<close>

definition zero_one_mask :: "nat \<Rightarrow> int list \<Rightarrow> bool" where
  "zero_one_mask n m \<longleftrightarrow> length m = n \<and> set m \<subseteq> {0, 1} \<and> 1 \<in> set m"

lemma length_pressures [simp]: "length (candidate_load_pressures e) = env_shards e"
  by (simp add: candidate_load_pressures_def Let_def)

lemma length_scores [simp]: "length (candidate_scores e a pos) = env_shards e"
  by (simp add: candidate_scores_def Let_def)

lemma zero_one_replicate [simp]: "0 < n \<Longrightarrow> zero_one_mask n (replicate n 1)"
  by (auto simp: zero_one_mask_def)

lemma zero_one_nth: "zero_one_mask n m \<Longrightarrow> i < n \<Longrightarrow> m ! i > 0 \<longleftrightarrow> m ! i = 1"
  using subsetD [OF _ nth_mem, of m "{0, 1}" i] by (auto simp: zero_one_mask_def)

lemma zero_one_maskI:
  assumes "length m = n" and "set m \<subseteq> {0, 1}" and "list_ex (\<lambda>x. x \<noteq> 0) m"
  shows "zero_one_mask n m"
  using assms by (auto simp: zero_one_mask_def list_ex_iff)

lemma zero_one_normalize: "0 < n \<Longrightarrow> zero_one_mask n (normalize_action_mask m (int n))"
  using normalize_has_one [of "int n" m] set_normalize [of m "int n"]
  by (auto simp: zero_one_mask_def) (metis length_normalize nat_int nth_mem)

lemma zero_one_normalized: "zero_one_mask n m \<Longrightarrow> normalize_action_mask (Some m) (int n) = m"
  by (rule normalize_id) (simp_all add: zero_one_mask_def)

lemma guard_mask_zero_one: "0 < env_shards e \<Longrightarrow> zero_one_mask (env_shards e) (guard_mask e)"
  unfolding guard_mask_def Let_def
  by (simp split: if_split) (auto intro!: zero_one_maskI)

lemma sort_take_rev:
  assumes "x \<in> set (take k (rev (sort_key f xs)))" and "y \<in> set xs"
    and "y \<notin> set (take k (rev (sort_key f xs)))"
  shows "f y \<le> f x"
proof -
  let ?r = "rev (sort_key f xs)"
  have "y \<in> set ?r" using assms(2) by simp
  then have y: "y \<in> set (drop k ?r)"
    using assms(3) append_take_drop_id [of k ?r] by (metis Un_iff set_append)
  have "sorted (map f (sort_key f xs))" by simp
  then have "sorted_wrt (\<lambda>a b. f b \<le> f a) ?r"
    unfolding sorted_wrt_rev by (simp only: sorted_map)
  then have "sorted_wrt (\<lambda>a b. f b \<le> f a) (take k ?r @ drop k ?r)" by simp
  then show ?thesis
    using assms(1) y by (simp add: sorted_wrt_append del: append_take_drop_id)
qed

lemma top_candidates_set: "set (top_candidates sc k xs) \<subseteq> set xs"
  using set_take_subset [of "min k (length xs)" "rev (sort_key (\<lambda>sid. (sc ! sid, - int sid)) xs)"]
  by (simp add: top_candidates_def)

lemma top_candidates_length: "length (top_candidates sc k xs) = min k (length xs)"
  by (simp add: top_candidates_def)

lemma top_candidates_best:
  assumes "x \<in> set (top_candidates sc k xs)" and "y \<in> set xs"
    and "y \<notin> set (top_candidates sc k xs)"
  shows "sc ! y < sc ! x \<or> (sc ! y = sc ! x \<and> x \<le> y)"
  using sort_take_rev [OF assms [unfolded top_candidates_def]] by (auto simp: less_eq_prod_def)

text \<open>The shards that the mask before pruning allows.\<close>

definition guarded_shards :: "env \<Rightarrow> nat list" where
  "guarded_shards e = filter (\<lambda>sid. guard_mask e ! sid > 0) [0..<env_shards e]"

definition kept_shards :: "env \<Rightarrow> string \<Rightarrow> real list \<Rightarrow> nat list" where
  "kept_shards e addr pos =
     (let k = env_candidate_top_k e in
      if 0 < k \<and> k < env_shards e
      then top_candidates (candidate_scores e addr pos) k (guarded_shards e)
      else guarded_shards e)"

lemma guarded_shards_nonempty: "0 < env_shards e \<Longrightarrow> guarded_shards e \<noteq> []"
proof -
  assume n: "0 < env_shards e"
  have "1 \<in> set (guard_mask e)" "length (guard_mask e) = env_shards e"
    using guard_mask_zero_one [OF n] by (simp_all add: zero_one_mask_def)
  then obtain i where "i < env_shards e" "guard_mask e ! i = 1"
    by (auto simp: in_set_conv_nth)
  then have "i \<in> set (guarded_shards e)" by (simp add: guarded_shards_def)
  then show ?thesis by auto
qed

lemma kept_shards_nonempty: "0 < env_shards e \<Longrightarrow> kept_shards e addr pos \<noteq> []"
  using guarded_shards_nonempty [of e] top_candidates_length
    [of "candidate_scores e addr pos" "env_candidate_top_k e" "guarded_shards e"]
  by (auto simp: kept_shards_def Let_def min_def split: if_splits)

lemma kept_shards_subset: "set (kept_shards e addr pos) \<subseteq> set (guarded_shards e)"
  using top_candidates_set by (auto simp: kept_shards_def Let_def)

lemma kept_shards_less: "i \<in> set (kept_shards e addr pos) \<Longrightarrow> i < env_shards e"
  using kept_shards_subset [of e addr pos] by (auto simp: guarded_shards_def)

text \<open>The mask is the indicator of the kept shards.\<close>

lemma candidate_mask_eq:
  assumes n: "0 < env_shards e"
  shows "build_candidate_action_mask e addr pos =
         map (\<lambda>sid. if sid \<in> set (kept_shards e addr pos) then 1 else 0) [0..<env_shards e]"
    (is "_ = ?ind")
proof -
  let ?n = "env_shards e" and ?k = "env_candidate_top_k e" and ?g = "guard_mask e"
  have g: "zero_one_mask ?n ?g" using guard_mask_zero_one [OF n] .
  obtain i where i: "i \<in> set (kept_shards e addr pos)"
    using kept_shards_nonempty [OF n, of addr pos] by (meson list.set_sel(1))
  have "i < ?n" using i by (rule kept_shards_less)
  then have ind: "zero_one_mask ?n ?ind"
    using i by (auto simp: zero_one_mask_def image_iff intro!: bexI [of _ i])
  have len: "length ?g = ?n" using g by (simp add: zero_one_mask_def)
  have guarded: "?g = map (\<lambda>sid. if sid \<in> set (guarded_shards e) then 1 else 0) [0..<?n]"
  proof (rule nth_equalityI)
    fix j assume "j < length ?g"
    then have "?g ! j \<in> {0, 1}" "j < ?n"
      using g subsetD [OF _ nth_mem, of ?g "{0, 1}" j] by (simp_all add: zero_one_mask_def)
    then show "?g ! j = map (\<lambda>sid. if sid \<in> set (guarded_shards e) then 1 else 0) [0..<?n] ! j"
      by (auto simp: guarded_shards_def)
  qed (simp add: len)
  show ?thesis
  proof (cases "?k = 0 \<and> env_capacity_guard e = 0")
    case True
    then have "?g = replicate ?n 1" by (simp add: guard_mask_def Let_def)
    then have "build_candidate_action_mask e addr pos = ?g"
      using True n by (simp add: build_candidate_action_mask_def Let_def)
    also have "?g = ?ind" using guarded True by (simp add: kept_shards_def)
    finally show ?thesis .
  next
    case False
    have "filter (\<lambda>sid. sid < length ?g \<and> ?g ! sid > 0) [0..<?n] = guarded_shards e"
      using len by (auto simp: guarded_shards_def intro: filter_cong)
    then have "(if ?k > 0 \<and> ?k < ?n then
                 (let scores = candidate_scores e addr pos;
                      allowed = filter (\<lambda>sid. sid < length ?g \<and> ?g ! sid > 0) [0..<?n];
                      keep = set (top_candidates scores ?k allowed)
                  in map (\<lambda>sid. if sid \<in> keep then 1 else 0) [0..<?n])
               else ?g) = ?ind"
      using guarded by (simp add: kept_shards_def Let_def)
    then show ?thesis
      using False n zero_one_normalized [OF ind]
      by (auto simp: build_candidate_action_mask_def Let_def)
  qed
qed

lemma candidate_mask_nth:
  "0 < env_shards e \<Longrightarrow> i < env_shards e \<Longrightarrow>
   build_candidate_action_mask e addr pos ! i =
     (if i \<in> set (kept_shards e addr pos) then 1 else 0)"
  by (simp add: candidate_mask_eq)

lemma candidate_mask_zero_one:
  assumes "0 < env_shards e"
  shows "zero_one_mask (env_shards e) (build_candidate_action_mask e addr pos)"
proof -
  obtain i where "i \<in> set (kept_shards e addr pos)"
    using kept_shards_nonempty [OF assms, of addr pos] by (meson list.set_sel(1))
  then show ?thesis
    using assms kept_shards_less [of i e addr pos]
    by (auto simp: zero_one_mask_def candidate_mask_eq image_iff intro!: bexI [of _ i])
qed

section \<open>Placing an address\<close>

lemma safe_policy_output_allowed:
  fixes out :: policy_output and addr :: string and pos :: "real list" and m :: "int list"
  assumes "0 < env_shards e"
  defines "a \<equiv> po_action (safe_policy_output e out addr pos m)"
  shows "0 \<le> a" and "a < int (env_shards e)"
    and "action_allowed (Some m) a (int (env_shards e))"
proof -
  have a: "a = (if po_action out < 0 \<or> po_action out \<ge> int (env_shards e) \<or>
                  \<not> action_allowed (Some m) (po_action out) (int (env_shards e))
                then int (best_allowed_action (candidate_scores e addr pos) (Some m)
                       (int (env_shards e)))
                else po_action out)"
    by (simp add: a_def safe_policy_output_def Let_def best_candidate_action_def)
  have n: "0 < int (env_shards e)" using assms by simp
  show "0 \<le> a" "a < int (env_shards e)" unfolding a by (rule am.guarded_range [OF n])+
  show "action_allowed (Some m) a (int (env_shards e))"
    unfolding a by (rule am.guarded_allowed [OF n])
qed

lemma placement_record_simps [simp]:
  fixes bid :: nat
  defines "r \<equiv> \<lambda>addr e info out s t slb lmb rw. placement_record bid addr e info out s t slb lmb rw"
  shows "pa_action (r addr e info out s t slb lmb rw) = nat (po_action out)"
    and "pa_address (r addr e info out s t slb lmb rw) = addr"
    and "pa_batch_id (r addr e info out s t slb lmb rw) = bid"
    and "pa_state (r addr e info out s t slb lmb rw) = s"
    and "pa_next_state (r addr e info out s t slb lmb rw) = t"
    and "pa_action_mask (r addr e info out s t slb lmb rw) = sp_action_mask info"
    and "pa_shard_load_before (r addr e info out s t slb lmb rw) = slb"
    and "pa_reward (r addr e info out s t slb lmb rw) = 0"
    and "pa_done (r addr e info out s t slb lmb rw) = False"
  by (simp_all add: r_def placement_record_def Let_def)

text \<open>What one placement of a new address does, and that it does not raise.\<close>

definition placed_ok :: "env \<Rightarrow> request \<Rightarrow> placement_action \<Rightarrow> bool" where
  "placed_ok e rq a \<longleftrightarrow>
     pa_address a = rq_addr rq \<and> pa_action a < env_shards e \<and>
     zero_one_mask (env_shards e) (pa_action_mask a) \<and> pa_action_mask a ! pa_action a = 1 \<and>
     pa_shard_load_before a = shard_load e ! pa_action a \<and> pa_reward a = 0 \<and> \<not> pa_done a \<and>
     input_dim (int (env_shards e)) (int (env_iot_feature_dim e)) (env_mechanism_version e) None
       = Inr (int (length (pa_state a))) \<and>
     length (pa_next_state a) = length (pa_state a) \<and>
     (\<forall>x \<in> set (pa_state a) \<union> set (pa_next_state a). 0 \<le> x \<and> x \<le> 1)"

text \<open>
  A policy answers for an environment when it does not raise on the observations of
  environments with the same configuration: vectors of the right length over the unit interval.
\<close>

definition same_config :: "env \<Rightarrow> env \<Rightarrow> bool" where
  "same_config e e' \<longleftrightarrow> env_shards e' = env_shards e \<and>
     env_iot_feature_dim e' = env_iot_feature_dim e \<and> env_mechanism_version e' = env_mechanism_version e \<and>
     env_sender_pos_mode e' = env_sender_pos_mode e \<and> env_candidate_top_k e' = env_candidate_top_k e \<and>
     env_capacity_guard e' = env_capacity_guard e"

definition policy_answers :: "'p policy \<Rightarrow> env \<Rightarrow> bool" where
  "policy_answers policy e0 \<longleftrightarrow>
     (\<forall>e p s addr related info. wf_env e \<and> same_config e0 e \<and>
        input_dim (int (env_shards e0)) (int (env_iot_feature_dim e0)) (env_mechanism_version e0) None
          = Inr (int (length s)) \<and> (\<forall>x\<in>set s. 0 \<le> x \<and> x \<le> 1) \<and> length (sp_sender_pos info) = env_shards e0 \<longrightarrow>
        (\<exists>out. policy e p s addr related info = Inr out))"

lemma length_sender_pos [simp]: "length (sp_sender_pos (build_sender_pos e addr f bp br)) = env_shards e"
  using build_sender_pos_distribution [of e addr f bp br] by (simp add: pos_distribution_def)

lemma place_address_new:
  assumes wf: "wf_env e" and new: "rq_addr rq \<noteq> []" "addr_shard e (rq_addr rq) = None"
    and cfg: "same_config e0 e"
  shows "(\<not> policy_answers policy e0 \<and> (\<exists>x. place_address policy br bid rq (e, bp, p) = Inl x)) \<or>
         (\<exists>a p'. place_address policy br bid rq (e, bp, p) =
           Inr (Some a,
                e\<lparr>current_cost_vector := cost_vector e (rq_addr rq),
                  addr_shard := (addr_shard e)(rq_addr rq \<mapsto> pa_action a),
                  shard_load := bump (pa_action a) 1 (shard_load e)\<rparr>,
                bp(rq_addr rq \<mapsto> pa_action a), p') \<and> placed_ok e rq a \<and> pa_batch_id a = bid)"
proof -
  let ?addr = "rq_addr rq"
  let ?e = "e\<lparr>current_cost_vector := cost_vector e ?addr\<rparr>"
  let ?n = "env_shards e"
  have wfe: "wf_env ?e" using wf by (simp add: wf_env_cost_vector)
  have n: "0 < env_shards ?e" using wf_env_shards [OF wfe] .
  let ?info = "build_sender_pos ?e ?addr (rq_fallback rq) bp br"
  let ?flag = "\<lambda>i. address_flag_from_related_count (sp_related_count i)"
  obtain s where s: "build_state_from_sender_pos ?e (sp_sender_pos ?info) (?flag ?info) (rq_features rq) = Inr s"
      "input_dim (int ?n) (int (env_iot_feature_dim e)) (env_mechanism_version e) None = Inr (int (length s))"
      "\<forall>x\<in>set s. 0 \<le> x \<and> x \<le> 1"
    using build_state_total [OF wfe] by fastforce
  let ?m = "build_candidate_action_mask ?e ?addr (sp_sender_pos ?info)"
  have m: "zero_one_mask ?n ?m" using candidate_mask_zero_one [OF n] by simp
  let ?info' = "?info\<lparr>sp_action_mask := ?m\<rparr>"
  let ?pol = "policy ?e p s ?addr (sp_related_summary ?info') ?info'"
  show ?thesis
  proof (cases ?pol)
    case (Inl x)
    then have "place_address policy br bid rq (e, bp, p) = Inl x"
      unfolding place_address_def Let_def prod.case
      by (simp only: new s(1) bind_result.simps prod.case not_None_eq ex_simps simp_thms if_False)
    moreover have "\<not> policy_answers policy e0"
    proof
      assume "policy_answers policy e0"
      then have "\<exists>out. ?pol = Inr out"
        unfolding policy_answers_def
        by (rule allE [of _ ?e]) (use wfe cfg s(2,3) in \<open>auto simp: same_config_def\<close>)
      then show False using Inl by simp
    qed
    ultimately show ?thesis by blast
  next
    case (Inr rp)
    obtain raw p' where pol: "?pol = Inr (raw, p')" using Inr by (cases rp) simp
    let ?out = "safe_policy_output ?e raw ?addr (sp_sender_pos ?info') ?m"
    let ?c = "nat (po_action ?out)"
    note ok = safe_policy_output_allowed
      [OF n, where out = raw and addr = ?addr and pos = "sp_sender_pos ?info'" and m = ?m]
    have c: "?c < ?n" using ok by simp
    have mc: "?m ! ?c = 1"
      using ok m by (simp add: action_allowed_iff zero_one_normalized)
    let ?e' = "?e\<lparr>addr_shard := (addr_shard ?e)(?addr \<mapsto> ?c), shard_load := bump ?c 1 (shard_load ?e)\<rparr>"
    have wfe': "wf_env ?e'" using wf_env_place [OF wfe] c by simp
    let ?next = "build_sender_pos ?e' ?addr (rq_fallback rq) (bp(?addr \<mapsto> ?c)) br"
    obtain t where t: "build_state_from_sender_pos ?e' (sp_sender_pos ?next) (?flag ?next) (rq_features rq) = Inr t"
        "input_dim (int ?n) (int (env_iot_feature_dim e)) (env_mechanism_version e) None = Inr (int (length t))"
        "\<forall>x\<in>set t. 0 \<le> x \<and> x \<le> 1"
      using build_state_total [OF wfe'] by fastforce
    have len: "length t = length s" using s(2) t(2) by simp
    let ?mean = "if shard_load ?e \<noteq> []
                 then real (sum_list (shard_load ?e)) / real (length (shard_load ?e)) else 0"
    let ?a = "placement_record bid ?addr ?e ?info' ?out s t (shard_load ?e ! ?c) ?mean
                (placement_local_reward ?e ?info' ?c (shard_load ?e ! ?c) ?mean (rq_cost rq))"
    have pa: "pa_action ?a = ?c" by (rule placement_record_simps)
    have "place_address policy br bid rq (e, bp, p) = Inr (Some ?a, ?e', bp(?addr \<mapsto> ?c), p')"
      unfolding place_address_def Let_def prod.case
      by (simp only: new s(1) t(1) pol bind_result.simps prod.case not_None_eq ex_simps
          simp_thms if_False)
    moreover have "placed_ok e rq ?a"
      unfolding placed_ok_def placement_record_simps
      using s(2,3) t(3) len m c mc by auto
    moreover have "pa_batch_id ?a = bid" by (rule placement_record_simps)
    ultimately show ?thesis using pa by (intro disjI2 exI [of _ ?a] exI [of _ p']) simp
  qed
qed

lemma place_address_known:
  assumes "rq_addr rq = [] \<or> addr_shard e (rq_addr rq) \<noteq> None"
  shows "place_address policy br bid rq (e, bp, p) = Inr (None, e, bp, p)"
  using assms by (simp add: place_address_def Let_def)

end
