(* ===== verification/OfflineBatch.thy ===== *)
theory OfflineBatch
  imports OfflineEnv
begin

text \<open>
  One transaction batch of \<open>SpringOfflineEnv\<close>: the execution loads of the batch
  (\<open>_simulate_batch_loads\<close>), the block-capacity backlog (\<open>_apply_capacity_backlog\<close>), the
  temporal neighbour memory, the order of the placements, the shaping of the action rewards
  and \<open>run_batch\<close>, which composes them. An exception of the code is the \<open>Inl\<close> branch; the
  state of an environment whose batch raised is not used again by any caller.
\<close>

section \<open>Execution loads\<close>

record load_sim =
  bl_stage_loads :: "nat list"
  bl_effective_loads :: "real list"
  bl_cross_loads :: "real list"
  bl_owner_loads :: "nat list"
  bl_relation_effective_loads :: "real list"
  bl_relation_cross_loads :: "real list"
  bl_total_inner :: nat
  bl_total_relay1 :: nat
  bl_total_relay2 :: nat
  bl_communication_cost :: real

definition empty_sim :: "nat \<Rightarrow> load_sim" where
  "empty_sim n = \<lparr>bl_stage_loads = replicate n 0, bl_effective_loads = replicate n 0,
     bl_cross_loads = replicate n 0, bl_owner_loads = replicate n 0,
     bl_relation_effective_loads = replicate n 0, bl_relation_cross_loads = replicate n 0,
     bl_total_inner = 0, bl_total_relay1 = 0, bl_total_relay2 = 0, bl_communication_cost = 0\<rparr>"

text \<open>The shard of an address; an unknown address is hashed and remembered.\<close>

definition ensure_shard :: "nat \<Rightarrow> string \<Rightarrow> (string \<rightharpoonup> nat) \<Rightarrow> nat \<times> (string \<rightharpoonup> nat)" where
  "ensure_shard n addr m =
     (case m addr of
        Some s \<Rightarrow> (s, m)
      | None \<Rightarrow> (let s = addr2shard addr n in (s, m(addr \<mapsto> s))))"

definition relation_step ::
  "nat \<Rightarrow> nat \<Rightarrow> string \<times> real \<Rightarrow> (string \<rightharpoonup> nat) \<times> load_sim \<Rightarrow> (string \<rightharpoonup> nat) \<times> load_sim" where
  "relation_step n sender_shard aw st =
     (case st of (m, sim) \<Rightarrow>
      let (anchor_shard, m') = ensure_shard n (fst aw) m; w = snd aw in
      if sender_shard = anchor_shard then
        (m', sim\<lparr>bl_relation_effective_loads :=
                   bump sender_shard w (bl_relation_effective_loads sim)\<rparr>)
      else
        (m', sim\<lparr>bl_relation_effective_loads :=
                   bump anchor_shard (0.5 * w)
                     (bump sender_shard (0.5 * w) (bl_relation_effective_loads sim)),
                 bl_relation_cross_loads :=
                   bump anchor_shard (0.5 * w)
                     (bump sender_shard (0.5 * w) (bl_relation_cross_loads sim))\<rparr>))"

definition execute_stage :: "nat \<Rightarrow> nat \<Rightarrow> load_sim \<Rightarrow> load_sim" where
  "execute_stage sender_shard recipient_shard sim =
     (let sim = sim\<lparr>bl_owner_loads := bump recipient_shard 1 (bl_owner_loads sim),
                    bl_stage_loads := bump sender_shard 1 (bl_stage_loads sim)\<rparr>
      in if sender_shard = recipient_shard then
           sim\<lparr>bl_effective_loads := bump sender_shard 1 (bl_effective_loads sim),
               bl_total_inner := bl_total_inner sim + 1\<rparr>
         else
           sim\<lparr>bl_stage_loads := bump recipient_shard 1 (bl_stage_loads sim),
               bl_effective_loads :=
                 bump recipient_shard 0.5 (bump sender_shard 0.5 (bl_effective_loads sim)),
               bl_cross_loads :=
                 bump recipient_shard 0.5 (bump sender_shard 0.5 (bl_cross_loads sim)),
               bl_total_relay1 := bl_total_relay1 sim + 1,
               bl_total_relay2 := bl_total_relay2 sim + 1\<rparr>)"

definition cost_factor :: "env \<Rightarrow> nat \<Rightarrow> nat \<Rightarrow> real" where
  "cost_factor e sender_shard recipient_shard =
     (if env_mechanism_version e = ''v3''
      then (if env_scene_cost_mode e = ''cross''
            then (if sender_shard \<noteq> recipient_shard then 1 else 0) else 0)
      else 1)"

definition simulate_tx ::
  "env \<Rightarrow> real tx \<Rightarrow> (string \<rightharpoonup> nat) \<times> load_sim \<Rightarrow> (string \<rightharpoonup> nat) \<times> load_sim" where
  "simulate_tx e tx st =
     (case st of (m, sim) \<Rightarrow>
      let n = env_shards e;
          (sender_shard, m) = ensure_shard n (tx_sender tx) m;
          (recipient_shard, m) = ensure_shard n (tx_recipient tx) m;
          sim = execute_stage sender_shard recipient_shard sim;
          (m, sim) = fold (relation_step n sender_shard) (tx_related_weight_pairs tx) (m, sim)
      in (m, sim\<lparr>bl_communication_cost := bl_communication_cost sim
                   + tx_cost_weight tx * cost_factor e sender_shard recipient_shard\<rparr>))"

definition simulate_batch_loads :: "env \<Rightarrow> real tx list \<Rightarrow> load_sim \<times> env" where
  "simulate_batch_loads e txs =
     (let (m, sim) = fold (simulate_tx e) txs (addr_shard e, empty_sim (env_shards e))
      in (sim\<lparr>bl_communication_cost :=
                clamp (bl_communication_cost sim / real (max 1 (length txs))) 0 1\<rparr>,
          e\<lparr>addr_shard := m\<rparr>))"

section \<open>Block capacity and backlog\<close>

record capacity_sim =
  cs_reward_loads :: "real list"
  cs_committed_stage_loads :: "real list"
  cs_committed_effective_loads :: "real list"
  cs_committed_cross_loads :: "real list"
  cs_pending_stage_loads :: "real list"
  cs_backlog_penalty :: real

definition nth0 :: "real list \<Rightarrow> nat \<Rightarrow> real" where
  "nth0 xs sid = (if sid < length xs then xs ! sid else 0)"

definition pressure :: "real list \<Rightarrow> real list \<Rightarrow> nat \<Rightarrow> real" where
  "pressure pending incoming sid = max 0 (nth0 pending sid + nth0 incoming sid)"

definition commit_ratio :: "real \<Rightarrow> real \<Rightarrow> real" where
  "commit_ratio capacity stage_pressure =
     (if stage_pressure > EPS then min stage_pressure capacity / (stage_pressure + EPS) else 0)"

definition apply_capacity_backlog ::
  "env \<Rightarrow> real list \<Rightarrow> real list \<Rightarrow> real list \<Rightarrow> capacity_sim \<times> env" where
  "apply_capacity_backlog e stage_loads effective_loads cross_loads =
     (let n = env_shards e in
      if env_capacity_backlog_mode e = 0 then
        (\<lparr>cs_reward_loads = (if env_mechanism_version e = ''v3'' then stage_loads else effective_loads),
          cs_committed_stage_loads = stage_loads,
          cs_committed_effective_loads = effective_loads,
          cs_committed_cross_loads = cross_loads,
          cs_pending_stage_loads = replicate n 0, cs_backlog_penalty = 0\<rparr>, e)
      else
        (let capacity = real_of_int (max 1 (env_max_block_size e));
             stage_p = pressure (pending_loads e) stage_loads;
             effective_p = pressure (pending_effective_loads e) effective_loads;
             cross_p = pressure (pending_cross_loads e) cross_loads;
             committed_stage = (\<lambda>sid. min (stage_p sid) capacity);
             ratio = (\<lambda>sid. commit_ratio capacity (stage_p sid));
             next_pending_stage = map (\<lambda>sid. max 0 (stage_p sid - committed_stage sid)) [0..<n];
             next_pending_effective =
               map (\<lambda>sid. max 0 (effective_p sid - effective_p sid * ratio sid)) [0..<n];
             next_pending_cross =
               map (\<lambda>sid. max 0 (cross_p sid - cross_p sid * ratio sid)) [0..<n];
             pending_total = sum_list next_pending_stage;
             incoming_total = sum_list stage_loads;
             capacity_total = capacity * real n
         in (\<lparr>cs_reward_loads = map effective_p [0..<n],
              cs_committed_stage_loads = map committed_stage [0..<n],
              cs_committed_effective_loads = map (\<lambda>sid. effective_p sid * ratio sid) [0..<n],
              cs_committed_cross_loads = map (\<lambda>sid. cross_p sid * ratio sid) [0..<n],
              cs_pending_stage_loads = next_pending_stage,
              cs_backlog_penalty =
                clamp (pending_total / (incoming_total + capacity_total + EPS)) 0 1\<rparr>,
             e\<lparr>pending_loads := next_pending_stage,
               pending_effective_loads := next_pending_effective,
               pending_cross_loads := next_pending_cross\<rparr>)))"

section \<open>Relations kept across and within batches\<close>

definition add_edge ::
  "string \<Rightarrow> string \<Rightarrow> 'a::plus \<Rightarrow> (string \<Rightarrow> (string \<times> 'a) list) \<Rightarrow> (string \<Rightarrow> (string \<times> 'a) list)" where
  "add_edge a b d rel = rel(a := counter_add b d (rel a))"

definition update_temporal_neighbors :: "'f tx list \<Rightarrow> env \<Rightarrow> env" where
  "update_temporal_neighbors txs e =
     (if env_sender_pos_mode e \<noteq> 2 then e
      else e\<lparr>temporal_neighbors :=
        fold (\<lambda>tx rel. fold (\<lambda>anchor rel. add_edge anchor (tx_sender tx) 1
                                         (add_edge (tx_sender tx) anchor 1 rel))
                        (tx_related_addresses tx) rel)
          txs (temporal_neighbors e)\<rparr>)"

definition batch_cost_relations :: "env \<Rightarrow> real tx list \<Rightarrow> string \<Rightarrow> (string \<times> real) list" where
  "batch_cost_relations e txs =
     (if env_mechanism_version e = ''v3'' then
        fold (\<lambda>tx rel. if tx_sender tx \<noteq> tx_recipient tx
                       then add_edge (tx_recipient tx) (tx_sender tx) (tx_cost_weight tx)
                              (add_edge (tx_sender tx) (tx_recipient tx) (tx_cost_weight tx) rel)
                       else rel)
          txs (\<lambda>_. [])
      else (\<lambda>_. []))"

definition seed_anchor :: "nat \<Rightarrow> string \<Rightarrow> (string \<rightharpoonup> nat) \<Rightarrow> (string \<rightharpoonup> nat)" where
  "seed_anchor n anchor m =
     (if anchor \<noteq> [] \<and> m anchor = None then m(anchor \<mapsto> addr2shard anchor n) else m)"

definition seed_iot_anchor_shards :: "'f tx list \<Rightarrow> env \<Rightarrow> env" where
  "seed_iot_anchor_shards txs e =
     e\<lparr>addr_shard := fold (\<lambda>tx m. fold (seed_anchor (env_shards e)) (tx_related_addresses tx) m)
                       txs (addr_shard e)\<rparr>"

section \<open>The placements of a batch\<close>

definition batch_real_accounts :: "'f tx list \<Rightarrow> bool" where
  "batch_real_accounts txs = (case txs of [] \<Rightarrow> False | tx # _ \<Rightarrow> tx_real_accounts tx)"

definition batch_check :: "env \<Rightarrow> 'f tx list \<Rightarrow> unit result" where
  "batch_check e txs =
     (let real_accounts = batch_real_accounts txs in
      if env_mechanism_version e = ''v3'' \<and> \<not> real_accounts then raise ValueError
      else if list_ex (\<lambda>tx. tx_real_accounts tx \<noteq> real_accounts) txs then raise ValueError
      else if real_accounts \<and> env_sender_pos_mode e \<notin> {0, 1} then raise ValueError
      else return ())"

definition plain_request :: "string \<Rightarrow> string option \<Rightarrow> request" where
  "plain_request addr fallback_related =
     \<lparr>rq_addr = addr, rq_fallback = fallback_related, rq_features = None, rq_cost = 0\<rparr>"

text \<open>The order in which \<open>run_batch\<close> asks for placements, one branch per loop of the code.\<close>

definition batch_requests :: "env \<Rightarrow> real tx list \<Rightarrow> request list result" where
  "batch_requests e txs =
     (if batch_real_accounts txs then
        bind_result (batch_account_scenes txs) (\<lambda>scenes.
          let placements =
                (if env_sender_pos_mode e = 1
                 then map (\<lambda>tx. (tx_sender tx, None)) txs
                      @ map (\<lambda>tx. (tx_recipient tx, Some (tx_sender tx))) txs
                 else concat (map (\<lambda>tx. [(tx_sender tx, Some (tx_recipient tx)),
                                         (tx_recipient tx, Some (tx_sender tx))]) txs))
          in traverse (\<lambda>(address, related).
               case map_of scenes address of
                 None \<Rightarrow> raise KeyError
               | Some (features, cost) \<Rightarrow>
                   return \<lparr>rq_addr = address, rq_fallback = related,
                           rq_features = Some features, rq_cost = cost\<rparr>) placements)
      else if env_iot_feature_dim e > 0 then
        return (map (\<lambda>tx. \<lparr>rq_addr = tx_sender tx, rq_fallback = Some (tx_recipient tx),
                           rq_features = Some (tx_iot_features tx),
                           rq_cost = tx_cost_weight tx\<rparr>) txs)
      else if env_sender_pos_mode e = 1 then
        return (map (\<lambda>tx. plain_request (tx_sender tx) None) txs
                @ map (\<lambda>tx. plain_request (tx_recipient tx) (Some (tx_sender tx))) txs)
      else
        return (concat (map (\<lambda>tx. [plain_request (tx_sender tx) (Some (tx_recipient tx)),
                                   plain_request (tx_recipient tx) (Some (tx_sender tx))]) txs)))"

fun place_all ::
  "'p policy \<Rightarrow> (string \<Rightarrow> string set) \<Rightarrow> nat \<Rightarrow> request list \<Rightarrow> env \<times> (string \<rightharpoonup> nat) \<times> 'p \<Rightarrow>
     placement_action list \<Rightarrow>
     (placement_action list \<times> env \<times> (string \<rightharpoonup> nat) \<times> 'p) result" where
  "place_all policy br bid [] st actions = Inr (actions, st)"
| "place_all policy br bid (rq # rqs) st actions =
     bind_result (place_address policy br bid rq st) (\<lambda>(a, st').
       place_all policy br bid rqs st'
         (case a of None \<Rightarrow> actions | Some act \<Rightarrow> actions @ [act]))"

section \<open>Shaping the action rewards\<close>

definition effective_local_weight :: "env \<Rightarrow> real" where
  "effective_local_weight e =
     (if reward_mode (env_params e) \<in> set IOT_DENSE_REWARD_MODES \<and> env_iot_feature_dim e > 0
      then max (env_local_reward_weight e) 0.65 else env_local_reward_weight e)"

definition shaped_reward :: "env \<Rightarrow> real \<Rightarrow> nat \<Rightarrow> nat \<Rightarrow> placement_action \<Rightarrow> real" where
  "shaped_reward e block_signal count action_index a =
     (let local_signal = clamp (pa_local_reward a) (-1) 1;
          w = effective_local_weight e;
          scale = env_action_reward_scale e
      in if env_mechanism_version e = ''v3'' then
           scale * w * local_signal / real count
           + (if Suc action_index = count then scale * (1 - w) * block_signal else 0)
         else scale * clamp (w * local_signal + (1 - w) * block_signal) (-1) 1)"

definition shape_actions :: "env \<Rightarrow> real \<Rightarrow> placement_action list \<Rightarrow> placement_action list" where
  "shape_actions e block_signal actions =
     map (\<lambda>(i, a). a\<lparr>pa_reward := shaped_reward e block_signal (length actions) i a,
                     pa_done := (env_mechanism_version e = ''legacy'' \<and> Suc i = length actions)\<rparr>)
       (enumerate 0 actions)"

definition shard_hist :: "nat \<Rightarrow> nat list \<Rightarrow> nat list" where
  "shard_hist n sids = fold (\<lambda>sid h. if sid < n then bump sid 1 h else h) sids (replicate n 0)"

section \<open>Batch metrics\<close>

record batch_metrics =
  bm_batch_id :: nat
  bm_tx_count :: nat
  bm_action_count :: nat
  bm_total_tx :: nat
  bm_total_inner :: nat
  bm_total_relay1 :: nat
  bm_total_relay2 :: nat
  bm_parts :: reward_parts
  bm_reward :: real
  bm_loads :: "nat list"
  bm_effective_loads :: "real list"
  bm_owner_loads :: "nat list"
  bm_relation_effective_loads :: "real list"
  bm_relation_cross_loads :: "real list"
  bm_relation_cross_rate :: real
  bm_owner_max_load_share :: real
  bm_stage_max_load_share :: real
  bm_stage_max_load_per_tx :: real
  bm_per_shard_capacity_tps :: real
  bm_owner_anchor_tps_ceiling :: real
  bm_system_stage_tps_ceiling :: real
  bm_load_semantics_version :: string
  bm_reward_loads :: "real list"
  bm_committed_stage_loads :: "real list"
  bm_committed_loads :: "real list"
  bm_pending_loads :: "real list"
  bm_cross_loads :: "real list"
  bm_action_hist :: "nat list"
  bm_related_known_count :: nat
  bm_same_as_related_count :: nat
  bm_local_reward_mean :: real
  bm_action_reward_mean :: real
  bm_confidence_mean :: real
  bm_entropy_mean :: real
  bm_related_shard_hist :: "nat list"
  bm_same_related_by_shard :: "nat list"
  bm_related_follow_by_shard :: "real list"
  bm_min_related_follow_ratio :: real

definition V2_LOAD_SEMANTICS :: string where
  "V2_LOAD_SEMANTICS = ''real_accounts_execution_v2_1''"

definition mean_of :: "('a \<Rightarrow> real) \<Rightarrow> 'a list \<Rightarrow> real" where
  "mean_of f xs = (if xs \<noteq> [] then sum_list (map f xs) / real (length xs) else 0)"

definition collect_metrics ::
  "env \<Rightarrow> 'f tx list \<Rightarrow> placement_action list \<Rightarrow> load_sim \<Rightarrow> capacity_sim \<Rightarrow> real \<Rightarrow> reward_parts \<Rightarrow>
     batch_metrics" where
  "collect_metrics e txs actions sim cap reward parts =
     (let n = env_shards e;
          known = filter pa_related_known actions;
          same = filter pa_same_as_related actions;
          in_range = (\<lambda>a. 0 \<le> pa_related_shard a \<and> pa_related_shard a < int n);
          related_hist = shard_hist n (map (nat \<circ> pa_related_shard) (filter in_range known));
          same_hist = shard_hist n (map (nat \<circ> pa_related_shard) (filter in_range same));
          follow = map (\<lambda>sid. if related_hist ! sid \<noteq> 0
                              then real (same_hist ! sid) / real (related_hist ! sid) else 0) [0..<n];
          observed = map (\<lambda>sid. follow ! sid) (filter (\<lambda>sid. related_hist ! sid > 0) [0..<n]);
          rel_eff = sum_list (bl_relation_effective_loads sim);
          rel_cross = sum_list (bl_relation_cross_loads sim);
          owner_max = max_load_share (map real (bl_owner_loads sim));
          stage_max = max_load_share (map real (bl_stage_loads sim));
          stage_per_tx = (if bl_stage_loads sim \<noteq> []
             then list_max (map real (bl_stage_loads sim)) / real (max 1 (length txs)) else 0)
      in \<lparr>bm_batch_id = batch_id e, bm_tx_count = length txs, bm_action_count = length actions,
          bm_total_tx = bl_total_inner sim + bl_total_relay1 sim + bl_total_relay2 sim,
          bm_total_inner = bl_total_inner sim, bm_total_relay1 = bl_total_relay1 sim,
          bm_total_relay2 = bl_total_relay2 sim, bm_parts = parts, bm_reward = reward,
          bm_loads = bl_stage_loads sim,
          bm_effective_loads = cs_committed_effective_loads cap,
          bm_owner_loads = bl_owner_loads sim,
          bm_relation_effective_loads = bl_relation_effective_loads sim,
          bm_relation_cross_loads = bl_relation_cross_loads sim,
          bm_relation_cross_rate = (if rel_eff > EPS then rel_cross / rel_eff else 0),
          bm_owner_max_load_share = owner_max, bm_stage_max_load_share = stage_max,
          bm_stage_max_load_per_tx = stage_per_tx,
          bm_per_shard_capacity_tps = env_per_shard_capacity_tps e,
          bm_owner_anchor_tps_ceiling =
            tps_ceiling_from_load_per_tx (env_per_shard_capacity_tps e) owner_max,
          bm_system_stage_tps_ceiling =
            tps_ceiling_from_load_per_tx (env_per_shard_capacity_tps e) stage_per_tx,
          bm_load_semantics_version =
            (if batch_real_accounts txs then V2_LOAD_SEMANTICS else LOAD_SEMANTICS_VERSION),
          bm_reward_loads = cs_reward_loads cap,
          bm_committed_stage_loads = cs_committed_stage_loads cap,
          bm_committed_loads = cs_committed_effective_loads cap,
          bm_pending_loads = cs_pending_stage_loads cap,
          bm_cross_loads = cs_committed_cross_loads cap,
          bm_action_hist = shard_hist n (map pa_action actions),
          bm_related_known_count = length known, bm_same_as_related_count = length same,
          bm_local_reward_mean = mean_of pa_local_reward actions,
          bm_action_reward_mean = mean_of pa_reward actions,
          bm_confidence_mean = mean_of pa_confidence actions,
          bm_entropy_mean = mean_of pa_entropy actions,
          bm_related_shard_hist = related_hist, bm_same_related_by_shard = same_hist,
          bm_related_follow_by_shard = follow,
          bm_min_related_follow_ratio = (if observed \<noteq> [] then list_min observed else 0)\<rparr>)"

section \<open>One batch\<close>

text \<open>The placement phase: checks, relations, anchors, requests, placements.\<close>

definition place_batch ::
  "'p policy \<Rightarrow> env \<Rightarrow> real tx list \<Rightarrow> 'p \<Rightarrow>
     (placement_action list \<times> env \<times> (string \<rightharpoonup> nat) \<times> 'p) result" where
  "place_batch policy e0 txs p =
     bind_result (batch_check e0 txs) (\<lambda>_.
       let e = e0\<lparr>batch_id := batch_id e0 + 1, cost_relations := batch_cost_relations e0 txs\<rparr>;
           legacy_iot = (env_iot_feature_dim e > 0 \<and> \<not> batch_real_accounts txs);
           batch_related = (if legacy_iot then build_iot_batch_related txs
                            else build_batch_related e txs);
           e = (if legacy_iot then seed_iot_anchor_shards txs e else e)
       in bind_result (batch_requests e txs) (\<lambda>rqs.
            place_all policy batch_related (batch_id e) rqs (e, Map.empty, p) []))"

text \<open>\<open>deque(maxlen=5).append\<close>.\<close>

definition push_window :: "window \<Rightarrow> window list \<Rightarrow> window list" where
  "push_window w ws = (let ws = ws @ [w] in drop (length ws - 5) ws)"

definition run_batch ::
  "'p policy \<Rightarrow> env \<Rightarrow> real tx list \<Rightarrow> 'p \<Rightarrow>
     (placement_action list \<times> batch_metrics \<times> env \<times> 'p) result" where
  "run_batch policy e0 txs p =
     bind_result (place_batch policy e0 txs p) (\<lambda>(actions, e, _, p').
       let (sim, e) = simulate_batch_loads e txs;
           (cap, e) = apply_capacity_backlog e (map real (bl_stage_loads sim))
                        (bl_effective_loads sim) (bl_cross_loads sim)
       in bind_result
            (spring_reward (env_params e) (cs_committed_effective_loads cap)
               (cs_committed_cross_loads cap) (Some (cs_reward_loads cap))
               (cs_backlog_penalty cap) (bl_communication_cost sim))
            (\<lambda>(reward, parts).
               let e = e\<lparr>recent_stats := push_window
                          \<lparr>w_num = cs_committed_stage_loads cap,
                           w_cross = cs_committed_cross_loads cap\<rparr> (recent_stats e)\<rparr>;
                   e = update_temporal_neighbors txs e;
                   actions = shape_actions e (clamp reward (-1) 1) actions
               in return (actions, collect_metrics e txs actions sim cap reward parts, e, p')))"

end
