(* ===== verification/BatchInvariant.thy ===== *)
theory BatchInvariant
  imports EnvInvariant OfflineBatch
begin

text \<open>
  What a batch guarantees: the assignment of addresses to shards only grows and stays in
  range (every loop that extends it is an instance of the loop contract), the execution loads
  account for every transaction exactly once, the backlog conserves load and never commits
  more than the block capacity, and \<open>run_batch\<close> keeps the environment well-formed.
\<close>

section \<open>The assignment only grows\<close>

definition shards_in :: "nat \<Rightarrow> (string \<rightharpoonup> nat) \<Rightarrow> bool" where
  "shards_in n m \<longleftrightarrow> 0 < n \<and> (\<forall>a s. m a = Some s \<longrightarrow> s < n)"

lemma shards_in_upd: "shards_in n m \<Longrightarrow> s < n \<Longrightarrow> shards_in n (m(a \<mapsto> s))"
  by (simp add: shards_in_def)

lemma shards_in_hash: "shards_in n m \<Longrightarrow> shards_in n (m(a \<mapsto> addr2shard a n))"
  by (rule shards_in_upd) (simp_all add: shards_in_def)

lemma wf_env_shards_in: "wf_env e \<Longrightarrow> shards_in (env_shards e) (addr_shard e)"
  by (simp add: wf_env_def wf_config_def shards_in_def Let_def)

lemma seed_anchor_in: "shards_in n m \<Longrightarrow> shards_in n (seed_anchor n a m)"
  by (simp add: seed_anchor_def shards_in_hash)

lemma seed_anchor_le: "m \<subseteq>\<^sub>m seed_anchor n a m"
  by (simp add: seed_anchor_def map_le_upd_fresh)

interpretation seed_one: loop_contract "seed_anchor n" "shards_in n" "(\<subseteq>\<^sub>m)" for n
  by unfold_locales (auto intro: seed_anchor_in seed_anchor_le map_le_trans)

interpretation seed_txs: loop_contract
  "\<lambda>tx m. fold (seed_anchor n) (tx_related_addresses tx) m" "shards_in n" "(\<subseteq>\<^sub>m)" for n
  by unfold_locales (auto intro: seed_one.fold_inv seed_one.fold_grows map_le_trans)

lemma ensure_shard_spec:
  assumes "shards_in n m" and "ensure_shard n a m = (s, m')"
  shows "s < n" and "shards_in n m'" and "m \<subseteq>\<^sub>m m'" and "m' a = Some s"
proof -
  have n: "0 < n" using assms(1) by (simp add: shards_in_def)
  show "s < n"
    using assms n by (auto simp: ensure_shard_def Let_def shards_in_def split: option.splits)
  show "shards_in n m'"
    using assms shards_in_hash [OF assms(1)]
    by (auto simp: ensure_shard_def Let_def split: option.splits)
  show "m \<subseteq>\<^sub>m m'" "m' a = Some s"
    using assms(2) by (auto simp: ensure_shard_def Let_def map_le_upd_fresh split: option.splits)
qed

section \<open>Execution loads\<close>

text \<open>Vectors of the right length; cross loads below effective loads, shard by shard.\<close>

definition sim_shape :: "nat \<Rightarrow> load_sim \<Rightarrow> bool" where
  "sim_shape n sim \<longleftrightarrow>
     length (bl_stage_loads sim) = n \<and> length (bl_owner_loads sim) = n \<and>
     nonneg_vec n (bl_effective_loads sim) \<and> nonneg_vec n (bl_cross_loads sim) \<and>
     nonneg_vec n (bl_relation_effective_loads sim) \<and>
     nonneg_vec n (bl_relation_cross_loads sim) \<and>
     list_all2 (\<le>) (bl_cross_loads sim) (bl_effective_loads sim) \<and>
     list_all2 (\<le>) (bl_relation_cross_loads sim) (bl_relation_effective_loads sim)"

text \<open>The accounting of \<open>k\<close> executed transactions.\<close>

definition sim_account :: "nat \<Rightarrow> load_sim \<Rightarrow> bool" where
  "sim_account k sim \<longleftrightarrow>
     bl_total_relay1 sim = bl_total_relay2 sim \<and>
     bl_total_inner sim + bl_total_relay1 sim = k \<and>
     sum_list (bl_stage_loads sim) = bl_total_inner sim + 2 * bl_total_relay1 sim \<and>
     sum_list (bl_owner_loads sim) = k \<and>
     sum_list (bl_effective_loads sim) = real k \<and>
     sum_list (bl_cross_loads sim) = real (bl_total_relay1 sim)"

lemma nonneg_vec_bump: "nonneg_vec n v \<Longrightarrow> 0 \<le> d \<Longrightarrow> nonneg_vec n (bump i d v)"
  using bump_nonneg [of v d i] by (simp add: nonneg_vec_def)

lemma empty_sim_ok: "sim_shape n (empty_sim n)" "sim_account 0 (empty_sim n)"
  by (simp_all add: sim_shape_def sim_account_def empty_sim_def sum_list_replicate list_all2_refl)

lemma execute_stage_shape:
  assumes "sim_shape n sim"
  shows "sim_shape n (execute_stage s r sim)"
proof (cases "s = r")
  case True
  then show ?thesis
    using assms by (auto simp: sim_shape_def execute_stage_def Let_def
      intro!: nonneg_vec_bump list_all2_bump_right)
next
  case False
  then show ?thesis
    using assms by (auto simp: sim_shape_def execute_stage_def Let_def
      intro!: nonneg_vec_bump list_all2_bump)
qed

lemma execute_stage_account:
  assumes "sim_shape n sim" and "sim_account k sim" and "s < n" and "r < n"
  shows "sim_account (Suc k) (execute_stage s r sim)"
  using assms
  by (auto simp: sim_account_def sim_shape_def nonneg_vec_def execute_stage_def Let_def)

lemma relation_step_keeps:
  assumes "sim_shape n sim" and "shards_in n m" and "0 \<le> w"
    and "relation_step n s (a, w) (m, sim) = (m', sim')"
  shows "sim_shape n sim'" and "shards_in n m'" and "m \<subseteq>\<^sub>m m'"
    and "sim_account k sim \<Longrightarrow> sim_account k sim'"
    and "s < n \<Longrightarrow> sum_list (bl_relation_effective_loads sim') =
           sum_list (bl_relation_effective_loads sim) + w"
    and "bl_communication_cost sim' = bl_communication_cost sim"
proof -
  obtain t m1 where t: "ensure_shard n a m = (t, m1)" by force
  note es = ensure_shard_spec [OF assms(2) t]
  have len: "length (bl_relation_effective_loads sim) = n"
    using assms(1) by (simp add: sim_shape_def nonneg_vec_def)
  have sim': "m' = m1" "sim' = (if s = t
      then sim\<lparr>bl_relation_effective_loads := bump s w (bl_relation_effective_loads sim)\<rparr>
      else sim\<lparr>bl_relation_effective_loads :=
                 bump t (0.5 * w) (bump s (0.5 * w) (bl_relation_effective_loads sim)),
               bl_relation_cross_loads :=
                 bump t (0.5 * w) (bump s (0.5 * w) (bl_relation_cross_loads sim))\<rparr>)"
    using assms(4) t by (auto simp: relation_step_def Let_def split: if_splits)
  show "shards_in n m'" "m \<subseteq>\<^sub>m m'" using es sim' by simp_all
  show "sim_shape n sim'"
  proof (cases "s = t")
    case True
    then show ?thesis
      using assms(1,3) unfolding sim'
      by (auto simp: sim_shape_def intro!: nonneg_vec_bump list_all2_bump_right)
  next
    case False
    then show ?thesis
      using assms(1,3) unfolding sim'
      by (auto simp: sim_shape_def intro!: nonneg_vec_bump list_all2_bump)
  qed
  show "sim_account k sim \<Longrightarrow> sim_account k sim'"
    "bl_communication_cost sim' = bl_communication_cost sim"
    unfolding sim' by (simp_all add: sim_account_def)
  show "sum_list (bl_relation_effective_loads sim') = sum_list (bl_relation_effective_loads sim) + w"
    if "s < n"
    using that len es(1) unfolding sim' by simp
qed

lemma relation_fold_keeps:
  assumes "sim_shape n sim" and "shards_in n m" and "\<forall>(a, w)\<in>set aws. 0 \<le> w" and "s < n"
    and "fold (relation_step n s) aws (m, sim) = (m', sim')"
  shows "sim_shape n sim' \<and> shards_in n m' \<and> m \<subseteq>\<^sub>m m' \<and>
         (\<forall>k. sim_account k sim \<longrightarrow> sim_account k sim') \<and>
         sum_list (bl_relation_effective_loads sim') =
           sum_list (bl_relation_effective_loads sim) + sum_list (map snd aws) \<and>
         bl_communication_cost sim' = bl_communication_cost sim"
  using assms
proof (induction aws arbitrary: m sim)
  case Nil
  then show ?case by simp
next
  case (Cons aw aws)
  obtain a w where aw: "aw = (a, w)" by force
  obtain m1 sim1 where st: "relation_step n s (a, w) (m, sim) = (m1, sim1)" by force
  have w: "0 \<le> w" using Cons.prems(3) aw by simp
  note one = relation_step_keeps [OF Cons.prems(1,2) w st]
  have "fold (relation_step n s) aws (m1, sim1) = (m', sim')"
    using Cons.prems(5) st aw by simp
  then have "sim_shape n sim' \<and> shards_in n m' \<and> m1 \<subseteq>\<^sub>m m' \<and>
         (\<forall>k. sim_account k sim1 \<longrightarrow> sim_account k sim') \<and>
         sum_list (bl_relation_effective_loads sim') =
           sum_list (bl_relation_effective_loads sim1) + sum_list (map snd aws) \<and>
         bl_communication_cost sim' = bl_communication_cost sim1"
    using Cons.prems(3,4) one(1,2) by (intro Cons.IH) auto
  then show ?case
    using one(3-6) Cons.prems(4) aw map_le_trans by fastforce
qed

lemma tx_weights_nonneg: "\<forall>(a, w)\<in>set (tx_related_weight_pairs tx). 0 \<le> w"
  using tx_related_weight_pairs_sum(3) [of tx]
  by (cases "tx_related_addresses tx = []") (auto simp: tx_related_weight_pairs_def)

lemma simulate_tx_keeps:
  assumes "sim_shape (env_shards e) sim" and "shards_in (env_shards e) m"
    and "simulate_tx e tx (m, sim) = (m', sim')"
  shows "sim_shape (env_shards e) sim'" and "shards_in (env_shards e) m'" and "m \<subseteq>\<^sub>m m'"
    and "m' (tx_sender tx) \<noteq> None" and "m' (tx_recipient tx) \<noteq> None"
    and "sim_account k sim \<Longrightarrow> sim_account (Suc k) sim'"
proof -
  let ?n = "env_shards e"
  obtain s m1 where s: "ensure_shard ?n (tx_sender tx) m = (s, m1)" by force
  note es = ensure_shard_spec [OF assms(2) s]
  obtain r m2 where r: "ensure_shard ?n (tx_recipient tx) m1 = (r, m2)" by force
  note er = ensure_shard_spec [OF es(2) r]
  let ?sim = "execute_stage s r sim"
  obtain m3 sim3 where f: "fold (relation_step ?n s) (tx_related_weight_pairs tx) (m2, ?sim) = (m3, sim3)"
    by force
  have res: "m' = m3" "sim' = sim3\<lparr>bl_communication_cost :=
        bl_communication_cost sim3 + tx_cost_weight tx * cost_factor e s r\<rparr>"
    using assms(3) s r f by (simp_all add: simulate_tx_def Let_def)
  note rf = relation_fold_keeps [OF execute_stage_shape [OF assms(1)] er(2) tx_weights_nonneg es(1) f]
  have le: "m1 \<subseteq>\<^sub>m m3" "m2 \<subseteq>\<^sub>m m3" using rf er(3) map_le_trans by blast+
  show "m \<subseteq>\<^sub>m m'" using le(1) es(3) map_le_trans res by blast
  show "m' (tx_sender tx) \<noteq> None" "m' (tx_recipient tx) \<noteq> None"
    using map_le_lookup [OF le(1) es(4)] map_le_lookup [OF le(2) er(4)] res by simp_all
  show "sim_shape ?n sim'" "shards_in ?n m'" using rf res by (simp_all add: sim_shape_def)
  show "sim_account (Suc k) sim'" if "sim_account k sim"
    using rf execute_stage_account [OF assms(1) that es(1) er(1)] res
    by (auto simp: sim_account_def)
qed

lemma simulate_fold_keeps:
  assumes "sim_shape (env_shards e) sim" and "shards_in (env_shards e) m" and "sim_account k sim"
    and "fold (simulate_tx e) txs (m, sim) = (m', sim')"
  shows "sim_shape (env_shards e) sim' \<and> shards_in (env_shards e) m' \<and> m \<subseteq>\<^sub>m m' \<and>
         sim_account (k + length txs) sim' \<and>
         (\<forall>tx\<in>set txs. m' (tx_sender tx) \<noteq> None \<and> m' (tx_recipient tx) \<noteq> None)"
  using assms
proof (induction txs arbitrary: m sim k)
  case Nil
  then show ?case by simp
next
  case (Cons tx txs)
  obtain m1 sim1 where st: "simulate_tx e tx (m, sim) = (m1, sim1)" by force
  note one = simulate_tx_keeps [OF Cons.prems(1,2) st]
  have f: "fold (simulate_tx e) txs (m1, sim1) = (m', sim')" using Cons.prems(4) st by simp
  have ih: "sim_shape (env_shards e) sim' \<and> shards_in (env_shards e) m' \<and> m1 \<subseteq>\<^sub>m m' \<and>
         sim_account (Suc k + length txs) sim' \<and>
         (\<forall>tx\<in>set txs. m' (tx_sender tx) \<noteq> None \<and> m' (tx_recipient tx) \<noteq> None)"
    by (rule Cons.IH [OF one(1,2) one(6) [OF Cons.prems(3)] f])
  moreover have "m' (tx_sender tx) \<noteq> None" "m' (tx_recipient tx) \<noteq> None"
    using ih one(4,5) map_le_defined [of m1 m' "tx_sender tx"]
      map_le_defined [of m1 m' "tx_recipient tx"] by simp_all
  moreover have "m \<subseteq>\<^sub>m m'" using ih one(3) map_le_trans by blast
  ultimately show ?case by simp
qed

lemma simulate_batch_keeps:
  assumes "wf_env e" and "simulate_batch_loads e txs = (sim, e')"
  shows "sim_shape (env_shards e) sim" and "sim_account (length txs) sim"
    and "0 \<le> bl_communication_cost sim" and "bl_communication_cost sim \<le> 1"
    and "\<exists>m. e' = e\<lparr>addr_shard := m\<rparr> \<and> shards_in (env_shards e) m \<and> addr_shard e \<subseteq>\<^sub>m m \<and>
             (\<forall>tx\<in>set txs. m (tx_sender tx) \<noteq> None \<and> m (tx_recipient tx) \<noteq> None)"
proof -
  let ?n = "env_shards e"
  obtain m s where f: "fold (simulate_tx e) txs (addr_shard e, empty_sim ?n) = (m, s)" by force
  have res: "e' = e\<lparr>addr_shard := m\<rparr>" "sim = s\<lparr>bl_communication_cost :=
      clamp (bl_communication_cost s / real (max 1 (length txs))) 0 1\<rparr>"
    using assms(2) f by (auto simp: simulate_batch_loads_def Let_def)
  have "sim_shape ?n s \<and> shards_in ?n m \<and> addr_shard e \<subseteq>\<^sub>m m \<and> sim_account (0 + length txs) s \<and>
        (\<forall>tx\<in>set txs. m (tx_sender tx) \<noteq> None \<and> m (tx_recipient tx) \<noteq> None)"
    by (rule simulate_fold_keeps [OF empty_sim_ok(1) wf_env_shards_in [OF assms(1)] empty_sim_ok(2) f])
  then show "sim_shape ?n sim" "sim_account (length txs) sim"
    "\<exists>m. e' = e\<lparr>addr_shard := m\<rparr> \<and> shards_in ?n m \<and> addr_shard e \<subseteq>\<^sub>m m \<and>
         (\<forall>tx\<in>set txs. m (tx_sender tx) \<noteq> None \<and> m (tx_recipient tx) \<noteq> None)"
    using res by (auto simp: sim_shape_def sim_account_def)
  show "0 \<le> bl_communication_cost sim" "bl_communication_cost sim \<le> 1" using res by simp_all
qed

section \<open>Capacity and backlog\<close>

lemma commit_ratio_bounds:
  assumes "0 \<le> capacity" and "0 \<le> p"
  shows "0 \<le> commit_ratio capacity p" and "commit_ratio capacity p \<le> 1"
proof -
  have "min p capacity \<le> p + EPS" using EPS_pos by (simp add: min_le_iff_disj)
  then show "0 \<le> commit_ratio capacity p" "commit_ratio capacity p \<le> 1"
    using assms EPS_pos by (auto simp: commit_ratio_def divide_le_eq_1 intro!: divide_nonneg_nonneg)
qed

lemma pressure_nonneg [simp]: "0 \<le> pressure p i s"
  by (simp add: pressure_def)

lemma scaled_commit:
  assumes "0 \<le> x" and "0 \<le> r" and "r \<le> (1::real)"
  shows "max 0 (x - x * r) = x - x * r" and "0 \<le> x * r" and "x * r \<le> x"
  using assms mult_left_mono [of r 1 x] by (simp_all add: max_def)

lemma map_nonneg_vec: "(\<And>i. i < n \<Longrightarrow> 0 \<le> f i) \<Longrightarrow> nonneg_vec n (map f [0..<n])"
  by (auto simp: nonneg_vec_def)

lemma apply_capacity_backlog_wf:
  assumes "wf_env e" and "nonneg_vec (env_shards e) st" and "nonneg_vec (env_shards e) ef"
    and "nonneg_vec (env_shards e) cr" and "apply_capacity_backlog e st ef cr = (cap, e')"
  shows "wf_env e'" and "wf_window (env_shards e)
           \<lparr>w_num = cs_committed_stage_loads cap, w_cross = cs_committed_cross_loads cap\<rparr>"
    and "env_shards e' = env_shards e" and "addr_shard e' = addr_shard e"
    and "shard_load e' = shard_load e" and "env_params e' = env_params e"
    and "recent_stats e' = recent_stats e" and "batch_id e' = batch_id e"
proof -
  have cap_nonneg: "0 \<le> real_of_int (max 1 (env_max_block_size e))" by simp
  have r: "0 \<le> pressure p i sid * commit_ratio (real_of_int (max 1 (env_max_block_size e))) (pressure q j sid)"
    for p i q j sid
    using commit_ratio_bounds(1) [OF cap_nonneg pressure_nonneg, of q j sid] by simp
  have "(env_capacity_backlog_mode e = 0 \<and> e' = e \<and>
          cs_committed_stage_loads cap = st \<and> cs_committed_cross_loads cap = cr) \<or>
        (\<exists>ps pe pc. e' = e\<lparr>pending_loads := ps, pending_effective_loads := pe,
           pending_cross_loads := pc\<rparr> \<and> nonneg_vec (env_shards e) ps \<and>
           nonneg_vec (env_shards e) pe \<and> nonneg_vec (env_shards e) pc \<and>
           nonneg_vec (env_shards e) (cs_committed_stage_loads cap) \<and>
           nonneg_vec (env_shards e) (cs_committed_cross_loads cap))"
  proof (cases "env_capacity_backlog_mode e = 0")
    case True
    then show ?thesis using assms(5) by (auto simp: apply_capacity_backlog_def Let_def)
  next
    case False
    note d = assms(5) [unfolded apply_capacity_backlog_def Let_def if_not_P [OF False]
        prod.inject, THEN conjunct1, symmetric]
      assms(5) [unfolded apply_capacity_backlog_def Let_def if_not_P [OF False]
        prod.inject, THEN conjunct2, symmetric]
    show ?thesis
      unfolding d(2)
      by (rule disjI2, intro exI conjI, rule refl)
         (simp_all add: d(1) map_nonneg_vec r del: max.bounded_iff)
  qed
  then show "wf_env e'" "wf_window (env_shards e)
           \<lparr>w_num = cs_committed_stage_loads cap, w_cross = cs_committed_cross_loads cap\<rparr>"
    "env_shards e' = env_shards e" "addr_shard e' = addr_shard e" "shard_load e' = shard_load e"
    "env_params e' = env_params e" "recent_stats e' = recent_stats e" "batch_id e' = batch_id e"
    using assms(1-4) by (auto simp: wf_env_def wf_config_def wf_window_def Let_def)
qed

section \<open>Placements of a batch\<close>

text \<open>
  The environment after some placements: the assignment grew by the placed addresses, the
  load vector counts them, everything else but the cost vector is as before.
\<close>

definition placed_from :: "env \<Rightarrow> placement_action list \<Rightarrow> env \<Rightarrow> bool" where
  "placed_from e acts e' \<longleftrightarrow>
     wf_env e' \<and> env_shards e' = env_shards e \<and> addr_shard e \<subseteq>\<^sub>m addr_shard e' \<and>
     sum_list (shard_load e') = sum_list (shard_load e) + length acts \<and>
     distinct (map pa_address acts) \<and>
     (\<forall>a\<in>set acts. pa_address a \<noteq> [] \<and> addr_shard e (pa_address a) = None \<and>
        addr_shard e' (pa_address a) = Some (pa_action a) \<and> pa_action a < env_shards e \<and>
        zero_one_mask (env_shards e) (pa_action_mask a) \<and>
        pa_action_mask a ! pa_action a = 1) \<and>
     dom (addr_shard e') = dom (addr_shard e) \<union> pa_address ` set acts \<and>
     recent_stats e' = recent_stats e \<and> env_params e' = env_params e \<and>
     batch_id e' = batch_id e \<and> same_config e e'"

lemma placed_from_refl: "wf_env e \<Longrightarrow> placed_from e [] e"
  by (simp add: placed_from_def same_config_def)

lemma placed_from_step:
  assumes "placed_from e acts e1" and "addr_shard e1 (rq_addr rq) = None" and "rq_addr rq \<noteq> []"
    and "placed_ok e1 rq a"
    and "e2 = e1\<lparr>current_cost_vector := cost_vector e1 (rq_addr rq),
              addr_shard := (addr_shard e1)(rq_addr rq \<mapsto> pa_action a),
              shard_load := bump (pa_action a) 1 (shard_load e1)\<rparr>"
  shows "placed_from e (acts @ [a]) e2"
proof -
  have wf: "wf_env e1" using assms(1) by (simp add: placed_from_def)
  have c: "pa_action a < env_shards e1" and addr: "pa_address a = rq_addr rq"
    using assms(4) by (simp_all add: placed_ok_def)
  have len: "length (shard_load e1) = env_shards e1" using wf by (simp add: wf_env_def Let_def)
  have wf2: "wf_env e2"
    using wf_env_place [OF wf_env_cost_vector [OF wf length_cost_vector], of "pa_action a"] c assms(5)
    by simp
  have le: "addr_shard e \<subseteq>\<^sub>m addr_shard e2"
    using assms(1,2,5) map_le_trans [OF _ map_le_upd_fresh] by (auto simp: placed_from_def)
  have fresh: "addr_shard e (rq_addr rq) = None"
    using assms(1,2) map_le_defined by (fastforce simp: placed_from_def)
  have new: "rq_addr rq \<notin> pa_address ` set acts"
    using assms(1,2) by (force simp: placed_from_def)
  show ?thesis
    using assms wf2 le fresh new c len addr
    by (auto simp: placed_from_def placed_ok_def same_config_def)
qed

lemma place_address_step:
  assumes "placed_from e acts e1"
  shows "(\<not> policy_answers policy e \<and> (\<exists>x. place_address policy br bid rq (e1, bp, p) = Inl x)) \<or>
         (\<exists>a e2 bp' p'. place_address policy br bid rq (e1, bp, p) = Inr (a, e2, bp', p') \<and>
           placed_from e (case a of None \<Rightarrow> acts | Some act \<Rightarrow> acts @ [act]) e2 \<and>
           (rq_addr rq \<noteq> [] \<longrightarrow> addr_shard e2 (rq_addr rq) \<noteq> None))"
proof (cases "rq_addr rq = [] \<or> addr_shard e1 (rq_addr rq) \<noteq> None")
  case True
  then show ?thesis using assms place_address_known [OF True] by fastforce
next
  case False
  have wf: "wf_env e1" and cfg: "same_config e e1" using assms by (simp_all add: placed_from_def)
  show ?thesis
  proof (cases "\<not> policy_answers policy e \<and> (\<exists>x. place_address policy br bid rq (e1, bp, p) = Inl x)")
    case True
    then show ?thesis by (rule disjI1)
  next
    case answered: False
    obtain a p' where pl: "place_address policy br bid rq (e1, bp, p) =
             Inr (Some a,
                  e1\<lparr>current_cost_vector := cost_vector e1 (rq_addr rq),
                    addr_shard := (addr_shard e1)(rq_addr rq \<mapsto> pa_action a),
                    shard_load := bump (pa_action a) 1 (shard_load e1)\<rparr>,
                  bp(rq_addr rq \<mapsto> pa_action a), p')" and ok: "placed_ok e1 rq a"
      using place_address_new [OF wf _ _ cfg, of rq policy br bid bp p] False answered by auto
    show ?thesis
      using pl placed_from_step [OF assms _ _ ok refl] False by auto
  qed
qed

lemma place_all_total:
  assumes "placed_from e acts e1"
  shows "(\<not> policy_answers policy e \<and> (\<exists>x. place_all policy br bid rqs (e1, bp, p) acts = Inl x)) \<or>
         (\<exists>acts' e2 bp' p'. place_all policy br bid rqs (e1, bp, p) acts = Inr (acts', e2, bp', p') \<and>
           placed_from e acts' e2 \<and> addr_shard e1 \<subseteq>\<^sub>m addr_shard e2 \<and>
           (\<forall>rq\<in>set rqs. rq_addr rq \<noteq> [] \<longrightarrow> addr_shard e2 (rq_addr rq) \<noteq> None))"
  using assms
proof (induction rqs arbitrary: acts e1 bp p)
  case Nil
  then show ?case by simp
next
  case (Cons rq rqs)
  show ?case
  proof (cases "\<not> policy_answers policy e \<and> (\<exists>x. place_all policy br bid (rq # rqs) (e1, bp, p) acts = Inl x)")
    case True
    then show ?thesis by (rule disjI1)
  next
    case answered: False
    obtain a e2 bp' p' where st: "place_address policy br bid rq (e1, bp, p) = Inr (a, e2, bp', p')"
      and pf: "placed_from e (case a of None \<Rightarrow> acts | Some act \<Rightarrow> acts @ [act]) e2"
      and here: "rq_addr rq \<noteq> [] \<longrightarrow> addr_shard e2 (rq_addr rq) \<noteq> None"
      using place_address_step [OF Cons.prems, of policy br bid rq bp p] answered by auto
    obtain acts' e3 bp'' p'' where rest: "place_all policy br bid rqs (e2, bp', p')
          (case a of None \<Rightarrow> acts | Some act \<Rightarrow> acts @ [act]) = Inr (acts', e3, bp'', p'')"
      and pf': "placed_from e acts' e3" and le: "addr_shard e2 \<subseteq>\<^sub>m addr_shard e3"
      and all: "\<forall>rq\<in>set rqs. rq_addr rq \<noteq> [] \<longrightarrow> addr_shard e3 (rq_addr rq) \<noteq> None"
      using Cons.IH [OF pf, of bp' p'] answered st by auto
    have wf1: "wf_env e1" using Cons.prems by (simp add: placed_from_def)
    have "addr_shard e1 \<subseteq>\<^sub>m addr_shard e2"
    proof -
      have "placed_from e1 [] e1" using wf1 by (rule placed_from_refl)
      then obtain a' e2' where "place_address policy br bid rq (e1, bp, p) = Inr (a', e2', bp', p')"
        "addr_shard e1 \<subseteq>\<^sub>m addr_shard e2'"
        using place_address_step [of e1 "[]" e1 policy br bid rq bp p] st
        by (auto simp: placed_from_def)
      then show ?thesis using st by simp
    qed
    then have "addr_shard e1 \<subseteq>\<^sub>m addr_shard e3" using le map_le_trans by blast
    moreover have "rq_addr rq \<noteq> [] \<longrightarrow> addr_shard e3 (rq_addr rq) \<noteq> None"
      using here map_le_defined [OF le] by blast
    ultimately show ?thesis using st rest pf' all by simp
  qed
qed

lemma seed_iot_spec:
  assumes "wf_env e"
  shows "\<exists>m. seed_iot_anchor_shards txs e = e\<lparr>addr_shard := m\<rparr> \<and>
             shards_in (env_shards e) m \<and> addr_shard e \<subseteq>\<^sub>m m"
  using seed_txs.fold_inv [OF wf_env_shards_in [OF assms], of txs]
    seed_txs.fold_grows [OF wf_env_shards_in [OF assms], of txs]
  by (auto simp: seed_iot_anchor_shards_def)

lemma wf_env_addr_shard:
  "wf_env e \<Longrightarrow> shards_in (env_shards e) m \<Longrightarrow> wf_env (e\<lparr>addr_shard := m\<rparr>)"
  by (simp add: wf_env_def wf_config_def shards_in_def Let_def)

section \<open>Requests of a batch\<close>

text \<open>Real-account batches carry ten scene features in both directions.\<close>

definition scenes_complete :: "real tx list \<Rightarrow> bool" where
  "scenes_complete txs \<longleftrightarrow>
     list_all (\<lambda>tx. 10 \<le> length (tx_iot_features tx) \<and>
                    10 \<le> length (tx_recipient_iot_features tx)) txs"

lemma account_scene_total:
  assumes "scenes_complete txs"
  shows "\<exists>s. account_scene (concat (map scene_records txs)) a = Inr s"
proof -
  have "10 \<le> length f" if "(x, y, f, c) \<in> set (concat (map scene_records txs))" for x y f c
    using that assms by (auto simp: scene_records_def scenes_complete_def list_all_iff)
  then have "\<not> list_ex (\<lambda>f. length f < 10)
      (map (\<lambda>(_, _, f, _). f) (filter (\<lambda>(x, _). x = a) (concat (map scene_records txs))))"
    by (fastforce simp: list_ex_iff not_less)
  then show ?thesis by (simp add: account_scene_def Let_def)
qed

lemma batch_account_scenes_total:
  assumes "scenes_complete txs"
  shows "\<exists>scenes. batch_account_scenes txs = Inr scenes \<and>
           (\<forall>tx\<in>set txs. map_of scenes (tx_sender tx) \<noteq> None \<and> map_of scenes (tx_recipient tx) \<noteq> None)"
proof -
  define r where "r = concat (map scene_records txs)"
  define keys where "keys = first_occurrences (map fst r)"
  have "\<forall>a. \<exists>s. account_scene r a = Inr s"
    using account_scene_total [OF assms] r_def by blast
  then obtain g where g: "\<And>a. account_scene r a = Inr (g a)" by metis
  have "traverse (\<lambda>a. bind_result (account_scene r a) (\<lambda>s. Inr (a, s))) keys =
      Inr (map (\<lambda>a. (a, g a)) keys)"
    by (rule traverse_total) (simp add: g)
  moreover have "tx_sender tx \<in> set keys" "tx_recipient tx \<in> set keys" if "tx \<in> set txs" for tx
    using that by (force simp: keys_def r_def scene_records_def image_iff)+
  ultimately show ?thesis
    by (auto simp: batch_account_scenes_def Let_def map_of_map_restrict r_def keys_def)
qed

lemma traverse_exists:
  "(\<And>x. x \<in> set xs \<Longrightarrow> \<exists>y. f x = Inr y) \<Longrightarrow> \<exists>ys. traverse f xs = Inr ys"
  by (induction xs) (auto simp: result_simps)

lemma batch_requests_total:
  assumes "batch_real_accounts txs \<longrightarrow> scenes_complete txs"
  shows "\<exists>rqs. batch_requests e txs = Inr rqs"
proof (cases "batch_real_accounts txs")
  case True
  then obtain scenes where sc: "batch_account_scenes txs = Inr scenes"
    "\<forall>tx\<in>set txs. map_of scenes (tx_sender tx) \<noteq> None \<and> map_of scenes (tx_recipient tx) \<noteq> None"
    using batch_account_scenes_total assms by blast
  let ?pl = "if env_sender_pos_mode e = 1
             then map (\<lambda>tx. (tx_sender tx, None)) txs
                  @ map (\<lambda>tx. (tx_recipient tx, Some (tx_sender tx))) txs
             else concat (map (\<lambda>tx. [(tx_sender tx, Some (tx_recipient tx)),
                                     (tx_recipient tx, Some (tx_sender tx))]) txs)"
  let ?f = "\<lambda>(address, related).
               case map_of scenes address of
                 None \<Rightarrow> raise KeyError
               | Some (features, cost) \<Rightarrow>
                   return \<lparr>rq_addr = address, rq_fallback = related,
                           rq_features = Some features, rq_cost = cost\<rparr>"
  have "\<exists>rqs. traverse ?f ?pl = Inr rqs"
    using sc(2) by (intro traverse_exists) (auto split: if_splits)
  then show ?thesis using True sc(1) by (simp add: batch_requests_def Let_def)
next
  case False
  then show ?thesis by (auto simp: batch_requests_def)
qed

section \<open>One batch\<close>

text \<open>The environment on which the placements of a batch start.\<close>

definition batch_start :: "env \<Rightarrow> real tx list \<Rightarrow> env" where
  "batch_start e0 txs =
     (let e = e0\<lparr>batch_id := batch_id e0 + 1, cost_relations := batch_cost_relations e0 txs\<rparr>
      in if env_iot_feature_dim e > 0 \<and> \<not> batch_real_accounts txs
         then seed_iot_anchor_shards txs e else e)"

lemma batch_start_spec:
  assumes "wf_env e0"
  shows "wf_env (batch_start e0 txs)" and "addr_shard e0 \<subseteq>\<^sub>m addr_shard (batch_start e0 txs)"
    and "env_shards (batch_start e0 txs) = env_shards e0"
    and "shard_load (batch_start e0 txs) = shard_load e0"
    and "env_params (batch_start e0 txs) = env_params e0"
    and "recent_stats (batch_start e0 txs) = recent_stats e0"
    and "batch_id (batch_start e0 txs) = Suc (batch_id e0)"
    and "same_config e0 (batch_start e0 txs)"
proof -
  let ?e = "e0\<lparr>batch_id := batch_id e0 + 1, cost_relations := batch_cost_relations e0 txs\<rparr>"
  have wfe: "wf_env ?e" using assms by (simp add: wf_env_def wf_config_def Let_def)
  obtain m where m: "seed_iot_anchor_shards txs ?e = ?e\<lparr>addr_shard := m\<rparr>"
    "shards_in (env_shards ?e) m" "addr_shard ?e \<subseteq>\<^sub>m m"
    using seed_iot_spec [OF wfe, of txs] by blast
  show "wf_env (batch_start e0 txs)"
    using wfe wf_env_addr_shard [OF wfe m(2)] m(1) by (simp add: batch_start_def Let_def)
  show "addr_shard e0 \<subseteq>\<^sub>m addr_shard (batch_start e0 txs)"
    "env_shards (batch_start e0 txs) = env_shards e0"
    "shard_load (batch_start e0 txs) = shard_load e0"
    "env_params (batch_start e0 txs) = env_params e0"
    "recent_stats (batch_start e0 txs) = recent_stats e0"
    "batch_id (batch_start e0 txs) = Suc (batch_id e0)"
    "same_config e0 (batch_start e0 txs)"
    using m by (auto simp: batch_start_def same_config_def Let_def)
qed

definition batch_graph :: "env \<Rightarrow> real tx list \<Rightarrow> string \<Rightarrow> string set" where
  "batch_graph e0 txs =
     (if env_iot_feature_dim e0 > 0 \<and> \<not> batch_real_accounts txs
      then build_iot_batch_related txs else build_batch_related e0 txs)"

lemma build_batch_related_cong:
  "env_sender_pos_mode e = env_sender_pos_mode e' \<Longrightarrow>
   build_batch_related e txs = build_batch_related e' txs"
  by (simp add: build_batch_related_def batch_related_step_def [abs_def])

lemma place_batch_eq:
  "place_batch policy e0 txs p =
     bind_result (batch_check e0 txs) (\<lambda>_.
       bind_result (batch_requests (batch_start e0 txs) txs) (\<lambda>rqs.
         place_all policy (batch_graph e0 txs) (batch_id (batch_start e0 txs)) rqs
           (batch_start e0 txs, Map.empty, p) []))"
  using build_batch_related_cong
    [of "e0\<lparr>batch_id := batch_id e0 + 1, cost_relations := batch_cost_relations e0 txs\<rparr>" e0 txs]
  by (simp add: place_batch_def batch_start_def batch_graph_def Let_def)

lemma place_batch_spec:
  assumes "wf_env e0" and "place_batch policy e0 txs p = Inr (acts, e, bp, p')"
  shows "placed_from (batch_start e0 txs) acts e"
proof -
  obtain rqs where
    "place_all policy (batch_graph e0 txs) (batch_id (batch_start e0 txs)) rqs
       (batch_start e0 txs, Map.empty, p) [] = Inr (acts, e, bp, p')"
    using assms(2) by (auto simp: place_batch_eq result_simps)
  then show ?thesis
    using place_all_total [OF placed_from_refl [OF batch_start_spec(1) [OF assms(1), of txs]],
        of policy "batch_graph e0 txs" "batch_id (batch_start e0 txs)" rqs Map.empty p]
    by auto
qed

lemma place_batch_total:
  assumes "wf_env e0" and "batch_check e0 txs = Inr ()"
    and "batch_real_accounts txs \<longrightarrow> scenes_complete txs" and "policy_answers policy e0"
  shows "\<exists>acts e bp p'. place_batch policy e0 txs p = Inr (acts, e, bp, p')"
proof -
  obtain rqs where "batch_requests (batch_start e0 txs) txs = Inr rqs"
    using batch_requests_total [OF assms(3)] by blast
  moreover have "policy_answers policy (batch_start e0 txs)"
    using assms(4) batch_start_spec(8) [OF assms(1), of txs] by (simp add: policy_answers_def same_config_def)
  ultimately show ?thesis
    using assms(2) place_all_total [OF placed_from_refl [OF batch_start_spec(1) [OF assms(1), of txs]],
        of policy "batch_graph e0 txs" "batch_id (batch_start e0 txs)" rqs Map.empty p]
    by (auto simp: place_batch_eq)
qed

definition known_reward_mode :: "reward_params \<Rightarrow> bool" where
  "known_reward_mode p \<longleftrightarrow>
     py_lower (py_strip (reward_mode p)) \<in> set ([''paper'', ''enhanced''] @ IOT_GLOBAL_REWARD_MODES)"

lemma spring_reward_total:
  assumes "known_reward_mode p"
  shows "\<exists>r q. spring_reward p eff cross bal bp cc = Inr (r, q)"
proof -
  have "\<exists>r. reward_of_mode p a b c d f g h = Inr r" for a b c d f g h
    using assms by (auto simp: reward_of_mode_def Let_def known_reward_mode_def)
  then show ?thesis
    by (cases "balance_stats (load_basis_of eff bal) (max 1 (length eff))")
       (auto simp: spring_reward_def Let_def result_simps)
qed

lemma wf_env_push_window:
  assumes "wf_env e" and "wf_window (env_shards e) w"
  shows "wf_env (e\<lparr>recent_stats := push_window w (recent_stats e)\<rparr>)"
  using assms set_drop_subset [of "Suc 0" "recent_stats e"]
  by (auto simp: wf_env_def wf_config_def Let_def push_window_def)

lemma wf_env_temporal [simp]:
  "wf_env (update_temporal_neighbors txs e) = wf_env e"
  "env_shards (update_temporal_neighbors txs e) = env_shards e"
  "addr_shard (update_temporal_neighbors txs e) = addr_shard e"
  "shard_load (update_temporal_neighbors txs e) = shard_load e"
  "batch_id (update_temporal_neighbors txs e) = batch_id e"
  by (auto simp: update_temporal_neighbors_def wf_env_def wf_config_def Let_def)

lemma shape_actions_fields:
  "length (shape_actions e b acts) = length acts"
  "map pa_address (shape_actions e b acts) = map pa_address acts"
  "map pa_action (shape_actions e b acts) = map pa_action acts"
  "map pa_action_mask (shape_actions e b acts) = map pa_action_mask acts"
  by (auto simp: shape_actions_def enumerate_eq_zip intro!: nth_equalityI)

text \<open>The intermediate results of a batch that does not raise.\<close>

lemma run_batch_parts:
  assumes "run_batch policy e0 txs p = Inr (acts, met, e', p')"
  obtains acts0 e1 bp sim e2 cap e3 r q where
    "place_batch policy e0 txs p = Inr (acts0, e1, bp, p')"
    "simulate_batch_loads e1 txs = (sim, e2)"
    "apply_capacity_backlog e2 (map real (bl_stage_loads sim)) (bl_effective_loads sim)
       (bl_cross_loads sim) = (cap, e3)"
    "spring_reward (env_params e3) (cs_committed_effective_loads cap)
       (cs_committed_cross_loads cap) (Some (cs_reward_loads cap)) (cs_backlog_penalty cap)
       (bl_communication_cost sim) = Inr (r, q)"
    "e' = update_temporal_neighbors txs (e3\<lparr>recent_stats := push_window
            \<lparr>w_num = cs_committed_stage_loads cap, w_cross = cs_committed_cross_loads cap\<rparr>
            (recent_stats e3)\<rparr>)"
    "acts = shape_actions e' (clamp r (-1) 1) acts0"
    "met = collect_metrics e' txs acts sim cap r q"
proof -
  obtain acts0 e1 bp p1 where pb: "place_batch policy e0 txs p = Inr (acts0, e1, bp, p1)"
    using assms by (auto simp: run_batch_def result_simps)
  obtain sim e2 where sim: "simulate_batch_loads e1 txs = (sim, e2)" by force
  obtain cap e3 where cap: "apply_capacity_backlog e2 (map real (bl_stage_loads sim))
      (bl_effective_loads sim) (bl_cross_loads sim) = (cap, e3)" by force
  show ?thesis
    using assms pb sim cap
    by (auto simp: run_batch_def result_simps Let_def intro: that)
qed

lemma sim_vectors:
  assumes "sim_shape n sim"
  shows "nonneg_vec n (map real (bl_stage_loads sim))" "nonneg_vec n (bl_effective_loads sim)"
    "nonneg_vec n (bl_cross_loads sim)"
  using assms by (auto simp: sim_shape_def nonneg_vec_def)

text \<open>What a batch does to the environment and which actions it reports.\<close>

lemma run_batch_spec:
  assumes wf: "wf_env e" and run: "run_batch policy e txs p = Inr (acts, met, e', p')"
  shows "wf_env e'" and "env_shards e' = env_shards e" and "addr_shard e \<subseteq>\<^sub>m addr_shard e'"
    and "\<forall>tx\<in>set txs. addr_shard e' (tx_sender tx) \<noteq> None \<and> addr_shard e' (tx_recipient tx) \<noteq> None"
    and "sum_list (shard_load e') = sum_list (shard_load e) + length acts"
    and "distinct (map pa_address acts)"
    and "\<forall>a\<in>set acts. addr_shard e (pa_address a) = None \<and>
           addr_shard e' (pa_address a) = Some (pa_action a) \<and> pa_action a < env_shards e \<and>
           zero_one_mask (env_shards e) (pa_action_mask a) \<and> pa_action_mask a ! pa_action a = 1"
    and "batch_id e' = Suc (batch_id e)"
proof -
  from run obtain acts0 e1 bp sim e2 cap e3 r q where
    pb: "place_batch policy e txs p = Inr (acts0, e1, bp, p')" and
    sim: "simulate_batch_loads e1 txs = (sim, e2)" and
    cap: "apply_capacity_backlog e2 (map real (bl_stage_loads sim)) (bl_effective_loads sim)
       (bl_cross_loads sim) = (cap, e3)" and
    e': "e' = update_temporal_neighbors txs (e3\<lparr>recent_stats := push_window
            \<lparr>w_num = cs_committed_stage_loads cap, w_cross = cs_committed_cross_loads cap\<rparr>
            (recent_stats e3)\<rparr>)" and
    acts: "acts = shape_actions e' (clamp r (-1) 1) acts0"
    by (rule run_batch_parts)
  note st = batch_start_spec [OF wf, of txs]
  have pf: "placed_from (batch_start e txs) acts0 e1" by (rule place_batch_spec [OF wf pb])
  then have wf1: "wf_env e1" and n1: "env_shards e1 = env_shards e"
    using st(3) by (simp_all add: placed_from_def)
  note sb = simulate_batch_keeps [OF wf1 sim]
  obtain m where m: "e2 = e1\<lparr>addr_shard := m\<rparr>" "shards_in (env_shards e1) m"
    "addr_shard e1 \<subseteq>\<^sub>m m" "\<forall>tx\<in>set txs. m (tx_sender tx) \<noteq> None \<and> m (tx_recipient tx) \<noteq> None"
    using sb(5) by blast
  have wf2: "wf_env e2" and n2: "env_shards e2 = env_shards e"
    using wf_env_addr_shard [OF wf1 m(2)] m(1) n1 by simp_all
  note vec = sim_vectors [OF sb(1)]
  have vec2: "nonneg_vec (env_shards e2) (map real (bl_stage_loads sim))"
    "nonneg_vec (env_shards e2) (bl_effective_loads sim)"
    "nonneg_vec (env_shards e2) (bl_cross_loads sim)"
    using vec m(1) by simp_all
  note cb = apply_capacity_backlog_wf [OF wf2 vec2 cap]
  have m': "addr_shard e' = m" and load: "shard_load e' = shard_load e1"
    using e' cb(4,5) m(1) by simp_all
  show "wf_env e'" "env_shards e' = env_shards e"
    using e' wf_env_push_window [OF cb(1)] cb(2,3) n2 by simp_all
  have grow: "addr_shard e \<subseteq>\<^sub>m addr_shard (batch_start e txs)"
    "addr_shard (batch_start e txs) \<subseteq>\<^sub>m addr_shard e1"
    using st(2) pf by (simp_all add: placed_from_def)
  then show "addr_shard e \<subseteq>\<^sub>m addr_shard e'" using m(3) m' map_le_trans by blast
  show "\<forall>tx\<in>set txs. addr_shard e' (tx_sender tx) \<noteq> None \<and> addr_shard e' (tx_recipient tx) \<noteq> None"
    using m(4) m' by simp
  show "sum_list (shard_load e') = sum_list (shard_load e) + length acts"
    using pf st(4) load acts by (simp add: placed_from_def shape_actions_fields)
  show "distinct (map pa_address acts)"
    using pf acts by (simp add: placed_from_def shape_actions_fields)
  show "batch_id e' = Suc (batch_id e)"
    using e' cb(8) m(1) pf st(7) by (simp add: placed_from_def)
  have "addr_shard e (pa_address a) = None \<and>
           addr_shard e' (pa_address a) = Some (pa_action a) \<and> pa_action a < env_shards e \<and>
           zero_one_mask (env_shards e) (pa_action_mask a) \<and> pa_action_mask a ! pa_action a = 1"
    if "a \<in> set acts0" for a
    using pf that st(3) m' map_le_lookup [OF m(3)] map_le_defined [OF grow(1)]
    by (fastforce simp: placed_from_def)
  moreover have "\<exists>a0\<in>set acts0. pa_address a = pa_address a0 \<and> pa_action a = pa_action a0 \<and>
      pa_action_mask a = pa_action_mask a0" if "a \<in> set acts" for a
    using that acts by (auto simp: shape_actions_def enumerate_eq_zip dest: set_zip_rightD)
  ultimately show "\<forall>a\<in>set acts. addr_shard e (pa_address a) = None \<and>
           addr_shard e' (pa_address a) = Some (pa_action a) \<and> pa_action a < env_shards e \<and>
           zero_one_mask (env_shards e) (pa_action_mask a) \<and> pa_action_mask a ! pa_action a = 1"
    by metis
qed

text \<open>The configuration is the same after a batch.\<close>

lemma same_config_trans: "same_config e1 e2 \<Longrightarrow> same_config e2 e3 \<Longrightarrow> same_config e1 e3"
  by (simp add: same_config_def)

lemma apply_capacity_backlog_config:
  "apply_capacity_backlog e st ef cr = (cap, e') \<Longrightarrow> same_config e e'"
  by (auto simp: apply_capacity_backlog_def same_config_def Let_def split: if_splits)

lemma update_temporal_config [simp]:
  "same_config e (update_temporal_neighbors txs e') = same_config e e'"
  "env_params (update_temporal_neighbors txs e') = env_params e'"
  by (simp_all add: update_temporal_neighbors_def same_config_def)

lemma run_batch_config:
  assumes wf: "wf_env e" and run: "run_batch policy e txs p = Inr (acts, met, e', p')"
  shows "same_config e e'" and "env_params e' = env_params e"
proof -
  from run obtain acts0 e1 bp sim e2 cap e3 r q where
    pb: "place_batch policy e txs p = Inr (acts0, e1, bp, p')" and
    sim: "simulate_batch_loads e1 txs = (sim, e2)" and
    cap: "apply_capacity_backlog e2 (map real (bl_stage_loads sim)) (bl_effective_loads sim)
       (bl_cross_loads sim) = (cap, e3)" and
    e': "e' = update_temporal_neighbors txs (e3\<lparr>recent_stats := push_window
            \<lparr>w_num = cs_committed_stage_loads cap, w_cross = cs_committed_cross_loads cap\<rparr>
            (recent_stats e3)\<rparr>)"
    by (rule run_batch_parts)
  have pf: "placed_from (batch_start e txs) acts0 e1" by (rule place_batch_spec [OF wf pb])
  have e1: "same_config e e1" "env_params e1 = env_params e"
    using pf batch_start_spec(5,8) [OF wf, of txs] same_config_trans by (auto simp: placed_from_def)
  obtain m where "e2 = e1\<lparr>addr_shard := m\<rparr>"
    using sim by (auto simp: simulate_batch_loads_def Let_def split: prod.splits)
  then have e2: "same_config e e2" "env_params e2 = env_params e" using e1 by (simp_all add: same_config_def)
  have e3: "same_config e e3" "env_params e3 = env_params e"
    using same_config_trans [OF e2(1) apply_capacity_backlog_config [OF cap]] cap e2(2)
    by (auto simp: apply_capacity_backlog_def Let_def split: if_splits)
  then have "same_config e (e3\<lparr>recent_stats := ws\<rparr>)" for ws by (simp add: same_config_def)
  then show "same_config e e'" "env_params e' = env_params e" using e3(2) by (simp_all add: e')
qed

text \<open>The relays of a batch are the transactions whose accounts are on different shards.\<close>

definition crosses :: "(string \<rightharpoonup> nat) \<Rightarrow> 'f tx \<Rightarrow> bool" where
  "crosses m tx \<longleftrightarrow> m (tx_sender tx) \<noteq> m (tx_recipient tx)"

lemma relation_fold_relays:
  "bl_total_relay1 (snd (fold (relation_step n s) ws st)) = bl_total_relay1 (snd st)"
proof (induction ws arbitrary: st)
  case (Cons w ws)
  have "bl_total_relay1 (snd (relation_step n s w st)) = bl_total_relay1 (snd st)"
    by (cases st) (auto simp: relation_step_def Let_def split: prod.splits if_splits)
  then show ?case by (simp add: Cons.IH)
qed simp

lemma simulate_tx_relays:
  assumes "sim_shape (env_shards e) sim" and "shards_in (env_shards e) m"
    and "simulate_tx e tx (m, sim) = (m', sim')"
  shows "bl_total_relay1 sim' = bl_total_relay1 sim + of_bool (crosses m' tx)"
proof -
  let ?n = "env_shards e"
  obtain s m1 where s: "ensure_shard ?n (tx_sender tx) m = (s, m1)" by force
  note es = ensure_shard_spec [OF assms(2) s]
  obtain r m2 where r: "ensure_shard ?n (tx_recipient tx) m1 = (r, m2)" by force
  note er = ensure_shard_spec [OF es(2) r]
  let ?sim = "execute_stage s r sim"
  obtain m3 sim3 where f: "fold (relation_step ?n s) (tx_related_weight_pairs tx) (m2, ?sim) = (m3, sim3)"
    by force
  have res: "m' = m3" "bl_total_relay1 sim' = bl_total_relay1 sim3"
    using assms(3) s r f by (auto simp: simulate_tx_def Let_def)
  have "m2 \<subseteq>\<^sub>m m3"
    using relation_fold_keeps [OF execute_stage_shape [OF assms(1)] er(2) tx_weights_nonneg es(1) f] by blast
  then have "m3 (tx_sender tx) = Some s" "m3 (tx_recipient tx) = Some r"
    using map_le_lookup [of m2 m3] map_le_lookup [OF er(3) es(4)] er(4) by simp_all
  moreover have "bl_total_relay1 sim3 = bl_total_relay1 ?sim"
    using relation_fold_relays [of ?n s "tx_related_weight_pairs tx" "(m2, ?sim)"] f by simp
  ultimately show ?thesis using res by (simp add: crosses_def execute_stage_def Let_def)
qed

lemma simulate_fold_relays:
  assumes "sim_shape (env_shards e) sim" and "shards_in (env_shards e) m" and "sim_account k sim"
    and "fold (simulate_tx e) txs (m, sim) = (m', sim')"
  shows "bl_total_relay1 sim' = bl_total_relay1 sim + length (filter (crosses m') txs)"
  using assms
proof (induction txs arbitrary: m sim k)
  case (Cons tx txs)
  obtain m1 sim1 where st: "simulate_tx e tx (m, sim) = (m1, sim1)" by force
  note one = simulate_tx_keeps [OF Cons.prems(1,2) st]
  have f: "fold (simulate_tx e) txs (m1, sim1) = (m', sim')" using Cons.prems(4) st by simp
  have "m1 \<subseteq>\<^sub>m m'"
    using simulate_fold_keeps [OF one(1,2) one(6) [OF Cons.prems(3)] f] by blast
  then have "m' (tx_sender tx) = m1 (tx_sender tx)" "m' (tx_recipient tx) = m1 (tx_recipient tx)"
    using one(4,5) map_le_lookup [of m1 m'] by fastforce+
  then have "crosses m' tx = crosses m1 tx" by (simp add: crosses_def)
  then show ?case
    using Cons.IH [OF one(1,2) one(6) [OF Cons.prems(3)] f] simulate_tx_relays [OF Cons.prems(1,2) st] by simp
qed simp

lemma run_batch_relays:
  assumes wf: "wf_env e" and run: "run_batch policy e txs p = Inr (acts, met, e', p')"
  shows "bm_total_relay1 met = length (filter (crosses (addr_shard e')) txs)"
proof -
  from run obtain acts0 e1 bp sim e2 cap e3 r q where
    pb: "place_batch policy e txs p = Inr (acts0, e1, bp, p')" and
    sim: "simulate_batch_loads e1 txs = (sim, e2)" and
    cap: "apply_capacity_backlog e2 (map real (bl_stage_loads sim)) (bl_effective_loads sim)
       (bl_cross_loads sim) = (cap, e3)" and
    e': "e' = update_temporal_neighbors txs (e3\<lparr>recent_stats := push_window
            \<lparr>w_num = cs_committed_stage_loads cap, w_cross = cs_committed_cross_loads cap\<rparr>
            (recent_stats e3)\<rparr>)" and met: "met = collect_metrics e' txs acts sim cap r q"
    by (rule run_batch_parts)
  have wf1: "wf_env e1" using place_batch_spec [OF wf pb] by (simp add: placed_from_def)
  obtain m s where f: "fold (simulate_tx e1) txs (addr_shard e1, empty_sim (env_shards e1)) = (m, s)" by force
  have e2: "addr_shard e2 = m" and s: "bl_total_relay1 sim = bl_total_relay1 s"
    using sim f by (auto simp: simulate_batch_loads_def Let_def)
  have "addr_shard e' = m"
    using e' cap e2 by (auto simp: apply_capacity_backlog_def Let_def split: if_splits)
  moreover have "bl_total_relay1 s = length (filter (crosses m) txs)"
    using simulate_fold_relays [OF empty_sim_ok(1) wf_env_shards_in [OF wf1] empty_sim_ok(2) f]
    by (simp add: empty_sim_def)
  ultimately show ?thesis by (simp add: met collect_metrics_def Let_def s)
qed

lemma run_batch_exists:
  assumes wf: "wf_env e" and chk: "batch_check e txs = Inr ()"
    and sc: "batch_real_accounts txs \<longrightarrow> scenes_complete txs"
    and mode: "known_reward_mode (env_params e)" and ans: "policy_answers policy e"
  shows "\<exists>acts met e' p'. run_batch policy e txs p = Inr (acts, met, e', p')"
proof -
  obtain acts0 e1 bp p' where pb: "place_batch policy e txs p = Inr (acts0, e1, bp, p')"
    using place_batch_total [OF wf chk sc ans, of p] by blast
  have pf: "placed_from (batch_start e txs) acts0 e1" by (rule place_batch_spec [OF wf pb])
  obtain sim e2 where sim: "simulate_batch_loads e1 txs = (sim, e2)" by force
  obtain cap e3 where cap: "apply_capacity_backlog e2 (map real (bl_stage_loads sim))
      (bl_effective_loads sim) (bl_cross_loads sim) = (cap, e3)" by force
  have "env_params e3 = env_params e"
    using cap sim pf batch_start_spec(5) [OF wf]
    by (auto simp: apply_capacity_backlog_def Let_def simulate_batch_loads_def placed_from_def
             split: if_splits prod.splits)
  then obtain r q where "spring_reward (env_params e3) (cs_committed_effective_loads cap)
       (cs_committed_cross_loads cap) (Some (cs_reward_loads cap)) (cs_backlog_penalty cap)
       (bl_communication_cost sim) = Inr (r, q)"
    using spring_reward_total mode by metis
  then show ?thesis using pb sim cap by (auto simp: run_batch_def Let_def)
qed

end
