(* ===== verification/EnvTheorems.thy ===== *)
theory EnvTheorems
  imports BatchInvariant
begin

text \<open>
  The theorems about the placement environment, each with a witness on a small concrete
  environment (two shards, capacity guard on, a policy that always answers shard 0).
\<close>

section \<open>A concrete environment\<close>

definition demo_args :: env_args where
  "demo_args = \<lparr>ea_shards = 2, ea_tx_batch_size = 10, ea_max_block_size = 10,
     ea_block_interval_ms = 5000, ea_sender_pos_mode = 1, ea_temporal_top_k = 8,
     ea_local_reward_weight = 0, ea_action_reward_scale = 0.1, ea_capacity_backlog_mode = 1,
     ea_params = default_params, ea_iot_feature_dim = 0, ea_candidate_top_k = 1,
     ea_capacity_guard = 1, ea_capacity_guard_factor = 1.2, ea_candidate_load_weight = 1,
     ea_mechanism_version = ''legacy'', ea_feature_mode = ''full'',
     ea_scene_cost_mode = ''legacy''\<rparr>"

definition demo_env :: env where
  "demo_env = projr (make_env demo_args)"

definition demo_tx :: "string \<Rightarrow> string \<Rightarrow> real tx" where
  "demo_tx a b = \<lparr>tx_sender = a, tx_recipient = b, tx_related = [], tx_related_weights = [],
     tx_iot_features = [], tx_cost_weight = 0, tx_real_accounts = False, tx_value = 1,
     tx_recipient_iot_features = [], tx_recipient_cost_weight = 0\<rparr>"

definition demo_txs :: "real tx list" where
  "demo_txs = [demo_tx ''aa'' ''bb'', demo_tx ''cc'' ''aa'']"

definition demo_policy :: "unit policy" where
  "demo_policy e p s a r i = return (\<lparr>po_action = 0, po_log_prob = 0, po_value = 0, po_confidence = 1,
     po_entropy = 0, po_source = ''python_ppo''\<rparr>, p)"

lemma demo_env_made: "make_env demo_args = Inr demo_env"
proof -
  have "\<exists>e. make_env demo_args = Inr e" by (simp add: make_env_def demo_args_def Let_def)
  then show ?thesis by (auto simp: demo_env_def)
qed

lemma demo_env_wf: "wf_env demo_env"
  by (rule make_env_wf [OF demo_env_made])

lemma demo_env_eq:
  "demo_env = reset (projr (make_env demo_args))"
  using demo_env_made by (auto simp: demo_env_def make_env_def demo_args_def Let_def reset_def)

lemma demo_env_fields [simp]:
  "env_shards demo_env = 2" "env_mechanism_version demo_env = ''legacy''"
  "env_sender_pos_mode demo_env = 1" "env_iot_feature_dim demo_env = 0"
  "env_capacity_backlog_mode demo_env = 1" "env_candidate_top_k demo_env = 1"
  "env_action_reward_scale demo_env = 0.1" "env_max_block_size demo_env = 10"
  "env_params demo_env = default_params" "addr_shard demo_env = Map.empty"
  "shard_load demo_env = [0, 0]" "pending_loads demo_env = [0, 0]"
  "pending_effective_loads demo_env = [0, 0]" "pending_cross_loads demo_env = [0, 0]"
  by (simp_all add: demo_env_def make_env_def demo_args_def Let_def reset_def default_params_def
      IOT_DENSE_BALANCED_REWARD_MODE_def py_strip_def strip_by_def is_space_def py_lower_def
      lower_char_def eval_nat_numeral)

lemma demo_known_mode: "known_reward_mode default_params"
  by (simp add: known_reward_mode_def default_params_def IOT_DENSE_BALANCED_REWARD_MODE_def
      IOT_GLOBAL_REWARD_MODES_def py_strip_def strip_by_def is_space_def py_lower_def lower_char_def)

lemma demo_run:
  "\<exists>acts met e' p'. run_batch demo_policy demo_env demo_txs () = Inr (acts, met, e', p')"
  by (rule run_batch_exists [OF demo_env_wf])
     (simp_all add: batch_check_def batch_real_accounts_def demo_txs_def demo_tx_def demo_known_mode policy_answers_def demo_policy_def)

section \<open>The batch\<close>

text \<open>
  C1. A batch that does not raise keeps the environment well-formed: every assigned shard
  exists, the five recent windows and the backlog vectors have one nonnegative entry per
  shard, and the batch counter advances by one.
\<close>

theorem run_batch_preserves_wf:
  assumes "wf_env e" and "run_batch policy e txs p = Inr (acts, met, e', p')"
  shows "wf_env e' \<and> env_shards e' = env_shards e \<and> batch_id e' = Suc (batch_id e)"
  using run_batch_spec(1,2,8) [OF assms] by blast

theorem run_batch_preserves_wf_witness:
  "\<exists>acts met e' p'. run_batch demo_policy demo_env demo_txs () = Inr (acts, met, e', p') \<and>
     wf_env e'"
proof -
  obtain acts met e' p' where r: "run_batch demo_policy demo_env demo_txs () = Inr (acts, met, e', p')"
    using demo_run by blast
  then show ?thesis using run_batch_preserves_wf [OF demo_env_wf r] by blast
qed

text \<open>
  C2. Placement is permanent and complete: an address that has a shard before a batch has
  the same shard after it, and after the batch every sender and recipient has one.
\<close>

theorem run_batch_placements_stable:
  assumes "wf_env e" and "run_batch policy e txs p = Inr (acts, met, e', p')"
  shows "addr_shard e \<subseteq>\<^sub>m addr_shard e' \<and>
         (\<forall>tx\<in>set txs. \<exists>s r. addr_shard e' (tx_sender tx) = Some s \<and> s < env_shards e \<and>
            addr_shard e' (tx_recipient tx) = Some r \<and> r < env_shards e)"
proof -
  note sp = run_batch_spec [OF assms]
  have "s < env_shards e" if "addr_shard e' a = Some s" for a s
    using sp(1,2) that by (auto simp: wf_env_def Let_def)
  then show ?thesis using sp(3,4) by fastforce
qed

theorem run_batch_placements_stable_witness:
  "\<exists>acts met e' p' s. run_batch demo_policy demo_env demo_txs () = Inr (acts, met, e', p') \<and>
     addr_shard e' ''bb'' = Some s \<and> s < 2"
proof -
  obtain acts met e' p' where r: "run_batch demo_policy demo_env demo_txs () = Inr (acts, met, e', p')"
    using demo_run by blast
  have "demo_tx ''aa'' ''bb'' \<in> set demo_txs" by (simp add: demo_txs_def)
  then have "\<exists>s. addr_shard e' ''bb'' = Some s \<and> s < 2"
    using run_batch_placements_stable [OF demo_env_wf r] by (fastforce simp: demo_tx_def)
  then show ?thesis using r by blast
qed

text \<open>
  C3. Whatever the policy answers, every reported action places a different, previously
  unplaced address on a shard that the reported candidate mask allows; this shard is the
  address's shard after the batch, and the persistent load vector counts exactly the
  reported actions.
\<close>

theorem run_batch_actions_legal:
  assumes "wf_env e" and "run_batch policy e txs p = Inr (acts, met, e', p')"
  shows "distinct (map pa_address acts) \<and>
         sum_list (shard_load e') = sum_list (shard_load e) + length acts \<and>
         (\<forall>a\<in>set acts. addr_shard e (pa_address a) = None \<and>
            addr_shard e' (pa_address a) = Some (pa_action a) \<and> pa_action a < env_shards e \<and>
            length (pa_action_mask a) = env_shards e \<and> pa_action_mask a ! pa_action a = 1)"
  using run_batch_spec(5,6,7) [OF assms] by (simp add: zero_one_mask_def)

theorem run_batch_actions_legal_witness:
  "\<exists>acts met e' p'. run_batch demo_policy demo_env demo_txs () = Inr (acts, met, e', p') \<and>
     distinct (map pa_address acts) \<and> sum_list (shard_load e') = length acts"
proof -
  obtain acts met e' p' where r: "run_batch demo_policy demo_env demo_txs () = Inr (acts, met, e', p')"
    using demo_run by blast
  then show ?thesis using run_batch_actions_legal [OF demo_env_wf r] by simp
qed

text \<open>
  C6. A batch only raises for the documented reasons: on a well-formed environment with a
  known reward mode, a batch that passes the mode checks, and carries ten features per
  endpoint when it is a real-account batch, always returns actions and metrics if the policy
  answers the observations it is given.
\<close>

theorem run_batch_total:
  assumes "wf_env e" and "batch_check e txs = Inr ()"
    and "batch_real_accounts txs \<longrightarrow> scenes_complete txs" and "known_reward_mode (env_params e)"
    and "policy_answers policy e"
  shows "\<exists>acts met e' p'. run_batch policy e txs p = Inr (acts, met, e', p')"
  by (rule run_batch_exists [OF assms])

theorem run_batch_total_witness:
  "\<exists>acts met e' p'. run_batch demo_policy demo_env demo_txs () = Inr (acts, met, e', p')"
  by (rule run_batch_total [OF demo_env_wf])
     (simp_all add: batch_check_def batch_real_accounts_def demo_txs_def demo_tx_def demo_known_mode policy_answers_def demo_policy_def)

text \<open>
  C4. Every transaction of a batch is executed exactly once: it is either an inner
  transaction (one block stage) or a relay pair (one stage on each of two shards), so the
  stage loads add up to the transactions plus the relays, the owner loads to the
  transactions, and both relay counters agree.
\<close>

theorem run_batch_accounting:
  assumes "wf_env e" and "run_batch policy e txs p = Inr (acts, met, e', p')"
  shows "bm_total_inner met + bm_total_relay1 met = length txs \<and>
         bm_total_relay2 met = bm_total_relay1 met \<and>
         sum_list (bm_loads met) = length txs + bm_total_relay1 met \<and>
         sum_list (bm_owner_loads met) = length txs \<and>
         bm_total_tx met = sum_list (bm_loads met) \<and> bm_action_count met = length acts"
proof -
  from assms(2) obtain acts0 e1 bp sim e2 cap e3 r q where
    pb: "place_batch policy e txs p = Inr (acts0, e1, bp, p')" and
    sim: "simulate_batch_loads e1 txs = (sim, e2)" and
    met: "met = collect_metrics e' txs acts sim cap r q"
    by (rule run_batch_parts)
  have "wf_env e1" using place_batch_spec [OF assms(1) pb] by (simp add: placed_from_def)
  then have "sim_account (length txs) sim" using sim by (rule simulate_batch_keeps(2))
  then show ?thesis by (auto simp: met collect_metrics_def Let_def sim_account_def)
qed

theorem run_batch_accounting_witness:
  "\<exists>acts met e' p'. run_batch demo_policy demo_env demo_txs () = Inr (acts, met, e', p') \<and>
     bm_total_inner met + bm_total_relay1 met = 2"
proof -
  obtain acts met e' p' where r: "run_batch demo_policy demo_env demo_txs () = Inr (acts, met, e', p')"
    using demo_run by blast
  moreover have "length demo_txs = 2" by (simp add: demo_txs_def)
  ultimately show ?thesis using run_batch_accounting [OF demo_env_wf r] by auto
qed

text \<open>
  The load model of a batch: the effective loads add up to the number of transactions,
  the cross loads to the number of relays, and on every shard the cross load is at most the
  effective load; the communication cost is a value of the unit interval.
\<close>

theorem simulate_batch_loads_balance:
  assumes "wf_env e" and "simulate_batch_loads e txs = (sim, e')"
  shows "sum_list (bl_effective_loads sim) = real (length txs) \<and>
         sum_list (bl_cross_loads sim) = real (bl_total_relay1 sim) \<and>
         (\<forall>sid < env_shards e. 0 \<le> bl_cross_loads sim ! sid \<and>
            bl_cross_loads sim ! sid \<le> bl_effective_loads sim ! sid) \<and>
         0 \<le> bl_communication_cost sim \<and> bl_communication_cost sim \<le> 1"
proof -
  note sb = simulate_batch_keeps [OF assms]
  have "\<forall>sid < env_shards e. 0 \<le> bl_cross_loads sim ! sid \<and>
            bl_cross_loads sim ! sid \<le> bl_effective_loads sim ! sid"
    using sb(1) by (auto simp: sim_shape_def nonneg_vec_def list_all2_conv_all_nth)
  then show ?thesis using sb(2-4) by (simp add: sim_account_def)
qed

theorem simulate_batch_loads_balance_witness:
  "\<exists>sim e'. simulate_batch_loads demo_env demo_txs = (sim, e') \<and>
     sum_list (bl_effective_loads sim) = 2"
proof -
  obtain sim e' where s: "simulate_batch_loads demo_env demo_txs = (sim, e')" by force
  then show ?thesis
    using simulate_batch_loads_balance [OF demo_env_wf s] by (auto simp: demo_txs_def)
qed

section \<open>Capacity\<close>

text \<open>
  C5. Block capacity conserves load. With the backlog on, on every shard what is committed
  plus what stays pending is what was pending plus what arrived, for the stage, effective
  and cross loads alike; no shard commits more stages than a block holds; and the backlog
  penalty is in the unit interval.
\<close>

theorem capacity_backlog_conserves:
  assumes "wf_env e" and "env_capacity_backlog_mode e \<noteq> 0" and "sid < env_shards e"
    and "nonneg_vec (env_shards e) st" and "nonneg_vec (env_shards e) ef"
    and "nonneg_vec (env_shards e) cr" and "apply_capacity_backlog e st ef cr = (cap, e')"
  shows "cs_committed_stage_loads cap ! sid + pending_loads e' ! sid = pending_loads e ! sid + st ! sid \<and>
         cs_committed_effective_loads cap ! sid + pending_effective_loads e' ! sid
           = pending_effective_loads e ! sid + ef ! sid \<and>
         cs_committed_cross_loads cap ! sid + pending_cross_loads e' ! sid
           = pending_cross_loads e ! sid + cr ! sid \<and>
         cs_committed_stage_loads cap ! sid \<le> real_of_int (max 1 (env_max_block_size e)) \<and>
         cs_pending_stage_loads cap = pending_loads e' \<and>
         0 \<le> cs_backlog_penalty cap \<and> cs_backlog_penalty cap \<le> 1"
proof -
  let ?cap = "real_of_int (max 1 (env_max_block_size e))"
  let ?p = "pressure (pending_loads e) st sid"
  have len: "nonneg_vec (env_shards e) (pending_loads e)"
    "nonneg_vec (env_shards e) (pending_effective_loads e)"
    "nonneg_vec (env_shards e) (pending_cross_loads e)"
    using assms(1) by (simp_all add: wf_env_def Let_def)
  have pr: "pressure v w sid = v ! sid + w ! sid"
    if "nonneg_vec (env_shards e) v" "nonneg_vec (env_shards e) w" for v w
    using that assms(3) by (simp add: pressure_def nth0_def nonneg_vec_def)
  have r: "0 \<le> commit_ratio ?cap ?p" "commit_ratio ?cap ?p \<le> 1"
    by (rule commit_ratio_bounds; simp)+
  have ef: "max 0 (pressure v w sid - pressure v w sid * commit_ratio ?cap ?p) =
        pressure v w sid - pressure v w sid * commit_ratio ?cap ?p" for v w
    by (rule scaled_commit(1) [OF pressure_nonneg r])
  note eq = assms(7) [unfolded apply_capacity_backlog_def Let_def if_not_P [OF assms(2)] prod.inject,
      THEN conjunct1, symmetric]
    assms(7) [unfolded apply_capacity_backlog_def Let_def if_not_P [OF assms(2)] prod.inject,
      THEN conjunct2, symmetric]
  have "cs_committed_stage_loads cap ! sid + pending_loads e' ! sid = ?p \<and>
        cs_committed_effective_loads cap ! sid + pending_effective_loads e' ! sid
          = pressure (pending_effective_loads e) ef sid \<and>
        cs_committed_cross_loads cap ! sid + pending_cross_loads e' ! sid
          = pressure (pending_cross_loads e) cr sid \<and>
        cs_committed_stage_loads cap ! sid \<le> ?cap \<and>
        cs_pending_stage_loads cap = pending_loads e' \<and>
        0 \<le> cs_backlog_penalty cap \<and> cs_backlog_penalty cap \<le> 1"
    using assms(3) by (simp add: eq ef)
  then show ?thesis
    unfolding pr [OF len(1) assms(4)] pr [OF len(2) assms(5)] pr [OF len(3) assms(6)] .
qed

theorem capacity_backlog_conserves_witness:
  "\<exists>cap e'. apply_capacity_backlog demo_env [12, 3] [10, 2] [1, 1] = (cap, e') \<and>
     cs_committed_stage_loads cap ! 0 \<le> 10 \<and>
     cs_committed_stage_loads cap ! 0 + pending_loads e' ! 0 = 12"
proof -
  obtain cap e' where c: "apply_capacity_backlog demo_env [12, 3] [10, 2] [1, 1] = (cap, e')"
    by force
  then show ?thesis
    using capacity_backlog_conserves [OF demo_env_wf _ _ _ _ _ c, of 0]
    by (auto simp: nonneg_vec_def)
qed

end
