(* ===== verification/PolicyTheorems.thy ===== *)
theory PolicyTheorems
  imports EnvTheorems
begin

text \<open>
  Correctness of what a policy sees and of what becomes of its answer: the state vector, the
  relation vector, the candidate mask, the guarded action, the deterministic argmax, the hash
  of an address, and the rewards and load statistics it is judged by.
\<close>

section \<open>The guarded action\<close>

text \<open>The reference for the fallback: the first shard of a mask that no other shard of it beats.\<close>

definition best_under_mask :: "real list \<Rightarrow> int list \<Rightarrow> nat" where
  "best_under_mask scores m =
     hd (filter (\<lambda>i. m ! i = 1 \<and> (\<forall>j<length m. m ! j = 1 \<longrightarrow> scores ! j \<le> scores ! i)) [0..<length m])"

lemma hd_filter_upt:
  assumes "b < n" and "P b" and "\<And>j. j < b \<Longrightarrow> \<not> P j"
  shows "hd (filter P [0..<n]) = b"
proof -
  have "[0..<n] = [0..<b] @ [b..<n]" using assms(1) by (metis le_add1 less_imp_le add_0 upt_add_eq_append le_iff_add)
  moreover have "filter P [0..<b] = []" using assms(3) by (simp add: filter_empty_conv)
  moreover have "[b..<n] = b # [Suc b..<n]" using assms(1) by (simp add: upt_conv_Cons)
  ultimately show ?thesis using assms(2) by simp
qed

lemma best_allowed_action_best:
  assumes "zero_one_mask n m" and "length scores = n"
  shows "best_allowed_action scores (Some m) (int n) = best_under_mask scores m"
proof -
  let ?b = "best_allowed_action scores (Some m) (int n)"
  have n: "0 < int n" "length m = n" using assms(1) by (cases m; auto simp: zero_one_mask_def)+
  have al: "action_allowed (Some m) (int j) (int n) \<longleftrightarrow> j < n \<and> m ! j = 1" for j
    by (auto simp: action_allowed_iff zero_one_normalized [OF assms(1)])
  note spec = best_allowed_action_spec [OF n(1), where msk = "Some m" and scores = scores, unfolded al]
  have sc: "score_at scores j = scores ! j" if "j < n" for j using that assms(2) by (simp add: score_at_def)
  have b: "?b < n" "m ! ?b = 1" using spec(1) by auto
  show ?thesis unfolding best_under_mask_def
  proof (rule hd_filter_upt [symmetric])
    show "?b < length m" using b n by simp
    show "m ! ?b = 1 \<and> (\<forall>j<length m. m ! j = 1 \<longrightarrow> scores ! j \<le> scores ! ?b)"
      using spec(2) sc b n by auto
    show "\<not> (m ! j = 1 \<and> (\<forall>k<length m. m ! k = 1 \<longrightarrow> scores ! k \<le> scores ! j))" if "j < ?b" for j
      using spec(3) [of j] sc [of j] sc [OF b(1)] b n that by fastforce
  qed
qed

text \<open>
  C25. The guarded action refines the candidate mask: an answer of the policy that the mask of
  the address allows is passed on unchanged, every other answer is replaced by the first shard
  of the mask with the highest placement score, and marked as a replacement.
\<close>

theorem safe_policy_output_spec:
  fixes out :: policy_output
  assumes "wf_env e" and "m = build_candidate_action_mask e addr pos"
  shows "(0 \<le> po_action out \<and> po_action out < int (env_shards e) \<and> m ! nat (po_action out) = 1 \<longrightarrow>
            safe_policy_output e out addr pos m = out) \<and>
         (\<not> (0 \<le> po_action out \<and> po_action out < int (env_shards e) \<and> m ! nat (po_action out) = 1) \<longrightarrow>
            po_action (safe_policy_output e out addr pos m) =
              int (best_under_mask (candidate_scores e addr pos) m) \<and>
            po_source (safe_policy_output e out addr pos m) = po_source out @ ''_capacity_guard'')"
proof -
  have n: "0 < env_shards e" by (rule wf_env_shards [OF assms(1)])
  have z: "zero_one_mask (env_shards e) m" unfolding assms(2) by (rule candidate_mask_zero_one [OF n])
  have "best_candidate_action e addr pos m = best_under_mask (candidate_scores e addr pos) m"
    unfolding best_candidate_action_def by (rule best_allowed_action_best [OF z]) simp
  then show ?thesis
    by (auto simp: safe_policy_output_def Let_def action_allowed_iff zero_one_normalized [OF z])
qed

theorem safe_policy_output_spec_witness:
  "let m = build_candidate_action_mask demo_env ''aa'' [0, 1] in
   po_action (safe_policy_output demo_env
      \<lparr>po_action = 7, po_log_prob = 0, po_value = 0, po_confidence = 1, po_entropy = 0, po_source = ''x''\<rparr> ''aa'' [0, 1] m)
   = int (best_under_mask (candidate_scores demo_env ''aa'' [0, 1]) m)"
  using safe_policy_output_spec [OF demo_env_wf refl, of
      "\<lparr>po_action = 7, po_log_prob = 0, po_value = 0, po_confidence = 1, po_entropy = 0, po_source = ''x''\<rparr>" "''aa''" "[0, 1]"]
  by (simp add: Let_def)

text \<open>
  C27. The candidate mask keeps the best shards: on a well-formed environment it is the
  indicator of a nonempty set of shards that pass the capacity guard; with a limit \<open>k\<close>
  smaller than the number of shards the set has as many members as the guard and the limit
  allow, and no shard that was dropped scores higher than one that was kept; without a limit
  it is all of the guarded shards.
\<close>

theorem candidate_mask_best:
  assumes "wf_env e"
  shows "let m = build_candidate_action_mask e addr pos; sc = candidate_scores e addr pos;
             kept = {i. i < env_shards e \<and> m ! i = 1};
             guarded = {i. i < env_shards e \<and> guard_mask e ! i = 1}; k = env_candidate_top_k e
         in length m = env_shards e \<and> set m \<subseteq> {0, 1} \<and> kept \<noteq> {} \<and> kept \<subseteq> guarded \<and>
            (0 < k \<and> k < env_shards e \<longrightarrow> card kept = min k (card guarded) \<and>
               (\<forall>i\<in>kept. \<forall>j\<in>guarded - kept. sc ! j \<le> sc ! i)) \<and>
            (k = 0 \<or> env_shards e \<le> k \<longrightarrow> kept = guarded)"
proof -
  let ?m = "build_candidate_action_mask e addr pos" and ?sc = "candidate_scores e addr pos"
  let ?ks = "kept_shards e addr pos" and ?k = "env_candidate_top_k e"
  have n: "0 < env_shards e" by (rule wf_env_shards [OF assms])
  have kept: "{i. i < env_shards e \<and> ?m ! i = 1} = set ?ks"
    using kept_shards_less [of _ e addr pos] by (auto simp: candidate_mask_nth [OF n] split: if_splits)
  have guarded: "{i. i < env_shards e \<and> guard_mask e ! i = 1} = set (guarded_shards e)"
    using zero_one_nth [OF guard_mask_zero_one [OF n]] by (auto simp: guarded_shards_def)
  have dist: "distinct (guarded_shards e)" by (simp add: guarded_shards_def)
  have "length ?m = env_shards e \<and> set ?m \<subseteq> {0, 1}"
    using candidate_mask_zero_one [OF n] by (simp add: zero_one_mask_def)
  moreover have "set ?ks \<noteq> {}" "set ?ks \<subseteq> set (guarded_shards e)"
    using kept_shards_nonempty [OF n] kept_shards_subset by auto
  moreover have "card (set ?ks) = min ?k (card (set (guarded_shards e)))" if "0 < ?k \<and> ?k < env_shards e"
    using that dist by (simp add: kept_shards_def top_candidates_def distinct_card)
  moreover have "?sc ! j \<le> ?sc ! i" if "0 < ?k \<and> ?k < env_shards e" "i \<in> set ?ks" "j \<in> set (guarded_shards e) - set ?ks" for i j
    using that top_candidates_best [of i ?sc ?k "guarded_shards e" j] by (auto simp: kept_shards_def)
  moreover have "set ?ks = set (guarded_shards e)" if "?k = 0 \<or> env_shards e \<le> ?k"
    using that by (auto simp: kept_shards_def)
  ultimately show ?thesis unfolding Let_def kept guarded by blast
qed

theorem candidate_mask_best_witness:
  "card {i. i < 2 \<and> build_candidate_action_mask demo_env ''aa'' [0, 1] ! i = 1} \<le> 1 \<and>
   {i. i < 2 \<and> build_candidate_action_mask demo_env ''aa'' [0, 1] ! i = 1} \<noteq> {}"
  using candidate_mask_best [OF demo_env_wf, of "''aa''" "[0, 1]"] by (simp add: Let_def)

section \<open>The observation\<close>

text \<open>
  C28. The observation of an address: on a well-formed environment the state vector is built,
  has the length that the network is made for, and all its entries are in the unit interval.
  The relation vector in it is zero when no related address is placed, and otherwise a
  probability distribution over the shards whose first maximum is the reported major shard.
\<close>

theorem observation_shape:
  assumes "wf_env e" and "info = build_sender_pos e addr fb placed related"
  shows "(\<exists>s. build_state_from_sender_pos e (sp_sender_pos info)
                (address_flag_from_related_count (sp_related_count info)) feats = Inr s \<and>
             input_dim (int (env_shards e)) (int (env_iot_feature_dim e)) (env_mechanism_version e) None
               = Inr (int (length s)) \<and> (\<forall>x\<in>set s. 0 \<le> x \<and> x \<le> 1)) \<and>
         length (sp_sender_pos info) = env_shards e \<and>
         (if sp_related_known info
          then sum_list (sp_sender_pos info) = 1 \<and>
               sp_related_weight info = sp_sender_pos info ! nat (sp_related_shard info) \<and>
               (\<forall>x\<in>set (sp_sender_pos info). 0 \<le> x \<and> x \<le> sp_related_weight info)
          else sp_sender_pos info = replicate (env_shards e) 0 \<and> sp_related_shard info = -1)"
  using build_state_total [OF assms(1)] build_sender_pos_distribution [of e addr fb placed related]
  unfolding assms(2) pos_distribution_def by (auto split: if_splits)

theorem observation_shape_witness:
  "\<exists>s. build_state_from_sender_pos demo_env
      (sp_sender_pos (build_sender_pos demo_env ''aa'' None Map.empty (\<lambda>_. {})))
      (address_flag_from_related_count (sp_related_count (build_sender_pos demo_env ''aa'' None Map.empty (\<lambda>_. {})))) None = Inr s \<and>
      length s = 23"
  using observation_shape [OF demo_env_wf refl, of "''aa''" None Map.empty "\<lambda>_. {}" None]
  by (auto simp: input_dim_def address_flag_dim_def state_dim_def)

section \<open>The deterministic argmax\<close>

text \<open>
  The tie-aware argmax returns an index whose probability is within the tolerance of the
  largest one; without a tie break, or when only one probability is that large, it is the
  first index of the largest probability.
\<close>

theorem tie_aware_argmax_spec:
  assumes "ps \<noteq> []"
  shows "tie_aware_argmax ps key eps enable < length ps \<and>
     (\<forall>j<length ps. ps ! j - max 0 eps \<le> ps ! tie_aware_argmax ps key eps enable) \<and>
     (\<not> enable \<or> eps \<le> 0 \<or> (\<exists>i<length ps. \<forall>j<length ps. j \<noteq> i \<longrightarrow> ps ! j < ps ! i - eps) \<longrightarrow>
        (let b = tie_aware_argmax ps key eps enable in
         (\<forall>j<length ps. ps ! j \<le> ps ! b) \<and> (\<forall>j<b. ps ! j < ps ! b)))"
proof -
  let ?b = "argmax ps"
  let ?c = "filter (\<lambda>i. ps ! ?b - ps ! i \<le> eps) [0..<length ps]"
  note am = argmax_spec [OF assms]
  have "tie_aware_argmax ps key eps enable = ?b"
    if h: "\<not> enable \<or> eps \<le> 0 \<or> (\<exists>i<length ps. \<forall>j<length ps. j \<noteq> i \<longrightarrow> ps ! j < ps ! i - eps)"
  proof (cases "enable \<and> 0 < eps")
    case True
    then obtain i where i: "i < length ps" "\<And>j. j < length ps \<Longrightarrow> j \<noteq> i \<Longrightarrow> ps ! j < ps ! i - eps"
      using h by auto
    have bi: "?b = i" using i(2) [OF am(1)] am(2) [OF i(1)] True by linarith
    have "set ?c \<subseteq> {i}" using i(2) bi by force
    then have "card (set ?c) \<le> card {i}" by (rule card_mono [rotated]) simp
    moreover have "card (set ?c) = length ?c" by (rule distinct_card) simp
    ultimately have "length ?c \<le> 1" by (metis is_singletonI is_singleton_altdef)
    then show ?thesis using True assms by (simp add: tie_aware_argmax_def Let_def)
  next
    case False
    then show ?thesis using assms by (auto simp: tie_aware_argmax_def Let_def)
  qed
  then show ?thesis using tie_aware_argmax_near_max [OF assms] am by (simp add: Let_def)
qed

theorem tie_aware_argmax_spec_witness:
  "let b = tie_aware_argmax [1/4, 3/4] ''k'' (1/10) True in b < 2 \<and> 3/4 - 1/10 \<le> [1/4, 3/4 :: real] ! b"
  using tie_aware_argmax_spec [of "[1/4, 3/4]" "''k''" "1/10" True]
  by (auto simp: Let_def less_2_cases_iff dest: spec [of _ 1])

section \<open>Rewards and load statistics\<close>

lemma spring_reward_bonus:
  assumes "spring_reward p eff cross bal bp cc = Inr (r, q)" and "\<not> sum_list eff \<le> EPS"
  shows "rp_load_aware_bonus q =
           active_shard_bonus_weight p * rp_active_shard_ratio q - hotspot_penalty_weight p * rp_hotspot_penalty q"
  using assms
  by (cases "balance_stats (load_basis_of eff bal) (max 1 (length eff))")
     (auto simp: spring_reward_def Let_def result_simps split: if_splits)

text \<open>Nonnegative weights, and the bounds they give to the reward of each mode.\<close>

definition reward_weights_ok :: "reward_params \<Rightarrow> bool" where
  "reward_weights_ok p \<longleftrightarrow> 0 \<le> lambda_weight p \<and> lambda_weight p \<le> 1 \<and>
     0 \<le> load_penalty_weight p \<and> 0 \<le> active_shard_bonus_weight p \<and> 0 \<le> hotspot_penalty_weight p \<and>
     0 \<le> backlog_penalty_weight p \<and> 0 \<le> iot_cstr_weight p \<and> 0 \<le> iot_balance_weight p \<and>
     0 \<le> iot_comm_cost_weight p \<and> 0 \<le> iot_hotspot_weight p"

definition reward_in_bounds :: "reward_params \<Rightarrow> string \<Rightarrow> real \<Rightarrow> bool" where
  "reward_in_bounds p mode r \<longleftrightarrow>
     (mode = ''paper'' \<longrightarrow> 0 \<le> r \<and> r \<le> 1) \<and>
     (mode = ''enhanced'' \<longrightarrow>
        - (load_penalty_weight p + hotspot_penalty_weight p + backlog_penalty_weight p) \<le> r \<and>
        r \<le> 1 + active_shard_bonus_weight p) \<and>
     (mode \<in> set IOT_GLOBAL_REWARD_MODES \<longrightarrow>
        - (iot_comm_cost_weight p + iot_hotspot_weight p) \<le> r \<and> r \<le> iot_cstr_weight p + iot_balance_weight p)"

lemma reward_in_bounds_zero: "reward_weights_ok p \<Longrightarrow> reward_in_bounds p mode 0"
  by (simp add: reward_in_bounds_def reward_weights_ok_def)

lemma weighted_unit: "0 \<le> w \<Longrightarrow> 0 \<le> x \<and> x \<le> 1 \<Longrightarrow> 0 \<le> w * x \<and> w * x \<le> (w :: real)"
  by (simp add: mult_left_le)

lemma spring_reward_in_bounds:
  assumes "spring_reward p eff cross bal bp cc = Inr (r, q)" and "\<not> sum_list eff \<le> EPS"
    and weights: "reward_weights_ok p"
  shows "reward_in_bounds p (py_lower (py_strip (reward_mode p))) r"
proof -
  note v = spring_reward_value [OF assms(1,2)] and b = spring_reward_bonus [OF assms(1,2)]
  have u: "0 \<le> rp_r_cstr q \<and> rp_r_cstr q \<le> 1" "0 \<le> rp_r_wlb q \<and> rp_r_wlb q \<le> 1"
    "0 \<le> rp_hotspot_penalty q \<and> rp_hotspot_penalty q \<le> 1"
    "0 \<le> rp_normalized_load_variance q \<and> rp_normalized_load_variance q \<le> 1"
    "0 \<le> rp_active_shard_ratio q \<and> rp_active_shard_ratio q \<le> 1"
    using spring_reward_parts [OF assms(1)] by (auto simp: parts_in_unit_def)
  have w: "0 \<le> lambda_weight p" "lambda_weight p \<le> 1" "0 \<le> load_penalty_weight p"
    "0 \<le> active_shard_bonus_weight p" "0 \<le> hotspot_penalty_weight p" "0 \<le> backlog_penalty_weight p"
    "0 \<le> iot_cstr_weight p" "0 \<le> iot_balance_weight p" "0 \<le> iot_comm_cost_weight p" "0 \<le> iot_hotspot_weight p"
    using weights by (auto simp: reward_weights_ok_def)
  note base = convex_unit [OF w(1,2), of "rp_r_cstr q" "rp_r_wlb q"]
  note terms = weighted_unit [OF w(3) u(4)] weighted_unit [OF w(4) u(5)] weighted_unit [OF w(5) u(3)]
    weighted_unit [OF w(6), of "clamp bp 0 1"] weighted_unit [OF w(7) u(1)] weighted_unit [OF w(8) u(2)]
    weighted_unit [OF w(9), of "clamp cc 0 1"] weighted_unit [OF w(10) u(3)]
  show ?thesis
    using v b base terms u
    by (auto simp: reward_in_bounds_def reward_of_mode_def Let_def IOT_GLOBAL_REWARD_MODES_def
        IOT_DENSE_BALANCED_REWARD_MODE_def split: if_splits)
qed

text \<open>
  C38. The reward of a batch: it is an error, a ValueError, exactly when there is something to
  reward (more than \<open>EPS\<close> effective transactions) and the mode is none of \<open>paper\<close>, \<open>enhanced\<close>
  and the IoT modes; without anything to reward it is zero whatever the mode. When it is
  returned, every reported rate, share and penalty is in the unit interval. If moreover no weight is
  negative and \<open>lambda_weight\<close> is at most one, the reward of the paper's mode is in the unit
  interval, that of the enhanced mode is between minus the weights of its three penalties and one
  plus the weight of its bonus, and that of the IoT modes is between minus the weights of the
  two penalties and the weights of the two gains.
\<close>

theorem spring_reward_bounds:
  "(let mode = py_lower (py_strip (reward_mode p)) in
    case spring_reward p eff cross bal bp cc of
      Inl err \<Rightarrow> err = ValueError \<and> EPS < sum_list eff \<and> \<not> known_reward_mode p
    | Inr (r, q) \<Rightarrow> (sum_list eff \<le> EPS \<and> r = 0 \<or> EPS < sum_list eff \<and> known_reward_mode p) \<and>
        parts_in_unit q \<and> (reward_weights_ok p \<longrightarrow> reward_in_bounds p mode r))"
proof (cases "spring_reward p eff cross bal bp cc")
  case (Inl err)
  then show ?thesis
    by (auto simp: spring_reward_def Let_def result_simps reward_of_mode_def known_reward_mode_def
        split: if_splits prod.splits)
next
  case (Inr rq)
  then obtain r q where r: "spring_reward p eff cross bal bp cc = Inr (r, q)" by (cases rq) auto
  have parts: "parts_in_unit q" by (rule spring_reward_parts [OF r])
  show ?thesis
  proof (cases "sum_list eff \<le> EPS")
    case True
    then have "r = 0" using r by (simp add: spring_reward_def Let_def)
    then show ?thesis using r parts True reward_in_bounds_zero by simp
  next
    case False
    have "known_reward_mode p"
      using spring_reward_value [OF r False]
      by (auto simp: reward_of_mode_def known_reward_mode_def Let_def split: if_splits)
    then show ?thesis using r parts False spring_reward_in_bounds [OF r False] by simp
  qed
qed

theorem spring_reward_bounds_witness:
  "case spring_reward (default_params\<lparr>reward_mode := ''enhanced''\<rparr>) [1, 1] [1/2, 1/2] None 0 0 of
     Inl err \<Rightarrow> False
   | Inr (r, q) \<Rightarrow> parts_in_unit q \<and> r \<le> 1 + active_shard_bonus_weight default_params"
proof -
  have mode: "py_lower (py_strip ''enhanced'') = ''enhanced''" by code_simp
  have weights: "reward_weights_ok (default_params\<lparr>reward_mode := ''enhanced''\<rparr>)"
    by (simp add: reward_weights_ok_def default_params_def)
  show ?thesis
    using spring_reward_bounds [of "default_params\<lparr>reward_mode := ''enhanced''\<rparr>" "[1, 1]" "[1/2, 1/2]" None 0 0]
      mode weights
    by (auto simp: known_reward_mode_def reward_in_bounds_def split: sum.splits)
qed

text \<open>
  The statistics of a load vector: they are an error exactly for an empty vector or one
  with a negative, infinite or NaN entry; Jain's fairness and the largest share are between one
  over the number of shards and one, and the normalised variance is the inverse of the fairness
  minus one; without load there are none of the three.
\<close>

theorem load_statistics_spec:
  "case load_statistics loads of
     Inl err \<Rightarrow> err = ValueError \<and> (loads = [] \<or> (\<exists>v\<in>set loads. \<not> (is_finite v \<and> Fin 0 \<le> v)))
   | Inr r \<Rightarrow> loads \<noteq> [] \<and> loads = map Fin (ls_loads r) \<and> ls_total r = sum_list (ls_loads r) \<and>
       0 \<le> ls_total r \<and> 0 \<le> ls_variance r \<and>
       (if ls_total r = 0
        then ls_jain_fairness r = None \<and> ls_max_share r = None \<and> ls_normalized_variance r = None
        else \<exists>j m. ls_jain_fairness r = Some j \<and> ls_max_share r = Some m \<and>
               ls_normalized_variance r = Some (1 / j - 1) \<and>
               1 / length loads \<le> j \<and> j \<le> 1 \<and> 1 / length loads \<le> m \<and> m \<le> 1)"
proof (cases "loads = [] \<or> \<not> list_all (\<lambda>v. is_finite v \<and> \<not> v < Fin 0) loads")
  case True
  moreover have "is_finite v \<and> \<not> v < Fin 0 \<longleftrightarrow> is_finite v \<and> Fin 0 \<le> v" for v
    by (auto simp: is_finite_iff)
  ultimately show ?thesis by (auto simp: load_statistics_def list_all_iff)
next
  case False
  define xs where "xs = map fin_val loads"
  define t where "t = sum_list xs"
  define q where "q = sum_list (map (\<lambda>v. v * v) xs)"
  define n where "n = real (length xs)"
  have loads: "loads = map Fin xs" unfolding xs_def map_map
    using False by (intro map_idI [symmetric]) (auto simp: list_all_iff Fin_fin_val)
  have pos: "\<forall>x\<in>set xs. 0 \<le> x" using False unfolding loads by (auto simp: list_all_iff not_less)
  have n: "0 < n" "xs \<noteq> []" using False by (auto simp: n_def xs_def)
  have t0: "0 \<le> t" unfolding t_def by (rule sum_list_nonneg_real [OF pos])
  have cauchy: "t * t \<le> n * q" using cauchy_list [of xs] by (simp add: t_def q_def n_def power2_eq_square)
  have upper: "q \<le> t * t" using sum_list_sq_le [OF pos] by (simp add: t_def q_def power2_eq_square)
  have var: "sum_list (map (\<lambda>v. (v - t / n)\<^sup>2) xs) = q - n * (t / n * (t / n))"
    unfolding q_def n_def t_def by (rule variance_identity [OF n(2) refl])
  have mx: "t \<le> n * list_max xs" using sum_list_le_length_max [of xs] by (simp add: t_def n_def)
  have mt: "list_max xs \<le> t" unfolding t_def
    by (rule member_le_sum_list_real [OF pos list_max_in [OF n(2)]])
  have eq: "load_statistics loads = Inr \<lparr>ls_loads = xs, ls_total = t,
      ls_variance = (q - n * (t / n * (t / n))) / n,
      ls_normalized_variance = (if t / n \<noteq> 0 then Some ((q - n * (t / n * (t / n))) / n / (t / n * (t / n))) else None),
      ls_jain_fairness = (if t \<noteq> 0 then Some (t * t / (n * q)) else None),
      ls_max_share = (if t \<noteq> 0 then Some (list_max xs / t) else None)\<rparr>"
    using False unfolding load_statistics_def Let_def var [symmetric]
    by (simp add: xs_def [symmetric] n_def [symmetric] t_def [symmetric] q_def [symmetric])
  have v0: "0 \<le> (q - n * (t / n * (t / n))) / n" using cauchy n by (simp add: field_simps)
  show ?thesis
  proof (cases "t = 0")
    case True
    then show ?thesis using eq v0 loads False t_def by simp
  next
    case False
    then have t: "0 < t" using t0 by simp
    then have "0 < t * t" by simp
    then have q: "0 < q" using cauchy n(1) by (metis not_less order_le_less_trans mult_nonneg_nonpos2 less_imp_le mult.commute)
    have "(q - n * (t / n * (t / n))) / n / (t / n * (t / n)) = 1 / (t * t / (n * q)) - 1"
      using t n(1) q by (simp add: field_simps)
    moreover have "1 / n \<le> t * t / (n * q)" "t * t / (n * q) \<le> 1" using upper cauchy q n(1) by (simp_all add: field_simps)
    moreover have "1 / n \<le> list_max xs / t" "list_max xs / t \<le> 1" using mx mt t n(1) by (simp_all add: field_simps)
    moreover have "real (length loads) = n" by (simp add: n_def xs_def)
    ultimately show ?thesis using eq v0 loads t n t_def by simp
  qed
qed

section \<open>The hash of an address\<close>

definition hex_digit :: "char \<Rightarrow> bool" where
  "hex_digit c \<longleftrightarrow> (case digit_val c of None \<Rightarrow> False | Some d \<Rightarrow> d < 16)"

definition hex_value :: "string \<Rightarrow> nat" where
  "hex_value s = foldl (\<lambda>acc c. acc * 16 + the (digit_val c)) 0 s"

lemma hex_digit_other:
  "\<not> hex_digit CHR ''_''" "\<not> hex_digit CHR ''x''" "\<not> hex_digit CHR ''X''"
  "\<not> hex_digit CHR ''-''" "\<not> hex_digit CHR ''+''"
  by code_simp+

lemma hex_digit_not_space: "hex_digit c \<Longrightarrow> \<not> is_space c"
  by (auto simp: hex_digit_def digit_val_def is_space_def Let_def split: if_splits)

lemma py_strip_id: "list_all (\<lambda>c. \<not> is_space c) s \<Longrightarrow> py_strip s = s"
proof -
  have "dropWhile is_space t = t" if "list_all (\<lambda>c. \<not> is_space c) t" for t
    using that by (cases t) simp_all
  then show "list_all (\<lambda>c. \<not> is_space c) s \<Longrightarrow> py_strip s = s"
    by (simp add: py_strip_def strip_by_def list_all_rev)
qed

lemma parse_digits_hex:
  "list_all hex_digit s \<Longrightarrow> prev \<or> s \<noteq> [] \<Longrightarrow>
   parse_digits 16 prev acc s = Some (foldl (\<lambda>acc c. acc * 16 + the (digit_val c)) acc s)"
proof (induction s arbitrary: prev acc)
  case Nil
  then show ?case by simp
next
  case (Cons c s)
  then have "hex_digit c" "c \<noteq> CHR ''_''" using hex_digit_other(1) by auto
  then show ?case using Cons by (auto simp: hex_digit_def split: option.splits)
qed

lemma py_int_hex:
  assumes "list_all hex_digit s" and "s \<noteq> []"
  shows "py_int 16 s = Some (int (hex_value s))"
proof -
  have strip: "py_strip s = s"
    using assms(1) by (intro py_strip_id) (auto simp: list_all_iff hex_digit_not_space)
  obtain c t where s: "s = c # t" using assms(2) by (cases s) auto
  have "c \<noteq> CHR ''-''" "c \<noteq> CHR ''+''" using assms(1) hex_digit_other by (auto simp: s)
  then have "split_sign s = (False, s)" by (simp add: s)
  moreover have "drop_base_prefix 16 s = s"
    using assms(1) hex_digit_other by (cases t) (auto simp: drop_base_prefix_def s)
  ultimately show ?thesis
    using parse_digits_hex [OF assms(1)] assms(2) strip by (simp add: py_int_def hex_value_def)
qed

lemma strip_0x_hex:
  assumes "list_all hex_digit a" and "pre \<in> {[], ''0x'', ''0X''}"
  shows "strip_0x (py_strip (pre @ a)) = a"
proof -
  have "list_all (\<lambda>c. \<not> is_space c) pre" using assms(2) by (auto simp: is_space_def)
  then have "py_strip (pre @ a) = pre @ a"
    using assms(1) by (intro py_strip_id) (auto simp: list_all_iff hex_digit_not_space)
  moreover have "\<not> starts_with ''0x'' a" "\<not> starts_with ''0X'' a"
    using assms(1) hex_digit_other by (cases a; cases "tl a"; auto)+
  ultimately show ?thesis using assms(2) by (auto simp: strip_0x_def)
qed

lemma digit_val_lower: "digit_val (lower_char c) = digit_val c"
proof -
  have "(of_char c :: nat) < 256" by simp
  then have "65 \<le> (of_char c :: nat) \<and> (of_char c :: nat) \<le> 90 \<Longrightarrow> (of_char (char_of (of_char c + 32 :: nat)) :: nat) = of_char c + 32"
    by (simp add: of_char_of)
  then show ?thesis by (auto simp: lower_char_def digit_val_def Let_def)
qed

lemma hex_lower: "list_all hex_digit (py_lower a) = list_all hex_digit a" "hex_value (py_lower a) = hex_value a"
proof -
  show "list_all hex_digit (py_lower a) = list_all hex_digit a"
    by (simp add: py_lower_def list_all_iff hex_digit_def digit_val_lower)
  have "foldl (\<lambda>acc c. acc * 16 + the (digit_val c)) k (map lower_char a) =
        foldl (\<lambda>acc c. acc * 16 + the (digit_val c)) k a" for k
    by (induction a arbitrary: k) (simp_all add: digit_val_lower)
  then show "hex_value (py_lower a) = hex_value a" by (simp add: hex_value_def py_lower_def)
qed

text \<open>
  The hash of a hexadecimal address is its last eight digits, read as a number, modulo the
  number of shards; so it does not depend on the prefix or on the case an address is written
  in, and names an existing shard.
\<close>

theorem addr2shard_hex:
  assumes "list_all hex_digit a" and "a \<noteq> []" and "pre \<in> {[], ''0x'', ''0X''}" and "0 < n"
  shows "addr2shard (pre @ a) n = hex_value (last_chars 8 a) mod n \<and>
         addr2shard (pre @ py_lower a) n = addr2shard (pre @ a) n \<and> addr2shard (pre @ a) n < n"
proof -
  have main: "addr2shard (pre @ b) n = hex_value (last_chars 8 b) mod n" if b: "list_all hex_digit b" "b \<noteq> []" for b
  proof -
    let ?t = "last_chars 8 b"
    have "length b - 8 < length b" using b(2) by simp
    then have "list_all hex_digit ?t" "?t \<noteq> []"
      using b by (auto simp: last_chars_def list_all_iff not_le dest: in_set_dropD)
    then have "py_int 16 ?t = Some (int (hex_value ?t))" by (rule py_int_hex)
    moreover have "(if length b > 8 then ?t else b) = ?t" by (simp add: last_chars_def)
    ultimately show ?thesis
      by (simp add: addr2shard_def addr_hash_def Let_def strip_0x_hex [OF b(1) assms(3)] nat_mod_distrib)
  qed
  have "last_chars 8 (py_lower a) = py_lower (last_chars 8 a)"
    by (simp add: last_chars_def py_lower_def drop_map)
  moreover have "list_all hex_digit (py_lower a)" "py_lower a \<noteq> []"
    using assms(1,2) hex_lower(1) by (simp_all add: py_lower_def)
  ultimately show ?thesis using main [OF assms(1,2)] main [of "py_lower a"] assms(4) by (simp add: hex_lower(2))
qed

theorem addr2shard_hex_witness:
  "addr2shard ''0xAB12'' 16 = 2 \<and> addr2shard ''0xab12'' 16 = 2"
proof -
  have h: "list_all hex_digit ''AB12''" "hex_value (last_chars 8 ''AB12'') mod 16 = 2" "py_lower ''AB12'' = ''ab12''"
    by (simp_all add: hex_digit_def hex_value_def last_chars_def digit_val_def py_lower_def lower_char_def char_of_def bit_0)
  have pre: "''0x'' \<in> {[], ''0x'', ''0X''}" "''AB12'' \<noteq> []" "0 < (16 :: nat)" by simp_all
  have "addr2shard (''0x'' @ ''AB12'') 16 = 2 \<and> addr2shard (''0x'' @ py_lower ''AB12'') 16 = 2"
    using addr2shard_hex [OF h(1) pre(2,1,3)] unfolding h(2) by metis
  then show ?thesis unfolding h(3) by (simp only: append.simps)
qed

end
