(* ===== verification/IotFeatures.thy ===== *)
theory IotFeatures
  imports TxModel PyValues
begin

text \<open>
  The IoT side data of \<open>offline_env.py\<close>: cells of the sidecar file, the keys of state
  objects and anchors, the multi-anchor relation, the ten scene features and the
  communication cost weight of a transaction. A row is what \<open>csv.DictReader\<close> returns: a
  field may be absent, and it is \<open>None\<close> when the line is too short. Numbers are read from
  text, so every value here is a \<open>pyfloat\<close>.

  \<open>is_private\<close> stands for \<open>ipaddress.ip_address(text).is_private\<close> (false where the text is
  no address); its table of networks depends on the version of the interpreter, and it is
  an argument of the definitions that call it.
\<close>

type_synonym row = "string \<Rightarrow> string option option"

text \<open>The argument of \<open>clean_iot_cell(row.get(field, ""))\<close>.\<close>

definition cell :: "row \<Rightarrow> string \<Rightarrow> string" where
  "cell row field = (case row field of Some (Some v) \<Rightarrow> v | _ \<Rightarrow> [])"

definition text_row :: "(string \<times> string) list \<Rightarrow> row" where
  "text_row kvs = map_of (map (\<lambda>(k, v). (k, Some v)) kvs)"

section \<open>Cells\<close>

definition clean_iot_cell :: "string \<Rightarrow> string" where
  "clean_iot_cell value = strip_by (\<lambda>c. of_char c = (34 :: nat)) (py_strip value)"

definition numeric_iot_cell :: "string \<Rightarrow> pyfloat" where
  "numeric_iot_cell value = (case py_float (clean_iot_cell value) of Some x \<Rightarrow> x | None \<Rightarrow> Fin 0)"

definition split_iot_list :: "string \<Rightarrow> string list" where
  "split_iot_list value =
     (let text = clean_iot_cell value in
      if text = [] then []
      else filter (\<lambda>part. part \<noteq> []) (map py_strip (split_on (CHR '';'') text)))"

definition bool_iot_cell :: "string \<Rightarrow> pyfloat" where
  "bool_iot_cell value =
     (if py_lower (clean_iot_cell value) \<in> {''1'', ''true'', ''yes'', ''y''} then Fin 1 else Fin 0)"

definition is_private_iot_ip :: "(string \<Rightarrow> bool) \<Rightarrow> string \<Rightarrow> bool" where
  "is_private_iot_ip is_private value =
     (let text = clean_iot_cell value in if text = [] then False else is_private text)"

section \<open>Keys\<close>

definition or_else :: "string \<Rightarrow> string \<Rightarrow> string" where
  "or_else s t = (if s \<noteq> [] then s else t)"

definition normalized_iot_protocol :: "row \<Rightarrow> string" where
  "normalized_iot_protocol row =
     or_else (py_lower (clean_iot_cell (cell row ''protocol''))) ''none''"

definition normalize_iot_endpoint :: "string \<Rightarrow> string" where
  "normalize_iot_endpoint value = or_else (py_lower (clean_iot_cell value)) ''unknown_peer''"

definition iot_device_key :: "row \<Rightarrow> string" where
  "iot_device_key row =
     (let label = or_else (clean_iot_cell (cell row ''device_label'')) ''unknown_device'';
          mac = or_else (py_lower (clean_iot_cell (cell row ''device_mac''))) ''unknown_mac''
      in py_lower label @ '':'' @ mac)"

definition choose_iot_peer :: "(string \<Rightarrow> bool) \<Rightarrow> row \<Rightarrow> string" where
  "choose_iot_peer is_private row =
     (let src_ip = clean_iot_cell (cell row ''srcIp'');
          dst_ip = clean_iot_cell (cell row ''dstIp'');
          src_private = is_private_iot_ip is_private src_ip;
          dst_private = is_private_iot_ip is_private dst_ip
      in if src_private \<and> \<not> dst_private then normalize_iot_endpoint dst_ip
         else if dst_private \<and> \<not> src_private then normalize_iot_endpoint src_ip
         else if dst_ip \<noteq> [] then normalize_iot_endpoint dst_ip
         else if src_ip \<noteq> [] then normalize_iot_endpoint src_ip
         else or_else (clean_iot_cell (cell row ''to_address'')) ''unknown_peer'')"

definition iot_peer_key :: "(string \<Rightarrow> bool) \<Rightarrow> row \<Rightarrow> string" where
  "iot_peer_key is_private row =
     (let peer = choose_iot_peer is_private row;
          protocol = normalized_iot_protocol row;
          service = or_else (clean_iot_cell (cell row ''dstPort'')) ''any''
      in ''iot_peer:'' @ peer @ ''|service:'' @ service @ ''|proto:'' @ protocol)"

definition iot_state_object_key :: "(string \<Rightarrow> bool) \<Rightarrow> row \<Rightarrow> string" where
  "iot_state_object_key is_private row =
     (let state_address = clean_iot_cell (cell row ''to_address'');
          readable_key = clean_iot_cell (cell row ''state_object_key'')
      in if state_address \<noteq> [] then state_address
         else if readable_key \<noteq> [] then readable_key
         else join_with ''|'' [''iot_state:'' @ iot_device_key row, iot_peer_key is_private row,
                              normalized_iot_protocol row])"

definition iot_anchor_key :: "row \<Rightarrow> string" where
  "iot_anchor_key row =
     (let device_address = clean_iot_cell (cell row ''from_address'')
      in if device_address \<noteq> [] then device_address else ''iot_device:'' @ iot_device_key row)"

section \<open>Anchors\<close>

text \<open>The local function \<open>add\<close> on the pair of lists; \<open>seen\<close> is the set of the first one.\<close>

definition add_anchor :: "string \<times> pyfloat \<Rightarrow> string list \<times> pyfloat list \<Rightarrow> string list \<times> pyfloat list" where
  "add_anchor aw acc =
     (case (aw, acc) of ((anchor, weight), (ordered, weights)) \<Rightarrow>
        (let clean_anchor = clean_iot_cell anchor in
         if clean_anchor = [] \<or> clean_anchor \<in> set ordered then (ordered, weights)
         else (ordered @ [clean_anchor], weights @ [fmax (Fin 0) weight])))"

definition weight_at :: "pyfloat list \<Rightarrow> nat \<Rightarrow> pyfloat" where
  "weight_at weights i = (if i < length weights then weights ! i else Fin 1)"

definition iot_related_anchors :: "row \<Rightarrow> string \<Rightarrow> string list \<times> pyfloat list" where
  "iot_related_anchors row primary_anchor =
     (let raw_addresses = split_iot_list (clean_iot_cell (cell row ''anchor_addresses''));
          raw_weights = map numeric_iot_cell (split_iot_list (cell row ''anchor_weights''));
          (ordered, weights) =
            add_anchor (primary_anchor, Fin 1)
              (fold add_anchor
                 (map (\<lambda>(idx, anchor). (anchor, weight_at raw_weights idx))
                    (enumerate 0 raw_addresses)) ([], []));
          total = fsum weights
      in if total \<le> Fin EPS \<and> ordered \<noteq> []
         then (ordered, map (\<lambda>_. Fin (1 / real (length ordered))) ordered)
         else if Fin EPS < total then (ordered, map (\<lambda>w. fdiv w total) weights)
         else (ordered, weights))"

section \<open>Features\<close>

definition fclamp :: "pyfloat \<Rightarrow> pyfloat \<Rightarrow> pyfloat \<Rightarrow> pyfloat" where
  "fclamp value lo hi = (if value < lo then lo else if hi < value then hi else value)"

definition log_normalize :: "pyfloat \<Rightarrow> real \<Rightarrow> pyfloat" where
  "log_normalize value scale =
     fclamp (fdiv (flog1p (fmax (Fin 0) value)) (Fin (ln (1 + max 1 scale)))) (Fin 0) (Fin 1)"

definition protocol_score :: "string \<Rightarrow> real" where
  "protocol_score protocol =
     (let protocol = py_lower protocol in
      if protocol \<in> {''tls'', ''https'', ''ssl''} then 1
      else if protocol \<in> {''http'', ''rtsp'', ''rtmp'', ''xmpp''} then 0.8
      else if protocol \<in> {''tcp'', ''udp'', ''none''} then 0.5
      else if protocol \<in> {''dns'', ''ntp'', ''stun'', ''syslog''} then 0.3
      else 0.6)"

definition uniform_weights :: "nat \<Rightarrow> pyfloat list" where
  "uniform_weights n = replicate n (Fin (1 / real n))"

definition normalized_iot_weights :: "row \<Rightarrow> pyfloat list" where
  "normalized_iot_weights row =
     (let weights = map (\<lambda>v. fmax (Fin 0) (numeric_iot_cell v))
                      (split_iot_list (cell row ''anchor_weights''));
          addresses = length (split_iot_list (cell row ''anchor_addresses''));
          anchor_count = (if addresses \<noteq> 0 then addresses
                          else length (split_iot_list (cell row ''anchor_types'')));
          weights = (if weights = [] then replicate (max 1 anchor_count) (Fin 1) else weights);
          total = fsum weights
      in if total \<le> Fin EPS then uniform_weights (length weights)
         else map (\<lambda>w. fdiv w total) weights)"

definition normalized_iot_numeric_list :: "row \<Rightarrow> string \<Rightarrow> string \<Rightarrow> nat \<Rightarrow> pyfloat list" where
  "normalized_iot_numeric_list row field fallback_field expected_len =
     (let values = map numeric_iot_cell (split_iot_list (cell row field));
          values = (if values = [] then [numeric_iot_cell (cell row fallback_field)] else values);
          values = (if length values < expected_len
                    then values @ replicate (expected_len - length values) (last values)
                    else values)
      in take (max 1 expected_len) values)"

text \<open>Python's \<open>min\<close> and \<open>max\<close> of a nonempty list: the running best, kept unless beaten.\<close>

definition fmin_list :: "pyfloat list \<Rightarrow> pyfloat" where
  "fmin_list xs = fold (\<lambda>x best. fmin best x) (tl xs) (hd xs)"

definition fmax_list :: "pyfloat list \<Rightarrow> pyfloat" where
  "fmax_list xs = fold (\<lambda>x best. fmax best x) (tl xs) (hd xs)"

definition weighted_iot_stats :: "pyfloat list \<Rightarrow> pyfloat list \<Rightarrow> pyfloat \<times> pyfloat \<times> pyfloat" where
  "weighted_iot_stats values weights =
     (if values = [] then (Fin 0, Fin 0, Fin 0)
      else
        (let weights = (if weights = [] \<or> length weights \<noteq> length values
                        then uniform_weights (length values) else weights);
             total_weight = fsum (map (fmax (Fin 0)) weights);
             (weights, total_weight) = (if total_weight \<le> Fin EPS
                then (uniform_weights (length values), Fin 1) else (weights, total_weight));
             avg = fsum (map2 (\<lambda>value weight. value * fmax (Fin 0) weight) values weights);
             avg = fdiv avg total_weight
         in (fclamp avg (Fin 0) (Fin 1), fclamp (fmin_list values) (Fin 0) (Fin 1),
             fclamp (fmax_list values) (Fin 0) (Fin 1))))"

definition IOT_ANCHOR_TYPE_ORDER :: "string list" where
  "IOT_ANCHOR_TYPE_ORDER = [''device'', ''gateway'', ''cloud_endpoint'', ''local_endpoint'',
     ''private_endpoint'', ''service_group'']"

definition anchor_type_group :: "string \<Rightarrow> string" where
  "anchor_type_group value =
     (let text = py_lower (clean_iot_cell value) in
      if contains_str ''gateway'' text then ''gateway''
      else if contains_str ''cloud'' text then ''cloud_endpoint''
      else if contains_str ''local'' text then ''local_endpoint''
      else if contains_str ''private'' text then ''private_endpoint''
      else if contains_str ''service'' text then ''service_group''
      else ''device'')"

text \<open>The position of a name in \<open>IOT_ANCHOR_TYPE_ORDER\<close>; the length where it is absent.\<close>

definition type_index :: "string \<Rightarrow> nat" where
  "type_index kind = length (takeWhile (\<lambda>name. name \<noteq> kind) IOT_ANCHOR_TYPE_ORDER)"

definition add_type :: "pyfloat \<Rightarrow> string \<times> pyfloat \<Rightarrow> pyfloat list \<Rightarrow> pyfloat list" where
  "add_type total_weight rw acc =
     (case rw of (raw_type, weight) \<Rightarrow>
        (let idx = type_index (anchor_type_group raw_type) in
         if idx < length IOT_ANCHOR_TYPE_ORDER
         then bump idx (fdiv (fmax (Fin 0) weight) total_weight) acc
         else acc))"

definition row_anchor_types :: "row \<Rightarrow> string list" where
  "row_anchor_types row =
     (let raw_types = split_iot_list (cell row ''anchor_types'');
          raw_type = clean_iot_cell (cell row ''peer_anchor_type'')
      in if raw_types \<noteq> [] then raw_types
         else if raw_type \<noteq> [] then [raw_type]
         else [''device''])"

definition anchor_type_distribution :: "row \<Rightarrow> pyfloat list \<Rightarrow> pyfloat list" where
  "anchor_type_distribution row weights =
     (let raw_types = row_anchor_types row;
          n = length raw_types;
          weights = (if length weights < n
                     then weights @ replicate (n - length weights) (Fin 1) else weights);
          weights = (if length weights > n then take n weights else weights);
          total_weight = fsum (map (fmax (Fin 0)) weights);
          (weights, total_weight) = (if total_weight \<le> Fin EPS
             then (uniform_weights n, Fin 1) else (weights, total_weight));
          dist = fold (add_type total_weight) (zip raw_types weights)
                   (replicate (length IOT_ANCHOR_TYPE_ORDER) (Fin 0))
      in map (\<lambda>v. fclamp v (Fin 0) (Fin 1)) dist)"

text \<open>The shares of the device, edge, cloud and service anchors.\<close>

definition lite_anchor_type_shares :: "row \<Rightarrow> pyfloat list \<Rightarrow> pyfloat \<times> pyfloat \<times> pyfloat \<times> pyfloat" where
  "lite_anchor_type_shares row weights =
     (let dist = anchor_type_distribution row weights;
          share = (\<lambda>name. dist ! type_index name);
          unit = (\<lambda>v. fclamp v (Fin 0) (Fin 1))
      in (unit (share ''device''),
          unit (share ''gateway'' + share ''local_endpoint'' + share ''private_endpoint''),
          unit (share ''cloud_endpoint''),
          unit (share ''service_group'')))"

definition iot_control_protocol_flag :: "string \<Rightarrow> row \<Rightarrow> pyfloat" where
  "iot_control_protocol_flag protocol row =
     (if Fin 0 < bool_iot_cell (cell row ''is_control_protocol'') then Fin 1
      else if py_lower protocol \<in> {''icmp'', ''arp'', ''dhcp'', ''mdns'', ''ssdp'', ''igmp''} then Fin 1
      else Fin 0)"

definition iot_payload :: "row \<Rightarrow> pyfloat" where
  "iot_payload row =
     numeric_iot_cell (cell row ''srcPayloadSize'') + numeric_iot_cell (cell row ''dstPayloadSize'')"

definition iot_traffic_rate_feature :: "row \<Rightarrow> pyfloat" where
  "iot_traffic_rate_feature row =
     (let payload = iot_payload row; duration = numeric_iot_cell (cell row ''flowDuration'') in
      if duration \<le> Fin EPS then log_normalize payload 1000000
      else log_normalize (fdiv payload duration) 10000)"

definition anchor_distances :: "row \<Rightarrow> nat \<Rightarrow> pyfloat list" where
  "anchor_distances row n =
     map (\<lambda>v. fclamp (fdiv v (Fin 60)) (Fin 0) (Fin 1))
       (normalized_iot_numeric_list row ''anchor_distances'' ''distance'' n)"

definition anchor_link_qualities :: "row \<Rightarrow> nat \<Rightarrow> pyfloat list" where
  "anchor_link_qualities row n =
     map (\<lambda>v. fclamp v (Fin 0) (Fin 1))
       (normalized_iot_numeric_list row ''anchor_link_qualities'' ''link_quality'' n)"

text \<open>\<open>int(x)\<close> of a float.\<close>

fun int_of_float :: "pyfloat \<Rightarrow> int result" where
  "int_of_float (Fin a) = return (if a \<ge> 0 then \<lfloor>a\<rfloor> else \<lceil>a\<rceil>)"
| "int_of_float NaN = raise ValueError"
| "int_of_float _ = raise OverflowError"

definition anchor_count_of :: "row \<Rightarrow> nat \<Rightarrow> int result" where
  "anchor_count_of row n =
     (let stated = numeric_iot_cell (cell row ''anchor_count'');
          count = (if stated \<noteq> Fin 0 then stated else if n \<noteq> 0 then Fin (real n) else Fin 1)
      in int_of_float (fmax (Fin 1) count))"

definition iot_feature_vector :: "row \<Rightarrow> nat \<Rightarrow> pyfloat list result" where
  "iot_feature_vector row prior_frequency =
     (let protocol = normalized_iot_protocol row;
          anchor_weights = normalized_iot_weights row;
          n = length anchor_weights;
          (dist_avg, dist_min, dist_max) = weighted_iot_stats (anchor_distances row n) anchor_weights;
          (link_avg, link_min, link_max) = weighted_iot_stats (anchor_link_qualities row n) anchor_weights
      in bind_result (anchor_count_of row n) (\<lambda>anchor_count.
         let (device, edge, cloud, service) = lite_anchor_type_shares row anchor_weights;
             features = [fclamp (Fin (real_of_int anchor_count / 4)) (Fin 0) (Fin 1),
                         dist_avg, dist_min, link_avg, iot_traffic_rate_feature row,
                         device, edge, cloud, service, iot_control_protocol_flag protocol row]
         in if length features \<noteq> IOT_FEATURE_DIM then raise RuntimeError else return features))"

definition iot_communication_cost_weight :: "row \<Rightarrow> pyfloat" where
  "iot_communication_cost_weight row =
     (let weights = normalized_iot_weights row;
          n = length weights;
          distance = fst (weighted_iot_stats (anchor_distances row n) weights);
          link_quality = fst (weighted_iot_stats (anchor_link_qualities row n) weights);
          link_loss = fclamp (Fin 1 - link_quality) (Fin 0) (Fin 1);
          traffic_weight = fmax (Fin 0.05) (log_normalize (iot_payload row) 1000000)
      in fclamp (distance * link_loss * traffic_weight) (Fin 0) (Fin 1))"

section \<open>Values of the unit interval\<close>

fun unit_float :: "pyfloat \<Rightarrow> bool" where
  "unit_float (Fin a) = (0 \<le> a \<and> a \<le> 1)"
| "unit_float _ = False"

lemma unit_float_cases:
  assumes "unit_float x"
  obtains a where "x = Fin a" and "0 \<le> a" and "a \<le> 1"
  using assms by (cases x) auto

lemma fclamp_Fin [simp]: "fclamp (Fin a) (Fin l) (Fin h) = Fin (clamp a l h)"
  by (auto simp: fclamp_def clamp_def)

lemma unit_fclamp [bound_intros]: "x \<noteq> NaN \<Longrightarrow> unit_float (fclamp x (Fin 0) (Fin 1))"
  by (cases x) (auto simp: fclamp_def)

lemma fclamp_NaN: "fclamp NaN l h = NaN"
  by (cases h) (simp_all add: fclamp_def)

lemma fmax0_fin: "x \<noteq> PInf \<Longrightarrow> fmax (Fin 0) x = Fin (max 0 (fin_val x))"
  by (cases x) (auto simp: fmax_def)

lemma unit_log_normalize [bound_intros]: "unit_float (log_normalize v scale)"
proof -
  have pos: "0 < ln (1 + max 1 scale)" by simp
  have "fdiv (flog1p (fmax (Fin 0) v)) (Fin (ln (1 + max 1 scale))) \<noteq> NaN"
    using pos by (cases v) (auto simp: fmax_def)
  then show ?thesis unfolding log_normalize_def by (rule unit_fclamp)
qed

lemma clamp_mono:
  assumes "a \<le> b" and "l \<le> h"
  shows "clamp a l h \<le> clamp b l h"
  using assms by (auto simp: clamp_def)

lemma log_normalize_mono:
  assumes "a \<le> b"
  shows "fin_val (log_normalize (Fin a) s) \<le> fin_val (log_normalize (Fin b) s)"
proof -
  have "ln (1 + max 0 a) / ln (1 + max 1 s) \<le> ln (1 + max 0 b) / ln (1 + max 1 s)"
    using assms by (intro divide_right_mono) auto
  then have "clamp (ln (1 + max 0 a) / ln (1 + max 1 s)) 0 1 \<le>
             clamp (ln (1 + max 0 b) / ln (1 + max 1 s)) 0 1"
    by (rule clamp_mono) simp
  then show ?thesis by (simp add: log_normalize_def)
qed

section \<open>Weights\<close>

definition finite_weights :: "row \<Rightarrow> bool" where
  "finite_weights row \<longleftrightarrow>
     list_all (\<lambda>v. numeric_iot_cell v \<noteq> PInf) (split_iot_list (cell row ''anchor_weights''))"

text \<open>A list of floats that is a probability distribution.\<close>

definition weight_vector :: "pyfloat list \<Rightarrow> bool" where
  "weight_vector ws \<longleftrightarrow> list_all is_finite ws \<and> list_all (\<lambda>w. Fin 0 \<le> w) ws \<and> fsum ws = Fin 1"

lemma weight_vectorE:
  assumes "weight_vector ws"
  obtains us where "ws = map Fin us" and "\<And>u. u \<in> set us \<Longrightarrow> 0 \<le> u" and "sum_list us = 1"
proof -
  obtain us where us: "ws = map Fin us"
    using assms by (auto simp: weight_vector_def elim: fin_val_map)
  with assms that show thesis by (auto simp: weight_vector_def list_all_iff)
qed

lemma weight_vector_Fin:
  "weight_vector (map Fin us) \<longleftrightarrow> (\<forall>u\<in>set us. 0 \<le> u) \<and> sum_list us = 1"
  by (auto simp: weight_vector_def list_all_iff)

lemma weights_normalized:
  assumes "us \<noteq> []" and "\<And>u. u \<in> set us \<Longrightarrow> 0 \<le> u"
  shows "(if fsum (map Fin us) \<le> Fin EPS then uniform_weights (length us)
          else map (\<lambda>w. fdiv w (fsum (map Fin us))) (map Fin us)) = map Fin (normalize_weights us)"
  by (auto simp: normalize_weights_def Let_def uniform_weights_def map_replicate_const)

lemma normalized_iot_weights_vector:
  assumes "finite_weights row"
  shows "weight_vector (normalized_iot_weights row) \<and> normalized_iot_weights row \<noteq> []"
proof -
  define cells where "cells = split_iot_list (cell row ''anchor_weights'')"
  define addresses where "addresses = length (split_iot_list (cell row ''anchor_addresses''))"
  define n where "n = (if addresses \<noteq> 0 then addresses
                          else length (split_iot_list (cell row ''anchor_types'')))"
  define us where "us = (if cells = [] then replicate (max 1 n) 1
                         else map (\<lambda>v. max 0 (fin_val (numeric_iot_cell v))) cells)"
  have ne: "us \<noteq> []" and nonneg: "\<And>u. u \<in> set us \<Longrightarrow> 0 \<le> u"
    by (auto simp: us_def split: if_splits)
  have cl: "map (\<lambda>v. fmax (Fin 0) (numeric_iot_cell v)) cells =
            map (\<lambda>v. Fin (max 0 (fin_val (numeric_iot_cell v)))) cells"
    using assms by (auto simp: finite_weights_def list_all_iff cells_def intro!: fmax0_fin)
  have w: "(if map (\<lambda>v. fmax (Fin 0) (numeric_iot_cell v)) cells = []
            then replicate (max 1 n) (Fin 1)
            else map (\<lambda>v. fmax (Fin 0) (numeric_iot_cell v)) cells) = map Fin us"
    unfolding cl by (simp add: us_def comp_def)
  have "normalized_iot_weights row = map Fin (normalize_weights us)"
    unfolding normalized_iot_weights_def Let_def cells_def [symmetric] addresses_def [symmetric]
      n_def [symmetric] w length_map
    by (rule weights_normalized [OF ne nonneg])
  moreover have "weight_vector (map Fin (normalize_weights us))"
    using normalize_weights_sum [OF ne] normalize_weights_nonneg [of us] nonneg
    by (auto simp: weight_vector_Fin)
  moreover have "normalize_weights us \<noteq> []"
    using ne normalize_weights_length [of us] by (metis length_0_conv)
  ultimately show ?thesis by simp
qed

section \<open>Statistics of the anchors\<close>

lemma fmin_list_Fin: "fmin_list (map Fin (x # xs)) = Fin (list_min (x # xs))"
proof -
  have "fold (\<lambda>x best. fmin best x) (map Fin xs) (Fin a) = Fin (fold min xs a)" for a
    by (induction xs arbitrary: a) (simp_all add: min.commute)
  then show ?thesis by (simp add: fmin_list_def list_min_def)
qed

lemma fmax_list_Fin: "fmax_list (map Fin (x # xs)) = Fin (list_max (x # xs))"
proof -
  have "fold (\<lambda>x best. fmax best x) (map Fin xs) (Fin a) = Fin (fold max xs a)" for a
    by (induction xs arbitrary: a) (simp_all add: max.commute)
  then show ?thesis by (simp add: fmax_list_def list_max_def)
qed

lemma weighted_mean_bounds:
  fixes vs us :: "real list"
  assumes "length us = length vs" and "\<And>u. u \<in> set us \<Longrightarrow> 0 \<le> u"
    and "\<And>v. v \<in> set vs \<Longrightarrow> l \<le> v \<and> v \<le> h"
  shows "l * sum_list us \<le> sum_list (map2 (*) vs us) \<and> sum_list (map2 (*) vs us) \<le> h * sum_list us"
  using assms
proof (induction us vs rule: list_induct2)
  case Nil
  then show ?case by simp
next
  case (Cons u us v vs)
  have "l * u \<le> v * u" "v * u \<le> h * u"
    using Cons.prems by (auto intro!: mult_right_mono)
  with Cons show ?case by (auto simp: distrib_left)
qed

lemma map2_Fin: "map2 f (map Fin vs) (map Fin us) = map (\<lambda>(v, u). f (Fin v) (Fin u)) (zip vs us)"
  by (simp add: zip_map_map split_beta)

lemma fsum_products:
  assumes "length us = length vs" and "\<And>u. u \<in> set us \<Longrightarrow> 0 \<le> u"
  shows "fsum (map2 (\<lambda>v w. v * fmax (Fin 0) w) (map Fin vs) (map Fin us)) =
         Fin (sum_list (map2 (*) vs us))"
proof -
  have "map2 (\<lambda>v w. v * fmax (Fin 0) w) (map Fin vs) (map Fin us) = map Fin (map2 (*) vs us)"
    using assms(2) by (auto simp: map2_Fin dest: set_zip_rightD)
  then show ?thesis by (simp only: fsum_Fin)
qed

text \<open>On a distribution of weights the statistics are the weighted mean, the minimum and the
  maximum of the values.\<close>

lemma weighted_iot_stats_values:
  assumes "weight_vector ws" and "length ws = length vs" and "vs \<noteq> []"
    and "\<And>v. v \<in> set vs \<Longrightarrow> 0 \<le> v \<and> v \<le> 1"
  obtains avg where "weighted_iot_stats (map Fin vs) ws = (Fin avg, Fin (list_min vs), Fin (list_max vs))"
    and "list_min vs \<le> avg" and "avg \<le> list_max vs" and "0 \<le> list_min vs" and "list_max vs \<le> 1"
proof -
  obtain us where us: "ws = map Fin us" "\<And>u. u \<in> set us \<Longrightarrow> 0 \<le> u" "sum_list us = 1"
    using weight_vectorE [OF assms(1)] by blast
  define avg where "avg = sum_list (map2 (*) vs us)"
  have len: "length us = length vs" using assms(2) us(1) by simp
  have cl: "map (fmax (Fin 0)) ws = ws" using us by (auto simp: us(1))
  have lo: "list_min vs \<le> avg" and hi: "avg \<le> list_max vs"
    using weighted_mean_bounds [of us vs "list_min vs" "list_max vs"] us len
    by (auto simp: avg_def list_min_le list_max_ge)
  have b: "0 \<le> list_min vs" "list_max vs \<le> 1"
    using list_min_in [OF assms(3)] list_max_in [OF assms(3)] assms(4) by auto
  obtain x xs where x: "vs = x # xs" using assms(3) by (cases vs) auto
  have "\<not> fsum ws \<le> Fin EPS" by (simp add: us EPS_def)
  moreover have "fsum ws = Fin 1" by (simp add: us)
  moreover have "fsum (map2 (\<lambda>v w. v * fmax (Fin 0) w) (map Fin vs) ws) = Fin avg"
    using fsum_products [OF len us(2)] by (simp only: us(1) avg_def)
  moreover have "ws \<noteq> []" using assms(2,3) by auto
  moreover have "fmin_list (map Fin vs) = Fin (list_min vs)" "fmax_list (map Fin vs) = Fin (list_max vs)"
    unfolding x by (rule fmin_list_Fin fmax_list_Fin)+
  ultimately have "weighted_iot_stats (map Fin vs) ws =
      (Fin (clamp avg 0 1), Fin (clamp (list_min vs) 0 1), Fin (clamp (list_max vs) 0 1))"
    using assms(2,3) by (simp add: weighted_iot_stats_def Let_def cl)
  then show thesis using that [of avg] lo hi b by (simp add: clamp_def)
qed

lemma length_normalized_iot_numeric_list [simp]:
  "length (normalized_iot_numeric_list row f g n) = max 1 n"
proof -
  define cells where "cells = map numeric_iot_cell (split_iot_list (cell row f))"
  define vs where "vs = (if cells = [] then [numeric_iot_cell (cell row g)] else cells)"
  have "1 \<le> length vs" by (cases cells) (simp_all add: vs_def)
  then show ?thesis
    unfolding normalized_iot_numeric_list_def Let_def cells_def [symmetric] vs_def [symmetric]
    by auto
qed

section \<open>Shares of the anchor types\<close>

lemma anchor_type_group_in: "anchor_type_group v \<in> set IOT_ANCHOR_TYPE_ORDER"
  by (simp add: anchor_type_group_def IOT_ANCHOR_TYPE_ORDER_def Let_def)

lemma type_index_less:
  assumes "kind \<in> set IOT_ANCHOR_TYPE_ORDER"
  shows "type_index kind < 6"
  using assms by (auto simp: IOT_ANCHOR_TYPE_ORDER_def type_index_def)

lemma type_index_values [simp]:
  "type_index ''device'' = 0" "type_index ''gateway'' = 1" "type_index ''cloud_endpoint'' = 2"
  "type_index ''local_endpoint'' = 3" "type_index ''private_endpoint'' = 4"
  "type_index ''service_group'' = 5"
  by (simp_all add: type_index_def IOT_ANCHOR_TYPE_ORDER_def)

lemma length_IOT_ANCHOR_TYPE_ORDER [simp]: "length IOT_ANCHOR_TYPE_ORDER = 6"
  by (simp add: IOT_ANCHOR_TYPE_ORDER_def)

lemma add_types_Fin:
  assumes "length ds = 6" and "0 < t" and "\<And>d. d \<in> set ds \<Longrightarrow> 0 \<le> d"
  obtains es where "fold (add_type (Fin t)) (map (\<lambda>(k, u). (k, Fin u)) ps) (map Fin ds) = map Fin es"
    and "length es = 6" and "\<And>e. e \<in> set es \<Longrightarrow> 0 \<le> e"
    and "sum_list es = sum_list ds + sum_list (map (\<lambda>(k, u). max 0 u) ps) / t"
  using assms
proof (induction ps arbitrary: ds thesis)
  case Nil
  show ?case by (rule Nil(1) [of ds]) (use Nil in simp_all)
next
  case (Cons q ps)
  obtain k u where q: "q = (k, u)" by force
  define i where "i = type_index (anchor_type_group k)"
  define ds' where "ds' = bump i (max 0 u / t) ds"
  have i: "i < 6" unfolding i_def by (rule type_index_less [OF anchor_type_group_in])
  have step: "add_type (Fin t) (k, Fin u) (map Fin ds) = map Fin ds'"
    using i Cons.prems(2) by (simp add: add_type_def i_def [symmetric] ds'_def bump_def map_update)
  have "d \<in> set ds' \<Longrightarrow> 0 \<le> d" for d
    using Cons.prems(2-4) i set_update_subset_insert [of ds i "ds ! i + max 0 u / t"]
    by (auto simp: ds'_def bump_def)
  moreover have "length ds' = 6" by (simp add: ds'_def Cons.prems(2))
  moreover have "sum_list ds' = sum_list ds + max 0 u / t"
    using i Cons.prems(2) by (simp add: ds'_def)
  ultimately obtain es where es:
    "fold (add_type (Fin t)) (map (\<lambda>(k, u). (k, Fin u)) ps) (map Fin ds') = map Fin es"
    "length es = 6" "\<And>e. e \<in> set es \<Longrightarrow> 0 \<le> e"
    "sum_list es = sum_list ds + max 0 u / t + sum_list (map (\<lambda>(k, u). max 0 u) ps) / t"
    using Cons.IH [of ds'] Cons.prems(3) by metis
  show ?case
    by (rule Cons.prems(1) [of es]) (use es step in \<open>simp_all add: q add_divide_distrib\<close>)
qed

lemma row_anchor_types_nonempty: "row_anchor_types row \<noteq> []"
  by (simp add: row_anchor_types_def Let_def)

text \<open>The weights after padding with ones or cutting to the number of types.\<close>

lemma fitted_weights:
  fixes us :: "real list"
  defines "fit \<equiv> \<lambda>ws n. (let ws = (if length ws < n then ws @ replicate (n - length ws) (Fin 1) else ws)
                          in if length ws > n then take n ws else ws)"
  assumes "\<And>u. u \<in> set us \<Longrightarrow> 0 \<le> u"
  obtains vs where "fit (map Fin us) n = map Fin vs" and "length vs = n"
    and "\<And>v. v \<in> set vs \<Longrightarrow> 0 \<le> v"
proof
  define vs where "vs = take n (us @ replicate (n - length us) 1)"
  show "fit (map Fin us) n = map Fin vs"
    by (auto simp: fit_def Let_def vs_def take_map)
  show "length vs = n" by (auto simp: vs_def)
  show "0 \<le> v" if "v \<in> set vs" for v
    using that assms(2) in_set_takeD [of v n] by (auto simp: vs_def)
qed

lemma anchor_type_distribution_sum:
  assumes "weight_vector weights"
  obtains ds where "anchor_type_distribution row weights = map Fin ds" and "length ds = 6"
    and "\<And>d. d \<in> set ds \<Longrightarrow> 0 \<le> d" and "sum_list ds = 1"
proof -
  define types where "types = row_anchor_types row"
  define n where "n = length types"
  have n: "0 < n" using row_anchor_types_nonempty [of row] by (simp add: n_def types_def)
  obtain us where us: "weights = map Fin us" "\<And>u. u \<in> set us \<Longrightarrow> 0 \<le> u"
    using weight_vectorE [OF assms] by blast
  obtain vs where vs: "(let ws = (if length weights < n
        then weights @ replicate (n - length weights) (Fin 1) else weights)
      in if length ws > n then take n ws else ws) = map Fin vs" "length vs = n"
      "\<And>v. v \<in> set vs \<Longrightarrow> 0 \<le> v"
    using fitted_weights [of us n] us by (metis (no_types, lifting))
  have pos: "map (fmax (Fin 0)) (map Fin vs) = map Fin vs" using vs(3) by auto
  define t where "t = (if sum_list vs \<le> EPS then 1 else sum_list vs)"
  define ws where "ws = (if sum_list vs \<le> EPS then replicate n (1 / real n) else vs)"
  have t: "0 < t" by (auto simp: t_def not_le intro: less_trans [OF EPS_pos])
  have ws: "length ws = n" "\<And>w. w \<in> set ws \<Longrightarrow> 0 \<le> w" "sum_list ws / t = 1"
    using vs n t by (auto simp: ws_def t_def sum_list_replicate split: if_splits)
  have pair: "(if fsum (map (fmax (Fin 0)) (map Fin vs)) \<le> Fin EPS then (uniform_weights n, Fin 1)
       else (map Fin vs, fsum (map (fmax (Fin 0)) (map Fin vs)))) = (map Fin ws, Fin t)"
    unfolding pos by (simp add: t_def ws_def uniform_weights_def)
  have z: "zip types (map Fin ws) = map (\<lambda>(k, u). (k, Fin u)) (zip types ws)"
    by (simp add: zip_map2 split_beta)
  have "map (\<lambda>(k, u). max 0 u) (zip types ws) = map snd (zip types ws)"
    using ws(2) by (auto dest!: set_zip_rightD)
  then have m: "sum_list (map (\<lambda>(k, u). max 0 u) (zip types ws)) = sum_list ws"
    using ws(1) by (simp add: n_def)
  obtain es where es: "fold (add_type (Fin t)) (zip types (map Fin ws)) (map Fin (replicate 6 0)) = map Fin es"
    "length es = 6" "\<And>e. e \<in> set es \<Longrightarrow> 0 \<le> e" "sum_list es = 1"
    using add_types_Fin [of "replicate 6 0" t "zip types ws"] t ws(3)
    unfolding z m by (auto simp del: map_replicate)
  have cl: "map (\<lambda>v. fclamp v (Fin 0) (Fin 1)) (map Fin es) = map Fin es"
    using es(3,4) member_le_sum_list_real [of es] by (fastforce simp: clamp_def)
  have "anchor_type_distribution row weights = map Fin es"
    unfolding anchor_type_distribution_def Let_def types_def [symmetric] n_def [symmetric]
      vs(1) [unfolded Let_def] pair using es(1) cl by simp
  then show thesis using that [of es] es(2-4) by blast
qed

lemma lite_anchor_type_shares_sum:
  assumes "weight_vector weights"
  obtains d e c v where "lite_anchor_type_shares row weights = (Fin d, Fin e, Fin c, Fin v)"
    and "0 \<le> d" and "0 \<le> e" and "0 \<le> c" and "0 \<le> v" and "d + e + c + v = 1"
proof -
  obtain ds where ds: "anchor_type_distribution row weights = map Fin ds" "length ds = 6"
    "\<And>d. d \<in> set ds \<Longrightarrow> 0 \<le> d" "sum_list ds = 1"
    using anchor_type_distribution_sum [OF assms] by blast
  obtain a b c d e f where l: "ds = [a, b, c, d, e, f]"
    using ds(2) by (auto simp: length_Suc_conv eval_nat_numeral)
  have nn: "0 \<le> a" "0 \<le> b" "0 \<le> c" "0 \<le> d" "0 \<le> e" "0 \<le> f" using ds(3) l by auto
  have "lite_anchor_type_shares row weights = (Fin a, Fin (b + d + e), Fin c, Fin f)"
    using nn ds(4) by (simp add: lite_anchor_type_shares_def ds(1) l Let_def clamp_def)
  then show thesis using that [of a "b + d + e" c f] nn ds(4) by (simp add: l)
qed

section \<open>The feature vector\<close>

text \<open>
  The cells of a row that the features need: no infinite weight or anchor count, and no
  distance or link quality that is NaN.
\<close>

definition scene_cells_ok :: "row \<Rightarrow> bool" where
  "scene_cells_ok row \<longleftrightarrow> finite_weights row \<and> numeric_iot_cell (cell row ''anchor_count'') \<noteq> PInf \<and>
     list_all (\<lambda>f. numeric_iot_cell (cell row f) \<noteq> NaN) [''distance'', ''link_quality''] \<and>
     list_all (\<lambda>f. list_all (\<lambda>v. numeric_iot_cell v \<noteq> NaN) (split_iot_list (cell row f)))
       [''anchor_distances'', ''anchor_link_qualities'']"

lemma numeric_list_not_NaN:
  assumes "list_all (\<lambda>v. numeric_iot_cell v \<noteq> NaN) (split_iot_list (cell row f))"
    and "numeric_iot_cell (cell row g) \<noteq> NaN"
  shows "NaN \<notin> set (normalized_iot_numeric_list row f g n)"
proof -
  define cells where "cells = map numeric_iot_cell (split_iot_list (cell row f))"
  define vs where "vs = (if cells = [] then [numeric_iot_cell (cell row g)] else cells)"
  have vs: "vs \<noteq> []" "NaN \<notin> set vs"
    using assms by (auto simp: vs_def cells_def list_all_iff)
  moreover have "NaN \<noteq> last vs" using last_in_set [OF vs(1)] vs(2) by metis
  ultimately have "NaN \<notin> set (if length vs < n then vs @ replicate (n - length vs) (last vs) else vs)"
    by auto
  then show ?thesis
    unfolding normalized_iot_numeric_list_def Let_def cells_def [symmetric] vs_def [symmetric]
    by (meson in_set_takeD)
qed

lemma clamped_unit_list:
  assumes "NaN \<notin> set xs" and "\<And>x. x \<noteq> NaN \<Longrightarrow> f x \<noteq> NaN"
  obtains vs where "map (\<lambda>v. fclamp (f v) (Fin 0) (Fin 1)) xs = map Fin vs"
    and "length vs = length xs" and "\<And>v. v \<in> set vs \<Longrightarrow> 0 \<le> v \<and> v \<le> 1"
proof
  let ?g = "\<lambda>v. fclamp (f v) (Fin 0) (Fin 1)"
  have u: "unit_float (?g x)" if "x \<in> set xs" for x
    using that assms by (intro unit_fclamp) metis
  show "map ?g xs = map Fin (map (\<lambda>v. fin_val (?g v)) xs)"
    using u by (fastforce elim: unit_float_cases)
  show "length (map (\<lambda>v. fin_val (?g v)) xs) = length xs" by simp
  show "0 \<le> v \<and> v \<le> 1" if "v \<in> set (map (\<lambda>v. fin_val (?g v)) xs)" for v
    using that u by (fastforce elim: unit_float_cases)
qed

lemma fdiv60_not_NaN: "x \<noteq> NaN \<Longrightarrow> fdiv x (Fin 60) \<noteq> NaN"
  by (cases x) auto

lemma clamped_stats:
  assumes "NaN \<notin> set xs" and "\<And>x. x \<noteq> NaN \<Longrightarrow> f x \<noteq> NaN"
    and "weight_vector ws" and "ws \<noteq> []" and "length xs = length ws"
  obtains a b c where
    "weighted_iot_stats (map (\<lambda>v. fclamp (f v) (Fin 0) (Fin 1)) xs) ws = (Fin a, Fin b, Fin c)"
    and "0 \<le> b" and "b \<le> a" and "a \<le> 1"
proof -
  obtain vs where vs: "map (\<lambda>v. fclamp (f v) (Fin 0) (Fin 1)) xs = map Fin vs"
    "length vs = length xs" "\<And>v. v \<in> set vs \<Longrightarrow> 0 \<le> v \<and> v \<le> 1"
    using clamped_unit_list [OF assms(1), of f] assms(2) by metis
  have "length ws = length vs" "vs \<noteq> []" using vs(2) assms(4,5) by auto
  then show thesis
    using weighted_iot_stats_values [OF assms(3) _ _ vs(3)] that unfolding vs(1)
    by (metis order_trans)
qed

lemma anchor_distances_stats:
  assumes "scene_cells_ok row" and "weight_vector ws" and "ws \<noteq> []"
  obtains a b c where "weighted_iot_stats (anchor_distances row (length ws)) ws = (Fin a, Fin b, Fin c)"
    and "0 \<le> b" and "b \<le> a" and "a \<le> 1"
proof -
  let ?xs = "normalized_iot_numeric_list row ''anchor_distances'' ''distance'' (length ws)"
  have nan: "NaN \<notin> set ?xs"
    using assms(1) by (intro numeric_list_not_NaN) (simp_all add: scene_cells_ok_def)
  have len: "length ?xs = length ws" using assms(3) by (cases ws) simp_all
  show thesis
    by (rule clamped_stats [where f = "\<lambda>v. fdiv v (Fin 60)", OF nan fdiv60_not_NaN assms(2,3) len])
       (assumption, rule that, simp_all add: anchor_distances_def)
qed

lemma anchor_link_qualities_stats:
  assumes "scene_cells_ok row" and "weight_vector ws" and "ws \<noteq> []"
  obtains a b c where "weighted_iot_stats (anchor_link_qualities row (length ws)) ws = (Fin a, Fin b, Fin c)"
    and "0 \<le> b" and "b \<le> a" and "a \<le> 1"
proof -
  let ?xs = "normalized_iot_numeric_list row ''anchor_link_qualities'' ''link_quality'' (length ws)"
  have nan: "NaN \<notin> set ?xs"
    using assms(1) by (intro numeric_list_not_NaN) (simp_all add: scene_cells_ok_def)
  have len: "length ?xs = length ws" using assms(3) by (cases ws) simp_all
  show thesis
    by (rule clamped_stats [where f = "\<lambda>v. v", OF nan _ assms(2,3) len])
       (assumption, rule that, simp_all add: anchor_link_qualities_def)
qed

lemma anchor_count_returns:
  assumes "numeric_iot_cell (cell row ''anchor_count'') \<noteq> PInf"
  obtains k where "anchor_count_of row n = Inr k" and "1 \<le> k"
proof -
  define stated where "stated = numeric_iot_cell (cell row ''anchor_count'')"
  define count where "count = (if stated \<noteq> Fin 0 then stated else if n \<noteq> 0 then Fin (real n) else Fin 1)"
  have "count \<noteq> PInf" using assms by (simp add: count_def stated_def)
  then have "\<exists>a. fmax (Fin 1) count = Fin a \<and> 1 \<le> a"
    by (cases count) (auto simp: fmax_def)
  then obtain a where "fmax (Fin 1) count = Fin a" "1 \<le> a" by blast
  then show thesis
    using that [of "\<lfloor>a\<rfloor>"]
    by (simp add: anchor_count_of_def Let_def stated_def [symmetric] count_def [symmetric])
qed

lemma unit_control_flag [bound_intros]: "unit_float (iot_control_protocol_flag protocol row)"
  by (simp add: iot_control_protocol_flag_def)

lemma unit_traffic_rate [bound_intros]: "unit_float (iot_traffic_rate_feature row)"
  by (simp add: iot_traffic_rate_feature_def Let_def unit_log_normalize)

text \<open>The feature vector of a row whose cells are usable.\<close>

lemma iot_feature_vector_unit:
  assumes "scene_cells_ok row"
  obtains fs where "iot_feature_vector row k = Inr fs" and "length fs = 10" and "list_all unit_float fs"
    and "\<exists>d e c v. fs ! 5 = Fin d \<and> fs ! 6 = Fin e \<and> fs ! 7 = Fin c \<and> fs ! 8 = Fin v \<and> d + e + c + v = 1"
    and "fs ! 2 \<le> fs ! 1"
proof -
  define ws where "ws = normalized_iot_weights row"
  have ws: "weight_vector ws" "ws \<noteq> []"
    using normalized_iot_weights_vector [of row] assms by (simp_all add: ws_def scene_cells_ok_def)
  obtain a b c where d: "weighted_iot_stats (anchor_distances row (length ws)) ws = (Fin a, Fin b, Fin c)"
    "0 \<le> b" "b \<le> a" "a \<le> 1" using anchor_distances_stats [OF assms ws] by blast
  obtain a' b' c' where l: "weighted_iot_stats (anchor_link_qualities row (length ws)) ws = (Fin a', Fin b', Fin c')"
    "0 \<le> b'" "b' \<le> a'" "a' \<le> 1" using anchor_link_qualities_stats [OF assms ws] by blast
  obtain p q r s where sh: "lite_anchor_type_shares row ws = (Fin p, Fin q, Fin r, Fin s)"
    "0 \<le> p" "0 \<le> q" "0 \<le> r" "0 \<le> s" "p + q + r + s = 1"
    using lite_anchor_type_shares_sum [OF ws(1)] by blast
  obtain n where n: "anchor_count_of row (length ws) = Inr n"
    using anchor_count_returns assms by (metis scene_cells_ok_def)
  let ?fs = "[Fin (clamp (real_of_int n / 4) 0 1), Fin a, Fin b, Fin a', iot_traffic_rate_feature row,
              Fin p, Fin q, Fin r, Fin s, iot_control_protocol_flag (normalized_iot_protocol row) row]"
  have "iot_feature_vector row k = Inr ?fs"
    by (simp add: iot_feature_vector_def Let_def ws_def [symmetric] d(1) l(1) n sh(1) IOT_FEATURE_DIM_def)
  moreover have "list_all unit_float ?fs"
    using d l sh by (auto simp: clamp_def unit_traffic_rate unit_control_flag)
  ultimately show thesis using sh(6) d(3) by (intro that [of ?fs]) simp_all
qed

lemma iot_communication_cost_weight_unit:
  assumes "scene_cells_ok row"
  shows "unit_float (iot_communication_cost_weight row)"
proof -
  define ws where "ws = normalized_iot_weights row"
  have ws: "weight_vector ws" "ws \<noteq> []"
    using normalized_iot_weights_vector [of row] assms by (simp_all add: ws_def scene_cells_ok_def)
  obtain a b c where d: "weighted_iot_stats (anchor_distances row (length ws)) ws = (Fin a, Fin b, Fin c)"
    using anchor_distances_stats [OF assms ws] by blast
  obtain a' b' c' where l: "weighted_iot_stats (anchor_link_qualities row (length ws)) ws = (Fin a', Fin b', Fin c')"
    using anchor_link_qualities_stats [OF assms ws] by blast
  obtain t where "log_normalize (iot_payload row) 1000000 = Fin t"
    using unit_log_normalize unit_float_cases by blast
  then show ?thesis
    by (simp add: iot_communication_cost_weight_def Let_def ws_def [symmetric] d l clamp_def)
qed

section \<open>The anchor relation\<close>

definition anchor_acc_ok :: "string list \<times> pyfloat list \<Rightarrow> bool" where
  "anchor_acc_ok acc \<longleftrightarrow> (case acc of (ordered, weights) \<Rightarrow>
     distinct ordered \<and> [] \<notin> set ordered \<and> length weights = length ordered \<and>
     list_all (\<lambda>w. is_finite w \<and> Fin 0 \<le> w) weights)"

lemma add_anchor_ok:
  assumes "anchor_acc_ok acc" and "w \<noteq> PInf"
  shows "anchor_acc_ok (add_anchor (a, w) acc)"
  using assms by (cases acc) (auto simp: anchor_acc_ok_def add_anchor_def Let_def fmax0_fin)

lemma add_anchor_keeps: "set (fst acc) \<subseteq> set (fst (add_anchor aw acc))"
  by (cases acc; cases aw) (auto simp: add_anchor_def Let_def)

lemma add_anchor_contains:
  "clean_iot_cell a \<noteq> [] \<Longrightarrow> clean_iot_cell a \<in> set (fst (add_anchor (a, w) acc))"
  by (cases acc) (auto simp: add_anchor_def Let_def)

lemma fold_add_anchor_ok:
  assumes "anchor_acc_ok acc" and "\<And>a w. (a, w) \<in> set aws \<Longrightarrow> w \<noteq> PInf"
  shows "anchor_acc_ok (fold add_anchor aws acc)"
  using assms
proof (induction aws arbitrary: acc)
  case Nil
  then show ?case by simp
next
  case (Cons aw aws)
  obtain a w where aw: "aw = (a, w)" by force
  have "anchor_acc_ok (add_anchor (a, w) acc)"
    using Cons.prems by (intro add_anchor_ok) (auto simp: aw)
  then show ?case using Cons.IH [of "add_anchor (a, w) acc"] Cons.prems(2) by (auto simp: aw)
qed

lemma fold_add_anchor_keeps: "set (fst acc) \<subseteq> set (fst (fold add_anchor aws acc))"
proof (induction aws arbitrary: acc)
  case Nil
  then show ?case by simp
next
  case (Cons aw aws)
  then show ?case using add_anchor_keeps [of acc aw] by (simp add: subset_trans)
qed

lemma fold_add_anchor_contains:
  assumes "(a, w) \<in> set aws" and "clean_iot_cell a \<noteq> []"
  shows "clean_iot_cell a \<in> set (fst (fold add_anchor aws acc))"
  using assms(1)
proof (induction aws arbitrary: acc)
  case Nil
  then show ?case by simp
next
  case (Cons aw aws)
  show ?case
  proof (cases "aw = (a, w)")
    case True
    then show ?thesis
      using add_anchor_contains [OF assms(2), of w acc]
        fold_add_anchor_keeps [of "add_anchor (a, w) acc" aws] by auto
  next
    case False
    then show ?thesis using Cons by simp
  qed
qed

lemma iot_related_anchors_spec:
  assumes "finite_weights row" and "clean_iot_cell primary \<noteq> []"
    and "iot_related_anchors row primary = (ordered, weights)"
  shows "distinct ordered \<and> clean_iot_cell primary \<in> set ordered \<and>
         length weights = length ordered \<and> weight_vector weights"
proof -
  define aws where "aws = map (\<lambda>(idx, anchor). (anchor,
      weight_at (map numeric_iot_cell (split_iot_list (cell row ''anchor_weights''))) idx))
      (enumerate 0 (split_iot_list (clean_iot_cell (cell row ''anchor_addresses''))))"
  obtain os ws where ow: "add_anchor (primary, Fin 1) (fold add_anchor aws ([], [])) = (os, ws)"
    by force
  have "w \<noteq> PInf" if "(a, w) \<in> set aws" for a w
    using that assms(1)
    by (auto simp: aws_def weight_at_def finite_weights_def list_all_iff split: if_splits)
  then have "anchor_acc_ok (fold add_anchor aws ([], []))"
    by (intro fold_add_anchor_ok) (simp_all add: anchor_acc_ok_def)
  then have ok: "anchor_acc_ok (os, ws)"
    using add_anchor_ok [of _ "Fin 1" primary] ow by (metis pyfloat.distinct(1))
  then have "list_all is_finite ws" by (simp add: anchor_acc_ok_def list_all_iff)
  then obtain us where us: "ws = map Fin us" by (rule fin_val_map)
  then have nonneg: "\<forall>u\<in>set us. 0 \<le> u" using ok by (auto simp: anchor_acc_ok_def list_all_iff)
  have prim: "clean_iot_cell primary \<in> set os"
    using add_anchor_contains [OF assms(2), of "Fin 1" "fold add_anchor aws ([], [])"] ow by simp
  have len: "length us = length os" using ok us by (simp add: anchor_acc_ok_def)
  have ne: "os \<noteq> []" "us \<noteq> []" using prim len by auto
  have "(ordered, weights) = (os, map Fin (normalize_weights us))"
    using assms(3) ne len
    by (auto simp: iot_related_anchors_def Let_def aws_def [symmetric] ow us normalize_weights_def
        map_replicate_const not_le split: if_splits)
  moreover have "weight_vector (map Fin (normalize_weights us))"
    using normalize_weights_sum [OF ne(2)] normalize_weights_nonneg [OF nonneg]
    by (simp add: weight_vector_Fin)
  ultimately show ?thesis using ok prim len by (simp add: anchor_acc_ok_def)
qed

end
