(* ===== verification/TxLoad.thy ===== *)
theory TxLoad
  imports IotFeatures Heuristic
begin

text \<open>
  The loaders of \<open>offline_env.py\<close> and \<open>iot_v2.py\<close>: a row of the transaction file becomes a
  transaction or is skipped, a window of valid transactions is cut out, and the IoT loaders
  read a second file in step with the first. The files are their rows (lists of cells of
  the transaction file, dictionaries of the side file); decoding bytes into rows is the
  work of Python's \<open>csv\<close> module. A loader that raises returns no transactions.
\<close>

section \<open>Raw transactions\<close>

definition normalize_address :: "string \<Rightarrow> string" where
  "normalize_address addr = strip_0x (py_strip addr)"

definition plain_tx :: "string \<Rightarrow> string \<Rightarrow> int \<Rightarrow> pyfloat tx" where
  "plain_tx sender recipient v =
     \<lparr>tx_sender = sender, tx_recipient = recipient, tx_related = [], tx_related_weights = [],
      tx_iot_features = [], tx_cost_weight = Fin 0, tx_real_accounts = False, tx_value = v,
      tx_recipient_iot_features = [], tx_recipient_cost_weight = Fin 0\<rparr>"

definition parse_tx_row :: "string list \<Rightarrow> pyfloat tx option" where
  "parse_tx_row row =
     (if length row < 9 then None
      else
        (let sender = py_strip (row ! 3); recipient = py_strip (row ! 4) in
         if row ! 6 \<noteq> ''0'' \<or> row ! 7 \<noteq> ''0'' then None
         else if length sender \<le> 16 \<or> length recipient \<le> 16 then None
         else if sender = recipient then None
         else case py_int 10 (row ! 8) of
                None \<Rightarrow> None
              | Some v \<Rightarrow>
                  if v < 0 then None
                  else
                    (let sender = normalize_address sender; recipient = normalize_address recipient in
                     if sender = [] \<or> recipient = [] \<or> sender = recipient then None
                     else Some (plain_tx sender recipient v))))"

definition validate_tx_window :: "int \<Rightarrow> int \<Rightarrow> unit result" where
  "validate_tx_window start_tx max_txs =
     (if start_tx < 0 then raise ValueError
      else if max_txs < 0 then raise ValueError
      else return ())"

text \<open>The loop of \<open>load_transactions\<close>, with its counter and its list.\<close>

fun load_tx_loop ::
  "int \<Rightarrow> int \<Rightarrow> string list list \<Rightarrow> nat \<Rightarrow> pyfloat tx list \<Rightarrow> pyfloat tx list" where
  "load_tx_loop start_tx max_txs [] valid_index txs = txs"
| "load_tx_loop start_tx max_txs (row # rows) valid_index txs =
     (case parse_tx_row row of
        None \<Rightarrow> load_tx_loop start_tx max_txs rows valid_index txs
      | Some tx \<Rightarrow>
          if int valid_index < start_tx
          then load_tx_loop start_tx max_txs rows (Suc valid_index) txs
          else
            (let txs = txs @ [tx] in
             if max_txs > 0 \<and> int (length txs) \<ge> max_txs then txs
             else load_tx_loop start_tx max_txs rows (Suc valid_index) txs))"

definition load_transactions :: "string list list \<Rightarrow> int \<Rightarrow> int \<Rightarrow> pyfloat tx list result" where
  "load_transactions rows max_txs start_tx =
     bind_result (validate_tx_window start_tx max_txs) (\<lambda>_.
       return (load_tx_loop start_tx max_txs rows 0 []))"

section \<open>Real-account datasets\<close>

definition V2_IDENTITY :: string where
  "V2_IDENTITY = ''iot_v2''"

text \<open>The arguments \<open>tx_identity\<close> and \<open>mdp_mode\<close> with their defaults already applied.\<close>

definition resolved_identity :: "string \<Rightarrow> string \<Rightarrow> string" where
  "resolved_identity identity mdp_mode =
     (if identity = V2_IDENTITY then V2_IDENTITY
      else if identity = ''iot'' \<or> (identity = ''auto'' \<and> mdp_mode = ''iot'') then ''iot''
      else ''raw'')"

definition lower_hex :: "char \<Rightarrow> bool" where
  "lower_hex c \<longleftrightarrow> (let n = (of_char c :: nat) in (48 \<le> n \<and> n \<le> 57) \<or> (97 \<le> n \<and> n \<le> 102))"

text \<open>\<open>re.fullmatch(r"0x[0-9a-f]{40}", s)\<close>.\<close>

definition chain_address :: "string \<Rightarrow> bool" where
  "chain_address s \<longleftrightarrow> starts_with ''0x'' s \<and> length s = 42 \<and> list_all lower_hex (drop 2 s)"

definition check_chain_row :: "string list \<Rightarrow> (string \<times> string) result" where
  "check_chain_row row =
     (if length row \<noteq> 18 then raise ValueError
      else if take 2 (drop 6 row) \<noteq> [''0'', ''0''] then raise ValueError
      else if \<not> chain_address (row ! 3) \<or> \<not> chain_address (row ! 4) then raise ValueError
      else if row ! 3 = row ! 4 \<or> \<not> is_digits (row ! 8) then raise ValueError
      else return (row ! 3, row ! 4))"

text \<open>\<open>row[field]\<close>, \<open>int(row[field])\<close> and \<open>float(row[field])\<close>.\<close>

definition get_field :: "row \<Rightarrow> string \<Rightarrow> string option result" where
  "get_field row field = (case row field of None \<Rightarrow> raise KeyError | Some c \<Rightarrow> return c)"

definition int_field :: "row \<Rightarrow> string \<Rightarrow> int result" where
  "int_field row field =
     bind_result (get_field row field) (\<lambda>c.
       case c of
         None \<Rightarrow> raise TypeError
       | Some t \<Rightarrow> (case py_int 10 t of None \<Rightarrow> raise ValueError | Some i \<Rightarrow> return i))"

definition float_field :: "row \<Rightarrow> string \<Rightarrow> pyfloat result" where
  "float_field row field =
     bind_result (get_field row field) (\<lambda>c.
       case c of
         None \<Rightarrow> raise TypeError
       | Some t \<Rightarrow> (case py_float t of None \<Rightarrow> raise ValueError | Some x \<Rightarrow> return x))"

text \<open>\<open>str(row.get(field, ""))\<close>.\<close>

definition str_field :: "row \<Rightarrow> string \<Rightarrow> string" where
  "str_field row field = (case row field of None \<Rightarrow> [] | Some None \<Rightarrow> ''None'' | Some (Some t) \<Rightarrow> t)"

text \<open>\<open>str(row[field])\<close>.\<close>

definition get_str :: "row \<Rightarrow> string \<Rightarrow> string result" where
  "get_str row field = bind_result (get_field row field) (\<lambda>_. return (str_field row field))"

definition check_scene_field :: "row \<Rightarrow> string \<Rightarrow> unit result" where
  "check_scene_field row name =
     bind_result (float_field row name) (\<lambda>v.
       if \<not> is_finite v \<or> v < Fin 0 then raise ValueError
       else if starts_with ''link_quality'' name \<and> Fin 1 < v then raise ValueError
       else return ())"

definition scene_fields_checked :: "string list" where
  "scene_fields_checked = [''distance_m'', ''link_quality_forward'', ''link_quality_reverse'',
     ''flowDuration'', ''srcNumPackets'', ''dstNumPackets'', ''srcPayloadSize'', ''dstPayloadSize'']"

definition scene_for_legacy_features :: "row \<Rightarrow> bool \<Rightarrow> row result" where
  "scene_for_legacy_features row reverse =
     bind_result (get_field row ''distance_m'') (\<lambda>distance.
     bind_result (get_field row (if reverse then ''link_quality_reverse'' else ''link_quality_forward'')) (\<lambda>quality.
     bind_result (get_field row (if reverse then ''from_actor_type'' else ''to_actor_type'')) (\<lambda>types.
     bind_result (traverse (check_scene_field row) scene_fields_checked) (\<lambda>_.
     bind_result (get_field row ''from_actor_type'') (\<lambda>from_type.
       if from_type \<noteq> Some ''device'' then raise ValueError
       else bind_result (get_field row ''to_actor_type'') (\<lambda>to_type.
         if to_type \<noteq> Some ''device'' then raise ValueError
         else return (row(''anchor_count'' \<mapsto> Some ''1'', ''anchor_weights'' \<mapsto> Some ''1'',
                ''distance'' \<mapsto> distance, ''link_quality'' \<mapsto> quality, ''anchor_types'' \<mapsto> types))))))))"

text \<open>
  The alignment test of \<open>load_rows\<close>: the operands of \<open>or\<close> are evaluated from left to right.
\<close>

definition check_alignment :: "int \<Rightarrow> nat \<Rightarrow> string \<times> string \<Rightarrow> row \<Rightarrow> unit result" where
  "check_alignment offset index ab row =
     bind_result (int_field row ''tx_index'') (\<lambda>i.
     if i \<noteq> offset + int index then raise ValueError
     else bind_result (int_field row ''source_row'') (\<lambda>r.
     if r \<noteq> int index + 1 then raise ValueError
     else bind_result (get_field row ''from_address'') (\<lambda>f.
     bind_result (get_field row ''to_address'') (\<lambda>t.
     if (f, t) \<noteq> (Some (fst ab), Some (snd ab)) then raise ValueError else return ()))))"

text \<open>
  The generator \<open>load_rows\<close> with the loop that consumes it: \<open>use\<close> is what the consumer does
  with each pair that is yielded, and \<open>acc\<close> holds one value per pair.
\<close>

fun load_rows_loop ::
  "(string list \<Rightarrow> row \<Rightarrow> 'a result) \<Rightarrow> int \<Rightarrow> int \<Rightarrow> int \<Rightarrow> nat \<Rightarrow> string list list \<Rightarrow> row list \<Rightarrow>
   'a list \<Rightarrow> 'a list result" where
  "load_rows_loop use offset start_tx max_txs index [] scene acc =
     (if scene \<noteq> [] then raise ValueError
      else if max_txs \<noteq> 0 \<and> int (length acc) \<noteq> max_txs then raise ValueError
      else return acc)"
| "load_rows_loop use offset start_tx max_txs index (raw # chain) scene acc =
     bind_result (check_chain_row raw) (\<lambda>ab.
       case scene of
         [] \<Rightarrow> raise ValueError
       | row # rest \<Rightarrow>
           bind_result (check_alignment offset index ab row) (\<lambda>_.
             if int index < start_tx
             then load_rows_loop use offset start_tx max_txs (Suc index) chain rest acc
             else bind_result (use raw row) (\<lambda>x.
               if max_txs \<noteq> 0 \<and> int (length (acc @ [x])) \<ge> max_txs then return (acc @ [x])
               else load_rows_loop use offset start_tx max_txs (Suc index) chain rest (acc @ [x]))))"

definition load_rows ::
  "(string list \<Rightarrow> row \<Rightarrow> 'a result) \<Rightarrow> int \<Rightarrow> string list list \<Rightarrow> row list \<Rightarrow> int \<Rightarrow> int \<Rightarrow>
   'a list result" where
  "load_rows use offset chain scene start_tx max_txs =
     (if start_tx < 0 \<or> max_txs < 0 then raise ValueError
      else if offset < 0 then raise ValueError
      else load_rows_loop use offset start_tx max_txs 0 chain scene [])"

text \<open>The body of the loop over \<open>load_rows\<close> in \<open>load_iot_transactions\<close>.\<close>

definition v2_tx :: "string list \<Rightarrow> row \<Rightarrow> pyfloat tx result" where
  "v2_tx raw row =
     bind_result (scene_for_legacy_features row False) (\<lambda>forward.
     bind_result (scene_for_legacy_features row True) (\<lambda>reverse.
     case py_int 10 (raw ! 8) of
       None \<Rightarrow> raise ValueError
     | Some v \<Rightarrow>
         bind_result (iot_feature_vector forward 0) (\<lambda>features.
         bind_result (iot_feature_vector reverse 0) (\<lambda>recipient_features.
           return \<lparr>tx_sender = normalize_address (raw ! 3), tx_recipient = normalize_address (raw ! 4),
             tx_related = [], tx_related_weights = [], tx_iot_features = features,
             tx_cost_weight = iot_communication_cost_weight forward, tx_real_accounts = True,
             tx_value = v, tx_recipient_iot_features = recipient_features,
             tx_recipient_cost_weight = iot_communication_cost_weight reverse\<rparr>))))"

section \<open>Sidecar datasets\<close>

text \<open>\<open>str(row.get("tx_index", "")).strip()\<close>.\<close>

definition sidecar_index_text :: "row \<Rightarrow> string" where
  "sidecar_index_text row =
     py_strip (case row ''tx_index'' of None \<Rightarrow> [] | Some None \<Rightarrow> ''None'' | Some (Some t) \<Rightarrow> t)"

definition sidecar_index :: "row \<Rightarrow> nat \<Rightarrow> int result" where
  "sidecar_index row valid_index =
     (let raw = sidecar_index_text row in
      if raw = [] then return (int valid_index)
      else case py_int 10 raw of None \<Rightarrow> raise ValueError | Some i \<Rightarrow> return i)"

definition sidecar_tx :: "(string \<Rightarrow> bool) \<Rightarrow> row \<Rightarrow> nat \<Rightarrow> pyfloat tx result" where
  "sidecar_tx is_private row prior_frequency =
     (let anchor_key = iot_anchor_key row;
          (related, weights) = iot_related_anchors row anchor_key
      in bind_result (iot_feature_vector row prior_frequency) (\<lambda>features.
           return ((plain_tx (iot_state_object_key is_private row) anchor_key 0)
             \<lparr>tx_related := related, tx_related_weights := weights, tx_iot_features := features,
              tx_cost_weight := iot_communication_cost_weight row\<rparr>)))"

fun load_iot_loop ::
  "(string \<Rightarrow> bool) \<Rightarrow> int \<Rightarrow> int \<Rightarrow> string list list \<Rightarrow> row list \<Rightarrow> nat \<Rightarrow> (string \<Rightarrow> nat) \<Rightarrow>
   pyfloat tx list \<Rightarrow> pyfloat tx list result" where
  "load_iot_loop is_private start_tx max_txs [] sidecar valid_index seen txs = return txs"
| "load_iot_loop is_private start_tx max_txs (raw # rows) sidecar valid_index seen txs =
     (case parse_tx_row raw of
        None \<Rightarrow> load_iot_loop is_private start_tx max_txs rows sidecar valid_index seen txs
      | Some _ \<Rightarrow>
          (case sidecar of
             [] \<Rightarrow> raise ValueError
           | row # rest \<Rightarrow>
               bind_result (sidecar_index row valid_index) (\<lambda>i.
                 if i \<noteq> int valid_index then raise ValueError
                 else if int valid_index < start_tx
                 then load_iot_loop is_private start_tx max_txs rows rest (Suc valid_index) seen txs
                 else
                   (let key = iot_anchor_key row @ ''|'' @ normalized_iot_protocol row in
                    bind_result (sidecar_tx is_private row (seen key)) (\<lambda>tx.
                      let txs = txs @ [tx]; seen = seen(key := seen key + 1) in
                      if max_txs > 0 \<and> int (length txs) \<ge> max_txs then return txs
                      else load_iot_loop is_private start_tx max_txs rows rest (Suc valid_index) seen txs)))))"

text \<open>
  \<open>header\<close> is the list of field names of the sidecar file, \<open>offset\<close> the \<open>index_offset\<close> of the
  metadata of a real-account dataset (read only for the identity \<open>iot_v2\<close>).
\<close>

definition load_iot_transactions ::
  "(string \<Rightarrow> bool) \<Rightarrow> int \<Rightarrow> string list list \<Rightarrow> string list \<Rightarrow> row list \<Rightarrow> int \<Rightarrow> int \<Rightarrow> string \<Rightarrow>
   pyfloat tx list result" where
  "load_iot_transactions is_private offset rows header sidecar max_txs start_tx identity =
     (if identity = V2_IDENTITY then load_rows v2_tx offset rows sidecar start_tx max_txs
      else
        bind_result (validate_tx_window start_tx max_txs) (\<lambda>_.
          if ''template_id'' \<in> set header then raise ValueError
          else load_iot_loop is_private start_tx max_txs rows sidecar 0 (\<lambda>_. 0) []))"

section \<open>The window of valid transactions\<close>

definition valid_txs :: "string list list \<Rightarrow> pyfloat tx list" where
  "valid_txs rows = List.map_filter parse_tx_row rows"

definition window_of :: "int \<Rightarrow> int \<Rightarrow> 'a list \<Rightarrow> 'a list" where
  "window_of start_tx max_txs xs =
     (let ys = drop (nat start_tx) xs in if max_txs > 0 then take (nat max_txs) ys else ys)"

lemma set_window_of: "x \<in> set (window_of s m xs) \<Longrightarrow> x \<in> set xs"
  by (auto simp: window_of_def Let_def dest: in_set_takeD in_set_dropD split: if_splits)

lemma parse_tx_row_Nil [simp]: "parse_tx_row [] = None"
  by (simp add: parse_tx_row_def)

lemma valid_txs_simps [simp]:
  "valid_txs [] = []"
  "valid_txs (row # rows) = (case parse_tx_row row of None \<Rightarrow> valid_txs rows | Some tx \<Rightarrow> tx # valid_txs rows)"
  by (simp_all add: valid_txs_def List.map_filter_simps split: option.split)

text \<open>
  What is still missing of a window after \<open>k\<close> items were read and \<open>n\<close> of them kept, and how
  each turn of a loader's loop consumes it.
\<close>

definition window_rest :: "int \<Rightarrow> int \<Rightarrow> nat \<Rightarrow> nat \<Rightarrow> 'a list \<Rightarrow> 'a list" where
  "window_rest start_tx max_txs k n xs =
     (let ys = drop (nat (start_tx - int k)) xs in if max_txs > 0 then take (nat max_txs - n) ys else ys)"

lemma window_rest_Nil [simp]: "window_rest s m k n [] = []"
  by (simp add: window_rest_def)

lemma window_rest_start: "window_rest s m 0 0 xs = window_of s m xs"
  by (simp add: window_rest_def window_of_def Let_def)

lemma window_rest_skip:
  assumes "int k < s"
  shows "window_rest s m k n (x # xs) = window_rest s m (Suc k) n xs"
proof -
  have "nat (s - int k) = Suc (nat (s - int (Suc k)))" using assms by simp
  then show ?thesis by (simp add: window_rest_def)
qed

lemma window_rest_last:
  assumes "\<not> int k < s" and "m > 0" and "int n < m" and "int (Suc n) \<ge> m"
  shows "window_rest s m k n (x # xs) = [x]"
proof -
  have "nat (s - int k) = 0" "nat m - n = Suc 0" using assms by simp_all
  then show ?thesis using assms(2) by (simp add: window_rest_def)
qed

lemma window_rest_keep:
  assumes "\<not> int k < s" and "\<not> (m > 0 \<and> int (Suc n) \<ge> m)"
  shows "window_rest s m k n (x # xs) = x # window_rest s m (Suc k) (Suc n) xs"
proof -
  have z: "nat (s - int k) = 0" "nat (s - int (Suc k)) = 0" using assms by simp_all
  have "nat m - n = Suc (nat m - Suc n)" if "m > 0" using that assms(2) by simp
  then show ?thesis unfolding window_rest_def Let_def z by simp
qed

lemmas window_rest_turn = window_rest_skip window_rest_last window_rest_keep

lemma load_tx_loop_window:
  assumes "max_txs > 0 \<Longrightarrow> int (length txs) < max_txs"
  shows "load_tx_loop start_tx max_txs rows k txs =
         txs @ window_rest start_tx max_txs k (length txs) (valid_txs rows)"
  using assms
proof (induction rows arbitrary: k txs)
  case Nil
  then show ?case by simp
next
  case (Cons row rows)
  then show ?case
    by (cases "parse_tx_row row"; cases "int k < start_tx";
        cases "max_txs > 0 \<and> int (Suc (length txs)) \<ge> max_txs")
       (auto simp: window_rest_turn Let_def)
qed

lemma load_transactions_window:
  assumes "0 \<le> start_tx" and "0 \<le> max_txs"
  shows "load_transactions rows max_txs start_tx = Inr (window_of start_tx max_txs (valid_txs rows))"
  using assms load_tx_loop_window [of max_txs "[]" start_tx rows 0]
  by (simp add: load_transactions_def validate_tx_window_def window_rest_start)

lemma parse_tx_row_valid:
  assumes "parse_tx_row row = Some tx"
  shows "tx_sender tx \<noteq> [] \<and> tx_recipient tx \<noteq> [] \<and> tx_sender tx \<noteq> tx_recipient tx \<and> 0 \<le> tx_value tx"
  using assms by (auto simp: parse_tx_row_def plain_tx_def Let_def split: if_splits option.splits)

section \<open>Loading in step with the side file\<close>

lemma sidecar_tx_prior: "sidecar_tx ip row k = sidecar_tx ip row 0"
  by (simp add: sidecar_tx_def iot_feature_vector_def)

definition sidecar_matches :: "(string \<Rightarrow> bool) \<Rightarrow> nat \<times> row \<Rightarrow> pyfloat tx \<Rightarrow> bool" where
  "sidecar_matches ip ir tx \<longleftrightarrow> sidecar_index (snd ir) (fst ir) = Inr (int (fst ir)) \<and>
     sidecar_tx ip (snd ir) 0 = Inr tx"

lemma load_iot_loop_window:
  assumes "load_iot_loop ip start_tx max_txs rows sidecar k seen txs = Inr txs'"
    and "max_txs > 0 \<Longrightarrow> int (length txs) < max_txs"
  shows "\<exists>new. txs' = txs @ new \<and>
     list_all2 (sidecar_matches ip)
       (window_rest start_tx max_txs k (length txs)
          (enumerate k (take (length (valid_txs rows)) sidecar))) new \<and>
     length new = length (window_rest start_tx max_txs k (length txs) (valid_txs rows))"
  using assms
proof (induction rows arbitrary: sidecar k seen txs)
  case Nil
  then show ?case by simp
next
  case (Cons raw rows)
  show ?case
  proof (cases "parse_tx_row raw")
    case None
    then show ?thesis using Cons.IH [of sidecar k seen txs] Cons.prems by simp
  next
    case (Some t)
    then obtain row rest where sc: "sidecar = row # rest" using Cons.prems by (cases sidecar) auto
    have i: "sidecar_index row k = Inr (int k)"
      using Cons.prems(1) Some by (auto simp: sc result_simps split: if_splits)
    show ?thesis
    proof (cases "int k < start_tx")
      case True
      then show ?thesis using Cons.IH [of rest "Suc k" seen txs] Cons.prems Some i
        by (simp add: sc window_rest_skip)
    next
      case ge: False
      define key where "key = iot_anchor_key row @ ''|'' @ normalized_iot_protocol row"
      obtain tx where tx: "sidecar_tx ip row (seen key) = Inr tx"
        using Cons.prems(1) Some ge i by (auto simp: sc key_def Let_def result_simps)
      then have m: "sidecar_matches ip (k, row) tx"
        using i by (simp add: sidecar_matches_def sidecar_tx_prior [of ip row "seen key"])
      show ?thesis
      proof (cases "max_txs > 0 \<and> int (Suc (length txs)) \<ge> max_txs")
        case True
        then have "txs' = txs @ [tx]"
          using Cons.prems(1) Some ge i tx by (simp add: sc key_def Let_def)
        then show ?thesis using True ge m Some Cons.prems(2) by (simp add: sc window_rest_last)
      next
        case False
        then have "load_iot_loop ip start_tx max_txs rows rest (Suc k)
            (seen(key := seen key + 1)) (txs @ [tx]) = Inr txs'"
          using Cons.prems(1) Some ge i tx by (auto simp: sc key_def Let_def split: if_splits)
        from Cons.IH [OF this] False show ?thesis
          using Some ge m by (auto simp: sc window_rest_keep)
      qed
    qed
  qed
qed

text \<open>A pair of rows that \<open>load_rows\<close> yields at a position, with what its consumer made of it.\<close>

definition v2_aligned :: "int \<Rightarrow> nat \<Rightarrow> string list \<Rightarrow> row \<Rightarrow> bool" where
  "v2_aligned offset i raw row \<longleftrightarrow>
     (\<exists>ab. check_chain_row raw = Inr ab \<and> check_alignment offset i ab row = Inr ())"

definition v2_matches ::
  "(string list \<Rightarrow> row \<Rightarrow> 'a result) \<Rightarrow> int \<Rightarrow> nat \<times> string list \<times> row \<Rightarrow> 'a \<Rightarrow> bool" where
  "v2_matches use offset irr x \<longleftrightarrow>
     (case irr of (i, raw, row) \<Rightarrow> v2_aligned offset i raw row \<and> use raw row = Inr x)"

lemma load_rows_loop_window:
  assumes "load_rows_loop use offset start_tx max_txs k chain scene acc = Inr acc'"
    and "max_txs > 0 \<Longrightarrow> int (length acc) < max_txs" and "0 \<le> max_txs"
  shows "\<exists>new. acc' = acc @ new \<and>
     list_all2 (v2_matches use offset)
       (window_rest start_tx max_txs k (length acc) (enumerate k (zip chain scene))) new \<and>
     (max_txs = 0 \<longrightarrow> length scene = length chain) \<and> (max_txs \<noteq> 0 \<longrightarrow> int (length acc') = max_txs)"
  using assms
proof (induction chain arbitrary: scene k acc)
  case Nil
  then show ?case by (auto split: if_splits)
next
  case (Cons raw chain)
  obtain ab where ab: "check_chain_row raw = Inr ab"
    using Cons.prems(1) by (auto simp: result_simps)
  then obtain row rest where sc: "scene = row # rest" using Cons.prems(1) by (cases scene) auto
  have al: "check_alignment offset k ab row = Inr ()"
    using Cons.prems(1) ab by (auto simp: sc result_simps)
  show ?case
  proof (cases "int k < start_tx")
    case True
    then show ?thesis using Cons.IH [of "Suc k" rest acc] Cons.prems ab al
      by (auto simp: sc window_rest_skip)
  next
    case ge: False
    obtain x where x: "use raw row = Inr x"
      using Cons.prems(1) ge ab al by (auto simp: sc result_simps)
    then have m: "v2_matches use offset (k, raw, row) x"
      using ab al by (cases ab) (auto simp: v2_matches_def v2_aligned_def)
    show ?thesis
    proof (cases "max_txs > 0 \<and> int (Suc (length acc)) \<ge> max_txs")
      case True
      then have "acc' = acc @ [x]" using Cons.prems(1) ge ab al x by (simp add: sc)
      then show ?thesis using True ge m Cons.prems(2) by (simp add: sc window_rest_last)
    next
      case False
      then have "load_rows_loop use offset start_tx max_txs (Suc k) chain rest (acc @ [x]) = Inr acc'"
        using Cons.prems(1,3) ge ab al x by (auto simp: sc split: if_splits)
      from Cons.IH [OF this] False Cons.prems(3) show ?thesis
        using ge m by (auto simp: sc window_rest_keep)
    qed
  qed
qed

lemma load_rows_window:
  assumes "load_rows use offset chain scene start_tx max_txs = Inr xs"
  shows "list_all2 (v2_matches use offset)
           (window_of start_tx max_txs (enumerate 0 (zip chain scene))) xs \<and>
         (max_txs = 0 \<longrightarrow> length scene = length chain) \<and> (max_txs \<noteq> 0 \<longrightarrow> int (length xs) = max_txs)"
proof -
  have "0 \<le> max_txs" "load_rows_loop use offset start_tx max_txs 0 chain scene [] = Inr xs"
    using assms by (auto simp: load_rows_def split: if_splits)
  then show ?thesis
    using load_rows_loop_window [of use offset start_tx max_txs 0 chain scene "[]" xs]
    by (simp add: window_rest_start)
qed

section \<open>Features of real-account rows\<close>

text \<open>A text that is a number carries no quotation mark, so cleaning it is stripping it.\<close>

lemma digit_val_quote: "digit_val c \<noteq> None \<Longrightarrow> of_char c \<noteq> (34 :: nat)"
  by (auto simp: digit_val_def Let_def)

lemma parse_digits_chars:
  "parse_digits b prev acc s = Some n \<Longrightarrow> c \<in> set s \<Longrightarrow> of_char c \<noteq> (34 :: nat)"
proof (induction b prev acc s rule: parse_digits.induct)
  case (1 b prev acc)
  then show ?case by simp
next
  case (2 b prev acc d ds)
  then show ?case
    using digit_val_quote [of d] by (auto split: if_splits option.splits)
qed

lemma split_once_chars:
  assumes "split_once p s = (a, r)" and "c \<in> set s"
  shows "c \<in> set a \<or> p c \<or> (\<exists>t. r = Some t \<and> c \<in> set t)"
proof (cases "dropWhile (\<lambda>c. \<not> p c) s")
  case Nil
  then show ?thesis using assms(2) assms(1) [unfolded split_once_def Nil] by simp
next
  case (Cons d t)
  have "p d" using hd_dropWhile [of "\<lambda>c. \<not> p c" s] Cons by simp
  moreover have "c \<in> set (takeWhile (\<lambda>c. \<not> p c) s) \<union> set (d # t)"
    using assms(2) takeWhile_dropWhile_id [of "\<lambda>c. \<not> p c" s] Cons by (metis set_append)
  ultimately show ?thesis using assms(1) Cons by (auto simp: split_once_def)
qed

lemma parse_mantissa_chars:
  assumes "parse_mantissa m = Some x" and "c \<in> set m"
  shows "of_char c \<noteq> (34 :: nat)"
proof -
  obtain a r where sp: "split_once (\<lambda>c. c = CHR ''.'') m = (a, r)" by force
  from split_once_chars [OF sp assms(2)] show ?thesis
    using assms(1)
    by (auto simp: parse_mantissa_def sp Let_def bind_eq_Some_conv split: if_splits option.splits
        dest: parse_digits_chars)
qed

lemma split_sign_chars:
  assumes "split_sign s = (neg, t)" and "c \<in> set s"
  shows "c \<in> set t \<or> of_char c \<noteq> (34 :: nat)"
  using assms by (cases s) (auto split: if_splits)

lemma parse_decimal_chars:
  assumes "parse_decimal m = Some x" and "c \<in> set m"
  shows "of_char c \<noteq> (34 :: nat)"
proof -
  obtain a r where sp: "split_once (\<lambda>c. c = CHR ''e'' \<or> c = CHR ''E'') m = (a, r)" by force
  have "of_char c \<noteq> (34 :: nat)" if e: "r = Some e" "c \<in> set e" for e
  proof -
    obtain neg t where t: "split_sign e = (neg, t)" by force
    then obtain n where "parse_digits 10 False 0 t = Some n"
      using e(1) assms(1) by (auto simp: parse_decimal_def sp bind_eq_Some_conv)
    then show ?thesis using split_sign_chars [OF t e(2)] parse_digits_chars by blast
  qed
  moreover have "of_char c \<noteq> (34 :: nat)" if "c \<in> set a"
    using that assms(1) by (auto simp: parse_decimal_def sp bind_eq_Some_conv split: option.splits
        dest: parse_mantissa_chars)
  ultimately show ?thesis using split_once_chars [OF sp assms(2)] by auto
qed

lemma lower_char_quote: "of_char c = (34 :: nat) \<Longrightarrow> lower_char c = c"
  by (simp add: lower_char_def)

lemma py_float_chars:
  assumes "py_float s = Some x" and "c \<in> set (py_strip s)"
  shows "of_char c \<noteq> (34 :: nat)"
proof
  assume q: "of_char c = (34 :: nat)"
  obtain neg t where t: "split_sign (py_strip s) = (neg, t)" by force
  have "c \<in> set t" using split_sign_chars [OF t assms(2)] q by blast
  then have l: "c \<in> set (py_lower t)" using lower_char_quote [OF q] by (force simp: py_lower_def)
  have "c \<notin> set ''inf''" "c \<notin> set ''infinity''" "c \<notin> set ''nan''" using q by auto
  then have "py_lower t \<notin> {''inf'', ''infinity'', ''nan''}" using l by fastforce
  then obtain y where "parse_decimal t = Some y"
    using assms(1) by (auto simp: py_float_def t Let_def split: if_splits)
  then show False using parse_decimal_chars \<open>c \<in> set t\<close> q by blast
qed

lemma strip_by_none:
  assumes "\<And>c. c \<in> set s \<Longrightarrow> \<not> p c"
  shows "strip_by p s = s"
proof -
  have "dropWhile p t = t" if "\<And>c. c \<in> set t \<Longrightarrow> \<not> p c" for t
    using that by (cases t) auto
  from this [of s] this [of "rev s"] show ?thesis using assms by (simp add: strip_by_def)
qed

lemma numeric_iot_cell_float:
  assumes "py_float t = Some x"
  shows "numeric_iot_cell t = x"
proof -
  have "clean_iot_cell t = py_strip t"
    unfolding clean_iot_cell_def by (rule strip_by_none) (use py_float_chars [OF assms] in blast)
  then show ?thesis using assms by (simp add: numeric_iot_cell_def py_float_def)
qed

lemma float_field_cell:
  assumes "float_field row f = Inr x"
  shows "\<exists>t. row f = Some (Some t) \<and> py_float t = Some x"
  using assms by (auto simp: float_field_def get_field_def result_simps split: option.splits)

text \<open>The columns of a scene file (\<open>SCENE_FIELDS\<close>) contain no per-anchor lists.\<close>

definition scene_columns :: "row \<Rightarrow> bool" where
  "scene_columns row \<longleftrightarrow> row ''anchor_distances'' = None \<and> row ''anchor_link_qualities'' = None"

lemma numeric_iot_cell_1: "split_iot_list ''1'' = [''1'']" "numeric_iot_cell ''1'' = Fin 1"
  by (simp_all add: split_iot_list_def clean_iot_cell_def strip_by_def py_strip_def is_space_def
      numeric_iot_cell_def py_float_def py_lower_def lower_char_def parse_decimal_def split_once_def
      parse_mantissa_def digit_val_def double_overflow_def Let_def)

lemma scene_row_ok:
  assumes "scene_for_legacy_features row reverse = Inr row'" and "scene_columns row"
  shows "scene_cells_ok row'"
proof -
  define q where "q = (if reverse then ''link_quality_reverse'' else ''link_quality_forward'')"
  from assms(1) obtain d l ty us where
    row': "row' = row(''anchor_count'' \<mapsto> Some ''1'', ''anchor_weights'' \<mapsto> Some ''1'',
                ''distance'' \<mapsto> d, ''link_quality'' \<mapsto> l, ''anchor_types'' \<mapsto> ty)"
    and d: "get_field row ''distance_m'' = Inr d" and l: "get_field row q = Inr l"
    and us: "traverse (check_scene_field row) scene_fields_checked = Inr us"
    by (auto simp: scene_for_legacy_features_def q_def result_simps split: if_splits)
  have ok: "\<exists>t x. row f = Some (Some t) \<and> py_float t = Some (Fin x)"
    if "f \<in> {''distance_m'', ''link_quality_forward'', ''link_quality_reverse''}" for f
  proof -
    have "f \<in> set scene_fields_checked" using that by (auto simp: scene_fields_checked_def)
    then obtain u where "check_scene_field row f = Inr u"
      using us by (auto simp: traverse_Inr_iff list_all2_conv_all_nth in_set_conv_nth)
    then obtain x where "float_field row f = Inr (Fin x)"
      by (auto simp: check_scene_field_def result_simps is_finite_iff split: if_splits)
    then show ?thesis using float_field_cell by blast
  qed
  have num: "\<exists>x. numeric_iot_cell (case c of None \<Rightarrow> [] | Some v \<Rightarrow> v) = Fin x"
    if "get_field row f = Inr c" "f \<in> {''distance_m'', ''link_quality_forward'', ''link_quality_reverse''}" for f c
    using ok [OF that(2)] that(1) numeric_iot_cell_float by (fastforce simp: get_field_def)
  have "q \<in> {''distance_m'', ''link_quality_forward'', ''link_quality_reverse''}" by (simp add: q_def)
  then show ?thesis
    using num [OF d] num [OF l] assms(2) numeric_iot_cell_1
    by (auto simp: scene_cells_ok_def finite_weights_def row' cell_def scene_columns_def
        split_iot_list_def [of "[]"] clean_iot_cell_def strip_by_def py_strip_def split: option.splits)
qed

section \<open>Real-account transactions\<close>

definition v2_tx_ok :: "pyfloat tx \<Rightarrow> bool" where
  "v2_tx_ok tx \<longleftrightarrow> tx_real_accounts tx \<and> tx_related tx = [] \<and>
     length (tx_iot_features tx) = 10 \<and> list_all unit_float (tx_iot_features tx) \<and>
     length (tx_recipient_iot_features tx) = 10 \<and> list_all unit_float (tx_recipient_iot_features tx) \<and>
     unit_float (tx_cost_weight tx) \<and> unit_float (tx_recipient_cost_weight tx)"

lemma v2_tx_features:
  assumes "v2_tx raw row = Inr tx" and "scene_columns row"
  shows "v2_tx_ok tx"
proof -
  from assms(1) obtain f r fs rs v where
    f: "scene_for_legacy_features row False = Inr f" and r: "scene_for_legacy_features row True = Inr r"
    and fs: "iot_feature_vector f 0 = Inr fs" and rs: "iot_feature_vector r 0 = Inr rs"
    and tx: "tx = \<lparr>tx_sender = normalize_address (raw ! 3), tx_recipient = normalize_address (raw ! 4),
             tx_related = [], tx_related_weights = [], tx_iot_features = fs,
             tx_cost_weight = iot_communication_cost_weight f, tx_real_accounts = True,
             tx_value = v, tx_recipient_iot_features = rs,
             tx_recipient_cost_weight = iot_communication_cost_weight r\<rparr>"
    by (auto simp: v2_tx_def result_simps split: option.splits)
  note ok = scene_row_ok [OF f assms(2)] scene_row_ok [OF r assms(2)]
  have "length fs = 10 \<and> list_all unit_float fs" "length rs = 10 \<and> list_all unit_float rs"
    using iot_feature_vector_unit [OF ok(1), of 0] iot_feature_vector_unit [OF ok(2), of 0] fs rs
    by (metis sum.inject(2))+
  then show ?thesis
    using iot_communication_cost_weight_unit [OF ok(1)] iot_communication_cost_weight_unit [OF ok(2)]
    by (simp add: v2_tx_ok_def tx)
qed

lemma is_digits_py_int:
  assumes "is_digits s"
  shows "\<exists>n. py_int 10 s = Some (int n)"
proof -
  have dg: "48 \<le> (of_char c :: nat) \<and> (of_char c :: nat) \<le> 57" if "c \<in> set s" for c
    using assms that by (auto simp: is_digits_def list_all_iff)
  have sp: "\<not> is_space c" if "c \<in> set s" for c
    using dg [OF that] by (auto simp: is_space_def Let_def)
  have "py_strip s = s" unfolding py_strip_def by (rule strip_by_none) (rule sp)
  obtain c cs where s: "s = c # cs" using assms by (cases s) (auto simp: is_digits_def)
  have "c \<noteq> CHR ''-''" "c \<noteq> CHR ''+''" using dg [of c] by (auto simp: s)
  then have sign: "split_sign s = (False, s)" by (simp add: s)
  have "\<exists>n. parse_digits 10 prev acc t = Some n"
    if "t \<noteq> [] \<or> prev" "set t \<subseteq> set s" for prev acc t
    using that
  proof (induction t arbitrary: prev acc)
    case Nil
    then show ?case by simp
  next
    case (Cons d ds)
    then have "48 \<le> (of_char d :: nat)" "(of_char d :: nat) \<le> 57" using dg by auto
    then have "d \<noteq> CHR ''_''" "\<exists>k<10. digit_val d = Some k"
      by (auto simp: digit_val_def Let_def)
    then show ?case using Cons.IH [of True] Cons.prems(2) by auto
  qed
  from this [of s False 0] show ?thesis
    using \<open>py_strip s = s\<close> sign s by (auto simp: py_int_def drop_base_prefix_def)
qed

lemma v2_tx_total:
  assumes "check_chain_row raw = Inr ab" and "scene_columns row"
    and "scene_for_legacy_features row False = Inr f" and "scene_for_legacy_features row True = Inr r"
  shows "\<exists>tx. v2_tx raw row = Inr tx"
proof -
  obtain n where n: "py_int 10 (raw ! 8) = Some (int n)"
    using assms(1) is_digits_py_int by (auto simp: check_chain_row_def split: if_splits)
  obtain fs where "iot_feature_vector f 0 = Inr fs"
    using iot_feature_vector_unit [OF scene_row_ok [OF assms(3,2)]] by metis
  moreover obtain rs where "iot_feature_vector r 0 = Inr rs"
    using iot_feature_vector_unit [OF scene_row_ok [OF assms(4,2)]] by metis
  ultimately show ?thesis by (simp add: v2_tx_def assms n)
qed

lemma chain_address_chars:
  assumes "chain_address a" and "c \<in> set a"
  shows "c \<in> {CHR ''0'', CHR ''x''} \<or> lower_hex c"
proof -
  have "a = take 2 a @ drop 2 a" by simp
  moreover have "take 2 a = ''0x''"
    using assms(1) by (cases a; cases "tl a") (auto simp: chain_address_def)
  ultimately show ?thesis
    using assms by (metis Un_iff chain_address_def list.set(1) list.simps(15) list_all_iff set_append)
qed

lemma chain_address_lower: "chain_address a \<Longrightarrow> py_lower a = a"
  unfolding py_lower_def
  by (rule map_idI) (auto dest!: chain_address_chars simp: lower_char_def lower_hex_def Let_def)

lemma chain_address_plain: "chain_address a \<Longrightarrow> py_strip a = a"
  unfolding py_strip_def
  by (rule strip_by_none) (auto dest!: chain_address_chars simp: is_space_def lower_hex_def Let_def)

lemma chain_address_strip:
  assumes "chain_address a"
  shows "normalize_address a = drop 2 a"
  using assms chain_address_plain [OF assms] by (simp add: normalize_address_def strip_0x_def chain_address_def)

lemma check_chain_row_senders:
  assumes "check_chain_row raw = Inr (a, b)"
  shows "a = raw ! 3 \<and> b = raw ! 4 \<and> normalize_address a \<noteq> normalize_address b \<and>
         length (normalize_address a) = 40 \<and> length (normalize_address b) = 40"
proof -
  have ab: "a = raw ! 3" "b = raw ! 4" "a \<noteq> b" "chain_address a" "chain_address b"
    using assms by (auto simp: check_chain_row_def split: if_splits)
  have "take 2 a = ''0x''" "take 2 b = ''0x''" "length a = 42" "length b = 42"
    using ab(4,5) by (auto simp: chain_address_def numeral_2_eq_2 elim!: starts_with.elims)
  then have "drop 2 a \<noteq> drop 2 b" using ab(3) append_take_drop_id [of 2 a] append_take_drop_id [of 2 b] by metis
  then show ?thesis using ab \<open>length a = 42\<close> \<open>length b = 42\<close> by (simp add: chain_address_strip)
qed

end
