(* ===== verification/LoadTheorems.thy ===== *)
theory LoadTheorems
  imports TxLoad
begin

text \<open>
  The theorems about the loaders and the IoT features, with witnesses on small files.
\<close>

section \<open>Small files\<close>

definition demo_a :: string where
  "demo_a = ''0x'' @ replicate 40 (CHR ''a'')"

definition demo_b :: string where
  "demo_b = ''0x'' @ replicate 40 (CHR ''b'')"

definition demo_raw :: "string list" where
  "demo_raw = [[], [], [], demo_a, demo_b, [], ''0'', ''0'', ''7'', [], [], [], [], [], [], [], [], []]"

definition demo_scene :: row where
  "demo_scene = text_row [(''tx_index'', ''0''), (''source_row'', ''1''), (''from_address'', demo_a),
     (''to_address'', demo_b), (''distance_m'', ''30''), (''link_quality_forward'', ''1''),
     (''link_quality_reverse'', ''0''), (''flowDuration'', ''0''), (''srcNumPackets'', ''3''),
     (''dstNumPackets'', ''4''), (''srcPayloadSize'', ''5''), (''dstPayloadSize'', ''6''),
     (''from_actor_type'', ''device''), (''to_actor_type'', ''device'')]"

definition demo_side :: row where
  "demo_side = text_row [(''tx_index'', ''0''), (''from_address'', ''anchor''), (''to_address'', ''state''),
     (''anchor_addresses'', ''x;y''), (''anchor_weights'', ''1;3''), (''distance'', ''30'')]"

lemmas text_eval = strip_by_def py_strip_def is_space_def py_int_def drop_base_prefix_def digit_val_def
  py_float_def py_lower_def lower_char_def parse_decimal_def split_once_def parse_mantissa_def
  double_overflow_def clean_iot_cell_def numeric_iot_cell_def split_iot_list_def Let_def

lemma demo_parse:
  "parse_tx_row demo_raw = Some (plain_tx (replicate 40 (CHR ''a'')) (replicate 40 (CHR ''b'')) 7)"
  by (simp add: parse_tx_row_def demo_raw_def demo_a_def demo_b_def normalize_address_def strip_0x_def
      text_eval eval_nat_numeral)

lemma demo_chain: "check_chain_row demo_raw = Inr (demo_a, demo_b)"
  by (simp add: check_chain_row_def demo_raw_def demo_a_def demo_b_def chain_address_def lower_hex_def
      is_digits_def eval_nat_numeral)

lemma demo_scene_float:
  "float_field demo_scene ''distance_m'' = Inr (Fin 30)"
  "float_field demo_scene ''link_quality_forward'' = Inr (Fin 1)"
  "float_field demo_scene ''link_quality_reverse'' = Inr (Fin 0)"
  "float_field demo_scene ''flowDuration'' = Inr (Fin 0)"
  "float_field demo_scene ''srcNumPackets'' = Inr (Fin 3)"
  "float_field demo_scene ''dstNumPackets'' = Inr (Fin 4)"
  "float_field demo_scene ''srcPayloadSize'' = Inr (Fin 5)"
  "float_field demo_scene ''dstPayloadSize'' = Inr (Fin 6)"
  by (simp_all add: float_field_def get_field_def demo_scene_def text_row_def text_eval)

lemma demo_scene_returns: "\<exists>f. scene_for_legacy_features demo_scene b = Inr f"
proof -
  have "traverse (check_scene_field demo_scene) scene_fields_checked = Inr (replicate 8 ())"
    by (simp add: scene_fields_checked_def check_scene_field_def demo_scene_float eval_nat_numeral)
  then show ?thesis
    by (cases b) (simp_all add: scene_for_legacy_features_def get_field_def demo_scene_def text_row_def)
qed

lemma demo_scene_columns: "scene_columns demo_scene"
  by (simp add: scene_columns_def demo_scene_def text_row_def)

lemma demo_alignment: "check_alignment 0 0 (demo_a, demo_b) demo_scene = Inr ()"
  by (simp add: check_alignment_def int_field_def get_field_def demo_scene_def text_row_def text_eval)

lemma demo_v2_load:
  "\<exists>tx. load_iot_transactions ip 0 [demo_raw] [] [demo_scene] 0 0 V2_IDENTITY = Inr [tx]"
proof -
  obtain tx where "v2_tx demo_raw demo_scene = Inr tx"
    using v2_tx_total [OF demo_chain demo_scene_columns] demo_scene_returns by metis
  then show ?thesis
    by (simp add: load_iot_transactions_def load_rows_def demo_chain demo_alignment)
qed

lemma demo_side_ok: "scene_cells_ok demo_side" "iot_anchor_key demo_side = ''anchor''"
  "finite_weights demo_side" "clean_iot_cell ''anchor'' = ''anchor''"
  by (simp_all add: scene_cells_ok_def finite_weights_def iot_anchor_key_def demo_side_def cell_def
      text_row_def text_eval)

lemma demo_iot_load:
  "\<exists>tx. load_iot_transactions ip 0 [demo_raw] [''tx_index''] [demo_side] 0 0 ''iot'' = Inr [tx]"
proof -
  obtain fs where fs: "iot_feature_vector demo_side 0 = Inr fs"
    using iot_feature_vector_unit [OF demo_side_ok(1), of 0] by blast
  obtain os ws where "iot_related_anchors demo_side ''anchor'' = (os, ws)" by force
  then have "\<exists>tx. sidecar_tx ip demo_side 0 = Inr tx"
    by (simp add: sidecar_tx_def demo_side_ok(2) fs)
  moreover have "sidecar_index demo_side 0 = Inr 0"
    by (simp add: sidecar_index_def sidecar_index_text_def demo_side_def text_row_def text_eval)
  ultimately show ?thesis
    by (auto simp: load_iot_transactions_def validate_tx_window_def demo_parse V2_IDENTITY_def Let_def)
qed

section \<open>Loading\<close>

text \<open>
  The raw loader cuts the window out of the valid transactions: it returns exactly the
  transactions number \<open>start_tx\<close> to \<open>start_tx + max_txs\<close> (to the end when \<open>max_txs\<close> is
  zero) of those the row parser accepts, in file order, each with two different nonempty
  addresses and a nonnegative value; negative bounds are a ValueError.
\<close>

theorem load_transactions_spec:
  "(0 \<le> start_tx \<and> 0 \<le> max_txs \<longrightarrow>
     (\<exists>txs. load_transactions rows max_txs start_tx = Inr txs \<and>
        txs = window_of start_tx max_txs (valid_txs rows) \<and>
        (\<forall>tx\<in>set txs. tx_sender tx \<noteq> [] \<and> tx_recipient tx \<noteq> [] \<and>
           tx_sender tx \<noteq> tx_recipient tx \<and> 0 \<le> tx_value tx))) \<and>
   (start_tx < 0 \<or> max_txs < 0 \<longrightarrow> load_transactions rows max_txs start_tx = Inl ValueError)"
proof -
  have "\<exists>row. parse_tx_row row = Some tx" if "tx \<in> set (valid_txs rows)" for tx
    using that by (induction rows) (auto split: option.splits)
  then have "tx_sender tx \<noteq> [] \<and> tx_recipient tx \<noteq> [] \<and> tx_sender tx \<noteq> tx_recipient tx \<and> 0 \<le> tx_value tx"
    if "tx \<in> set (window_of start_tx max_txs (valid_txs rows))" for tx
    using that set_window_of parse_tx_row_valid by metis
  moreover have "load_transactions rows max_txs start_tx = Inl ValueError" if "start_tx < 0 \<or> max_txs < 0"
    using that by (auto simp: load_transactions_def validate_tx_window_def)
  ultimately show ?thesis using load_transactions_window [of start_tx max_txs rows] by blast
qed

theorem load_transactions_spec_witness:
  "\<exists>txs. load_transactions [demo_raw, [], demo_raw] 1 1 = Inr txs \<and> length txs = 1"
proof -
  have "length (window_of 1 1 (valid_txs [demo_raw, [], demo_raw])) = 1"
    by (simp add: window_of_def demo_parse)
  then show ?thesis using load_transactions_spec [of 1 1 "[demo_raw, [], demo_raw]"] by auto
qed

text \<open>
  What the loader makes of one aligned pair of rows: both accounts, always; usable features and
  costs when the scene row has only the columns of the generated scene files.
\<close>

definition v2_loaded :: "int \<Rightarrow> nat \<times> string list \<times> row \<Rightarrow> pyfloat tx \<Rightarrow> bool" where
  "v2_loaded offset = (\<lambda>(i, raw, row) tx. v2_aligned offset i raw row \<and> (scene_columns row \<longrightarrow> v2_tx_ok tx) \<and>
     tx_sender tx = normalize_address (raw ! 3) \<and> tx_recipient tx = normalize_address (raw ! 4) \<and>
     length (tx_sender tx) = 40 \<and> length (tx_recipient tx) = 40 \<and> tx_sender tx \<noteq> tx_recipient tx)"

lemma v2_matches_loaded:
  assumes "v2_matches v2_tx offset (i, raw, row) tx"
  shows "v2_loaded offset (i, raw, row) tx"
proof -
  have tx: "v2_tx raw row = Inr tx" and al: "v2_aligned offset i raw row"
    using assms by (simp_all add: v2_matches_def)
  have "\<exists>ab. check_chain_row raw = Inr ab" using al by (auto simp: v2_aligned_def)
  then obtain a b where "check_chain_row raw = Inr (a, b)" by force
  then show ?thesis
    using check_chain_row_senders v2_tx_features [OF tx] tx al
    by (auto simp: v2_loaded_def v2_tx_def result_simps split: option.splits)
qed

lemma load_v2_rows:
  assumes "load_iot_transactions ip offset rows header scene max_txs start_tx V2_IDENTITY = Inr txs"
  shows "(max_txs = 0 \<longrightarrow> length scene = length rows) \<and> (max_txs \<noteq> 0 \<longrightarrow> int (length txs) = max_txs) \<and>
         list_all2 (v2_loaded offset) (window_of start_tx max_txs (enumerate 0 (zip rows scene))) txs"
proof -
  have "load_rows v2_tx offset rows scene start_tx max_txs = Inr txs"
    using assms by (simp add: load_iot_transactions_def)
  note lw = load_rows_window [OF this]
  have "list_all2 (v2_loaded offset) (window_of start_tx max_txs (enumerate 0 (zip rows scene))) txs"
    by (rule list.rel_mono_strong [OF conjunct1 [OF lw]]) (auto intro: v2_matches_loaded)
  then show ?thesis using lw by blast
qed

lemma load_v2_ok:
  assumes "load_iot_transactions ip offset rows header scene max_txs start_tx V2_IDENTITY = Inr txs"
    and "list_all scene_columns scene"
  shows "(max_txs = 0 \<longrightarrow> length scene = length rows) \<and> (max_txs \<noteq> 0 \<longrightarrow> int (length txs) = max_txs) \<and>
         list_all2 (\<lambda>(i, raw, row) tx. v2_aligned offset i raw row \<and> v2_tx_ok tx \<and>
             tx_sender tx = normalize_address (raw ! 3) \<and> tx_recipient tx = normalize_address (raw ! 4) \<and>
             length (tx_sender tx) = 40 \<and> length (tx_recipient tx) = 40 \<and> tx_sender tx \<noteq> tx_recipient tx)
           (window_of start_tx max_txs (enumerate 0 (zip rows scene))) txs"
proof -
  let ?w = "window_of start_tx max_txs (enumerate 0 (zip rows scene))"
  note lw = load_v2_rows [OF assms(1)]
  have cols: "scene_columns row" if "(i, raw, row) \<in> set ?w" for i raw row
  proof -
    have "(i, raw, row) \<in> set (enumerate 0 (zip rows scene))"
      using that by (rule set_window_of)
    then show ?thesis using assms(2) by (auto simp: in_set_enumerate_eq list_all_length)
  qed
  have "list_all2 (v2_loaded offset) ?w txs" using lw by blast
  then have "list_all2 (\<lambda>(i, raw, row) tx. v2_aligned offset i raw row \<and> v2_tx_ok tx \<and>
             tx_sender tx = normalize_address (raw ! 3) \<and> tx_recipient tx = normalize_address (raw ! 4) \<and>
             length (tx_sender tx) = 40 \<and> length (tx_recipient tx) = 40 \<and> tx_sender tx \<noteq> tx_recipient tx)
           ?w txs"
    by (rule list.rel_mono_strong) (auto simp: v2_loaded_def dest: cols)
  then show ?thesis using lw by blast
qed

text \<open>
  C32. The real-account loader is strict: when it returns, it has paired the rows of the two
  files one to one (all of them, or exactly \<open>max_txs\<close> of them), and every transaction keeps both
  accounts of its chain row, which are two different 40-digit addresses. Its scenes are usable
  under one condition, given row by row: the scene row has neither of the columns
  \<open>anchor_distances\<close> and \<open>anchor_link_qualities\<close>, which the feature builder prefers to the checked
  distance and link quality (the generated scene files have neither). The transaction of
  such a row carries ten features and a cost per endpoint, all of them finite values of the
  unit interval.
\<close>

theorem load_v2_features:
  assumes "load_iot_transactions ip offset rows header scene max_txs start_tx V2_IDENTITY = Inr txs"
  shows "(max_txs = 0 \<longrightarrow> length scene = length rows) \<and> (max_txs \<noteq> 0 \<longrightarrow> int (length txs) = max_txs) \<and>
         list_all2 (\<lambda>(i, raw, row) tx. v2_aligned offset i raw row \<and>
             (row ''anchor_distances'' = None \<and> row ''anchor_link_qualities'' = None \<longrightarrow> v2_tx_ok tx) \<and>
             tx_sender tx = normalize_address (raw ! 3) \<and> tx_recipient tx = normalize_address (raw ! 4) \<and>
             length (tx_sender tx) = 40 \<and> length (tx_recipient tx) = 40 \<and> tx_sender tx \<noteq> tx_recipient tx)
           (window_of start_tx max_txs (enumerate 0 (zip rows scene))) txs"
  using load_v2_rows [OF assms] unfolding v2_loaded_def scene_columns_def .

theorem load_v2_features_witness:
  "\<exists>tx. load_iot_transactions (\<lambda>_. False) 0 [demo_raw] [] [demo_scene] 0 0 V2_IDENTITY = Inr [tx] \<and>
     v2_tx_ok tx \<and> tx_sender tx \<noteq> tx_recipient tx"
proof -
  obtain tx where l: "load_iot_transactions (\<lambda>_. False) 0 [demo_raw] [] [demo_scene] 0 0 V2_IDENTITY = Inr [tx]"
    using demo_v2_load by blast
  from load_v2_features [OF l] show ?thesis
    using l demo_scene_columns by (auto simp: window_of_def scene_columns_def)
qed

text \<open>
  The sidecar loader keeps the two files in step: when it returns, the transactions
  are made, in order, from the sidecar rows whose position is that of the valid
  transactions of the window, and the index written in each of these rows, where there is
  one, is that position.
\<close>

theorem load_iot_in_step:
  assumes "load_iot_transactions ip offset rows header sidecar max_txs start_tx identity = Inr txs"
    and "identity \<noteq> V2_IDENTITY"
  shows "list_all2 (sidecar_matches ip)
           (window_of start_tx max_txs (enumerate 0 (take (length (valid_txs rows)) sidecar))) txs \<and>
         length txs = length (window_of start_tx max_txs (valid_txs rows)) \<and> ''template_id'' \<notin> set header"
proof -
  have "load_iot_loop ip start_tx max_txs rows sidecar 0 (\<lambda>_. 0) [] = Inr txs" "''template_id'' \<notin> set header"
    using assms by (auto simp: load_iot_transactions_def result_simps split: if_splits)
  then show ?thesis
    using load_iot_loop_window [of ip start_tx max_txs rows sidecar 0 "\<lambda>_. 0" "[]" txs]
    by (simp add: window_rest_start)
qed

theorem load_iot_in_step_witness:
  "\<exists>tx. load_iot_transactions (\<lambda>_. False) 0 [demo_raw] [''tx_index''] [demo_side] 0 0 ''iot'' = Inr [tx] \<and>
     sidecar_matches (\<lambda>_. False) (0, demo_side) tx"
proof -
  obtain tx where l: "load_iot_transactions (\<lambda>_. False) 0 [demo_raw] [''tx_index''] [demo_side] 0 0 ''iot'' = Inr [tx]"
    using demo_iot_load by blast
  from load_iot_in_step [OF l] show ?thesis
    using l by (simp add: window_of_def V2_IDENTITY_def demo_parse)
qed

section \<open>Features\<close>

text \<open>
  The anchor relation of a sidecar row without infinite weights: the primary anchor is
  always one of the related anchors, no anchor is listed twice, and the weights are a
  probability distribution over them.
\<close>

theorem related_anchors_distribution:
  assumes "finite_weights row" and "clean_iot_cell primary \<noteq> []"
    and "iot_related_anchors row primary = (ordered, weights)"
  shows "distinct ordered \<and> clean_iot_cell primary \<in> set ordered \<and>
         length weights = length ordered \<and> weight_vector weights"
  by (rule iot_related_anchors_spec [OF assms])

theorem related_anchors_distribution_witness:
  "\<exists>os ws. iot_related_anchors demo_side ''anchor'' = (os, ws) \<and> ''anchor'' \<in> set os \<and> fsum ws = Fin 1"
proof -
  obtain os ws where r: "iot_related_anchors demo_side ''anchor'' = (os, ws)" by force
  with related_anchors_distribution [OF demo_side_ok(3) _ r] show ?thesis
    by (simp add: demo_side_ok(4) weight_vector_def)
qed

text \<open>
  The feature vector of a row whose weights and anchor count are not infinite and whose
  distances and link qualities are not NaN: it is returned, has ten finite values of the
  unit interval, its minimal distance is at most its mean distance, and the shares of the
  device, edge, cloud and service anchors add up to one.
\<close>

theorem feature_vector_unit:
  assumes "scene_cells_ok row"
  shows "\<exists>fs. iot_feature_vector row k = Inr fs \<and> length fs = 10 \<and> list_all unit_float fs \<and>
     fs ! 2 \<le> fs ! 1 \<and>
     (\<exists>d e c v. fs ! 5 = Fin d \<and> fs ! 6 = Fin e \<and> fs ! 7 = Fin c \<and> fs ! 8 = Fin v \<and> d + e + c + v = 1)"
  using iot_feature_vector_unit [OF assms] by metis

theorem feature_vector_unit_witness:
  "\<exists>fs. iot_feature_vector demo_side 0 = Inr fs \<and> list_all unit_float fs"
  using feature_vector_unit [OF demo_side_ok(1), of 0] by blast

text \<open>
  C40. The guard of the features is not complete: a sidecar row whose distance cell is the
  text \<open>nan\<close> passes the clamp unchanged, and the mean and the minimal distance of its
  feature vector are NaN.
\<close>

theorem nan_distance_reaches_features:
  "\<exists>fs. iot_feature_vector (text_row [(''distance'', ''nan'')]) 0 = Inr fs \<and> fs ! 1 = NaN \<and> fs ! 2 = NaN"
proof -
  let ?row = "text_row [(''distance'', ''nan'')]"
  have ws: "normalized_iot_weights ?row = [Fin 1]"
    by (simp add: normalized_iot_weights_def text_row_def cell_def text_eval fsum_def EPS_def)
  have st: "weighted_iot_stats (anchor_distances ?row (Suc 0)) [Fin 1] = (NaN, NaN, NaN)"
    by (simp add: anchor_distances_def normalized_iot_numeric_list_def weighted_iot_stats_def text_row_def
        cell_def text_eval fsum_def fclamp_NaN fmin_list_def fmax_list_def EPS_def)
  obtain n where n: "anchor_count_of ?row (Suc 0) = Inr n"
    using anchor_count_returns [of ?row "Suc 0"] by (auto simp: text_row_def cell_def text_eval)
  obtain a b c where l: "weighted_iot_stats (anchor_link_qualities ?row (Suc 0)) [Fin 1] = (a, b, c)"
    by (cases "weighted_iot_stats (anchor_link_qualities ?row (Suc 0)) [Fin 1]")
  obtain p q r s where sh: "lite_anchor_type_shares ?row [Fin 1] = (p, q, r, s)"
    by (cases "lite_anchor_type_shares ?row [Fin 1]")
  show ?thesis
    by (simp add: iot_feature_vector_def Let_def ws st l n sh IOT_FEATURE_DIM_def)
qed

text \<open>
  The condition of the strict loader's features is needed: the checks of a scene row look at
  \<open>distance_m\<close>, and a row with a further column \<open>anchor_distances\<close> whose cell is the text \<open>nan\<close>
  passes them all and is loaded with NaN features.
\<close>

definition nan_scene :: row where
  "nan_scene = demo_scene(''anchor_distances'' \<mapsto> Some ''nan'')"

lemma nan_anchor_column:
  assumes "cell row ''anchor_distances'' = ''nan''" and "cell row ''anchor_weights'' = ''1''"
    and "cell row ''anchor_count'' = ''1''"
  shows "\<exists>fs. iot_feature_vector row k = Inr fs \<and> fs ! 1 = NaN \<and> fs ! 2 = NaN"
proof -
  have ws: "normalized_iot_weights row = [Fin 1]"
    by (simp add: normalized_iot_weights_def assms text_eval fsum_def EPS_def)
  have st: "weighted_iot_stats (anchor_distances row (Suc 0)) [Fin 1] = (NaN, NaN, NaN)"
    by (simp add: anchor_distances_def normalized_iot_numeric_list_def weighted_iot_stats_def assms
        text_eval fsum_def fclamp_NaN fmin_list_def fmax_list_def EPS_def)
  have n: "anchor_count_of row (Suc 0) = Inr 1"
    by (simp add: anchor_count_of_def assms text_eval fmax_def)
  obtain a b c where l: "weighted_iot_stats (anchor_link_qualities row (Suc 0)) [Fin 1] = (a, b, c)"
    by (cases "weighted_iot_stats (anchor_link_qualities row (Suc 0)) [Fin 1]")
  obtain p q r s where sh: "lite_anchor_type_shares row [Fin 1] = (p, q, r, s)"
    by (cases "lite_anchor_type_shares row [Fin 1]")
  show ?thesis
    by (simp add: iot_feature_vector_def Let_def ws st l n sh IOT_FEATURE_DIM_def)
qed

lemma nan_scene_row:
  "\<exists>f. scene_for_legacy_features nan_scene b = Inr f \<and> cell f ''anchor_distances'' = ''nan'' \<and>
     cell f ''anchor_weights'' = ''1'' \<and> cell f ''anchor_count'' = ''1''"
proof -
  have "float_field nan_scene g = float_field demo_scene g" if "g \<noteq> ''anchor_distances''" for g
    using that by (simp add: float_field_def get_field_def nan_scene_def)
  then have "traverse (check_scene_field nan_scene) scene_fields_checked = Inr (replicate 8 ())"
    by (simp add: scene_fields_checked_def check_scene_field_def demo_scene_float eval_nat_numeral)
  then show ?thesis
    by (cases b) (simp_all add: scene_for_legacy_features_def get_field_def nan_scene_def demo_scene_def
        text_row_def cell_def)
qed

theorem nan_anchor_column_loads:
  "\<exists>tx. load_iot_transactions ip 0 [demo_raw] [] [nan_scene] 0 0 V2_IDENTITY = Inr [tx] \<and>
     tx_iot_features tx ! 1 = NaN \<and> tx_recipient_iot_features tx ! 1 = NaN"
proof -
  obtain f g where f: "scene_for_legacy_features nan_scene False = Inr f" "scene_for_legacy_features nan_scene True = Inr g"
    and c: "\<exists>fs. iot_feature_vector f 0 = Inr fs \<and> fs ! 1 = NaN \<and> fs ! 2 = NaN"
      "\<exists>fs. iot_feature_vector g 0 = Inr fs \<and> fs ! 1 = NaN \<and> fs ! 2 = NaN"
    using nan_scene_row [of False] nan_scene_row [of True] nan_anchor_column by metis
  have "py_int 10 (demo_raw ! 8) = Some 7" by (simp add: demo_raw_def text_eval)
  then obtain tx where tx: "v2_tx demo_raw nan_scene = Inr tx" "tx_iot_features tx ! 1 = NaN"
    "tx_recipient_iot_features tx ! 1 = NaN" using f c by (auto simp: v2_tx_def)
  have "check_alignment 0 0 (demo_a, demo_b) nan_scene = Inr ()"
    by (simp add: check_alignment_def int_field_def get_field_def nan_scene_def demo_scene_def text_row_def text_eval)
  then show ?thesis using tx by (simp add: load_iot_transactions_def load_rows_def demo_chain)
qed

end
