(* ===== verification/Rollout.thy ===== *)
theory Rollout
  imports OfflineEnv
begin

text \<open>
  Experience collection for the policy: the rollout buffer and the advantage estimate of
  \<open>ppo.py\<close>, the legacy way of filling the buffer (\<open>train_offline.add_actions_to_buffer\<close>),
  the continuous collector of \<open>continuous_rollout.py\<close> with its batch clock, and the
  accounting records of \<open>training_diagnostics.py\<close>. The optimiser step of the agent is code of
  torch: it is the argument \<open>upd\<close>, a function of the agent's state and the buffer.
\<close>

section \<open>The rollout buffer\<close>

record rollout_buffer =
  rb_states :: "real list list"
  rb_next_states :: "real list list"
  rb_actions :: "nat list"
  rb_log_probs :: "real list"
  rb_rewards :: "real list"
  rb_dones :: "bool list"
  rb_values :: "real list"
  rb_target_actions :: "int list"
  rb_target_weights :: "real list"
  rb_action_masks :: "int list list"
  rb_discounts :: "real option list"
  rb_trace_discounts :: "real option list"

record transition =
  tr_state :: "real list"
  tr_next_state :: "real list option"
  tr_action :: nat
  tr_log_prob :: real
  tr_reward :: real
  tr_done :: bool
  tr_value :: real
  tr_target_action :: int
  tr_target_weight :: real
  tr_action_mask :: "int list option"
  tr_discount :: "real option"
  tr_trace_discount :: "real option"

definition empty_buffer :: rollout_buffer where
  "empty_buffer = \<lparr>rb_states = [], rb_next_states = [], rb_actions = [], rb_log_probs = [],
     rb_rewards = [], rb_dones = [], rb_values = [], rb_target_actions = [], rb_target_weights = [],
     rb_action_masks = [], rb_discounts = [], rb_trace_discounts = []\<rparr>"

definition buffer_add :: "rollout_buffer \<Rightarrow> transition \<Rightarrow> rollout_buffer" where
  "buffer_add b t =
     \<lparr>rb_states = rb_states b @ [tr_state t],
      rb_next_states = rb_next_states b @
        [case tr_next_state t of None \<Rightarrow> tr_state t | Some s \<Rightarrow> s],
      rb_actions = rb_actions b @ [tr_action t],
      rb_log_probs = rb_log_probs b @ [tr_log_prob t],
      rb_rewards = rb_rewards b @ [tr_reward t],
      rb_dones = rb_dones b @ [tr_done t],
      rb_values = rb_values b @ [tr_value t],
      rb_target_actions = rb_target_actions b @ [tr_target_action t],
      rb_target_weights = rb_target_weights b @ [tr_target_weight t],
      rb_action_masks = rb_action_masks b @
        [case tr_action_mask t of None \<Rightarrow> [] | Some m \<Rightarrow> m],
      rb_discounts = rb_discounts b @ [tr_discount t],
      rb_trace_discounts = rb_trace_discounts b @ [tr_trace_discount t]\<rparr>"

definition buffer_clear :: "rollout_buffer \<Rightarrow> rollout_buffer" where
  "buffer_clear b = empty_buffer"

definition buffer_len :: "rollout_buffer \<Rightarrow> nat" where
  "buffer_len b = length (rb_states b)"

text \<open>All columns have the length of the buffer.\<close>

definition wf_buffer :: "rollout_buffer \<Rightarrow> bool" where
  "wf_buffer b \<longleftrightarrow> (let n = buffer_len b in
     length (rb_next_states b) = n \<and> length (rb_actions b) = n \<and> length (rb_log_probs b) = n \<and>
     length (rb_rewards b) = n \<and> length (rb_dones b) = n \<and> length (rb_values b) = n \<and>
     length (rb_target_actions b) = n \<and> length (rb_target_weights b) = n \<and>
     length (rb_action_masks b) = n \<and> length (rb_discounts b) = n \<and>
     length (rb_trace_discounts b) = n)"

text \<open>\<open>xs[-1] = v\<close> on a nonempty list.\<close>

definition set_last :: "'a \<Rightarrow> 'a list \<Rightarrow> 'a list" where
  "set_last v xs = butlast xs @ [v]"

section \<open>Filling the buffer from a batch\<close>

text \<open>The next state of an action: the state of the following action of the batch.\<close>

definition following_state :: "placement_action list \<Rightarrow> nat \<Rightarrow> placement_action \<Rightarrow> real list" where
  "following_state actions idx action =
     (if idx + 1 < length actions then pa_state (actions ! (idx + 1)) else pa_next_state action)"

definition target_of :: "placement_action \<Rightarrow> int \<times> real" where
  "target_of action =
     (if pa_related_known action \<and> 0 \<le> pa_related_shard action
      then (pa_related_shard action, max 0.05 (min 1 (pa_related_weight action)))
      else (-1, 0))"

definition add_action :: "placement_action list \<Rightarrow> nat \<times> placement_action \<Rightarrow> rollout_buffer \<Rightarrow> rollout_buffer" where
  "add_action actions ia b =
     (case ia of (idx, action) \<Rightarrow>
        if \<not> starts_with ''python_ppo'' (pa_source action) then b
        else
          (let (target_action, target_weight) = target_of action
           in buffer_add b
                \<lparr>tr_state = pa_state action, tr_next_state = Some (following_state actions idx action),
                 tr_action = pa_action action, tr_log_prob = pa_log_prob action,
                 tr_reward = pa_reward action, tr_done = pa_done action, tr_value = pa_value action,
                 tr_target_action = target_action, tr_target_weight = target_weight,
                 tr_action_mask = Some (pa_action_mask action), tr_discount = None,
                 tr_trace_discount = None\<rparr>))"

definition add_actions_to_buffer :: "rollout_buffer \<Rightarrow> placement_action list \<Rightarrow> rollout_buffer" where
  "add_actions_to_buffer buffer actions = fold (add_action actions) (enumerate 0 actions) buffer"

section \<open>Generalised advantage estimation\<close>

text \<open>One position of the backward loop: reward, done, value, next value, discount, trace.\<close>

type_synonym gae_step = "real \<times> bool \<times> real \<times> real \<times> real option \<times> real option"

definition gae_turn :: "real \<Rightarrow> real \<Rightarrow> gae_step \<Rightarrow> real \<Rightarrow> real" where
  "gae_turn gamma gae_lambda st gae =
     (case st of (reward, done, v, next_value, discount, trace_discount) \<Rightarrow>
        (let non_terminal = (if done then 0 else 1);
             discount = (case discount of None \<Rightarrow> gamma | Some d \<Rightarrow> d);
             trace = (case trace_discount of None \<Rightarrow> gamma * gae_lambda | Some t \<Rightarrow> t);
             delta = reward + discount * next_value * non_terminal - v
         in delta + trace * non_terminal * gae))"

text \<open>The array of advantages, filled from the last index to the first.\<close>

fun gae_advantages :: "real \<Rightarrow> real \<Rightarrow> gae_step list \<Rightarrow> real list" where
  "gae_advantages gamma gae_lambda [] = []"
| "gae_advantages gamma gae_lambda (st # sts) =
     (let rest = gae_advantages gamma gae_lambda sts
      in gae_turn gamma gae_lambda st (case rest of [] \<Rightarrow> 0 | g # _ \<Rightarrow> g) # rest)"

definition gae_steps ::
  "real list \<Rightarrow> bool list \<Rightarrow> real list \<Rightarrow> real list \<Rightarrow> real option list \<Rightarrow> real option list \<Rightarrow> gae_step list" where
  "gae_steps rewards dones vals next_values discounts trace_discounts =
     zip rewards (zip dones (zip vals (zip next_values (zip discounts trace_discounts))))"

definition gae_returns ::
  "real \<Rightarrow> real \<Rightarrow> real list \<Rightarrow> bool list \<Rightarrow> real list \<Rightarrow> real list \<Rightarrow> real option list \<Rightarrow> real option list \<Rightarrow>
   real list \<times> real list" where
  "gae_returns gamma gae_lambda rewards dones vals next_values discounts trace_discounts =
     (let advantages = gae_advantages gamma gae_lambda
            (gae_steps rewards dones vals next_values discounts trace_discounts)
      in (map2 (+) advantages vals, advantages))"

section \<open>Accounting records\<close>

record diag =
  dg_batch_id :: nat
  dg_batch_size :: nat
  dg_position :: nat
  dg_local_reward :: real
  dg_local_scale :: real
  dg_global_reward :: real
  dg_candidate_raw :: "real list"
  dg_related :: "real list"
  dg_cross :: "real list"
  dg_load :: "real list"
  dg_iot :: "real list"
  dg_reconstruction_error :: real
  dg_clip_spread :: real
  dg_chosen_regret :: real
  dg_chosen_optimal :: bool

text \<open>The four parts of the local reward of one candidate shard, and their sum.\<close>

definition candidate_parts ::
  "real list \<Rightarrow> real list \<Rightarrow> real list \<Rightarrow> real \<Rightarrow> string \<Rightarrow> nat \<Rightarrow> (real \<times> real \<times> real \<times> real \<times> real) result" where
  "candidate_parts shares peers costs mean cost_mode sid =
     (if sid \<ge> length shares \<or> sid \<ge> length peers then raise IndexError
      else if cost_mode = ''cross'' \<and> sid \<ge> length costs then raise IndexError
      else
        (let base = fst (iot_dense_action_reward (int sid) peers 0 (shares ! sid) mean
                      IOT_DENSE_BALANCED_LOW_LOAD_BONUS_WEIGHT IOT_DENSE_BALANCED_LOW_LOAD_BONUS_CAP);
             anchor = 1.4 * max 0 (min 1 (peers ! sid));
             cross = (if sum_list peers > EPS then - 0.8 * (1 - max 0 (min 1 (peers ! sid))) else 0);
             cost = (if cost_mode = ''cross''
                     then - 0.45 * max 0 (sum_list costs - costs ! sid) else 0)
         in return (anchor, cross, base - anchor - cross, cost, base + cost)))"

text \<open>\<open>candidates.index(action)\<close>.\<close>

definition index_of :: "'a \<Rightarrow> 'a list \<Rightarrow> nat result" where
  "index_of x xs = (if x \<in> set xs then return (length (takeWhile (\<lambda>y. y \<noteq> x) xs)) else raise ValueError)"

definition action_diagnostics ::
  "placement_action list \<Rightarrow> real \<Rightarrow> real \<Rightarrow> string \<Rightarrow> nat \<times> placement_action \<Rightarrow> diag result" where
  "action_diagnostics actions local_weight scale cost_mode pa =
     (case pa of (position, action) \<Rightarrow>
        (let shards = length (pa_action_mask action);
             shares = take shards (drop (11 * shards) (pa_state action));
             candidates = filter (\<lambda>i. pa_action_mask action ! i \<noteq> 0) [0..<shards];
             n = real (length actions)
         in if shards = 0 then raise ZeroDivisionError
            else bind_result
              (traverse (candidate_parts shares (pa_sender_pos action) (pa_cost_by_shard action)
                 (sum_list shares / real shards) cost_mode) candidates) (\<lambda>parts.
            let raw = map (\<lambda>(_, _, _, _, r). r) parts; clipped = map (\<lambda>r. clamp r (-1) 1) raw
            in bind_result (index_of (pa_action action) candidates) (\<lambda>selected.
              return \<lparr>dg_batch_id = pa_batch_id action, dg_batch_size = length actions,
                dg_position = position,
                dg_local_reward = scale * local_weight * clamp (pa_local_reward action) (-1) 1 / n,
                dg_local_scale = scale * local_weight / n, dg_global_reward = 0,
                dg_candidate_raw = raw,
                dg_related = map (\<lambda>(a, _). a) parts, dg_cross = map (\<lambda>(_, c, _). c) parts,
                dg_load = map (\<lambda>(_, _, l, _). l) parts, dg_iot = map (\<lambda>(_, _, _, i, _). i) parts,
                dg_reconstruction_error = \<bar>raw ! selected - pa_local_reward action\<bar>,
                dg_clip_spread = list_max clipped - list_min clipped,
                dg_chosen_regret = list_max clipped - clipped ! selected,
                dg_chosen_optimal = (clipped ! selected \<ge> list_max clipped - 1 / 10 ^ 8)\<rparr>))))"

definition placement_diagnostics ::
  "placement_action list \<Rightarrow> real \<Rightarrow> real \<Rightarrow> string \<Rightarrow> diag list result" where
  "placement_diagnostics actions local_weight scale cost_mode =
     traverse (action_diagnostics actions local_weight scale cost_mode) (enumerate 0 actions)"

section \<open>The continuous collector\<close>

record ('g, 'u) collector =
  cr_agent :: 'g
  cr_gamma :: real
  cr_gae_lambda :: real
  cr_buffer :: rollout_buffer
  cr_diagnostic_steps :: "diag list"
  cr_min_actions :: nat
  cr_min_batches :: nat
  cr_local_weight :: real
  cr_scale :: real
  cr_diagnostics :: bool
  cr_scene_cost_mode :: string
  cr_batches :: nat
  cr_pending :: bool
  cr_elapsed :: nat
  cr_updates :: "'u list"
  cr_executed_batches :: nat
  cr_revisit_only_batches :: nat
  cr_global_reward_sum :: real
  cr_revisit_global_reward_sum :: real

definition new_collector ::
  "'g \<Rightarrow> real \<Rightarrow> real \<Rightarrow> bool \<Rightarrow> nat \<Rightarrow> nat \<Rightarrow> real \<Rightarrow> real \<Rightarrow> string \<Rightarrow> ('g, 'u) collector" where
  "new_collector agent gamma gae_lambda diagnostics min_actions min_batches local_weight scale
       cost_mode =
     \<lparr>cr_agent = agent, cr_gamma = gamma, cr_gae_lambda = gae_lambda, cr_buffer = empty_buffer,
      cr_diagnostic_steps = [], cr_min_actions = min_actions, cr_min_batches = min_batches,
      cr_local_weight = local_weight, cr_scale = scale, cr_diagnostics = diagnostics,
      cr_scene_cost_mode = cost_mode, cr_batches = 0, cr_pending = False, cr_elapsed = 0,
      cr_updates = [], cr_executed_batches = 0, cr_revisit_only_batches = 0,
      cr_global_reward_sum = 0, cr_revisit_global_reward_sum = 0\<rparr>"

type_synonym ('g, 'u) updater = "'g \<Rightarrow> rollout_buffer \<Rightarrow> 'u \<times> 'g"

definition do_update :: "('g, 'u) updater \<Rightarrow> ('g, 'u) collector \<Rightarrow> ('g, 'u) collector" where
  "do_update upd c =
     (let (u, agent) = upd (cr_agent c) (cr_buffer c)
      in c\<lparr>cr_agent := agent, cr_updates := cr_updates c @ [u],
           cr_buffer := buffer_clear (cr_buffer c), cr_diagnostic_steps := [], cr_batches := 0\<rparr>)"

definition before_decision ::
  "('g, 'u) updater \<Rightarrow> real list \<Rightarrow> ('g, 'u) collector \<Rightarrow> ('g, 'u) collector" where
  "before_decision upd state c =
     (if \<not> cr_pending c then c
      else
        (let b = cr_buffer c;
             b = b\<lparr>rb_next_states := set_last state (rb_next_states b),
                   rb_discounts := set_last (Some (cr_gamma c ^ cr_elapsed c)) (rb_discounts b),
                   rb_trace_discounts :=
                     set_last (Some ((cr_gamma c * cr_gae_lambda c) ^ cr_elapsed c))
                       (rb_trace_discounts b)\<rparr>;
             c = c\<lparr>cr_buffer := b, cr_pending := False\<rparr>
         in if buffer_len b \<ge> cr_min_actions c \<and> cr_batches c \<ge> cr_min_batches c
            then do_update upd c else c))"

text \<open>One action of \<open>add_batch\<close>, with its accounting record when diagnostics are on.\<close>

definition batch_transition ::
  "placement_action list \<Rightarrow> real \<Rightarrow> real \<Rightarrow> real \<Rightarrow> nat \<times> placement_action \<Rightarrow> transition" where
  "batch_transition actions local_weight scale global_reward ia =
     (case ia of (i, action) \<Rightarrow>
        (let reward = scale * local_weight * clamp (pa_local_reward action) (-1) 1 / real (length actions);
             reward = (if i = length actions - 1 then reward + global_reward else reward)
         in \<lparr>tr_state = pa_state action, tr_next_state = Some (following_state actions i action),
             tr_action = pa_action action, tr_log_prob = pa_log_prob action, tr_reward = reward,
             tr_done = False, tr_value = pa_value action, tr_target_action = -1, tr_target_weight = 0,
             tr_action_mask = Some (pa_action_mask action), tr_discount = Some 1,
             tr_trace_discount = Some 1\<rparr>))"

definition add_batch ::
  "placement_action list \<Rightarrow> real \<Rightarrow> ('g, 'u) collector \<Rightarrow> ('g, 'u) collector result" where
  "add_batch actions batch_reward c =
     (let global_reward = cr_scale c * (1 - cr_local_weight c) * clamp batch_reward (-1) 1;
          c = c\<lparr>cr_executed_batches := cr_executed_batches c + 1, cr_batches := cr_batches c + 1,
                cr_global_reward_sum := cr_global_reward_sum c + global_reward\<rparr>
      in if actions = [] then
           (if \<not> cr_pending c then raise ValueError
            else
              (let b = cr_buffer c; extra = cr_gamma c ^ cr_elapsed c * global_reward;
                   steps = cr_diagnostic_steps c
               in return (c\<lparr>cr_revisit_only_batches := cr_revisit_only_batches c + 1,
                    cr_revisit_global_reward_sum := cr_revisit_global_reward_sum c + global_reward,
                    cr_buffer := b\<lparr>rb_rewards := set_last (last (rb_rewards b) + extra) (rb_rewards b)\<rparr>,
                    cr_diagnostic_steps := (if cr_diagnostics c
                      then set_last ((last steps)\<lparr>dg_global_reward := dg_global_reward (last steps) + extra\<rparr>) steps
                      else steps),
                    cr_elapsed := cr_elapsed c + 1\<rparr>)))
         else if cr_pending c then raise ValueError
         else bind_result
           (if cr_diagnostics c
            then placement_diagnostics actions (cr_local_weight c) (cr_scale c) (cr_scene_cost_mode c)
            else return []) (\<lambda>records.
           if \<not> list_all (\<lambda>a. starts_with ''python_ppo'' (pa_source a)) actions then raise ValueError
           else
             (let ts = map (batch_transition actions (cr_local_weight c) (cr_scale c) global_reward)
                         (enumerate 0 actions);
                  records = map (\<lambda>(i, r). r\<lparr>dg_global_reward :=
                      (if i = length actions - 1 then global_reward else 0)\<rparr>) (enumerate 0 records)
              in return (c\<lparr>cr_buffer := fold (\<lambda>t b. buffer_add b t) ts (cr_buffer c),
                   cr_diagnostic_steps := cr_diagnostic_steps c @ records,
                   cr_pending := True, cr_elapsed := 1\<rparr>))))"

definition finish :: "('g, 'u) updater \<Rightarrow> ('g, 'u) collector \<Rightarrow> ('g, 'u) collector" where
  "finish upd c =
     (let b = cr_buffer c;
          c = (if buffer_len b \<noteq> 0
               then do_update upd (c\<lparr>cr_buffer := b\<lparr>rb_dones := set_last True (rb_dones b),
                      rb_discounts := set_last (Some 0) (rb_discounts b),
                      rb_trace_discounts := set_last (Some 0) (rb_trace_discounts b)\<rparr>\<rparr>)
               else c)
      in c\<lparr>cr_pending := False\<rparr>)"

text \<open>\<open>summary\<close>: the counters and sums, in the order of the source.\<close>

definition collector_summary :: "('g, 'u) collector \<Rightarrow> nat \<times> nat \<times> real \<times> real \<times> real \<times> real" where
  "collector_summary c = (cr_executed_batches c, cr_revisit_only_batches c, cr_global_reward_sum c,
     cr_revisit_global_reward_sum c, cr_local_weight c, cr_scale c)"

end
