(* ===== verification/RolloutTheorems.thy ===== *)
theory RolloutTheorems
  imports Rollout
begin

text \<open>
  Correctness of experience collection: the buffer's columns stay parallel, the collector is
  a state machine whose reachable states keep the batch clock, the return of the recorded
  action trajectory is the return of the batch process, and the advantage estimate is the
  return it stands for.
\<close>

section \<open>The buffer\<close>

lemma wf_empty_buffer [wf_intros, simp]: "wf_buffer empty_buffer"
  by (simp add: wf_buffer_def buffer_len_def empty_buffer_def)

lemma wf_buffer_add [wf_intros]: "wf_buffer b \<Longrightarrow> wf_buffer (buffer_add b t)"
  by (simp add: wf_buffer_def buffer_len_def buffer_add_def Let_def)

lemma buffer_len_add [simp]: "buffer_len (buffer_add b t) = Suc (buffer_len b)"
  by (simp add: buffer_len_def buffer_add_def)

lemma length_set_last [simp]: "xs \<noteq> [] \<Longrightarrow> length (set_last v xs) = length xs"
  by (cases xs rule: rev_cases) (simp_all add: set_last_def)

lemma set_last_snoc [simp]: "set_last v (xs @ [x]) = xs @ [v]"
  by (simp add: set_last_def)

lemma add_action_wf:
  assumes "wf_buffer b"
  shows "wf_buffer (add_action actions ia b)"
  using assms by (cases ia) (simp add: add_action_def wf_buffer_add split: prod.split)

interpretation fill: loop_contract "add_action actions" wf_buffer "\<lambda>a b. buffer_len a \<le> buffer_len b"
  by unfold_locales (auto simp: add_action_wf, auto simp: add_action_def split: prod.split)

lemma add_actions_len:
  "buffer_len (fold (add_action actions) ias b) =
     buffer_len b + length (filter (\<lambda>ia. starts_with ''python_ppo'' (pa_source (snd ia))) ias)"
  by (induction ias arbitrary: b) (auto simp: add_action_def split: prod.splits)

lemma buffer_add_columns:
  "rb_rewards (fold (\<lambda>t b. buffer_add b t) ts b) = rb_rewards b @ map tr_reward ts"
  "rb_discounts (fold (\<lambda>t b. buffer_add b t) ts b) = rb_discounts b @ map tr_discount ts"
  "rb_dones (fold (\<lambda>t b. buffer_add b t) ts b) = rb_dones b @ map tr_done ts"
  "buffer_len (fold (\<lambda>t b. buffer_add b t) ts b) = buffer_len b + length ts"
  by (induction ts arbitrary: b) (simp_all add: buffer_add_def buffer_len_def)

lemma wf_buffer_add_all: "wf_buffer b \<Longrightarrow> wf_buffer (fold (\<lambda>t b. buffer_add b t) ts b)"
  by (induction ts arbitrary: b) (simp_all add: wf_buffer_add)

section \<open>Discounted sums\<close>

text \<open>Each reward is followed by its own discount of everything after it.\<close>

fun discounted_sum :: "real list \<Rightarrow> real list \<Rightarrow> real" where
  "discounted_sum (r # rs) (d # ds) = r + d * discounted_sum rs ds"
| "discounted_sum _ _ = 0"

lemma discounted_sum_append:
  assumes "length rs = length ds"
  shows "discounted_sum (rs @ rs') (ds @ ds') = discounted_sum rs ds + prod_list ds * discounted_sum rs' ds'"
  using assms by (induction rs ds rule: list_induct2) (simp_all add: algebra_simps)

lemma discounted_sum_ones: "discounted_sum rs (replicate (length rs) 1) = sum_list rs"
  by (induction rs) simp_all

lemma prod_list_replicate_power [simp]: "prod_list (replicate n d) = d ^ n" for d :: real
  by (induction n) simp_all

section \<open>Advantages\<close>

lemma length_gae_advantages [simp]: "length (gae_advantages g l sts) = length sts"
  by (induction sts) (simp_all add: Let_def)

definition first_or_zero :: "real list \<Rightarrow> real" where
  "first_or_zero xs = (case xs of [] \<Rightarrow> 0 | x # _ \<Rightarrow> x)"

text \<open>With the trace equal to the discount, the first advantage telescopes.\<close>

lemma gae_telescopes:
  assumes "length ds = length rs" and "length vs = length rs"
  shows "first_or_zero (gae_advantages g l
           (gae_steps rs (replicate (length rs) False) vs (tl vs @ [v]) (map Some ds) (map Some ds))) =
         discounted_sum rs ds + prod_list ds * v - first_or_zero (vs @ [v])"
  using assms
proof (induction rs arbitrary: ds vs)
  case Nil
  then show ?case by (simp add: gae_steps_def first_or_zero_def)
next
  case (Cons r rs)
  obtain d ds' u vs' where eq: "ds = d # ds'" "vs = u # vs'"
    using Cons.prems by (cases ds; cases vs) auto
  show ?case
  proof (cases vs')
    case Nil
    then show ?thesis using Cons.prems eq
      by (simp add: gae_steps_def first_or_zero_def gae_turn_def Let_def)
  next
    case vs': (Cons w ws)
    then have "first_or_zero (gae_advantages g l
           (gae_steps rs (replicate (length rs) False) vs' (tl vs' @ [v]) (map Some ds') (map Some ds'))) =
         discounted_sum rs ds' + prod_list ds' * v - first_or_zero (vs' @ [v])"
      using Cons.IH [of ds' vs'] Cons.prems eq by simp
    then show ?thesis using vs' eq
      by (simp add: gae_steps_def first_or_zero_def [symmetric] gae_turn_def Let_def)
         (simp add: first_or_zero_def algebra_simps)
  qed
qed

text \<open>The estimate is additive in the rewards and the values.\<close>

lemma gae_turn_additive:
  "gae_turn g l (r + r', e, v + v', n + n', d, t) (x + x') =
   gae_turn g l (r, e, v, n, d, t) x + gae_turn g l (r', e, v', n', d, t) x'"
  by (simp add: gae_turn_def Let_def algebra_simps)

lemma head_sum:
  fixes xs ys :: "real list"
  assumes "length xs = length ys"
  shows "(case map2 (+) xs ys of [] \<Rightarrow> 0 | g # _ \<Rightarrow> g) =
         (case xs of [] \<Rightarrow> 0 | g # _ \<Rightarrow> g) + (case ys of [] \<Rightarrow> 0 | g # _ \<Rightarrow> g)"
  using assms by (cases xs; cases ys) auto

lemma gae_additive:
  assumes "length rs' = length rs" and "length vs = length rs" and "length vs' = length rs"
    and "length ns = length rs" and "length ns' = length rs" and "length ds = length rs"
    and "length ts = length rs" and "length dn = length rs"
  shows "gae_advantages g l (gae_steps (map2 (+) rs rs') dn (map2 (+) vs vs') (map2 (+) ns ns') ds ts) =
         map2 (+) (gae_advantages g l (gae_steps rs dn vs ns ds ts))
                  (gae_advantages g l (gae_steps rs' dn vs' ns' ds ts))"
  using assms
proof (induction rs arbitrary: rs' vs vs' ns ns' ds ts dn)
  case Nil
  then show ?case by (simp add: gae_steps_def)
next
  case (Cons r rs)
  obtain r' rs0 v vs0 v' vs0' n ns0 n' ns0' d ds0 t ts0 e dn0 where eq:
    "rs' = r' # rs0" "vs = v # vs0" "vs' = v' # vs0'" "ns = n # ns0" "ns' = n' # ns0'"
    "ds = d # ds0" "ts = t # ts0" "dn = e # dn0"
    using Cons.prems by (auto simp: length_Suc_conv)
  have ih: "gae_advantages g l (gae_steps (map2 (+) rs rs0) dn0 (map2 (+) vs0 vs0') (map2 (+) ns0 ns0') ds0 ts0) =
         map2 (+) (gae_advantages g l (gae_steps rs dn0 vs0 ns0 ds0 ts0))
                  (gae_advantages g l (gae_steps rs0 dn0 vs0' ns0' ds0 ts0))"
    using Cons.IH Cons.prems by (simp add: eq)
  have len: "length (gae_advantages g l (gae_steps rs dn0 vs0 ns0 ds0 ts0)) =
             length (gae_advantages g l (gae_steps rs0 dn0 vs0' ns0' ds0 ts0))"
    using Cons.prems by (simp add: eq gae_steps_def)
  have cons: "gae_steps (a # as) (e # dn0) (b # bs) (c # cs) (d # ds0) (t # ts0) =
      (a, e, b, c, d, t) # gae_steps as dn0 bs cs ds0 ts0" for a as b bs c cs
    by (simp add: gae_steps_def)
  show ?case
    unfolding eq list.map zip_Cons_Cons prod.case cons gae_advantages.simps Let_def ih
      head_sum [OF len] gae_turn_additive by simp
qed

section \<open>The collector as a state machine\<close>

text \<open>The reward of one executed batch: the mean local reward of its actions and the global reward.\<close>

definition batch_value :: "real \<Rightarrow> real \<Rightarrow> placement_action list \<times> real \<Rightarrow> real" where
  "batch_value local_weight scale ar =
     (case ar of (actions, batch_reward) \<Rightarrow>
        scale * (local_weight * (if actions = [] then 0
                   else sum_list (map (\<lambda>a. clamp (pa_local_reward a) (-1) 1) actions) / real (length actions))
                 + (1 - local_weight) * clamp batch_reward (-1) 1))"

definition update_due :: "('g, 'u) collector \<Rightarrow> bool" where
  "update_due c \<longleftrightarrow> cr_pending c \<and> buffer_len (cr_buffer c) \<ge> cr_min_actions c \<and>
     cr_batches c \<ge> cr_min_batches c"

text \<open>
  The states a collector reaches from \<open>c0\<close> by its three operations, with the batches executed
  since the buffer was last emptied.
\<close>

inductive collects ::
  "('g, 'u) updater \<Rightarrow> ('g, 'u) collector \<Rightarrow> (placement_action list \<times> real) list \<Rightarrow> ('g, 'u) collector \<Rightarrow> bool"
  for upd :: "('g, 'u) updater" and c0 :: "('g, 'u) collector" where
  start: "collects upd c0 [] c0"
| decide: "collects upd c0 h c \<Longrightarrow> \<not> update_due c \<Longrightarrow> collects upd c0 h (before_decision upd s c)"
| decide_update: "collects upd c0 h c \<Longrightarrow> update_due c \<Longrightarrow> collects upd c0 [] (before_decision upd s c)"
| batch: "collects upd c0 h c \<Longrightarrow> add_batch actions r c = Inr c' \<Longrightarrow> collects upd c0 (h @ [(actions, r)]) c'"
| finished: "collects upd c0 h c \<Longrightarrow> collects upd c0 [] (finish upd c)"

inductive_cases collects_snocE: "collects upd c0 (h @ [x]) c"

definition same_config :: "('g, 'u) collector \<Rightarrow> ('g, 'u) collector \<Rightarrow> bool" where
  "same_config c0 c \<longleftrightarrow> cr_gamma c = cr_gamma c0 \<and> cr_gae_lambda c = cr_gae_lambda c0 \<and>
     cr_local_weight c = cr_local_weight c0 \<and> cr_scale c = cr_scale c0 \<and>
     cr_diagnostics c = cr_diagnostics c0 \<and> cr_min_actions c = cr_min_actions c0 \<and>
     cr_min_batches c = cr_min_batches c0"

text \<open>The clock: what the discounts recorded so far multiply to.\<close>

definition clock_ok :: "nat \<Rightarrow> ('g, 'u) collector \<Rightarrow> bool" where
  "clock_ok n c \<longleftrightarrow> (let ds = map the (rb_discounts (cr_buffer c)) in
     if cr_pending c
     then 1 \<le> cr_elapsed c \<and> cr_elapsed c \<le> n \<and> prod_list (butlast ds) = cr_gamma c ^ (n - cr_elapsed c)
     else prod_list ds = cr_gamma c ^ n)"

definition accounts_ok :: "('g, 'u) collector \<Rightarrow> bool" where
  "accounts_ok c \<longleftrightarrow> cr_diagnostics c \<longrightarrow>
     list_all2 (\<lambda>r s. r = dg_local_reward s + dg_global_reward s)
       (rb_rewards (cr_buffer c)) (cr_diagnostic_steps c)"

definition buffer_return :: "rollout_buffer \<Rightarrow> real" where
  "buffer_return b = discounted_sum (rb_rewards b) (map the (rb_discounts b))"

definition batch_return :: "('g, 'u) collector \<Rightarrow> (placement_action list \<times> real) list \<Rightarrow> real" where
  "batch_return c h = discounted_sum (map (batch_value (cr_local_weight c) (cr_scale c)) h)
     (replicate (length h) (cr_gamma c))"

definition open_buffer :: "rollout_buffer \<Rightarrow> bool" where
  "open_buffer b \<longleftrightarrow> wf_buffer b \<and> list_all (\<lambda>d. d \<noteq> None) (rb_discounts b) \<and> list_all Not (rb_dones b)"

definition collector_inv ::
  "('g, 'u) collector \<Rightarrow> (placement_action list \<times> real) list \<Rightarrow> ('g, 'u) collector \<Rightarrow> bool" where
  "collector_inv c0 h c \<longleftrightarrow> same_config c0 c \<and> open_buffer (cr_buffer c) \<and>
     cr_batches c = length h \<and> (buffer_len (cr_buffer c) = 0 \<longleftrightarrow> h = []) \<and>
     clock_ok (length h) c \<and> accounts_ok c \<and> buffer_return (cr_buffer c) = batch_return c0 h"

lemma empty_buffer_facts [simp]:
  "rb_discounts empty_buffer = []" "rb_rewards empty_buffer = []" "rb_dones empty_buffer = []"
  "buffer_len empty_buffer = 0" "open_buffer empty_buffer"
  by (simp_all add: empty_buffer_def buffer_len_def open_buffer_def wf_buffer_def)

lemma collector_inv_reset:
  assumes "same_config c0 c" and "cr_buffer c = empty_buffer" and "cr_diagnostic_steps c = []"
    and "cr_batches c = 0" and "\<not> cr_pending c"
  shows "collector_inv c0 [] c"
  using assms by (simp add: collector_inv_def clock_ok_def accounts_ok_def buffer_return_def batch_return_def)

lemma do_update_reset:
  "cr_buffer (do_update upd c) = empty_buffer" "cr_diagnostic_steps (do_update upd c) = []"
  "cr_batches (do_update upd c) = 0" "cr_pending (do_update upd c) = cr_pending c"
  "same_config c0 (do_update upd c) = same_config c0 c"
  by (simp_all add: do_update_def buffer_clear_def same_config_def split: prod.split)

lemma wf_buffer_columns:
  assumes "wf_buffer b" and "buffer_len b \<noteq> 0"
  shows "rb_next_states b \<noteq> []" "rb_discounts b \<noteq> []" "rb_trace_discounts b \<noteq> []"
    "rb_dones b \<noteq> []" "rb_rewards b \<noteq> []" "length (rb_rewards b) = length (rb_discounts b)"
  using assms by (auto simp: wf_buffer_def Let_def)

lemma discounted_sum_last_discount:
  assumes "length rs = length ds" and "ds \<noteq> []"
  shows "discounted_sum rs (set_last d ds) = discounted_sum rs ds"
proof -
  obtain ds' x where ds: "ds = ds' @ [x]" using assms(2) by (cases ds rule: rev_cases) auto
  then obtain rs' r where "rs = rs' @ [r]" using assms(1) by (cases rs rule: rev_cases) auto
  then show ?thesis using assms(1) by (simp add: ds discounted_sum_append)
qed

lemma discounted_sum_last_reward:
  assumes "length rs = length ds" and "ds \<noteq> []"
  shows "discounted_sum (set_last (last rs + x) rs) ds = discounted_sum rs ds + prod_list (butlast ds) * x"
proof -
  obtain ds' y where ds: "ds = ds' @ [y]" using assms(2) by (cases ds rule: rev_cases) auto
  then obtain rs' r where "rs = rs' @ [r]" using assms(1) by (cases rs rule: rev_cases) auto
  then show ?thesis using assms(1) by (simp add: ds discounted_sum_append distrib_left)
qed

lemma batch_return_snoc:
  "batch_return c (h @ [x]) =
     batch_return c h + cr_gamma c ^ length h * batch_value (cr_local_weight c) (cr_scale c) x"
proof -
  have "replicate (length (h @ [x])) (cr_gamma c) = replicate (length h) (cr_gamma c) @ [cr_gamma c]"
    by (simp add: replicate_append_same)
  then show ?thesis unfolding batch_return_def by (simp only: map_append) (simp add: discounted_sum_append)
qed

lemma map_the_set_last: "ds \<noteq> [] \<Longrightarrow> map the (set_last (Some d) ds) = set_last d (map the ds)"
  by (cases ds rule: rev_cases) (simp_all add: set_last_def)

lemma before_decision_keeps:
  assumes "collector_inv c0 h c" and "\<not> update_due c"
  shows "collector_inv c0 h (before_decision upd s c)"
proof (cases "cr_pending c")
  case False
  then show ?thesis using assms by (simp add: before_decision_def)
next
  case True
  note inv = assms(1) [unfolded collector_inv_def]
  let ?b = "cr_buffer c"
  have wf: "wf_buffer ?b" and clk: "clock_ok (length h) c" and len: "cr_batches c = length h"
    using inv by (simp_all add: open_buffer_def)
  have "h \<noteq> []" using clk True by (auto simp: clock_ok_def Let_def)
  then have ne: "buffer_len ?b \<noteq> 0" using inv by simp
  note cols = wf_buffer_columns [OF wf ne]
  let ?b' = "?b\<lparr>rb_next_states := set_last s (rb_next_states ?b),
       rb_discounts := set_last (Some (cr_gamma c ^ cr_elapsed c)) (rb_discounts ?b),
       rb_trace_discounts := set_last (Some ((cr_gamma c * cr_gae_lambda c) ^ cr_elapsed c)) (rb_trace_discounts ?b)\<rparr>"
  have eq: "before_decision upd s c = c\<lparr>cr_buffer := ?b', cr_pending := False\<rparr>"
    using True assms(2) by (auto simp: before_decision_def update_due_def buffer_len_def Let_def)
  have "open_buffer ?b'"
    using inv cols by (auto simp: open_buffer_def wf_buffer_def buffer_len_def Let_def set_last_def
        list_all_iff dest: in_set_butlastD)
  moreover have "buffer_return ?b' = buffer_return ?b"
    using cols by (simp add: buffer_return_def map_the_set_last discounted_sum_last_discount)
  moreover have "prod_list (map the (rb_discounts ?b')) = cr_gamma c ^ length h"
    using clk True cols(2)
    by (simp add: clock_ok_def Let_def map_the_set_last set_last_def map_butlast power_add [symmetric])
  ultimately show ?thesis
    using inv by (simp add: eq collector_inv_def same_config_def clock_ok_def accounts_ok_def buffer_len_def)
qed

lemma before_decision_updates:
  assumes "collector_inv c0 h c" and "update_due c"
  shows "collector_inv c0 [] (before_decision upd s c)"
proof -
  let ?b = "cr_buffer c"
  let ?c = "c\<lparr>cr_buffer := ?b\<lparr>rb_next_states := set_last s (rb_next_states ?b),
       rb_discounts := set_last (Some (cr_gamma c ^ cr_elapsed c)) (rb_discounts ?b),
       rb_trace_discounts := set_last (Some ((cr_gamma c * cr_gae_lambda c) ^ cr_elapsed c)) (rb_trace_discounts ?b)\<rparr>,
       cr_pending := False\<rparr>"
  have "before_decision upd s c = do_update upd ?c"
    using assms(2) by (simp add: before_decision_def update_due_def buffer_len_def Let_def)
  moreover have "same_config c0 ?c" using assms(1) by (simp add: collector_inv_def same_config_def)
  ultimately show ?thesis
    by (intro collector_inv_reset) (simp_all add: do_update_reset)
qed

lemma finish_resets:
  assumes "collector_inv c0 h c"
  shows "collector_inv c0 [] (finish upd c)"
proof (cases "buffer_len (cr_buffer c) = 0")
  case True
  note inv = assms [unfolded collector_inv_def]
  have "h = []" using inv True by simp
  moreover have "rb_rewards (cr_buffer c) = []" "rb_discounts (cr_buffer c) = []"
    using inv True by (auto simp: open_buffer_def wf_buffer_def Let_def)
  ultimately show ?thesis
    using inv True by (simp add: finish_def collector_inv_def same_config_def clock_ok_def accounts_ok_def)
next
  case False
  have c: "same_config c0 c" using assms by (simp add: collector_inv_def)
  show ?thesis
    using False c
    by (intro collector_inv_reset)
       (simp_all add: finish_def Let_def do_update_def buffer_clear_def same_config_def split: prod.split)
qed

lemma revisit_batch_keeps:
  assumes "collector_inv c0 h c" and "add_batch [] r c = Inr c'"
  shows "collector_inv c0 (h @ [([], r)]) c'"
proof -
  note inv = assms(1) [unfolded collector_inv_def]
  let ?b = "cr_buffer c"
  let ?g = "cr_scale c * (1 - cr_local_weight c) * clamp r (-1) 1"
  let ?x = "cr_gamma c ^ cr_elapsed c * ?g"
  have pend: "cr_pending c" using assms(2) by (auto simp: add_batch_def Let_def split: if_splits)
  have clk: "1 \<le> cr_elapsed c" "cr_elapsed c \<le> length h"
      "prod_list (butlast (map the (rb_discounts ?b))) = cr_gamma c ^ (length h - cr_elapsed c)"
    using inv pend by (simp_all add: clock_ok_def Let_def)
  have "h \<noteq> []" using clk by auto
  then have ne: "buffer_len ?b \<noteq> 0" using inv by simp
  have wf: "wf_buffer ?b" using inv by (simp add: open_buffer_def)
  note cols = wf_buffer_columns [OF wf ne]
  have b': "cr_buffer c' = ?b\<lparr>rb_rewards := set_last (last (rb_rewards ?b) + ?x) (rb_rewards ?b)\<rparr>"
    and f: "cr_pending c'" "cr_elapsed c' = cr_elapsed c + 1" "cr_batches c' = cr_batches c + 1"
      "same_config c0 c' = same_config c0 c" "cr_gamma c' = cr_gamma c" "cr_diagnostics c' = cr_diagnostics c"
    and st: "cr_diagnostics c \<Longrightarrow> cr_diagnostic_steps c' =
       set_last ((last (cr_diagnostic_steps c))\<lparr>dg_global_reward :=
         dg_global_reward (last (cr_diagnostic_steps c)) + ?x\<rparr>) (cr_diagnostic_steps c)"
    using assms(2) pend by (auto simp: add_batch_def Let_def same_config_def)
  have pw: "cr_gamma c ^ (length h - cr_elapsed c) * cr_gamma c ^ cr_elapsed c = cr_gamma c ^ length h"
    using clk(2) by (simp add: power_add [symmetric])
  have cfg: "cr_gamma c0 = cr_gamma c" "cr_local_weight c0 = cr_local_weight c" "cr_scale c0 = cr_scale c"
    using inv by (simp_all add: same_config_def)
  have "buffer_return (cr_buffer c') = batch_return c0 h + cr_gamma c ^ length h * ?g"
    using inv cols clk(3) pw
    by (simp add: b' buffer_return_def discounted_sum_last_reward mult.assoc [symmetric])
  then have ret: "buffer_return (cr_buffer c') = batch_return c0 (h @ [([], r)])"
    by (simp add: batch_return_snoc batch_value_def cfg mult.assoc)
  have acc: "accounts_ok c'"
  proof (cases "cr_diagnostics c")
    case True
    then have all: "list_all2 (\<lambda>r s. r = dg_local_reward s + dg_global_reward s)
        (rb_rewards ?b) (cr_diagnostic_steps c)" using inv by (simp add: accounts_ok_def)
    obtain rs y where rs: "rb_rewards ?b = rs @ [y]" using cols(5) by (cases "rb_rewards ?b" rule: rev_cases) auto
    then obtain ss z where ss: "cr_diagnostic_steps c = ss @ [z]"
      using all by (cases "cr_diagnostic_steps c" rule: rev_cases) auto
    have "length rs = length ss" using list_all2_lengthD [OF all] by (simp add: rs ss)
    then show ?thesis using all True st by (simp add: accounts_ok_def f b' rs ss list_all2_append)
  qed (simp add: accounts_ok_def f)
  have "open_buffer (cr_buffer c')" "buffer_len (cr_buffer c') = buffer_len ?b"
    using inv cols by (auto simp: b' open_buffer_def wf_buffer_def buffer_len_def Let_def)
  moreover have "clock_ok (length (h @ [([], r)])) c'"
    using clk by (simp add: clock_ok_def f b')
  ultimately show ?thesis using inv ret acc ne by (simp add: collector_inv_def f)
qed

text \<open>The rewards of a batch of placements add up to the value of the batch.\<close>

lemma sum_enumerate_last:
  fixes f :: "'a \<Rightarrow> real"
  assumes "xs \<noteq> []"
  shows "sum_list (map (\<lambda>(i, x). if i = length xs - 1 then f x + g else f x) (enumerate 0 xs)) =
         sum_list (map f xs) + g"
proof -
  obtain ys y where xs: "xs = ys @ [y]" using assms by (cases xs rule: rev_cases) auto
  have "map (\<lambda>(i, x). if i = length ys then f x + g else f x) (enumerate 0 ys) = map f ys"
    by (rule nth_equalityI) (auto simp: nth_enumerate_eq)
  then show ?thesis by (simp add: xs enumerate_append_eq)
qed

lemma batch_rewards_sum:
  assumes "actions \<noteq> []"
  shows "sum_list (map tr_reward (map (batch_transition actions w s (s * (1 - w) * clamp r (-1) 1))
           (enumerate 0 actions))) = batch_value w s (actions, r)"
proof -
  let ?g = "s * (1 - w) * clamp r (-1) 1"
  let ?f = "\<lambda>a. s * w * clamp (pa_local_reward a) (-1) 1 / real (length actions)"
  have "map tr_reward (map (batch_transition actions w s ?g) (enumerate 0 actions)) =
        map (\<lambda>(i, a). if i = length actions - 1 then ?f a + ?g else ?f a) (enumerate 0 actions)"
    by (auto simp: batch_transition_def)
  then have "sum_list (map tr_reward (map (batch_transition actions w s ?g) (enumerate 0 actions))) =
        sum_list (map ?f actions) + ?g"
    by (simp only: sum_enumerate_last [OF assms, of ?f ?g])
  moreover have "sum_list (map ?f actions) =
      s * w * (sum_list (map (\<lambda>a. clamp (pa_local_reward a) (-1) 1) actions) / real (length actions))"
    by (simp add: sum_list_const_mult [symmetric] sum_list_map_divide [symmetric] comp_def mult.assoc)
  ultimately show ?thesis using assms by (simp add: batch_value_def algebra_simps)
qed

lemma action_diagnostics_local:
  assumes "action_diagnostics actions w s m (i, a) = Inr d"
  shows "dg_local_reward d = s * w * clamp (pa_local_reward a) (-1) 1 / real (length actions)"
  using assms by (auto simp: action_diagnostics_def Let_def result_simps split: if_splits)

lemma batch_records_account:
  assumes "placement_diagnostics actions w s m = Inr records"
  shows "list_all2 (\<lambda>r d. r = dg_local_reward d + dg_global_reward d)
           (map tr_reward (map (batch_transition actions w s g) (enumerate 0 actions)))
           (map (\<lambda>(i, r). r\<lparr>dg_global_reward := (if i = length actions - 1 then g else 0)\<rparr>) (enumerate 0 records))"
proof -
  have tr: "list_all2 (\<lambda>x y. action_diagnostics actions w s m x = Inr y) (enumerate 0 actions) records"
    using assms by (simp add: placement_diagnostics_def traverse_Inr_iff)
  have len: "length records = length actions" using list_all2_lengthD [OF tr] by simp
  have loc: "dg_local_reward (records ! i) = s * w * clamp (pa_local_reward (actions ! i)) (-1) 1 / real (length actions)"
    if "i < length actions" for i
    using list_all2_nthD [OF tr, of i] that
    by (simp add: nth_enumerate_eq) (rule action_diagnostics_local)
  show ?thesis
    using len by (auto simp: list_all2_conv_all_nth nth_enumerate_eq batch_transition_def loc)
qed

lemma placement_batch_keeps:
  assumes "collector_inv c0 h c" and "add_batch actions r c = Inr c'" and "actions \<noteq> []"
  shows "collector_inv c0 (h @ [(actions, r)]) c'"
proof -
  note inv = assms(1) [unfolded collector_inv_def]
  let ?b = "cr_buffer c" and ?w = "cr_local_weight c" and ?s = "cr_scale c"
  let ?g = "?s * (1 - ?w) * clamp r (-1) 1"
  let ?ts = "map (batch_transition actions ?w ?s ?g) (enumerate 0 actions)"
  have pend: "\<not> cr_pending c" using assms(2,3) by (auto simp: add_batch_def Let_def split: if_splits)
  have ppo: "list_all (\<lambda>a. starts_with ''python_ppo'' (pa_source a)) actions"
    using assms(2,3) pend by (auto simp: add_batch_def Let_def result_simps split: if_splits)
  obtain records where
    rec: "cr_diagnostics c \<Longrightarrow> placement_diagnostics actions ?w ?s (cr_scene_cost_mode c) = Inr records"
    and b': "cr_buffer c' = fold (\<lambda>t b. buffer_add b t) ?ts ?b"
    and steps: "cr_diagnostic_steps c' = cr_diagnostic_steps c @
       map (\<lambda>(i, r). r\<lparr>dg_global_reward := (if i = length actions - 1 then ?g else 0)\<rparr>) (enumerate 0 records)"
    and f: "cr_pending c'" "cr_elapsed c' = 1" "cr_batches c' = cr_batches c + 1"
      "same_config c0 c' = same_config c0 c" "cr_gamma c' = cr_gamma c" "cr_diagnostics c' = cr_diagnostics c"
  proof (cases "cr_diagnostics c")
    case True
    then show thesis using assms(2,3) pend ppo that
      by (auto simp: add_batch_def Let_def same_config_def result_simps)
  next
    case False
    have "c' = c\<lparr>cr_executed_batches := cr_executed_batches c + 1, cr_batches := cr_batches c + 1,
        cr_global_reward_sum := cr_global_reward_sum c + ?g,
        cr_buffer := fold (\<lambda>t b. buffer_add b t) ?ts ?b, cr_pending := True, cr_elapsed := 1\<rparr>"
      using assms(2,3) pend ppo False by (simp add: add_batch_def Let_def)
    then show thesis using False by (intro that [of "[]"]) (simp_all add: same_config_def)
  qed
  have wf: "wf_buffer ?b" and prod: "prod_list (map the (rb_discounts ?b)) = cr_gamma c ^ length h"
    using inv pend by (simp_all add: open_buffer_def clock_ok_def)
  have cfg: "cr_gamma c0 = cr_gamma c" "cr_local_weight c0 = ?w" "cr_scale c0 = ?s"
    using inv by (simp_all add: same_config_def)
  have ds: "map tr_discount ?ts = replicate (length actions) (Some 1)"
    by (rule nth_equalityI) (simp_all add: nth_enumerate_eq batch_transition_def Let_def)
  have dn: "map tr_done ?ts = replicate (length actions) False"
    by (rule nth_equalityI) (simp_all add: nth_enumerate_eq batch_transition_def Let_def)
  note cols = buffer_add_columns [of ?ts ?b]
  have "buffer_return (cr_buffer c') = buffer_return ?b + cr_gamma c ^ length h * sum_list (map tr_reward ?ts)"
    using wf prod discounted_sum_ones [of "map tr_reward ?ts"]
    by (simp add: buffer_return_def b' cols(1,2) ds discounted_sum_append wf_buffer_def Let_def del: map_map)
  then have "buffer_return (cr_buffer c') = batch_return c0 (h @ [(actions, r)])"
    using inv by (simp add: batch_rewards_sum [OF assms(3)] batch_return_snoc cfg del: map_map)
  moreover have "accounts_ok c'"
    using inv batch_records_account [OF rec, where g = ?g]
    by (simp add: accounts_ok_def f steps b' cols(1) list_all2_appendI del: map_map)
  moreover have "open_buffer (cr_buffer c')"
    using inv wf_buffer_add_all [OF wf]
    by (auto simp: open_buffer_def b' cols(2,3) ds dn list_all_iff simp del: map_map)
  moreover have "clock_ok (length (h @ [(actions, r)])) c'"
    using prod assms(3)
    by (simp add: clock_ok_def f b' cols(2) ds butlast_append butlast_conv_take [of "replicate _ _"] del: map_map)
  moreover have "buffer_len (cr_buffer c') \<noteq> 0" using assms(3) by (simp add: b' cols(4))
  ultimately show ?thesis using inv by (simp add: collector_inv_def f)
qed

lemma collects_inv:
  assumes "collects upd c0 h c" and "collector_inv c0 [] c0"
  shows "collector_inv c0 h c"
  using assms
proof induction
  case (batch h c actions r c')
  then show ?case
    by (cases "actions = []") (auto intro: revisit_batch_keeps placement_batch_keeps)
qed (simp_all add: before_decision_keeps before_decision_updates finish_resets)

lemma new_collector_inv: "collector_inv (new_collector a g l d ma mb w s m) [] (new_collector a g l d ma mb w s m)"
  by (rule collector_inv_reset) (simp_all add: new_collector_def same_config_def)

section \<open>Theorems\<close>

definition demo_action :: placement_action where
  "demo_action = \<lparr>pa_batch_id = 0, pa_address = ''aa'', pa_related = ''bb'', pa_state = [1],
     pa_next_state = [2], pa_action = 0, pa_log_prob = 0, pa_value = 0, pa_confidence = 1,
     pa_entropy = 0, pa_local_reward = 1, pa_reward = 0, pa_done = False, pa_related_known = False,
     pa_related_shard = -1, pa_related_weight = 0, pa_related_count = 0, pa_sender_pos = [],
     pa_same_as_related = False, pa_related_in_current_batch = False, pa_shard_load_before = 0,
     pa_shard_load_mean_before = 0, pa_load_penalty = 0, pa_source = ''python_ppo_sample'',
     pa_action_mask = [1, 1], pa_cost_by_shard = []\<rparr>"

definition demo_collector :: "(nat, nat) collector" where
  "demo_collector = new_collector 0 (1/2) (1/2) False 2 2 (1/2) 1 ''cross''"

definition demo_updater :: "(nat, nat) updater" where
  "demo_updater agent b = (buffer_len b, Suc agent)"

text \<open>
  C7. The collector of continuous rollouts is faithful to the batch clock. In every state it
  reaches by any interleaving of decisions, batches and finishes, its buffer's columns are
  parallel, every recorded transition has its discount and is not terminal, the number of
  batches is the length of the current segment, and the return of the recorded actions under
  their own discounts is the return of the executed batches discounted once per batch, with
  the global reward of a batch counted exactly once, batches without placements included.
\<close>

theorem collector_return:
  assumes "collects upd (new_collector a g l d ma mb w s m) h c"
  shows "open_buffer (cr_buffer c) \<and> cr_batches c = length h \<and>
         discounted_sum (rb_rewards (cr_buffer c)) (map the (rb_discounts (cr_buffer c))) =
         discounted_sum (map (batch_value w s) h) (replicate (length h) g)"
  using collects_inv [OF assms new_collector_inv]
  by (simp add: collector_inv_def buffer_return_def batch_return_def new_collector_def)

theorem collector_return_witness:
  "\<exists>c. collects demo_updater demo_collector [([demo_action], 1), ([], 1)] c \<and>
     discounted_sum (rb_rewards (cr_buffer c)) (map the (rb_discounts (cr_buffer c))) = 1 + 1/2 * (1/2)"
proof -
  obtain c1 where c1: "add_batch [demo_action] 1 demo_collector = Inr c1" "cr_pending c1"
    by (simp add: add_batch_def Let_def demo_collector_def new_collector_def demo_action_def)
  obtain c2 where c2: "add_batch [] 1 c1 = Inr c2" using c1(2) by (simp add: add_batch_def Let_def)
  have r: "collects demo_updater demo_collector [([demo_action], 1), ([], 1)] c2"
    using collects.batch [OF collects.batch [OF collects.start c1(1)] c2] by simp
  from collector_return [OF r [unfolded demo_collector_def]] show ?thesis
    using r by (auto simp: batch_value_def demo_action_def clamp_def)
qed

text \<open>
  C8. What the optimiser sees: an update that a decision triggers has at least the required
  actions and batches, is preceded by filling in the successor state and the discount of
  the last action, so that all discounts multiply to one factor per batch, and leaves an
  empty buffer.
\<close>

theorem decision_update_complete:
  assumes "collects upd (new_collector a g l d ma mb w s m) h c" and "update_due c"
  shows "\<exists>b u ag. upd (cr_agent c) b = (u, ag) \<and> wf_buffer b \<and> ma \<le> buffer_len b \<and> mb \<le> length h \<and>
           last (rb_next_states b) = st \<and> prod_list (map the (rb_discounts b)) = g ^ length h \<and>
           buffer_len (cr_buffer (before_decision upd st c)) = 0 \<and>
           cr_updates (before_decision upd st c) = cr_updates c @ [u]"
proof -
  note inv = collects_inv [OF assms(1) new_collector_inv, unfolded collector_inv_def]
  let ?b = "cr_buffer c"
  let ?b' = "?b\<lparr>rb_next_states := set_last st (rb_next_states ?b),
       rb_discounts := set_last (Some (cr_gamma c ^ cr_elapsed c)) (rb_discounts ?b),
       rb_trace_discounts := set_last (Some ((cr_gamma c * cr_gae_lambda c) ^ cr_elapsed c)) (rb_trace_discounts ?b)\<rparr>"
  have cfg: "cr_gamma c = g" "cr_min_actions c = ma" "cr_min_batches c = mb"
    using inv by (simp_all add: same_config_def new_collector_def)
  have wf: "wf_buffer ?b" and clk: "clock_ok (length h) c" and pend: "cr_pending c"
    using inv assms(2) by (simp_all add: open_buffer_def update_due_def)
  then have "h \<noteq> []" by (auto simp: clock_ok_def)
  then have cols: "rb_next_states ?b \<noteq> []" "rb_discounts ?b \<noteq> []" "rb_trace_discounts ?b \<noteq> []"
    using wf_buffer_columns [OF wf] inv by simp_all
  obtain u ag where u: "upd (cr_agent c) ?b' = (u, ag)" by force
  have "wf_buffer ?b'" using wf cols by (simp add: wf_buffer_def buffer_len_def Let_def)
  moreover have "prod_list (map the (rb_discounts ?b')) = g ^ length h"
    using clk pend cols(2)
    by (simp add: clock_ok_def Let_def map_the_set_last set_last_def map_butlast power_add [symmetric] cfg)
  moreover have "before_decision upd st c = do_update upd (c\<lparr>cr_buffer := ?b', cr_pending := False\<rparr>)"
    using assms(2) by (simp add: before_decision_def update_due_def buffer_len_def Let_def)
  moreover have "ma \<le> buffer_len ?b'" "mb \<le> length h"
    using assms(2) inv cfg by (simp_all add: update_due_def buffer_len_def)
  ultimately show ?thesis
    using u by (intro exI [of _ ?b'] exI [of _ u] exI [of _ ag])
      (simp add: do_update_def buffer_clear_def set_last_def)
qed

theorem decision_update_complete_witness:
  "\<exists>c b u ag. collects demo_updater demo_collector [([demo_action, demo_action], 1), ([], 1)] c \<and>
     demo_updater (cr_agent c) b = (u, ag) \<and> 2 \<le> buffer_len b \<and> last (rb_next_states b) = [7]"
proof -
  obtain c1 where c1: "add_batch [demo_action, demo_action] 1 demo_collector = Inr c1" "cr_pending c1"
    "buffer_len (cr_buffer c1) = 2" "cr_batches c1 = 1" "cr_min_actions c1 = 2" "cr_min_batches c1 = 2"
    by (simp add: add_batch_def Let_def demo_collector_def new_collector_def demo_action_def buffer_add_columns)
  obtain c2 where c2: "add_batch [] 1 c1 = Inr c2" "update_due c2"
    using c1(2-6) by (simp add: add_batch_def Let_def update_due_def buffer_len_def)
  have r: "collects demo_updater demo_collector [([demo_action, demo_action], 1), ([], 1)] c2"
    using collects.batch [OF collects.batch [OF collects.start c1(1)] c2(1)] by simp
  from decision_update_complete [OF r [unfolded demo_collector_def] c2(2), where st = "[7]"] r
  show ?thesis by blast
qed

text \<open>
  With the trace equal to the discount (\<open>gae_lambda\<close> one), no terminal transition and each
  next value the value of the following transition, the first return of the advantage
  estimate is the discounted sum of the rewards plus the discounted last next value.
\<close>

theorem gae_is_return:
  assumes "rs \<noteq> []" and "length ds = length rs" and "length vs = length rs"
  shows "fst (gae_returns g l rs (replicate (length rs) False) vs (tl vs @ [v])
           (map Some ds) (map Some ds)) ! 0 = discounted_sum rs ds + prod_list ds * v"
proof -
  obtain u us where vs: "vs = u # us" using assms by (cases vs) auto
  let ?A = "gae_advantages g l (gae_steps rs (replicate (length rs) False) vs (tl vs @ [v]) (map Some ds) (map Some ds))"
  have "length ?A = length rs" using assms by (simp add: gae_steps_def vs)
  then obtain x xs where A: "?A = x # xs" using assms(1) by (cases ?A) auto
  have "x = discounted_sum rs ds + prod_list ds * v - u"
    using gae_telescopes [OF assms(2,3), of g l v] A by (simp add: first_or_zero_def vs)
  then show ?thesis using A by (simp add: gae_returns_def Let_def vs)
qed

theorem gae_is_return_witness:
  "fst (gae_returns 1 1 [1, 2] [False, False] [5, 6] [6, 7] [Some 2, Some 3] [Some 2, Some 3]) ! 0 =
   1 + 2 * 2 + 2 * 3 * (7::real)"
  using gae_is_return [of "[1, 2]" "[2, 3]" "[5, 6]" 1 1 7] by (simp add: numeral_2_eq_2)

text \<open>
  The advantage estimate is additive: the estimates of the local rewards, of the global
  rewards and of the values, which the training diagnostics report as its components, add
  up to the estimate of the whole, position by position.
\<close>

theorem gae_components:
  assumes "length lo = n" and "length gl = n" and "length vs = n" and "length ns = n"
    and "length ds = n" and "length ts = n" and "length dn = n"
  shows "snd (gae_returns g l (map2 (+) lo gl) dn vs ns ds ts) =
         map2 (+) (map2 (+) (snd (gae_returns g l lo dn (replicate n 0) (replicate n 0) ds ts))
                            (snd (gae_returns g l gl dn (replicate n 0) (replicate n 0) ds ts)))
                  (snd (gae_returns g l (replicate n 0) dn vs ns ds ts))"
proof -
  have z: "map2 (+) (replicate n 0) xs = xs" "map2 (+) xs (replicate n 0) = xs" if "length xs = n" for xs :: "real list"
    using that by (auto intro!: nth_equalityI)
  have "map2 (+) (replicate n 0) (replicate n 0) = replicate n (0::real)" by (rule z) simp
  note gae_additive [of gl lo "replicate n 0" "replicate n 0" "replicate n 0" "replicate n 0" ds ts dn g l,
      unfolded this]
  moreover have "length (map2 (+) lo gl) = n" using assms by simp
  note gae_additive [of "replicate n 0" "map2 (+) lo gl" "replicate n 0" vs "replicate n 0" ns ds ts dn g l,
      unfolded z [OF this] z [OF assms(3)] z [OF assms(4)]]
  ultimately show ?thesis using assms by (simp add: gae_returns_def Let_def)
qed

theorem gae_components_witness:
  "snd (gae_returns 1 1 [3, 5] [False, True] [1, 1] [1, 1] [None, None] [None, None]) =
   map2 (+) (map2 (+) (snd (gae_returns 1 1 [1, 2] [False, True] [0, 0] [0, 0] [None, None] [None, None]))
                      (snd (gae_returns 1 1 [2, 3] [False, True] [0, 0] [0, 0] [None, None] [None, None])))
            (snd (gae_returns 1 1 [0, 0] [False, True] [1, 1] [1, 1] [None, None] [None, None]))"
  using gae_components [of "[1, 2]" 2 "[2, 3]" "[1, 1]" "[1, 1]" "[None, None]" "[None, None]" "[False, True]" 1 1]
  by (simp add: numeral_2_eq_2)

end
