(* ===== verification/Training.thy ===== *)
theory Training
  imports OfflineBatch
begin

text \<open>
  The reporting side of \<open>train_offline.py\<close>: the running summary of an epoch, the view computed
  from it, the evaluation loop that runs a policy over all batches of a window, and the
  score by which checkpoints are ranked. The networks are behind the policy argument.
\<close>

section \<open>Running summaries\<close>

record summary =
  sm_batches :: nat
  sm_tx_count :: nat
  sm_action_count :: nat
  sm_effective_tx :: real
  sm_cross_tx :: real
  sm_reward_sum :: real
  sm_norm_var_sum :: real
  sm_r_wlb_sum :: real
  sm_active_shards_sum :: real
  sm_active_shard_ratio_sum :: real
  sm_max_load_share_sum :: real
  sm_hotspot_penalty_sum :: real
  sm_load_aware_bonus_sum :: real
  sm_backlog_penalty_sum :: real
  sm_communication_cost_sum :: real
  sm_relation_effective_tx :: real
  sm_relation_cross_tx :: real
  sm_owner_loads :: "nat list"
  sm_stage_loads :: "nat list"
  sm_relation_effective_loads :: "real list"
  sm_relation_cross_loads :: "real list"
  sm_per_shard_capacity_tps :: real
  sm_load_semantics_version :: string
  sm_related_known_count :: nat
  sm_same_as_related_count :: nat
  sm_related_shard_hist :: "nat list"
  sm_same_related_by_shard :: "nat list"
  sm_local_reward_sum :: real
  sm_action_reward_sum :: real
  sm_confidence_sum :: real
  sm_entropy_sum :: real
  sm_action_hist :: "nat list"

definition new_summary :: "nat \<Rightarrow> int \<Rightarrow> int \<Rightarrow> summary" where
  "new_summary shards max_block_size block_interval_ms =
     \<lparr>sm_batches = 0, sm_tx_count = 0, sm_action_count = 0, sm_effective_tx = 0, sm_cross_tx = 0,
      sm_reward_sum = 0, sm_norm_var_sum = 0, sm_r_wlb_sum = 0, sm_active_shards_sum = 0,
      sm_active_shard_ratio_sum = 0, sm_max_load_share_sum = 0, sm_hotspot_penalty_sum = 0,
      sm_load_aware_bonus_sum = 0, sm_backlog_penalty_sum = 0, sm_communication_cost_sum = 0,
      sm_relation_effective_tx = 0, sm_relation_cross_tx = 0,
      sm_owner_loads = replicate shards 0, sm_stage_loads = replicate shards 0,
      sm_relation_effective_loads = replicate shards 0, sm_relation_cross_loads = replicate shards 0,
      sm_per_shard_capacity_tps = real_of_int max_block_size * 1000 / real_of_int (max 1 block_interval_ms),
      sm_load_semantics_version = LOAD_SEMANTICS_VERSION, sm_related_known_count = 0,
      sm_same_as_related_count = 0, sm_related_shard_hist = replicate shards 0,
      sm_same_related_by_shard = replicate shards 0, sm_local_reward_sum = 0,
      sm_action_reward_sum = 0, sm_confidence_sum = 0, sm_entropy_sum = 0,
      sm_action_hist = replicate shards 0\<rparr>"

text \<open>
  \<open>for sid in range(len(xs)): xs[sid] += ys[sid]\<close> needs \<open>ys\<close> to be long enough;
  \<open>for sid, y in enumerate(ys): xs[sid] += y\<close> needs it not to be longer.
\<close>

definition add_range :: "'a::plus list \<Rightarrow> 'a list \<Rightarrow> 'a list result" where
  "add_range xs ys = (if length ys < length xs then raise IndexError else return (map2 (+) xs ys))"

definition add_enumerated :: "'a::plus list \<Rightarrow> 'a list \<Rightarrow> 'a list result" where
  "add_enumerated xs ys =
     (if length xs < length ys then raise IndexError
      else return (map2 (+) xs ys @ drop (length ys) xs))"

definition update_summary :: "summary \<Rightarrow> batch_metrics \<Rightarrow> summary result" where
  "update_summary s m =
     (let q = bm_parts m; n = real (bm_action_count m) in
      bind_result (add_range (sm_owner_loads s) (bm_owner_loads m)) (\<lambda>owner.
      bind_result (add_range (sm_stage_loads s) (bm_loads m)) (\<lambda>stage.
      bind_result (add_range (sm_relation_effective_loads s) (bm_relation_effective_loads m)) (\<lambda>rel_eff.
      bind_result (add_range (sm_relation_cross_loads s) (bm_relation_cross_loads m)) (\<lambda>rel_cross.
      bind_result (add_enumerated (sm_related_shard_hist s) (bm_related_shard_hist m)) (\<lambda>rel_hist.
      bind_result (add_enumerated (sm_same_related_by_shard s) (bm_same_related_by_shard m)) (\<lambda>same_hist.
      bind_result (add_enumerated (sm_action_hist s) (bm_action_hist m)) (\<lambda>hist.
        return (s\<lparr>sm_load_semantics_version := bm_load_semantics_version m,
          sm_batches := sm_batches s + 1,
          sm_tx_count := sm_tx_count s + bm_tx_count m,
          sm_action_count := sm_action_count s + bm_action_count m,
          sm_effective_tx := sm_effective_tx s + rp_effective_tx q,
          sm_cross_tx := sm_cross_tx s + rp_cross_tx q,
          sm_reward_sum := sm_reward_sum s + bm_reward m,
          sm_norm_var_sum := sm_norm_var_sum s + rp_normalized_load_variance q,
          sm_r_wlb_sum := sm_r_wlb_sum s + rp_r_wlb q,
          sm_active_shards_sum := sm_active_shards_sum s + rp_active_shards q,
          sm_active_shard_ratio_sum := sm_active_shard_ratio_sum s + rp_active_shard_ratio q,
          sm_max_load_share_sum := sm_max_load_share_sum s + rp_max_load_share q,
          sm_hotspot_penalty_sum := sm_hotspot_penalty_sum s + rp_hotspot_penalty q,
          sm_load_aware_bonus_sum := sm_load_aware_bonus_sum s + rp_load_aware_bonus q,
          sm_backlog_penalty_sum := sm_backlog_penalty_sum s + rp_backlog_penalty q,
          sm_communication_cost_sum := sm_communication_cost_sum s + rp_communication_cost q,
          sm_relation_effective_tx := sm_relation_effective_tx s + sum_list (bm_relation_effective_loads m),
          sm_relation_cross_tx := sm_relation_cross_tx s + sum_list (bm_relation_cross_loads m),
          sm_owner_loads := owner, sm_stage_loads := stage,
          sm_relation_effective_loads := rel_eff, sm_relation_cross_loads := rel_cross,
          sm_related_known_count := sm_related_known_count s + bm_related_known_count m,
          sm_same_as_related_count := sm_same_as_related_count s + bm_same_as_related_count m,
          sm_related_shard_hist := rel_hist, sm_same_related_by_shard := same_hist,
          sm_local_reward_sum := sm_local_reward_sum s + bm_local_reward_mean m * n,
          sm_action_reward_sum := sm_action_reward_sum s + bm_action_reward_mean m * n,
          sm_confidence_sum := sm_confidence_sum s + bm_confidence_mean m * n,
          sm_entropy_sum := sm_entropy_sum s + bm_entropy_mean m * n,
          sm_action_hist := hist\<rparr>)))))))))"

section \<open>The view of a summary\<close>

record view =
  vw_batches :: nat
  vw_tx_count :: nat
  vw_action_count :: nat
  vw_cross_ratio :: real
  vw_reward_mean :: real
  vw_norm_var_mean :: real
  vw_r_wlb_mean :: real
  vw_active_shards_mean :: real
  vw_active_shard_ratio_mean :: real
  vw_max_load_share_mean :: real
  vw_hotspot_penalty_mean :: real
  vw_load_aware_bonus_mean :: real
  vw_backlog_penalty_mean :: real
  vw_communication_cost_mean :: real
  vw_relation_cross_ratio :: real
  vw_owner_loads :: "nat list"
  vw_owner_load_dist :: "real list"
  vw_owner_max_load_share :: real
  vw_stage_loads :: "nat list"
  vw_execution_load :: load_stats
  vw_stage_load_dist :: "real list"
  vw_stage_max_load_share :: real
  vw_stage_max_load_per_tx :: real
  vw_per_shard_capacity_tps :: real
  vw_owner_anchor_tps_ceiling :: real
  vw_system_stage_tps_ceiling :: real
  vw_relation_effective_loads :: "real list"
  vw_relation_cross_loads :: "real list"
  vw_load_semantics_version :: string
  vw_same_as_related_ratio :: real
  vw_related_known_count :: nat
  vw_same_as_related_count :: nat
  vw_local_reward_mean :: real
  vw_action_reward_mean :: real
  vw_confidence_mean :: real
  vw_entropy_mean :: real
  vw_action_hist :: "nat list"
  vw_action_dist :: "real list"
  vw_related_shard_hist :: "nat list"
  vw_same_related_by_shard :: "nat list"
  vw_related_follow_by_shard :: "real list"
  vw_min_related_follow_ratio :: real

text \<open>A histogram divided by its total; zeros where the total is zero.\<close>

definition dist_of :: "nat list \<Rightarrow> real list" where
  "dist_of xs = (let total = sum_list xs in map (\<lambda>c. if total \<noteq> 0 then real c / real total else 0) xs)"

definition ratio_or_zero :: "real \<Rightarrow> real \<Rightarrow> real" where
  "ratio_or_zero a b = (if b > 0 then a / b else 0)"

definition max_or_zero :: "real list \<Rightarrow> real" where
  "max_or_zero xs = (if xs \<noteq> [] then list_max xs else 0)"

definition follow_ratios :: "nat list \<Rightarrow> nat list \<Rightarrow> real list" where
  "follow_ratios related same =
     map (\<lambda>sid. if related ! sid \<noteq> 0 then real (same ! sid) / real (related ! sid) else 0)
       [0..<length related]"

definition min_follow :: "nat list \<Rightarrow> real list \<Rightarrow> real" where
  "min_follow related follow =
     (let observed = map (\<lambda>sid. follow ! sid) (filter (\<lambda>sid. related ! sid > 0) [0..<length related])
      in if observed \<noteq> [] then list_min observed else 0)"

definition summary_view :: "summary \<Rightarrow> view result" where
  "summary_view s =
     (let batches = real (max 1 (sm_batches s));
          actions = real (max 1 (sm_action_count s));
          follow = follow_ratios (sm_related_shard_hist s) (sm_same_related_by_shard s);
          tx_count = sm_tx_count s;
          owner_dist = dist_of (sm_owner_loads s);
          stage_dist = dist_of (sm_stage_loads s);
          owner_max = max_or_zero owner_dist;
          stage_max = max_or_zero stage_dist;
          stage_per_tx = (if tx_count > 0 \<and> sm_stage_loads s \<noteq> []
                          then list_max (map real (sm_stage_loads s)) / real tx_count else 0);
          capacity = sm_per_shard_capacity_tps s
      in if length (sm_same_related_by_shard s) < length (sm_related_shard_hist s) then raise IndexError
         else bind_result (load_statistics (map (Fin \<circ> real) (sm_stage_loads s))) (\<lambda>execution.
           return \<lparr>vw_batches = sm_batches s, vw_tx_count = tx_count, vw_action_count = sm_action_count s,
             vw_cross_ratio = ratio_or_zero (sm_cross_tx s) (sm_effective_tx s),
             vw_reward_mean = sm_reward_sum s / batches,
             vw_norm_var_mean = sm_norm_var_sum s / batches,
             vw_r_wlb_mean = sm_r_wlb_sum s / batches,
             vw_active_shards_mean = sm_active_shards_sum s / batches,
             vw_active_shard_ratio_mean = sm_active_shard_ratio_sum s / batches,
             vw_max_load_share_mean = sm_max_load_share_sum s / batches,
             vw_hotspot_penalty_mean = sm_hotspot_penalty_sum s / batches,
             vw_load_aware_bonus_mean = sm_load_aware_bonus_sum s / batches,
             vw_backlog_penalty_mean = sm_backlog_penalty_sum s / batches,
             vw_communication_cost_mean = sm_communication_cost_sum s / batches,
             vw_relation_cross_ratio = ratio_or_zero (sm_relation_cross_tx s) (sm_relation_effective_tx s),
             vw_owner_loads = sm_owner_loads s, vw_owner_load_dist = owner_dist,
             vw_owner_max_load_share = owner_max, vw_stage_loads = sm_stage_loads s,
             vw_execution_load = execution, vw_stage_load_dist = stage_dist,
             vw_stage_max_load_share = stage_max, vw_stage_max_load_per_tx = stage_per_tx,
             vw_per_shard_capacity_tps = capacity,
             vw_owner_anchor_tps_ceiling = ratio_or_zero capacity owner_max,
             vw_system_stage_tps_ceiling = ratio_or_zero capacity stage_per_tx,
             vw_relation_effective_loads = sm_relation_effective_loads s,
             vw_relation_cross_loads = sm_relation_cross_loads s,
             vw_load_semantics_version = sm_load_semantics_version s,
             vw_same_as_related_ratio =
               ratio_or_zero (real (sm_same_as_related_count s)) (real (sm_related_known_count s)),
             vw_related_known_count = sm_related_known_count s,
             vw_same_as_related_count = sm_same_as_related_count s,
             vw_local_reward_mean = sm_local_reward_sum s / actions,
             vw_action_reward_mean = sm_action_reward_sum s / actions,
             vw_confidence_mean = sm_confidence_sum s / actions,
             vw_entropy_mean = sm_entropy_sum s / actions,
             vw_action_hist = sm_action_hist s, vw_action_dist = dist_of (sm_action_hist s),
             vw_related_shard_hist = sm_related_shard_hist s,
             vw_same_related_by_shard = sm_same_related_by_shard s,
             vw_related_follow_by_shard = follow,
             vw_min_related_follow_ratio = min_follow (sm_related_shard_hist s) follow\<rparr>))"

section \<open>Evaluation of a policy\<close>

fun evaluate_batches ::
  "'p policy \<Rightarrow> real tx list list \<Rightarrow> env \<Rightarrow> 'p \<Rightarrow> summary \<Rightarrow> (summary \<times> env \<times> 'p) result" where
  "evaluate_batches policy [] e p s = return (s, e, p)"
| "evaluate_batches policy (batch # batches) e p s =
     bind_result (run_batch policy e batch p) (\<lambda>(_, metrics, e', p').
       bind_result (update_summary s metrics) (\<lambda>s'. evaluate_batches policy batches e' p' s'))"

definition evaluate_agent_argmax ::
  "'p policy \<Rightarrow> env_args \<Rightarrow> real tx list \<Rightarrow> 'p \<Rightarrow> view result" where
  "evaluate_agent_argmax policy args txs p =
     bind_result (make_env args) (\<lambda>e.
     bind_result (iter_batches txs (ea_tx_batch_size args)) (\<lambda>batches.
     bind_result (evaluate_batches policy batches e p
       (new_summary (nat (ea_shards args)) (ea_max_block_size args) (ea_block_interval_ms args)))
       (\<lambda>(s, _, _). summary_view s)))"

section \<open>The validation score\<close>

record score_args =
  best_min_action_share :: real
  best_min_active_shards :: real
  best_max_hotspot :: real
  best_max_cross :: real
  best_min_related_follow :: real
  best_min_same_related :: real
  best_hotspot_penalty :: real
  best_active_penalty :: real
  best_action_floor_penalty :: real
  best_cross_penalty :: real
  best_related_follow_penalty :: real
  best_same_related_penalty :: real
  score_shards :: int

record score_parts =
  sp_score :: real
  sp_underuse :: real
  sp_active_shortfall :: real
  sp_hotspot_excess :: real
  sp_cross_excess :: real
  sp_related_follow_shortfall :: real
  sp_same_related_shortfall :: real
  sp_owner_max_load_share :: real
  sp_stage_max_load_share :: real
  sp_owner_anchor_tps_ceiling :: real
  sp_system_stage_tps_ceiling :: real

definition validation_score :: "view \<Rightarrow> score_args \<Rightarrow> real \<times> score_parts" where
  "validation_score v a =
     (let underuse = distribution_floor_shortfall (vw_action_dist v) (best_min_action_share a);
          active_shortfall = max 0 (best_min_active_shards a - vw_active_shards_mean v)
                             / real_of_int (max 1 (score_shards a));
          hotspot_excess = max 0 (vw_max_load_share_mean v - best_max_hotspot a);
          cross_excess = max 0 (vw_cross_ratio v - best_max_cross a);
          related_follow_shortfall = max 0 (best_min_related_follow a - vw_min_related_follow_ratio v);
          same_related_shortfall = max 0 (best_min_same_related a - vw_same_as_related_ratio v);
          score = vw_reward_mean v;
          score = score - best_hotspot_penalty a * hotspot_excess;
          score = score - best_active_penalty a * active_shortfall;
          score = score - best_action_floor_penalty a * underuse;
          score = score - best_cross_penalty a * cross_excess;
          score = score - best_related_follow_penalty a * related_follow_shortfall;
          score = score - best_same_related_penalty a * same_related_shortfall
      in (score, \<lparr>sp_score = score, sp_underuse = underuse, sp_active_shortfall = active_shortfall,
            sp_hotspot_excess = hotspot_excess, sp_cross_excess = cross_excess,
            sp_related_follow_shortfall = related_follow_shortfall,
            sp_same_related_shortfall = same_related_shortfall,
            sp_owner_max_load_share = vw_owner_max_load_share v,
            sp_stage_max_load_share = vw_stage_max_load_share v,
            sp_owner_anchor_tps_ceiling = vw_owner_anchor_tps_ceiling v,
            sp_system_stage_tps_ceiling = vw_system_stage_tps_ceiling v\<rparr>))"

section \<open>Data windows\<close>

text \<open>The exclusive end of a window; \<open>None\<close> is infinity.\<close>

definition window_end :: "int \<Rightarrow> int \<Rightarrow> int option" where
  "window_end start count = (if count > 0 then Some (start + count) else None)"

definition before_end :: "int \<Rightarrow> int option \<Rightarrow> bool" where
  "before_end i e = (case e of None \<Rightarrow> True | Some k \<Rightarrow> i < k)"

definition data_windows_overlap :: "int \<Rightarrow> int \<Rightarrow> int \<Rightarrow> int \<Rightarrow> bool" where
  "data_windows_overlap first_start first_count second_start second_count =
     (before_end first_start (window_end second_start second_count) \<and>
      before_end second_start (window_end first_start first_count))"

definition require_exact_window :: "nat \<Rightarrow> int \<Rightarrow> unit result" where
  "require_exact_window loaded_count requested_count =
     (if requested_count > 0 \<and> int loaded_count \<noteq> requested_count then raise RuntimeError else return ())"

end
