(* ===== verification/TrainTheorems.thy ===== *)
theory TrainTheorems
  imports Training EnvTheorems
begin

text \<open>
  The reports of an evaluation: what a summary counts, that the shares it shows are shares,
  how the validation score relates to the mean reward, and when two data windows overlap.
\<close>

section \<open>Vectors of counters\<close>

lemma length_shard_hist [simp]: "length (shard_hist n sids) = n"
proof -
  have "length (fold (\<lambda>sid h. if sid < n then bump sid 1 h else h) sids h) = length h" for h :: "nat list"
    by (induction sids arbitrary: h) simp_all
  then show ?thesis by (simp add: shard_hist_def)
qed

lemma sum_shard_hist:
  assumes "\<And>s. s \<in> set sids \<Longrightarrow> s < n"
  shows "sum_list (shard_hist n sids) = length sids"
proof -
  have "sum_list (fold (\<lambda>sid h. if sid < n then bump sid 1 h else h) sids h) = sum_list h + length sids"
    if "length h = n" for h :: "nat list"
    using that assms by (induction sids arbitrary: h) simp_all
  then show ?thesis by (simp add: shard_hist_def)
qed

lemma sum_list_map2_plus:
  fixes xs ys :: "'a::comm_monoid_add list"
  assumes "length xs = length ys"
  shows "sum_list (map2 (+) xs ys) = sum_list xs + sum_list ys"
  using assms by (induction xs ys rule: list_induct2) (simp_all add: ac_simps)

lemma add_range_same: "length xs = length ys \<Longrightarrow> add_range xs ys = Inr (map2 (+) xs ys)"
  by (simp add: add_range_def)

lemma add_enumerated_same: "length xs = length ys \<Longrightarrow> add_enumerated xs ys = Inr (map2 (+) xs ys)"
  by (simp add: add_enumerated_def)

lemma dist_of_sum: "sum_list (dist_of xs) = (if sum_list xs = 0 then 0 else 1)"
proof -
  have "sum_list (map (\<lambda>c. real c / real t) xs) = real (sum_list xs) / real t" for t
    by (simp add: sum_list_map_divide sum_list_map_real [symmetric])
  then show ?thesis by (cases "sum_list xs = 0") (simp_all add: dist_of_def Let_def del: sum_list_eq_0_iff)
qed

lemma dist_of_nonneg: "d \<in> set (dist_of xs) \<Longrightarrow> 0 \<le> d"
  by (auto simp: dist_of_def Let_def split: if_splits)

lemma dist_of_le_1: "d \<in> set (dist_of xs) \<Longrightarrow> d \<le> 1"
  using member_le_sum_list_real [of "dist_of xs" d] dist_of_nonneg [of _ xs] dist_of_sum [of xs]
  by (auto split: if_splits)

section \<open>Metrics and summaries\<close>

definition metrics_ok :: "nat \<Rightarrow> nat \<Rightarrow> batch_metrics \<Rightarrow> bool" where
  "metrics_ok n k m \<longleftrightarrow> length (bm_owner_loads m) = n \<and> length (bm_loads m) = n \<and>
     length (bm_relation_effective_loads m) = n \<and> length (bm_relation_cross_loads m) = n \<and>
     length (bm_related_shard_hist m) = n \<and> length (bm_same_related_by_shard m) = n \<and>
     length (bm_action_hist m) = n \<and> bm_tx_count m = k \<and> sum_list (bm_owner_loads m) = k \<and>
     k \<le> sum_list (bm_loads m) \<and> sum_list (bm_loads m) \<le> 2 * k \<and>
     sum_list (bm_action_hist m) = bm_action_count m"

definition summary_ok :: "nat \<Rightarrow> summary \<Rightarrow> bool" where
  "summary_ok n s \<longleftrightarrow> length (sm_owner_loads s) = n \<and> length (sm_stage_loads s) = n \<and>
     length (sm_relation_effective_loads s) = n \<and> length (sm_relation_cross_loads s) = n \<and>
     length (sm_related_shard_hist s) = n \<and> length (sm_same_related_by_shard s) = n \<and>
     length (sm_action_hist s) = n \<and> sum_list (sm_owner_loads s) = sm_tx_count s \<and>
     sm_tx_count s \<le> sum_list (sm_stage_loads s) \<and> sum_list (sm_stage_loads s) \<le> 2 * sm_tx_count s \<and>
     sum_list (sm_action_hist s) = sm_action_count s"

lemma run_batch_metrics:
  assumes "wf_env e" and "run_batch policy e txs p = Inr (acts, met, e', p')"
  shows "metrics_ok (env_shards e) (length txs) met"
proof -
  from assms(2) obtain acts0 e1 bp sim e2 cap e3 r q where
    pb: "place_batch policy e txs p = Inr (acts0, e1, bp, p')" and
    sim: "simulate_batch_loads e1 txs = (sim, e2)" and
    met: "met = collect_metrics e' txs acts sim cap r q"
    by (rule run_batch_parts)
  note sp = run_batch_spec [OF assms]
  have e1: "wf_env e1" "env_shards e1 = env_shards e"
    using place_batch_spec [OF assms(1) pb] batch_start_spec(3) [OF assms(1), of txs]
    by (simp_all add: placed_from_def)
  note sb = simulate_batch_keeps [OF e1(1) sim]
  have "sum_list (shard_hist (env_shards e) (map pa_action acts)) = length acts"
    using sum_shard_hist [of "map pa_action acts"] sp(7) by auto
  then show ?thesis
    using sb(1,2) sp(2) e1(2)
    by (auto simp: metrics_ok_def met collect_metrics_def Let_def sim_shape_def sim_account_def nonneg_vec_def)
qed

lemma new_summary_ok: "summary_ok n (new_summary n b i)"
  by (simp add: summary_ok_def new_summary_def sum_list_replicate)

lemma update_summary_ok:
  assumes "summary_ok n s" and "metrics_ok n k m"
  obtains s' where "update_summary s m = Inr s'" and "summary_ok n s'"
    and "sm_batches s' = sm_batches s + 1" and "sm_tx_count s' = sm_tx_count s + k"
proof -
  note a = assms(1) [unfolded summary_ok_def] and b = assms(2) [unfolded metrics_ok_def]
  obtain s' where s': "update_summary s m = Inr s'"
    using a b by (simp add: update_summary_def Let_def add_range_same add_enumerated_same)
  moreover have "summary_ok n s'" "sm_batches s' = sm_batches s + 1" "sm_tx_count s' = sm_tx_count s + k"
    using a b s' by (auto simp: update_summary_def Let_def add_range_same add_enumerated_same
        summary_ok_def sum_list_map2_plus)
  ultimately show thesis by (rule that)
qed

lemma evaluate_batches_ok:
  assumes "evaluate_batches policy batches e p s = Inr (s', e', p')" and "wf_env e"
    and "summary_ok (env_shards e) s"
  shows "summary_ok (env_shards e) s' \<and> sm_batches s' = sm_batches s + length batches \<and>
         sm_tx_count s' = sm_tx_count s + length (concat batches)"
  using assms
proof (induction batches arbitrary: e p s)
  case Nil
  then show ?case by simp
next
  case (Cons b batches)
  obtain acts m e1 p1 s1 where r: "run_batch policy e b p = Inr (acts, m, e1, p1)"
    and u: "update_summary s m = Inr s1" and rest: "evaluate_batches policy batches e1 p1 s1 = Inr (s', e', p')"
    using Cons.prems(1) by (auto simp: result_simps)
  note sp = run_batch_spec(1,2) [OF Cons.prems(2) r]
  obtain s1' where s1': "update_summary s m = Inr s1'" "summary_ok (env_shards e) s1'"
    "sm_batches s1' = sm_batches s + 1" "sm_tx_count s1' = sm_tx_count s + length b"
    by (rule update_summary_ok [OF Cons.prems(3) run_batch_metrics [OF Cons.prems(2) r]])
  then show ?case using Cons.IH [OF rest sp(1)] sp(2) u by simp
qed

lemma summary_view_returns:
  assumes "summary_ok n s" and "0 < n"
  shows "\<exists>v. summary_view s = Inr v"
proof -
  have "load_statistics (map (Fin \<circ> real) (sm_stage_loads s)) \<noteq> Inl x" for x
    using assms by (auto simp: load_statistics_def summary_ok_def list_all_iff Let_def)
  then obtain st where "load_statistics (map (Fin \<circ> real) (sm_stage_loads s)) = Inr st"
    by (cases "load_statistics (map (Fin \<circ> real) (sm_stage_loads s))") auto
  then show ?thesis using assms(1) by (simp add: summary_view_def Let_def summary_ok_def)
qed

lemma make_env_shards:
  assumes "make_env a = Inr e"
  shows "env_shards e = nat (ea_shards a) \<and> 0 < ea_shards a \<and> 0 < ea_tx_batch_size a"
  using assms by (auto simp: make_env_def Let_def reset_def split: if_splits)

lemma demo_evaluates: "\<exists>v. evaluate_agent_argmax demo_policy demo_args demo_txs () = Inr v"
proof -
  obtain acts m e' p' where r: "run_batch demo_policy demo_env demo_txs () = Inr (acts, m, e', p')"
    using demo_run by blast
  have sh: "env_shards demo_env = 2" by simp
  obtain s where "update_summary (new_summary 2 10 5000) m = Inr s" "summary_ok 2 s"
    by (rule update_summary_ok [OF new_summary_ok run_batch_metrics [OF demo_env_wf r, unfolded sh]])
  moreover then obtain v where "summary_view s = Inr v" using summary_view_returns [of 2 s] by auto
  moreover have "iter_batches demo_txs 10 = Inr [demo_txs]"
    by (simp add: iter_batches_def demo_txs_def)
  ultimately have "evaluate_agent_argmax demo_policy demo_args demo_txs () = Inr v"
    using r by (simp add: evaluate_agent_argmax_def demo_env_made) (simp add: demo_args_def)
  then show ?thesis by blast
qed

text \<open>
  An evaluation report accounts for every transaction of its window: it counts all of
  them, in batches that partition the window in order; the owner loads add up to the
  transactions and the stage loads to at least one and at most two stages for each; the
  action histogram adds up to the placements; and the reported distributions of actions,
  owner loads and stage loads are nonnegative and sum to one unless nothing was counted.
\<close>

theorem evaluation_accounts:
  assumes "evaluate_agent_argmax policy args txs p = Inr v"
  shows "vw_tx_count v = length txs \<and> sum_list (vw_owner_loads v) = length txs \<and>
         length txs \<le> sum_list (vw_stage_loads v) \<and> sum_list (vw_stage_loads v) \<le> 2 * length txs \<and>
         sum_list (vw_action_hist v) = vw_action_count v \<and>
         (\<exists>batches. iter_batches txs (ea_tx_batch_size args) = Inr batches \<and> concat batches = txs \<and>
            vw_batches v = length batches) \<and>
         (\<forall>ds\<in>{vw_action_dist v, vw_owner_load_dist v, vw_stage_load_dist v}.
            (\<forall>d\<in>set ds. 0 \<le> d \<and> d \<le> 1) \<and> (sum_list ds = 1 \<or> sum_list ds = 0)) \<and>
         (txs \<noteq> [] \<longrightarrow> sum_list (vw_owner_load_dist v) = 1 \<and> sum_list (vw_stage_load_dist v) = 1)"
proof -
  obtain e batches s e' p' where e: "make_env args = Inr e"
    and bs: "iter_batches txs (ea_tx_batch_size args) = Inr batches"
    and ev: "evaluate_batches policy batches e p
       (new_summary (nat (ea_shards args)) (ea_max_block_size args) (ea_block_interval_ms args)) = Inr (s, e', p')"
    and v: "summary_view s = Inr v"
    using assms by (auto simp: evaluate_agent_argmax_def result_simps)
  note sh = make_env_shards [OF e]
  have cc: "concat batches = txs"
    using bs sh concat_cut_batches [of "nat (ea_tx_batch_size args)" txs "length txs"]
    by (auto simp: iter_batches_def split: if_splits)
  have "summary_ok (env_shards e) (new_summary (nat (ea_shards args)) (ea_max_block_size args) (ea_block_interval_ms args))"
    using new_summary_ok sh by simp
  from evaluate_batches_ok [OF ev make_env_wf [OF e] this]
  have s: "summary_ok (env_shards e) s" "sm_batches s = length batches" "sm_tx_count s = length txs"
    by (simp_all add: new_summary_def cc)
  have view: "vw_tx_count v = sm_tx_count s" "vw_owner_loads v = sm_owner_loads s"
    "vw_stage_loads v = sm_stage_loads s" "vw_action_hist v = sm_action_hist s"
    "vw_action_count v = sm_action_count s" "vw_batches v = sm_batches s"
    "vw_action_dist v = dist_of (sm_action_hist s)" "vw_owner_load_dist v = dist_of (sm_owner_loads s)"
    "vw_stage_load_dist v = dist_of (sm_stage_loads s)"
    using v by (auto simp: summary_view_def Let_def result_simps split: if_splits)
  have "(\<forall>d\<in>set (dist_of xs). 0 \<le> d \<and> d \<le> 1) \<and> (sum_list (dist_of xs) = 1 \<or> sum_list (dist_of xs) = 0)" for xs
    using dist_of_nonneg dist_of_le_1 by (simp add: dist_of_sum)
  moreover have "sum_list (sm_owner_loads s) \<noteq> 0" "sum_list (sm_stage_loads s) \<noteq> 0" if "txs \<noteq> []"
    using s that by (cases txs; auto simp: summary_ok_def simp del: sum_list_eq_0_iff)+
  ultimately show ?thesis
    using s bs cc by (auto simp: view summary_ok_def dist_of_sum simp del: sum_list_eq_0_iff)
qed

theorem evaluation_accounts_witness:
  "\<exists>v. evaluate_agent_argmax demo_policy demo_args demo_txs () = Inr v \<and> vw_tx_count v = 2 \<and>
     sum_list (vw_owner_load_dist v) = 1"
proof -
  obtain v where v: "evaluate_agent_argmax demo_policy demo_args demo_txs () = Inr v"
    using demo_evaluates by blast
  have "length demo_txs = 2" "demo_txs \<noteq> []" by (simp_all add: demo_txs_def)
  then show ?thesis using evaluation_accounts [OF v] v by auto
qed

definition within_limits :: "view \<Rightarrow> score_args \<Rightarrow> bool" where
  "within_limits v a \<longleftrightarrow> (\<forall>d\<in>set (vw_action_dist v). best_min_action_share a \<le> d) \<and>
     best_min_active_shards a \<le> vw_active_shards_mean v \<and> vw_max_load_share_mean v \<le> best_max_hotspot a \<and>
     vw_cross_ratio v \<le> best_max_cross a \<and> best_min_related_follow a \<le> vw_min_related_follow_ratio v \<and>
     best_min_same_related a \<le> vw_same_as_related_ratio v"

definition penalties_nonneg :: "score_args \<Rightarrow> bool" where
  "penalties_nonneg a \<longleftrightarrow> 0 \<le> best_hotspot_penalty a \<and> 0 \<le> best_active_penalty a \<and>
     0 \<le> best_action_floor_penalty a \<and> 0 \<le> best_cross_penalty a \<and>
     0 \<le> best_related_follow_penalty a \<and> 0 \<le> best_same_related_penalty a"

text \<open>
  The validation score is the mean reward minus penalties: with nonnegative penalty
  weights it never exceeds the mean reward, every reported excess and shortfall is
  nonnegative, and it equals the mean reward when all constraints hold.
\<close>

theorem validation_score_penalises:
  assumes "penalties_nonneg a" and "validation_score v a = (score, parts)"
  shows "score \<le> vw_reward_mean v \<and> sp_score parts = score \<and>
         0 \<le> sp_underuse parts \<and> 0 \<le> sp_active_shortfall parts \<and> 0 \<le> sp_hotspot_excess parts \<and>
         0 \<le> sp_cross_excess parts \<and> 0 \<le> sp_related_follow_shortfall parts \<and>
         0 \<le> sp_same_related_shortfall parts \<and>
         (within_limits v a \<longrightarrow> score = vw_reward_mean v)"
proof -
  let ?u = "distribution_floor_shortfall (vw_action_dist v) (best_min_action_share a)"
  have u: "0 \<le> ?u" by (auto simp: distribution_floor_shortfall_def intro!: sum_list_nonneg)
  have parts: "sp_underuse parts = ?u" "sp_score parts = score"
    "0 \<le> sp_active_shortfall parts" "0 \<le> sp_hotspot_excess parts" "0 \<le> sp_cross_excess parts"
    "0 \<le> sp_related_follow_shortfall parts" "0 \<le> sp_same_related_shortfall parts"
    "score = vw_reward_mean v - best_hotspot_penalty a * sp_hotspot_excess parts
       - best_active_penalty a * sp_active_shortfall parts - best_action_floor_penalty a * ?u
       - best_cross_penalty a * sp_cross_excess parts
       - best_related_follow_penalty a * sp_related_follow_shortfall parts
       - best_same_related_penalty a * sp_same_related_shortfall parts"
    using assms(2) by (auto simp: validation_score_def Let_def)
  have "0 \<le> best_hotspot_penalty a * sp_hotspot_excess parts" "0 \<le> best_active_penalty a * sp_active_shortfall parts"
    "0 \<le> best_action_floor_penalty a * ?u" "0 \<le> best_cross_penalty a * sp_cross_excess parts"
    "0 \<le> best_related_follow_penalty a * sp_related_follow_shortfall parts"
    "0 \<le> best_same_related_penalty a * sp_same_related_shortfall parts"
    using assms(1) parts(3-7) u by (simp_all add: penalties_nonneg_def)
  then have "score \<le> vw_reward_mean v" unfolding parts(8) by linarith
  moreover have "score = vw_reward_mean v" if "within_limits v a"
  proof -
    have "?u = 0" using that by (simp add: within_limits_def shortfall_zero_iff)
    then show ?thesis
      using assms(2) that by (auto simp: validation_score_def Let_def within_limits_def)
  qed
  ultimately show ?thesis using parts u by simp
qed

definition demo_score_args :: score_args where
  "demo_score_args = \<lparr>best_min_action_share = 0.1, best_min_active_shards = 2, best_max_hotspot = 0.5,
     best_max_cross = 0.5, best_min_related_follow = 0.2, best_min_same_related = 0.2,
     best_hotspot_penalty = 1, best_active_penalty = 1, best_action_floor_penalty = 1,
     best_cross_penalty = 1, best_related_follow_penalty = 1, best_same_related_penalty = 1,
     score_shards = 2\<rparr>"

theorem validation_score_penalises_witness:
  "\<exists>v score parts. evaluate_agent_argmax demo_policy demo_args demo_txs () = Inr v \<and>
     validation_score v demo_score_args = (score, parts) \<and> score \<le> vw_reward_mean v"
proof -
  obtain v where v: "evaluate_agent_argmax demo_policy demo_args demo_txs () = Inr v"
    using demo_evaluates by blast
  obtain score parts where s: "validation_score v demo_score_args = (score, parts)" by force
  have "penalties_nonneg demo_score_args" by (simp add: penalties_nonneg_def demo_score_args_def)
  from validation_score_penalises [OF this s] show ?thesis using v s by blast
qed

text \<open>
  Two data windows are reported as overlapping exactly when some transaction index
  belongs to both, where a count of zero means the rest of the file.
\<close>

theorem windows_overlap_iff:
  assumes "0 \<le> n" and "0 \<le> m"
  shows "data_windows_overlap s n t m \<longleftrightarrow>
         (\<exists>i. s \<le> i \<and> (0 < n \<longrightarrow> i < s + n) \<and> t \<le> i \<and> (0 < m \<longrightarrow> i < t + m))"
proof
  assume "data_windows_overlap s n t m"
  then have "s \<le> max s t \<and> (0 < n \<longrightarrow> max s t < s + n) \<and> t \<le> max s t \<and> (0 < m \<longrightarrow> max s t < t + m)"
    by (auto simp: data_windows_overlap_def before_end_def window_end_def split: if_splits)
  then show "\<exists>i. s \<le> i \<and> (0 < n \<longrightarrow> i < s + n) \<and> t \<le> i \<and> (0 < m \<longrightarrow> i < t + m)" by blast
qed (auto simp: data_windows_overlap_def before_end_def window_end_def)

theorem windows_overlap_iff_witness:
  "\<not> data_windows_overlap 0 10 10 5 \<and> data_windows_overlap 0 0 7 1"
proof
  show "\<not> data_windows_overlap 0 10 10 5" using windows_overlap_iff [of 10 5 0 10] by auto
  have "\<exists>i::int. 0 \<le> i \<and> (0 < (0::int) \<longrightarrow> i < 0 + 0) \<and> 7 \<le> i \<and> (0 < (1::int) \<longrightarrow> i < 7 + 1)"
    by (rule exI [of _ 7]) simp
  then show "data_windows_overlap 0 0 7 1" using windows_overlap_iff [of 0 1 0 7] by simp
qed

end
