(* ===== verification/JsonData.thy ===== *)
theory JsonData
  imports PyValues
begin

text \<open>
  Values read from JSON text or from checkpoint metadata, and the built-in conversions that
  the entries of the program apply to them: \<open>float\<close>, \<open>int\<close>, \<open>bool\<close>, \<open>==\<close> and the
  lookup and the update of a dictionary. A dictionary is the list of its pairs in insertion
  order, with distinct keys.
\<close>

datatype pyval =
    VFloat pyfloat
  | VInt int
  | VBool bool
  | VStr string
  | VNone
  | VList "pyval list"
  | VDict "(string \<times> pyval) list"

type_synonym dict = "(string \<times> pyval) list"

section \<open>Conversions\<close>

text \<open>\<open>float(v)\<close>: an integer beyond the range of a double is an OverflowError.\<close>

fun float_of :: "pyval \<Rightarrow> pyfloat result" where
  "float_of (VFloat x) = return x"
| "float_of (VInt i) =
     (if double_overflow \<le> \<bar>real_of_int i\<bar> then raise OverflowError else return (Fin (real_of_int i)))"
| "float_of (VBool b) = return (Fin (if b then 1 else 0))"
| "float_of (VStr s) = (case py_float s of None \<Rightarrow> raise ValueError | Some x \<Rightarrow> return x)"
| "float_of _ = raise TypeError"

text \<open>\<open>int(v)\<close> truncates a finite float towards zero.\<close>

definition truncate :: "real \<Rightarrow> int" where
  "truncate x = (if 0 \<le> x then \<lfloor>x\<rfloor> else \<lceil>x\<rceil>)"

fun int_of :: "pyval \<Rightarrow> int result" where
  "int_of (VFloat (Fin x)) = return (truncate x)"
| "int_of (VFloat NaN) = raise ValueError"
| "int_of (VFloat _) = raise OverflowError"
| "int_of (VInt i) = return i"
| "int_of (VBool b) = return (if b then 1 else 0)"
| "int_of (VStr s) = (case py_int 10 s of None \<Rightarrow> raise ValueError | Some i \<Rightarrow> return i)"
| "int_of _ = raise TypeError"

fun truthy :: "pyval \<Rightarrow> bool" where
  "truthy (VFloat x) = (x \<noteq> Fin 0)"
| "truthy (VInt i) = (i \<noteq> 0)"
| "truthy (VBool b) = b"
| "truthy (VStr s) = (s \<noteq> [])"
| "truthy VNone = False"
| "truthy (VList xs) = (xs \<noteq> [])"
| "truthy (VDict d) = (d \<noteq> [])"

fun as_list :: "pyval \<Rightarrow> pyval list option" where
  "as_list (VList xs) = Some xs"
| "as_list _ = None"

fun as_dict :: "pyval \<Rightarrow> dict option" where
  "as_dict (VDict d) = Some d"
| "as_dict _ = None"

section \<open>Dictionaries\<close>

text \<open>\<open>d.get(key, dflt)\<close>; on a value that is not a dictionary it is an AttributeError.\<close>

definition dict_get :: "dict \<Rightarrow> string \<Rightarrow> pyval \<Rightarrow> pyval" where
  "dict_get d key dflt = (case map_of d key of None \<Rightarrow> dflt | Some v \<Rightarrow> v)"

definition require_dict :: "pyval \<Rightarrow> dict result" where
  "require_dict v = (case as_dict v of None \<Rightarrow> raise AttributeError | Some d \<Rightarrow> return d)"

fun dict_put :: "string \<Rightarrow> pyval \<Rightarrow> dict \<Rightarrow> dict" where
  "dict_put k v [] = [(k, v)]"
| "dict_put k v ((k', v') # d) = (if k' = k then (k, v) # d else (k', v') # dict_put k v d)"

text \<open>\<open>{**a, **b}\<close>.\<close>

definition dict_merge :: "dict \<Rightarrow> dict \<Rightarrow> dict" where
  "dict_merge a b = fold (\<lambda>(k, v) d. dict_put k v d) b a"

lemma map_of_dict_put [simp]: "map_of (dict_put k v d) = (map_of d)(k \<mapsto> v)"
  by (induction d) (auto simp: fun_eq_iff)

lemma map_of_dict_merge:
  assumes "distinct (map fst b)"
  shows "map_of (dict_merge a b) = map_of a ++ map_of b"
  using assms
proof (induction b arbitrary: a)
  case Nil
  then show ?case by (simp add: dict_merge_def)
next
  case (Cons kv b)
  obtain k v where kv: "kv = (k, v)" by (cases kv)
  have "map_of (dict_merge a (kv # b)) = map_of (dict_put k v a) ++ map_of b"
    using Cons kv by (simp add: dict_merge_def)
  moreover have "map_of b k = None" using Cons.prems kv by (simp add: map_of_eq_None_iff)
  ultimately show ?case using kv by (auto simp: fun_eq_iff map_add_def split: option.splits)
qed

section \<open>Equality\<close>

text \<open>\<open>==\<close> on the values: numbers of different types compare by value, NaN is not equal to itself.\<close>

fun numeric_value :: "pyval \<Rightarrow> pyfloat option" where
  "numeric_value (VFloat x) = Some x"
| "numeric_value (VInt i) = Some (Fin (real_of_int i))"
| "numeric_value (VBool b) = Some (Fin (if b then 1 else 0))"
| "numeric_value _ = None"

definition scalar_eq :: "pyval \<Rightarrow> pyval \<Rightarrow> bool" where
  "scalar_eq a b \<longleftrightarrow>
     (case (numeric_value a, numeric_value b) of
        (Some x, Some y) \<Rightarrow> x = y \<and> x \<noteq> NaN
      | (None, None) \<Rightarrow> a = b
      | _ \<Rightarrow> False)"

fun py_eq :: "pyval \<Rightarrow> pyval \<Rightarrow> bool" where
  "py_eq (VList xs) (VList ys) = list_all2 py_eq xs ys"
| "py_eq (VDict d) (VDict e) =
     (length d = length e \<and> list_all (\<lambda>(k, v). list_ex (\<lambda>(k', v'). k' = k \<and> py_eq v v') e) d)"
| "py_eq a b = scalar_eq a b"

end
