(* ===== verification/Checkpoint.thy ===== *)
theory Checkpoint
  imports Mechanism JsonData
begin

text \<open>
  Choice of a checkpoint: Pareto dominance and the frontier of \<open>train_offline.py\<close>, the
  constrained selection of \<open>select_pareto_checkpoint.py\<close>, and the comparison of a
  checkpoint's metadata with the expected configuration of \<open>checkpoint_compat.py\<close>. The records
  of a training run have optional fields, a field that is present holds a number or a text; the
  fields of a candidate are read from JSON and may also be null.
\<close>

section \<open>Pareto dominance\<close>

record ckpt_record =
  ck_mechanism_version :: "string option"
  ck_cross_ratio :: "real option"
  ck_stage_max_load_share :: "real option"
  ck_active_shards_mean :: "real option"
  ck_communication_cost_mean :: "real option"

record pareto_metrics =
  pm_cross_ratio :: real
  pm_stage_max_load_share :: real
  pm_active_shards_mean :: real
  pm_communication_cost_mean :: "real option"

definition get_or :: "'a option \<Rightarrow> 'a \<Rightarrow> 'a" where
  "get_or x d = (case x of None \<Rightarrow> d | Some v \<Rightarrow> v)"

definition checkpoint_pareto_metrics :: "ckpt_record \<Rightarrow> pareto_metrics result" where
  "checkpoint_pareto_metrics r =
     (let result = \<lparr>pm_cross_ratio = get_or (ck_cross_ratio r) 1,
            pm_stage_max_load_share = get_or (ck_stage_max_load_share r) 1,
            pm_active_shards_mean = get_or (ck_active_shards_mean r) 0,
            pm_communication_cost_mean = None\<rparr>
      in if ck_mechanism_version r = Some ''v3'' then
           (case ck_communication_cost_mean r of
              None \<Rightarrow> raise KeyError
            | Some c \<Rightarrow> return (result\<lparr>pm_communication_cost_mean := Some c\<rparr>))
         else return result)"

definition DOMINANCE_EPS :: real where
  "DOMINANCE_EPS = 1 / 10 ^ 12"

text \<open>A comparison of the two costs: a missing one is a KeyError.\<close>

definition compare_costs :: "(real \<Rightarrow> real \<Rightarrow> bool) \<Rightarrow> pareto_metrics \<Rightarrow> pareto_metrics \<Rightarrow> bool result" where
  "compare_costs f l r =
     (case (pm_communication_cost_mean l, pm_communication_cost_mean r) of
        (Some a, Some b) \<Rightarrow> return (f a b)
      | _ \<Rightarrow> raise KeyError)"

definition metrics_dominate :: "real \<Rightarrow> pareto_metrics \<Rightarrow> pareto_metrics \<Rightarrow> bool result" where
  "metrics_dominate eps l r =
     (let no_worse = (pm_cross_ratio l \<le> pm_cross_ratio r + eps \<and>
            pm_stage_max_load_share l \<le> pm_stage_max_load_share r + eps \<and>
            pm_active_shards_mean l + eps \<ge> pm_active_shards_mean r);
          strictly_better = (pm_cross_ratio l < pm_cross_ratio r - eps \<or>
            pm_stage_max_load_share l < pm_stage_max_load_share r - eps \<or>
            pm_active_shards_mean l > pm_active_shards_mean r + eps)
      in if pm_communication_cost_mean l \<noteq> None \<or> pm_communication_cost_mean r \<noteq> None then
           bind_result (if no_worse then compare_costs (\<lambda>a b. a \<le> b + eps) l r else return False)
             (\<lambda>no_worse.
           bind_result (if strictly_better then return True else compare_costs (\<lambda>a b. a < b - eps) l r)
             (\<lambda>strictly_better. return (no_worse \<and> strictly_better)))
         else return (no_worse \<and> strictly_better))"

definition checkpoint_dominates :: "ckpt_record \<Rightarrow> ckpt_record \<Rightarrow> bool result" where
  "checkpoint_dominates left right =
     bind_result (checkpoint_pareto_metrics left) (\<lambda>l.
     bind_result (checkpoint_pareto_metrics right) (\<lambda>r. metrics_dominate DOMINANCE_EPS l r))"

text \<open>\<open>any\<close> over a generator whose elements may raise.\<close>

fun any_result :: "('a \<Rightarrow> bool result) \<Rightarrow> 'a list \<Rightarrow> bool result" where
  "any_result f [] = return False"
| "any_result f (x # xs) = bind_result (f x) (\<lambda>b. if b then return True else any_result f xs)"

definition dominated_at :: "ckpt_record list \<Rightarrow> nat \<times> ckpt_record \<Rightarrow> bool result" where
  "dominated_at records ir =
     any_result (\<lambda>(j, other). checkpoint_dominates other (snd ir))
       (filter (\<lambda>(j, other). j \<noteq> fst ir) (enumerate 0 records))"

definition checkpoint_pareto_frontier :: "ckpt_record list \<Rightarrow> ckpt_record list result" where
  "checkpoint_pareto_frontier records =
     bind_result (traverse (dominated_at records) (enumerate 0 records)) (\<lambda>flags.
       return (map fst (filter (\<lambda>(r, dominated). \<not> dominated) (zip records flags))))"

section \<open>Selection under constraints\<close>

text \<open>
  A field of a JSON object: missing, null, or a value of its type. The manifest is written by the
  training, which puts finite numbers into the fields read as numbers; texts, NaN and infinities
  there are not represented.
\<close>

datatype 'a field = Missing | Null | Present 'a

record candidate =
  ca_checkpoint_path :: "string field"
  ca_active_shards_mean :: "real field"
  ca_stage_max_load_share :: "real field"
  ca_cross_ratio :: "real field"
  ca_epoch :: "int field"
  ca_event :: "string field"
  ca_validation_score :: "real field"

record manifest =
  mf_mechanism_version :: "string option"
  mf_pareto_frontier :: "candidate list"

definition SELECTION_POLICY_NAME :: string where
  "SELECTION_POLICY_NAME = ''hierarchical_constrained_pareto_v1''"

text \<open>\<open>float(c.get(key, default))\<close> and \<open>int(...)\<close>: null is a TypeError. \<open>str(None)\<close> is a text.\<close>

definition read_number :: "'a \<Rightarrow> 'a field \<Rightarrow> 'a result" where
  "read_number dflt f = (case f of Missing \<Rightarrow> return dflt | Null \<Rightarrow> raise TypeError | Present v \<Rightarrow> return v)"

definition active_of :: "candidate \<Rightarrow> real result" where
  "active_of c = read_number 0 (ca_active_shards_mean c)"

definition hotspot_of :: "candidate \<Rightarrow> real result" where
  "hotspot_of c = read_number 1 (ca_stage_max_load_share c)"

definition cross_of :: "candidate \<Rightarrow> real result" where
  "cross_of c = read_number 1 (ca_cross_ratio c)"

definition epoch_of :: "candidate \<Rightarrow> int result" where
  "epoch_of c = read_number 0 (ca_epoch c)"

definition event_of :: "candidate \<Rightarrow> string" where
  "event_of c = (case ca_event c of Missing \<Rightarrow> [] | Null \<Rightarrow> ''None'' | Present s \<Rightarrow> s)"

definition score_of :: "candidate \<Rightarrow> real result" where
  "score_of c = (case ca_validation_score c of Missing \<Rightarrow> raise KeyError | Null \<Rightarrow> raise TypeError | Present v \<Rightarrow> return v)"

definition pareto_candidates :: "manifest \<Rightarrow> candidate list" where
  "pareto_candidates m =
     filter (\<lambda>c. case ca_checkpoint_path c of Present path \<Rightarrow> path \<noteq> [] | _ \<Rightarrow> False) (mf_pareto_frontier m)"

definition active_deficit_ratio :: "candidate \<Rightarrow> real \<Rightarrow> real result" where
  "active_deficit_ratio c min_active =
     bind_result (active_of c) (\<lambda>active. return (max 0 ((min_active - active) / min_active)))"

text \<open>A list comprehension whose condition may raise.\<close>

fun filter_result :: "('a \<Rightarrow> bool result) \<Rightarrow> 'a list \<Rightarrow> 'a list result" where
  "filter_result P [] = return []"
| "filter_result P (x # xs) =
     bind_result (P x) (\<lambda>b. bind_result (filter_result P xs) (\<lambda>ys. return (if b then x # ys else ys)))"

definition eligible_candidates :: "manifest \<Rightarrow> real \<Rightarrow> real \<Rightarrow> candidate list result" where
  "eligible_candidates m min_active max_hotspot =
     filter_result (\<lambda>c. bind_result (active_of c) (\<lambda>active.
       if active \<ge> min_active then bind_result (hotspot_of c) (\<lambda>hotspot. return (hotspot \<le> max_hotspot))
       else return False)) (pareto_candidates m)"

definition fallback_candidates :: "manifest \<Rightarrow> real \<Rightarrow> real \<Rightarrow> real \<Rightarrow> candidate list result" where
  "fallback_candidates m min_active max_hotspot max_deficit =
     filter_result (\<lambda>c. bind_result (hotspot_of c) (\<lambda>hotspot.
       if hotspot \<le> max_hotspot
       then bind_result (active_deficit_ratio c min_active) (\<lambda>deficit. return (deficit \<le> max_deficit))
       else return False)) (pareto_candidates m)"

type_synonym sort_key = "real \<times> real \<times> real \<times> int \<times> string"

definition strict_sort_key :: "candidate \<Rightarrow> sort_key result" where
  "strict_sort_key c =
     bind_result (cross_of c) (\<lambda>cross. bind_result (hotspot_of c) (\<lambda>hotspot.
     bind_result (active_of c) (\<lambda>active. bind_result (epoch_of c) (\<lambda>epoch.
       return (cross, hotspot, - active, epoch, event_of c)))))"

definition fallback_sort_key :: "candidate \<Rightarrow> real \<Rightarrow> sort_key result" where
  "fallback_sort_key c min_active =
     bind_result (active_deficit_ratio c min_active) (\<lambda>deficit. bind_result (cross_of c) (\<lambda>cross.
     bind_result (hotspot_of c) (\<lambda>hotspot. bind_result (epoch_of c) (\<lambda>epoch.
       return (deficit, cross, hotspot, epoch, event_of c)))))"

text \<open>\<open>min(xs, key=...)\<close> of a nonempty list: the first element with a minimal key.\<close>

definition min_by :: "('a \<Rightarrow> 'k::linorder) \<Rightarrow> 'a list \<Rightarrow> 'a" where
  "min_by key xs = fold (\<lambda>x best. if key x < key best then x else best) (tl xs) (hd xs)"

definition min_result :: "('a \<Rightarrow> 'k::linorder result) \<Rightarrow> 'a list \<Rightarrow> 'a result" where
  "min_result key xs = bind_result (traverse key xs) (\<lambda>ks. return (snd (min_by fst (zip ks xs))))"

definition pick_strict :: "manifest \<Rightarrow> candidate list \<Rightarrow> candidate result" where
  "pick_strict m cs =
     (if mf_mechanism_version m = Some ''v3''
      then min_result (\<lambda>c. bind_result (score_of c) (\<lambda>score.
             bind_result (strict_sort_key c) (\<lambda>k. return (- score, k)))) cs
      else min_result strict_sort_key cs)"

definition pick_fallback :: "manifest \<Rightarrow> real \<Rightarrow> candidate list \<Rightarrow> candidate result" where
  "pick_fallback m min_active cs =
     (if mf_mechanism_version m = Some ''v3''
      then min_result (\<lambda>c. bind_result (active_deficit_ratio c min_active) (\<lambda>deficit.
             bind_result (score_of c) (\<lambda>score.
             bind_result (strict_sort_key c) (\<lambda>k. return (deficit, - score, k))))) cs
      else min_result (\<lambda>c. fallback_sort_key c min_active) cs)"

record decision =
  de_selection_policy :: string
  de_selection_tier :: string
  de_strict_feasible :: bool
  de_active_shards_mean :: real
  de_stage_max_load_share :: real
  de_active_shards_deficit :: real
  de_active_deficit_ratio :: real
  de_stage_hotspot_excess :: real
  de_strict_constraints_satisfied :: bool
  de_fallback_constraints_satisfied :: bool
  de_selected :: candidate

definition decision_of :: "manifest \<Rightarrow> real \<Rightarrow> real \<Rightarrow> real \<Rightarrow> bool \<Rightarrow> candidate \<Rightarrow> decision result" where
  "decision_of m min_active max_hotspot max_deficit strict selected =
     bind_result (active_of selected) (\<lambda>active_shards.
     bind_result (hotspot_of selected) (\<lambda>stage_hotspot.
     bind_result (active_deficit_ratio selected min_active) (\<lambda>deficit_ratio.
       return \<lparr>de_selection_policy = (if mf_mechanism_version m = Some ''v3''
            then ''validation_score_with_stage_guardrails_v3'' else SELECTION_POLICY_NAME),
          de_selection_tier = (if strict then ''strict'' else ''active_tolerance''),
          de_strict_feasible = strict, de_active_shards_mean = active_shards,
          de_stage_max_load_share = stage_hotspot,
          de_active_shards_deficit = max 0 (min_active - active_shards),
          de_active_deficit_ratio = deficit_ratio,
          de_stage_hotspot_excess = max 0 (stage_hotspot - max_hotspot),
          de_strict_constraints_satisfied = (active_shards \<ge> min_active \<and> stage_hotspot \<le> max_hotspot),
          de_fallback_constraints_satisfied =
            (stage_hotspot \<le> max_hotspot \<and> deficit_ratio \<le> max_deficit),
          de_selected = selected\<rparr>)))"

definition select_candidate_decision :: "manifest \<Rightarrow> real \<Rightarrow> real \<Rightarrow> real \<Rightarrow> decision result" where
  "select_candidate_decision m min_active max_hotspot max_deficit =
     (if min_active \<le> 0 then raise ValueError
      else if \<not> (0 \<le> max_hotspot \<and> max_hotspot \<le> 1) then raise ValueError
      else if \<not> (0 \<le> max_deficit \<and> max_deficit \<le> 1) then raise ValueError
      else
        bind_result (eligible_candidates m min_active max_hotspot) (\<lambda>strict.
          if strict \<noteq> [] then
            bind_result (pick_strict m strict) (decision_of m min_active max_hotspot max_deficit True)
          else
            bind_result (fallback_candidates m min_active max_hotspot max_deficit) (\<lambda>relaxed.
              if relaxed = [] then raise RuntimeError
              else bind_result (pick_fallback m min_active relaxed)
                (decision_of m min_active max_hotspot max_deficit False))))"

definition select_candidate :: "manifest \<Rightarrow> real \<Rightarrow> real \<Rightarrow> real \<Rightarrow> candidate result" where
  "select_candidate m min_active max_hotspot max_deficit =
     bind_result (select_candidate_decision m min_active max_hotspot max_deficit) (\<lambda>d.
       return (de_selected d))"

section \<open>Compatibility of checkpoint metadata\<close>

text \<open>\<open>float(v)\<close>; \<open>None\<close> is the TypeError or ValueError that \<open>checkpoint_config_mismatches\<close> catches.\<close>

fun to_float :: "pyval \<Rightarrow> pyfloat option" where
  "to_float (VFloat x) = Some x"
| "to_float (VInt i) = Some (Fin (real_of_int i))"
| "to_float (VBool b) = Some (Fin (if b then 1 else 0))"
| "to_float (VStr s) = py_float s"
| "to_float _ = None"

definition value_matches :: "pyval \<Rightarrow> pyval \<Rightarrow> bool" where
  "value_matches actual expected \<longleftrightarrow>
     (case expected of
        VFloat x \<Rightarrow> (case to_float actual of None \<Rightarrow> False | Some a \<Rightarrow> isclose a x)
      | _ \<Rightarrow> py_eq actual expected)"

datatype mismatch = MixedMechanism | MissingKey string | DifferentValue string

definition key_mismatch :: "(string \<rightharpoonup> pyval) \<Rightarrow> string \<times> pyval \<Rightarrow> mismatch list" where
  "key_mismatch extra kv =
     (case kv of (key, expected) \<Rightarrow>
        (case extra key of
           None \<Rightarrow> [MissingKey key]
         | Some actual \<Rightarrow> if value_matches actual expected then [] else [DifferentValue key]))"

text \<open>The expected configuration is a dictionary, listed in its order.\<close>

definition checkpoint_config_mismatches :: "(string \<rightharpoonup> pyval) \<Rightarrow> (string \<times> pyval) list \<Rightarrow> mismatch list" where
  "checkpoint_config_mismatches extra expected =
     (let version = (\<lambda>d. get_or (d ''mechanism_version'') (VStr ''legacy''))
      in (if \<not> py_eq (version extra) (version (map_of expected)) then [MixedMechanism] else []) @
         concat (map (key_mismatch extra) expected))"

end
