(* ===== verification/CheckpointTheorems.thy ===== *)
theory CheckpointTheorems
  imports Checkpoint
begin

text \<open>
  Correctness of the checkpoint choice: the frontier under separated metrics, its failure
  under near-ties, the guarantees of the constrained selection, and the meaning of an empty
  list of configuration mismatches.
\<close>

section \<open>Minima by key\<close>

lemma min_by_in: "xs \<noteq> [] \<Longrightarrow> min_by key xs \<in> set xs"
proof -
  have "fold (\<lambda>x best. if key x < key best then x else best) ys b \<in> insert b (set ys)" for ys b
    by (induction ys arbitrary: b) auto
  then show "xs \<noteq> [] \<Longrightarrow> min_by key xs \<in> set xs"
    unfolding min_by_def by (cases xs) auto
qed

lemma min_by_least: "x \<in> set xs \<Longrightarrow> key (min_by key xs) \<le> key x"
proof -
  have "key (fold (\<lambda>x best. if key x < key best then x else best) ys b) \<le> key b \<and>
        (\<forall>y\<in>set ys. key (fold (\<lambda>x best. if key x < key best then x else best) ys b) \<le> key y)" for ys b
  proof (induction ys arbitrary: b)
    case Nil
    then show ?case by simp
  next
    case (Cons y ys)
    show ?case
    proof (cases "key y < key b")
      case True
      then show ?thesis using Cons.IH [of y] order_trans [OF _ less_imp_le [OF True]] by simp
    next
      case False
      then show ?thesis using Cons.IH [of b] by (auto intro: order_trans)
    qed
  qed
  then show "x \<in> set xs \<Longrightarrow> key (min_by key xs) \<le> key x"
    unfolding min_by_def by (cases xs) auto
qed

section \<open>Dominance on numbers\<close>

text \<open>The metrics as a vector in which smaller is better.\<close>

definition metric_vector :: "ckpt_record \<Rightarrow> real list" where
  "metric_vector r = [get_or (ck_cross_ratio r) 1, get_or (ck_stage_max_load_share r) 1,
     - get_or (ck_active_shards_mean r) 0,
     (if ck_mechanism_version r = Some ''v3'' then get_or (ck_communication_cost_mean r) 0 else 0)]"

definition dominates_by :: "real \<Rightarrow> real list \<Rightarrow> real list \<Rightarrow> bool" where
  "dominates_by eps xs ys \<longleftrightarrow>
     list_all2 (\<lambda>x y. x \<le> y + eps) xs ys \<and> list_ex (\<lambda>(x, y). x < y - eps) (zip xs ys)"

text \<open>Records of one mechanism version, with their costs where the version needs them.\<close>

definition uniform_records :: "ckpt_record list \<Rightarrow> bool" where
  "uniform_records rs \<longleftrightarrow>
     list_all (\<lambda>r. ck_mechanism_version r \<noteq> Some ''v3'') rs \<or>
     list_all (\<lambda>r. ck_mechanism_version r = Some ''v3'' \<and> ck_communication_cost_mean r \<noteq> None) rs"

lemma eps_pos: "0 < DOMINANCE_EPS"
  by (simp add: DOMINANCE_EPS_def)

lemma metrics_dominate_vector:
  assumes "0 < eps"
  shows "metrics_dominate eps
      \<lparr>pm_cross_ratio = a, pm_stage_max_load_share = b, pm_active_shards_mean = c, pm_communication_cost_mean = None\<rparr>
      \<lparr>pm_cross_ratio = a', pm_stage_max_load_share = b', pm_active_shards_mean = c', pm_communication_cost_mean = None\<rparr> =
      Inr (dominates_by eps [a, b, - c, 0] [a', b', - c', 0])"
    and "metrics_dominate eps
      \<lparr>pm_cross_ratio = a, pm_stage_max_load_share = b, pm_active_shards_mean = c, pm_communication_cost_mean = Some d\<rparr>
      \<lparr>pm_cross_ratio = a', pm_stage_max_load_share = b', pm_active_shards_mean = c', pm_communication_cost_mean = Some d'\<rparr> =
      Inr (dominates_by eps [a, b, - c, d] [a', b', - c', d'])"
proof -
  have e: "(- c \<le> eps - c') = (c' \<le> c + eps)" "(- c < - c' - eps) = (c' + eps < c)" by auto
  show "metrics_dominate eps
      \<lparr>pm_cross_ratio = a, pm_stage_max_load_share = b, pm_active_shards_mean = c, pm_communication_cost_mean = None\<rparr>
      \<lparr>pm_cross_ratio = a', pm_stage_max_load_share = b', pm_active_shards_mean = c', pm_communication_cost_mean = None\<rparr> =
      Inr (dominates_by eps [a, b, - c, 0] [a', b', - c', 0])"
    using assms by (simp add: metrics_dominate_def dominates_by_def Let_def e)
  show "metrics_dominate eps
      \<lparr>pm_cross_ratio = a, pm_stage_max_load_share = b, pm_active_shards_mean = c, pm_communication_cost_mean = Some d\<rparr>
      \<lparr>pm_cross_ratio = a', pm_stage_max_load_share = b', pm_active_shards_mean = c', pm_communication_cost_mean = Some d'\<rparr> =
      Inr (dominates_by eps [a, b, - c, d] [a', b', - c', d'])"
    by (auto simp: metrics_dominate_def compare_costs_def dominates_by_def Let_def e)
qed

lemma checkpoint_dominates_vector:
  assumes "uniform_records rs" and "l \<in> set rs" and "r \<in> set rs"
  shows "checkpoint_dominates l r = Inr (dominates_by DOMINANCE_EPS (metric_vector l) (metric_vector r))"
proof (cases "list_all (\<lambda>r. ck_mechanism_version r \<noteq> Some ''v3'') rs")
  case True
  then have "ck_mechanism_version l \<noteq> Some ''v3''" "ck_mechanism_version r \<noteq> Some ''v3''"
    using assms(2,3) by (auto simp: list_all_iff)
  then show ?thesis
    by (simp add: checkpoint_dominates_def checkpoint_pareto_metrics_def metric_vector_def Let_def
        metrics_dominate_vector(1) [OF eps_pos])
next
  case False
  then have "ck_mechanism_version l = Some ''v3''" "ck_mechanism_version r = Some ''v3''"
    "ck_communication_cost_mean l \<noteq> None" "ck_communication_cost_mean r \<noteq> None"
    using assms by (auto simp: uniform_records_def list_all_iff)
  then show ?thesis
    by (auto simp: checkpoint_dominates_def checkpoint_pareto_metrics_def metric_vector_def Let_def
        metrics_dominate_vector(2) [OF eps_pos] get_or_def [of "Some _"])
qed

lemma any_result_total:
  assumes "\<And>x. x \<in> set xs \<Longrightarrow> f x = Inr (g x)"
  shows "any_result f xs = Inr (list_ex g xs)"
  using assms by (induction xs) auto

lemma not_self_dominating: "0 < eps \<Longrightarrow> \<not> dominates_by eps xs xs"
proof
  assume "0 < eps" and "dominates_by eps xs xs"
  then show False by (auto simp: dominates_by_def list_ex_iff set_zip)
qed

lemma frontier_vector:
  assumes "uniform_records rs"
  shows "checkpoint_pareto_frontier rs = Inr (filter (\<lambda>r. \<not> list_ex (\<lambda>other.
           dominates_by DOMINANCE_EPS (metric_vector other) (metric_vector r)) rs) rs)"
proof -
  let ?d = "\<lambda>r. list_ex (\<lambda>other. dominates_by DOMINANCE_EPS (metric_vector other) (metric_vector r)) rs"
  have "dominated_at rs ir = Inr (?d (snd ir))" if "ir \<in> set (enumerate 0 rs)" for ir
  proof -
    obtain i r where ir: "ir = (i, r)" by force
    have i: "i < length rs" "rs ! i = r" using that by (simp_all add: ir in_set_enumerate_eq)
    then have r: "r \<in> set rs" by auto
    have "any_result (\<lambda>(j, other). checkpoint_dominates other r) (filter (\<lambda>(j, other). j \<noteq> i) (enumerate 0 rs)) =
      Inr (list_ex (\<lambda>(j, other). dominates_by DOMINANCE_EPS (metric_vector other) (metric_vector r))
             (filter (\<lambda>(j, other). j \<noteq> i) (enumerate 0 rs)))"
      using checkpoint_dominates_vector [OF assms _ r]
      by (intro any_result_total) (auto simp: in_set_enumerate_eq)
    moreover have "list_ex (\<lambda>(j, other). dominates_by DOMINANCE_EPS (metric_vector other) (metric_vector r))
             (filter (\<lambda>(j, other). j \<noteq> i) (enumerate 0 rs)) = ?d r"
    proof
      assume "?d r"
      then obtain j where j: "j < length rs" "dominates_by DOMINANCE_EPS (metric_vector (rs ! j)) (metric_vector r)"
        by (auto simp: list_ex_iff in_set_conv_nth)
      then have "j \<noteq> i" using not_self_dominating [OF eps_pos] i by auto
      then show "list_ex (\<lambda>(j, other). dominates_by DOMINANCE_EPS (metric_vector other) (metric_vector r))
             (filter (\<lambda>(j, other). j \<noteq> i) (enumerate 0 rs))"
        using j by (auto simp: list_ex_iff in_set_enumerate_eq)
    qed (auto simp: list_ex_iff in_set_enumerate_eq)
    ultimately show ?thesis by (simp add: dominated_at_def ir)
  qed
  then have "traverse (dominated_at rs) (enumerate 0 rs) = Inr (map (\<lambda>ir. ?d (snd ir)) (enumerate 0 rs))"
    by (rule traverse_total)
  moreover have "map (\<lambda>ir. ?d (snd ir)) (enumerate 0 rs) = map ?d rs"
    by (rule nth_equalityI) (simp_all add: nth_enumerate_eq)
  moreover have "map fst (filter (\<lambda>(r, dominated). \<not> dominated) (zip rs' (map f rs'))) = filter (\<lambda>r. \<not> f r) rs'" for f rs'
    by (induction rs') auto
  ultimately show ?thesis by (simp add: checkpoint_pareto_frontier_def)
qed

text \<open>Metrics that are equal or further apart than the tolerance.\<close>

definition separated :: "ckpt_record list \<Rightarrow> bool" where
  "separated rs \<longleftrightarrow> list_all (\<lambda>a. list_all (\<lambda>b. list_all2 (\<lambda>x y. x = y \<or> \<bar>x - y\<bar> > DOMINANCE_EPS)
     (metric_vector a) (metric_vector b)) rs) rs"

definition strictly_pareto :: "real list \<Rightarrow> real list \<Rightarrow> bool" where
  "strictly_pareto xs ys \<longleftrightarrow> list_all2 (\<le>) xs ys \<and> xs \<noteq> ys"

lemma separated_vectors:
  assumes "list_all2 (\<lambda>x y. x = y \<or> \<bar>x - y\<bar> > eps) xs ys" and "0 < (eps :: real)"
  shows "list_all2 (\<lambda>x y. x \<le> y + eps) xs ys = list_all2 (\<le>) xs ys"
    and "list_all2 (\<le>) xs ys \<Longrightarrow> list_ex (\<lambda>(x, y). x < y - eps) (zip xs ys) = (xs \<noteq> ys)"
  using assms(1)
proof (induction xs ys rule: list_all2_induct)
  case (Cons x xs y ys)
  have e: "(x \<le> y + eps) = (x \<le> y)" "(x < y - eps) = (x < y)"
    using Cons.hyps(1) assms(2) by auto
  { case 1 show ?case using Cons.IH(1) e by simp }
  { case 2 then show ?case using Cons.IH(2) e by auto }
qed simp_all

lemma separated_dominates:
  assumes "separated rs" and "a \<in> set rs" and "b \<in> set rs"
  shows "dominates_by DOMINANCE_EPS (metric_vector a) (metric_vector b) =
         strictly_pareto (metric_vector a) (metric_vector b)"
proof -
  have "list_all2 (\<lambda>x y. x = y \<or> \<bar>x - y\<bar> > DOMINANCE_EPS) (metric_vector a) (metric_vector b)"
    using assms by (simp add: separated_def list_all_iff)
  from separated_vectors [OF this eps_pos] show ?thesis
    by (auto simp: dominates_by_def strictly_pareto_def)
qed

lemma strictly_pareto_sum: "strictly_pareto xs ys \<Longrightarrow> sum_list xs < sum_list ys"
proof -
  assume "strictly_pareto xs ys"
  then have "list_all2 (\<le>) xs ys" "xs \<noteq> ys" by (simp_all add: strictly_pareto_def)
  then show ?thesis
  proof (induction xs ys rule: list_all2_induct)
    case (Cons x xs y ys)
    have "sum_list xs \<le> sum_list ys" using Cons.hyps(2) by (rule list_all2_le_sum_list)
    then show ?case using Cons by (cases "x = y") auto
  qed simp
qed

lemma strictly_pareto_trans: "strictly_pareto xs ys \<Longrightarrow> strictly_pareto ys zs \<Longrightarrow> strictly_pareto xs zs"
proof -
  assume a: "strictly_pareto xs ys" and b: "strictly_pareto ys zs"
  then have "list_all2 (\<le>) xs zs"
    by (auto simp: strictly_pareto_def intro: list_all2_trans [of "(\<le>)" "(\<le>)" "(\<le>)"])
  then show ?thesis
    using strictly_pareto_sum [OF a] strictly_pareto_sum [OF b] by (auto simp: strictly_pareto_def)
qed

lemma best_dominator:
  assumes "separated rs" and "r \<in> set rs"
  obtains f where "f \<in> set rs" and "f = r \<or> strictly_pareto (metric_vector f) (metric_vector r)"
    and "\<And>d. d \<in> set rs \<Longrightarrow> \<not> strictly_pareto (metric_vector d) (metric_vector f)"
proof -
  let ?D = "filter (\<lambda>d. d = r \<or> strictly_pareto (metric_vector d) (metric_vector r)) rs"
  let ?f = "min_by (\<lambda>d. sum_list (metric_vector d)) ?D"
  have "r \<in> set ?D" using assms(2) by simp
  then have "?D \<noteq> []" by (metis empty_iff empty_set)
  then have f: "?f \<in> set ?D" by (rule min_by_in)
  have "\<not> strictly_pareto (metric_vector d) (metric_vector ?f)" if d: "d \<in> set rs" for d
  proof
    assume p: "strictly_pareto (metric_vector d) (metric_vector ?f)"
    then have "strictly_pareto (metric_vector d) (metric_vector r)"
      using f strictly_pareto_trans [OF p] by auto
    then have "d \<in> set ?D" using d by simp
    from min_by_least [OF this, of "\<lambda>d. sum_list (metric_vector d)"] strictly_pareto_sum [OF p]
    show False by simp
  qed
  then show thesis using that [of ?f] f by simp
qed

section \<open>The frontier\<close>

definition demo_record :: "real \<Rightarrow> real \<Rightarrow> real \<Rightarrow> ckpt_record" where
  "demo_record c h a = \<lparr>ck_mechanism_version = None, ck_cross_ratio = Some c,
     ck_stage_max_load_share = Some h, ck_active_shards_mean = Some a,
     ck_communication_cost_mean = None\<rparr>"

text \<open>
  C30. The frontier of a nonempty list of records of one version whose metrics are equal or
  differ by more than the tolerance: it is computed without an error, it is not empty,
  none of its members is dominated by any record, and every record left out is dominated
  by a member.
\<close>

theorem frontier_correct:
  assumes "uniform_records rs" and "separated rs" and "rs \<noteq> []"
  shows "\<exists>fr. checkpoint_pareto_frontier rs = Inr fr \<and> fr \<noteq> [] \<and> set fr \<subseteq> set rs \<and>
     (\<forall>f\<in>set fr. \<forall>r\<in>set rs. checkpoint_dominates r f = Inr False) \<and>
     (\<forall>r\<in>set rs. r \<in> set fr \<or> (\<exists>f\<in>set fr. checkpoint_dominates f r = Inr True))"
proof -
  let ?dom = "\<lambda>a b. strictly_pareto (metric_vector a) (metric_vector b)"
  let ?fr = "filter (\<lambda>r. \<not> list_ex (\<lambda>other.
     dominates_by DOMINANCE_EPS (metric_vector other) (metric_vector r)) rs) rs"
  have dom: "checkpoint_dominates a b = Inr (?dom a b)" if "a \<in> set rs" "b \<in> set rs" for a b
    using that checkpoint_dominates_vector [OF assms(1)] separated_dominates [OF assms(2)] by simp
  have fr: "f \<in> set ?fr \<longleftrightarrow> f \<in> set rs \<and> (\<forall>r\<in>set rs. \<not> ?dom r f)" for f
    using separated_dominates [OF assms(2)] by (auto simp: list_ex_iff)
  have cover: "r \<in> set ?fr \<or> (\<exists>f\<in>set ?fr. ?dom f r)" if "r \<in> set rs" for r
    using best_dominator [OF assms(2) that] fr by metis
  then have "?fr \<noteq> []" using assms(3) by (cases rs) fastforce+
  moreover have "\<forall>f\<in>set ?fr. \<forall>r\<in>set rs. checkpoint_dominates r f = Inr False"
    using dom fr by simp
  moreover have "\<forall>r\<in>set rs. r \<in> set ?fr \<or> (\<exists>f\<in>set ?fr. checkpoint_dominates f r = Inr True)"
  proof
    fix r
    assume r: "r \<in> set rs"
    from cover [OF r] consider "r \<in> set ?fr" | f where "f \<in> set ?fr" "?dom f r" by blast
    then show "r \<in> set ?fr \<or> (\<exists>f\<in>set ?fr. checkpoint_dominates f r = Inr True)"
    proof cases
      case (2 f)
      then have "checkpoint_dominates f r = Inr True" using dom r fr by simp
      then show ?thesis using 2(1) by blast
    qed blast
  qed
  ultimately show ?thesis using frontier_vector [OF assms(1)] by (intro exI [of _ ?fr]) auto
qed

theorem frontier_correct_witness:
  "\<exists>fr. checkpoint_pareto_frontier [demo_record 0.1 0.2 8, demo_record 0.3 0.2 7] = Inr fr \<and> fr \<noteq> []"
proof -
  let ?rs = "[demo_record 0.1 0.2 8, demo_record 0.3 0.2 7]"
  have "uniform_records ?rs" by (simp add: uniform_records_def demo_record_def)
  moreover have "separated ?rs"
    by (simp add: separated_def metric_vector_def demo_record_def get_or_def DOMINANCE_EPS_def)
  ultimately show ?thesis using frontier_correct [of ?rs] by blast
qed

lemma ring_frontier:
  assumes "uniform_records [a, b, c]"
    and "dominates_by DOMINANCE_EPS (metric_vector a) (metric_vector b)"
    and "dominates_by DOMINANCE_EPS (metric_vector b) (metric_vector c)"
    and "dominates_by DOMINANCE_EPS (metric_vector c) (metric_vector a)"
  shows "checkpoint_pareto_frontier [a, b, c] = Inr []"
  unfolding frontier_vector [OF assms(1)] using assms(2-4) by simp

text \<open>
  C39. The tolerance makes dominance cyclic: three records whose metrics differ by about
  one and two tolerances dominate each other in a ring, and the frontier of these three valid
  records is empty.
\<close>

theorem frontier_can_be_empty:
  "checkpoint_pareto_frontier
     [demo_record (1 / 2) (1 / 2 + 9 / 10 ^ 13) (8 - 18 / 10 ^ 13),
      demo_record (1 / 2 + 18 / 10 ^ 13) (1 / 2) (8 - 9 / 10 ^ 13),
      demo_record (1 / 2 + 9 / 10 ^ 13) (1 / 2 + 18 / 10 ^ 13) 8] = Inr []"
proof -
  define d :: real where "d = 9 / 10 ^ 13"
  have d: "0 < d" "d \<le> DOMINANCE_EPS" "DOMINANCE_EPS < 2 * d" by (simp_all add: d_def DOMINANCE_EPS_def)
  have d2: "18 / 10 ^ 13 = 2 * d" by (simp add: d_def)
  let ?a = "demo_record (1 / 2) (1 / 2 + d) (8 - 2 * d)"
  let ?b = "demo_record (1 / 2 + 2 * d) (1 / 2) (8 - d)"
  let ?c = "demo_record (1 / 2 + d) (1 / 2 + 2 * d) 8"
  have "uniform_records [?a, ?b, ?c]" by (simp add: uniform_records_def demo_record_def)
  moreover have "dominates_by DOMINANCE_EPS (metric_vector ?a) (metric_vector ?b)"
    "dominates_by DOMINANCE_EPS (metric_vector ?b) (metric_vector ?c)"
    "dominates_by DOMINANCE_EPS (metric_vector ?c) (metric_vector ?a)"
    using d by (simp_all add: metric_vector_def demo_record_def get_or_def dominates_by_def)
  ultimately show ?thesis unfolding d2 d_def [symmetric] by (rule ring_frontier)
qed

section \<open>Constrained selection\<close>

lemma filter_result_Inr:
  "filter_result P xs = Inr ys \<longleftrightarrow> (\<forall>x\<in>set xs. \<not> isl (P x)) \<and> ys = filter (\<lambda>x. P x = Inr True) xs"
proof (induction xs arbitrary: ys)
  case (Cons x xs)
  then show ?case by (cases "P x") (auto simp: result_simps)
qed auto

lemma filter_result_Inl: "filter_result P xs = Inl e \<Longrightarrow> \<exists>x\<in>set xs. P x = Inl e"
  by (induction xs) (auto simp: result_simps)

lemma traverse_Inl: "traverse f xs = Inl e \<Longrightarrow> \<exists>x\<in>set xs. f x = Inl e"
  by (induction xs) (auto simp: result_simps)

text \<open>The result of \<open>min\<close> is an element with a least key, and every key was computed.\<close>

lemma min_result_least:
  assumes "min_result key xs = Inr x" and "xs \<noteq> []"
  shows "x \<in> set xs \<and> (\<exists>k. key x = Inr k \<and> (\<forall>y\<in>set xs. \<exists>k'. key y = Inr k' \<and> k \<le> k'))"
proof -
  obtain ks where ks: "traverse key xs = Inr ks" and x: "x = snd (min_by fst (zip ks xs))"
    using assms(1) by (auto simp: min_result_def result_simps)
  have al: "list_all2 (\<lambda>x k. key x = Inr k) xs ks" using ks by (simp add: traverse_Inr_iff)
  have len: "length ks = length xs" using traverse_length [OF ks] .
  have key: "key (snd p) = Inr (fst p)" if "p \<in> set (zip ks xs)" for p
    using that al by (auto simp: set_zip list_all2_conv_all_nth)
  let ?m = "min_by fst (zip ks xs)"
  have m: "?m \<in> set (zip ks xs)" using assms(2) len by (intro min_by_in) (cases ks; cases xs; auto)
  have "\<exists>k'. key y = Inr k' \<and> fst ?m \<le> k'" if "y \<in> set xs" for y
  proof -
    obtain i where i: "i < length xs" "y = xs ! i" using \<open>y \<in> set xs\<close> by (auto simp: in_set_conv_nth)
    then have "(ks ! i, xs ! i) \<in> set (zip ks xs)" using len by (auto simp: set_zip)
    from key [OF this] min_by_least [OF this, of fst] show ?thesis using i by auto
  qed
  moreover have "snd ?m \<in> set xs" using m by (metis prod.collapse set_zip_rightD)
  ultimately show ?thesis using key [OF m] x by auto
qed

lemma min_result_total: "\<forall>x\<in>set xs. \<not> isl (key x) \<Longrightarrow> \<exists>x. min_result key xs = Inr x"
  by (cases "traverse key xs") (auto simp: min_result_def dest!: traverse_Inl)

lemma min_result_Inl: "min_result key xs = Inl e \<Longrightarrow> \<exists>x\<in>set xs. key x = Inl e"
  by (auto simp: min_result_def result_simps dest!: traverse_Inl)

lemma read_number_cases: "read_number d f = Inl e \<longleftrightarrow> f = Null \<and> e = TypeError"
  by (auto simp: read_number_def split: field.splits)

lemma isl_read_number [simp]: "isl (read_number d f) \<longleftrightarrow> f = Null"
  by (auto simp: read_number_def split: field.splits)

lemma eligible_Inr:
  assumes "eligible_candidates m min_active max_hotspot = Inr s" and "c \<in> set s"
  shows "c \<in> set (pareto_candidates m) \<and> (\<exists>a h. active_of c = Inr a \<and> hotspot_of c = Inr h \<and> min_active \<le> a \<and> h \<le> max_hotspot)"
  using assms by (auto simp: eligible_candidates_def filter_result_Inr result_simps split: if_splits)

lemma fallback_Inr:
  assumes "fallback_candidates m min_active max_hotspot max_deficit = Inr s" and "c \<in> set s"
  shows "c \<in> set (pareto_candidates m) \<and> (\<exists>h q. hotspot_of c = Inr h \<and> active_deficit_ratio c min_active = Inr q \<and>
    h \<le> max_hotspot \<and> q \<le> max_deficit)"
  using assms by (auto simp: fallback_candidates_def filter_result_Inr result_simps split: if_splits)

lemma pick_in:
  "pick_strict m s = Inr c \<Longrightarrow> s \<noteq> [] \<Longrightarrow> c \<in> set s"
  "pick_fallback m min_active s = Inr c \<Longrightarrow> s \<noteq> [] \<Longrightarrow> c \<in> set s"
  unfolding pick_strict_def pick_fallback_def by (meson min_result_least)+

text \<open>A key that starts with the deficit makes the deficit least.\<close>

lemma min_result_deficit:
  fixes key :: "candidate \<Rightarrow> (real \<times> 'k::linorder) result"
  assumes "min_result key r = Inr c" and "r \<noteq> []"
    and first: "\<And>c k. key c = Inr k \<Longrightarrow> active_deficit_ratio c min_active = Inr (fst k)"
  shows "\<exists>q. active_deficit_ratio c min_active = Inr q \<and>
    (\<forall>c'\<in>set r. \<exists>q'. active_deficit_ratio c' min_active = Inr q' \<and> q \<le> q')"
proof -
  obtain k where k: "key c = Inr k" "\<forall>y\<in>set r. \<exists>k'. key y = Inr k' \<and> k \<le> k'"
    using min_result_least [OF assms(1,2)] by blast
  have "\<exists>q'. active_deficit_ratio c' min_active = Inr q' \<and> fst k \<le> q'" if c': "c' \<in> set r" for c'
  proof -
    obtain k' where "key c' = Inr k'" "k \<le> k'" using k(2) c' by blast
    then show ?thesis using first by (cases k; cases k') (fastforce simp: less_eq_prod_def)
  qed
  then show ?thesis using first [OF k(1)] by blast
qed

lemma pick_fallback_least:
  assumes "pick_fallback m min_active r = Inr c" and "r \<noteq> []"
  shows "\<exists>q. active_deficit_ratio c min_active = Inr q \<and>
    (\<forall>c'\<in>set r. \<exists>q'. active_deficit_ratio c' min_active = Inr q' \<and> q \<le> q')"
proof (cases "mf_mechanism_version m = Some ''v3''")
  case True
  show ?thesis
    by (rule min_result_deficit [OF assms(1) [unfolded pick_fallback_def if_P [OF True]] assms(2)]) (auto simp: result_simps)
next
  case False
  show ?thesis
    by (rule min_result_deficit [OF assms(1) [unfolded pick_fallback_def if_not_P [OF False]] assms(2)])
       (auto simp: fallback_sort_key_def result_simps)
qed

lemma selection_respects_constraints_ok:
  assumes "select_candidate_decision m min_active max_hotspot max_deficit = Inr d"
  shows "de_selected d \<in> set (pareto_candidates m) \<and> active_of (de_selected d) = Inr (de_active_shards_mean d) \<and>
     hotspot_of (de_selected d) = Inr (de_stage_max_load_share d) \<and>
     active_deficit_ratio (de_selected d) min_active = Inr (de_active_deficit_ratio d) \<and>
     de_stage_max_load_share d \<le> max_hotspot \<and> de_stage_hotspot_excess d = 0 \<and>
     (if de_strict_feasible d
      then min_active \<le> de_active_shards_mean d \<and> de_strict_constraints_satisfied d \<and>
        (mf_mechanism_version m \<noteq> Some ''v3'' \<longrightarrow>
          (\<exists>s x. eligible_candidates m min_active max_hotspot = Inr s \<and> cross_of (de_selected d) = Inr x \<and>
             (\<forall>c\<in>set s. \<exists>y. cross_of c = Inr y \<and> x \<le> y)))
      else eligible_candidates m min_active max_hotspot = Inr [] \<and> de_fallback_constraints_satisfied d \<and>
        de_active_deficit_ratio d \<le> max_deficit \<and>
        (\<exists>s. fallback_candidates m min_active max_hotspot max_deficit = Inr s \<and>
          (\<forall>c\<in>set s. \<exists>q. active_deficit_ratio c min_active = Inr q \<and> de_active_deficit_ratio d \<le> q)))"
proof -
  obtain s where s: "eligible_candidates m min_active max_hotspot = Inr s"
    using assms by (auto simp: select_candidate_decision_def result_simps split: if_splits)
  show ?thesis
  proof (cases "s = []")
    case False
    obtain c where c: "pick_strict m s = Inr c" "decision_of m min_active max_hotspot max_deficit True c = Inr d"
      using assms False s by (auto simp: select_candidate_decision_def result_simps split: if_splits)
    have cs: "c \<in> set s" by (rule pick_in(1) [OF c(1) False])
    have "\<exists>x. cross_of c = Inr x \<and> (\<forall>c'\<in>set s. \<exists>y. cross_of c' = Inr y \<and> x \<le> y)" if legacy: "mf_mechanism_version m \<noteq> Some ''v3''"
    proof -
      obtain k where k: "strict_sort_key c = Inr k" "\<forall>y\<in>set s. \<exists>k'. strict_sort_key y = Inr k' \<and> k \<le> k'"
        using c(1) legacy min_result_least [of strict_sort_key s c] False unfolding pick_strict_def by metis
      obtain x where x: "cross_of c = Inr x" "fst k = x" using k(1) by (auto simp: strict_sort_key_def result_simps)
      have "\<exists>y. cross_of c' = Inr y \<and> x \<le> y" if "c' \<in> set s" for c'
        using k(2) that x(2) by (fastforce simp: strict_sort_key_def result_simps less_eq_prod_def)
      then show ?thesis using x(1) by blast
    qed
    then show ?thesis using eligible_Inr [OF s cs] c(2) s by (auto simp: decision_of_def result_simps)
  next
    case True
    obtain r c where r: "fallback_candidates m min_active max_hotspot max_deficit = Inr r" "r \<noteq> []"
      and c: "pick_fallback m min_active r = Inr c" "decision_of m min_active max_hotspot max_deficit False c = Inr d"
      using assms True s by (auto simp: select_candidate_decision_def result_simps split: if_splits)
    have least: "\<exists>q. active_deficit_ratio c min_active = Inr q \<and>
        (\<forall>c'\<in>set r. \<exists>q'. active_deficit_ratio c' min_active = Inr q' \<and> q \<le> q')"
      by (rule pick_fallback_least [OF c(1) r(2)])
    have "c \<in> set r" by (rule pick_in(2) [OF c(1) r(2)])
    from fallback_Inr [OF r(1) this] least show ?thesis using c(2) r(1) s True by (auto simp: decision_of_def result_simps)
  qed
qed

text \<open>
  C29. The selection never relaxes the hotspot cap. When it returns, the selected checkpoint
  is one of the frontier's candidates with a path and its stage hotspot is within the cap;
  if some candidate meets both constraints, so does the selected one, and in the legacy
  version no such candidate has a smaller cross-shard ratio; otherwise the selected one
  misses the active-shard target by at most the tolerance, and no candidate within the cap
  and the tolerance misses it by less. The audit fields agree with the selected checkpoint.
\<close>

theorem selection_respects_constraints:
  assumes "select_candidate_decision m min_active max_hotspot max_deficit = Inr d"
  shows "de_selected d \<in> set (pareto_candidates m) \<and> active_of (de_selected d) = Inr (de_active_shards_mean d) \<and>
     hotspot_of (de_selected d) = Inr (de_stage_max_load_share d) \<and>
     active_deficit_ratio (de_selected d) min_active = Inr (de_active_deficit_ratio d) \<and>
     de_stage_max_load_share d \<le> max_hotspot \<and> de_stage_hotspot_excess d = 0 \<and>
     (if de_strict_feasible d
      then min_active \<le> de_active_shards_mean d \<and> de_strict_constraints_satisfied d \<and>
        (mf_mechanism_version m \<noteq> Some ''v3'' \<longrightarrow>
          (\<exists>s x. eligible_candidates m min_active max_hotspot = Inr s \<and> cross_of (de_selected d) = Inr x \<and>
             (\<forall>c\<in>set s. \<exists>y. cross_of c = Inr y \<and> x \<le> y)))
      else eligible_candidates m min_active max_hotspot = Inr [] \<and> de_fallback_constraints_satisfied d \<and>
        de_active_deficit_ratio d \<le> max_deficit \<and>
        (\<exists>s. fallback_candidates m min_active max_hotspot max_deficit = Inr s \<and>
          (\<forall>c\<in>set s. \<exists>q. active_deficit_ratio c min_active = Inr q \<and> de_active_deficit_ratio d \<le> q)))"
  by (rule selection_respects_constraints_ok [OF assms])

definition demo_candidate :: "real \<Rightarrow> real \<Rightarrow> candidate" where
  "demo_candidate active hotspot = \<lparr>ca_checkpoint_path = Present ''m.pt'', ca_active_shards_mean = Present active,
     ca_stage_max_load_share = Present hotspot, ca_cross_ratio = Present 0.5, ca_epoch = Missing,
     ca_event = Null, ca_validation_score = Missing\<rparr>"

definition demo_manifest :: manifest where
  "demo_manifest = \<lparr>mf_mechanism_version = None,
     mf_pareto_frontier = [demo_candidate 7.8 0.3, demo_candidate 7.9 0.4]\<rparr>"

lemmas reads = active_of_def hotspot_of_def cross_of_def epoch_of_def event_of_def score_of_def read_number_def

lemma demo_decision:
  "\<exists>d. select_candidate_decision demo_manifest 8 0.35 0.05 = Inr d \<and> \<not> de_strict_feasible d"
  by (simp add: select_candidate_decision_def eligible_candidates_def fallback_candidates_def
      pareto_candidates_def demo_manifest_def demo_candidate_def reads fallback_sort_key_def min_result_def
      active_deficit_ratio_def pick_fallback_def decision_of_def min_by_def)

theorem selection_respects_constraints_witness:
  "\<exists>d. select_candidate_decision demo_manifest 8 0.35 0.05 = Inr d \<and> de_stage_max_load_share d \<le> 0.35 \<and>
     de_active_deficit_ratio d \<le> 0.05"
proof -
  obtain d where d: "select_candidate_decision demo_manifest 8 0.35 0.05 = Inr d" "\<not> de_strict_feasible d"
    using demo_decision by blast
  from selection_respects_constraints [OF d(1)] show ?thesis using d by auto
qed

text \<open>What makes a candidate unreadable, and what makes it acceptable.\<close>

definition null_field :: "manifest \<Rightarrow> candidate \<Rightarrow> bool" where
  "null_field m c \<longleftrightarrow> ca_active_shards_mean c = Null \<or> ca_stage_max_load_share c = Null \<or> ca_cross_ratio c = Null \<or>
     ca_epoch c = Null \<or> (mf_mechanism_version m = Some ''v3'' \<and> ca_validation_score c = Null)"

definition no_score :: "manifest \<Rightarrow> candidate \<Rightarrow> bool" where
  "no_score m c \<longleftrightarrow> mf_mechanism_version m = Some ''v3'' \<and> ca_validation_score c = Missing"

definition acceptable :: "real \<Rightarrow> real \<Rightarrow> real \<Rightarrow> candidate \<Rightarrow> bool" where
  "acceptable min_active max_hotspot max_deficit c \<longleftrightarrow> (\<exists>a h. active_of c = Inr a \<and> hotspot_of c = Inr h \<and>
     h \<le> max_hotspot \<and> (min_active - a) / min_active \<le> max_deficit)"

text \<open>The errors that reading a candidate can give.\<close>

definition read_error :: "manifest \<Rightarrow> candidate \<Rightarrow> exn \<Rightarrow> bool" where
  "read_error m c e \<longleftrightarrow> (e = TypeError \<and> null_field m c) \<or> (e = KeyError \<and> no_score m c)"

lemma read_errors:
  "active_of c = Inl e \<Longrightarrow> read_error m c e" "hotspot_of c = Inl e \<Longrightarrow> read_error m c e"
  "cross_of c = Inl e \<Longrightarrow> read_error m c e" "epoch_of c = Inl e \<Longrightarrow> read_error m c e"
  "active_deficit_ratio c min_active = Inl e \<Longrightarrow> read_error m c e"
  "mf_mechanism_version m = Some ''v3'' \<Longrightarrow> score_of c = Inl e \<Longrightarrow> read_error m c e"
  by (auto simp: active_of_def hotspot_of_def cross_of_def epoch_of_def score_of_def active_deficit_ratio_def read_error_def
      null_field_def no_score_def read_number_cases result_simps split: field.splits)

lemma key_errors:
  "strict_sort_key c = Inl e \<Longrightarrow> read_error m c e" "fallback_sort_key c min_active = Inl e \<Longrightarrow> read_error m c e"
  by (auto simp: strict_sort_key_def fallback_sort_key_def result_simps intro: read_errors)

lemma pick_errors:
  "pick_strict m s = Inl e \<Longrightarrow> \<exists>c\<in>set s. read_error m c e"
  "pick_fallback m min_active s = Inl e \<Longrightarrow> \<exists>c\<in>set s. read_error m c e"
  by (auto simp: pick_strict_def pick_fallback_def result_simps dest!: min_result_Inl
      intro!: bexI [rotated, where P = "\<lambda>c. read_error m c e"] intro: read_errors key_errors split: if_splits)

lemma candidate_list_errors:
  "eligible_candidates m min_active max_hotspot = Inl e \<Longrightarrow> \<exists>c\<in>set (pareto_candidates m). read_error m c e"
  "fallback_candidates m min_active max_hotspot max_deficit = Inl e \<Longrightarrow> \<exists>c\<in>set (pareto_candidates m). read_error m c e"
  by (auto simp: eligible_candidates_def fallback_candidates_def result_simps dest!: filter_result_Inl
      intro!: bexI [rotated, where P = "\<lambda>c. read_error m c e"] intro: read_errors split: if_splits)

lemma fallback_empty_iff:
  assumes "fallback_candidates m min_active max_hotspot max_deficit = Inr r" and "0 \<le> max_deficit"
  shows "r = [] \<longleftrightarrow> (\<forall>c\<in>set (pareto_candidates m). \<not> acceptable min_active max_hotspot max_deficit c)"
proof -
  have "(case hotspot_of c of Inl e \<Rightarrow> Inl e | Inr h \<Rightarrow> if h \<le> max_hotspot
      then bind_result (active_deficit_ratio c min_active) (\<lambda>q. return (q \<le> max_deficit)) else return False) = Inr True \<longleftrightarrow>
      acceptable min_active max_hotspot max_deficit c" for c
    using assms(2) by (cases "hotspot_of c"; cases "active_of c") (auto simp: acceptable_def active_deficit_ratio_def)
  moreover have "bind_result (hotspot_of c) f = (case hotspot_of c of Inl e \<Rightarrow> Inl e | Inr h \<Rightarrow> f h)" for c and f :: "real \<Rightarrow> bool result"
    by (cases "hotspot_of c") simp_all
  ultimately show ?thesis
    using assms(1) unfolding fallback_candidates_def filter_result_Inr by (auto simp: filter_empty_conv)
qed

text \<open>
  C31. The errors of the selection, for candidates whose fields are missing, null or finite
  numbers. Invalid bounds are a ValueError. With valid bounds, if no
  candidate with a path has a null among its numbers and, for version 3, none lacks a validation
  score, the selection fails exactly when no candidate is within the hotspot cap and the tolerance
  of the active-shard target, and then with a RuntimeError. Every other failure with valid bounds
  is a TypeError or a KeyError, and then some candidate has such a null or lacks its score.
\<close>

theorem selection_errors:
  "if min_active \<le> 0 \<or> max_hotspot < 0 \<or> 1 < max_hotspot \<or> max_deficit < 0 \<or> 1 < max_deficit
   then select_candidate_decision m min_active max_hotspot max_deficit = Inl ValueError
   else (case select_candidate_decision m min_active max_hotspot max_deficit of
       Inr d \<Rightarrow> \<exists>c\<in>set (pareto_candidates m). acceptable min_active max_hotspot max_deficit c
     | Inl e \<Rightarrow> (e = RuntimeError \<and> (\<forall>c\<in>set (pareto_candidates m). \<not> acceptable min_active max_hotspot max_deficit c)) \<or>
         (e = TypeError \<and> (\<exists>c\<in>set (pareto_candidates m). null_field m c)) \<or>
         (e = KeyError \<and> (\<exists>c\<in>set (pareto_candidates m). no_score m c)))"
proof (cases "min_active \<le> 0 \<or> max_hotspot < 0 \<or> 1 < max_hotspot \<or> max_deficit < 0 \<or> 1 < max_deficit")
  case True
  then show ?thesis by (auto simp: select_candidate_decision_def not_le)
next
  case False
  let ?sel = "select_candidate_decision m min_active max_hotspot max_deficit"
  let ?bad = "\<lambda>e. \<exists>c\<in>set (pareto_candidates m). read_error m c e"
  have sel: "?sel = bind_result (eligible_candidates m min_active max_hotspot) (\<lambda>strict.
      if strict \<noteq> [] then bind_result (pick_strict m strict) (decision_of m min_active max_hotspot max_deficit True)
      else bind_result (fallback_candidates m min_active max_hotspot max_deficit) (\<lambda>relaxed.
        if relaxed = [] then raise RuntimeError
        else bind_result (pick_fallback m min_active relaxed) (decision_of m min_active max_hotspot max_deficit False)))"
    using False by (simp add: select_candidate_decision_def not_le)
  have dec: "?bad e" if "decision_of m min_active max_hotspot max_deficit b c = Inl e" "c \<in> set (pareto_candidates m)" for b c e
    using that by (auto simp: decision_of_def result_simps intro!: bexI [of _ c] intro: read_errors)
  show ?thesis
  proof (cases ?sel)
    case (Inr d)
    note ok = selection_respects_constraints_ok [OF Inr]
    have "(min_active - de_active_shards_mean d) / min_active \<le> max_deficit"
    proof (cases "de_strict_feasible d")
      case True
      then have "(min_active - de_active_shards_mean d) / min_active \<le> 0"
        using ok False by (simp add: divide_nonpos_pos not_le)
      then show ?thesis using False by linarith
    next
      case strict: False
      then have "max 0 ((min_active - de_active_shards_mean d) / min_active) \<le> max_deficit"
        using ok by (auto simp: active_deficit_ratio_def)
      then show ?thesis by simp
    qed
    then have "acceptable min_active max_hotspot max_deficit (de_selected d)" using ok by (auto simp: acceptable_def)
    then show ?thesis using False Inr ok by auto
  next
    case (Inl e)
    have "?bad e \<or> (e = RuntimeError \<and> fallback_candidates m min_active max_hotspot max_deficit = Inr [])"
    proof (cases "eligible_candidates m min_active max_hotspot")
      case s: (Inr s)
      show ?thesis
      proof (cases "s = []")
        case False
        have "?bad e" if "pick_strict m s = Inl e" using pick_errors(1) [OF that] eligible_Inr [OF s] by blast
        moreover have "?bad e" if "pick_strict m s = Inr c" "decision_of m min_active max_hotspot max_deficit True c = Inl e" for c
          by (rule dec [OF that(2)]) (use eligible_Inr [OF s pick_in(1) [OF that(1) False]] in blast)
        ultimately show ?thesis using Inl sel s False by (auto simp: result_simps)
      next
        case True
        show ?thesis
        proof (cases "fallback_candidates m min_active max_hotspot max_deficit")
          case r: (Inr r)
          have "?bad e" if "pick_fallback m min_active r = Inl e" using pick_errors(2) [OF that] fallback_Inr [OF r] by blast
          moreover have "?bad e" if "r \<noteq> []" "pick_fallback m min_active r = Inr c"
              "decision_of m min_active max_hotspot max_deficit False c = Inl e" for c
            by (rule dec [OF that(3)]) (use fallback_Inr [OF r pick_in(2) [OF that(2,1)]] in blast)
          ultimately show ?thesis using Inl sel s True r by (cases "r = []") (auto simp: result_simps)
        qed (use Inl sel s True candidate_list_errors(2) in simp)
      qed
    qed (use Inl sel candidate_list_errors(1) in simp)
    moreover have "\<forall>c\<in>set (pareto_candidates m). \<not> acceptable min_active max_hotspot max_deficit c"
      if "fallback_candidates m min_active max_hotspot max_deficit = Inr []"
      using fallback_empty_iff [OF that] False by simp
    ultimately show ?thesis using False Inl by (auto simp: read_error_def)
  qed
qed

theorem selection_errors_witness:
  "select_candidate_decision demo_manifest 8 0.1 0.05 = Inl RuntimeError \<and>
   \<not> (\<exists>c\<in>set (pareto_candidates demo_manifest). acceptable 8 0.1 0.05 c)"
proof -
  have none: "\<not> (\<exists>c\<in>set (pareto_candidates demo_manifest). acceptable 8 0.1 0.05 c)"
    "\<not> (\<exists>c\<in>set (pareto_candidates demo_manifest). null_field demo_manifest c \<or> no_score demo_manifest c)"
    by (auto simp: pareto_candidates_def demo_manifest_def demo_candidate_def acceptable_def null_field_def no_score_def reads)
  then show ?thesis
    using selection_errors [of 8 "0.1" "0.05" demo_manifest]
    by (cases "select_candidate_decision demo_manifest 8 0.1 0.05") auto
qed

section \<open>Configuration of a checkpoint\<close>

text \<open>
  A checkpoint has no configuration mismatch exactly when the mechanism versions agree
  (an absent one being legacy), every expected key is present, and its value matches: within
  the tolerance for floats, by equality otherwise.
\<close>

theorem no_mismatch_iff:
  "checkpoint_config_mismatches extra expected = [] \<longleftrightarrow>
     py_eq (get_or (extra ''mechanism_version'') (VStr ''legacy''))
           (get_or (map_of expected ''mechanism_version'') (VStr ''legacy'')) \<and>
     (\<forall>(key, v)\<in>set expected. \<exists>actual. extra key = Some actual \<and> value_matches actual v)"
  by (auto simp: checkpoint_config_mismatches_def key_mismatch_def Let_def split: option.splits if_splits
      dest!: bspec)

theorem no_mismatch_iff_witness:
  "checkpoint_config_mismatches [''num_shards'' \<mapsto> VInt 16] [(''num_shards'', VInt 16)] = [] \<and>
   checkpoint_config_mismatches Map.empty [(''num_shards'', VInt 16)] \<noteq> []"
  by (simp add: no_mismatch_iff scalar_eq_def value_matches_def get_or_def)

end
