(* ===== verification/IotMetrics.thy ===== *)
theory IotMetrics
  imports TxLoad
begin

text \<open>
  The IoT evaluation of \<open>iot_metrics.py\<close>: scenes of a window, totals per group, and the
  strict join of the transaction details of a chain run with the scenes of its window. Rows of
  the result files are dictionaries as in the sidecar theory; a scene is built only after its
  values were checked to be finite, so that totals are over \<open>real\<close>.
\<close>

section \<open>Helpers\<close>

definition address_key :: "string \<Rightarrow> string" where
  "address_key address =
     (let v = py_lower (py_strip address) in if starts_with ''0x'' v then drop 2 v else v)"

definition ratio :: "real \<Rightarrow> real \<Rightarrow> real option" where
  "ratio numerator denominator = (if denominator > 0 then Some (numerator / denominator) else None)"

definition rank_index :: "real \<Rightarrow> nat \<Rightarrow> nat" where
  "rank_index p n = nat (max 0 (min (int n - 1) (\<lceil>p * real n\<rceil> - 1)))"

definition nearest_rank :: "'a::linorder list \<Rightarrow> real \<Rightarrow> 'a option" where
  "nearest_rank vals p = (if vals = [] then None else Some (sort vals ! rank_index p (length vals)))"

section \<open>Scenes\<close>

record scene =
  sc_dataset_row :: int
  sc_tx_index :: int
  sc_sender :: string
  sc_recipient :: string
  sc_cost :: real
  sc_payload :: real
  sc_distance :: real
  sc_quality :: real
  sc_control :: bool

text \<open>The constructor with \<open>__post_init__\<close>.\<close>

definition make_scene ::
  "int \<Rightarrow> int \<Rightarrow> string \<Rightarrow> string \<Rightarrow> pyfloat \<Rightarrow> pyfloat \<Rightarrow> pyfloat \<Rightarrow> pyfloat \<Rightarrow> bool \<Rightarrow> scene result" where
  "make_scene dataset_row tx_index sender recipient cost payload distance quality control =
     (if \<not> list_all (\<lambda>v. is_finite v \<and> Fin 0 \<le> v) [cost, payload, distance, quality] \<or>
         Fin 1 < cost \<or> Fin 1 < quality \<or> dataset_row < 0 \<or> tx_index < 0
      then raise ValueError
      else return \<lparr>sc_dataset_row = dataset_row, sc_tx_index = tx_index, sc_sender = sender,
        sc_recipient = recipient, sc_cost = fin_val cost, sc_payload = fin_val payload,
        sc_distance = fin_val distance, sc_quality = fin_val quality, sc_control = control\<rparr>)"

text \<open>
  The scene of a row. Its number in the window is filled in by \<open>load_scenes\<close>: every number of a
  window that starts at \<open>start\<close> passes the same check as \<open>start\<close>.
\<close>

definition scene_of_row :: "int \<Rightarrow> row \<Rightarrow> scene result" where
  "scene_of_row start row =
     bind_result (scene_for_legacy_features row False) (\<lambda>legacy.
     bind_result (int_field row ''tx_index'') (\<lambda>tx_index.
     bind_result (get_str row ''from_address'') (\<lambda>sender.
     bind_result (get_str row ''to_address'') (\<lambda>recipient.
     bind_result (float_field row ''srcPayloadSize'') (\<lambda>src.
     bind_result (float_field row ''dstPayloadSize'') (\<lambda>dst.
     bind_result (float_field row ''distance_m'') (\<lambda>distance.
     bind_result (float_field row ''link_quality_forward'') (\<lambda>quality.
     bind_result (get_str row ''is_control_protocol'') (\<lambda>control.
       make_scene start tx_index (address_key sender) (address_key recipient)
         (iot_communication_cost_weight legacy) (src + dst) distance quality
         (py_strip control = ''1''))))))))))"

text \<open>The consumer of \<open>load_rows\<close> in \<open>load_scenes\<close> numbers its scenes from the start of the window.\<close>

definition load_scenes :: "int \<Rightarrow> string list list \<Rightarrow> row list \<Rightarrow> int \<Rightarrow> int \<Rightarrow> scene list result" where
  "load_scenes offset chain sidecar start count =
     (if start < 0 \<or> count \<le> 0 then raise ValueError
      else bind_result (load_rows (\<lambda>_ row. scene_of_row start row) offset chain sidecar start count) (\<lambda>scenes.
        return (map (\<lambda>(local_index, s). s\<lparr>sc_dataset_row := start + int local_index\<rparr>) (enumerate 0 scenes))))"

section \<open>Totals\<close>

record totals =
  to_count :: nat
  to_cross :: nat
  to_cost :: real
  to_cross_cost :: real
  to_payload :: real
  to_cross_payload :: real
  to_latencies :: "real list"

definition empty_totals :: totals where
  "empty_totals = \<lparr>to_count = 0, to_cross = 0, to_cost = 0, to_cross_cost = 0, to_payload = 0,
     to_cross_payload = 0, to_latencies = []\<rparr>"

definition totals_add :: "totals \<Rightarrow> scene \<Rightarrow> bool \<Rightarrow> pyfloat option \<Rightarrow> totals result" where
  "totals_add t s cross latency =
     (let t' = t\<lparr>to_count := to_count t + 1, to_cross := to_cross t + of_bool cross,
            to_cost := to_cost t + sc_cost s, to_cross_cost := to_cross_cost t + sc_cost s * of_bool cross,
            to_payload := to_payload t + sc_payload s,
            to_cross_payload := to_cross_payload t + sc_payload s * of_bool cross\<rparr>
      in case latency of
           None \<Rightarrow> return t'
         | Some l \<Rightarrow>
             if \<not> is_finite l \<or> l < Fin 0 then raise ValueError
             else return (t'\<lparr>to_latencies := to_latencies t' @ [fin_val l]\<rparr>))"

record totals_view =
  tv_count :: nat
  tv_cross_count :: nat
  tv_cross_ratio :: "real option"
  tv_scene_cost_sum :: real
  tv_cross_cost_sum :: real
  tv_scene_cost_mean :: "real option"
  tv_cost_weighted_cross_ratio :: "real option"
  tv_cross_cost_per_tx :: "real option"
  tv_payload_bytes_sum :: real
  tv_cross_payload_bytes_sum :: real
  tv_payload_weighted_cross_ratio :: "real option"
  tv_latency_count :: nat
  tv_mean_latency_sec :: "real option"
  tv_p95_latency_sec :: "real option"

definition totals_summary :: "totals \<Rightarrow> totals_view" where
  "totals_summary t =
     \<lparr>tv_count = to_count t, tv_cross_count = to_cross t,
      tv_cross_ratio = ratio (real (to_cross t)) (real (to_count t)),
      tv_scene_cost_sum = to_cost t, tv_cross_cost_sum = to_cross_cost t,
      tv_scene_cost_mean = ratio (to_cost t) (real (to_count t)),
      tv_cost_weighted_cross_ratio = ratio (to_cross_cost t) (to_cost t),
      tv_cross_cost_per_tx = ratio (to_cross_cost t) (real (to_count t)),
      tv_payload_bytes_sum = to_payload t, tv_cross_payload_bytes_sum = to_cross_payload t,
      tv_payload_weighted_cross_ratio = ratio (to_cross_payload t) (to_payload t),
      tv_latency_count = length (to_latencies t),
      tv_mean_latency_sec = ratio (sum_list (to_latencies t)) (real (length (to_latencies t))),
      tv_p95_latency_sec = nearest_rank (to_latencies t) (95 / 100)\<rparr>"

section \<open>Grouped metrics\<close>

datatype grp = AllTx | HighCost | HighPayload | LongDistance | WeakLink | ControlProtocol | OtherProtocol

record thresholds =
  th_high_cost_ge :: real
  th_high_payload_ge :: real
  th_long_distance_ge :: real
  th_weak_link_le :: real

record metric_manifest =
  mm_start_tx :: int
  mm_end_tx_exclusive :: int
  mm_thresholds :: thresholds

record metrics =
  me_manifest :: metric_manifest
  me_seen :: "int set"
  me_groups :: "grp \<Rightarrow> totals"

definition new_metrics :: "metric_manifest \<Rightarrow> metrics" where
  "new_metrics m = \<lparr>me_manifest = m, me_seen = {}, me_groups = (\<lambda>_. empty_totals)\<rparr>"

definition selected_groups :: "thresholds \<Rightarrow> scene \<Rightarrow> grp list" where
  "selected_groups t s =
     [AllTx, if sc_control s then ControlProtocol else OtherProtocol] @
     map fst (filter snd
       [(HighCost, sc_cost s \<ge> th_high_cost_ge t), (HighPayload, sc_payload s \<ge> th_high_payload_ge t),
        (LongDistance, sc_distance s \<ge> th_long_distance_ge t), (WeakLink, sc_quality s \<le> th_weak_link_le t)])"

definition add_to_group ::
  "scene \<Rightarrow> bool \<Rightarrow> pyfloat option \<Rightarrow> grp \<Rightarrow> (grp \<Rightarrow> totals) \<Rightarrow> (grp \<Rightarrow> totals) result" where
  "add_to_group s cross latency g groups =
     bind_result (totals_add (groups g) s cross latency) (\<lambda>t. return (groups(g := t)))"

definition metrics_add :: "scene \<Rightarrow> int \<Rightarrow> pyfloat option \<Rightarrow> metrics \<Rightarrow> metrics result" where
  "metrics_add s cross latency m =
     (if sc_dataset_row s \<in> me_seen m then raise ValueError
      else if cross \<notin> {0, 1} then raise ValueError
      else bind_result
        (fold_result (add_to_group s (cross = 1) latency)
           (selected_groups (mm_thresholds (me_manifest m)) s) (me_groups m))
        (\<lambda>groups. return (m\<lparr>me_seen := insert (sc_dataset_row s) (me_seen m), me_groups := groups\<rparr>)))"

definition metrics_summary :: "metrics \<Rightarrow> (grp \<Rightarrow> totals_view) result" where
  "metrics_summary m =
     (if me_seen m \<noteq> {mm_start_tx (me_manifest m)..<mm_end_tx_exclusive (me_manifest m)}
      then raise ValueError
      else return (\<lambda>g. totals_summary (me_groups m g)))"

section \<open>Joining the details of a chain run\<close>

definition HASH_COLUMN :: string where
  "HASH_COLUMN = ''TxHash (Byte -> Big Int)''"

definition META_COLUMNS :: "string list" where
  "META_COLUMNS = [''Tx local nonce'', ''Dataset row index'', ''Sender address'',
     ''Recipient address'', ''Sender shard'', ''Recipient shard'', ''Cross shard'']"

text \<open>The dictionary as the list of its items in insertion order.\<close>

definition add_unique :: "row \<Rightarrow> (int \<times> row) list \<Rightarrow> (int \<times> row) list result" where
  "add_unique row result =
     (let v = cell row HASH_COLUMN in
      if v = [] \<or> \<not> is_digits v then raise ValueError
      else case py_int 10 v of
             None \<Rightarrow> raise ValueError
           | Some key \<Rightarrow> if key \<in> fst ` set result then raise ValueError else return (result @ [(key, row)]))"

definition unique_by_hash :: "row list \<Rightarrow> (int \<times> row) list result" where
  "unique_by_hash rows = fold_result add_unique rows []"

definition ends_with :: "string \<Rightarrow> string \<Rightarrow> bool" where
  "ends_with suffix s = starts_with (rev suffix) (rev s)"

text \<open>The comparison of one recovered column with the measured one.\<close>

definition check_column :: "row \<Rightarrow> row \<Rightarrow> string \<Rightarrow> unit result" where
  "check_column detail meta name =
     (if ends_with ''address'' name then
        check (address_key (str_field detail name) = address_key (str_field meta name)) ValueError
      else bind_result (int_field detail name) (\<lambda>a.
           bind_result (int_field meta name) (\<lambda>b. check (a = b) ValueError)))"

text \<open>\<open>float(detail.get(field) or "nan")\<close>.\<close>

definition float_or_nan :: "row \<Rightarrow> string \<Rightarrow> pyfloat result" where
  "float_or_nan row field =
     (let t = cell row field; t = (if t \<noteq> [] then t else ''nan'')
      in case py_float t of None \<Rightarrow> raise ValueError | Some x \<Rightarrow> return x)"

definition fabs :: "pyfloat \<Rightarrow> pyfloat" where
  "fabs x = (case x of Fin a \<Rightarrow> Fin \<bar>a\<bar> | NInf \<Rightarrow> PInf | y \<Rightarrow> y)"

definition RELAY1 :: string where
  "RELAY1 = ''Relay1 Tx commit timestamp (not a relay tx -> nil)''"

definition RELAY2 :: string where
  "RELAY2 = ''Relay2 Tx commit timestamp (not a relay tx -> nil)''"

definition BROKER_COLUMNS :: "string list" where
  "BROKER_COLUMNS = [''Broker1 Tx commit timestamp (not a broker tx -> nil)'',
     ''Broker2 Tx commit timestamp (not a broker tx -> nil)'']"

text \<open>The latency of a detail row, after the checks of its timestamps.\<close>

definition checked_latency :: "row \<Rightarrow> bool \<Rightarrow> pyfloat result" where
  "checked_latency detail cross =
     bind_result (float_or_nan detail ''Tx propose timestamp'') (\<lambda>proposed.
     bind_result (float_or_nan detail ''Tx finally commit timestamp'') (\<lambda>committed.
     bind_result (float_or_nan detail ''Confirmed latency of this tx (ms)'') (\<lambda>latency_ms.
       if \<not> list_all is_finite [proposed, committed, latency_ms] \<or> proposed \<le> Fin 0 \<or>
          committed < proposed \<or> latency_ms < Fin 0 then raise ValueError
       else if Fin 1.01 < fabs ((committed - proposed) - latency_ms) then raise ValueError
       else if \<not> cross then return latency_ms
       else
         (case (py_float (cell detail RELAY1), py_float (cell detail RELAY2)) of
            (Some r1, Some r2) \<Rightarrow>
              if is_finite r1 \<and> is_finite r2 \<and> proposed \<le> r1 \<and> r1 \<le> r2 \<and> r2 = committed
              then return latency_ms else raise ValueError
          | _ \<Rightarrow> raise ValueError))))"

record join_state =
  js_metrics :: metrics
  js_stage_loads :: "nat list"
  js_effective_loads :: "real list"

definition add_loads :: "nat \<Rightarrow> nat \<Rightarrow> bool \<Rightarrow> join_state \<Rightarrow> join_state" where
  "add_loads sender recipient cross st =
     (if cross
      then st\<lparr>js_stage_loads := bump recipient 1 (bump sender 1 (js_stage_loads st)),
              js_effective_loads := bump recipient (1/2) (bump sender (1/2) (js_effective_loads st))\<rparr>
      else st\<lparr>js_stage_loads := bump sender 1 (js_stage_loads st),
              js_effective_loads := bump sender 1 (js_effective_loads st)\<rparr>)"

text \<open>One turn of the loop over the details.\<close>

definition join_row ::
  "bool \<Rightarrow> (int \<rightharpoonup> row) \<Rightarrow> (int \<rightharpoonup> scene) \<Rightarrow> int \<Rightarrow> nat \<Rightarrow> int \<times> row \<Rightarrow> join_state \<Rightarrow> join_state result" where
  "join_row recovered meta_of by_row start shards kd st =
     (case kd of (key, detail) \<Rightarrow>
        (case meta_of key of
           None \<Rightarrow> raise KeyError
         | Some meta \<Rightarrow>
             bind_result (check (list_all (\<lambda>n. str_field meta n \<noteq> []) META_COLUMNS) ValueError) (\<lambda>_.
             bind_result (if recovered \<and> list_all (\<lambda>n. str_field detail n \<noteq> []) META_COLUMNS
                          then traverse (check_column detail meta) META_COLUMNS else return []) (\<lambda>_.
             bind_result (int_field meta ''Dataset row index'') (\<lambda>index.
             case by_row index of
               None \<Rightarrow> raise ValueError
             | Some s \<Rightarrow>
                 bind_result (int_field meta ''Tx local nonce'') (\<lambda>nonce.
                 if nonce \<noteq> index - start then raise ValueError
                 else if (address_key (str_field meta ''Sender address''),
                          address_key (str_field meta ''Recipient address'')) \<noteq> (sc_sender s, sc_recipient s)
                 then raise ValueError
                 else
                   bind_result (int_field meta ''Sender shard'') (\<lambda>sender.
                   bind_result (int_field meta ''Recipient shard'') (\<lambda>recipient.
                   if \<not> (0 \<le> sender \<and> sender < int shards \<and> 0 \<le> recipient \<and> recipient < int shards)
                   then raise ValueError
                   else bind_result (int_field meta ''Cross shard'') (\<lambda>cross.
                   if cross \<notin> {0, 1} \<or> cross \<noteq> of_bool (sender \<noteq> recipient) then raise ValueError
                   else if (cell detail RELAY1 \<noteq> []) \<noteq> (cross = 1) \<or> (cell detail RELAY2 \<noteq> []) \<noteq> (cross = 1)
                   then raise ValueError
                   else if list_ex (\<lambda>n. cell detail n \<noteq> []) BROKER_COLUMNS then raise ValueError
                   else bind_result (checked_latency detail (cross = 1)) (\<lambda>latency_ms.
                     bind_result (metrics_add s cross (Some (fdiv latency_ms (Fin 1000))) (js_metrics st))
                       (\<lambda>m. return (add_loads (nat sender) (nat recipient) (cross = 1)
                              (st\<lparr>js_metrics := m\<rparr>)))))))))))))"

record chain_report =
  cp_groups :: "grp \<Rightarrow> totals_view"
  cp_execution_load :: load_stats
  cp_amplification :: "real option"
  cp_effective_load :: load_stats
  cp_expected_count :: nat
  cp_matched_count :: nat

definition analyze_chain_details ::
  "row list \<Rightarrow> scene list \<Rightarrow> metric_manifest \<Rightarrow> nat \<Rightarrow> row list option \<Rightarrow> chain_report result" where
  "analyze_chain_details detail_rows scenes manifest shards metadata_rows =
     bind_result (unique_by_hash detail_rows) (\<lambda>details.
     bind_result (case metadata_rows of None \<Rightarrow> return details | Some rows \<Rightarrow> unique_by_hash rows) (\<lambda>metas.
       if fst ` set details \<noteq> fst ` set metas \<or> length details \<noteq> length scenes then raise ValueError
       else
         bind_result
           (fold_result
              (join_row (metadata_rows \<noteq> None) (map_of metas)
                 (map_of (rev (map (\<lambda>s. (sc_dataset_row s, s)) scenes))) (mm_start_tx manifest) shards)
              details
              \<lparr>js_metrics = new_metrics manifest, js_stage_loads = replicate shards 0,
               js_effective_loads = replicate shards 0\<rparr>) (\<lambda>st.
         bind_result (metrics_summary (js_metrics st)) (\<lambda>groups.
         bind_result (load_statistics (map (Fin \<circ> real) (js_stage_loads st))) (\<lambda>execution.
         bind_result (load_statistics (map Fin (js_effective_loads st))) (\<lambda>effective.
           return \<lparr>cp_groups = groups, cp_execution_load = execution,
             cp_amplification = ratio (real (sum_list (js_stage_loads st))) (real (length scenes)),
             cp_effective_load = effective, cp_expected_count = length scenes,
             cp_matched_count = length details\<rparr>))))))"

end
