(* ===== verification/MetricsTheorems.thy ===== *)
theory MetricsTheorems
  imports IotMetrics
begin

text \<open>
  Correctness of the IoT evaluation: the nearest-rank quantile, the totals of the groups as sums
  over the contributed scenes, and the strict join of a chain run with its window.
\<close>

section \<open>The nearest-rank quantile\<close>

lemma filter_le_nth_sorted:
  assumes "sorted xs" and "k < length xs"
  shows "Suc k \<le> length (filter (\<lambda>x. x \<le> xs ! k) xs)" and "length (filter (\<lambda>x. x < xs ! k) xs) \<le> k"
proof -
  let ?le = "\<lambda>x. x \<le> xs ! k" and ?lt = "\<lambda>x. x < xs ! k"
  have split: "xs = take (Suc k) xs @ drop (Suc k) xs" "xs = take k xs @ drop k xs" by simp_all
  have "?le x" if "x \<in> set (take (Suc k) xs)" for x
    using that assms by (auto simp: in_set_conv_nth sorted_nth_mono)
  then have "filter ?le (take (Suc k) xs) = take (Suc k) xs" by (simp add: filter_id_conv)
  moreover have "length (filter ?le xs) = length (filter ?le (take (Suc k) xs)) + length (filter ?le (drop (Suc k) xs))"
    by (metis split(1) filter_append length_append)
  ultimately show "Suc k \<le> length (filter ?le xs)" using assms(2) by simp
  have "\<not> ?lt x" if "x \<in> set (drop k xs)" for x
    using that assms by (auto simp: in_set_conv_nth not_less sorted_nth_mono)
  then have "filter ?lt (drop k xs) = []" by (simp add: filter_empty_conv)
  moreover have "length (filter ?lt xs) = length (filter ?lt (take k xs)) + length (filter ?lt (drop k xs))"
    by (metis split(2) filter_append length_append)
  ultimately show "length (filter ?lt xs) \<le> k"
    using length_filter_le [of ?lt "take k xs"] by simp
qed

lemma length_filter_sort: "length (filter P (sort xs)) = length (filter P xs)"
  by (metis filter_sort length_sort)

lemma rank_index_bounds:
  assumes "0 < p" and "p \<le> 1" and "0 < n"
  shows "rank_index p n < n" and "real (rank_index p n) < p * real n" and "p * real n \<le> real (Suc (rank_index p n))"
proof -
  have "0 < \<lceil>p * real n\<rceil>" using assms by (simp add: zero_less_ceiling)
  moreover have "\<lceil>p * real n\<rceil> \<le> int n" using assms by (simp add: ceiling_le_iff mult_left_le_one_le)
  ultimately have r: "int (rank_index p n) = \<lceil>p * real n\<rceil> - 1" by (simp add: rank_index_def)
  then show "rank_index p n < n" using \<open>\<lceil>p * real n\<rceil> \<le> int n\<close> by linarith
  have "real (rank_index p n) = real_of_int \<lceil>p * real n\<rceil> - 1" using r by linarith
  then show "real (rank_index p n) < p * real n" "p * real n \<le> real (Suc (rank_index p n))"
    using ceiling_correct [of "p * real n"] by linarith+
qed

text \<open>
  The nearest-rank quantile is a quantile: of a nonempty list and a probability of the
  half-open unit interval it is a member of the list, at least that share of the list is at
  most it, and less than that share is smaller; of an empty list there is none.
\<close>

theorem nearest_rank_quantile:
  assumes "0 < p" and "p \<le> 1"
  shows "nearest_rank [] p = (None :: 'a::linorder option) \<and>
         (vals \<noteq> [] \<longrightarrow> (\<exists>q. nearest_rank vals p = Some (q :: 'a) \<and> q \<in> set vals \<and>
            p * real (length vals) \<le> real (length (filter (\<lambda>v. v \<le> q) vals)) \<and>
            real (length (filter (\<lambda>v. v < q) vals)) < p * real (length vals)))"
proof (cases "vals = []")
  case True
  then show ?thesis by (simp add: nearest_rank_def)
next
  case False
  let ?k = "rank_index p (length vals)"
  note b = rank_index_bounds [OF assms, of "length vals"]
  have k: "?k < length vals" using b(1) False by simp
  note f = filter_le_nth_sorted [OF sorted_sort, of ?k vals, unfolded length_filter_sort length_sort, OF k]
  have "sort vals ! ?k \<in> set vals" using k by (metis length_sort nth_mem set_sort)
  moreover have "p * real (length vals) \<le> real (length (filter (\<lambda>v. v \<le> sort vals ! ?k) vals))"
    using b(3) f(1) False by (simp add: order_trans)
  moreover have "real (length (filter (\<lambda>v. v < sort vals ! ?k) vals)) < p * real (length vals)"
    using b(2) f(2) False by (simp add: le_less_trans)
  ultimately show ?thesis using False by (simp add: nearest_rank_def)
qed

theorem nearest_rank_quantile_witness:
  "\<exists>q. nearest_rank [3, 1, 2, 5, 4 :: real] (4/5) = Some q \<and> length (filter (\<lambda>v. v \<le> q) [3, 1, 2, 5, 4]) \<ge> 4"
  using nearest_rank_quantile [of "4/5" "[3, 1, 2, 5, 4 :: real]"] by fastforce

section \<open>Totals of the groups\<close>

text \<open>
  A contribution is a scene with its cross indicator and its latency. The measurement adds the
  contributions of a run one after the other.
\<close>

type_synonym contribution = "scene \<times> int \<times> pyfloat option"

definition add_all :: "contribution list \<Rightarrow> metrics \<Rightarrow> metrics result" where
  "add_all = fold_result (\<lambda>(s, cross, latency). metrics_add s cross latency)"

definition row_of :: "contribution \<Rightarrow> int" where
  "row_of x = sc_dataset_row (fst x)"

definition members :: "thresholds \<Rightarrow> grp \<Rightarrow> contribution list \<Rightarrow> contribution list" where
  "members t g hist = filter (\<lambda>(s, cross, latency). g \<in> set (selected_groups t s)) hist"

text \<open>The groups of a scene: the membership test of each group.\<close>

lemma in_selected_groups [simp]:
  "AllTx \<in> set (selected_groups t s)"
  "ControlProtocol \<in> set (selected_groups t s) \<longleftrightarrow> sc_control s"
  "OtherProtocol \<in> set (selected_groups t s) \<longleftrightarrow> \<not> sc_control s"
  "HighCost \<in> set (selected_groups t s) \<longleftrightarrow> th_high_cost_ge t \<le> sc_cost s"
  "HighPayload \<in> set (selected_groups t s) \<longleftrightarrow> th_high_payload_ge t \<le> sc_payload s"
  "LongDistance \<in> set (selected_groups t s) \<longleftrightarrow> th_long_distance_ge t \<le> sc_distance s"
  "WeakLink \<in> set (selected_groups t s) \<longleftrightarrow> sc_quality s \<le> th_weak_link_le t"
  by (force simp: selected_groups_def image_iff)+

lemma members_simps [simp]:
  "members t g [] = []"
  "members t g (hist @ [(s, c, l)]) = members t g hist @ (if g \<in> set (selected_groups t s) then [(s, c, l)] else [])"
  "members t AllTx hist = hist"
  by (simp_all add: members_def split_def)

lemma distinct_selected_groups: "distinct (selected_groups t s)"
  by (simp add: selected_groups_def)

lemma add_to_group_result:
  assumes "add_to_group s c l g gs = Inr gs'"
  shows "\<exists>t. totals_add (gs g) s c l = Inr t \<and> gs' = gs(g := t)"
  using assms by (auto simp: add_to_group_def result_simps)

text \<open>Adding a scene to distinct groups changes exactly these, each once.\<close>

lemma fold_add_to_group:
  assumes "fold_result (add_to_group s c l) names gs = Inr gs'" and "distinct names"
  shows "if g \<in> set names then totals_add (gs g) s c l = Inr (gs' g) else gs' g = gs g"
  using assms
proof (induction names arbitrary: gs)
  case Nil
  then show ?case by simp
next
  case (Cons n names)
  then obtain t where t: "totals_add (gs n) s c l = Inr t" "fold_result (add_to_group s c l) names (gs(n := t)) = Inr gs'"
    by (auto simp: result_simps dest!: add_to_group_result)
  from Cons.IH [OF t(2)] Cons.prems(2) t(1) show ?case by (auto split: if_splits)
qed

lemma metrics_add_result:
  assumes "metrics_add s c l m = Inr m'"
  shows "sc_dataset_row s \<notin> me_seen m" and "c = 0 \<or> c = 1" and "me_manifest m' = me_manifest m"
    and "me_seen m' = insert (sc_dataset_row s) (me_seen m)"
    and "if g \<in> set (selected_groups (mm_thresholds (me_manifest m)) s)
         then totals_add (me_groups m g) s (c = 1) l = Inr (me_groups m' g)
         else me_groups m' g = me_groups m g"
proof -
  let ?names = "selected_groups (mm_thresholds (me_manifest m)) s"
  from assms obtain gs where r: "sc_dataset_row s \<notin> me_seen m" "c = 0 \<or> c = 1"
    "fold_result (add_to_group s (c = 1) l) ?names (me_groups m) = Inr gs"
    "m' = m\<lparr>me_seen := insert (sc_dataset_row s) (me_seen m), me_groups := gs\<rparr>"
    by (auto simp: metrics_add_def result_simps split: if_splits)
  then show "sc_dataset_row s \<notin> me_seen m" "c = 0 \<or> c = 1" "me_manifest m' = me_manifest m"
    "me_seen m' = insert (sc_dataset_row s) (me_seen m)" by simp_all
  show "if g \<in> set ?names then totals_add (me_groups m g) s (c = 1) l = Inr (me_groups m' g)
        else me_groups m' g = me_groups m g"
    using fold_add_to_group [OF r(3) distinct_selected_groups, of g] r(4) by simp
qed

text \<open>
  A field of the totals that starts at zero and that a contribution increases by its own amount.
  After a run the field of a group is the sum of the amounts of the group's members.
\<close>

locale tally =
  fixes amount_of :: "totals \<Rightarrow> real"
    and amount :: "scene \<Rightarrow> bool \<Rightarrow> pyfloat option \<Rightarrow> real"
  assumes amount_empty: "amount_of empty_totals = 0"
    and amount_add: "totals_add t s c l = Inr t' \<Longrightarrow> amount_of t' = amount_of t + amount s c l"
begin

lemma group_sum:
  assumes "add_all hist (new_metrics mf) = Inr m"
  shows "amount_of (me_groups m g) =
         sum_list (map (\<lambda>(s, c, l). amount s (c = 1) l) (members (mm_thresholds mf) g hist))"
proof -
  let ?P = "\<lambda>xs m. me_manifest m = mf \<and> amount_of (me_groups m g) =
         sum_list (map (\<lambda>(s, c, l). amount s (c = 1) l) (members (mm_thresholds mf) g xs))"
  have "?P hist m"
  proof (rule fold_result_inv [where P = ?P, OF assms [unfolded add_all_def]])
    show "?P [] (new_metrics mf)" by (simp add: new_metrics_def amount_empty)
  next
    fix ys x a b
    assume a: "?P ys a" and "(\<lambda>(s, cross, latency). metrics_add s cross latency) x a = Inr b"
    then obtain s c l where x: "x = (s, c, l)" "metrics_add s c l a = Inr b" by (cases x) auto
    show "?P (ys @ [x]) b"
      using a metrics_add_result(3) [OF x(2)] metrics_add_result(5) [OF x(2), of g]
        amount_add [of "me_groups a g" s "c = 1" l "me_groups b g"]
      by (auto simp: x(1) split: if_splits)
  qed
  then show ?thesis by simp
qed

text \<open>The two protocol groups partition the transactions.\<close>

lemma protocol_split:
  assumes "add_all hist (new_metrics mf) = Inr m"
  shows "amount_of (me_groups m AllTx) =
         amount_of (me_groups m ControlProtocol) + amount_of (me_groups m OtherProtocol)"
proof -
  have "sum_list (map f hist) = sum_list (map f (members t ControlProtocol hist)) + sum_list (map f (members t OtherProtocol hist))"
    for f :: "contribution \<Rightarrow> real" and t
    by (induction hist) (auto simp: members_def)
  then show ?thesis by (simp add: group_sum [OF assms])
qed

lemma group_le_all:
  assumes "add_all hist (new_metrics mf) = Inr m"
    and "\<And>s c l. (s, c, l) \<in> set hist \<Longrightarrow> 0 \<le> amount s (c = 1) l"
  shows "0 \<le> amount_of (me_groups m g)" and "amount_of (me_groups m g) \<le> amount_of (me_groups m AllTx)"
proof -
  have *: "0 \<le> sum_list (map f (filter Q xs)) \<and> sum_list (map f (filter Q xs)) \<le> sum_list (map f xs)"
    if "\<And>x. x \<in> set xs \<Longrightarrow> 0 \<le> f x" for f :: "contribution \<Rightarrow> real" and Q xs
    using that by (induction xs) (auto intro: add_increasing)
  from * [of hist "\<lambda>(s, c, l). amount s (c = 1) l"] assms(2)
  show "0 \<le> amount_of (me_groups m g)" "amount_of (me_groups m g) \<le> amount_of (me_groups m AllTx)"
    unfolding group_sum [OF assms(1)] members_simps(3) by (auto simp: members_def)
qed

end

lemma totals_add_result:
  assumes "totals_add t s c l = Inr t'"
  shows "to_count t' = to_count t + 1" and "to_cross t' = to_cross t + of_bool c"
    and "to_cost t' = to_cost t + sc_cost s" and "to_cross_cost t' = to_cross_cost t + sc_cost s * of_bool c"
    and "to_payload t' = to_payload t + sc_payload s"
    and "to_cross_payload t' = to_cross_payload t + sc_payload s * of_bool c"
    and "length (to_latencies t') = length (to_latencies t) + of_bool (l \<noteq> None)"
    and "\<forall>x\<in>set (to_latencies t). 0 \<le> x \<Longrightarrow> \<forall>x\<in>set (to_latencies t'). 0 \<le> x"
  using assms by (auto simp: totals_add_def Let_def is_finite_iff not_less split: option.splits if_splits)

interpretation tcount: tally "\<lambda>t. real (to_count t)" "\<lambda>s c l. 1"
  by unfold_locales (simp_all add: empty_totals_def totals_add_result(1))

interpretation tcross: tally "\<lambda>t. real (to_cross t)" "\<lambda>s c l. of_bool c"
  by unfold_locales (simp_all add: empty_totals_def totals_add_result(2))

interpretation tcost: tally to_cost "\<lambda>s c l. sc_cost s"
  by unfold_locales (simp_all add: empty_totals_def totals_add_result(3))

interpretation tcross_cost: tally to_cross_cost "\<lambda>s c l. sc_cost s * of_bool c"
  by unfold_locales (simp_all add: empty_totals_def totals_add_result(4))

interpretation tpayload: tally to_payload "\<lambda>s c l. sc_payload s"
  by unfold_locales (simp_all add: empty_totals_def totals_add_result(5))

interpretation tcross_payload: tally to_cross_payload "\<lambda>s c l. sc_payload s * of_bool c"
  by unfold_locales (simp_all add: empty_totals_def totals_add_result(6))

interpretation tlatency: tally "\<lambda>t. real (length (to_latencies t))" "\<lambda>s c l. of_bool (l \<noteq> None)"
  by unfold_locales (simp_all add: empty_totals_def totals_add_result(7))

text \<open>Values of a scene that passed its checks.\<close>

definition scene_ok :: "scene \<Rightarrow> bool" where
  "scene_ok s \<longleftrightarrow> 0 \<le> sc_dataset_row s \<and> 0 \<le> sc_tx_index s \<and> 0 \<le> sc_cost s \<and> sc_cost s \<le> 1 \<and>
     0 \<le> sc_payload s \<and> 0 \<le> sc_distance s \<and> 0 \<le> sc_quality s \<and> sc_quality s \<le> 1"

lemma make_scene_ok: "make_scene r i a b c p d q k = Inr s \<Longrightarrow> scene_ok s \<and> sc_dataset_row s = r"
  by (auto simp: make_scene_def scene_ok_def is_finite_iff split: if_splits)

definition unit_ratio :: "real option \<Rightarrow> bool" where
  "unit_ratio r \<longleftrightarrow> (case r of None \<Rightarrow> True | Some x \<Rightarrow> 0 \<le> x \<and> x \<le> 1)"

lemma unit_ratio_ratio: "0 \<le> a \<Longrightarrow> a \<le> b \<Longrightarrow> unit_ratio (ratio a b)"
  by (simp add: unit_ratio_def ratio_def)

lemma group_cross_le:
  assumes "add_all hist (new_metrics mf) = Inr m" and "\<forall>(s, c, l)\<in>set hist. scene_ok s"
  shows "to_cross (me_groups m g) \<le> to_count (me_groups m g)"
    and "0 \<le> to_cross_cost (me_groups m g) \<and> to_cross_cost (me_groups m g) \<le> to_cost (me_groups m g)"
    and "0 \<le> to_cross_payload (me_groups m g) \<and> to_cross_payload (me_groups m g) \<le> to_payload (me_groups m g)"
    and "to_cost (me_groups m g) \<le> to_count (me_groups m g)"
proof -
  have mono: "sum_list (map f (members t g hist)) \<le> sum_list (map h (members t g hist))"
    if "\<And>x. x \<in> set hist \<Longrightarrow> f x \<le> h x" for f h :: "contribution \<Rightarrow> real" and t
    using that by (intro sum_list_map_mono_real) (auto simp: members_def)
  have ok: "scene_ok s" if "(s, c, l) \<in> set hist" for s c l using that assms(2) by auto
  have "real (to_cross (me_groups m g)) \<le> real (to_count (me_groups m g))"
    unfolding tcross.group_sum [OF assms(1)] tcount.group_sum [OF assms(1)] by (rule mono) auto
  then show "to_cross (me_groups m g) \<le> to_count (me_groups m g)" by simp
  have "to_cross_cost (me_groups m g) \<le> to_cost (me_groups m g)"
    unfolding tcross_cost.group_sum [OF assms(1)] tcost.group_sum [OF assms(1)]
    by (rule mono) (auto dest!: ok simp: scene_ok_def)
  then show "0 \<le> to_cross_cost (me_groups m g) \<and> to_cross_cost (me_groups m g) \<le> to_cost (me_groups m g)"
    using tcross_cost.group_le_all(1) [OF assms(1)] ok by (auto simp: scene_ok_def)
  have "to_cross_payload (me_groups m g) \<le> to_payload (me_groups m g)"
    unfolding tcross_payload.group_sum [OF assms(1)] tpayload.group_sum [OF assms(1)]
    by (rule mono) (auto dest!: ok simp: scene_ok_def)
  then show "0 \<le> to_cross_payload (me_groups m g) \<and> to_cross_payload (me_groups m g) \<le> to_payload (me_groups m g)"
    using tcross_payload.group_le_all(1) [OF assms(1)] ok by (auto simp: scene_ok_def)
  show "to_cost (me_groups m g) \<le> to_count (me_groups m g)"
    unfolding tcost.group_sum [OF assms(1)] tcount.group_sum [OF assms(1)]
    by (rule mono) (auto dest!: ok simp: scene_ok_def)
qed

lemma add_all_snoc: "add_all (hist @ [(s, c, l)]) m = bind_result (add_all hist m) (metrics_add s c l)"
  unfolding add_all_def fold_result_append by (simp del: fold_result.simps)

text \<open>The rows seen are those of the contributions, each once.\<close>

lemma add_all_seen:
  assumes "add_all hist (new_metrics mf) = Inr m"
  shows "me_manifest m = mf" and "me_seen m = row_of ` set hist"
    and "distinct (map row_of hist)" and "to_count (me_groups m AllTx) = length hist"
proof -
  let ?P = "\<lambda>xs m. me_manifest m = mf \<and> me_seen m = row_of ` set xs \<and> distinct (map row_of xs)"
  have "?P hist m"
  proof (rule fold_result_inv [where P = ?P, OF assms [unfolded add_all_def]])
    show "?P [] (new_metrics mf)" by (simp add: new_metrics_def)
  next
    fix ys x a b
    assume a: "?P ys a" and "(\<lambda>(s, cross, latency). metrics_add s cross latency) x a = Inr b"
    then obtain s c l where x: "x = (s, c, l)" "metrics_add s c l a = Inr b" by (cases x) auto
    show "?P (ys @ [x]) b"
      using a metrics_add_result(1,3,4) [OF x(2)] by (simp add: x(1) row_of_def)
  qed
  then show "me_manifest m = mf" "me_seen m = row_of ` set hist" "distinct (map row_of hist)" by simp_all
  have "real (to_count (me_groups m AllTx)) = real (length hist)"
    unfolding tcount.group_sum [OF assms] by (simp add: split_def sum_list_triv)
  then show "to_count (me_groups m AllTx) = length hist" by simp
qed

text \<open>
  A summary of the measurement is complete and consistent: the contributed scenes cover
  the rows of the window exactly once each; the protocol groups partition the transactions,
  the relays, the costs and the payloads; no group exceeds the whole; and every cross-shard
  ratio, by transactions, by cost or by bytes, is in the unit interval.
\<close>

theorem metrics_summary_consistent:
  assumes "add_all hist (new_metrics mf) = Inr m" and "metrics_summary m = Inr view"
    and "\<forall>(s, c, l)\<in>set hist. scene_ok s"
  shows "distinct (map row_of hist) \<and>
     row_of ` set hist = {mm_start_tx mf..<mm_end_tx_exclusive mf} \<and>
     tv_count (view AllTx) = nat (mm_end_tx_exclusive mf - mm_start_tx mf) \<and>
     tv_count (view AllTx) = tv_count (view ControlProtocol) + tv_count (view OtherProtocol) \<and>
     tv_cross_count (view AllTx) = tv_cross_count (view ControlProtocol) + tv_cross_count (view OtherProtocol) \<and>
     tv_scene_cost_sum (view AllTx) = tv_scene_cost_sum (view ControlProtocol) + tv_scene_cost_sum (view OtherProtocol) \<and>
     tv_payload_bytes_sum (view AllTx) = tv_payload_bytes_sum (view ControlProtocol) + tv_payload_bytes_sum (view OtherProtocol) \<and>
     tv_count (view g) \<le> tv_count (view AllTx) \<and> tv_cross_count (view g) \<le> tv_count (view g) \<and>
     list_all unit_ratio [tv_cross_ratio (view g), tv_scene_cost_mean (view g),
       tv_cost_weighted_cross_ratio (view g), tv_payload_weighted_cross_ratio (view g)]"
proof -
  have view: "view = (\<lambda>g. totals_summary (me_groups m g))"
    and seen: "me_seen m = {mm_start_tx mf..<mm_end_tx_exclusive mf}"
    using assms(2) add_all_seen(1) [OF assms(1)] by (auto simp: metrics_summary_def split: if_splits)
  note rows = add_all_seen(2,3,4) [OF assms(1)]
  have "length hist = card (me_seen m)"
    using rows(1,2) by (metis distinct_card length_map list.set_map)
  then have count: "to_count (me_groups m AllTx) = nat (mm_end_tx_exclusive mf - mm_start_tx mf)"
    using rows(3) seen by simp
  note le = group_cross_le [OF assms(1,3), of g]
  have part: "real (to_count (me_groups m AllTx)) = real (to_count (me_groups m ControlProtocol) + to_count (me_groups m OtherProtocol))"
    "real (to_cross (me_groups m AllTx)) = real (to_cross (me_groups m ControlProtocol) + to_cross (me_groups m OtherProtocol))"
    using tcount.protocol_split [OF assms(1)] tcross.protocol_split [OF assms(1)] by simp_all
  have "real (to_count (me_groups m g)) \<le> real (to_count (me_groups m AllTx))"
    by (rule tcount.group_le_all(2) [OF assms(1)]) simp
  moreover have "0 \<le> to_cost (me_groups m g)" using le(2) by linarith
  moreover have "list_all unit_ratio [tv_cross_ratio (view g), tv_scene_cost_mean (view g),
       tv_cost_weighted_cross_ratio (view g), tv_payload_weighted_cross_ratio (view g)]"
    using le \<open>0 \<le> to_cost (me_groups m g)\<close> by (simp add: view totals_summary_def unit_ratio_ratio)
  ultimately show ?thesis
    using count rows(1,2) seen part [unfolded of_nat_eq_iff] le(1)
      tcost.protocol_split [OF assms(1)] tpayload.protocol_split [OF assms(1)]
    by (simp add: view totals_summary_def)
qed

definition demo_scene :: scene where
  "demo_scene = \<lparr>sc_dataset_row = 0, sc_tx_index = 0, sc_sender = ''a'', sc_recipient = ''b'',
     sc_cost = 1/2, sc_payload = 100, sc_distance = 30, sc_quality = 1/4, sc_control = True\<rparr>"

definition demo_manifest :: metric_manifest where
  "demo_manifest = \<lparr>mm_start_tx = 0, mm_end_tx_exclusive = 1, mm_thresholds =
     \<lparr>th_high_cost_ge = 1, th_high_payload_ge = 50, th_long_distance_ge = 40, th_weak_link_le = 1/5\<rparr>\<rparr>"

lemma demo_measurement:
  "\<exists>m. add_all [(demo_scene, 1, Some (Fin 2))] (new_metrics demo_manifest) = Inr m \<and> me_seen m = {0}"
  by (simp add: add_all_def metrics_add_def new_metrics_def selected_groups_def demo_scene_def demo_manifest_def
      add_to_group_def totals_add_def empty_totals_def Let_def)

theorem metrics_summary_consistent_witness:
  "\<exists>m view. add_all [(demo_scene, 1, Some (Fin 2))] (new_metrics demo_manifest) = Inr m \<and>
     metrics_summary m = Inr view \<and> tv_count (view AllTx) = 1 \<and>
     tv_count (view ControlProtocol) + tv_count (view OtherProtocol) = 1"
proof -
  obtain m where m: "add_all [(demo_scene, 1, Some (Fin 2))] (new_metrics demo_manifest) = Inr m" "me_seen m = {0}"
    using demo_measurement by blast
  have "me_seen m = {mm_start_tx demo_manifest..<mm_end_tx_exclusive demo_manifest}"
    using atLeastLessThanPlusOne_atLeastAtMost_int [of 0 0] by (simp add: demo_manifest_def m(2))
  then obtain view where v: "metrics_summary m = Inr view"
    using add_all_seen(1) [OF m(1)] by (auto simp: metrics_summary_def)
  have "\<forall>(s, c, l)\<in>set [(demo_scene, 1 :: int, Some (Fin 2))]. scene_ok s"
    by (simp add: scene_ok_def demo_scene_def)
  note c = metrics_summary_consistent [OF m(1) v this, of AllTx]
  have "tv_count (view AllTx) = nat (mm_end_tx_exclusive demo_manifest - mm_start_tx demo_manifest)"
    using c by (elim conjE)
  then have "tv_count (view AllTx) = 1" by (simp add: demo_manifest_def)
  moreover have "tv_count (view AllTx) = tv_count (view ControlProtocol) + tv_count (view OtherProtocol)"
    using c by (elim conjE)
  ultimately have "tv_count (view AllTx) = 1 \<and> tv_count (view ControlProtocol) + tv_count (view OtherProtocol) = 1"
    by simp
  with m(1) v show ?thesis by blast
qed

section \<open>The join with a chain run\<close>

text \<open>What one turn of the join contributes, when it does not raise.\<close>

lemma join_row_result:
  assumes "join_row recovered meta_of by_row start shards (key, detail) st = Inr st'"
  obtains index s c l i j where "by_row index = Some s" "c = 0 \<or> c = 1" "i < shards" "j < shards"
    "metrics_add s c (Some l) (js_metrics st) = Inr (js_metrics st')" "(c = 1) \<longleftrightarrow> i \<noteq> j"
    "st' = add_loads i j (c = 1) (st\<lparr>js_metrics := js_metrics st'\<rparr>)"
proof -
  from assms obtain index s c l m i j where r: "by_row index = Some s" "c = 0 \<or> c = 1"
    "0 \<le> i" "i < int shards" "0 \<le> j" "j < int shards" "c = of_bool (i \<noteq> j)"
    "metrics_add s c (Some l) (js_metrics st) = Inr m"
    "st' = add_loads (nat i) (nat j) (c = 1) (st\<lparr>js_metrics := m\<rparr>)"
    by (auto simp: join_row_def result_simps split: option.splits if_splits)
  have m: "js_metrics st' = m" by (simp add: r(9) add_loads_def)
  show thesis
  proof (rule that)
    show "by_row index = Some s" "c = 0 \<or> c = 1" "nat i < shards" "nat j < shards"
      "metrics_add s c (Some l) (js_metrics st) = Inr (js_metrics st')"
      using r m by simp_all
    show "c = 1 \<longleftrightarrow> nat i \<noteq> nat j" using r(3,5,7) by (simp add: eq_nat_nat_iff)
    show "st' = add_loads (nat i) (nat j) (c = 1) (st\<lparr>js_metrics := js_metrics st'\<rparr>)"
      using r(9) m by simp
  qed
qed

lemma add_loads_sums:
  assumes "i < length (js_stage_loads st)" and "j < length (js_stage_loads st)"
    and "length (js_effective_loads st) = length (js_stage_loads st)"
  shows "sum_list (js_stage_loads (add_loads i j c st)) = sum_list (js_stage_loads st) + 1 + of_bool c"
    and "sum_list (js_effective_loads (add_loads i j c st)) = sum_list (js_effective_loads st) + 1"
    and "length (js_stage_loads (add_loads i j c st)) = length (js_stage_loads st)"
    and "length (js_effective_loads (add_loads i j c st)) = length (js_stage_loads st)"
    and "js_metrics (add_loads i j c st) = js_metrics st"
  using assms by (simp_all add: add_loads_def)

text \<open>The state of the join after a list of details, in terms of a list of contributions.\<close>

definition joined :: "metric_manifest \<Rightarrow> (int \<rightharpoonup> scene) \<Rightarrow> nat \<Rightarrow> nat \<Rightarrow> join_state \<Rightarrow> bool" where
  "joined mf by_row shards n st \<longleftrightarrow>
     (\<exists>hist. add_all hist (new_metrics mf) = Inr (js_metrics st) \<and> length hist = n \<and>
        (\<forall>(s, c, l)\<in>set hist. s \<in> ran by_row \<and> l \<noteq> None)) \<and>
     length (js_stage_loads st) = shards \<and> length (js_effective_loads st) = shards \<and>
     sum_list (js_stage_loads st) = n + to_cross (me_groups (js_metrics st) AllTx) \<and>
     sum_list (js_effective_loads st) = real n"

lemma joined_step:
  assumes "joined mf by_row shards n st"
    and "join_row recovered meta_of by_row start shards (key, detail) st = Inr st'"
  shows "joined mf by_row shards (Suc n) st'"
proof -
  from assms(2) obtain index s c l i j where r: "by_row index = Some s" "c = 0 \<or> c = 1" "i < shards" "j < shards"
    "metrics_add s c (Some l) (js_metrics st) = Inr (js_metrics st')" "(c = 1) \<longleftrightarrow> i \<noteq> j"
    "st' = add_loads i j (c = 1) (st\<lparr>js_metrics := js_metrics st'\<rparr>)" by (rule join_row_result)
  from assms(1) obtain hist where h: "add_all hist (new_metrics mf) = Inr (js_metrics st)" "length hist = n"
    "\<forall>(s, c, l)\<in>set hist. s \<in> ran by_row \<and> l \<noteq> None"
    and v: "length (js_stage_loads st) = shards" "length (js_effective_loads st) = shards"
      "sum_list (js_stage_loads st) = n + to_cross (me_groups (js_metrics st) AllTx)"
      "sum_list (js_effective_loads st) = real n"
    by (auto simp: joined_def)
  have "add_all (hist @ [(s, c, Some l)]) (new_metrics mf) = Inr (js_metrics st')"
    by (simp add: add_all_snoc h(1) r(5))
  moreover have "\<forall>(s, c, l)\<in>set (hist @ [(s, c, Some l)]). s \<in> ran by_row \<and> l \<noteq> None"
    using h(3) r(1) by (auto intro: ranI)
  moreover have "length (hist @ [(s, c, Some l)]) = Suc n" using h(2) by simp
  moreover have "to_cross (me_groups (js_metrics st') AllTx) = to_cross (me_groups (js_metrics st) AllTx) + of_bool (c = 1)"
    using metrics_add_result(5) [OF r(5), of AllTx] by (simp add: totals_add_result(2))
  moreover have "sum_list (js_stage_loads st') = sum_list (js_stage_loads st) + 1 + of_bool (c = 1)"
    "sum_list (js_effective_loads st') = sum_list (js_effective_loads st) + 1"
    "length (js_stage_loads st') = shards" "length (js_effective_loads st') = shards"
    using add_loads_sums [of i "st\<lparr>js_metrics := js_metrics st'\<rparr>" j "c = 1"] r(3,4) v(1,2)
    unfolding r(7) [symmetric] by simp_all
  ultimately show ?thesis using v(3,4) unfolding joined_def by (intro conjI exI [of _ "hist @ [(s, c, Some l)]"]) simp_all
qed

lemma load_statistics_total: "load_statistics (map Fin xs) = Inr r \<Longrightarrow> ls_total r = sum_list xs"
  by (auto simp: load_statistics_def Let_def comp_def split: if_splits)

lemma map_of_rev_values: "s \<in> ran (map_of (rev (map (\<lambda>s. (f s, s)) xs))) \<Longrightarrow> s \<in> set xs"
  by (auto simp: ran_def dest!: map_of_SomeD)

lemma chain_report_ok:
  assumes "analyze_chain_details details scenes mf shards metas = Inr r"
  shows "cp_matched_count r = length scenes \<and> cp_expected_count r = length scenes \<and>
     tv_count (cp_groups r AllTx) = length scenes \<and> tv_latency_count (cp_groups r AllTx) = length scenes \<and>
     distinct (map sc_dataset_row scenes) \<and>
     sc_dataset_row ` set scenes = {mm_start_tx mf..<mm_end_tx_exclusive mf} \<and>
     ls_total (cp_execution_load r) = real (length scenes + tv_cross_count (cp_groups r AllTx)) \<and>
     ls_total (cp_effective_load r) = real (length scenes) \<and>
     (scenes \<noteq> [] \<longrightarrow> (\<exists>x. tv_cross_ratio (cp_groups r AllTx) = Some x \<and> cp_amplification r = Some (1 + x)))"
proof -
  let ?by = "map_of (rev (map (\<lambda>s. (sc_dataset_row s, s)) scenes))"
  from assms obtain ds ms st ex ef where len: "length ds = length scenes"
    and run: "fold_result (join_row (metas \<noteq> None) (map_of ms) ?by (mm_start_tx mf) shards) ds
        \<lparr>js_metrics = new_metrics mf, js_stage_loads = replicate shards 0, js_effective_loads = replicate shards 0\<rparr> = Inr st"
    and sm: "metrics_summary (js_metrics st) = Inr (cp_groups r)"
    and ld: "load_statistics (map Fin (map real (js_stage_loads st))) = Inr ex"
      "load_statistics (map Fin (js_effective_loads st)) = Inr ef"
    and r: "cp_execution_load r = ex" "cp_effective_load r = ef" "cp_expected_count r = length scenes"
      "cp_matched_count r = length ds" "cp_amplification r = ratio (real (sum_list (js_stage_loads st))) (real (length scenes))"
    unfolding analyze_chain_details_def by (auto simp: result_simps split: if_splits)
  have "joined mf ?by shards (length ds) st"
  proof (rule fold_result_inv [where P = "\<lambda>xs. joined mf ?by shards (length xs)", OF run])
    show "joined mf ?by shards (length []) \<lparr>js_metrics = new_metrics mf,
        js_stage_loads = replicate shards 0, js_effective_loads = replicate shards 0\<rparr>"
      by (auto simp: joined_def add_all_def new_metrics_def empty_totals_def intro!: exI [of _ "[]"])
  qed (auto intro: joined_step)
  then obtain hist where h: "add_all hist (new_metrics mf) = Inr (js_metrics st)" "length hist = length scenes"
    "\<forall>(s, c, l)\<in>set hist. s \<in> ran ?by \<and> l \<noteq> None"
    and v: "sum_list (js_stage_loads st) = length scenes + to_cross (me_groups (js_metrics st) AllTx)"
      "sum_list (js_effective_loads st) = real (length scenes)"
    unfolding joined_def len by blast
  note seen = add_all_seen [OF h(1)]
  have win: "me_seen (js_metrics st) = {mm_start_tx mf..<mm_end_tx_exclusive mf}"
    and groups: "cp_groups r = (\<lambda>g. totals_summary (me_groups (js_metrics st) g))"
    using sm seen(1) by (auto simp: metrics_summary_def split: if_splits)
  have sub: "row_of ` set hist \<subseteq> sc_dataset_row ` set scenes"
    using h(3) by (fastforce simp: row_of_def dest!: map_of_rev_values)
  have card: "card (row_of ` set hist) = length scenes"
    using seen(3) h(2) by (metis distinct_card length_map list.set_map)
  have eq: "row_of ` set hist = sc_dataset_row ` set scenes"
    using sub card card_length [of "map sc_dataset_row scenes"] card_mono [OF _ sub]
    by (intro card_subset_eq) simp_all
  have "distinct (map sc_dataset_row scenes)" using card eq by (simp add: card_distinct)
  moreover have "real (length (to_latencies (me_groups (js_metrics st) AllTx))) = real (length scenes)"
  proof -
    have "map (\<lambda>(s, c, l). of_bool (l \<noteq> None)) hist = map (\<lambda>_. 1 :: real) hist"
      using h(3) by (intro map_cong) auto
    then show ?thesis unfolding tlatency.group_sum [OF h(1)] members_simps(3)
      by (simp only: sum_list_triv h(2) mult_1_right)
  qed
  moreover have "ls_total ex = real (length scenes + to_cross (me_groups (js_metrics st) AllTx))" "ls_total ef = real (length scenes)"
    using ld [THEN load_statistics_total] v by (simp_all add: sum_list_map_real)
  ultimately show ?thesis
    using r len seen(4) h(2) win eq seen(2) v(1)
    by (simp add: groups totals_summary_def ratio_def add_divide_distrib)
qed

text \<open>
  C10. A chain report is complete: when the join returns, every detail row was matched with a
  scene of the window, no scene was counted twice, every row of the window was counted and has
  a measured latency; the reconstructed execution stages are the transactions plus the relays,
  the effective loads the transactions; and the amplification is one plus the cross-shard ratio.
\<close>

theorem chain_report_complete:
  assumes "analyze_chain_details details scenes mf shards metas = Inr r"
  shows "cp_matched_count r = length scenes \<and> cp_expected_count r = length scenes \<and>
     tv_count (cp_groups r AllTx) = length scenes \<and> tv_latency_count (cp_groups r AllTx) = length scenes \<and>
     distinct (map sc_dataset_row scenes) \<and>
     sc_dataset_row ` set scenes = {mm_start_tx mf..<mm_end_tx_exclusive mf} \<and>
     ls_total (cp_execution_load r) = real (length scenes + tv_cross_count (cp_groups r AllTx)) \<and>
     ls_total (cp_effective_load r) = real (length scenes) \<and>
     (scenes \<noteq> [] \<longrightarrow> (\<exists>x. tv_cross_ratio (cp_groups r AllTx) = Some x \<and> cp_amplification r = Some (1 + x)))"
  by (rule chain_report_ok [OF assms])

text \<open>A run of one transaction between two shards.\<close>

definition demo_detail :: row where
  "demo_detail = text_row [(HASH_COLUMN, ''17''), (''Tx local nonce'', ''0''), (''Dataset row index'', ''0''),
     (''Sender address'', ''0xA''), (''Recipient address'', ''b''), (''Sender shard'', ''0''),
     (''Recipient shard'', ''1''), (''Cross shard'', ''1''), (RELAY1, ''1002''), (RELAY2, ''1005''),
     (''Tx propose timestamp'', ''1000''), (''Tx finally commit timestamp'', ''1005''),
     (''Confirmed latency of this tx (ms)'', ''5'')]"

lemma demo_ints:
  "int_field demo_detail ''Tx local nonce'' = Inr 0" "int_field demo_detail ''Dataset row index'' = Inr 0"
  "int_field demo_detail ''Sender shard'' = Inr 0" "int_field demo_detail ''Recipient shard'' = Inr 1"
  "int_field demo_detail ''Cross shard'' = Inr 1"
  by code_simp+

lemma demo_texts:
  "cell demo_detail HASH_COLUMN = ''17''" "is_digits ''17''" "py_int 10 ''17'' = Some 17"
  "address_key (str_field demo_detail ''Sender address'') = ''a''"
  "address_key (str_field demo_detail ''Recipient address'') = ''b''"
  "list_all (\<lambda>n. str_field demo_detail n \<noteq> []) META_COLUMNS"
  "cell demo_detail RELAY1 = ''1002''" "cell demo_detail RELAY2 = ''1005''"
  "\<not> list_ex (\<lambda>n. cell demo_detail n \<noteq> []) BROKER_COLUMNS"
  "cell demo_detail ''Tx propose timestamp'' = ''1000''"
  "cell demo_detail ''Tx finally commit timestamp'' = ''1005''"
  "cell demo_detail ''Confirmed latency of this tx (ms)'' = ''5''"
  by code_simp+

lemma demo_plain:
  "plain_digits ''1000'' = Some 1000" "plain_digits ''1002'' = Some 1002"
  "plain_digits ''1005'' = Some 1005" "plain_digits ''5'' = Some 5"
  by code_simp+

lemma demo_floats:
  "py_float ''1000'' = Some (Fin 1000)" "py_float ''1002'' = Some (Fin 1002)"
  "py_float ''1005'' = Some (Fin 1005)" "py_float ''5'' = Some (Fin 5)"
  using demo_plain [THEN py_float_plain] by (simp_all add: double_overflow_def)

lemma demo_latency: "checked_latency demo_detail True = Inr (Fin 5)"
  by (simp add: checked_latency_def float_or_nan_def demo_texts demo_floats fabs_def)

lemma demo_hash: "unique_by_hash [demo_detail] = Inr [(17, demo_detail)]"
  by (simp add: unique_by_hash_def add_unique_def demo_texts)

lemma replicate_two: "replicate 2 x = [x, x]"
  by (simp add: numeral_2_eq_2)

lemma demo_join: "\<exists>r. analyze_chain_details [demo_detail] [demo_scene] demo_manifest 2 None = Inr r"
proof -
  obtain m where m: "metrics_add demo_scene 1 (Some (Fin (1 / 200))) (new_metrics demo_manifest) = Inr m"
    "me_seen m = {0}" "me_manifest m = demo_manifest"
    by (simp add: metrics_add_def new_metrics_def selected_groups_def demo_scene_def demo_manifest_def
        add_to_group_def totals_add_def empty_totals_def Let_def)
  have "metrics_summary m = Inr (\<lambda>g. totals_summary (me_groups m g))"
    using m(2,3) atLeastLessThanPlusOne_atLeastAtMost_int [of 0 0]
    by (simp add: metrics_summary_def demo_manifest_def)
  moreover have "sc_dataset_row demo_scene = 0" "sc_sender demo_scene = ''a''" "sc_recipient demo_scene = ''b''"
    "mm_start_tx demo_manifest = 0" by (simp_all add: demo_scene_def demo_manifest_def)
  moreover have "\<exists>r. load_statistics (map Fin [1, 1]) = Inr r" "\<exists>r. load_statistics (map Fin [1/2, 1/2]) = Inr r"
    by (simp_all add: load_statistics_def Let_def)
  ultimately show ?thesis
    by (auto simp: analyze_chain_details_def demo_hash join_row_def demo_ints demo_texts demo_latency m
        add_loads_def bump_def replicate_two)
qed

theorem chain_report_complete_witness:
  "\<exists>r. analyze_chain_details [demo_detail] [demo_scene] demo_manifest 2 None = Inr r \<and>
     tv_count (cp_groups r AllTx) = 1 \<and> ls_total (cp_effective_load r) = 1"
proof -
  obtain r where r: "analyze_chain_details [demo_detail] [demo_scene] demo_manifest 2 None = Inr r"
    using demo_join by blast
  have "tv_count (cp_groups r AllTx) = length [demo_scene] \<and> ls_total (cp_effective_load r) = real (length [demo_scene])"
    using chain_report_complete [OF r] by (elim conjE) (intro conjI)
  then have "tv_count (cp_groups r AllTx) = 1 \<and> ls_total (cp_effective_load r) = 1" by simp
  with r show ?thesis by blast
qed

end
