(* ===== verification/SceneLibrary.thy ===== *)
theory SceneLibrary
  imports TxLoad
begin

text \<open>
  The frozen scene library of \<open>prepare_iot_v2_dataset.py\<close>: the deployment topology, the flow
  templates sampled per device, and the files they are kept in. The stable hash of the
  generator is the digest of its JSON text. Files are modelled by what is read from them: a
  text file by its lines, a CSV file by its rows; the values of the library's own CSV files are
  kept as values, since writing and reading an integer, a text or a float gives it back.

  Three functions of the interpreter's library are arguments: \<open>fromisoformat\<close> gives the ISO
  text and the year of a time stamp, \<open>None\<close> where it raises a ValueError; \<open>new_rng\<close> and
  \<open>randrange\<close> are the seeded generator, with its state threaded through.
\<close>

section \<open>Constants\<close>

definition VERSION :: string where
  "VERSION = ''real_accounts_iot_scene_v2_1''"

definition CONTROL :: "string list" where
  "CONTROL = [''arp'', ''dhcp'', ''dhcpv6'', ''icmp'', ''icmpv6'', ''igmp'', ''llmnr'', ''mdns'', ''ssdp'']"

definition FLOW_NUMERIC :: "string list" where
  "FLOW_NUMERIC = [''srcNumPackets'', ''dstNumPackets'', ''srcPayloadSize'', ''dstPayloadSize'']"

definition TEMPLATE_FIELDS :: "string list" where
  "TEMPLATE_FIELDS = [''template_id'', ''profile_id'', ''source_file'', ''source_row'', ''time'',
     ''protocol'', ''srcIp'', ''dstIp'', ''srcPort'', ''dstPort''] @ FLOW_NUMERIC @
     [''flowDuration'', ''is_control_protocol'']"

section \<open>The stable hash\<close>

datatype json = JStr string | JInt int | JList "json list"

definition int_to_string :: "int \<Rightarrow> string" where
  "int_to_string i = (if i < 0 then CHR ''-'' # nat_to_string (nat (- i)) else nat_to_string (nat i))"

text \<open>\<open>json.dumps\<close> with \<open>ensure_ascii\<close> and the separators \<open>,\<close> and \<open>:\<close>.\<close>

definition json_char :: "char \<Rightarrow> string" where
  "json_char c =
     (let n = (of_char c :: nat) in
      if n = 34 \<or> n = 92 then [char_of (92 :: nat), c]
      else if n = 8 then [char_of (92 :: nat), CHR ''b'']
      else if n = 12 then [char_of (92 :: nat), CHR ''f'']
      else if n = 10 then [char_of (92 :: nat), CHR ''n'']
      else if n = 13 then [char_of (92 :: nat), CHR ''r'']
      else if n = 9 then [char_of (92 :: nat), CHR ''t'']
      else if 32 \<le> n \<and> n \<le> 126 then [c]
      else [char_of (92 :: nat), CHR ''u'', CHR ''0'', CHR ''0'', hex_char (n div 16), hex_char (n mod 16)])"

fun dumps :: "json \<Rightarrow> string" where
  "dumps (JStr s) = [char_of (34 :: nat)] @ concat (map json_char s) @ [char_of (34 :: nat)]"
| "dumps (JInt i) = int_to_string i"
| "dumps (JList js) = ''['' @ join_with '','' (map dumps js) @ '']''"

definition stable_int :: "int \<Rightarrow> string \<Rightarrow> json list \<Rightarrow> nat" where
  "stable_int seed purpose parts =
     from_bytes_big (take 16 (sha256_bytes
       (dumps (JList ([JStr VERSION, JInt seed, JStr purpose] @ parts)))))"

section \<open>Topology\<close>

text \<open>\<open>line.split()\<close>.\<close>

fun split_spaces :: "string \<Rightarrow> string list" where
  "split_spaces [] = [[]]"
| "split_spaces (c # cs) =
     (if is_space c then [] # split_spaces cs
      else (case split_spaces cs of [] \<Rightarrow> [[c]] | w # ws \<Rightarrow> (c # w) # ws))"

definition py_split :: "string \<Rightarrow> string list" where
  "py_split s = filter (\<lambda>w. w \<noteq> []) (split_spaces s)"

definition to_int :: "string \<Rightarrow> int result" where
  "to_int s = (case py_int 10 s of None \<Rightarrow> raise ValueError | Some i \<Rightarrow> return i)"

definition to_flt :: "string \<Rightarrow> pyfloat result" where
  "to_flt s = (case py_float s of None \<Rightarrow> raise ValueError | Some x \<Rightarrow> return x)"

type_synonym sites = "(int \<times> real \<times> real) list"
type_synonym links = "((int \<times> int) \<times> real) list"

definition known :: "('k \<times> 'v) list \<Rightarrow> 'k \<Rightarrow> bool" where
  "known kvs k \<longleftrightarrow> k \<in> set (map fst kvs)"

definition location_line :: "string \<Rightarrow> sites \<Rightarrow> sites result" where
  "location_line line locations =
     (case py_split line of
        [] \<Rightarrow> return locations
      | [k, x, y] \<Rightarrow>
          bind_result (to_int k) (\<lambda>key. bind_result (to_flt x) (\<lambda>x. bind_result (to_flt y) (\<lambda>y.
            if known locations key \<or> \<not> is_finite x \<or> \<not> is_finite y then raise ValueError
            else return (locations @ [(key, fin_val x, fin_val y)]))))
      | _ \<Rightarrow> raise ValueError)"

record ignored =
  ig_ascii_eof_lines :: nat
  ig_incomplete_links :: nat
  ig_links_without_coordinates :: nat

definition link_line :: "sites \<Rightarrow> string \<Rightarrow> links \<times> ignored \<Rightarrow> (links \<times> ignored) result" where
  "link_line locations line st =
     (case st of (links, ig) \<Rightarrow>
        (case py_split line of
           [] \<Rightarrow> return st
         | [a, b, q] \<Rightarrow>
             bind_result (to_int a) (\<lambda>a. bind_result (to_int b) (\<lambda>b. bind_result (to_flt q) (\<lambda>quality.
               if \<not> is_finite quality \<or> \<not> (Fin 0 \<le> quality \<and> quality \<le> Fin 1) \<or> known links (a, b)
               then raise ValueError
               else if \<not> known locations a \<or> \<not> known locations b
               then return (links, ig\<lparr>ig_links_without_coordinates := ig_links_without_coordinates ig + 1\<rparr>)
               else return (links @ [((a, b), fin_val quality)], ig))))
         | vals \<Rightarrow>
             if py_strip line = [char_of (26 :: nat)]
             then return (links, ig\<lparr>ig_ascii_eof_lines := ig_ascii_eof_lines ig + 1\<rparr>)
             else if length vals = 2 \<and> list_all is_digits vals \<and>
                     list_ex (\<lambda>v. case py_int 10 v of Some k \<Rightarrow> \<not> known locations k | None \<Rightarrow> False) vals
             then return (links, ig\<lparr>ig_incomplete_links := ig_incomplete_links ig + 1\<rparr>)
             else raise ValueError))"

definition read_topology :: "string list \<Rightarrow> string list \<Rightarrow> (sites \<times> links \<times> ignored) result" where
  "read_topology mote_locs connectivity =
     bind_result (fold_result location_line mote_locs []) (\<lambda>locations.
     bind_result (fold_result (link_line locations) connectivity
         ([], \<lparr>ig_ascii_eof_lines = 0, ig_incomplete_links = 0, ig_links_without_coordinates = 0\<rparr>)) (\<lambda>(links, ig).
       if locations = [] then raise ValueError
       else if list_ex (\<lambda>a. list_ex (\<lambda>b. \<not> known links (a, b)) (map fst locations)) (map fst locations)
       then raise ValueError
       else return (locations, links, ig)))"

section \<open>Flow templates\<close>

text \<open>
  A rejected row carries the name of the failed check. A missing duration or time cell is not
  caught by the code: \<open>float(None)\<close> is a TypeError and \<open>None.strip()\<close> an AttributeError.
\<close>

definition parsed_times ::
  "(string \<Rightarrow> (string \<times> int) option) \<Rightarrow> row \<Rightarrow> (pyfloat \<times> string \<times> int) option result" where
  "parsed_times fromisoformat row =
     (case row ''flowDuration'' of
        None \<Rightarrow> return None
      | Some None \<Rightarrow> raise TypeError
      | Some (Some d) \<Rightarrow>
          (case py_float d of
             None \<Rightarrow> return None
           | Some duration \<Rightarrow>
               (case row ''time'' of
                  None \<Rightarrow> return None
                | Some None \<Rightarrow> raise AttributeError
                | Some (Some t) \<Rightarrow>
                    return (map_option (\<lambda>ty. (duration, ty)) (fromisoformat (py_strip t))))))"

definition numeric_flow ::
  "(string \<Rightarrow> (string \<times> int) option) \<Rightarrow> row \<Rightarrow> (string + string \<times> real) result" where
  "numeric_flow fromisoformat row =
     (case filter (\<lambda>f. \<not> is_digits (py_strip (str_field row f))) FLOW_NUMERIC of
        f # _ \<Rightarrow> return (Inl (''invalid_'' @ f))
      | [] \<Rightarrow>
          bind_result (parsed_times fromisoformat row) (\<lambda>p.
            case p of
              None \<Rightarrow> return (Inl ''invalid_duration_or_time'')
            | Some (duration, stamp, year) \<Rightarrow>
                if \<not> is_finite duration \<or> duration < Fin 0 then return (Inl ''invalid_duration'')
                else if year \<notin> {2016, 2017} then return (Inl ''unexpected_source_year'')
                else return (Inr (stamp, fin_val duration))))"

record template =
  te_template_id :: string
  te_profile_id :: string
  te_source_file :: string
  te_source_row :: nat
  te_time :: string
  te_protocol :: string
  te_srcIp :: string
  te_dstIp :: string
  te_srcPort :: string
  te_dstPort :: string
  te_srcNumPackets :: string
  te_dstNumPackets :: string
  te_srcPayloadSize :: string
  te_dstPayloadSize :: string
  te_flowDuration :: string
  te_is_control_protocol :: string

definition stripped :: "row \<Rightarrow> string \<Rightarrow> string result" where
  "stripped row f =
     (case row f of None \<Rightarrow> return [] | Some None \<Rightarrow> raise AttributeError | Some (Some t) \<Rightarrow> return (py_strip t))"

definition make_sample :: "string \<Rightarrow> string \<Rightarrow> nat \<Rightarrow> string \<Rightarrow> row \<Rightarrow> template result" where
  "make_sample pid filename source_row timestamp row =
     bind_result (get_field row ''protocol'') (\<lambda>_.
     bind_result (stripped row ''protocol'') (\<lambda>p.
     bind_result (traverse (stripped row) TEMPLATE_FIELDS) (\<lambda>_.
       let protocol = (if py_lower p \<noteq> [] then py_lower p else ''none''); get = (\<lambda>f. py_strip (cell row f)) in
       return \<lparr>te_template_id = pid @ '':'' @ nat_to_string source_row, te_profile_id = pid,
         te_source_file = filename, te_source_row = source_row, te_time = timestamp, te_protocol = protocol,
         te_srcIp = get ''srcIp'', te_dstIp = get ''dstIp'', te_srcPort = get ''srcPort'', te_dstPort = get ''dstPort'',
         te_srcNumPackets = get ''srcNumPackets'', te_dstNumPackets = get ''dstNumPackets'',
         te_srcPayloadSize = get ''srcPayloadSize'', te_dstPayloadSize = get ''dstPayloadSize'',
         te_flowDuration = get ''flowDuration'',
         te_is_control_protocol = (if protocol \<in> set CONTROL then ''1'' else ''0'')\<rparr>)))"

record 'g sampler =
  sm_pool :: "template list"
  sm_raw_count :: nat
  sm_eligible :: nat
  sm_rejected :: "(string \<times> nat) list"
  sm_time_min :: "string option"
  sm_time_max :: "string option"
  sm_duration_max :: real
  sm_rng :: 'g

definition merge_with :: "('a \<Rightarrow> 'a \<Rightarrow> 'a) \<Rightarrow> 'a option \<Rightarrow> 'a \<Rightarrow> 'a option" where
  "merge_with f old new = Some (case old of None \<Rightarrow> new | Some x \<Rightarrow> f x new)"

text \<open>The slot of an eligible row, and the generator after it was drawn.\<close>

definition draw_slot :: "('g \<Rightarrow> nat \<Rightarrow> nat \<times> 'g) \<Rightarrow> nat \<Rightarrow> nat \<Rightarrow> 'g \<Rightarrow> nat \<times> 'g" where
  "draw_slot randrange cap eligible g = (if eligible \<le> cap then (eligible - 1, g) else randrange g eligible)"

text \<open>One row of the loop over the flows of a device.\<close>

definition flow_turn ::
  "(string \<Rightarrow> (string \<times> int) option) \<Rightarrow> ('g \<Rightarrow> nat \<Rightarrow> nat \<times> 'g) \<Rightarrow> nat \<Rightarrow> string \<Rightarrow> string \<Rightarrow>
   nat \<times> row \<Rightarrow> 'g sampler \<Rightarrow> 'g sampler result" where
  "flow_turn fromisoformat randrange cap pid filename ir st =
     (case ir of (source_row, row) \<Rightarrow>
        let st = st\<lparr>sm_raw_count := sm_raw_count st + 1\<rparr> in
        bind_result (numeric_flow fromisoformat row) (\<lambda>p.
          case p of
            Inl err \<Rightarrow> return (st\<lparr>sm_rejected := counter_add err 1 (sm_rejected st)\<rparr>)
          | Inr (timestamp, duration) \<Rightarrow>
              let eligible = sm_eligible st + 1;
                  (slot, g) = draw_slot randrange cap eligible (sm_rng st);
                  st = st\<lparr>sm_eligible := eligible,
                     sm_time_min := merge_with min (sm_time_min st) timestamp,
                     sm_time_max := merge_with max (sm_time_max st) timestamp,
                     sm_duration_max := max (sm_duration_max st) duration, sm_rng := g\<rparr>
              in if slot \<ge> cap then return st
                 else bind_result (make_sample pid filename source_row timestamp row) (\<lambda>sample.
                   return (st\<lparr>sm_pool := (if eligible \<le> cap then sm_pool st @ [sample]
                                         else (sm_pool st)[slot := sample])\<rparr>))))"

section \<open>The library\<close>

record profile =
  pf_profile_id :: string
  pf_device_label :: string
  pf_device_mac :: string
  pf_source_file :: string
  pf_raw_rows :: nat
  pf_eligible_rows :: nat
  pf_sample_rows :: nat
  pf_rejected_rows :: nat
  pf_time_min :: "string option"
  pf_time_max :: "string option"
  pf_duration_max_raw :: real

text \<open>\<open>re.fullmatch(r"(.+)_([0-9a-fA-F]{12})_flows.csv", name)\<close>, where the dot is any character but a line break.\<close>

definition hex_any :: "char \<Rightarrow> bool" where
  "hex_any c \<longleftrightarrow> lower_hex c \<or> (let n = (of_char c :: nat) in 65 \<le> n \<and> n \<le> 70)"

definition match_device :: "string \<Rightarrow> (string \<times> string) option" where
  "match_device name =
     (let n = length name; label = take (n - 23) name; mac = take 12 (drop (n - 22) name);
          tail = drop (n - 10) name; nl = char_of (10 :: nat)
      in if 24 \<le> n \<and> nl \<notin> set label \<and> name ! (n - 23) = CHR ''_'' \<and> list_all hex_any mac \<and>
            take 6 tail = ''_flows'' \<and> tail ! 6 \<noteq> nl \<and> drop 7 tail = ''csv''
         then Some (label, mac) else None)"

definition profile_name :: "nat \<Rightarrow> string" where
  "profile_name number = ''profile_'' @ (if number < 10 then ''0'' else []) @ nat_to_string number"

type_synonym zip_entry = "string \<times> string list \<times> row list"

definition library_entry ::
  "(string \<Rightarrow> (string \<times> int) option) \<Rightarrow> (nat \<Rightarrow> 'g) \<Rightarrow> ('g \<Rightarrow> nat \<Rightarrow> nat \<times> 'g) \<Rightarrow> int \<Rightarrow> nat \<Rightarrow>
   nat \<times> zip_entry \<Rightarrow> (profile \<times> template list \<times> (string \<times> nat) list) result" where
  "library_entry fromisoformat new_rng randrange seed cap ne =
     (case ne of (number, filename, header, rows) \<Rightarrow>
        (case match_device (last (split_on (CHR ''/'') filename)) of
           None \<Rightarrow> raise ValueError
         | Some (label, mac) \<Rightarrow>
             let pid = profile_name number in
             bind_result (check (set (FLOW_NUMERIC @ [''time'', ''flowDuration'', ''protocol'']) \<subseteq> set header) ValueError) (\<lambda>_.
             bind_result (fold_result (flow_turn fromisoformat randrange cap pid filename) (enumerate 1 rows)
               \<lparr>sm_pool = [], sm_raw_count = 0, sm_eligible = 0, sm_rejected = [], sm_time_min = None,
                sm_time_max = None, sm_duration_max = 0, sm_rng = new_rng (stable_int seed ''reservoir'' [JStr filename])\<rparr>) (\<lambda>st.
             if sm_pool st = [] then raise ValueError
             else return
               (\<lparr>pf_profile_id = pid, pf_device_label = label,
                 pf_device_mac = join_with '':'' (chunk 6 2 (py_lower mac)), pf_source_file = filename,
                 pf_raw_rows = sm_raw_count st, pf_eligible_rows = sm_eligible st,
                 pf_sample_rows = length (sm_pool st), pf_rejected_rows = sum_list (map snd (sm_rejected st)),
                 pf_time_min = sm_time_min st, pf_time_max = sm_time_max st,
                 pf_duration_max_raw = sm_duration_max st\<rparr>,
                sort_key te_source_row (sm_pool st), sm_rejected st)))))"

record library =
  lb_sites :: sites
  lb_links :: "((int \<times> int) \<times> real \<times> real \<times> string) list"
  lb_profiles :: "profile list"
  lb_templates :: "template list"
  lb_rejected :: "(string \<times> nat) list"

definition create_library ::
  "(string \<Rightarrow> (string \<times> int) option) \<Rightarrow> (nat \<Rightarrow> 'g) \<Rightarrow> ('g \<Rightarrow> nat \<Rightarrow> nat \<times> 'g) \<Rightarrow> int \<Rightarrow> nat \<Rightarrow>
   string list \<Rightarrow> string list \<Rightarrow> zip_entry list \<Rightarrow> library result" where
  "create_library fromisoformat new_rng randrange seed cap mote_locs connectivity archive =
     bind_result (read_topology mote_locs connectivity) (\<lambda>(locations, links, ig).
     let entries = sort_key fst (filter (\<lambda>e. starts_with (rev ''.csv'') (rev (fst e))) archive) in
     bind_result (traverse (library_entry fromisoformat new_rng randrange seed cap) (enumerate 0 entries)) (\<lambda>parts.
       return \<lparr>lb_sites = sort_key fst locations,
         lb_links = map (\<lambda>((a, b), q). ((a, b), q, if a = b then 1 else q,
             if a = b then ''co_located_assumption'' else ''measured_directed'')) (sort_key fst links),
         lb_profiles = map fst parts, lb_templates = concat (map (fst \<circ> snd) parts),
         lb_rejected = fold (\<lambda>(k, n). counter_add k n) (concat (map (snd \<circ> snd) parts)) []\<rparr>))"

section \<open>Reading the library back\<close>

record loaded =
  ld_profiles :: "profile list"
  ld_sites :: sites
  ld_links :: "(int \<times> int) \<rightharpoonup> real \<times> string"
  ld_templates :: "string \<rightharpoonup> template list"

definition add_template :: "template \<Rightarrow> (string \<rightharpoonup> template list) \<Rightarrow> (string \<rightharpoonup> template list) result" where
  "add_template t pools =
     (case pools (te_profile_id t) of
        None \<Rightarrow> raise KeyError
      | Some pool \<Rightarrow> return (pools(te_profile_id t \<mapsto> pool @ [t])))"

definition load_library :: "library \<Rightarrow> loaded result" where
  "load_library lib =
     bind_result (fold_result add_template (lb_templates lib)
         (map_of (map (\<lambda>p. (pf_profile_id p, [])) (lb_profiles lib)))) (\<lambda>templates.
       return \<lparr>ld_profiles = lb_profiles lib, ld_sites = lb_sites lib,
         ld_links = map_of (rev (map (\<lambda>(ab, m, q, rule). (ab, q, rule)) (lb_links lib))),
         ld_templates = templates\<rparr>)"

end
