(* ===== verification/Dataset.thy ===== *)
theory Dataset
  imports SceneLibrary
begin

text \<open>
  The dataset of real accounts with IoT scenes: the generator \<open>build\<close> of
  \<open>prepare_iot_v2_dataset.py\<close>, which maps every account to a device and a site and every
  transaction to a flow template by the stable hash, and the independent validator of
  \<open>validate_iot_v2_dataset.py\<close>, which recomputes all of it from the files. The digests of
  whole files, the copy of the transaction file and the status files are not part of the model.
\<close>

section \<open>Accounts\<close>

record account =
  ac_account_address :: string
  ac_profile_id :: string
  ac_device_label :: string
  ac_actor_type :: string
  ac_site_id :: int
  ac_x_m :: real
  ac_y_m :: real
  ac_first_tx_index :: "int option"

text \<open>The keys of \<open>{int(row["site_id"]): ...}\<close> in sorted order, and its lookup.\<close>

definition site_ids :: "sites \<Rightarrow> int list" where
  "site_ids sites = sort (remdups (map fst sites))"

definition site_at :: "sites \<Rightarrow> int \<rightharpoonup> real \<times> real" where
  "site_at sites = map_of (rev sites)"

definition map_account :: "string \<Rightarrow> profile list \<Rightarrow> sites \<Rightarrow> int \<Rightarrow> account result" where
  "map_account address profiles sites seed =
     (let normalized = py_lower address; ids = site_ids sites in
      if profiles = [] \<or> ids = [] then raise ZeroDivisionError
      else
        (let profile = profiles ! (stable_int seed ''profile'' [JStr normalized] mod length profiles);
             site = ids ! (stable_int seed ''site'' [JStr normalized] mod length ids);
             (x, y) = the (site_at sites site)
         in return \<lparr>ac_account_address = normalized, ac_profile_id = pf_profile_id profile,
              ac_device_label = pf_device_label profile, ac_actor_type = ''device'', ac_site_id = site,
              ac_x_m = x, ac_y_m = y, ac_first_tx_index = None\<rparr>))"

definition template_for ::
  "string list \<Rightarrow> int \<Rightarrow> account \<Rightarrow> (string \<rightharpoonup> template list) \<Rightarrow> int \<Rightarrow> template result" where
  "template_for row global_index account templates seed =
     (case templates (ac_profile_id account) of
        None \<Rightarrow> raise KeyError
      | Some pool \<Rightarrow>
          if pool = [] then raise ZeroDivisionError
          else return (pool ! (stable_int seed ''transaction_template''
                                 [JInt global_index, JList (map JStr row)] mod length pool)))"

section \<open>Scene records\<close>

record scene_record =
  sr_tx_index :: int
  sr_source_row :: int
  sr_from_address :: string
  sr_to_address :: string
  sr_from_profile_id :: string
  sr_to_profile_id :: string
  sr_from_site_id :: int
  sr_to_site_id :: int
  sr_from_actor_type :: string
  sr_to_actor_type :: string
  sr_template_id :: string
  sr_protocol :: string
  sr_srcNumPackets :: string
  sr_dstNumPackets :: string
  sr_srcPayloadSize :: string
  sr_dstPayloadSize :: string
  sr_flowDuration :: string
  sr_is_control_protocol :: string
  sr_distance_m :: real
  sr_link_quality_forward :: real
  sr_link_quality_reverse :: real
  sr_link_quality_rule :: string

text \<open>
  The value of \<open>format(x, ".12g")\<close>: twelve significant digits, rounded half to even. The text
  of \<open>format(x, ".17g")\<close> gives the float back.
\<close>

definition round_even :: "real \<Rightarrow> int" where
  "round_even y =
     (let d = y - real_of_int \<lfloor>y\<rfloor> in
      if d < 1/2 \<or> (d = 1/2 \<and> even \<lfloor>y\<rfloor>) then \<lfloor>y\<rfloor> else \<lfloor>y\<rfloor> + 1)"

definition round_sig :: "nat \<Rightarrow> real \<Rightarrow> real" where
  "round_sig digits x =
     (if x = 0 then 0
      else (let unit = 10 powr real_of_int (\<lfloor>log 10 \<bar>x\<bar>\<rfloor> - int digits + 1)
            in real_of_int (round_even (x / unit)) * unit))"

definition hypot :: "real \<Rightarrow> real \<Rightarrow> real" where
  "hypot x y = sqrt (x\<^sup>2 + y\<^sup>2)"

definition make_record ::
  "int \<Rightarrow> nat \<Rightarrow> string \<Rightarrow> string \<Rightarrow> account \<Rightarrow> account \<Rightarrow> template \<Rightarrow> real \<Rightarrow> real \<Rightarrow> string \<Rightarrow> scene_record" where
  "make_record global_index local_index a b sender recipient sample q_forward q_reverse rule =
     \<lparr>sr_tx_index = global_index, sr_source_row = int local_index + 1, sr_from_address = a, sr_to_address = b,
      sr_from_profile_id = ac_profile_id sender, sr_to_profile_id = ac_profile_id recipient,
      sr_from_site_id = ac_site_id sender, sr_to_site_id = ac_site_id recipient,
      sr_from_actor_type = ''device'', sr_to_actor_type = ''device'',
      sr_template_id = te_template_id sample, sr_protocol = te_protocol sample,
      sr_srcNumPackets = te_srcNumPackets sample, sr_dstNumPackets = te_dstNumPackets sample,
      sr_srcPayloadSize = te_srcPayloadSize sample, sr_dstPayloadSize = te_dstPayloadSize sample,
      sr_flowDuration = te_flowDuration sample, sr_is_control_protocol = te_is_control_protocol sample,
      sr_distance_m = round_sig 12 (hypot (ac_x_m sender - ac_x_m recipient) (ac_y_m sender - ac_y_m recipient)),
      sr_link_quality_forward = q_forward, sr_link_quality_reverse = q_reverse, sr_link_quality_rule = rule\<rparr>"

section \<open>The generator\<close>

record build_state =
  bs_accounts :: "(string \<times> account) list"
  bs_records :: "scene_record list"
  bs_pair_counts :: "((string \<times> string) \<times> nat) list"
  bs_template_use :: "(string \<times> nat) list"
  bs_profile_use :: "(string \<times> nat) list"
  bs_site_use :: "(int \<times> nat) list"
  bs_zero_links :: nat
  bs_co_located :: nat
  bs_zero_duration :: nat
  bs_control :: nat

definition empty_build :: build_state where
  "empty_build = \<lparr>bs_accounts = [], bs_records = [], bs_pair_counts = [], bs_template_use = [],
     bs_profile_use = [], bs_site_use = [], bs_zero_links = 0, bs_co_located = 0, bs_zero_duration = 0, bs_control = 0\<rparr>"

definition add_account ::
  "loaded \<Rightarrow> int \<Rightarrow> int \<Rightarrow> string \<Rightarrow> (string \<times> account) list \<Rightarrow> (string \<times> account) list result" where
  "add_account lib seed global_index address accounts =
     (if known accounts address then return accounts
      else bind_result (map_account address (ld_profiles lib) (ld_sites lib) seed) (\<lambda>acc.
        return (accounts @ [(address, acc\<lparr>ac_first_tx_index := Some global_index\<rparr>)])))"

definition link_of :: "loaded \<Rightarrow> int \<Rightarrow> int \<Rightarrow> (real \<times> string) result" where
  "link_of lib u v = (case ld_links lib (u, v) of None \<Rightarrow> raise KeyError | Some qr \<Rightarrow> return qr)"

text \<open>One transaction of the loop.\<close>

definition build_turn ::
  "loaded \<Rightarrow> int \<Rightarrow> int \<Rightarrow> nat \<times> string list \<Rightarrow> build_state \<Rightarrow> build_state result" where
  "build_turn lib seed index_offset ir st =
     (case ir of (local_index, row) \<Rightarrow>
        bind_result (check_chain_row row) (\<lambda>(a, b).
        let global_index = index_offset + int local_index in
        bind_result (fold_result (add_account lib seed global_index) [a, b] (bs_accounts st)) (\<lambda>accounts.
        let sender = the (map_of accounts a); recipient = the (map_of accounts b) in
        bind_result (template_for row global_index sender (ld_templates lib) seed) (\<lambda>sample.
        bind_result (link_of lib (ac_site_id sender) (ac_site_id recipient)) (\<lambda>(q_forward, rule).
        bind_result (link_of lib (ac_site_id recipient) (ac_site_id sender)) (\<lambda>(q_reverse, _).
        bind_result (to_flt (te_flowDuration sample)) (\<lambda>duration.
          return \<lparr>bs_accounts = accounts,
            bs_records = bs_records st @
              [make_record global_index local_index a b sender recipient sample q_forward q_reverse rule],
            bs_pair_counts = counter_add (a, b) 1 (bs_pair_counts st),
            bs_template_use = counter_add (te_template_id sample) 1 (bs_template_use st),
            bs_profile_use = counter_add (ac_profile_id sender) 1 (bs_profile_use st),
            bs_site_use = counter_add (ac_site_id sender) 1 (bs_site_use st),
            bs_zero_links = bs_zero_links st + of_bool (q_forward = 0),
            bs_co_located = bs_co_located st + of_bool (ac_site_id sender = ac_site_id recipient),
            bs_zero_duration = bs_zero_duration st + of_bool (duration = Fin 0),
            bs_control = bs_control st + of_bool (te_is_control_protocol sample = ''1'')\<rparr>)))))))"

record summary =
  su_version :: string
  su_seed :: int
  su_index_offset :: int
  su_transactions :: nat
  su_accounts :: nat
  su_directed_account_pairs :: nat
  su_unique_templates_used :: nat
  su_repeated_template_assignments :: nat
  su_max_template_reuse :: nat
  su_zero_directed_quality_rows :: nat
  su_co_located_rows :: nat
  su_zero_duration_rows :: nat
  su_control_template_rows :: nat

record dataset =
  ds_summary :: summary
  ds_library :: library
  ds_chain :: "string list list"
  ds_accounts :: "account list"
  ds_scene :: "scene_record list"
  ds_template_usage :: "(string \<times> nat) list option"

definition max_count :: "('k \<times> nat) list \<Rightarrow> nat" where
  "max_count counter = fold max (map snd counter) 0"

definition build_summary :: "int \<Rightarrow> int \<Rightarrow> build_state \<Rightarrow> summary" where
  "build_summary seed index_offset st =
     (let rows = length (bs_records st) in
      \<lparr>su_version = VERSION, su_seed = seed, su_index_offset = index_offset, su_transactions = rows,
       su_accounts = length (bs_accounts st), su_directed_account_pairs = length (bs_pair_counts st),
       su_unique_templates_used = length (bs_template_use st),
       su_repeated_template_assignments = rows - length (bs_template_use st),
       su_max_template_reuse = max_count (bs_template_use st),
       su_zero_directed_quality_rows = bs_zero_links st, su_co_located_rows = bs_co_located st,
       su_zero_duration_rows = bs_zero_duration st, su_control_template_rows = bs_control st\<rparr>)"

definition build :: "library \<Rightarrow> int \<Rightarrow> int \<Rightarrow> int \<Rightarrow> string list list \<Rightarrow> dataset result" where
  "build lib seed templates_per_profile index_offset chain =
     (if templates_per_profile \<le> 0 \<or> index_offset < 0 then raise ValueError
      else bind_result (load_library lib) (\<lambda>loaded.
        bind_result (fold_result (build_turn loaded seed index_offset) (enumerate 0 chain) empty_build) (\<lambda>st.
        if bs_records st = [] then raise ValueError
        else return \<lparr>ds_summary = build_summary seed index_offset st, ds_library = lib, ds_chain = chain,
          ds_accounts = map snd (sort_key fst (bs_accounts st)), ds_scene = bs_records st,
          ds_template_usage = Some (bs_template_use st)\<rparr>)))"

section \<open>The validator\<close>

definition keyed :: "('r \<Rightarrow> 'k) \<Rightarrow> 'r list \<Rightarrow> ('k \<times> 'r) list result" where
  "keyed key = (\<lambda>rows. fold_result (\<lambda>row result.
     if known result (key row) then raise AssertionError else return (result @ [(key row, row)])) rows [])"

definition hash_choice :: "string \<Rightarrow> int \<Rightarrow> string \<Rightarrow> json list \<Rightarrow> nat" where
  "hash_choice version seed purpose parts =
     from_bytes_big (take 16 (sha256_bytes
       (dumps (JList ([JStr version, JInt seed, JStr purpose] @ parts)))))"

definition add_to_pool ::
  "(string \<times> profile) list \<Rightarrow> template \<Rightarrow> (string \<rightharpoonup> string list) \<Rightarrow> (string \<rightharpoonup> string list) result" where
  "add_to_pool profiles sample pools =
     (case map_of profiles (te_profile_id sample) of
        None \<Rightarrow> raise AssertionError
      | Some p \<Rightarrow>
          if te_source_file sample \<noteq> pf_source_file p then raise AssertionError
          else return (pools(te_profile_id sample \<mapsto>
                 (case pools (te_profile_id sample) of None \<Rightarrow> [] | Some ids \<Rightarrow> ids) @ [te_template_id sample])))"

definition check_account ::
  "string \<Rightarrow> int \<Rightarrow> (string \<times> profile) list \<Rightarrow> sites \<Rightarrow> string \<times> account \<Rightarrow> unit result" where
  "check_account version seed profiles sites ar =
     (case ar of (address, row) \<Rightarrow>
        bind_result (check (ac_actor_type row = ''device'') AssertionError) (\<lambda>_.
        if profiles = [] \<or> sites = [] then raise ZeroDivisionError
        else
          (let ids = site_ids sites;
               pid = map fst profiles ! (hash_choice version seed ''profile'' [JStr address] mod length profiles);
               site = ids ! (hash_choice version seed ''site'' [JStr address] mod length ids)
           in bind_result (check (ac_profile_id row = pid \<and> ac_site_id row = site) AssertionError) (\<lambda>_.
              check ((ac_x_m row, ac_y_m row) = the (site_at sites site)) AssertionError))))"

record check_state =
  vs_seen :: "string set"
  vs_first_seen :: "(string \<times> int) list"
  vs_pairs :: "(string \<times> string) set"
  vs_exact_rows :: "nat list set"
  vs_uses :: "(string \<times> nat) list"
  vs_count :: nat
  vs_duplicate_rows :: nat
  vs_zero_links :: nat
  vs_local_rows :: nat
  vs_zero_duration :: nat
  vs_zero_payload :: nat
  vs_duration_max :: real
  vs_distance_max :: real

definition empty_check :: check_state where
  "empty_check = \<lparr>vs_seen = {}, vs_first_seen = [], vs_pairs = {}, vs_exact_rows = {}, vs_uses = [],
     vs_count = 0, vs_duplicate_rows = 0, vs_zero_links = 0, vs_local_rows = 0, vs_zero_duration = 0,
     vs_zero_payload = 0, vs_duration_max = 0, vs_distance_max = 0\<rparr>"

record tables =
  tb_accounts :: "(string \<times> account) list"
  tb_templates :: "(string \<times> template) list"
  tb_pools :: "string \<rightharpoonup> string list"
  tb_sites :: sites
  tb_links :: "((int \<times> int) \<times> real \<times> real \<times> string) list"

definition look :: "('k \<rightharpoonup> 'v) \<Rightarrow> 'k \<Rightarrow> 'v result" where
  "look m k = (case m k of None \<Rightarrow> raise KeyError | Some v \<Rightarrow> return v)"

definition same_endpoint :: "account \<Rightarrow> string \<Rightarrow> int \<Rightarrow> string \<Rightarrow> bool" where
  "same_endpoint mapped pid site actor \<longleftrightarrow>
     pid = ac_profile_id mapped \<and> site = ac_site_id mapped \<and> actor = ac_actor_type mapped"

definition same_template :: "scene_record \<Rightarrow> template \<Rightarrow> bool" where
  "same_template r t \<longleftrightarrow> sr_protocol r = te_protocol t \<and> sr_srcNumPackets r = te_srcNumPackets t \<and>
     sr_dstNumPackets r = te_dstNumPackets t \<and> sr_srcPayloadSize r = te_srcPayloadSize t \<and>
     sr_dstPayloadSize r = te_dstPayloadSize t \<and> sr_flowDuration r = te_flowDuration t \<and>
     sr_is_control_protocol r = te_is_control_protocol t"

definition setdefault :: "'k \<Rightarrow> 'v \<Rightarrow> ('k \<times> 'v) list \<Rightarrow> ('k \<times> 'v) list" where
  "setdefault k v kvs = (if known kvs k then kvs else kvs @ [(k, v)])"

text \<open>The checks of a record against its transaction and its accounts.\<close>

definition check_identity ::
  "tables \<Rightarrow> int \<Rightarrow> nat \<Rightarrow> string list \<Rightarrow> scene_record \<Rightarrow> unit result" where
  "check_identity tb global_index local_index tx r =
     (if length tx \<noteq> 18 \<or> take 2 (drop 6 tx) \<noteq> [''0'', ''0''] then raise AssertionError
      else if \<not> is_digits (tx ! 8) \<or> tx ! 3 = tx ! 4 then raise AssertionError
      else if sr_tx_index r \<noteq> global_index \<or> sr_source_row r \<noteq> int local_index + 1 then raise AssertionError
      else if (sr_from_address r, sr_to_address r) \<noteq> (tx ! 3, tx ! 4) then raise AssertionError
      else
        (case (map_of (tb_accounts tb) (tx ! 3), map_of (tb_accounts tb) (tx ! 4)) of
           (Some s, Some t) \<Rightarrow>
             check (same_endpoint s (sr_from_profile_id r) (sr_from_site_id r) (sr_from_actor_type r) \<and>
                    same_endpoint t (sr_to_profile_id r) (sr_to_site_id r) (sr_to_actor_type r)) AssertionError
         | _ \<Rightarrow> raise AssertionError))"

text \<open>The checks of the template; the value is the duration and the payload.\<close>

definition check_template ::
  "tables \<Rightarrow> string \<Rightarrow> int \<Rightarrow> int \<Rightarrow> string list \<Rightarrow> scene_record \<Rightarrow> (pyfloat \<times> int) result" where
  "check_template tb version seed global_index tx r =
     bind_result (look (map_of (tb_templates tb)) (sr_template_id r)) (\<lambda>sample.
     bind_result (look (map_of (tb_accounts tb)) (tx ! 3)) (\<lambda>sender.
     bind_result (look (tb_pools tb) (ac_profile_id sender)) (\<lambda>pool.
     if pool = [] then raise ZeroDivisionError
     else
       (let chosen = pool ! (hash_choice version seed ''transaction_template''
                        [JInt global_index, JList (map JStr tx)] mod length pool)
        in bind_result (check (sr_template_id r = chosen \<and> te_profile_id sample = ac_profile_id sender \<and>
                               same_template r sample) AssertionError) (\<lambda>_.
           bind_result (to_flt (sr_flowDuration r)) (\<lambda>duration.
           bind_result (to_int (sr_srcPayloadSize r)) (\<lambda>src.
           bind_result (to_int (sr_dstPayloadSize r)) (\<lambda>dst.
             if \<not> is_finite duration \<or> \<not> Fin 0 \<le> duration \<or> \<not> 0 \<le> src + dst then raise AssertionError
             else return (duration, src + dst)))))))))"

text \<open>The checks of the link and the distance; the value is the distance of the two sites.\<close>

definition check_link :: "tables \<Rightarrow> scene_record \<Rightarrow> real result" where
  "check_link tb r =
     (let u = sr_from_site_id r; v = sr_to_site_id r; q = sr_link_quality_forward r;
          reverse = sr_link_quality_reverse r; links = map_of (rev (tb_links tb)) in
      bind_result (look links (u, v)) (\<lambda>(measured, effective, rule).
      if q \<noteq> effective then raise AssertionError
      else bind_result (look links (v, u)) (\<lambda>(_, effective_reverse, _).
      if reverse \<noteq> effective_reverse \<or> sr_link_quality_rule r \<noteq> rule then raise AssertionError
      else
        bind_result (look (site_at (tb_sites tb)) u) (\<lambda>(ux, uy).
        bind_result (look (site_at (tb_sites tb)) v) (\<lambda>(vx, vy).
          let expected_distance = hypot (ux - vx) (uy - vy) in
          if \<not> isclose (Fin (sr_distance_m r)) (Fin expected_distance) then raise AssertionError
          else if (if u = v then q = 1 \<and> reverse = 1 \<and> expected_distance = 0 else q = measured)
          then return expected_distance
          else raise AssertionError)))))"

definition check_turn ::
  "tables \<Rightarrow> string \<Rightarrow> int \<Rightarrow> int \<Rightarrow> nat \<times> string list \<times> scene_record \<Rightarrow> check_state \<Rightarrow> check_state result" where
  "check_turn tb version seed index_offset irr st =
     (case irr of (local_index, tx, r) \<Rightarrow>
        let global_index = index_offset + int local_index; a = tx ! 3; b = tx ! 4;
            signature = sha256_bytes (dumps (JList (map JStr tx))) in
        bind_result (check_identity tb global_index local_index tx r) (\<lambda>_.
        bind_result (check_template tb version seed global_index tx r) (\<lambda>(duration, payload).
        bind_result (check_link tb r) (\<lambda>expected_distance.
          return \<lparr>vs_seen = insert b (insert a (vs_seen st)),
            vs_first_seen = setdefault b global_index (setdefault a global_index (vs_first_seen st)),
            vs_pairs = insert (a, b) (vs_pairs st), vs_exact_rows = insert signature (vs_exact_rows st),
            vs_uses = counter_add (sr_template_id r) 1 (vs_uses st), vs_count = vs_count st + 1,
            vs_duplicate_rows = vs_duplicate_rows st + of_bool (signature \<in> vs_exact_rows st),
            vs_zero_links = vs_zero_links st + of_bool (sr_link_quality_forward r = 0),
            vs_local_rows = vs_local_rows st + of_bool (sr_from_site_id r = sr_to_site_id r),
            vs_zero_duration = vs_zero_duration st + of_bool (duration = Fin 0),
            vs_zero_payload = vs_zero_payload st + of_bool (payload = 0),
            vs_duration_max = max (vs_duration_max st) (fin_val duration),
            vs_distance_max = max (vs_distance_max st) expected_distance\<rparr>))))"

text \<open>The loop over the transactions and their records.\<close>

fun check_rows ::
  "tables \<Rightarrow> string \<Rightarrow> int \<Rightarrow> int \<Rightarrow> nat \<Rightarrow> string list list \<Rightarrow> scene_record list \<Rightarrow> check_state \<Rightarrow>
   check_state result" where
  "check_rows tb version seed index_offset index [] scene st =
     (if scene = [] then return st else raise AssertionError)"
| "check_rows tb version seed index_offset index (tx # chain) [] st = raise AssertionError"
| "check_rows tb version seed index_offset index (tx # chain) (r # scene) st =
     bind_result (check_turn tb version seed index_offset (index, tx, r) st)
       (check_rows tb version seed index_offset (Suc index) chain scene)"

definition totals_agree ::
  "summary \<Rightarrow> (string \<times> account) list \<Rightarrow> (string \<times> nat) list option \<Rightarrow> check_state \<Rightarrow> bool" where
  "totals_agree su accounts usage_file st \<longleftrightarrow>
     vs_seen st = set (map fst accounts) \<and>
     list_all (\<lambda>(a, n). ac_first_tx_index (the (map_of accounts a)) = Some n) (vs_first_seen st) \<and>
     (vs_count st, length accounts, card (vs_pairs st)) =
       (su_transactions su, su_accounts su, su_directed_account_pairs su) \<and>
     (case usage_file of None \<Rightarrow> True | Some usage \<Rightarrow> map_of (vs_uses st) = map_of usage) \<and>
     length (vs_uses st) = su_unique_templates_used su \<and>
     int (vs_count st) - int (length (vs_uses st)) = int (su_repeated_template_assignments su)"

definition validate :: "dataset \<Rightarrow> check_state result" where
  "validate ds =
     (let su = ds_summary ds; lib = ds_library ds in
      bind_result (keyed ac_account_address (ds_accounts ds)) (\<lambda>accounts.
      bind_result (keyed pf_profile_id (lb_profiles lib)) (\<lambda>profiles.
      bind_result (keyed te_template_id (lb_templates lib)) (\<lambda>templates.
      bind_result (check (length (remdups (map fst (lb_links lib))) = length (remdups (map fst (lb_sites lib))) ^ 2)
                     AssertionError) (\<lambda>_.
      bind_result (fold_result (add_to_pool profiles) (map snd templates) (map_of (map (\<lambda>(p, _). (p, [])) profiles))) (\<lambda>pools.
      bind_result (traverse (check_account (su_version su) (su_seed su) profiles (lb_sites lib)) accounts) (\<lambda>_.
      bind_result (check_rows \<lparr>tb_accounts = accounts, tb_templates = templates, tb_pools = pools,
            tb_sites = lb_sites lib, tb_links = lb_links lib\<rparr> (su_version su) (su_seed su) (su_index_offset su)
            0 (ds_chain ds) (ds_scene ds) empty_check) (\<lambda>st.
      bind_result (check (totals_agree su accounts (ds_template_usage ds) st) AssertionError) (\<lambda>_.
      if vs_uses st = [] then raise ValueError
      else bind_result (check (max_count (vs_uses st) = su_max_template_reuse su) AssertionError) (\<lambda>_.
        return st))))))))))"

end
