(* ===== verification/LibraryFacts.thy ===== *)
theory LibraryFacts
  imports Dataset
begin

text \<open>
  What the scene library guarantees: the topology is a complete directed graph of qualities, the
  texts of numbers and identifiers are unambiguous, the sampled pools are drawn from the eligible
  rows, and the library as a whole is well-formed.
\<close>

section \<open>Tables\<close>

lemma known_iff: "known kvs k \<longleftrightarrow> k \<in> fst ` set kvs"
  by (simp add: known_def)

lemma distinct_sort_key: "distinct (map f xs) \<Longrightarrow> distinct (map f (sort_key f xs))"
  by (simp add: distinct_map)

lemma map_of_sort_key:
  assumes "distinct (map fst kvs)"
  shows "map_of (sort_key fst kvs) = map_of (kvs :: ('k::linorder \<times> 'v) list)"
  using assms distinct_sort_key [OF assms] by (simp add: map_of_inject_set)

lemma map_of_rev_distinct: "distinct (map fst kvs) \<Longrightarrow> map_of (rev kvs) = map_of kvs"
  by (simp add: map_of_inject_set rev_map [symmetric])

text \<open>The table of rows with distinct keys.\<close>

lemma keyed_distinct:
  assumes "distinct (map key rows)"
  shows "keyed key rows = Inr (map (\<lambda>r. (key r, r)) rows)"
proof -
  have "fold_result (\<lambda>row result. if known result (key row) then Inl AssertionError else Inr (result @ [(key row, row)]))
      rs (map (\<lambda>r. (key r, r)) ps) = Inr (map (\<lambda>r. (key r, r)) (ps @ rs))"
    if "distinct (map key (ps @ rs))" for rs ps
    using that
  proof (induction rs arbitrary: ps)
    case Nil
    then show ?case by simp
  next
    case (Cons r rs)
    have "\<not> known (map (\<lambda>r. (key r, r)) ps) (key r)" using Cons.prems by (auto simp: known_iff)
    then show ?case using Cons.IH [of "ps @ [r]"] Cons.prems by simp
  qed
  from this [of "[]" rows] show ?thesis using assms by (simp add: keyed_def)
qed

text \<open>Counters: the keys are those counted, each once.\<close>

lemma counter_add_keys:
  "map fst (counter_add k d c) = (if k \<in> fst ` set c then map fst c else map fst c @ [k])"
  by (induction c) (auto split: if_splits)

lemma fold_counter_keys:
  "distinct (map fst c) \<Longrightarrow> distinct (map fst (fold (\<lambda>x. counter_add (f x) d) xs c)) \<and>
   fst ` set (fold (\<lambda>x. counter_add (f x) d) xs c) = fst ` set c \<union> f ` set xs"
proof (induction xs arbitrary: c)
  case Nil
  then show ?case by simp
next
  case (Cons x xs)
  have "distinct (map fst (counter_add (f x) d c))"
    using Cons.prems by (simp add: counter_add_keys)
  moreover have "fst ` set (counter_add (f x) d c) = insert (f x) (fst ` set c)"
    by (metis (no_types, lifting) counter_add_keys list.set_map insert_absorb set_append list.simps(15) empty_set Un_insert_right sup_bot_right)
  ultimately show ?case using Cons.IH [of "counter_add (f x) d c"] by auto
qed

lemma fold_counter_length:
  "length (fold (\<lambda>x. counter_add (f x) d) xs []) = card (f ` set xs)"
proof -
  have "distinct (map fst (fold (\<lambda>x. counter_add (f x) d) xs []))"
    "fst ` set (fold (\<lambda>x. counter_add (f x) d) xs []) = f ` set xs"
    using fold_counter_keys [of "[]" f d xs] by simp_all
  then show ?thesis by (metis distinct_card length_map list.set_map)
qed

section \<open>Rounding of distances\<close>

lemma round_even_error: "\<bar>real_of_int (round_even y) - y\<bar> \<le> 1/2"
  unfolding round_even_def Let_def using floor_correct [of y] by auto

lemma round_sig_error: "\<bar>round_sig k x - x\<bar> \<le> \<bar>x\<bar> * 10 powr (1 - real k) / 2"
proof (cases "x = 0")
  case True
  then show ?thesis by (simp add: round_sig_def)
next
  case False
  define unit where "unit = 10 powr real_of_int (\<lfloor>log 10 \<bar>x\<bar>\<rfloor> - int k + 1)"
  have pos: "0 < unit" by (simp add: unit_def)
  have "real_of_int (\<lfloor>log 10 \<bar>x\<bar>\<rfloor> - int k + 1) \<le> log 10 \<bar>x\<bar> + (1 - real k)" by simp
  then have "unit \<le> 10 powr (log 10 \<bar>x\<bar> + (1 - real k))" by (simp add: unit_def)
  also have "\<dots> = \<bar>x\<bar> * 10 powr (1 - real k)" using False by (simp only: powr_add) simp
  finally have u: "unit \<le> \<bar>x\<bar> * 10 powr (1 - real k)" .
  have "round_sig k x = real_of_int (round_even (x / unit)) * unit"
    using False by (simp only: round_sig_def unit_def Let_def if_False)
  then have "round_sig k x - x = (real_of_int (round_even (x / unit)) - x / unit) * unit"
    using pos by (simp add: algebra_simps)
  then have "\<bar>round_sig k x - x\<bar> = \<bar>real_of_int (round_even (x / unit)) - x / unit\<bar> * unit"
    using pos by (simp add: abs_mult)
  also have "\<dots> \<le> 1/2 * unit" using round_even_error [of "x / unit"] pos by (intro mult_right_mono) simp_all
  finally show ?thesis using u by simp
qed

lemma round_sig_close: "isclose (Fin (round_sig 12 x)) (Fin x)"
proof -
  have "(10 :: real) powr (1 - real (12 :: nat)) / 2 \<le> 1 / 10 ^ 9"
    by (simp add: powr_minus_divide)
  then have "\<bar>x\<bar> * (10 powr (1 - real (12 :: nat)) / 2) \<le> \<bar>x\<bar> * (1 / 10 ^ 9)"
    by (rule mult_left_mono) simp
  then have "\<bar>round_sig 12 x - x\<bar> \<le> 1 / 10 ^ 9 * \<bar>x\<bar>"
    using round_sig_error [of 12 x] by simp
  then show ?thesis by simp
qed

section \<open>The topology\<close>

lemma locations_distinct:
  assumes "fold_result location_line mote_locs [] = Inr locations"
  shows "distinct (map fst locations)"
proof (rule fold_result_inv [where P = "\<lambda>_ ls. distinct (map fst ls)", OF assms])
  show "distinct (map fst b)" if "distinct (map fst a)" "location_line x a = Inr b" for x and a b :: sites
    using that by (auto simp: location_line_def result_simps known_def split: list.splits if_splits)
qed simp

definition links_ok :: "sites \<Rightarrow> links \<Rightarrow> bool" where
  "links_ok locations ls \<longleftrightarrow> distinct (map fst ls) \<and>
     (\<forall>((a, b), q)\<in>set ls. known locations a \<and> known locations b \<and> 0 \<le> q \<and> q \<le> 1)"

lemma link_line_ok:
  assumes "links_ok locations (fst a)" and "link_line locations x a = Inr b"
  shows "links_ok locations (fst b)"
proof -
  have "fst b = fst a \<or> (\<exists>u v q. fst b = fst a @ [((u, v), q)] \<and> \<not> known (fst a) (u, v) \<and>
      known locations u \<and> known locations v \<and> 0 \<le> q \<and> q \<le> 1)"
    using assms(2)
    by (auto simp: link_line_def result_simps is_finite_iff split: list.splits if_splits prod.splits)
  then show ?thesis using assms(1) by (auto simp: links_ok_def known_def [of "fst a"])
qed

lemma read_topology_ok:
  assumes "read_topology mote_locs connectivity = Inr (locations, links, ig)"
  shows "locations \<noteq> [] \<and> distinct (map fst locations) \<and> distinct (map fst links) \<and>
     fst ` set links = fst ` set locations \<times> fst ` set locations \<and> (\<forall>(ab, q)\<in>set links. 0 \<le> q \<and> q \<le> 1)"
proof -
  from assms have l: "fold_result location_line mote_locs [] = Inr locations"
    and k: "fold_result (link_line locations) connectivity
      ([], \<lparr>ig_ascii_eof_lines = 0, ig_incomplete_links = 0, ig_links_without_coordinates = 0\<rparr>) = Inr (links, ig)"
    and c: "locations \<noteq> []" "\<forall>a\<in>fst ` set locations. \<forall>b\<in>fst ` set locations. (a, b) \<in> fst ` set links"
    by (auto simp: read_topology_def result_simps known_iff list_ex_iff split: if_splits)
  have "links_ok locations (fst (links, ig))"
    by (rule fold_result_inv [where P = "\<lambda>_ st. links_ok locations (fst st)", OF k])
       (auto simp: links_ok_def [of _ "[]"] intro: link_line_ok)
  then have d: "distinct (map fst links)"
    and q: "\<And>a b q. ((a, b), q) \<in> set links \<Longrightarrow> a \<in> fst ` set locations \<and> b \<in> fst ` set locations \<and> 0 \<le> q \<and> q \<le> 1"
    by (auto simp: links_ok_def known_iff)
  have "fst ` set links = fst ` set locations \<times> fst ` set locations"
    using c(2) q by (intro equalityI subsetI) (auto simp del: split_paired_All)
  then show ?thesis using c(1) d q locations_distinct [OF l] by auto
qed

text \<open>
  A topology that is read without an error is complete: there is at least one site, no
  site and no link is defined twice, and every ordered pair of sites has exactly one measured
  quality, which is in the unit interval; nothing is imputed for a missing link.
\<close>

theorem read_topology_complete:
  assumes "read_topology mote_locs connectivity = Inr (locations, links, ig)"
  shows "locations \<noteq> [] \<and> distinct (map fst locations) \<and> distinct (map fst links) \<and>
     fst ` set links = fst ` set locations \<times> fst ` set locations \<and> (\<forall>(ab, q)\<in>set links. 0 \<le> q \<and> q \<le> 1)"
  using assms by (rule read_topology_ok)

text \<open>A topology of one site.\<close>

lemma demo_topology_texts:
  "py_split ''1 0 0'' = [''1'', ''0'', ''0'']" "py_split ''1 1 1'' = [''1'', ''1'', ''1'']"
  "to_int ''1'' = Inr 1" "plain_digits ''0'' = Some 0" "plain_digits ''1'' = Some 1"
  by code_simp+

lemma demo_topology:
  "read_topology [''1 0 0''] [''1 1 1''] = Inr ([(1, 0, 0)], [((1, 1), 1)],
     \<lparr>ig_ascii_eof_lines = 0, ig_incomplete_links = 0, ig_links_without_coordinates = 0\<rparr>)"
proof -
  have f: "to_flt ''0'' = Inr (Fin 0)" "to_flt ''1'' = Inr (Fin 1)"
    using demo_topology_texts(4,5) [THEN py_float_plain] by (simp_all add: to_flt_def double_overflow_def)
  show ?thesis
    by (simp add: read_topology_def location_line_def link_line_def demo_topology_texts f known_def)
qed

theorem read_topology_complete_witness:
  "\<exists>locations links ig. read_topology [''1 0 0''] [''1 1 1''] = Inr (locations, links, ig) \<and>
     fst ` set links = fst ` set locations \<times> fst ` set locations"
  using read_topology_complete [OF demo_topology] demo_topology by blast

section \<open>Texts of numbers and identifiers\<close>

lemma nat_to_string_digits: "list_all (\<lambda>c. 48 \<le> (of_char c :: nat) \<and> (of_char c :: nat) \<le> 57) (nat_to_string n)"
proof (induction n rule: nat_to_string.induct)
  case (1 n)
  then show ?case by (subst nat_to_string.simps) (auto simp: list_all_iff of_char_of)
qed

lemma nat_to_string_nonempty: "nat_to_string n \<noteq> []"
  by (subst nat_to_string.simps) simp

lemma parse_digits_append:
  assumes "list_all (\<lambda>c. 48 \<le> (of_char c :: nat) \<and> (of_char c :: nat) \<le> 57) ds" and "ds \<noteq> []"
  shows "parse_digits 10 prev acc (ds @ t) =
         parse_digits 10 True (foldl (\<lambda>acc c. acc * 10 + (of_char c - 48)) acc ds) t"
  using assms
proof (induction ds arbitrary: prev acc)
  case Nil
  then show ?case by simp
next
  case (Cons c ds)
  have "c \<noteq> CHR ''_''" "digit_val c = Some (of_char c - 48)" "of_char c - 48 < (10 :: nat)"
    using Cons.prems(1) by (auto simp: digit_val_def Let_def)
  then show ?case using Cons by (cases "ds = []") auto
qed

text \<open>Reading back the decimal text of a number.\<close>

lemma parse_nat_to_string: "parse_digits 10 prev 0 (nat_to_string n) = Some n"
proof -
  have "foldl (\<lambda>acc c. acc * 10 + (of_char c - 48)) (0 :: nat) (nat_to_string n) = n"
  proof (induction n rule: nat_to_string.induct)
    case (1 n)
    then show ?case by (subst nat_to_string.simps) (auto simp: of_char_of)
  qed
  then show ?thesis
    using parse_digits_append [OF nat_to_string_digits nat_to_string_nonempty, of prev 0 n "[]"] by simp
qed

lemma nat_to_string_inj: "nat_to_string m = nat_to_string n \<Longrightarrow> m = n"
  by (metis parse_nat_to_string option.inject)

lemma profile_name_inj: "profile_name m = profile_name n \<Longrightarrow> m = n"
proof -
  have p: "parse_digits 10 False 0 ((if k < 10 then ''0'' else []) @ nat_to_string k) = Some k" for k
    by (simp add: parse_nat_to_string digit_val_def)
  show "profile_name m = profile_name n \<Longrightarrow> m = n"
    unfolding profile_name_def by (metis p option.inject append.assoc same_append_eq)
qed

lemma colon_not_digit: "CHR '':'' \<notin> set (nat_to_string n)"
  using nat_to_string_digits [of n] by (auto simp: list_all_iff)

lemma colon_not_profile: "CHR '':'' \<notin> set (profile_name n)"
  using colon_not_digit [of n] by (simp add: profile_name_def)

lemma append_sep_inj:
  assumes "c \<notin> set xs" "c \<notin> set ys" "xs @ c # s = ys @ c # t"
  shows "xs = ys \<and> s = t"
  using assms
proof (induction xs arbitrary: ys)
  case Nil
  then show ?case by (cases ys) auto
next
  case (Cons x xs)
  then show ?case by (cases ys) auto
qed

lemma py_int_digits:
  assumes "is_digits s"
  shows "\<exists>n. py_int 10 s = Some (int n)"
proof -
  have d: "list_all (\<lambda>c. 48 \<le> (of_char c :: nat) \<and> (of_char c :: nat) \<le> 57) s" "s \<noteq> []"
    using assms by (simp_all add: is_digits_def)
  have strip: "dropWhile is_space t = t" if "list_all (\<lambda>c. 48 \<le> (of_char c :: nat) \<and> (of_char c :: nat) \<le> 57) t" for t
    using that by (cases t) (auto simp: is_space_def Let_def)
  have "py_strip s = s" using strip [OF d(1)] strip [of "rev s"] d(1) by (simp add: py_strip_def strip_by_def)
  moreover have "split_sign s = (False, s)" using d by (cases s) auto
  moreover have "drop_base_prefix 10 s = s" by (simp add: drop_base_prefix_def)
  ultimately show ?thesis
    using parse_digits_append [OF d, of False 0 "[]"] by (auto simp: py_int_def)
qed

section \<open>Sampling\<close>

text \<open>A template as the library keeps it: its numbers are readable.\<close>

definition template_ok :: "template \<Rightarrow> bool" where
  "template_ok t \<longleftrightarrow> (\<exists>d. py_float (te_flowDuration t) = Some (Fin d) \<and> 0 \<le> d) \<and>
     is_digits (te_srcPayloadSize t) \<and> is_digits (te_dstPayloadSize t)"

lemma str_field_digits: "is_digits (py_strip (str_field row f)) \<Longrightarrow> \<exists>t. row f = Some (Some t) \<and> is_digits (py_strip t)"
proof -
  have "\<not> is_digits (py_strip [])" "\<not> is_digits (py_strip ''None'')" by code_simp+
  then show "is_digits (py_strip (str_field row f)) \<Longrightarrow> \<exists>t. row f = Some (Some t) \<and> is_digits (py_strip t)"
    by (auto simp: str_field_def split: option.splits)
qed

lemma py_float_strip [simp]: "py_float (py_strip s) = py_float s"
  by (simp add: py_float_def)

lemma numeric_flow_ok:
  assumes "numeric_flow fromiso row = Inr (Inr (stamp, d))"
  shows "(\<exists>t. row ''flowDuration'' = Some (Some t) \<and> py_float t = Some (Fin d)) \<and> 0 \<le> d \<and>
     (\<forall>f\<in>set FLOW_NUMERIC. \<exists>t. row f = Some (Some t) \<and> is_digits (py_strip t))"
proof -
  have none: "filter (\<lambda>f. \<not> is_digits (py_strip (str_field row f))) FLOW_NUMERIC = []"
    using assms by (auto simp: numeric_flow_def split: list.splits)
  obtain x year where p: "parsed_times fromiso row = Inr (Some (x, stamp, year))" "is_finite x" "\<not> x < Fin 0" "d = fin_val x"
  proof -
    obtain q where q: "parsed_times fromiso row = Inr q" using assms none by (auto simp: numeric_flow_def result_simps)
    then obtain x s y where "q = Some (x, s, y)" using assms none by (cases q) (auto simp: numeric_flow_def)
    then show thesis using assms none q that by (auto simp: numeric_flow_def split: if_splits)
  qed
  then obtain t where "row ''flowDuration'' = Some (Some t)" "py_float t = Some x"
    by (auto simp: parsed_times_def split: option.splits)
  moreover have "x = Fin d" "0 \<le> d" using p(2-4) by (auto simp: is_finite_iff not_less)
  moreover have "\<exists>t. row f = Some (Some t) \<and> is_digits (py_strip t)" if "f \<in> set FLOW_NUMERIC" for f
    using none that str_field_digits [of row f] by (auto simp: filter_empty_conv)
  ultimately show ?thesis by blast
qed

lemma make_sample_ok:
  assumes "numeric_flow fromiso row = Inr (Inr (stamp, d))" and "make_sample pid filename i stamp row = Inr t"
  shows "template_ok t" and "te_profile_id t = pid" and "te_source_file t = filename" and "te_source_row t = i"
    and "te_template_id t = pid @ '':'' @ nat_to_string i"
proof -
  note n = numeric_flow_ok [OF assms(1)]
  have num: "is_digits (py_strip (cell row f))" if "f \<in> set FLOW_NUMERIC" for f
    using n that by (auto simp: cell_def)
  have "te_flowDuration t = py_strip (cell row ''flowDuration'')"
    "te_srcPayloadSize t = py_strip (cell row ''srcPayloadSize'')"
    "te_dstPayloadSize t = py_strip (cell row ''dstPayloadSize'')"
    and rest: "te_profile_id t = pid" "te_source_file t = filename" "te_source_row t = i"
      "te_template_id t = pid @ '':'' @ nat_to_string i"
    using assms(2) by (auto simp: make_sample_def result_simps Let_def)
  moreover have "py_float (cell row ''flowDuration'') = Some (Fin d)" "0 \<le> d" using n by (auto simp: cell_def)
  ultimately show "template_ok t" using num by (simp add: template_ok_def FLOW_NUMERIC_def)
  show "te_profile_id t = pid" "te_source_file t = filename" "te_source_row t = i"
    "te_template_id t = pid @ '':'' @ nat_to_string i" by (rule rest)+
qed

definition pool_ok :: "nat \<Rightarrow> string \<Rightarrow> string \<Rightarrow> nat list \<Rightarrow> 'g sampler \<Rightarrow> bool" where
  "pool_ok cap pid filename rows st \<longleftrightarrow>
     length (sm_pool st) = min cap (sm_eligible st) \<and> distinct (map te_source_row (sm_pool st)) \<and>
     sm_raw_count st = length rows \<and>
     sm_raw_count st = sm_eligible st + sum_list (map snd (sm_rejected st)) \<and>
     (\<forall>t\<in>set (sm_pool st). template_ok t \<and> te_profile_id t = pid \<and> te_source_file t = filename \<and>
        te_source_row t \<in> set rows \<and> te_template_id t = pid @ '':'' @ nat_to_string (te_source_row t))"

lemma sum_counter_add: "sum_list (map snd (counter_add k d c)) = sum_list (map snd c) + (d :: nat)"
  by (induction c) auto

lemma flow_turn_ok:
  assumes "pool_ok cap pid filename rows st" and "i \<notin> set rows"
    and "flow_turn fromiso randrange cap pid filename (i, row) st = Inr st'"
  shows "pool_ok cap pid filename (rows @ [i]) st'"
proof -
  from assms(3) obtain p where p: "numeric_flow fromiso row = Inr p"
    by (auto simp: flow_turn_def Let_def result_simps)
  show ?thesis
  proof (cases p)
    case (Inl err)
    then have "st' = st\<lparr>sm_raw_count := sm_raw_count st + 1, sm_rejected := counter_add err 1 (sm_rejected st)\<rparr>"
      using assms(3) p by (simp add: flow_turn_def)
    then show ?thesis using assms(1) by (auto simp: pool_ok_def sum_counter_add)
  next
    case (Inr sd)
    then obtain stamp d where sd: "p = Inr (stamp, d)" by (cases sd) auto
    obtain slot g where sl: "draw_slot randrange cap (sm_eligible st + 1) (sm_rng st) = (slot, g)" by force
    let ?e = "sm_eligible st + 1"
    show ?thesis
    proof (cases "slot \<ge> cap")
      case True
      then have "\<not> ?e \<le> cap" using sl by (auto simp: draw_slot_def split: if_splits)
      then show ?thesis using assms(1,3) p sd sl True by (auto simp: flow_turn_def Let_def pool_ok_def)
    next
      case False
      then obtain t where t: "make_sample pid filename i stamp row = Inr t"
        and st': "sm_pool st' = (if ?e \<le> cap then sm_pool st @ [t] else (sm_pool st)[slot := t])"
          "sm_eligible st' = ?e" "sm_raw_count st' = sm_raw_count st + 1" "sm_rejected st' = sm_rejected st"
      proof -
        let ?base = "st\<lparr>sm_raw_count := sm_raw_count st + 1, sm_eligible := ?e,
             sm_time_min := merge_with min (sm_time_min st) stamp,
             sm_time_max := merge_with max (sm_time_max st) stamp,
             sm_duration_max := max (sm_duration_max st) d, sm_rng := g\<rparr>"
        have "flow_turn fromiso randrange cap pid filename (i, row) st =
            bind_result (make_sample pid filename i stamp row) (\<lambda>t.
              Inr (?base\<lparr>sm_pool := (if ?e \<le> cap then sm_pool st @ [t] else (sm_pool st)[slot := t])\<rparr>))"
          using p sd sl False by (simp add: flow_turn_def Let_def cong: if_cong)
        with assms(3) obtain t where "make_sample pid filename i stamp row = Inr t"
          "st' = ?base\<lparr>sm_pool := (if ?e \<le> cap then sm_pool st @ [t] else (sm_pool st)[slot := t])\<rparr>"
          by (auto simp: result_simps split del: if_split)
        then show thesis by (intro that [of t]) simp_all
      qed
      note ts = make_sample_ok [OF p [unfolded sd] t]
      have fresh: "i \<notin> te_source_row ` set (sm_pool st)" using assms(1,2) by (auto simp: pool_ok_def)
      have "distinct (map te_source_row (sm_pool st'))"
        using assms(1) fresh ts(4) by (auto simp: st'(1) pool_ok_def map_update intro!: distinct_list_update)
      moreover have "set (sm_pool st') \<subseteq> insert t (set (sm_pool st))"
        by (simp add: st'(1) set_update_subset_insert)
      ultimately show ?thesis using assms(1) ts st' by (auto simp: pool_ok_def)
    qed
  qed
qed

definition entry_ok :: "nat \<Rightarrow> nat \<Rightarrow> profile \<times> template list \<times> (string \<times> nat) list \<Rightarrow> bool" where
  "entry_ok cap number part \<longleftrightarrow>
     (case part of (p, ts, rejected) \<Rightarrow>
        pf_profile_id p = profile_name number \<and> ts \<noteq> [] \<and> length ts = min cap (pf_eligible_rows p) \<and>
        pf_sample_rows p = length ts \<and> pf_raw_rows p = pf_eligible_rows p + pf_rejected_rows p \<and>
        sorted_wrt (<) (map te_source_row ts) \<and>
        (\<forall>t\<in>set ts. template_ok t \<and> te_profile_id t = pf_profile_id p \<and> te_source_file t = pf_source_file p \<and>
           1 \<le> te_source_row t \<and> te_source_row t \<le> pf_raw_rows p \<and>
           te_template_id t = pf_profile_id p @ '':'' @ nat_to_string (te_source_row t)))"

lemma library_entry_ok:
  assumes "library_entry fromiso new_rng randrange seed cap (number, filename, header, rows) = Inr part"
  shows "entry_ok cap number part"
proof -
  let ?pid = "profile_name number"
  let ?init = "\<lparr>sm_pool = [], sm_raw_count = 0, sm_eligible = 0, sm_rejected = [], sm_time_min = None,
     sm_time_max = None, sm_duration_max = 0, sm_rng = new_rng (stable_int seed ''reservoir'' [JStr filename])\<rparr>"
  from assms obtain st label mac where run: "fold_result (flow_turn fromiso randrange cap ?pid filename) (enumerate 1 rows) ?init = Inr st"
    and ne: "sm_pool st \<noteq> []"
    and part: "part = (\<lparr>pf_profile_id = ?pid, pf_device_label = label,
        pf_device_mac = join_with '':'' (chunk 6 2 (py_lower mac)), pf_source_file = filename,
        pf_raw_rows = sm_raw_count st, pf_eligible_rows = sm_eligible st,
        pf_sample_rows = length (sm_pool st), pf_rejected_rows = sum_list (map snd (sm_rejected st)),
        pf_time_min = sm_time_min st, pf_time_max = sm_time_max st, pf_duration_max_raw = sm_duration_max st\<rparr>,
        sort_key te_source_row (sm_pool st), sm_rejected st)"
    by (auto simp: library_entry_def Let_def result_simps split: option.splits if_splits)
  have "pool_ok cap ?pid filename (map fst (enumerate 1 rows)) st \<and> distinct (map fst (enumerate 1 rows))"
  proof (rule fold_result_inv [where P = "\<lambda>xs st. pool_ok cap ?pid filename (map fst xs) st \<or> \<not> distinct (map fst xs)", OF run, THEN disjE])
    show "pool_ok cap ?pid filename (map fst []) ?init \<or> \<not> distinct (map fst [])" by (simp add: pool_ok_def)
  next
    fix ys x and a b :: "'a sampler"
    assume a: "pool_ok cap ?pid filename (map fst (ys :: (nat \<times> row) list)) a \<or> \<not> distinct (map fst ys)"
      and "flow_turn fromiso randrange cap ?pid filename x a = Inr b"
    then show "pool_ok cap ?pid filename (map fst (ys @ [x])) b \<or> \<not> distinct (map fst (ys @ [x]))"
      using flow_turn_ok [of cap ?pid filename "map fst ys" a "fst x" fromiso randrange "snd x" b] by auto
  qed (simp_all del: upt_Suc)
  then have ok: "pool_ok cap ?pid filename [1..<1 + length rows] st" by (simp del: upt_Suc)
  have "distinct (map te_source_row (sort_key te_source_row (sm_pool st)))"
    using ok by (auto simp: pool_ok_def intro: distinct_sort_key)
  then have "sorted_wrt (<) (map te_source_row (sort_key te_source_row (sm_pool st)))"
    using strict_sorted_iff by (metis sorted_sort_key)
  moreover have "sort_key te_source_row (sm_pool st) \<noteq> []" using ne by (metis length_sort length_0_conv)
  ultimately show ?thesis using ok by (auto simp: part entry_ok_def pool_ok_def simp del: upt_Suc)
qed

section \<open>A well-formed library\<close>

definition wf_library :: "library \<Rightarrow> bool" where
  "wf_library lib \<longleftrightarrow>
     lb_sites lib \<noteq> [] \<and> distinct (map fst (lb_sites lib)) \<and> distinct (map fst (lb_links lib)) \<and>
     fst ` set (lb_links lib) = fst ` set (lb_sites lib) \<times> fst ` set (lb_sites lib) \<and>
     (\<forall>((a, b), m, q, rule)\<in>set (lb_links lib). 0 \<le> m \<and> m \<le> 1 \<and> q = (if a = b then 1 else m)) \<and>
     distinct (map pf_profile_id (lb_profiles lib)) \<and> distinct (map te_template_id (lb_templates lib)) \<and>
     (\<forall>t\<in>set (lb_templates lib). template_ok t \<and>
        (\<exists>p\<in>set (lb_profiles lib). te_profile_id t = pf_profile_id p \<and> te_source_file t = pf_source_file p)) \<and>
     (\<forall>p\<in>set (lb_profiles lib). \<exists>t\<in>set (lb_templates lib). te_profile_id t = pf_profile_id p)"

lemma entries_templates_distinct:
  assumes "list_all2 (entry_ok cap) ns parts" and "distinct ns"
  shows "distinct (map te_template_id (concat (map (fst \<circ> snd) parts)))"
  using assms
proof (induction rule: list_all2_induct)
  case Nil
  then show ?case by simp
next
  case (Cons n ns part parts)
  obtain p ts rj where part: "part = (p, ts, rj)" by (metis prod_cases3)
  note e = Cons.hyps(1) [unfolded part entry_ok_def prod.case]
  have ids: "te_template_id t = profile_name n @ '':'' @ nat_to_string (te_source_row t)" if "t \<in> set ts" for t
    using e that by auto
  have "distinct (map te_source_row ts)" using e strict_sorted_iff by blast
  moreover have "map te_template_id ts = map (\<lambda>i. profile_name n @ '':'' @ nat_to_string i) (map te_source_row ts)"
    using ids by simp
  ultimately have d: "distinct (map te_template_id ts)"
    by (simp add: distinct_map inj_on_def) (metis nat_to_string_inj)
  have other: "\<exists>k\<in>set ns. \<exists>i. te_template_id t = profile_name k @ '':'' @ nat_to_string i"
    if "t \<in> set (concat (map (fst \<circ> snd) parts))" for t
  proof -
    from that obtain q where q: "q \<in> set parts" "t \<in> set (fst (snd q))" by auto
    then obtain k where k: "k \<in> set ns" "entry_ok cap k q"
      using list_all2_set2 [OF Cons.hyps(2)] by blast
    then have "te_template_id t = profile_name k @ '':'' @ nat_to_string (te_source_row t)"
      using q(2) by (cases q) (auto simp: entry_ok_def)
    then show ?thesis using k(1) by blast
  qed
  have "te_template_id t \<noteq> te_template_id u" if tu: "t \<in> set ts" "u \<in> set (concat (map (fst \<circ> snd) parts))" for t u
  proof
    assume eq: "te_template_id t = te_template_id u"
    obtain k i where k: "k \<in> set ns" "te_template_id u = profile_name k @ '':'' @ nat_to_string i"
      using other [OF tu(2)] by blast
    then have "profile_name n @ CHR '':'' # nat_to_string (te_source_row t) = profile_name k @ CHR '':'' # nat_to_string i"
      using ids [OF tu(1)] eq by simp
    then have "profile_name n = profile_name k"
      using append_sep_inj [OF colon_not_profile colon_not_profile] by blast
    then show False using k(1) Cons.prems profile_name_inj by auto
  qed
  then have "te_template_id ` set ts \<inter> te_template_id ` set (concat (map (fst \<circ> snd) parts)) = {}" by blast
  then show ?case using d Cons by (simp add: part)
qed

lemma entries_profiles:
  assumes "list_all2 (entry_ok cap) ns parts"
  shows "map (pf_profile_id \<circ> fst) parts = map profile_name ns"
  using assms by (induction rule: list_all2_induct) (auto simp: entry_ok_def)

lemma entries_linked:
  assumes "list_all2 (entry_ok cap) ns parts" and "part \<in> set parts"
  shows "fst (snd part) \<noteq> [] \<and> (\<forall>t\<in>set (fst (snd part)). template_ok t \<and>
     te_profile_id t = pf_profile_id (fst part) \<and> te_source_file t = pf_source_file (fst part))"
  using list_all2_set2 [OF assms] by (cases part) (auto simp: entry_ok_def)

lemma create_library_ok:
  assumes "create_library fromiso new_rng randrange seed cap mote_locs connectivity archive = Inr lib"
  shows "wf_library lib"
proof -
  let ?entries = "sort_key fst (filter (\<lambda>e. starts_with (rev ''.csv'') (rev (fst e))) archive)"
  from assms obtain locations links ig parts where top: "read_topology mote_locs connectivity = Inr (locations, links, ig)"
    and tr: "traverse (library_entry fromiso new_rng randrange seed cap) (enumerate 0 ?entries) = Inr parts"
    and lib: "lb_sites lib = sort_key fst locations"
      "lb_links lib = map (\<lambda>((a, b), q). ((a, b), q, if a = b then 1 else q,
             if a = b then ''co_located_assumption'' else ''measured_directed'')) (sort_key fst links)"
      "lb_profiles lib = map fst parts" "lb_templates lib = concat (map (fst \<circ> snd) parts)"
    by (auto simp: create_library_def result_simps Let_def)
  have "list_all2 (\<lambda>ne part. entry_ok cap (fst ne) part) (enumerate 0 ?entries) parts"
    using tr unfolding traverse_Inr_iff by (rule list_all2_mono) (auto intro: library_entry_ok)
  then have "list_all2 (entry_ok cap) (map fst (enumerate 0 ?entries)) parts" by (simp only: list_all2_map1)
  then have ent: "list_all2 (entry_ok cap) [0..<length ?entries] parts" by (simp only: map_fst_enumerate add_0)
  note t = read_topology_ok [OF top]
  have keys: "map fst (lb_links lib) = map fst (sort_key fst links)" by (simp add: lib(2) split_def)
  have "distinct (map fst (sort_key fst locations))" "distinct (map fst (sort_key fst links))"
    using t by (blast intro: distinct_sort_key)+
  moreover have "fst ` set (lb_links lib) = fst ` set links"
    using keys by (metis list.set_map set_sort)
  moreover have "distinct (map pf_profile_id (lb_profiles lib))"
    using entries_profiles [OF ent] by (simp add: lib(3) distinct_map inj_on_def comp_def profile_name_inj)
  moreover have "distinct (map te_template_id (lb_templates lib))"
    using entries_templates_distinct [OF ent] by (simp add: lib(4))
  moreover have "\<forall>p\<in>set (lb_profiles lib). \<exists>t\<in>set (lb_templates lib). te_profile_id t = pf_profile_id p"
  proof
    fix p assume "p \<in> set (lb_profiles lib)"
    then obtain part where part: "part \<in> set parts" "p = fst part" by (auto simp: lib(3))
    then obtain t where "t \<in> set (fst (snd part))" "te_profile_id t = pf_profile_id p"
      using entries_linked [OF ent part(1)] by (cases "fst (snd part)") auto
    then show "\<exists>t\<in>set (lb_templates lib). te_profile_id t = pf_profile_id p" using part(1) by (auto simp: lib(4))
  qed
  moreover have "\<forall>t\<in>set (lb_templates lib). template_ok t \<and>
      (\<exists>p\<in>set (lb_profiles lib). te_profile_id t = pf_profile_id p \<and> te_source_file t = pf_source_file p)"
  proof
    fix t assume "t \<in> set (lb_templates lib)"
    then obtain part where part: "part \<in> set parts" "t \<in> set (fst (snd part))" by (auto simp: lib(4))
    then have "template_ok t \<and> te_profile_id t = pf_profile_id (fst part) \<and> te_source_file t = pf_source_file (fst part)"
      using entries_linked [OF ent part(1)] by blast
    moreover have "fst part \<in> set (lb_profiles lib)" using part(1) by (simp add: lib(3))
    ultimately show "template_ok t \<and>
      (\<exists>p\<in>set (lb_profiles lib). te_profile_id t = pf_profile_id p \<and> te_source_file t = pf_source_file p)" by blast
  qed
  moreover have "\<forall>((a, b), m, q, rule)\<in>set (lb_links lib). 0 \<le> m \<and> m \<le> 1 \<and> q = (if a = b then 1 else m)"
    using t by (auto simp: lib(2))
  moreover have "lb_sites lib \<noteq> []" using t by (metis lib(1) length_sort length_0_conv)
  ultimately show ?thesis using t keys unfolding wf_library_def by (simp add: lib(1))
qed

text \<open>
  C34. A library that is created without an error is well-formed: the topology is complete and
  co-located links are the only ones whose quality is replaced, profiles and templates have
  distinct identifiers, every profile has a template, every template belongs to a profile of
  the same source file, and its duration and payloads are numbers that are not negative.
\<close>

theorem create_library_wf:
  assumes "create_library fromiso new_rng randrange seed cap mote_locs connectivity archive = Inr lib"
  shows "wf_library lib"
  using assms by (rule create_library_ok)

text \<open>A library of one site and one device with one flow.\<close>

definition demo_flow :: row where
  "demo_flow = text_row [(''time'', ''2016-09-22''), (''protocol'', ''mDNS''), (''srcNumPackets'', ''2''),
     (''dstNumPackets'', ''0''), (''srcPayloadSize'', ''120''), (''dstPayloadSize'', ''0''), (''flowDuration'', ''5'')]"

definition demo_archive :: "zip_entry list" where
  "demo_archive = [(''flows/cam_aabbccddeeff_flows.csv'',
     FLOW_NUMERIC @ [''time'', ''flowDuration'', ''protocol''], [demo_flow])]"

definition demo_iso :: "string \<Rightarrow> (string \<times> int) option" where
  "demo_iso t = Some (t, 2016)"

definition demo_randrange :: "unit \<Rightarrow> nat \<Rightarrow> nat \<times> unit" where
  "demo_randrange g n = (0, g)"

definition demo_profile :: profile where
  "demo_profile = \<lparr>pf_profile_id = ''profile_00'', pf_device_label = ''cam'', pf_device_mac = ''aa:bb:cc:dd:ee:ff'',
     pf_source_file = ''flows/cam_aabbccddeeff_flows.csv'', pf_raw_rows = 1, pf_eligible_rows = 1,
     pf_sample_rows = 1, pf_rejected_rows = 0, pf_time_min = Some ''2016-09-22'', pf_time_max = Some ''2016-09-22'',
     pf_duration_max_raw = 5\<rparr>"

definition demo_template :: template where
  "demo_template = \<lparr>te_template_id = ''profile_00:1'', te_profile_id = ''profile_00'',
     te_source_file = ''flows/cam_aabbccddeeff_flows.csv'', te_source_row = 1, te_time = ''2016-09-22'',
     te_protocol = ''mdns'', te_srcIp = [], te_dstIp = [], te_srcPort = [], te_dstPort = [],
     te_srcNumPackets = ''2'', te_dstNumPackets = ''0'', te_srcPayloadSize = ''120'', te_dstPayloadSize = ''0'',
     te_flowDuration = ''5'', te_is_control_protocol = ''1''\<rparr>"

definition demo_library :: library where
  "demo_library = \<lparr>lb_sites = [(1, 0, 0)], lb_links = [((1, 1), 1, 1, ''co_located_assumption'')],
     lb_profiles = [demo_profile], lb_templates = [demo_template], lb_rejected = []\<rparr>"

lemma demo_flow_facts:
  "match_device (last (split_on (CHR ''/'') ''flows/cam_aabbccddeeff_flows.csv'')) = Some (''cam'', ''aabbccddeeff'')"
  "join_with '':'' (chunk 6 2 (py_lower ''aabbccddeeff'')) = ''aa:bb:cc:dd:ee:ff''"
  "profile_name 0 = ''profile_00''" "make_sample ''profile_00'' ''flows/cam_aabbccddeeff_flows.csv'' 1 ''2016-09-22'' demo_flow = Inr demo_template"
  "filter (\<lambda>f. \<not> is_digits (py_strip (str_field demo_flow f))) FLOW_NUMERIC = []"
  "demo_flow ''flowDuration'' = Some (Some ''5'')" "demo_flow ''time'' = Some (Some ''2016-09-22'')"
  "py_strip ''2016-09-22'' = ''2016-09-22''" "plain_digits ''5'' = Some 5"
  by code_simp+

lemma demo_numeric_flow: "numeric_flow demo_iso demo_flow = Inr (Inr (''2016-09-22'', 5))"
proof -
  have "py_float ''5'' = Some (Fin 5)"
    using py_float_plain [OF demo_flow_facts(9)] by (simp add: double_overflow_def)
  then have "parsed_times demo_iso demo_flow = Inr (Some (Fin 5, ''2016-09-22'', 2016))"
    unfolding parsed_times_def demo_flow_facts(6,7) by (simp add: demo_flow_facts(8) demo_iso_def)
  then show ?thesis unfolding numeric_flow_def demo_flow_facts(5) by simp
qed

lemma demo_library_created:
  "create_library demo_iso (\<lambda>_. ()) demo_randrange 7 4 [''1 0 0''] [''1 1 1''] demo_archive = Inr demo_library"
proof -
  have turn: "flow_turn demo_iso demo_randrange 4 ''profile_00'' ''flows/cam_aabbccddeeff_flows.csv'' (1, demo_flow) st =
    Inr (st\<lparr>sm_raw_count := sm_raw_count st + 1, sm_eligible := 1, sm_time_min := Some ''2016-09-22'',
      sm_time_max := Some ''2016-09-22'', sm_duration_max := 5, sm_pool := [demo_template]\<rparr>)"
    if "sm_eligible st = 0" "sm_pool st = []" "sm_time_min st = None" "sm_time_max st = None" "sm_duration_max st = 0"
    for st :: "unit sampler"
    using that unfolding flow_turn_def prod.case Let_def demo_numeric_flow
    by (simp add: draw_slot_def merge_with_def demo_flow_facts(4) [simplified])
  have "library_entry demo_iso (\<lambda>_. ()) demo_randrange 7 4 (0, ''flows/cam_aabbccddeeff_flows.csv'',
      FLOW_NUMERIC @ [''time'', ''flowDuration'', ''protocol''], [demo_flow]) = Inr (demo_profile, [demo_template], [])"
    unfolding library_entry_def prod.case demo_flow_facts(1,3) option.case Let_def
    by (simp add: turn [simplified] demo_flow_facts(2) demo_profile_def)
  then show ?thesis
    by (simp add: create_library_def demo_topology demo_archive_def demo_library_def Let_def)
qed

theorem create_library_wf_witness:
  "wf_library (projr (create_library demo_iso (\<lambda>_. ()) demo_randrange 7 4 [''1 0 0''] [''1 1 1''] demo_archive))"
  using create_library_wf [OF demo_library_created] by (simp add: demo_library_created)

end
