(* ===== verification/DatasetTheorems.thy ===== *)
theory DatasetTheorems
  imports LibraryFacts
begin

text \<open>
  The generator of the dataset against its validator: every record the generator writes passes
  the independent checks, the totals agree, and appending transactions leaves the records of
  the earlier ones as they are.
\<close>

section \<open>Pools of templates\<close>

lemma load_templates:
  assumes "fold_result add_template ts pools = Inr pools'"
  shows "pools' pid = map_option (\<lambda>pool. pool @ filter (\<lambda>t. te_profile_id t = pid) ts) (pools pid)"
  using assms
proof (induction ts arbitrary: pools)
  case Nil
  then show ?case by (simp add: option.map_ident)
next
  case (Cons t ts)
  then obtain pool where "pools (te_profile_id t) = Some pool"
    "fold_result add_template ts (pools(te_profile_id t \<mapsto> pool @ [t])) = Inr pools'"
    by (cases "pools (te_profile_id t)") (simp_all add: add_template_def [of t])
  then show ?case using Cons.IH by (auto simp: option.map_comp comp_def)
qed

lemma check_pools:
  assumes "\<forall>t\<in>set ts. \<exists>p. map_of profiles (te_profile_id t) = Some p \<and> te_source_file t = pf_source_file p"
    and "\<forall>t\<in>set ts. pools (te_profile_id t) \<noteq> None"
  shows "fold_result (add_to_pool profiles) ts pools =
         Inr (\<lambda>pid. map_option (\<lambda>ids. ids @ map te_template_id (filter (\<lambda>t. te_profile_id t = pid) ts)) (pools pid))"
  using assms
proof (induction ts arbitrary: pools)
  case Nil
  then show ?case by (simp add: option.map_ident)
next
  case (Cons t ts)
  then obtain p ids where "map_of profiles (te_profile_id t) = Some p" "te_source_file t = pf_source_file p"
    "pools (te_profile_id t) = Some ids" by auto
  then have "add_to_pool profiles t pools = Inr (pools(te_profile_id t \<mapsto> ids @ [te_template_id t]))"
    by (simp add: add_to_pool_def)
  moreover have "fold_result (add_to_pool profiles) ts (pools(te_profile_id t \<mapsto> ids @ [te_template_id t])) =
      Inr (\<lambda>pid. map_option (\<lambda>ids. ids @ map te_template_id (filter (\<lambda>t. te_profile_id t = pid) ts))
             ((pools(te_profile_id t \<mapsto> ids @ [te_template_id t])) pid))"
    using Cons.prems by (intro Cons.IH) auto
  ultimately show ?case using \<open>pools (te_profile_id t) = Some ids\<close> by (auto simp: fun_eq_iff option.map_comp comp_def)
qed

section \<open>What the generator writes\<close>

lemma check_chain_row_ok:
  assumes "check_chain_row row = Inr (a, b)"
  shows "a = row ! 3" "b = row ! 4" "a \<noteq> b" "length row = 18" "take 2 (drop 6 row) = [''0'', ''0'']"
    "is_digits (row ! 8)" "chain_address a" "chain_address b"
  using assms by (auto simp: check_chain_row_def split: if_splits)

text \<open>The account of an address in the account table, apart from its first index.\<close>

definition account_ok :: "loaded \<Rightarrow> int \<Rightarrow> string \<times> account \<Rightarrow> bool" where
  "account_ok lib seed ka \<longleftrightarrow> chain_address (fst ka) \<and>
     map_account (fst ka) (ld_profiles lib) (ld_sites lib) seed = Inr ((snd ka)\<lparr>ac_first_tx_index := None\<rparr>)"

text \<open>A record as the generator writes it for a transaction, given the account table.\<close>

definition record_ok ::
  "loaded \<Rightarrow> int \<Rightarrow> int \<Rightarrow> (string \<times> account) list \<Rightarrow> nat \<times> string list \<Rightarrow> scene_record \<Rightarrow> bool" where
  "record_ok lib seed off accounts ir r \<longleftrightarrow>
     (case ir of (i, row) \<Rightarrow>
       \<exists>a b s t sample q rule q' rule' d. check_chain_row row = Inr (a, b) \<and>
         map_of accounts a = Some s \<and> map_of accounts b = Some t \<and>
         template_for row (off + int i) s (ld_templates lib) seed = Inr sample \<and>
         ld_links lib (ac_site_id s, ac_site_id t) = Some (q, rule) \<and>
         ld_links lib (ac_site_id t, ac_site_id s) = Some (q', rule') \<and>
         to_flt (te_flowDuration sample) = Inr d \<and> r = make_record (off + int i) i a b s t sample q q' rule)"

lemma record_ok_append: "record_ok lib seed off accounts ir r \<Longrightarrow> record_ok lib seed off (accounts @ extra) ir r"
  unfolding record_ok_def by (fastforce split: prod.splits)

text \<open>The tables the generator keeps are functions of the records it wrote.\<close>

definition first_of :: "scene_record \<Rightarrow> (string \<times> int) list \<Rightarrow> (string \<times> int) list" where
  "first_of r kvs = setdefault (sr_to_address r) (sr_tx_index r) (setdefault (sr_from_address r) (sr_tx_index r) kvs)"

definition firsts :: "(string \<times> account) list \<Rightarrow> (string \<times> int option) list" where
  "firsts accounts = map (\<lambda>(a, acc). (a, ac_first_tx_index acc)) accounts"

definition build_inv :: "loaded \<Rightarrow> int \<Rightarrow> int \<Rightarrow> (nat \<times> string list) list \<Rightarrow> build_state \<Rightarrow> bool" where
  "build_inv lib seed off rows st \<longleftrightarrow>
     list_all2 (record_ok lib seed off (bs_accounts st)) rows (bs_records st) \<and>
     list_all (account_ok lib seed) (bs_accounts st) \<and>
     firsts (bs_accounts st) = map (apsnd Some) (fold first_of (bs_records st) []) \<and>
     bs_template_use st = fold (\<lambda>r. counter_add (sr_template_id r) 1) (bs_records st) [] \<and>
     bs_pair_counts st = fold (\<lambda>r. counter_add (sr_from_address r, sr_to_address r) 1) (bs_records st) []"

lemma make_record_simps [simp]:
  fixes g i a b s t sample q q' rule
  defines "r \<equiv> make_record g i a b s t sample q q' rule"
  shows "sr_tx_index r = g" "sr_source_row r = int i + 1" "sr_from_address r = a" "sr_to_address r = b"
    "sr_from_profile_id r = ac_profile_id s" "sr_to_profile_id r = ac_profile_id t"
    "sr_from_site_id r = ac_site_id s" "sr_to_site_id r = ac_site_id t"
    "sr_from_actor_type r = ''device''" "sr_to_actor_type r = ''device''"
    "sr_template_id r = te_template_id sample" "sr_flowDuration r = te_flowDuration sample"
    "sr_srcPayloadSize r = te_srcPayloadSize sample" "sr_dstPayloadSize r = te_dstPayloadSize sample"
    "same_template r sample" "sr_link_quality_forward r = q" "sr_link_quality_reverse r = q'" "sr_link_quality_rule r = rule"
    "sr_distance_m r = round_sig 12 (hypot (ac_x_m s - ac_x_m t) (ac_y_m s - ac_y_m t))"
  unfolding r_def by (simp_all add: make_record_def same_template_def)

lemma known_firsts: "known (firsts accounts) a = known accounts a"
  by (force simp: known_iff firsts_def)

lemma add_account_ok:
  assumes "add_account lib seed g a accounts = Inr accounts'" and "chain_address a" and "list_all (account_ok lib seed) accounts"
  shows "(\<exists>extra. accounts' = accounts @ extra) \<and> known accounts' a \<and> list_all (account_ok lib seed) accounts' \<and>
         firsts accounts' = setdefault a (Some g) (firsts accounts)"
proof (cases "known accounts a")
  case True
  then show ?thesis using assms by (auto simp: add_account_def setdefault_def known_firsts)
next
  case False
  then obtain acc where acc: "map_account a (ld_profiles lib) (ld_sites lib) seed = Inr acc"
    "accounts' = accounts @ [(a, acc\<lparr>ac_first_tx_index := Some g\<rparr>)]"
    using assms(1) by (auto simp: add_account_def result_simps)
  have "ac_first_tx_index acc = None"
    using acc(1) by (auto simp: map_account_def Let_def split: if_splits prod.splits)
  then have "acc\<lparr>ac_first_tx_index := None\<rparr> = acc" by simp
  moreover have "known accounts' a" by (simp add: acc(2) known_def)
  moreover have "firsts accounts' = firsts accounts @ [(a, Some g)]" by (simp add: acc(2) firsts_def)
  ultimately show ?thesis using acc assms(2,3) False by (auto simp: account_ok_def setdefault_def known_firsts)
qed

lemma setdefault_map_Some: "setdefault a (Some g) (map (apsnd Some) kvs) = map (apsnd Some) (setdefault a g kvs)"
  by (force simp: setdefault_def known_iff)

lemma build_turn_ok:
  assumes "build_inv lib seed off rows st" and "build_turn lib seed off ir st = Inr st'"
  shows "build_inv lib seed off (rows @ [ir]) st'"
proof -
  obtain i row where ir: "ir = (i, row)" by force
  let ?g = "off + int i"
  from assms(2) obtain a b accounts where ab: "check_chain_row row = Inr (a, b)"
    and acc: "fold_result (add_account lib seed ?g) [a, b] (bs_accounts st) = Inr accounts"
    by (auto simp: build_turn_def ir Let_def bind_result_eq_Inr split: prod.splits)
  define s where "s = the (map_of accounts a)"
  define t where "t = the (map_of accounts b)"
  from assms(2) ab acc obtain sample q rule q' rule' d
    where rest: "template_for row ?g s (ld_templates lib) seed = Inr sample"
      "link_of lib (ac_site_id s) (ac_site_id t) = Inr (q, rule)"
      "link_of lib (ac_site_id t) (ac_site_id s) = Inr (q', rule')" "to_flt (te_flowDuration sample) = Inr d"
      and st': "bs_accounts st' = accounts"
        "bs_records st' = bs_records st @ [make_record ?g i a b s t sample q q' rule]"
        "bs_pair_counts st' = counter_add (a, b) 1 (bs_pair_counts st)"
        "bs_template_use st' = counter_add (te_template_id sample) 1 (bs_template_use st)"
    by (auto simp: build_turn_def ir Let_def s_def t_def bind_result_eq_Inr simp del: fold_result.simps)
  obtain acc1 where acc1: "add_account lib seed ?g a (bs_accounts st) = Inr acc1" "add_account lib seed ?g b acc1 = Inr accounts"
    using acc by (auto simp: result_simps)
  note row = check_chain_row_ok [OF ab]
  have inv: "list_all (account_ok lib seed) (bs_accounts st)" using assms(1) by (simp add: build_inv_def)
  note one = add_account_ok [OF acc1(1) row(7) inv]
  note two = add_account_ok [OF acc1(2) row(8) one [THEN conjunct2, THEN conjunct2, THEN conjunct1]]
  obtain x y where grow: "acc1 = bs_accounts st @ x" "accounts = acc1 @ y" using one two by blast
  have "map_of accounts a \<noteq> None" "map_of accounts b \<noteq> None"
    using one two grow by (auto simp: known_iff map_of_eq_None_iff)
  then have st: "map_of accounts a = Some s" "map_of accounts b = Some t" by (auto simp: s_def t_def)
  have old: "list_all2 (record_ok lib seed off accounts) rows (bs_records st)"
    using assms(1) unfolding build_inv_def grow append_assoc
    by (elim conjE list_all2_mono) (rule record_ok_append)
  have new: "record_ok lib seed off accounts (i, row) (make_record ?g i a b s t sample q q' rule)"
    using ab st rest by (auto simp: record_ok_def link_of_def split: option.splits)
  have "list_all2 (record_ok lib seed off accounts) (rows @ [ir]) (bs_records st')"
    unfolding st'(2) ir by (rule list_all2_appendI [OF old]) (simp add: new)
  moreover have "firsts accounts = map (apsnd Some) (fold first_of (bs_records st') [])"
    using assms(1) one two
    by (simp add: build_inv_def st'(2) first_of_def [of "make_record ?g i a b s t sample q q' rule"] setdefault_map_Some)
  ultimately show ?thesis
    using assms(1) two unfolding build_inv_def st' by simp
qed

lemma build_inv_run:
  assumes "fold_result (build_turn lib seed off) rows empty_build = Inr st"
  shows "build_inv lib seed off rows st"
  by (rule fold_result_inv [where P = "build_inv lib seed off", OF assms])
     (auto simp: build_inv_def [of _ _ _ "[]"] empty_build_def firsts_def intro: build_turn_ok)

section \<open>The validator accepts it\<close>

lemma hash_choice_stable: "hash_choice VERSION seed purpose parts = stable_int seed purpose parts"
  by (simp add: hash_choice_def stable_int_def)

lemma site_ids_simps [simp]: "set (site_ids sites) = fst ` set sites" "site_ids sites = [] \<longleftrightarrow> sites = []"
proof -
  show set: "set (site_ids sites) = fst ` set sites" by (simp add: site_ids_def)
  show "site_ids sites = [] \<longleftrightarrow> sites = []" using set by (metis image_is_empty set_empty)
qed

lemma site_at_known: "k \<in> fst ` set sites \<Longrightarrow> \<exists>xy. site_at sites k = Some xy"
  by (cases "site_at sites k") (auto simp: site_at_def map_of_eq_None_iff)

lemma account_facts:
  assumes "account_ok lib seed (a, acc)"
  shows "ac_account_address acc = a" "ac_actor_type acc = ''device''" "ld_profiles lib \<noteq> []" "ld_sites lib \<noteq> []"
    "ac_profile_id acc = pf_profile_id (ld_profiles lib ! (stable_int seed ''profile'' [JStr a] mod length (ld_profiles lib)))"
    "ac_site_id acc = site_ids (ld_sites lib) ! (stable_int seed ''site'' [JStr a] mod length (site_ids (ld_sites lib)))"
    "site_at (ld_sites lib) (ac_site_id acc) = Some (ac_x_m acc, ac_y_m acc)"
proof -
  let ?ids = "site_ids (ld_sites lib)"
  have low: "py_lower a = a" using assms chain_address_lower by (simp add: account_ok_def)
  have m: "map_account a (ld_profiles lib) (ld_sites lib) seed = Inr (acc\<lparr>ac_first_tx_index := None\<rparr>)"
    using assms by (simp add: account_ok_def)
  then show ne: "ld_profiles lib \<noteq> []" "ld_sites lib \<noteq> []"
    by (auto simp: map_account_def Let_def split: if_splits)
  let ?site = "?ids ! (stable_int seed ''site'' [JStr a] mod length ?ids)"
  have "?site \<in> set ?ids" using ne by (intro nth_mem) simp
  then obtain x y where xy: "site_at (ld_sites lib) ?site = Some (x, y)" using site_at_known by fastforce
  have "acc\<lparr>ac_first_tx_index := None\<rparr> = \<lparr>ac_account_address = a,
      ac_profile_id = pf_profile_id (ld_profiles lib ! (stable_int seed ''profile'' [JStr a] mod length (ld_profiles lib))),
      ac_device_label = pf_device_label (ld_profiles lib ! (stable_int seed ''profile'' [JStr a] mod length (ld_profiles lib))),
      ac_actor_type = ''device'', ac_site_id = ?site, ac_x_m = x, ac_y_m = y, ac_first_tx_index = None\<rparr>"
    using m ne xy by (simp add: map_account_def Let_def low)
  then have "ac_account_address acc = a \<and> ac_actor_type acc = ''device'' \<and> ac_site_id acc = ?site \<and> ac_x_m acc = x \<and> ac_y_m acc = y \<and>
      ac_profile_id acc = pf_profile_id (ld_profiles lib ! (stable_int seed ''profile'' [JStr a] mod length (ld_profiles lib)))"
    by (cases acc) simp
  then show "ac_account_address acc = a" "ac_actor_type acc = ''device''"
    "ac_profile_id acc = pf_profile_id (ld_profiles lib ! (stable_int seed ''profile'' [JStr a] mod length (ld_profiles lib)))"
    "ac_site_id acc = ?site" "site_at (ld_sites lib) (ac_site_id acc) = Some (ac_x_m acc, ac_y_m acc)"
    using xy by auto
qed

text \<open>The tables of the validator, for a library and a list of accounts.\<close>

definition pools_of :: "library \<Rightarrow> string \<rightharpoonup> string list" where
  "pools_of L pid = (if pid \<in> pf_profile_id ` set (lb_profiles L)
     then Some (map te_template_id (filter (\<lambda>t. te_profile_id t = pid) (lb_templates L))) else None)"

definition tables_of :: "library \<Rightarrow> (string \<times> account) list \<Rightarrow> tables" where
  "tables_of L accounts = \<lparr>tb_accounts = sort_key fst accounts,
     tb_templates = map (\<lambda>t. (te_template_id t, t)) (lb_templates L), tb_pools = pools_of L,
     tb_sites = lb_sites L, tb_links = lb_links L\<rparr>"

lemma empty_pools:
  "map_of (map (\<lambda>p. (pf_profile_id p, [])) ps) pid = (if pid \<in> pf_profile_id ` set ps then Some [] else None)"
  by (induction ps) auto

lemma load_library_facts:
  assumes "load_library L = Inr lib"
  shows "ld_profiles lib = lb_profiles L" "ld_sites lib = lb_sites L"
    "ld_links lib k = map_option (\<lambda>(m, q, rule). (q, rule)) (map_of (rev (lb_links L)) k)"
    "ld_templates lib pid = (if pid \<in> pf_profile_id ` set (lb_profiles L)
       then Some (filter (\<lambda>t. te_profile_id t = pid) (lb_templates L)) else None)"
proof -
  let ?pools = "map_of (map (\<lambda>p. (pf_profile_id p, [])) (lb_profiles L)) :: string \<rightharpoonup> template list"
  from assms obtain ts where ts: "fold_result add_template (lb_templates L) ?pools = Inr ts"
    and lib: "lib = \<lparr>ld_profiles = lb_profiles L, ld_sites = lb_sites L,
         ld_links = map_of (rev (map (\<lambda>(ab, m, q, rule). (ab, q, rule)) (lb_links L))), ld_templates = ts\<rparr>"
    by (auto simp: load_library_def result_simps)
  show "ld_profiles lib = lb_profiles L" "ld_sites lib = lb_sites L" by (simp_all add: lib)
  have "map_of (map (\<lambda>(ab, m, q, rule). (ab, q, rule)) kvs) k = map_option (\<lambda>(m, q, rule). (q, rule)) (map_of kvs k)"
    for kvs :: "((int \<times> int) \<times> real \<times> real \<times> string) list"
    by (induction kvs) auto
  from this [of "rev (lb_links L)"]
  show "ld_links lib k = map_option (\<lambda>(m, q, rule). (q, rule)) (map_of (rev (lb_links L)) k)"
    by (simp add: lib rev_map)
  show "ld_templates lib pid = (if pid \<in> pf_profile_id ` set (lb_profiles L)
       then Some (filter (\<lambda>t. te_profile_id t = pid) (lb_templates L)) else None)"
    using load_templates [OF ts, of pid] by (simp add: lib empty_pools)
qed

lemma check_identity_ok:
  assumes "record_ok lib seed off accounts (i, row) r" and "list_all (account_ok lib seed) accounts"
    and "distinct (map fst accounts)"
  shows "check_identity (tables_of L accounts) (off + int i) i row r = Inr ()"
proof -
  from assms(1) obtain a b s t sample q rule q' where ab: "check_chain_row row = Inr (a, b)"
    and st: "map_of accounts a = Some s" "map_of accounts b = Some t"
    and r: "r = make_record (off + int i) i a b s t sample q q' rule"
    unfolding record_ok_def prod.case by blast
  have "account_ok lib seed (a, s)" "account_ok lib seed (b, t)"
    using st assms(2) by (auto simp: list_all_iff dest: map_of_SomeD)
  then have dev: "ac_actor_type s = ''device''" "ac_actor_type t = ''device''" by (simp_all add: account_facts(2))
  note row = check_chain_row_ok [OF ab]
  show ?thesis
    using row st dev unfolding check_identity_def r
    by (simp add: tables_of_def map_of_sort_key [OF assms(3)] same_endpoint_def)
qed

lemma check_template_ok:
  assumes "record_ok lib seed off accounts (i, row) r" and "list_all (account_ok lib seed) accounts"
    and "distinct (map fst accounts)" and "wf_library L" and "load_library L = Inr lib"
  shows "\<exists>d n. check_template (tables_of L accounts) VERSION seed (off + int i) row r = Inr (d, n)"
proof -
  from assms(1) obtain a b s t sample q rule q' where ab: "check_chain_row row = Inr (a, b)"
    and st: "map_of accounts a = Some s"
    and sample: "template_for row (off + int i) s (ld_templates lib) seed = Inr sample"
    and r: "r = make_record (off + int i) i a b s t sample q q' rule"
    unfolding record_ok_def prod.case by blast
  let ?pool = "filter (\<lambda>t. te_profile_id t = ac_profile_id s) (lb_templates L)"
  let ?h = "stable_int seed ''transaction_template'' [JInt (off + int i), JList (map JStr row)]"
  have pid: "ac_profile_id s \<in> pf_profile_id ` set (lb_profiles L)" and ne: "?pool \<noteq> []"
    and smp: "sample = ?pool ! (?h mod length ?pool)"
    using sample by (auto simp: template_for_def load_library_facts(4) [OF assms(5)] split: if_splits)
  have idx: "?h mod length ?pool < length ?pool" using ne by simp
  have mem: "sample \<in> set (lb_templates L)" "te_profile_id sample = ac_profile_id s"
    using nth_mem [OF idx] smp by auto
  have "distinct (map fst (map (\<lambda>t. (te_template_id t, t)) (lb_templates L)))"
    using assms(4) by (simp add: wf_library_def comp_def)
  then have look1: "map_of (map (\<lambda>t. (te_template_id t, t)) (lb_templates L)) (te_template_id sample) = Some sample"
    by (rule map_of_is_SomeI) (use mem(1) in auto)
  have "template_ok sample" using assms(4) mem(1) by (simp add: wf_library_def)
  then obtain d m n where num: "py_float (te_flowDuration sample) = Some (Fin d)" "0 \<le> d"
    "py_int 10 (te_srcPayloadSize sample) = Some (int m)" "py_int 10 (te_dstPayloadSize sample) = Some (int n)"
    using py_int_digits unfolding template_ok_def by metis
  have chosen: "map te_template_id ?pool ! (?h mod length ?pool) = te_template_id sample"
    using idx smp by simp
  show ?thesis
    using st look1 pid ne num mem chosen check_chain_row_ok(1) [OF ab] unfolding check_template_def r
    by (simp add: tables_of_def look_def map_of_sort_key [OF assms(3)] pools_of_def hash_choice_stable to_flt_def to_int_def)
qed

lemma check_link_ok:
  assumes "record_ok lib seed off accounts (i, row) r" and "list_all (account_ok lib seed) accounts"
    and "wf_library L" and "load_library L = Inr lib"
  shows "\<exists>d. check_link (tables_of L accounts) r = Inr d"
proof -
  from assms(1) obtain a b s t sample q rule q' rule' where
    st: "map_of accounts a = Some s" "map_of accounts b = Some t"
    and links: "ld_links lib (ac_site_id s, ac_site_id t) = Some (q, rule)" "ld_links lib (ac_site_id t, ac_site_id s) = Some (q', rule')"
    and r: "r = make_record (off + int i) i a b s t sample q q' rule"
    unfolding record_ok_def prod.case by blast
  have "account_ok lib seed (a, s)" "account_ok lib seed (b, t)"
    using st assms(2) by (auto simp: list_all_iff dest: map_of_SomeD)
  note xy = this [THEN account_facts(7), unfolded load_library_facts(2) [OF assms(4)]]
  from links obtain m m' where ml: "map_of (rev (lb_links L)) (ac_site_id s, ac_site_id t) = Some (m, q, rule)"
    "map_of (rev (lb_links L)) (ac_site_id t, ac_site_id s) = Some (m', q', rule')"
    by (auto simp: load_library_facts(3) [OF assms(4)])
  then have "((ac_site_id s, ac_site_id t), m, q, rule) \<in> set (lb_links L)"
    "((ac_site_id t, ac_site_id s), m', q', rule') \<in> set (lb_links L)" by (auto dest: map_of_SomeD)
  then have q: "q = (if ac_site_id s = ac_site_id t then 1 else m)" "q' = (if ac_site_id t = ac_site_id s then 1 else m')"
    using assms(3) unfolding wf_library_def by blast+
  have same: "ac_site_id s = ac_site_id t \<Longrightarrow> ac_x_m s = ac_x_m t \<and> ac_y_m s = ac_y_m t"
    using xy by simp
  show ?thesis
    using ml xy q same round_sig_close unfolding check_link_def r Let_def
    by (simp add: tables_of_def look_def hypot_def del: isclose.simps)
qed

lemma check_turn_ok:
  assumes "record_ok lib seed off accounts (i, row) r" and "list_all (account_ok lib seed) accounts"
    and "distinct (map fst accounts)" and "wf_library L" and "load_library L = Inr lib"
  shows "\<exists>st'. check_turn (tables_of L accounts) VERSION seed off (i, row, r) st = Inr st' \<and>
     vs_uses st' = counter_add (sr_template_id r) 1 (vs_uses st) \<and> vs_first_seen st' = first_of r (vs_first_seen st) \<and>
     vs_seen st' = vs_seen st \<union> {sr_from_address r, sr_to_address r} \<and>
     vs_pairs st' = insert (sr_from_address r, sr_to_address r) (vs_pairs st) \<and> vs_count st' = vs_count st + 1"
proof -
  obtain d n where t: "check_template (tables_of L accounts) VERSION seed (off + int i) row r = Inr (d, n)"
    using check_template_ok [OF assms] by blast
  have "sr_from_address r = row ! 3" "sr_to_address r = row ! 4" "sr_tx_index r = off + int i"
    using assms(1) by (auto simp: record_ok_def dest: check_chain_row_ok)
  moreover obtain l where "check_link (tables_of L accounts) r = Inr l" using check_link_ok [OF assms(1,2,4,5)] by blast
  ultimately show ?thesis
    using check_identity_ok [OF assms(1-3), of L] t
    by (simp add: check_turn_def Let_def first_of_def insert_commute)
qed

lemma check_rows_ok:
  assumes "list_all2 (record_ok lib seed off accounts) (enumerate k chain) rs" and "list_all (account_ok lib seed) accounts"
    and "distinct (map fst accounts)" and "wf_library L" and "load_library L = Inr lib"
  shows "\<exists>st'. check_rows (tables_of L accounts) VERSION seed off k chain rs st = Inr st' \<and>
     vs_uses st' = fold (\<lambda>r. counter_add (sr_template_id r) 1) rs (vs_uses st) \<and>
     vs_first_seen st' = fold first_of rs (vs_first_seen st) \<and>
     vs_seen st' = vs_seen st \<union> sr_from_address ` set rs \<union> sr_to_address ` set rs \<and>
     vs_pairs st' = vs_pairs st \<union> (\<lambda>r. (sr_from_address r, sr_to_address r)) ` set rs \<and>
     vs_count st' = vs_count st + length rs"
  using assms(1)
proof (induction chain arbitrary: k rs st)
  case Nil
  then show ?case by simp
next
  case (Cons row chain)
  then obtain r rest where rs: "rs = r # rest" "record_ok lib seed off accounts (k, row) r"
    "list_all2 (record_ok lib seed off accounts) (enumerate (Suc k) chain) rest"
    by (auto simp: list_all2_Cons1)
  obtain st1 where st1: "check_turn (tables_of L accounts) VERSION seed off (k, row, r) st = Inr st1"
    "vs_uses st1 = counter_add (sr_template_id r) 1 (vs_uses st)" "vs_first_seen st1 = first_of r (vs_first_seen st)"
    "vs_seen st1 = vs_seen st \<union> {sr_from_address r, sr_to_address r}"
    "vs_pairs st1 = insert (sr_from_address r, sr_to_address r) (vs_pairs st)" "vs_count st1 = vs_count st + 1"
    using check_turn_ok [OF rs(2) assms(2-5)] by blast
  obtain st2 where st2: "check_rows (tables_of L accounts) VERSION seed off (Suc k) chain rest st1 = Inr st2"
     "vs_uses st2 = fold (\<lambda>r. counter_add (sr_template_id r) 1) rest (vs_uses st1)"
     "vs_first_seen st2 = fold first_of rest (vs_first_seen st1)"
     "vs_seen st2 = vs_seen st1 \<union> sr_from_address ` set rest \<union> sr_to_address ` set rest"
     "vs_pairs st2 = vs_pairs st1 \<union> (\<lambda>r. (sr_from_address r, sr_to_address r)) ` set rest"
     "vs_count st2 = vs_count st1 + length rest"
    using Cons.IH [OF rs(3), of st1] by blast
  have "vs_seen st2 = vs_seen st \<union> sr_from_address ` set rs \<union> sr_to_address ` set rs"
    "vs_pairs st2 = vs_pairs st \<union> (\<lambda>r. (sr_from_address r, sr_to_address r)) ` set rs"
    by (auto simp: st1 st2 rs(1))
  then show ?case using st1(1,2,3,6) st2(1,2,3,6) by (intro exI [of _ st2]) (simp add: rs(1))
qed

lemma first_of_keys:
  assumes "distinct (map fst kvs)"
  shows "distinct (map fst (fold first_of rs kvs))"
    and "fst ` set (fold first_of rs kvs) = fst ` set kvs \<union> sr_from_address ` set rs \<union> sr_to_address ` set rs"
proof -
  have sd: "distinct (map fst xs) \<Longrightarrow> distinct (map fst (setdefault k v xs))"
    "fst ` set (setdefault k v xs) = insert k (fst ` set xs)" for k and v :: int and xs :: "(string \<times> int) list"
    by (auto simp: setdefault_def known_def image_iff insert_absorb)
  have "distinct (map fst (fold first_of rs kvs)) \<and>
      fst ` set (fold first_of rs kvs) = fst ` set kvs \<union> sr_from_address ` set rs \<union> sr_to_address ` set rs"
    using assms
  proof (induction rs arbitrary: kvs)
    case Nil
    then show ?case by simp
  next
    case (Cons r rs)
    then show ?case using Cons.IH [of "first_of r kvs"] by (auto simp: first_of_def sd)
  qed
  then show "distinct (map fst (fold first_of rs kvs))"
    "fst ` set (fold first_of rs kvs) = fst ` set kvs \<union> sr_from_address ` set rs \<union> sr_to_address ` set rs" by auto
qed

lemma keyed_accounts:
  assumes "list_all (account_ok lib seed) accounts" and "distinct (map fst accounts)"
  shows "keyed ac_account_address (map snd (sort_key fst accounts)) = Inr (sort_key fst accounts)"
proof -
  have adr: "ac_account_address (snd ka) = fst ka" if "ka \<in> set (sort_key fst accounts)" for ka
    using assms(1) that account_facts(1) by (cases ka) (auto simp: list_all_iff)
  then have "map ac_account_address (map snd (sort_key fst accounts)) = map fst (sort_key fst accounts)"
    by (simp del: set_sort)
  then have "distinct (map ac_account_address (map snd (sort_key fst accounts)))"
    using distinct_sort_key [OF assms(2)] by (simp only:)
  moreover have "map (\<lambda>r. (ac_account_address r, r)) (map snd (sort_key fst accounts)) = sort_key fst accounts"
    unfolding map_map comp_def by (rule map_idI) (use adr in simp)
  ultimately show ?thesis by (simp add: keyed_distinct)
qed

lemma check_accounts_ok:
  assumes "list_all (account_ok lib seed) accounts" and "load_library L = Inr lib"
  shows "\<exists>us. traverse (check_account VERSION seed (map (\<lambda>p. (pf_profile_id p, p)) (lb_profiles L)) (lb_sites L))
           (sort_key fst accounts) = Inr us"
proof -
  have "check_account VERSION seed (map (\<lambda>p. (pf_profile_id p, p)) (lb_profiles L)) (lb_sites L) ka = Inr ()"
    if "ka \<in> set (sort_key fst accounts)" for ka
  proof -
    obtain a acc where ka: "ka = (a, acc)" by force
    have "account_ok lib seed (a, acc)" using that assms(1) by (simp add: ka list_all_iff)
    note f = account_facts [OF this, unfolded load_library_facts(1,2) [OF assms(2)]]
    show ?thesis
      using f by (simp add: ka check_account_def hash_choice_stable Let_def comp_def)
  qed
  then show ?thesis
    using traverse_total [of "sort_key fst accounts" _ "\<lambda>_. ()"] by (intro exI [of _ "map (\<lambda>_. ()) (sort_key fst accounts)"]) blast
qed

lemma pools_checked:
  assumes "wf_library L"
  shows "fold_result (add_to_pool (map (\<lambda>p. (pf_profile_id p, p)) (lb_profiles L))) (lb_templates L)
           (map_of (map (\<lambda>(p, _). (p, [])) (map (\<lambda>p. (pf_profile_id p, p)) (lb_profiles L)))) = Inr (pools_of L)"
proof -
  let ?ps = "map (\<lambda>p. (pf_profile_id p, p)) (lb_profiles L)"
  have d: "distinct (map fst ?ps)" using assms by (simp add: wf_library_def comp_def)
  have "\<exists>p. map_of ?ps (te_profile_id t) = Some p \<and> te_source_file t = pf_source_file p"
    "te_profile_id t \<in> pf_profile_id ` set (lb_profiles L)" if tt: "t \<in> set (lb_templates L)" for t
  proof -
    obtain p where p: "p \<in> set (lb_profiles L)" "te_profile_id t = pf_profile_id p" "te_source_file t = pf_source_file p"
      using assms tt unfolding wf_library_def by blast
    then have "map_of ?ps (te_profile_id t) = Some p" by (intro map_of_is_SomeI [OF d]) auto
    then show "\<exists>p. map_of ?ps (te_profile_id t) = Some p \<and> te_source_file t = pf_source_file p"
      "te_profile_id t \<in> pf_profile_id ` set (lb_profiles L)" using p by auto
  qed
  note t = this
  have init: "map_of (map (\<lambda>(p, _). (p, [] :: string list)) ?ps) = map_of (map (\<lambda>p. (pf_profile_id p, [])) (lb_profiles L))"
    by (simp add: comp_def)
  show ?thesis
    unfolding init using t by (subst check_pools) (auto simp: empty_pools pools_of_def fun_eq_iff)
qed

text \<open>The generator and the validator run on one library.\<close>

lemma build_validates:
  assumes "wf_library L" and "build L seed tpp off chain = Inr ds"
  shows "\<exists>st. validate ds = Inr st \<and> vs_count st = length chain \<and>
           vs_seen st = set (map ac_account_address (ds_accounts ds))"
proof -
  from assms(2) obtain lib bs where lib: "load_library L = Inr lib"
    and run: "fold_result (build_turn lib seed off) (enumerate 0 chain) empty_build = Inr bs"
    and ne: "bs_records bs \<noteq> []"
    and ds: "ds = \<lparr>ds_summary = build_summary seed off bs, ds_library = L, ds_chain = chain,
          ds_accounts = map snd (sort_key fst (bs_accounts bs)), ds_scene = bs_records bs,
          ds_template_usage = Some (bs_template_use bs)\<rparr>"
    by (auto simp: build_def result_simps split: if_splits)
  let ?A = "bs_accounts bs" and ?R = "bs_records bs"
  have inv: "list_all2 (record_ok lib seed off ?A) (enumerate 0 chain) ?R" "list_all (account_ok lib seed) ?A"
    "firsts ?A = map (apsnd Some) (fold first_of ?R [])"
    "bs_template_use bs = fold (\<lambda>r. counter_add (sr_template_id r) 1) ?R []"
    "bs_pair_counts bs = fold (\<lambda>r. counter_add (sr_from_address r, sr_to_address r) 1) ?R []"
    using build_inv_run [OF run] by (simp_all add: build_inv_def)
  have len: "length ?R = length chain" using list_all2_lengthD [OF inv(1)] by simp
  have keys: "map fst ?A = map fst (fold first_of ?R [])"
    using arg_cong [OF inv(3), of "map fst"] by (simp add: firsts_def split_def comp_def)
  have dist: "distinct (map fst ?A)" unfolding keys by (rule first_of_keys(1)) simp
  have seen: "fst ` set ?A = sr_from_address ` set ?R \<union> sr_to_address ` set ?R"
    using keys first_of_keys(2) [of "[]" ?R] by (metis list.set_map sup_bot_left list.set(1) image_empty list.simps(8) distinct.simps(1))
  obtain st where st: "check_rows (tables_of L ?A) VERSION seed off 0 chain ?R empty_check = Inr st"
    "vs_uses st = bs_template_use bs" "vs_first_seen st = fold first_of ?R []"
    "vs_seen st = fst ` set ?A"
    "vs_pairs st = (\<lambda>r. (sr_from_address r, sr_to_address r)) ` set ?R" "vs_count st = length ?R"
    using check_rows_ok [OF inv(1,2) dist assms(1) lib, of empty_check] seen inv(4) by (auto simp: empty_check_def)
  have uses: "length (bs_template_use bs) = card (sr_template_id ` set ?R)"
    "length (bs_pair_counts bs) = card (vs_pairs st)"
    unfolding inv(4,5) st(5) by (rule fold_counter_length)+
  have le: "length (bs_template_use bs) \<le> length ?R"
    unfolding uses(1) by (metis card_image_le card_length finite_set le_trans)
  have first: "ac_first_tx_index (the (map_of (sort_key fst ?A) a)) = Some n" if "(a, n) \<in> set (fold first_of ?R [])" for a n
  proof -
    have "(a, Some n) \<in> set (firsts ?A)" using that inv(3) by force
    then obtain acc where "(a, acc) \<in> set ?A" "ac_first_tx_index acc = Some n" by (auto simp: firsts_def)
    then show ?thesis using dist by (simp add: map_of_sort_key)
  qed
  have tot: "totals_agree (build_summary seed off bs) (sort_key fst ?A) (Some (bs_template_use bs)) st"
    unfolding totals_agree_def
    using st uses le first by (auto simp: build_summary_def Let_def list_all_iff)
  have "vs_uses st \<noteq> []"
    using uses(1) ne st(2) by (metis card_0_eq finite_imageI finite_set image_is_empty length_0_conv set_empty)
  have wf: "distinct (map pf_profile_id (lb_profiles L))" "distinct (map te_template_id (lb_templates L))"
    "length (remdups (map fst (lb_links L))) = (length (remdups (map fst (lb_sites L))))\<^sup>2"
  proof -
    show "distinct (map pf_profile_id (lb_profiles L))" "distinct (map te_template_id (lb_templates L))"
      using assms(1) by (simp_all add: wf_library_def)
    have "set (map fst (lb_links L)) = set (map fst (lb_sites L)) \<times> set (map fst (lb_sites L))"
      using assms(1) by (simp add: wf_library_def)
    then show "length (remdups (map fst (lb_links L))) = (length (remdups (map fst (lb_sites L))))\<^sup>2"
      by (simp only: length_remdups_card_conv card_cartesian_product power2_eq_square)
  qed
  obtain us where us: "traverse (check_account VERSION seed (map (\<lambda>p. (pf_profile_id p, p)) (lb_profiles L)) (lb_sites L))
           (sort_key fst ?A) = Inr us" using check_accounts_ok [OF inv(2) lib] by blast
  have tabs: "\<lparr>tb_accounts = sort_key fst ?A, tb_templates = map (\<lambda>t. (te_template_id t, t)) (lb_templates L),
      tb_pools = pools_of L, tb_sites = lb_sites L, tb_links = lb_links L\<rparr> = tables_of L ?A" by (simp add: tables_of_def)
  have su: "su_version (build_summary seed off bs) = VERSION" "su_seed (build_summary seed off bs) = seed"
    "su_index_offset (build_summary seed off bs) = off" "su_max_template_reuse (build_summary seed off bs) = max_count (bs_template_use bs)"
    by (simp_all add: build_summary_def Let_def)
  have snds: "map snd (map (\<lambda>t. (te_template_id t, t)) (lb_templates L)) = lb_templates L" by (simp add: comp_def)
  have "validate ds = Inr st"
    unfolding validate_def Let_def ds dataset.simps keyed_accounts [OF inv(2) dist] keyed_distinct [OF wf(1)]
      keyed_distinct [OF wf(2)] wf(3) bind_result.simps snds pools_checked [OF assms(1)] su us tabs st(1)
    using tot \<open>vs_uses st \<noteq> []\<close> st(2) by simp
  moreover have "map ac_account_address (ds_accounts ds) = map fst (sort_key fst ?A)"
    using inv(2) account_facts(1) by (fastforce simp: ds list_all_iff)
  then have "set (map ac_account_address (ds_accounts ds)) = fst ` set ?A"
    by (metis list.set_map set_sort)
  ultimately show ?thesis using st(4,6) len by simp
qed

section \<open>The generator returns\<close>

lemma load_library_total:
  assumes "wf_library L"
  shows "\<exists>lib. load_library L = Inr lib"
proof -
  have run: "\<exists>ts'. fold_result add_template ts pools = Inr ts'"
    if "\<forall>t\<in>set ts. pools (te_profile_id t) \<noteq> None" for ts pools
    using that
  proof (induction ts arbitrary: pools)
    case Nil
    then show ?case by simp
  next
    case (Cons t ts)
    then obtain pool where "pools (te_profile_id t) = Some pool" by auto
    moreover have "\<exists>ts'. fold_result add_template ts (pools(te_profile_id t \<mapsto> pool @ [t])) = Inr ts'"
      by (rule Cons.IH) (use Cons.prems in auto)
    ultimately show ?case by (simp add: add_template_def [of t])
  qed
  have "te_profile_id t \<in> pf_profile_id ` set (lb_profiles L)" if "t \<in> set (lb_templates L)" for t
    using assms that unfolding wf_library_def by blast
  then have "\<forall>t\<in>set (lb_templates L). (map_of (map (\<lambda>p. (pf_profile_id p, [] :: template list)) (lb_profiles L))) (te_profile_id t) \<noteq> None"
    by (simp add: empty_pools)
  then obtain ts' where "fold_result add_template (lb_templates L)
      (map_of (map (\<lambda>p. (pf_profile_id p, [])) (lb_profiles L))) = Inr ts'" using run by blast
  then show ?thesis by (simp add: load_library_def)
qed

lemma add_account_total:
  assumes "ld_profiles lib \<noteq> []" and "ld_sites lib \<noteq> []"
  shows "\<exists>accounts'. add_account lib seed g a accounts = Inr accounts'"
  using assms by (auto simp: add_account_def map_account_def Let_def split: prod.splits)

lemma account_profile_mem:
  assumes "account_ok lib seed (a, s)"
  shows "ac_profile_id s \<in> pf_profile_id ` set (ld_profiles lib)" "ac_site_id s \<in> fst ` set (ld_sites lib)"
proof -
  note f = account_facts [OF assms]
  show "ac_profile_id s \<in> pf_profile_id ` set (ld_profiles lib)" unfolding f(5) using f(3) by (intro imageI nth_mem) simp
  have "ac_site_id s \<in> set (site_ids (ld_sites lib))" unfolding f(6) using f(4) by (intro nth_mem) simp
  then show "ac_site_id s \<in> fst ` set (ld_sites lib)" by simp
qed

lemma build_turn_total:
  assumes "wf_library L" and "load_library L = Inr lib" and "lb_profiles L \<noteq> []"
    and "build_inv lib seed off rows st" and "check_chain_row row = Inr (a, b)"
  shows "\<exists>st'. build_turn lib seed off (i, row) st = Inr st'"
proof -
  let ?g = "off + int i"
  note ll = load_library_facts [OF assms(2)]
  have ne: "ld_profiles lib \<noteq> []" "ld_sites lib \<noteq> []" using assms(1,3) by (simp_all add: ll wf_library_def)
  obtain acc1 accounts where acc: "add_account lib seed ?g a (bs_accounts st) = Inr acc1" "add_account lib seed ?g b acc1 = Inr accounts"
    using add_account_total [OF ne] by metis
  have inv: "list_all (account_ok lib seed) (bs_accounts st)" using assms(4) by (simp add: build_inv_def)
  note row = check_chain_row_ok [OF assms(5)]
  note one = add_account_ok [OF acc(1) row(7) inv]
  note two = add_account_ok [OF acc(2) row(8) one [THEN conjunct2, THEN conjunct2, THEN conjunct1]]
  have "map_of accounts a \<noteq> None" "map_of accounts b \<noteq> None"
    using one two by (auto simp: known_iff map_of_eq_None_iff)
  then obtain s t where st: "map_of accounts a = Some s" "map_of accounts b = Some t" by auto
  then have ok: "account_ok lib seed (a, s)" "account_ok lib seed (b, t)"
    using two by (auto simp: list_all_iff dest: map_of_SomeD)
  note mem = ok [THEN account_profile_mem(1)] ok [THEN account_profile_mem(2)]
  let ?pool = "filter (\<lambda>t. te_profile_id t = ac_profile_id s) (lb_templates L)"
  have pool: "ld_templates lib (ac_profile_id s) = Some ?pool" using mem(1) by (simp add: ll)
  have "?pool \<noteq> []" using assms(1) mem(1) by (auto simp: wf_library_def ll filter_empty_conv)
  then obtain sample where sample: "template_for row ?g s (ld_templates lib) seed = Inr sample" "sample \<in> set ?pool"
    using pool nth_mem [of "stable_int seed ''transaction_template'' [JInt ?g, JList (map JStr row)] mod length ?pool" ?pool]
    unfolding template_for_def pool option.case by (simp only: if_False) auto
  then have "template_ok sample" using assms(1) unfolding wf_library_def by auto
  then obtain d where d: "to_flt (te_flowDuration sample) = Inr d" by (auto simp: template_ok_def to_flt_def)
  have link: "\<exists>qr. link_of lib u v = Inr qr" if "u \<in> fst ` set (ld_sites lib)" "v \<in> fst ` set (ld_sites lib)" for u v
  proof -
    have "(u, v) \<in> fst ` set (lb_links L)" using that assms(1) by (simp add: wf_library_def ll)
    then obtain x where "map_of (rev (lb_links L)) (u, v) = Some x"
      by (metis (no_types, lifting) map_of_eq_None_iff not_None_eq set_rev)
    then show ?thesis by (simp add: link_of_def ll(3))
  qed
  obtain q q' where "link_of lib (ac_site_id s) (ac_site_id t) = Inr q" "link_of lib (ac_site_id t) (ac_site_id s) = Inr q'"
    using link [OF mem(3,4)] link [OF mem(4,3)] by blast
  then show ?thesis
    using assms(5) acc st sample(1) d by (cases q; cases q') (simp add: build_turn_def Let_def)
qed

lemma build_loop_total:
  assumes "wf_library L" and "load_library L = Inr lib" and "lb_profiles L \<noteq> []"
    and "build_inv lib seed off done_rows st" and "\<forall>(i, row)\<in>set rows. \<exists>ab. check_chain_row row = Inr ab"
  shows "\<exists>st'. fold_result (build_turn lib seed off) rows st = Inr st'"
  using assms(4,5)
proof (induction rows arbitrary: done_rows st)
  case Nil
  then show ?case by simp
next
  case (Cons ir rows)
  obtain i row where ir: "ir = (i, row)" by force
  then obtain a b where "check_chain_row row = Inr (a, b)" using Cons.prems(2) by auto
  then obtain st1 where st1: "build_turn lib seed off ir st = Inr st1"
    using build_turn_total [OF assms(1-3) Cons.prems(1)] ir by blast
  show ?case
    using Cons.IH [OF build_turn_ok [OF Cons.prems(1) st1]] Cons.prems(2) st1 by simp
qed

lemma build_total:
  assumes "wf_library L" and "lb_profiles L \<noteq> []" and "0 < tpp" and "0 \<le> off" and "chain \<noteq> []"
    and "\<forall>row\<in>set chain. \<exists>ab. check_chain_row row = Inr ab"
  shows "\<exists>ds. build L seed tpp off chain = Inr ds \<and> ds_chain ds = chain \<and> length (ds_scene ds) = length chain"
proof -
  obtain lib where lib: "load_library L = Inr lib" using load_library_total [OF assms(1)] by blast
  have "build_inv lib seed off [] empty_build" by (simp add: build_inv_def empty_build_def firsts_def)
  moreover have "\<forall>(i, row)\<in>set (enumerate 0 chain). \<exists>ab. check_chain_row row = Inr ab"
    using assms(6) by (auto simp: in_set_enumerate_eq)
  ultimately obtain st where st: "fold_result (build_turn lib seed off) (enumerate 0 chain) empty_build = Inr st"
    using build_loop_total [OF assms(1) lib assms(2)] by blast
  have "length (bs_records st) = length chain"
    using build_inv_run [OF st] by (auto simp: build_inv_def dest: list_all2_lengthD)
  then show ?thesis using assms(3-5) lib st by (auto simp: build_def)
qed

section \<open>Properties\<close>

text \<open>
  C9. What the generator builds, the validator accepts: with a library that was created from
  the sources and has a device, and a nonempty file of transactions that pass the row check, the
  generator returns a dataset with the transactions unchanged and one scene record for each, and
  the independent validator accepts it, having checked every transaction and seen exactly the
  accounts of the account file.
\<close>

theorem generated_dataset_validates:
  assumes "create_library fromiso new_rng randrange seed cap mote_locs connectivity archive = Inr lib"
    and "lb_profiles lib \<noteq> []" and "0 < tpp" and "0 \<le> off" and "chain \<noteq> []"
    and "list_all (\<lambda>row. \<exists>ab. check_chain_row row = Inr ab) chain"
  shows "\<exists>ds st. build lib seed tpp off chain = Inr ds \<and> ds_chain ds = chain \<and>
     length (ds_scene ds) = length chain \<and> validate ds = Inr st \<and> vs_count st = length chain \<and>
     vs_seen st = set (map ac_account_address (ds_accounts ds))"
proof -
  have wf: "wf_library lib" by (rule create_library_ok [OF assms(1)])
  obtain ds where ds: "build lib seed tpp off chain = Inr ds" "ds_chain ds = chain" "length (ds_scene ds) = length chain"
    using build_total [OF wf assms(2-5)] assms(6) by (auto simp: list_all_iff)
  then show ?thesis using build_validates [OF wf ds(1)] by blast
qed

definition demo_chain :: "string list list" where
  "demo_chain = [[''1'', ''2'', ''3'', ''0x'' @ replicate 40 CHR ''a'', ''0x'' @ replicate 40 CHR ''b'', [],
     ''0'', ''0'', ''15'', [], [], [], [], [], [], [], [], []]]"

lemma demo_chain_row: "check_chain_row (hd demo_chain) = Inr (''0x'' @ replicate 40 CHR ''a'', ''0x'' @ replicate 40 CHR ''b'')"
  by code_simp

theorem generated_dataset_validates_witness:
  "\<exists>ds st. build demo_library 7 4 0 demo_chain = Inr ds \<and> validate ds = Inr st \<and> vs_count st = 1"
proof -
  have "list_all (\<lambda>row. \<exists>ab. check_chain_row row = Inr ab) demo_chain"
    using demo_chain_row by (simp add: demo_chain_def)
  moreover have "lb_profiles demo_library \<noteq> []" by (simp add: demo_library_def)
  ultimately obtain ds st where "build demo_library 7 4 0 demo_chain = Inr ds" "validate ds = Inr st" "vs_count st = length demo_chain"
    using generated_dataset_validates [OF demo_library_created, of 4 0 demo_chain] by (auto simp: demo_chain_def)
  moreover have "length demo_chain = 1" by (simp add: demo_chain_def)
  ultimately show ?thesis by auto
qed

text \<open>The loop only appends to its records and accounts.\<close>

lemma build_turn_appends:
  assumes "build_turn lib seed off ir st = Inr st'"
  shows "(\<exists>r. bs_records st' = bs_records st @ [r]) \<and> (\<exists>xs. bs_accounts st' = bs_accounts st @ xs)"
proof -
  have app: "\<exists>xs. acc' = acc @ xs" if "add_account lib seed g a acc = Inr acc'" for g a acc acc'
    using that by (auto simp: add_account_def result_simps split: if_splits)
  obtain a b g acc1 acc2 where "add_account lib seed g a (bs_accounts st) = Inr acc1" "add_account lib seed g b acc1 = Inr acc2"
    and st': "bs_accounts st' = acc2" "\<exists>r. bs_records st' = bs_records st @ [r]"
    using assms by (cases ir) (auto simp: build_turn_def Let_def bind_result_eq_Inr)
  then show ?thesis using app by (metis append.assoc)
qed

lemma build_loop_appends:
  assumes "fold_result (build_turn lib seed off) rows st = Inr st'"
  shows "(\<exists>rs. bs_records st' = bs_records st @ rs) \<and> (\<exists>xs. bs_accounts st' = bs_accounts st @ xs)"
  using assms
proof (induction rows arbitrary: st)
  case Nil
  then show ?case by simp
next
  case (Cons ir rows)
  then obtain st1 where st1: "build_turn lib seed off ir st = Inr st1" "fold_result (build_turn lib seed off) rows st1 = Inr st'"
    by (auto simp: result_simps)
  then show ?case using build_turn_appends [OF st1(1)] Cons.IH [OF st1(2)] by (metis append.assoc)
qed

text \<open>
  C33. The generator does not look ahead: when it builds a dataset from a file of transactions,
  it builds one from every nonempty initial part of the file too, with the same scene records for
  these transactions and the same account rows for their accounts, first index included.
\<close>

theorem build_prefix_stable:
  assumes "build lib seed tpp off (xs @ ys) = Inr ds" and "xs \<noteq> []"
  shows "\<exists>ds'. build lib seed tpp off xs = Inr ds' \<and> ds_scene ds' = take (length xs) (ds_scene ds) \<and>
     set (ds_accounts ds') \<subseteq> set (ds_accounts ds)"
proof -
  from assms(1) obtain ld st where ok: "0 < tpp" "0 \<le> off" and ld: "load_library lib = Inr ld"
    and run: "fold_result (build_turn ld seed off) (enumerate 0 (xs @ ys)) empty_build = Inr st"
    and ds: "ds_scene ds = bs_records st" "set (ds_accounts ds) = snd ` set (bs_accounts st)"
    by (auto simp: build_def result_simps not_le not_less split: if_splits)
  from run obtain st1 where st1: "fold_result (build_turn ld seed off) (enumerate 0 xs) empty_build = Inr st1"
    "fold_result (build_turn ld seed off) (enumerate (length xs) ys) st1 = Inr st"
    by (auto simp: enumerate_append_eq fold_result_append result_simps)
  have len: "length (bs_records st1) = length xs"
    using build_inv_run [OF st1(1)] by (auto simp: build_inv_def dest: list_all2_lengthD)
  obtain rs as where "bs_records st = bs_records st1 @ rs" "bs_accounts st = bs_accounts st1 @ as"
    using build_loop_appends [OF st1(2)] by blast
  then have "bs_records st1 = take (length xs) (ds_scene ds)" "snd ` set (bs_accounts st1) \<subseteq> set (ds_accounts ds)"
    using len ds by auto
  moreover have "bs_records st1 \<noteq> []" using len assms(2) by auto
  ultimately show ?thesis using ok ld st1(1) by (auto simp: build_def)
qed

theorem build_prefix_stable_witness:
  "\<exists>ds ds'. build demo_library 7 4 0 (demo_chain @ demo_chain) = Inr ds \<and>
     build demo_library 7 4 0 demo_chain = Inr ds' \<and> ds_scene ds' = take 1 (ds_scene ds)"
proof -
  have wf: "wf_library demo_library" by (rule create_library_ok [OF demo_library_created])
  have rows: "\<forall>row\<in>set (demo_chain @ demo_chain). \<exists>ab. check_chain_row row = Inr ab"
    using demo_chain_row by (simp add: demo_chain_def)
  have ne: "lb_profiles demo_library \<noteq> []" "demo_chain @ demo_chain \<noteq> []" "demo_chain \<noteq> []" and len: "length demo_chain = 1"
    by (simp_all add: demo_library_def demo_chain_def)
  obtain ds where ds: "build demo_library 7 4 0 (demo_chain @ demo_chain) = Inr ds"
    using build_total [OF wf ne(1) _ _ ne(2) rows, of 4 0 7] by auto
  from build_prefix_stable [OF ds ne(3)] ds show ?thesis unfolding len by blast
qed

end
