(* ===== verification/Agent.thy ===== *)
theory Agent
  imports Checkpoint Rollout
begin

text \<open>
  The agent as the entries see it: its dimensions and its network, saved to and loaded from a
  checkpoint file (\<open>PPOAgent.save\<close> and \<open>PPOAgent.load\<close> of \<open>ppo.py\<close>). The network
  belongs to torch. Its weights are a type parameter, and what the entries call is kept in the
  record \<open>torch_lib\<close>: the initial weights for given dimensions, \<open>load_state_dict\<close> (it may
  raise, and what it leaves in the network then is its own business), the forward pass on one
  row, and the optimiser step of \<open>PPOAgent.update\<close>.

  A new network is initialised at random. \<open>tl_fresh\<close> is the initialisation for one state of torch's
  generator: the entries that build one agent per run are functions of that state, and every
  statement about them holds for each such function. The server builds agents in any number of
  requests; there each request has a function of its own (\<open>mo_fresh\<close> in \<open>Inference\<close>).

  A model path names no file or a regular file; reading the file either raises or gives the
  dictionary that was saved, whose fields may be missing or of any type.
\<close>

record 'w agent =
  ag_state_dim :: int
  ag_action_dim :: int
  ag_net :: 'w

record 'w payload =
  pl_state_dim :: "pyval option"
  pl_action_dim :: "pyval option"
  pl_model_state_dict :: "'w option"
  pl_extra :: "pyval option"

type_synonym 'w model_file = "'w payload result option"

record ('w, 'l) torch_lib =
  tl_fresh :: "int \<Rightarrow> int \<Rightarrow> 'w result"
  tl_load_state_dict :: "'w \<Rightarrow> 'w \<Rightarrow> exn option \<times> 'w"
  tl_forward :: "'w \<Rightarrow> pyfloat list \<Rightarrow> (real list \<times> real) option"
  tl_update :: "'w agent \<Rightarrow> rollout_buffer \<Rightarrow> ('l \<times> 'w agent) result"

definition make_agent :: "('w, 'l) torch_lib \<Rightarrow> int \<Rightarrow> int \<Rightarrow> 'w agent result" where
  "make_agent lib sdim adim =
     bind_result (tl_fresh lib sdim adim) (\<lambda>w.
       return \<lparr>ag_state_dim = sdim, ag_action_dim = adim, ag_net = w\<rparr>)"

definition agent_save :: "'w agent \<Rightarrow> dict \<Rightarrow> 'w payload" where
  "agent_save a extra =
     \<lparr>pl_state_dim = Some (VInt (ag_state_dim a)), pl_action_dim = Some (VInt (ag_action_dim a)),
      pl_model_state_dict = Some (ag_net a), pl_extra = Some (VDict extra)\<rparr>"

text \<open>\<open>agent.net.load_state_dict(payload["model_state_dict"])\<close>: the outcome and the agent after it.\<close>

definition load_weights :: "('w, 'l) torch_lib \<Rightarrow> 'w payload \<Rightarrow> 'w agent \<Rightarrow> unit result \<times> 'w agent" where
  "load_weights lib p a =
     (case pl_model_state_dict p of
        None \<Rightarrow> (raise KeyError, a)
      | Some w \<Rightarrow>
          (case tl_load_state_dict lib (ag_net a) w of
             (None, net) \<Rightarrow> (return (), a\<lparr>ag_net := net\<rparr>)
           | (Some e, net) \<Rightarrow> (raise e, a\<lparr>ag_net := net\<rparr>)))"

definition agent_load :: "('w, 'l) torch_lib \<Rightarrow> 'w payload result \<Rightarrow> 'w agent \<Rightarrow> 'w payload result \<times> 'w agent" where
  "agent_load lib file a =
     (case file of
        Inl e \<Rightarrow> (raise e, a)
      | Inr p \<Rightarrow>
          (case load_weights lib p a of
             (Inl e, a) \<Rightarrow> (raise e, a)
           | (Inr _, a) \<Rightarrow> (return p, a)))"

text \<open>\<open>int(payload.get("state_dim", -1))\<close> and \<open>int(payload.get("action_dim", -1))\<close>.\<close>

definition payload_dims :: "'w payload \<Rightarrow> (int \<times> int) result" where
  "payload_dims p =
     bind_result (int_of (get_or (pl_state_dim p) (VInt (-1)))) (\<lambda>s.
     bind_result (int_of (get_or (pl_action_dim p) (VInt (-1)))) (\<lambda>a. return (s, a)))"

text \<open>\<open>payload.get("extra", {})\<close> used as a dictionary.\<close>

definition payload_extra :: "'w payload \<Rightarrow> dict result" where
  "payload_extra p = require_dict (get_or (pl_extra p) (VDict []))"

definition is_v3 :: "'w payload \<Rightarrow> bool result" where
  "is_v3 p = bind_result (payload_extra p) (\<lambda>d.
     return (py_eq (dict_get d ''mechanism_version'' VNone) (VStr ''v3'')))"

lemma payload_dims_saved [simp]:
  "payload_dims (agent_save a extra) = Inr (ag_state_dim a, ag_action_dim a)"
  by (simp add: payload_dims_def agent_save_def get_or_def)

lemma payload_extra_saved [simp]: "payload_extra (agent_save a extra) = Inr extra"
  by (simp add: payload_extra_def agent_save_def get_or_def require_dict_def)

end
