(* ===== verification/OnlineUpdate.thy ===== *)
theory OnlineUpdate
  imports Agent
begin

text \<open>
  Online updates of the policy (\<open>update_online.py\<close>): each call reads one feedback file of the
  emulator, turns its actions into transitions, appends them to the transitions that earlier
  calls left in the rollout file, and runs one optimiser step when enough of them are there.

  The state is the record \<open>disk\<close>: the model file, the rollout files by path, and the training
  log. A call returns its result or its exception together with the files as they are then, since
  an exception does not undo what was written. Writing may fail; the record \<open>update_env\<close> says
  which writes of a call do, and what they leave behind. A JSON file is the value that \<open>json.load\<close> gives, or the exception it raises; a path is
  its directory and its name. The text of \<open>json.dumps(expected, sort_keys=True)\<close>, which only
  enters a file name, is the argument \<open>dumps\<close>.
\<close>

section \<open>Constants and conversions\<close>

definition BATCH_SIZE :: nat where
  "BATCH_SIZE = 1024"

definition MIN_FLUSH_BATCH_SIZE :: nat where
  "MIN_FLUSH_BATCH_SIZE = 256"

definition REWARD_CLIP :: real where
  "REWARD_CLIP = 2 / 10"

text \<open>\<open>safe_float(x, None)\<close>, and with a number as the default.\<close>

definition safe_float_opt :: "pyval \<Rightarrow> real option" where
  "safe_float_opt x = (case float_of x of Inr (Fin v) \<Rightarrow> Some v | _ \<Rightarrow> None)"

definition safe_float :: "pyval \<Rightarrow> real \<Rightarrow> real" where
  "safe_float x dflt = get_or (safe_float_opt x) dflt"

definition safe_int :: "pyval \<Rightarrow> int \<Rightarrow> int" where
  "safe_int x dflt = (case int_of x of Inr i \<Rightarrow> i | Inl _ \<Rightarrow> dflt)"

definition update_iot_feature_dim :: "dict \<Rightarrow> int" where
  "update_iot_feature_dim data =
     max 0 (safe_int (dict_get data ''iot_feature_dim'' (dict_get data ''IOTFeatureDim'' (VInt 0))) 0)"

definition update_state_dim :: "int \<Rightarrow> int \<Rightarrow> int" where
  "update_state_dim shards iot_feature_dim = state_dim shards (max 0 iot_feature_dim)"

definition clip_value :: "real \<Rightarrow> real \<Rightarrow> real" where
  "clip_value v limit = (if limit \<le> 0 then v else max (- limit) (min limit v))"

definition load_update_input :: "pyval result \<Rightarrow> dict result" where
  "load_update_input file =
     bind_result file (\<lambda>data. case as_dict data of None \<Rightarrow> raise ValueError | Some d \<Rightarrow> return d)"

section \<open>The agent to update\<close>

datatype model_source = NewModel | LoadedModel | ResetDimMismatch | ResetLoadFailed exn

definition build_agent ::
  "('w, 'l) torch_lib \<Rightarrow> int \<Rightarrow> 'w model_file \<Rightarrow> int \<Rightarrow> ('w agent \<times> 'w payload option \<times> model_source) result" where
  "build_agent lib shards model iot_feature_dim =
     (let expected_state_dim = update_state_dim shards iot_feature_dim in
      bind_result (make_agent lib expected_state_dim shards) (\<lambda>agent.
        return
          (case model of
             None \<Rightarrow> (agent, None, NewModel)
           | Some file \<Rightarrow>
               (case agent_load lib file agent of
                  (Inl e, agent) \<Rightarrow> (agent, None, ResetLoadFailed e)
                | (Inr p, agent) \<Rightarrow>
                    (case payload_dims p of
                       Inl e \<Rightarrow> (agent, None, ResetLoadFailed e)
                     | Inr (sdim, adim) \<Rightarrow>
                         if sdim = expected_state_dim \<and> adim = shards
                         then (agent, Some p, LoadedModel)
                         else (agent, None, ResetDimMismatch))))))"

section \<open>Transitions of one feedback file\<close>

text \<open>\<open>[int(x) for x in list(action_mask)]\<close> of \<open>RolloutBuffer.add\<close>; a text or a dictionary
  is iterated as Python does.\<close>

fun mask_ints :: "pyval \<Rightarrow> int list result" where
  "mask_ints VNone = return []"
| "mask_ints (VList xs) = traverse int_of xs"
| "mask_ints (VStr s) = traverse (\<lambda>c. int_of (VStr [c])) s"
| "mask_ints (VDict d) = traverse (\<lambda>(k, _). int_of (VStr k)) d"
| "mask_ints _ = raise TypeError"

definition clean :: "pyval list \<Rightarrow> real list" where
  "clean xs = map (\<lambda>x. safe_float x 0) xs"

text \<open>A list of the expected length.\<close>

definition list_of_len :: "int \<Rightarrow> pyval \<Rightarrow> pyval list option" where
  "list_of_len n v = (case as_list v of None \<Rightarrow> None | Some xs \<Rightarrow> if int (length xs) = n then Some xs else None)"

text \<open>
  The checks an action has to pass, in the order of the code: a dictionary with a state of the
  expected length, a shard in range, and finite old log-probability and value. \<open>None\<close> is a
  skipped action.
\<close>

definition usable ::
  "int \<Rightarrow> int \<Rightarrow> pyval \<Rightarrow> (dict \<times> pyval list \<times> nat \<times> real \<times> real) option" where
  "usable shards expected_state_dim item =
     Option.bind (as_dict item) (\<lambda>d.
     Option.bind (list_of_len expected_state_dim (dict_get d ''state'' (VList []))) (\<lambda>state.
       let action = safe_int (dict_get d ''action'' (VInt (-1))) (-1) in
       if action < 0 \<or> action \<ge> shards then None
       else
         Option.bind (safe_float_opt (dict_get d ''log_prob'' VNone)) (\<lambda>log_prob.
         Option.bind (safe_float_opt (dict_get d ''value'' VNone)) (\<lambda>v.
           Some (d, state, nat action, log_prob, v)))))"

record build_acc =
  ba_buffer :: rollout_buffer
  ba_skipped :: nat
  ba_action_hist :: "nat list"
  ba_related_known_count :: nat
  ba_same_as_related_count :: nat
  ba_confidence_sum :: real
  ba_entropy_sum :: real
  ba_log_prob_sum :: real
  ba_local_reward_sum :: real
  ba_supervised_target_count :: nat
  ba_supervised_weight_sum :: real

definition next_state_of :: "int \<Rightarrow> pyval list \<Rightarrow> nat \<Rightarrow> dict \<Rightarrow> real list \<Rightarrow> real list" where
  "next_state_of expected_state_dim next_states idx d clean_state =
     (let raw = dict_get d ''next_state'' VNone;
          raw = (if as_list raw = None \<and> idx < length next_states then next_states ! idx else raw)
      in case list_of_len expected_state_dim raw of None \<Rightarrow> clean_state | Some xs \<Rightarrow> clean xs)"

definition supervised_target :: "int \<Rightarrow> dict \<Rightarrow> (int \<times> real) option" where
  "supervised_target shards d =
     (let related_shard = safe_int (dict_get d ''related_shard'' (VInt (-1))) (-1);
          related_weight = safe_float (dict_get d ''related_weight'' (VFloat (Fin 0))) 0
      in if truthy (dict_get d ''related_known'' (VBool False)) \<and> 0 \<le> related_shard \<and> related_shard < shards
         then Some (related_shard, max 0.05 (min 1 related_weight))
         else None)"

definition build_step ::
  "int \<Rightarrow> int \<Rightarrow> pyval list \<Rightarrow> nat \<times> pyval \<Rightarrow> build_acc \<Rightarrow> build_acc result" where
  "build_step shards expected_state_dim next_states ii acc =
     (case ii of (idx, item) \<Rightarrow>
      case usable shards expected_state_dim item of
        None \<Rightarrow> return (acc\<lparr>ba_skipped := ba_skipped acc + 1\<rparr>)
      | Some (d, state, action, log_prob, v) \<Rightarrow>
          (let clean_state = clean state;
               reward = clip_value (safe_float (dict_get d ''reward'' (VFloat (Fin 0))) 0) REWARD_CLIP;
               confidence = safe_float (dict_get d ''confidence'' (VFloat (Fin 0))) 0;
               entropy = safe_float (dict_get d ''entropy'' (VFloat (Fin 0))) 0;
               local_reward = safe_float (dict_get d ''local_reward'' (VFloat (Fin reward))) reward;
               related_known = truthy (dict_get d ''related_known'' (VBool False));
               target = supervised_target shards d
           in bind_result (mask_ints (dict_get d ''action_mask'' (VList []))) (\<lambda>action_mask.
                return (acc
                  \<lparr>ba_buffer := buffer_add (ba_buffer acc)
                     \<lparr>tr_state = clean_state,
                      tr_next_state = Some (next_state_of expected_state_dim next_states idx d clean_state),
                      tr_action = action, tr_log_prob = log_prob, tr_reward = reward,
                      tr_done = truthy (dict_get d ''done'' (VBool False)), tr_value = v,
                      tr_target_action = (case target of None \<Rightarrow> -1 | Some (a, _) \<Rightarrow> a),
                      tr_target_weight = (case target of None \<Rightarrow> 0 | Some (_, w) \<Rightarrow> w),
                      tr_action_mask = Some action_mask, tr_discount = None, tr_trace_discount = None\<rparr>,
                   ba_action_hist := bump action 1 (ba_action_hist acc),
                   ba_confidence_sum := ba_confidence_sum acc + confidence,
                   ba_entropy_sum := ba_entropy_sum acc + entropy,
                   ba_log_prob_sum := ba_log_prob_sum acc + log_prob,
                   ba_local_reward_sum := ba_local_reward_sum acc + local_reward,
                   ba_supervised_target_count := ba_supervised_target_count acc + (if target = None then 0 else 1),
                   ba_supervised_weight_sum := ba_supervised_weight_sum acc + (case target of None \<Rightarrow> 0 | Some (_, w) \<Rightarrow> w),
                   ba_related_known_count := ba_related_known_count acc + (if related_known then 1 else 0),
                   ba_same_as_related_count := ba_same_as_related_count acc +
                     (if related_known \<and> truthy (dict_get d ''same_as_related'' (VBool False)) then 1 else 0)\<rparr>))))"

record update_meta =
  me_shards :: int
  me_iot_feature_dim :: int
  me_state_dim :: int
  me_batch_reward :: real
  me_skipped :: nat
  me_action_hist :: "nat list"
  me_related_known_count :: nat
  me_same_as_related_count :: nat
  me_action_confidence_mean :: real
  me_action_entropy_mean :: real
  me_action_log_prob_mean :: real
  me_local_reward_mean :: real
  me_supervised_target_count :: nat
  me_supervised_weight_mean :: real

definition mean_over :: "nat \<Rightarrow> real \<Rightarrow> real" where
  "mean_over n s = (if n \<noteq> 0 then s / real n else 0)"

text \<open>A trajectory without an end mark ends at its last action.\<close>

definition close_trajectory :: "rollout_buffer \<Rightarrow> rollout_buffer" where
  "close_trajectory b =
     (if buffer_len b > 0 \<and> \<not> list_ex (\<lambda>d. d) (rb_dones b)
      then b\<lparr>rb_dones := set_last True (rb_dones b)\<rparr> else b)"

definition new_acc :: "int \<Rightarrow> build_acc" where
  "new_acc shards =
     \<lparr>ba_buffer = empty_buffer, ba_skipped = 0, ba_action_hist = replicate (nat shards) 0,
      ba_related_known_count = 0, ba_same_as_related_count = 0, ba_confidence_sum = 0,
      ba_entropy_sum = 0, ba_log_prob_sum = 0, ba_local_reward_sum = 0,
      ba_supervised_target_count = 0, ba_supervised_weight_sum = 0\<rparr>"

definition build_buffer_from_update :: "dict \<Rightarrow> (rollout_buffer \<times> update_meta) result" where
  "build_buffer_from_update data =
     (let shards = safe_int (dict_get data ''shards'' (VInt 4)) 4;
          iot_feature_dim = update_iot_feature_dim data;
          expected_state_dim = update_state_dim shards iot_feature_dim;
          batch_reward = safe_float (dict_get data ''reward'' (VFloat (Fin 0))) 0;
          next_states = (case as_list (dict_get data ''next_states'' (VList [])) of None \<Rightarrow> [] | Some xs \<Rightarrow> xs)
      in case as_list (dict_get data ''actions'' (VList [])) of
           None \<Rightarrow> raise ValueError
         | Some actions \<Rightarrow>
             bind_result (fold_result (build_step shards expected_state_dim next_states)
                 (enumerate 0 actions) (new_acc shards)) (\<lambda>acc.
               let buffer = close_trajectory (ba_buffer acc); n = buffer_len buffer
               in return (buffer,
                 \<lparr>me_shards = shards, me_iot_feature_dim = iot_feature_dim,
                  me_state_dim = expected_state_dim, me_batch_reward = batch_reward,
                  me_skipped = ba_skipped acc, me_action_hist = ba_action_hist acc,
                  me_related_known_count = ba_related_known_count acc,
                  me_same_as_related_count = ba_same_as_related_count acc,
                  me_action_confidence_mean = mean_over n (ba_confidence_sum acc),
                  me_action_entropy_mean = mean_over n (ba_entropy_sum acc),
                  me_action_log_prob_mean = mean_over n (ba_log_prob_sum acc),
                  me_local_reward_mean = mean_over n (ba_local_reward_sum acc),
                  me_supervised_target_count = ba_supervised_target_count acc,
                  me_supervised_weight_mean =
                    mean_over (ba_supervised_target_count acc) (ba_supervised_weight_sum acc)\<rparr>)))"

section \<open>The rollout file\<close>

definition float_list :: "real list \<Rightarrow> pyval" where
  "float_list xs = VList (map (\<lambda>x. VFloat (Fin x)) xs)"

definition record_at :: "rollout_buffer \<Rightarrow> nat \<Rightarrow> pyval" where
  "record_at b i = VDict
     [(''state'', float_list (rb_states b ! i)), (''next_state'', float_list (rb_next_states b ! i)),
      (''action'', VInt (int (rb_actions b ! i))), (''log_prob'', VFloat (Fin (rb_log_probs b ! i))),
      (''reward'', VFloat (Fin (rb_rewards b ! i))), (''done'', VBool (rb_dones b ! i)),
      (''value'', VFloat (Fin (rb_values b ! i))), (''target_action'', VInt (rb_target_actions b ! i)),
      (''target_weight'', VFloat (Fin (rb_target_weights b ! i))),
      (''action_mask'', VList (map VInt (rb_action_masks b ! i)))]"

definition buffer_to_records :: "rollout_buffer \<Rightarrow> pyval list" where
  "buffer_to_records b = map (record_at b) [0..<buffer_len b]"

definition record_step :: "int \<Rightarrow> int \<Rightarrow> pyval \<Rightarrow> rollout_buffer \<Rightarrow> rollout_buffer result" where
  "record_step shards expected_state_dim item b =
     (case usable shards expected_state_dim item of
        None \<Rightarrow> return b
      | Some (d, state, action, log_prob, v) \<Rightarrow>
          (let next_state = (case list_of_len expected_state_dim (dict_get d ''next_state'' (VList state)) of
                               None \<Rightarrow> state | Some xs \<Rightarrow> xs)
           in bind_result (mask_ints (dict_get d ''action_mask'' (VList []))) (\<lambda>action_mask.
                return (buffer_add b
                  \<lparr>tr_state = clean state, tr_next_state = Some (clean next_state), tr_action = action,
                   tr_log_prob = log_prob,
                   tr_reward = safe_float (dict_get d ''reward'' (VFloat (Fin 0))) 0,
                   tr_done = truthy (dict_get d ''done'' (VBool False)), tr_value = v,
                   tr_target_action = safe_int (dict_get d ''target_action'' (VInt (-1))) (-1),
                   tr_target_weight = safe_float (dict_get d ''target_weight'' (VFloat (Fin 0))) 0,
                   tr_action_mask = Some action_mask, tr_discount = None, tr_trace_discount = None\<rparr>))))"

definition records_to_buffer :: "pyval list \<Rightarrow> int \<Rightarrow> int \<Rightarrow> rollout_buffer result" where
  "records_to_buffer records shards iot_feature_dim =
     fold_result (record_step shards (update_state_dim shards iot_feature_dim)) records empty_buffer"

definition num_trajectories :: "rollout_buffer \<Rightarrow> nat" where
  "num_trajectories b = length (filter (\<lambda>d. d) (rb_dones b))"

datatype pending_status =
    PendingNew
  | BadPayloadReset
  | ResetShardsMismatch int int
  | ResetIotFeatureDimMismatch int int
  | BadRecordsReset
  | PendingLoaded nat nat
  | PendingLoadFailed exn

definition load_pending_buffer ::
  "pyval result option \<Rightarrow> int \<Rightarrow> int \<Rightarrow> rollout_buffer \<times> pending_status" where
  "load_pending_buffer file shards iot_feature_dim =
     (case file of
        None \<Rightarrow> (empty_buffer, PendingNew)
      | Some (Inl e) \<Rightarrow> (empty_buffer, PendingLoadFailed e)
      | Some (Inr payload) \<Rightarrow>
          (case as_dict payload of
             None \<Rightarrow> (empty_buffer, BadPayloadReset)
           | Some d \<Rightarrow>
               (let old_shards = safe_int (dict_get d ''shards'' (VInt shards)) shards;
                    old_dim = safe_int (dict_get d ''iot_feature_dim'' (VInt iot_feature_dim)) iot_feature_dim
                in if old_shards \<noteq> shards then (empty_buffer, ResetShardsMismatch old_shards shards)
                   else if old_dim \<noteq> iot_feature_dim
                   then (empty_buffer, ResetIotFeatureDimMismatch old_dim iot_feature_dim)
                   else
                     (case as_list (dict_get d ''records'' (VList [])) of
                        None \<Rightarrow> (empty_buffer, BadRecordsReset)
                      | Some records \<Rightarrow>
                          (case records_to_buffer records shards iot_feature_dim of
                             Inl e \<Rightarrow> (empty_buffer, PendingLoadFailed e)
                           | Inr b \<Rightarrow> (b, PendingLoaded (buffer_len b) (num_trajectories b)))))))"

text \<open>The file after saving: an empty buffer removes it.\<close>

definition save_pending_buffer :: "int \<Rightarrow> rollout_buffer \<Rightarrow> int \<Rightarrow> int \<Rightarrow> pyval result option" where
  "save_pending_buffer now b shards iot_feature_dim =
     (if buffer_len b = 0 then None
      else Some (return (VDict
        [(''time_unix_nano'', VInt now), (''shards'', VInt shards), (''iot_feature_dim'', VInt iot_feature_dim),
         (''size'', VInt (int (buffer_len b))), (''num_trajectories'', VInt (int (num_trajectories b))),
         (''records'', VList (buffer_to_records b))])))"

definition transition_at :: "rollout_buffer \<Rightarrow> nat \<Rightarrow> transition" where
  "transition_at b i =
     \<lparr>tr_state = rb_states b ! i, tr_next_state = Some (rb_next_states b ! i), tr_action = rb_actions b ! i,
      tr_log_prob = rb_log_probs b ! i, tr_reward = rb_rewards b ! i, tr_done = rb_dones b ! i,
      tr_value = rb_values b ! i, tr_target_action = rb_target_actions b ! i,
      tr_target_weight = rb_target_weights b ! i, tr_action_mask = Some (rb_action_masks b ! i),
      tr_discount = None, tr_trace_discount = None\<rparr>"

definition append_buffer :: "rollout_buffer \<Rightarrow> rollout_buffer \<Rightarrow> rollout_buffer" where
  "append_buffer dst src = fold (\<lambda>i b. buffer_add b (transition_at src i)) [0..<buffer_len src] dst"

record stats =
  st_size :: nat
  st_num_trajectories :: nat
  st_reward_sum :: real
  st_reward_mean :: real
  st_supervised_target_count :: nat
  st_supervised_weight_mean :: real

definition rollout_stats :: "rollout_buffer \<Rightarrow> stats" where
  "rollout_stats b =
     (if buffer_len b = 0
      then \<lparr>st_size = 0, st_num_trajectories = 0, st_reward_sum = 0, st_reward_mean = 0,
            st_supervised_target_count = 0, st_supervised_weight_mean = 0\<rparr>
      else
        (let reward_sum = sum_list (rb_rewards b);
             weights = map snd (filter (\<lambda>(target, w). target \<ge> 0 \<and> w > 0)
               (zip (rb_target_actions b) (rb_target_weights b)))
         in \<lparr>st_size = buffer_len b, st_num_trajectories = num_trajectories b,
             st_reward_sum = reward_sum, st_reward_mean = reward_sum / real (buffer_len b),
             st_supervised_target_count = length weights,
             st_supervised_weight_mean =
               (if weights \<noteq> [] then sum_list weights / real (length weights) else 0)\<rparr>))"

section \<open>One update\<close>

type_synonym path = "string \<times> string"

definition ROLLOUT_BUFFER_PATH :: "string \<Rightarrow> path" where
  "ROLLOUT_BUFFER_PATH checkpoint_dir = (checkpoint_dir, ''online_rollout_buffer.json'')"

text \<open>\<open>Path.stem\<close>: the name up to its last point, unless that is its first or last character.\<close>

definition path_stem :: "string \<Rightarrow> string" where
  "path_stem name =
     (let k = length (takeWhile (\<lambda>c. c \<noteq> CHR ''.'') (rev name)); i = length name - k - 1
      in if CHR ''.'' \<in> set name \<and> 0 < i \<and> k \<noteq> 0 then take i name else name)"

definition online_buffer_path :: "(dict \<Rightarrow> string) \<Rightarrow> string \<Rightarrow> path \<Rightarrow> dict \<Rightarrow> path" where
  "online_buffer_path dumps checkpoint_dir model_path expected =
     (if expected = [] then ROLLOUT_BUFFER_PATH checkpoint_dir
      else (fst model_path,
            path_stem (snd model_path) @ ''.online_'' @ take 12 (hexdigest (dumps expected)) @ ''.json''))"

definition ECHO_INTS :: "string list" where
  "ECHO_INTS = [''feedback_aggregate_count'', ''feedback_first_epoch'', ''feedback_last_epoch'',
     ''feedback_aggregate_window'', ''feedback_max_matches'', ''rewarded_epoch_count'', ''total_tx'',
     ''total_inner'', ''total_relay1'', ''total_relay2'']"

definition ECHO_FLOATS :: "string list" where
  "ECHO_FLOATS = [''feedback_weight_sum'', ''cross_rate'', ''effective_tx'', ''cross_tx'',
     ''normalized_load_variance'', ''running_avg_cross_rate'', ''running_avg_reward'', ''running_avg_norm_var'']"

definition echo_float :: "dict \<Rightarrow> string \<Rightarrow> real" where
  "echo_float data key = safe_float (dict_get data key (VFloat (Fin 0))) 0"

record 'l update_result =
  ur_ok :: bool
  ur_updated :: bool
  ur_time_unix_nano :: int
  ur_batch_id :: int
  ur_feedback_epoch :: int
  ur_shards :: int
  ur_iot_feature_dim :: int
  ur_state_dim :: int
  ur_rollout_buffer_path :: path
  ur_new_actions :: nat
  ur_meta :: update_meta
  ur_same_as_related_ratio :: real
  ur_pending_meta :: pending_status
  ur_old_pending_size :: nat
  ur_pending :: stats
  ur_flush_update :: bool
  ur_echo_ints :: "(string \<times> int) list"
  ur_echo_floats :: "(string \<times> real) list"
  ur_supervised_target_ratio :: real
  ur_loss_info :: "'l option"
  ur_model_source :: "model_source option"
  ur_online_update_count :: "int option"
  ur_message :: string

datatype 'l log_entry = Finished "'l update_result" | Failed exn

record ('w, 'l) disk =
  dk_model :: "'w model_file"
  dk_buffers :: "path \<rightharpoonup> pyval result"
  dk_log :: "'l log_entry list"

text \<open>
  The checks before anything is read or written: version 3 is refused, in the request and in
  the model file, and a request that names an expected configuration gets the agent of a
  compatible checkpoint.
\<close>

type_synonym 'w prepared = "'w agent \<times> 'w payload option \<times> model_source"

definition prepare_update ::
  "('w, 'l) torch_lib \<Rightarrow> dict \<Rightarrow> int \<Rightarrow> int \<Rightarrow> 'w model_file \<Rightarrow> (dict \<times> 'w prepared option) result" where
  "prepare_update lib data shards iot_feature_dim model =
     bind_result (require_dict (dict_get data ''expected_checkpoint'' (VDict []))) (\<lambda>expected.
       if py_eq (dict_get expected ''mechanism_version''
            (dict_get data ''mechanism_version'' (VStr ''legacy''))) (VStr ''v3'')
       then raise ValueError
       else
         bind_result (case model of None \<Rightarrow> return False | Some file \<Rightarrow> bind_result file is_v3) (\<lambda>v3.
           if v3 then raise ValueError
           else if expected = [] then return (expected, None)
           else
             bind_result (build_agent lib shards model iot_feature_dim) (\<lambda>prepared.
               case (model, prepared) of
                 (None, _) \<Rightarrow> return (expected, Some prepared)
               | (Some _, (_, p, source)) \<Rightarrow>
                   if source \<noteq> LoadedModel then raise ValueError
                   else
                     bind_result (case p of None \<Rightarrow> return [] | Some p \<Rightarrow> payload_extra p) (\<lambda>extra.
                       if checkpoint_config_mismatches (map_of extra) expected \<noteq> [] then raise ValueError
                       else return (expected, Some prepared)))))"

definition old_extra_of :: "'w payload option \<Rightarrow> dict" where
  "old_extra_of p =
     (case p of None \<Rightarrow> []
      | Some p \<Rightarrow> (case as_dict (get_or (pl_extra p) (VDict [])) of None \<Rightarrow> [] | Some d \<Rightarrow> d))"

definition saved_extra :: "dict \<Rightarrow> dict \<Rightarrow> 'l update_result \<Rightarrow> int \<Rightarrow> nat \<Rightarrow> dict" where
  "saved_extra old_extra expected r new_update_count pending_size =
     (let flt = (\<lambda>key. VFloat (Fin (get_or (map_of (ur_echo_floats r) key) 0))); meta = ur_meta r
      in dict_merge (dict_merge old_extra expected)
        [(''online_update_count'', VInt new_update_count), (''last_batch_id'', VInt (ur_batch_id r)),
         (''last_feedback_epoch'', VInt (ur_feedback_epoch r)),
         (''last_batch_reward'', VFloat (Fin (me_batch_reward meta))),
         (''last_cross_rate'', flt ''cross_rate''),
         (''last_normalized_load_variance'', flt ''normalized_load_variance''),
         (''last_effective_tx'', flt ''effective_tx''), (''last_cross_tx'', flt ''cross_tx''),
         (''last_running_avg_cross_rate'', flt ''running_avg_cross_rate''),
         (''last_action_confidence_mean'', VFloat (Fin (me_action_confidence_mean meta))),
         (''last_action_entropy_mean'', VFloat (Fin (me_action_entropy_mean meta))),
         (''last_local_reward_mean'', VFloat (Fin (me_local_reward_mean meta))),
         (''last_supervised_target_count'', VInt (int (st_supervised_target_count (ur_pending r)))),
         (''last_supervised_weight_mean'', VFloat (Fin (st_supervised_weight_mean (ur_pending r)))),
         (''last_new_actions'', VInt (int (ur_new_actions r))),
         (''last_pending_size_used_for_update'', VInt (int pending_size)),
         (''last_pending_num_trajectories'', VInt (int (st_num_trajectories (ur_pending r)))),
         (''last_update_time_unix_nano'', VInt (ur_time_unix_nano r)),
         (''iot_feature_dim'', VInt (ur_iot_feature_dim r)), (''state_dim'', VInt (me_state_dim meta))])"

text \<open>The report before its outcome is filled in.\<close>

definition new_result ::
  "int \<Rightarrow> dict \<Rightarrow> int \<Rightarrow> int \<Rightarrow> path \<Rightarrow> rollout_buffer \<Rightarrow> update_meta \<Rightarrow> pending_status \<Rightarrow> nat \<Rightarrow> stats \<Rightarrow>
   'l update_result" where
  "new_result now data shards iot_feature_dim path new_buffer meta pending_meta old_size pending =
     \<lparr>ur_ok = False, ur_updated = False, ur_time_unix_nano = now,
      ur_batch_id = safe_int (dict_get data ''batch_id'' (VInt 0)) 0,
      ur_feedback_epoch = safe_int (dict_get data ''feedback_epoch'' (VInt (-1))) (-1),
      ur_shards = shards, ur_iot_feature_dim = iot_feature_dim, ur_state_dim = me_state_dim meta,
      ur_rollout_buffer_path = path, ur_new_actions = buffer_len new_buffer, ur_meta = meta,
      ur_same_as_related_ratio =
        (if me_related_known_count meta > 0
         then real (me_same_as_related_count meta) / real (me_related_known_count meta) else 0),
      ur_pending_meta = pending_meta, ur_old_pending_size = old_size, ur_pending = pending,
      ur_flush_update = truthy (dict_get data ''flush_update'' (VBool False)),
      ur_echo_ints = map (\<lambda>key. (key, safe_int (dict_get data key (VInt 0)) 0)) ECHO_INTS,
      ur_echo_floats = map (\<lambda>key. (key, echo_float data key)) ECHO_FLOATS,
      ur_supervised_target_ratio =
        (if st_size pending \<noteq> 0
         then real (st_supervised_target_count pending) / real (st_size pending) else 0),
      ur_loss_info = None, ur_model_source = None, ur_online_update_count = None, ur_message = []\<rparr>"

section \<open>Writing\<close>

text \<open>
  The circumstances of a call: its time, and the failures of the operating system. A failing
  write raises, and leaves the file with some content. Each of the writes occurs at most once in a
  call: creating the directories, \<open>agent.save\<close>, \<open>save_pending_buffer\<close> (a write or an unlink),
  \<open>append_train_log\<close>, and the entry that the handler of \<open>main\<close> appends.
\<close>

record 'w update_env =
  ue_now :: int
  ue_mkdir_fault :: "exn option"
  ue_model_fault :: "(exn \<times> 'w model_file) option"
  ue_pending_fault :: "(exn \<times> pyval result option) option"
  ue_log_fault :: "exn option"
  ue_failure_log_fault :: bool

definition then_do :: "'a result \<times> 's \<Rightarrow> ('a \<Rightarrow> 's \<Rightarrow> 'b result \<times> 's) \<Rightarrow> 'b result \<times> 's" where
  "then_do rs f = (case rs of (Inl e, s) \<Rightarrow> (raise e, s) | (Inr a, s) \<Rightarrow> f a s)"

definition write_model :: "'w update_env \<Rightarrow> 'w payload \<Rightarrow> ('w, 'l) disk \<Rightarrow> unit result \<times> ('w, 'l) disk" where
  "write_model env p dk =
     (case ue_model_fault env of
        None \<Rightarrow> (return (), dk\<lparr>dk_model := Some (return p)\<rparr>)
      | Some (e, left) \<Rightarrow> (raise e, dk\<lparr>dk_model := left\<rparr>))"

definition write_pending ::
  "'w update_env \<Rightarrow> path \<Rightarrow> rollout_buffer \<Rightarrow> int \<Rightarrow> int \<Rightarrow> ('w, 'l) disk \<Rightarrow> unit result \<times> ('w, 'l) disk" where
  "write_pending env path b shards iot_feature_dim dk =
     (case ue_pending_fault env of
        None \<Rightarrow> (return (), dk\<lparr>dk_buffers := (dk_buffers dk)(path := save_pending_buffer (ue_now env) b shards iot_feature_dim)\<rparr>)
      | Some (e, left) \<Rightarrow> (raise e, dk\<lparr>dk_buffers := (dk_buffers dk)(path := left)\<rparr>))"

definition append_train_log ::
  "'w update_env \<Rightarrow> 'l update_result \<Rightarrow> ('w, 'l) disk \<Rightarrow> 'l update_result result \<times> ('w, 'l) disk" where
  "append_train_log env res dk =
     (case ue_log_fault env of
        None \<Rightarrow> (return res, dk\<lparr>dk_log := dk_log dk @ [Finished res]\<rparr>)
      | Some e \<Rightarrow> (raise e, dk))"

section \<open>A call\<close>

text \<open>What a call reads before it writes: the request, the prepared agent, the new transitions.\<close>

record 'w update_input =
  ui_data :: dict
  ui_shards :: int
  ui_iot_feature_dim :: int
  ui_flush_update :: bool
  ui_expected :: dict
  ui_prepared :: "'w prepared option"
  ui_new_buffer :: rollout_buffer
  ui_meta :: update_meta

definition read_update :: "('w, 'l) torch_lib \<Rightarrow> pyval result \<Rightarrow> 'w model_file \<Rightarrow> 'w update_input result" where
  "read_update lib input model =
     bind_result (load_update_input input) (\<lambda>data.
       let shards = safe_int (dict_get data ''shards'' (VInt 4)) 4;
           iot_feature_dim = update_iot_feature_dim data
       in
       bind_result (prepare_update lib data shards iot_feature_dim model) (\<lambda>(expected, prepared).
       bind_result (build_buffer_from_update data) (\<lambda>(new_buffer, meta).
         return \<lparr>ui_data = data, ui_shards = shards, ui_iot_feature_dim = iot_feature_dim,
           ui_flush_update = truthy (dict_get data ''flush_update'' (VBool False)), ui_expected = expected,
           ui_prepared = prepared, ui_new_buffer = new_buffer, ui_meta = meta\<rparr>)))"

text \<open>The branches that keep the transitions for a later call.\<close>

definition keep_pending ::
  "'w update_env \<Rightarrow> 'w update_input \<Rightarrow> path \<Rightarrow> rollout_buffer \<Rightarrow> 'l update_result \<Rightarrow> string \<Rightarrow> ('w, 'l) disk \<Rightarrow>
   'l update_result result \<times> ('w, 'l) disk" where
  "keep_pending env u path pending res message dk =
     then_do (write_pending env path pending (ui_shards u) (ui_iot_feature_dim u) dk) (\<lambda>_ dk.
       append_train_log env (res\<lparr>ur_ok := True, ur_message := message\<rparr>) dk)"

text \<open>The branch that trains: the model is saved first, then the rollout file is removed.\<close>

definition train_pending ::
  "('w, 'l) torch_lib \<Rightarrow> 'w update_env \<Rightarrow> 'w update_input \<Rightarrow> path \<Rightarrow> rollout_buffer \<Rightarrow> 'l update_result \<Rightarrow> ('w, 'l) disk \<Rightarrow>
   'l update_result result \<times> ('w, 'l) disk" where
  "train_pending lib env u path pending res dk =
     (case bind_result (case ui_prepared u of Some p \<Rightarrow> return p
                        | None \<Rightarrow> build_agent lib (ui_shards u) (dk_model dk) (ui_iot_feature_dim u))
             (\<lambda>(agent, old_payload, model_source).
           bind_result (tl_update lib agent pending) (\<lambda>(loss_info, agent).
             return (agent, old_payload, model_source, loss_info))) of
        Inl e \<Rightarrow> (raise e, dk)
      | Inr (agent, old_payload, model_source, loss_info) \<Rightarrow>
          (let old_extra = old_extra_of old_payload;
               count = safe_int (dict_get old_extra ''online_update_count'' (VInt 0)) 0 + 1
           in then_do (write_model env
                  (agent_save agent (saved_extra old_extra (ui_expected u) res count (buffer_len pending))) dk) (\<lambda>_ dk.
              then_do (write_pending env path empty_buffer (ui_shards u) (ui_iot_feature_dim u) dk) (\<lambda>_ dk.
                append_train_log env
                  (res\<lparr>ur_ok := True, ur_updated := True, ur_loss_info := Some loss_info,
                    ur_model_source := Some model_source, ur_online_update_count := Some count,
                    ur_message := (if ui_flush_update u \<and> buffer_len pending < BATCH_SIZE
                                   then ''updated_with_flush_rollout'' else ''updated_with_trajectory_rollout'')\<rparr>) dk))))"

definition run_update ::
  "('w, 'l) torch_lib \<Rightarrow> (dict \<Rightarrow> string) \<Rightarrow> string \<Rightarrow> path \<Rightarrow> 'w update_env \<Rightarrow> pyval result \<Rightarrow> ('w, 'l) disk \<Rightarrow>
   'l update_result result \<times> ('w, 'l) disk" where
  "run_update lib dumps checkpoint_dir model_path env input dk =
     (case bind_result (read_update lib input (dk_model dk)) (\<lambda>u.
             case ue_mkdir_fault env of Some e \<Rightarrow> raise e | None \<Rightarrow> return u) of
        Inl e \<Rightarrow> (raise e, dk)
      | Inr u \<Rightarrow>
          (let path = online_buffer_path dumps checkpoint_dir model_path (ui_expected u);
               (old_buffer, pending_meta) = load_pending_buffer (dk_buffers dk path) (ui_shards u) (ui_iot_feature_dim u);
               pending = append_buffer old_buffer (ui_new_buffer u);
               res = new_result (ue_now env) (ui_data u) (ui_shards u) (ui_iot_feature_dim u) path (ui_new_buffer u)
                 (ui_meta u) pending_meta (buffer_len old_buffer) (rollout_stats pending)
           in if buffer_len (ui_new_buffer u) = 0
              then keep_pending env u path pending res ''skip_no_valid_new_actions'' dk
              else if buffer_len pending < (if ui_flush_update u then MIN_FLUSH_BATCH_SIZE else BATCH_SIZE)
              then keep_pending env u path pending res
                (if ui_flush_update u then ''flush_waiting_min_samples'' else ''buffering_not_enough_samples'') dk
              else train_pending lib env u path pending res dk))"

text \<open>
  The command line entry: an exception becomes a failed entry of the log, unless that cannot be
  written either; the files are as the call left them.
\<close>

definition update_main ::
  "('w, 'l) torch_lib \<Rightarrow> (dict \<Rightarrow> string) \<Rightarrow> string \<Rightarrow> path \<Rightarrow> 'w update_env \<Rightarrow> pyval result \<Rightarrow> ('w, 'l) disk \<Rightarrow>
   'l log_entry \<times> ('w, 'l) disk" where
  "update_main lib dumps checkpoint_dir model_path env input dk =
     (case run_update lib dumps checkpoint_dir model_path env input dk of
        (Inr res, dk) \<Rightarrow> (Finished res, dk)
      | (Inl e, dk) \<Rightarrow>
          (Failed e, if ue_failure_log_fault env then dk else dk\<lparr>dk_log := dk_log dk @ [Failed e]\<rparr>))"

end
