(* ===== verification/OnlineRows.thy ===== *)
theory OnlineRows
  imports OnlineUpdate
begin

text \<open>
  The rollout buffer as a queue of transitions: \<open>of_rows\<close> is the buffer that holds a list of
  transitions, and every operation of the online update on buffers is a list operation on them.
  A buffer that is saved and loaded again is unchanged.
\<close>

section \<open>Buffers and lists of transitions\<close>

definition add_rows :: "transition list \<Rightarrow> rollout_buffer \<Rightarrow> rollout_buffer" where
  "add_rows ts b = fold (\<lambda>t b. buffer_add b t) ts b"

definition of_rows :: "transition list \<Rightarrow> rollout_buffer" where
  "of_rows ts = add_rows ts empty_buffer"

definition rows :: "rollout_buffer \<Rightarrow> transition list" where
  "rows b = map (transition_at b) [0..<buffer_len b]"

text \<open>A transition as the online update makes it, for a number of shards and a state size.\<close>

definition online_row :: "int \<Rightarrow> int \<Rightarrow> transition \<Rightarrow> bool" where
  "online_row shards sdim t \<longleftrightarrow>
     int (length (tr_state t)) = sdim \<and> int (tr_action t) < shards \<and>
     (case tr_next_state t of None \<Rightarrow> False | Some s \<Rightarrow> int (length s) = sdim) \<and>
     tr_action_mask t \<noteq> None \<and> tr_discount t = None \<and> tr_trace_discount t = None"

lemma add_rows_simps [simp]:
  "add_rows [] b = b" "add_rows (t # ts) b = add_rows ts (buffer_add b t)"
  by (simp_all add: add_rows_def)

lemma add_rows_append: "add_rows (ts @ us) b = add_rows us (add_rows ts b)"
  by (simp add: add_rows_def)

lemma add_rows_columns:
  "rb_states (add_rows ts b) = rb_states b @ map tr_state ts"
  "rb_next_states (add_rows ts b) =
     rb_next_states b @ map (\<lambda>t. case tr_next_state t of None \<Rightarrow> tr_state t | Some s \<Rightarrow> s) ts"
  "rb_actions (add_rows ts b) = rb_actions b @ map tr_action ts"
  "rb_log_probs (add_rows ts b) = rb_log_probs b @ map tr_log_prob ts"
  "rb_rewards (add_rows ts b) = rb_rewards b @ map tr_reward ts"
  "rb_dones (add_rows ts b) = rb_dones b @ map tr_done ts"
  "rb_values (add_rows ts b) = rb_values b @ map tr_value ts"
  "rb_target_actions (add_rows ts b) = rb_target_actions b @ map tr_target_action ts"
  "rb_target_weights (add_rows ts b) = rb_target_weights b @ map tr_target_weight ts"
  "rb_action_masks (add_rows ts b) =
     rb_action_masks b @ map (\<lambda>t. case tr_action_mask t of None \<Rightarrow> [] | Some m \<Rightarrow> m) ts"
  by (induction ts arbitrary: b) (simp_all add: buffer_add_def)

lemma of_rows_columns:
  "rb_states (of_rows ts) = map tr_state ts"
  "rb_next_states (of_rows ts) = map (\<lambda>t. case tr_next_state t of None \<Rightarrow> tr_state t | Some s \<Rightarrow> s) ts"
  "rb_actions (of_rows ts) = map tr_action ts"
  "rb_log_probs (of_rows ts) = map tr_log_prob ts"
  "rb_rewards (of_rows ts) = map tr_reward ts"
  "rb_dones (of_rows ts) = map tr_done ts"
  "rb_values (of_rows ts) = map tr_value ts"
  "rb_target_actions (of_rows ts) = map tr_target_action ts"
  "rb_target_weights (of_rows ts) = map tr_target_weight ts"
  "rb_action_masks (of_rows ts) = map (\<lambda>t. case tr_action_mask t of None \<Rightarrow> [] | Some m \<Rightarrow> m) ts"
  by (simp_all add: of_rows_def add_rows_columns empty_buffer_def)

lemma buffer_len_of_rows [simp]: "buffer_len (of_rows ts) = length ts"
  by (simp add: buffer_len_def of_rows_columns)

lemma of_rows_Nil [simp]: "of_rows [] = empty_buffer"
  by (simp add: of_rows_def)

lemma buffer_add_of_rows: "buffer_add (of_rows ts) t = of_rows (ts @ [t])"
  by (simp add: of_rows_def add_rows_append)

lemma transition_at_of_rows:
  assumes "i < length ts" and "online_row shards sdim (ts ! i)"
  shows "transition_at (of_rows ts) i = ts ! i"
  using assms
  by (cases "ts ! i") (auto simp: transition_at_def of_rows_columns online_row_def split: option.splits)

lemma rows_of_rows [simp]:
  assumes "list_all (online_row shards sdim) ts"
  shows "rows (of_rows ts) = ts"
  using assms transition_at_of_rows [of _ ts shards sdim]
  by (intro nth_equalityI) (auto simp: rows_def list_all_length)

lemma append_buffer_rows:
  assumes "list_all (online_row shards sdim) us"
  shows "append_buffer (of_rows ts) (of_rows us) = of_rows (ts @ us)"
proof -
  have "append_buffer (of_rows ts) (of_rows us) = add_rows (rows (of_rows us)) (of_rows ts)"
    by (simp add: append_buffer_def rows_def add_rows_def fold_map comp_def)
  also have "\<dots> = add_rows us (of_rows ts)" using assms by simp
  finally show ?thesis by (simp add: of_rows_def add_rows_append)
qed

section \<open>Saving and loading\<close>

lemma safe_float_opt_Fin [simp]: "safe_float_opt (VFloat (Fin x)) = Some x"
  by (simp add: safe_float_opt_def)

lemma safe_float_Fin [simp]: "safe_float (VFloat (Fin x)) d = x"
  by (simp add: safe_float_def get_or_def)

lemma safe_int_VInt [simp]: "safe_int (VInt i) d = i"
  by (simp add: safe_int_def)

lemma as_list_float_list [simp]: "as_list (float_list xs) = Some (map (\<lambda>x. VFloat (Fin x)) xs)"
  by (simp add: float_list_def)

lemma clean_floats [simp]: "clean (map (\<lambda>x. VFloat (Fin x)) xs) = xs"
  by (simp add: clean_def comp_def)

lemma traverse_VInt [simp]: "traverse int_of (map VInt is) = Inr is"
  by (induction "is") simp_all

lemma record_step_saved:
  assumes "i < length ts" and "online_row shards sdim (ts ! i)"
  shows "record_step shards sdim (record_at (of_rows ts) i) b = Inr (buffer_add b (ts ! i))"
  using assms
  by (cases "ts ! i")
     (auto simp: record_step_def usable_def record_at_def dict_get_def list_of_len_def of_rows_columns
        online_row_def float_list_def Let_def split: option.splits)

lemma records_roundtrip:
  assumes "list_all (online_row shards (update_state_dim shards d)) ts"
  shows "records_to_buffer (buffer_to_records (of_rows ts)) shards d = Inr (of_rows ts)"
proof -
  let ?f = "\<lambda>i. record_step shards (update_state_dim shards d) (record_at (of_rows ts) i)"
  have "fold_result ?f [0..<length ts] empty_buffer =
      Inr (fold (\<lambda>i b. buffer_add b (ts ! i)) [0..<length ts] empty_buffer)"
    using assms by (intro fold_result_total record_step_saved) (auto simp: list_all_length)
  also have "fold (\<lambda>i b. buffer_add b (ts ! i)) [0..<length ts] empty_buffer =
      add_rows (map (\<lambda>i. ts ! i) [0..<length ts]) empty_buffer"
    by (simp only: add_rows_def fold_map comp_def)
  also have "\<dots> = of_rows ts" by (simp add: map_nth of_rows_def)
  finally show ?thesis
    by (simp add: records_to_buffer_def buffer_to_records_def fold_result_map)
qed

lemma pending_roundtrip:
  assumes "list_all (online_row shards (update_state_dim shards d)) ts"
  shows "fst (load_pending_buffer (save_pending_buffer now (of_rows ts) shards d) shards d) = of_rows ts"
  using records_roundtrip [OF assms]
  by (simp add: load_pending_buffer_def save_pending_buffer_def dict_get_def)

section \<open>Loaded and new transitions\<close>

lemma usable_action:
  assumes "usable shards sdim item = Some (d, state, action, lp, v)"
  shows "int action < shards" and "int (length state) = sdim"
  using assms by (auto simp: usable_def list_of_len_def Let_def bind_eq_Some_conv split: if_splits option.splits)

lemma length_clean [simp]: "length (clean xs) = length xs"
  by (simp add: clean_def)

text \<open>A buffer of online transitions stays one when a record is read.\<close>

definition holds_rows :: "int \<Rightarrow> int \<Rightarrow> rollout_buffer \<Rightarrow> bool" where
  "holds_rows shards sdim b \<longleftrightarrow> (\<exists>ts. b = of_rows ts \<and> list_all (online_row shards sdim) ts)"

lemma holds_rows_rows: "holds_rows shards sdim b \<longleftrightarrow> b = of_rows (rows b) \<and> list_all (online_row shards sdim) (rows b)"
  by (auto simp: holds_rows_def)

lemma holds_rows_empty [simp]: "holds_rows shards sdim empty_buffer"
  unfolding holds_rows_def by (rule exI [of _ "[]"]) simp

lemma holds_rows_add:
  assumes "holds_rows shards sdim b" and "online_row shards sdim t"
  shows "holds_rows shards sdim (buffer_add b t)"
proof -
  obtain ts where "b = of_rows ts" "list_all (online_row shards sdim) ts"
    using assms(1) by (auto simp: holds_rows_def)
  then have "buffer_add b t = of_rows (ts @ [t]) \<and> list_all (online_row shards sdim) (ts @ [t])"
    using assms(2) by (simp add: buffer_add_of_rows)
  then show ?thesis unfolding holds_rows_def by (rule exI)
qed

lemma record_step_rows:
  assumes "holds_rows shards sdim b" and "record_step shards sdim item b = Inr b'"
  shows "holds_rows shards sdim b'"
proof (cases "usable shards sdim item")
  case None
  then show ?thesis using assms by (simp add: record_step_def)
next
  case (Some u)
  obtain d state action lp v where u: "u = (d, state, action, lp, v)" by (cases u)
  have *: "int action < shards" "int (length state) = sdim" using usable_action Some u by auto
  show ?thesis
    using assms * Some u
    by (auto simp: record_step_def Let_def list_of_len_def online_row_def result_simps
        split: option.splits if_splits intro!: holds_rows_add)
qed

lemma records_to_buffer_rows:
  assumes "records_to_buffer rs shards d = Inr b"
  shows "holds_rows shards (update_state_dim shards d) b"
  using assms unfolding records_to_buffer_def
  by (rule fold_result_inv [where P = "\<lambda>_. holds_rows shards (update_state_dim shards d)"])
     (auto intro: record_step_rows)

lemma load_pending_rows:
  "holds_rows shards (update_state_dim shards d) (fst (load_pending_buffer file shards d))"
  by (auto simp: load_pending_buffer_def Let_def records_to_buffer_rows split: option.splits sum.splits)

end
