(* ===== verification/OnlineTheorems.thy ===== *)
theory OnlineTheorems
  imports OnlineRows
begin

text \<open>
  The online update: what the buffer of one feedback file holds, that every accepted transition
  is trained on exactly once and in order whatever the number of calls, which models an update
  may overwrite, and that the saved checkpoint still carries the expected configuration.
\<close>

section \<open>The buffer of one feedback file\<close>

lemma clip_value_bounds: "0 < l \<Longrightarrow> \<bar>clip_value v l\<bar> \<le> l"
  by (auto simp: clip_value_def)

definition acc_ok :: "int \<Rightarrow> int \<Rightarrow> nat \<Rightarrow> build_acc \<Rightarrow> bool" where
  "acc_ok shards sdim k acc \<longleftrightarrow>
     holds_rows shards sdim (ba_buffer acc) \<and> buffer_len (ba_buffer acc) + ba_skipped acc = k \<and>
     length (ba_action_hist acc) = nat shards \<and> sum_list (ba_action_hist acc) = buffer_len (ba_buffer acc) \<and>
     list_all (\<lambda>r. \<bar>r\<bar> \<le> REWARD_CLIP) (rb_rewards (ba_buffer acc)) \<and>
     ba_same_as_related_count acc \<le> ba_related_known_count acc \<and>
     ba_supervised_target_count acc \<le> ba_related_known_count acc \<and>
     ba_related_known_count acc \<le> buffer_len (ba_buffer acc)"

lemma buffer_len_snoc [simp]: "buffer_len (buffer_add b t) = buffer_len b + 1"
  by (simp add: buffer_len_def buffer_add_def)

lemma rewards_add [simp]: "rb_rewards (buffer_add b t) = rb_rewards b @ [tr_reward t]"
  by (simp add: buffer_add_def)

lemma length_next_state_of:
  "int (length cs) = sdim \<Longrightarrow> int (length (next_state_of sdim ns i d cs)) = sdim"
  by (auto simp: next_state_of_def Let_def list_of_len_def split: option.splits if_splits)

lemma supervised_target_known:
  "supervised_target shards d = Some t \<Longrightarrow> truthy (dict_get d ''related_known'' (VBool False))"
  by (auto simp: supervised_target_def Let_def split: if_splits)

lemma build_step_ok:
  assumes "acc_ok shards sdim k acc" and "build_step shards sdim ns ii acc = Inr acc'"
  shows "acc_ok shards sdim (Suc k) acc'"
proof (cases "usable shards sdim (snd ii)")
  case None
  then show ?thesis using assms by (cases ii) (auto simp: build_step_def acc_ok_def)
next
  case (Some u)
  obtain d state action lp v where u: "u = (d, state, action, lp, v)" by (cases u)
  have *: "int action < shards" "int (length state) = sdim" using usable_action Some u by auto
  then have a: "action < nat shards" by linarith
  have clip: "\<bar>clip_value r REWARD_CLIP\<bar> \<le> REWARD_CLIP" for r
    by (rule clip_value_bounds) (simp add: REWARD_CLIP_def)
  show ?thesis
    using assms * a Some u clip
    by (cases ii)
       (auto simp: build_step_def acc_ok_def Let_def online_row_def result_simps length_next_state_of
          dest: supervised_target_known intro!: holds_rows_add)
qed

lemma close_trajectory_rows:
  assumes "holds_rows shards sdim b"
  shows "holds_rows shards sdim (close_trajectory b)"
    and "buffer_len (close_trajectory b) = buffer_len b"
    and "rb_rewards (close_trajectory b) = rb_rewards b"
    and "buffer_len b \<noteq> 0 \<Longrightarrow> True \<in> set (rb_dones (close_trajectory b))"
proof -
  obtain ts where b: "b = of_rows ts" and ts: "list_all (online_row shards sdim) ts"
    using assms by (auto simp: holds_rows_def)
  show "buffer_len (close_trajectory b) = buffer_len b" "rb_rewards (close_trajectory b) = rb_rewards b"
    "buffer_len b \<noteq> 0 \<Longrightarrow> True \<in> set (rb_dones (close_trajectory b))"
    by (auto simp: close_trajectory_def set_last_def buffer_len_def list_ex_iff)
  show "holds_rows shards sdim (close_trajectory b)"
  proof (cases "ts = [] \<or> list_ex (\<lambda>d. d) (rb_dones b)")
    case True
    then show ?thesis using assms b by (auto simp: close_trajectory_def)
  next
    case False
    obtain us t where us: "ts = us @ [t]" using False by (cases ts rule: rev_cases) auto
    let ?t = "t\<lparr>tr_done := True\<rparr>"
    have "close_trajectory b = buffer_add (of_rows us) ?t"
      using False b us
      by (simp add: close_trajectory_def set_last_def of_rows_columns buffer_add_of_rows [symmetric])
         (simp add: buffer_add_def of_rows_columns split: option.split)
    moreover have "holds_rows shards sdim (of_rows us)" "online_row shards sdim ?t"
      using ts us by (auto simp: holds_rows_def online_row_def)
    ultimately show ?thesis by (simp add: holds_rows_add)
  qed
qed

lemma acc_ok_new: "acc_ok shards sdim 0 (new_acc shards)"
proof -
  have "buffer_len empty_buffer = 0" "rb_rewards empty_buffer = []"
    by (simp_all add: buffer_len_def empty_buffer_def)
  then show ?thesis by (simp add: acc_ok_def new_acc_def sum_list_replicate)
qed

lemma build_buffer_ok:
  assumes "build_buffer_from_update data = Inr (b, meta)"
  obtains actions where "dict_get data ''actions'' (VList []) = VList actions"
    and "holds_rows (me_shards meta) (me_state_dim meta) b"
    and "buffer_len b + me_skipped meta = length actions"
    and "sum_list (me_action_hist meta) = buffer_len b"
    and "\<forall>r\<in>set (rb_rewards b). \<bar>r\<bar> \<le> REWARD_CLIP"
    and "me_same_as_related_count meta \<le> me_related_known_count meta"
    and "me_supervised_target_count meta \<le> me_related_known_count meta"
    and "me_related_known_count meta \<le> buffer_len b"
    and "b = empty_buffer \<or> True \<in> set (rb_dones b)"
    and "me_shards meta = safe_int (dict_get data ''shards'' (VInt 4)) 4"
    and "me_state_dim meta = update_state_dim (me_shards meta) (update_iot_feature_dim data)"
proof -
  define shards where "shards = safe_int (dict_get data ''shards'' (VInt 4)) 4"
  define sdim where "sdim = update_state_dim shards (update_iot_feature_dim data)"
  obtain actions where acts: "dict_get data ''actions'' (VList []) = VList actions"
    using assms by (cases "dict_get data ''actions'' (VList [])") (auto simp: build_buffer_from_update_def Let_def)
  obtain ns acc where
    acc: "fold_result (build_step shards sdim ns) (enumerate 0 actions) (new_acc shards) = Inr acc"
    and b: "b = close_trajectory (ba_buffer acc)"
    and meta: "me_shards meta = shards" "me_state_dim meta = sdim" "me_skipped meta = ba_skipped acc"
      "me_action_hist meta = ba_action_hist acc" "me_related_known_count meta = ba_related_known_count acc"
      "me_same_as_related_count meta = ba_same_as_related_count acc"
      "me_supervised_target_count meta = ba_supervised_target_count acc"
    using assms acts by (auto simp: build_buffer_from_update_def Let_def result_simps shards_def sdim_def)
  have "acc_ok shards sdim (length (enumerate 0 actions)) acc"
    using acc
    by (rule fold_result_inv [where P = "\<lambda>ys. acc_ok shards sdim (length ys)"])
       (auto simp: acc_ok_new intro: build_step_ok)
  then have ok: "acc_ok shards sdim (length actions) acc" by simp
  then have rows: "holds_rows shards sdim (ba_buffer acc)" by (simp add: acc_ok_def)
  note cl = close_trajectory_rows [OF rows, folded b]
  have "b = empty_buffer" if "buffer_len b = 0"
    using cl(1) that unfolding holds_rows_def by auto
  then show thesis
    using ok meta cl acts
    by (intro that) (auto simp: acc_ok_def list_all_iff simp flip: shards_def sdim_def)
qed

section \<open>One update\<close>

lemma prepare_update_built:
  assumes "prepare_update lib data shards d model = Inr (expected, Some prepared)"
  shows "build_agent lib shards model d = Inr prepared"
  using assms
  by (auto simp: prepare_update_def result_simps split: if_splits option.splits prod.splits)

lemma prepare_update_expected:
  assumes "prepare_update lib data shards d model = Inr (expected, prepared)"
  shows "dict_get data ''expected_checkpoint'' (VDict []) = VDict expected"
  using assms
  by (cases "dict_get data ''expected_checkpoint'' (VDict [])")
     (auto simp: prepare_update_def require_dict_def result_simps split: if_splits option.splits prod.splits)

text \<open>What a call that returns has done: it kept the transitions, or it trained on all of them.\<close>

definition kept :: "('w, 'l) disk \<Rightarrow> path \<Rightarrow> int \<Rightarrow> int \<Rightarrow> rollout_buffer \<Rightarrow> int \<Rightarrow> ('w, 'l) disk \<Rightarrow> bool" where
  "kept dk path shards d pending now dk' \<longleftrightarrow> dk_model dk' = dk_model dk \<and>
     dk_buffers dk' = (dk_buffers dk)(path := save_pending_buffer now pending shards d)"

definition trained_on ::
  "('w, 'l) torch_lib \<Rightarrow> int \<Rightarrow> int \<Rightarrow> dict \<Rightarrow> rollout_buffer \<Rightarrow> 'w model_file \<Rightarrow> 'w model_file \<Rightarrow> bool" where
  "trained_on lib shards d expected buffer m m' \<longleftrightarrow>
     (\<exists>agent p source loss agent' (r :: 'l update_result) count n.
        build_agent lib shards m d = Inr (agent, p, source) \<and> tl_update lib agent buffer = Inr (loss, agent') \<and>
        ur_iot_feature_dim r = d \<and>
        m' = Some (Inr (agent_save agent' (saved_extra (old_extra_of p) expected r count n))))"

lemma trained_onI:
  "build_agent lib shards m d = Inr (agent, p, source) \<Longrightarrow> tl_update lib agent buffer = Inr (loss, agent') \<Longrightarrow>
   ur_iot_feature_dim (r :: 'l update_result) = d \<Longrightarrow>
   trained_on (lib :: ('w, 'l) torch_lib) shards d expected buffer m
     (Some (Inr (agent_save agent' (saved_extra (old_extra_of p) expected r count n))))"
  unfolding trained_on_def by blast

lemma then_do_Inr: "then_do rs f = (Inr b, s') \<longleftrightarrow> (\<exists>a s. rs = (Inr a, s) \<and> f a s = (Inr b, s'))"
  by (auto simp: then_do_def split: prod.splits sum.splits)

lemma write_model_Inr: "write_model env p dk = (Inr x, dk') \<longleftrightarrow> ue_model_fault env = None \<and> dk' = dk\<lparr>dk_model := Some (Inr p)\<rparr>"
  by (auto simp: write_model_def split: option.splits prod.splits)

lemma write_pending_Inr:
  "write_pending env path b shards d dk = (Inr x, dk') \<longleftrightarrow> ue_pending_fault env = None \<and>
     dk' = dk\<lparr>dk_buffers := (dk_buffers dk)(path := save_pending_buffer (ue_now env) b shards d)\<rparr>"
  by (auto simp: write_pending_def split: option.splits prod.splits)

lemma append_train_log_Inr:
  "append_train_log env res dk = (Inr r, dk') \<longleftrightarrow> ue_log_fault env = None \<and> r = res \<and>
     dk' = dk\<lparr>dk_log := dk_log dk @ [Finished res]\<rparr>"
  by (auto simp: append_train_log_def split: option.splits)

lemmas writes_Inr = then_do_Inr write_model_Inr write_pending_Inr append_train_log_Inr

lemma read_update_fields:
  assumes "read_update lib input model = Inr u"
  shows "input = Inr (VDict (ui_data u)) \<and> ui_shards u = safe_int (dict_get (ui_data u) ''shards'' (VInt 4)) 4 \<and>
    ui_iot_feature_dim u = update_iot_feature_dim (ui_data u) \<and>
    prepare_update lib (ui_data u) (ui_shards u) (ui_iot_feature_dim u) model = Inr (ui_expected u, ui_prepared u) \<and>
    build_buffer_from_update (ui_data u) = Inr (ui_new_buffer u, ui_meta u)"
  using assms
  by (auto simp: read_update_def load_update_input_def Let_def result_simps split: option.splits elim!: as_dict.elims)

lemma keep_pending_Inr:
  assumes "keep_pending env u path pending res message dk = (Inr r, dk')" and "\<not> ur_updated res"
  shows "\<not> ur_updated r \<and> kept dk path (ui_shards u) (ui_iot_feature_dim u) pending (ue_now env) dk'"
  using assms by (auto simp: keep_pending_def writes_Inr kept_def)

lemma train_pending_Inr:
  assumes "train_pending lib env u path pending res dk = (Inr r, dk')"
    and built: "\<And>q. ui_prepared u = Some q \<Longrightarrow> build_agent lib (ui_shards u) (dk_model dk) (ui_iot_feature_dim u) = Inr q"
    and "ur_iot_feature_dim res = ui_iot_feature_dim u"
  shows "ur_updated r \<and> ur_iot_feature_dim r = ui_iot_feature_dim u \<and>
    trained_on lib (ui_shards u) (ui_iot_feature_dim u) (ui_expected u) pending (dk_model dk) (dk_model dk') \<and>
    dk_buffers dk' = (dk_buffers dk)(path := None)"
proof -
  obtain agent p source loss agent' where
    b: "build_agent lib (ui_shards u) (dk_model dk) (ui_iot_feature_dim u) = Inr (agent, p, source)"
    and t: "tl_update lib agent pending = Inr (loss, agent')"
    and st: "(case ui_prepared u of Some p \<Rightarrow> return p
        | None \<Rightarrow> build_agent lib (ui_shards u) (dk_model dk) (ui_iot_feature_dim u)) = Inr (agent, p, source)"
    using assms(1) built by (auto simp: train_pending_def result_simps split: sum.splits option.splits)
  have e: "save_pending_buffer n empty_buffer sh d = None" for n sh d
    by (simp add: save_pending_buffer_def buffer_len_def empty_buffer_def)
  show ?thesis
    using assms(1,3) trained_onI [OF b t, of res] by (auto simp: train_pending_def st t writes_Inr Let_def e)
qed

lemma run_update_cases:
  fixes lib :: "('w, 'l) torch_lib"
  assumes "run_update lib dumps dir mp env (Inr (VDict data)) dk = (Inr res, dk')"
  defines "shards \<equiv> safe_int (dict_get data ''shards'' (VInt 4)) 4"
    and "d \<equiv> update_iot_feature_dim data"
  obtains expected prepared new meta path pending where
    "prepare_update lib data shards d (dk_model dk) = Inr (expected, prepared)"
    "build_buffer_from_update data = Inr (new, meta)"
    "path = online_buffer_path dumps dir mp expected"
    "pending = append_buffer (fst (load_pending_buffer (dk_buffers dk path) shards d)) new"
    "ur_updated res \<Longrightarrow> MIN_FLUSH_BATCH_SIZE \<le> buffer_len pending \<and>
       trained_on lib shards d expected pending (dk_model dk) (dk_model dk') \<and>
       dk_buffers dk' = (dk_buffers dk)(path := None)"
    "\<not> ur_updated res \<Longrightarrow> (buffer_len new = 0 \<or> buffer_len pending < BATCH_SIZE) \<and>
       kept dk path shards d pending (ue_now env) dk'"
proof -
  obtain u where u: "read_update lib (Inr (VDict data)) (dk_model dk) = Inr u" and mk: "ue_mkdir_fault env = None"
    using assms(1) by (auto simp: run_update_def result_simps split: sum.splits option.splits)
  note f = read_update_fields [OF u]
  have sh: "ui_data u = data" "ui_shards u = shards" "ui_iot_feature_dim u = d" using f by (simp_all add: shards_def d_def)
  have p: "prepare_update lib data shards d (dk_model dk) = Inr (ui_expected u, ui_prepared u)"
    and b: "build_buffer_from_update data = Inr (ui_new_buffer u, ui_meta u)" using f sh by auto
  define path where "path = online_buffer_path dumps dir mp (ui_expected u)"
  define pending where "pending = append_buffer (fst (load_pending_buffer (dk_buffers dk path) shards d)) (ui_new_buffer u)"
  define res0 :: "'l update_result" where "res0 = new_result (ue_now env) data shards d path (ui_new_buffer u) (ui_meta u)
    (snd (load_pending_buffer (dk_buffers dk path) shards d)) (buffer_len (fst (load_pending_buffer (dk_buffers dk path) shards d)))
    (rollout_stats pending)"
  have r0: "\<not> ur_updated res0" "ur_iot_feature_dim res0 = ui_iot_feature_dim u" by (simp_all add: res0_def new_result_def sh)
  have built: "build_agent lib (ui_shards u) (dk_model dk) (ui_iot_feature_dim u) = Inr q" if "ui_prepared u = Some q" for q
    using prepare_update_built [of lib data shards d "dk_model dk" "ui_expected u" q] p that sh by simp
  have run: "(if buffer_len (ui_new_buffer u) = 0 then keep_pending env u path pending res0 ''skip_no_valid_new_actions'' dk
      else if buffer_len pending < (if ui_flush_update u then MIN_FLUSH_BATCH_SIZE else BATCH_SIZE)
      then keep_pending env u path pending res0
        (if ui_flush_update u then ''flush_waiting_min_samples'' else ''buffering_not_enough_samples'') dk
      else train_pending lib env u path pending res0 dk) = (Inr res, dk')"
    using assms(1) unfolding res0_def pending_def path_def
    by (simp add: run_update_def u mk sh Let_def case_prod_beta split del: if_split)
  note keep = keep_pending_Inr [OF _ r0(1), of env u path pending _ dk res dk', unfolded sh]
  note train = train_pending_Inr [OF _ built r0(2), of env path pending res dk', unfolded sh]
  have sz: "MIN_FLUSH_BATCH_SIZE \<le> BATCH_SIZE" by (simp add: MIN_FLUSH_BATCH_SIZE_def BATCH_SIZE_def)
  show thesis
  proof (rule that [OF p b path_def pending_def])
    assume "ur_updated res"
    then show "MIN_FLUSH_BATCH_SIZE \<le> buffer_len pending \<and>
       trained_on lib shards d (ui_expected u) pending (dk_model dk) (dk_model dk') \<and>
       dk_buffers dk' = (dk_buffers dk)(path := None)"
      using run sz keep train by (auto split: if_splits)
  next
    assume "\<not> ur_updated res"
    then show "(buffer_len (ui_new_buffer u) = 0 \<or> buffer_len pending < BATCH_SIZE) \<and> kept dk path shards d pending (ue_now env) dk'"
      using run sz keep train by (auto split: if_splits)
  qed
qed

section \<open>Sequences of updates\<close>

text \<open>
  The queue a sequence of requests of one configuration works on: the transitions in the
  rollout file, and the transitions each request brings.
\<close>

definition pending_rows ::
  "(dict \<Rightarrow> string) \<Rightarrow> string \<Rightarrow> path \<Rightarrow> int \<Rightarrow> int \<Rightarrow> dict \<Rightarrow> ('w, 'l) disk \<Rightarrow> transition list" where
  "pending_rows dumps dir mp shards d expected dk =
     rows (fst (load_pending_buffer (dk_buffers dk (online_buffer_path dumps dir mp expected)) shards d))"

definition new_rows :: "dict \<Rightarrow> transition list" where
  "new_rows data = (case build_buffer_from_update data of Inl _ \<Rightarrow> [] | Inr (b, _) \<Rightarrow> rows b)"

definition configured :: "int \<Rightarrow> int \<Rightarrow> dict \<Rightarrow> dict \<Rightarrow> bool" where
  "configured shards d expected data \<longleftrightarrow>
     safe_int (dict_get data ''shards'' (VInt 4)) 4 = shards \<and> update_iot_feature_dim data = d \<and>
     dict_get data ''expected_checkpoint'' (VDict []) = VDict expected"

definition run_updates ::
  "('w, 'l) torch_lib \<Rightarrow> (dict \<Rightarrow> string) \<Rightarrow> string \<Rightarrow> path \<Rightarrow> ('w update_env \<times> dict) list \<Rightarrow> ('w, 'l) disk \<Rightarrow>
   ('w, 'l) disk result" where
  "run_updates lib dumps dir mp inputs dk =
     fold_result (\<lambda>(env, data) dk.
       case run_update lib dumps dir mp env (Inr (VDict data)) dk of
         (Inl e, _) \<Rightarrow> raise e | (Inr _, dk') \<Rightarrow> return dk') inputs dk"

inductive trained_chunks ::
  "('w, 'l) torch_lib \<Rightarrow> int \<Rightarrow> int \<Rightarrow> dict \<Rightarrow> 'w model_file \<Rightarrow> transition list list \<Rightarrow> 'w model_file \<Rightarrow> bool"
  for lib shards d expected where
  trained_none: "trained_chunks lib shards d expected m [] m"
| trained_chunk: "trained_on lib shards d expected (of_rows c) m m' \<Longrightarrow> trained_chunks lib shards d expected m' cs m'' \<Longrightarrow>
    trained_chunks lib shards d expected m (c # cs) m''"

lemma append_holds_rows:
  assumes "holds_rows shards sdim a" and "holds_rows shards sdim b"
  shows "append_buffer a b = of_rows (rows a @ rows b)"
    and "list_all (online_row shards sdim) (rows a @ rows b)"
  using assms append_buffer_rows [of shards sdim "rows b" "rows a"] by (auto simp: holds_rows_rows)

lemma run_update_rows:
  assumes "run_update lib dumps dir mp env (Inr (VDict data)) dk = (Inr res, dk')"
    and "configured shards d expected data"
  defines "pend \<equiv> pending_rows dumps dir mp shards d expected"
  shows "if ur_updated res
    then pend dk' = [] \<and> MIN_FLUSH_BATCH_SIZE \<le> length (pend dk @ new_rows data) \<and>
      trained_on lib shards d expected (of_rows (pend dk @ new_rows data)) (dk_model dk) (dk_model dk')
    else pend dk' = pend dk @ new_rows data \<and> dk_model dk' = dk_model dk \<and>
      (new_rows data = [] \<or> length (pend dk @ new_rows data) < BATCH_SIZE)"
proof -
  have cfg: "safe_int (dict_get data ''shards'' (VInt 4)) 4 = shards" "update_iot_feature_dim data = d"
    "dict_get data ''expected_checkpoint'' (VDict []) = VDict expected"
    using assms(2) by (simp_all add: configured_def)
  show ?thesis
  proof (rule run_update_cases [OF assms(1), unfolded cfg])
    fix expected' prepared new meta path pending
    assume prep: "prepare_update lib data shards d (dk_model dk) = Inr (expected', prepared)"
      and build: "build_buffer_from_update data = Inr (new, meta)"
      and path: "path = online_buffer_path dumps dir mp expected'"
      and pending: "pending = append_buffer (fst (load_pending_buffer (dk_buffers dk path) shards d)) new"
      and upd: "ur_updated res \<Longrightarrow> MIN_FLUSH_BATCH_SIZE \<le> buffer_len pending \<and>
         trained_on lib shards d expected' pending (dk_model dk) (dk_model dk') \<and>
         dk_buffers dk' = (dk_buffers dk)(path := None)"
      and keep: "\<not> ur_updated res \<Longrightarrow> (buffer_len new = 0 \<or> buffer_len pending < BATCH_SIZE) \<and>
         kept dk path shards d pending (ue_now env) dk'"
    let ?sdim = "update_state_dim shards d"
    have ee: "expected' = expected" using prepare_update_expected [OF prep] cfg(3) by simp
    then have pathe: "path = online_buffer_path dumps dir mp expected" using path by simp
    have "holds_rows shards ?sdim new"
      by (rule build_buffer_ok [OF build]) (simp add: cfg)
    note ap = append_holds_rows [OF load_pending_rows this]
    have new: "new_rows data = rows new" "buffer_len new = length (rows new)"
      using build by (simp_all add: new_rows_def rows_def)
    have pr: "pending = of_rows (pend dk @ new_rows data)"
      and ok: "list_all (online_row shards ?sdim) (pend dk @ new_rows data)"
      using ap new pending pathe by (simp_all add: pend_def pending_rows_def)
    have "pend dk' = pend dk @ new_rows data" if "kept dk path shards d pending (ue_now env) dk'"
      using that ok pathe pending_roundtrip [OF ok]
      by (simp add: kept_def pend_def pending_rows_def [of _ _ _ _ _ _ dk'] pr)
    moreover have "pend dk' = []" if "dk_buffers dk' = (dk_buffers dk)(path := None)"
      using that pathe by (simp add: pend_def pending_rows_def load_pending_buffer_def rows_def buffer_len_def empty_buffer_def)
    ultimately show ?thesis using upd keep new pr ee by (auto simp: kept_def)
  qed
qed

lemma run_updates_rows:
  assumes "run_updates lib dumps dir mp inputs dk = Inr dk'"
    and "\<forall>(env, data)\<in>set inputs. configured shards d expected data"
  defines "pend \<equiv> pending_rows dumps dir mp shards d expected"
  shows "\<exists>chunks. concat chunks @ pend dk' = pend dk @ concat (map (new_rows \<circ> snd) inputs) \<and>
    (\<forall>c\<in>set chunks. MIN_FLUSH_BATCH_SIZE \<le> length c) \<and>
    trained_chunks lib shards d expected (dk_model dk) chunks (dk_model dk') \<and>
    (length (pend dk) < BATCH_SIZE \<longrightarrow> length (pend dk') < BATCH_SIZE)"
  using assms(1,2)
proof (induction inputs arbitrary: dk)
  case Nil
  then show ?case by (intro exI [of _ "[]"]) (simp add: run_updates_def trained_none)
next
  case (Cons i inputs)
  obtain env data where i: "i = (env, data)" by (cases i)
  obtain res dk1 where run: "run_update lib dumps dir mp env (Inr (VDict data)) dk = (Inr res, dk1)"
    and rest: "run_updates lib dumps dir mp inputs dk1 = Inr dk'"
    using Cons.prems(1) i by (auto simp: run_updates_def result_simps split: prod.splits sum.splits)
  have "configured shards d expected data" using Cons.prems(2) i by simp
  note st = run_update_rows [OF run this, folded pend_def]
  have "\<forall>(env, data)\<in>set inputs. configured shards d expected data" using Cons.prems(2) by simp
  from Cons.IH [OF rest this] obtain chunks where
    ch: "concat chunks @ pend dk' = pend dk1 @ concat (map (new_rows \<circ> snd) inputs)"
      "\<forall>c\<in>set chunks. MIN_FLUSH_BATCH_SIZE \<le> length c"
      "trained_chunks lib shards d expected (dk_model dk1) chunks (dk_model dk')"
      "length (pend dk1) < BATCH_SIZE \<longrightarrow> length (pend dk') < BATCH_SIZE"
    by blast
  have pos: "0 < BATCH_SIZE" by (simp add: BATCH_SIZE_def)
  show ?case
  proof (cases "ur_updated res")
    case True
    then show ?thesis
      using st ch i pos
      by (intro exI [of _ "(pend dk @ new_rows data) # chunks"]) (auto simp: comp_def intro: trained_chunk)
  next
    case False
    then show ?thesis using st ch i by (intro exI [of _ chunks]) (auto simp: comp_def)
  qed
qed

section \<open>Which models are overwritten\<close>

lemma agent_load_payload: "agent_load lib file a = (Inr p, a') \<Longrightarrow> file = Inr p"
  by (auto simp: agent_load_def split: sum.splits prod.splits)

lemma build_agent_cases:
  assumes "build_agent lib shards (Some file) d = Inr (agent, p, source)"
  shows "(\<exists>q. p = Some q \<and> source = LoadedModel \<and> file = Inr q \<and>
           payload_dims q = Inr (update_state_dim shards d, shards)) \<or> (p = None \<and> source \<noteq> LoadedModel)"
proof -
  obtain a where "make_agent lib (update_state_dim shards d) shards = Inr a"
    using assms by (auto simp: build_agent_def Let_def result_simps)
  moreover obtain r a' where r: "agent_load lib file a = (r, a')" by (cases "agent_load lib file a")
  moreover have "r = Inr q \<Longrightarrow> file = Inr q" for q using r agent_load_payload by blast
  ultimately show ?thesis
    using assms by (cases r) (auto simp: build_agent_def Let_def split: sum.splits if_splits)
qed

lemma prepare_update_model:
  assumes "prepare_update lib data shards d (Some file) = Inr (expected, prepared)"
  obtains p where "file = Inr p" and "is_v3 p = Inr False"
    and "expected \<noteq> [] \<Longrightarrow> payload_dims p = Inr (update_state_dim shards d, shards) \<and>
      (\<exists>agent extra. prepared = Some (agent, Some p, LoadedModel) \<and> payload_extra p = Inr extra \<and>
         checkpoint_config_mismatches (map_of extra) expected = [])"
proof -
  obtain p where p: "file = Inr p" "is_v3 p = Inr False"
    using assms by (auto simp: prepare_update_def result_simps split: if_splits)
  moreover have "payload_dims p = Inr (update_state_dim shards d, shards) \<and>
      (\<exists>agent extra. prepared = Some (agent, Some p, LoadedModel) \<and> payload_extra p = Inr extra \<and>
         checkpoint_config_mismatches (map_of extra) expected = [])" if ne: "expected \<noteq> []"
  proof -
    obtain agent q where b: "build_agent lib shards (Some file) d = Inr (agent, q, LoadedModel)"
      and pr: "prepared = Some (agent, q, LoadedModel)"
      and ex: "\<exists>extra. (case q of None \<Rightarrow> return [] | Some q \<Rightarrow> payload_extra q) = Inr extra \<and>
        checkpoint_config_mismatches (map_of extra) expected = []"
      using assms ne by (auto simp: prepare_update_def result_simps split: if_splits prod.splits)
    show ?thesis using build_agent_cases [OF b] p pr ex by auto
  qed
  ultimately show thesis by (rule that)
qed

text \<open>A call changes files only after all it reads was accepted, and the rest only by writing.\<close>

lemma run_update_reads:
  assumes "run_update lib dumps dir mp env input dk = (r, dk')" and "dk_model dk' \<noteq> dk_model dk \<or> dk_buffers dk' \<noteq> dk_buffers dk"
  shows "\<exists>u. read_update lib input (dk_model dk) = Inr u"
  using assms by (cases "read_update lib input (dk_model dk)") (auto simp: run_update_def)

lemma writes_ok:
  "ue_model_fault env = None \<Longrightarrow> write_model env p dk = (Inr (), dk\<lparr>dk_model := Some (Inr p)\<rparr>)"
  "ue_pending_fault env = None \<Longrightarrow> write_pending env path b shards d dk =
     (Inr (), dk\<lparr>dk_buffers := (dk_buffers dk)(path := save_pending_buffer (ue_now env) b shards d)\<rparr>)"
  "ue_log_fault env = None \<Longrightarrow> append_train_log env res dk = (Inr res, dk\<lparr>dk_log := dk_log dk @ [Finished res]\<rparr>)"
  "then_do (Inr a, s) f = f a s"
  by (simp_all add: write_model_def write_pending_def append_train_log_def then_do_def)

lemma run_update_failed:
  assumes "run_update lib dumps dir mp env input dk = (Inl e, dk')"
    and "ue_model_fault env = None" and "ue_pending_fault env = None" and "ue_log_fault env = None"
  shows "dk' = dk"
proof -
  have keep: "fst (keep_pending env u path pending res message dk) \<noteq> Inl e" for u path pending res message
    using assms(3,4) by (simp add: keep_pending_def writes_ok)
  have train: "snd (train_pending lib env u path pending res dk) = dk"
    if "fst (train_pending lib env u path pending res dk) = Inl e" for u path pending res
    using that assms(2-4) by (auto simp: train_pending_def writes_ok Let_def split: sum.splits)
  show ?thesis
  proof (cases "read_update lib input (dk_model dk)")
    case (Inl x)
    then show ?thesis using assms(1) by (simp add: run_update_def)
  next
    case (Inr u)
    show ?thesis
    proof (cases "ue_mkdir_fault env")
      case (Some x)
      then show ?thesis using assms(1) Inr by (simp add: run_update_def)
    next
      case None
      define path where "path = online_buffer_path dumps dir mp (ui_expected u)"
      obtain old pm where old: "load_pending_buffer (dk_buffers dk path) (ui_shards u) (ui_iot_feature_dim u) = (old, pm)"
        by (cases "load_pending_buffer (dk_buffers dk path) (ui_shards u) (ui_iot_feature_dim u)")
      let ?p = "append_buffer old (ui_new_buffer u)"
      let ?res = "new_result (ue_now env) (ui_data u) (ui_shards u) (ui_iot_feature_dim u) path (ui_new_buffer u)
        (ui_meta u) pm (buffer_len old) (rollout_stats ?p)"
      have "(\<exists>message. keep_pending env u path ?p ?res message dk = (Inl e, dk')) \<or>
          train_pending lib env u path ?p ?res dk = (Inl e, dk')"
        using assms(1) by (auto simp: run_update_def Inr None old Let_def simp flip: path_def split: if_splits)
      then show ?thesis using keep [of u path ?p ?res] train [of u path ?p ?res] by (metis fst_conv snd_conv)
    qed
  qed
qed

section \<open>The identity of a saved checkpoint\<close>

text \<open>The keys that an update writes into the metadata itself.\<close>

definition BOOKKEEPING :: "string list" where
  "BOOKKEEPING = [''online_update_count'', ''last_batch_id'', ''last_feedback_epoch'', ''last_batch_reward'',
     ''last_cross_rate'', ''last_normalized_load_variance'', ''last_effective_tx'', ''last_cross_tx'',
     ''last_running_avg_cross_rate'', ''last_action_confidence_mean'', ''last_action_entropy_mean'',
     ''last_local_reward_mean'', ''last_supervised_target_count'', ''last_supervised_weight_mean'',
     ''last_new_actions'', ''last_pending_size_used_for_update'', ''last_pending_num_trajectories'',
     ''last_update_time_unix_nano'', ''iot_feature_dim'', ''state_dim'']"

lemma saved_extra_lookup:
  assumes "distinct (map fst expected)" and "k \<notin> set BOOKKEEPING"
  shows "map_of (saved_extra old expected r c n) k =
    (case map_of expected k of None \<Rightarrow> map_of old k | Some v \<Rightarrow> Some v)"
proof -
  have "map_of (dict_merge old expected) = map_of old ++ map_of expected"
    by (rule map_of_dict_merge [OF assms(1)])
  then show ?thesis
    using assms(2) by (simp add: saved_extra_def Let_def map_of_dict_merge BOOKKEEPING_def map_add_def)
qed

lemma saved_extra_feature_dim:
  assumes "distinct (map fst expected)"
  shows "map_of (saved_extra old expected r c n) ''iot_feature_dim'' = Some (VInt (ur_iot_feature_dim r))"
  by (simp add: saved_extra_def Let_def map_of_dict_merge)

lemma saved_extra_compatible:
  assumes dist: "distinct (map fst expected)"
    and refl: "\<forall>(k, v)\<in>set expected. py_eq v v \<and> value_matches v v"
    and keys: "\<forall>(k, v)\<in>set expected. k \<notin> set BOOKKEEPING \<or> (k = ''iot_feature_dim'' \<and> v = VInt (ur_iot_feature_dim r))"
    and old: "map_of expected ''mechanism_version'' = None \<Longrightarrow>
      py_eq (get_or (map_of old ''mechanism_version'') (VStr ''legacy'')) (VStr ''legacy'')"
  shows "checkpoint_config_mismatches (map_of (saved_extra old expected r c n)) expected = []"
proof -
  let ?s = "map_of (saved_extra old expected r c n)"
  have "?s k = Some v" if "(k, v) \<in> set expected" for k v
  proof (cases "k \<in> set BOOKKEEPING")
    case False
    then show ?thesis using that dist saved_extra_lookup [OF dist, of k] by simp
  next
    case True
    then have "k = ''iot_feature_dim''" "v = VInt (ur_iot_feature_dim r)" using bspec [OF keys that] by auto
    then show ?thesis using saved_extra_feature_dim [OF dist] by simp
  qed
  then have keys_ok: "concat (map (key_mismatch ?s) expected) = []"
    using refl by (auto simp: key_mismatch_def)
  have "''mechanism_version'' \<notin> set BOOKKEEPING" by (simp add: BOOKKEEPING_def)
  note lookup = saved_extra_lookup [OF dist this, of old r c n]
  have "py_eq (get_or (?s ''mechanism_version'') (VStr ''legacy''))
      (get_or (map_of expected ''mechanism_version'') (VStr ''legacy''))"
  proof (cases "map_of expected ''mechanism_version''")
    case None
    then show ?thesis using old lookup by (simp add: get_or_def)
  next
    case (Some v)
    then have "py_eq v v" using refl by (auto dest: map_of_SomeD)
    then show ?thesis using Some lookup by (simp add: get_or_def)
  qed
  then show ?thesis using keys_ok by (simp add: checkpoint_config_mismatches_def Let_def)
qed

lemma load_weights_dims:
  "ag_state_dim (snd (load_weights lib p a)) = ag_state_dim a \<and> ag_action_dim (snd (load_weights lib p a)) = ag_action_dim a"
  by (simp add: load_weights_def split: option.split prod.split)

lemma agent_load_dims:
  "ag_state_dim (snd (agent_load lib f a)) = ag_state_dim a \<and> ag_action_dim (snd (agent_load lib f a)) = ag_action_dim a"
  using load_weights_dims [of lib _ a] by (auto simp: agent_load_def split: sum.split prod.split) (metis snd_conv)+

lemma build_agent_dims:
  assumes "build_agent lib shards model d = Inr (agent, p, source)"
  shows "ag_state_dim agent = update_state_dim shards d" and "ag_action_dim agent = shards"
proof -
  obtain a where a: "make_agent lib (update_state_dim shards d) shards = Inr a"
    using assms by (auto simp: build_agent_def Let_def result_simps)
  then have dims: "ag_state_dim a = update_state_dim shards d" "ag_action_dim a = shards"
    by (auto simp: make_agent_def result_simps)
  have "agent = a \<or> (\<exists>f. agent = snd (agent_load lib f a))"
    using assms a
    by (auto simp: build_agent_def Let_def split: option.splits sum.splits prod.splits if_splits) (metis snd_conv)+
  then show "ag_state_dim agent = update_state_dim shards d" "ag_action_dim agent = shards"
    using dims agent_load_dims [of lib _ a] by auto
qed

lemma trained_model_compatible:
  assumes "trained_on lib shards d expected buffer m m'" and "expected \<noteq> []"
    and "prepare_update lib data shards d m = Inr (expected, prepared)"
    and "distinct (map fst expected)"
    and "\<forall>(k, v)\<in>set expected. py_eq v v \<and> value_matches v v"
    and "\<forall>(k, v)\<in>set expected. k \<notin> set BOOKKEEPING \<or> (k = ''iot_feature_dim'' \<and> v = VInt d)"
    and keeps: "\<And>a b l a'. tl_update lib a b = Inr (l, a') \<Longrightarrow>
      ag_state_dim a' = ag_state_dim a \<and> ag_action_dim a' = ag_action_dim a"
  shows "\<exists>p extra. m' = Some (Inr p) \<and> payload_dims p = Inr (update_state_dim shards d, shards) \<and>
    payload_extra p = Inr extra \<and> checkpoint_config_mismatches (map_of extra) expected = []"
proof -
  obtain agent p source loss agent' count n and r :: "'b update_result" where
    b: "build_agent lib shards m d = Inr (agent, p, source)" and u: "tl_update lib agent buffer = Inr (loss, agent')"
    and r: "ur_iot_feature_dim r = d"
    and m': "m' = Some (Inr (agent_save agent' (saved_extra (old_extra_of p) expected r count n)))"
    using assms(1) unfolding trained_on_def by blast
  have "py_eq (get_or (map_of (old_extra_of p) ''mechanism_version'') (VStr ''legacy'')) (VStr ''legacy'')"
    if none: "map_of expected ''mechanism_version'' = None"
  proof (cases m)
    case None
    then have "p = None" using b by (auto simp: build_agent_def Let_def result_simps)
    then show ?thesis by (simp add: old_extra_of_def get_or_def scalar_eq_def)
  next
    case (Some f)
    obtain q agent' extra where q: "f = Inr q" "prepared = Some (agent', Some q, LoadedModel)"
        "payload_extra q = Inr extra" "checkpoint_config_mismatches (map_of extra) expected = []"
      by (rule prepare_update_model [OF assms(3) [unfolded Some]]) (use assms(2) in blast)
    have "build_agent lib shards m d = Inr (agent', Some q, LoadedModel)"
      using prepare_update_built assms(3) q(2) by blast
    then have "p = Some q" using b by simp
    moreover have "old_extra_of (Some q) = extra"
      using q(3) by (auto simp: payload_extra_def require_dict_def old_extra_of_def split: option.splits)
    ultimately show ?thesis
      using q(4) none by (simp add: checkpoint_config_mismatches_def Let_def get_or_def split: if_splits)
  qed
  then have "checkpoint_config_mismatches (map_of (saved_extra (old_extra_of p) expected r count n)) expected = []"
    using assms(4-6) r by (intro saved_extra_compatible) auto
  then show ?thesis using m' keeps [OF u] build_agent_dims [OF b] by auto
qed

section \<open>A complete feedback file\<close>

lemma build_step_usable:
  assumes "usable shards sdim item = Some (d, state, action, lp, v)"
    and "mask_ints (dict_get d ''action_mask'' (VList [])) = Inr m"
  shows "\<exists>acc'. build_step shards sdim ns (i, item) acc = Inr acc' \<and> ba_skipped acc' = ba_skipped acc"
  using assms by (simp add: build_step_def Let_def)

text \<open>A feedback file all of whose actions are usable is accepted without skipping any.\<close>

definition complete_action :: "int \<Rightarrow> int \<Rightarrow> pyval \<Rightarrow> bool" where
  "complete_action shards sdim item \<longleftrightarrow>
     (case usable shards sdim item of
        None \<Rightarrow> False
      | Some (d, _) \<Rightarrow> (case mask_ints (dict_get d ''action_mask'' (VList [])) of Inl _ \<Rightarrow> False | Inr _ \<Rightarrow> True))"

lemma build_loop_complete:
  assumes "list_all (\<lambda>(i, item). complete_action shards sdim item) xs"
  shows "\<exists>acc'. fold_result (build_step shards sdim ns) xs acc = Inr acc' \<and> ba_skipped acc' = ba_skipped acc"
  using assms
proof (induction xs arbitrary: acc)
  case Nil
  then show ?case by simp
next
  case (Cons x xs)
  obtain i item where x: "x = (i, item)" by (cases x)
  obtain d st a lp v m where "usable shards sdim item = Some (d, st, a, lp, v)"
      "mask_ints (dict_get d ''action_mask'' (VList [])) = Inr m"
    using Cons.prems by (auto simp: x complete_action_def split: option.splits sum.splits)
  from build_step_usable [OF this] obtain acc1 where
    "build_step shards sdim ns x acc = Inr acc1" "ba_skipped acc1 = ba_skipped acc"
    unfolding x by blast
  then show ?case using Cons.IH [of acc1] Cons.prems by simp
qed

lemma build_buffer_complete:
  assumes "dict_get data ''actions'' (VList []) = VList actions"
    and "list_all (complete_action shards (update_state_dim shards (update_iot_feature_dim data))) actions"
    and "safe_int (dict_get data ''shards'' (VInt 4)) 4 = shards"
  shows "\<exists>b meta. build_buffer_from_update data = Inr (b, meta) \<and> buffer_len b = length actions"
proof -
  let ?ns = "case as_list (dict_get data ''next_states'' (VList [])) of None \<Rightarrow> [] | Some xs \<Rightarrow> xs"
  have "list_all (\<lambda>(i, item). complete_action shards (update_state_dim shards (update_iot_feature_dim data)) item)
      (enumerate 0 actions)"
    using assms(2) by (auto simp: list_all_length nth_enumerate_eq)
  from build_loop_complete [OF this, of ?ns "new_acc shards"] obtain b meta where
    b: "build_buffer_from_update data = Inr (b, meta)" "me_skipped meta = 0"
    using assms(1,3) by (auto simp: build_buffer_from_update_def Let_def new_acc_def)
  have "buffer_len b = length actions" by (rule build_buffer_ok [OF b(1)]) (use assms(1) b(2) in simp)
  then show ?thesis using b by blast
qed

section \<open>An example\<close>

definition demo_lib :: "(unit, unit) torch_lib" where
  "demo_lib = \<lparr>tl_fresh = \<lambda>_ _. Inr (), tl_load_state_dict = \<lambda>_ _. (None, ()),
     tl_forward = \<lambda>_ _. None, tl_update = \<lambda>a _. Inr ((), a)\<rparr>"

definition demo_item :: pyval where
  "demo_item = VDict [(''state'', VList (replicate 12 (VInt 0))), (''action'', VInt 0),
     (''log_prob'', VFloat (Fin (- 1))), (''value'', VFloat (Fin 0)), (''reward'', VInt 5)]"

definition demo_data :: dict where
  "demo_data = [(''shards'', VInt 1), (''flush_update'', VBool True),
     (''expected_checkpoint'', VDict [(''candidate_top_k'', VInt 7)]), (''actions'', VList (replicate 256 demo_item))]"

definition demo_disk :: "(unit, unit) disk" where
  "demo_disk = \<lparr>dk_model = None, dk_buffers = Map.empty, dk_log = []\<rparr>"

text \<open>A call at time 0 whose writes succeed.\<close>

definition plain_run :: "unit update_env" where
  "plain_run = \<lparr>ue_now = 0, ue_mkdir_fault = None, ue_model_fault = None, ue_pending_fault = None, ue_log_fault = None,
     ue_failure_log_fault = False\<rparr>"

definition demo_run :: "unit update_env \<Rightarrow> unit update_result result \<times> (unit, unit) disk" where
  "demo_run env = run_update demo_lib (\<lambda>_. []) ''models'' (''models'', ''ppo.pt'') env (Inr (VDict demo_data)) demo_disk"

lemma demo_configured: "configured 1 0 [(''candidate_top_k'', VInt 7)] demo_data"
  by (simp add: configured_def demo_data_def dict_get_def update_iot_feature_dim_def)

lemma demo_complete: "complete_action 1 12 demo_item"
  by (simp add: complete_action_def usable_def demo_item_def list_of_len_def dict_get_def)

lemma demo_buffer: "\<exists>b meta. build_buffer_from_update demo_data = Inr (b, meta) \<and> buffer_len b = 256"
proof -
  have "dict_get demo_data ''actions'' (VList []) = VList (replicate 256 demo_item)"
    by (simp add: demo_data_def dict_get_def)
  moreover have "update_iot_feature_dim demo_data = 0" "safe_int (dict_get demo_data ''shards'' (VInt 4)) 4 = 1"
    using demo_configured by (simp_all add: configured_def)
  moreover have "update_state_dim 1 0 = 12" by (simp add: update_state_dim_def state_dim_def)
  ultimately show ?thesis
    using build_buffer_complete [of demo_data "replicate 256 demo_item" 1] demo_complete
    by (simp add: list_all_length)
qed

lemma demo_agent:
  "build_agent demo_lib 1 None 0 = Inr (\<lparr>ag_state_dim = 12, ag_action_dim = 1, ag_net = ()\<rparr>, None, NewModel)"
  by (simp add: build_agent_def make_agent_def demo_lib_def update_state_dim_def state_dim_def)

lemma demo_prepare:
  "prepare_update demo_lib demo_data 1 0 None =
     Inr ([(''candidate_top_k'', VInt 7)], Some (\<lparr>ag_state_dim = 12, ag_action_dim = 1, ag_net = ()\<rparr>, None, NewModel))"
  by (simp add: prepare_update_def demo_agent demo_data_def dict_get_def require_dict_def scalar_eq_def)

lemma append_empty_len: "buffer_len (append_buffer empty_buffer b) = buffer_len b"
proof -
  have "append_buffer empty_buffer b = of_rows (rows b)"
    by (simp add: append_buffer_def of_rows_def add_rows_def rows_def fold_map comp_def)
  then show ?thesis by (simp add: rows_def)
qed

text \<open>The call trains, whatever its writes do.\<close>

lemma demo_trains:
  assumes "ue_mkdir_fault env = None"
  shows "\<exists>u pending res. ui_prepared u = Some (\<lparr>ag_state_dim = 12, ag_action_dim = 1, ag_net = ()\<rparr>, None, NewModel) \<and>
    ui_shards u = 1 \<and> ui_iot_feature_dim u = 0 \<and> ui_expected u = [(''candidate_top_k'', VInt 7)] \<and>
    ur_iot_feature_dim res = 0 \<and>
    demo_run env = train_pending demo_lib env u
      (online_buffer_path (\<lambda>_. []) ''models'' (''models'', ''ppo.pt'') [(''candidate_top_k'', VInt 7)]) pending res demo_disk"
proof -
  obtain b meta where b: "build_buffer_from_update demo_data = Inr (b, meta)" "buffer_len b = 256"
    using demo_buffer by blast
  have cfg: "safe_int (dict_get demo_data ''shards'' (VInt 4)) 4 = 1" "update_iot_feature_dim demo_data = 0"
    using demo_configured by (simp_all add: configured_def)
  have fl: "truthy (dict_get demo_data ''flush_update'' (VBool False))" by (simp add: demo_data_def dict_get_def)
  have dk: "dk_model demo_disk = None" "dk_buffers demo_disk x = None" for x by (simp_all add: demo_disk_def)
  define u where "u = \<lparr>ui_data = demo_data, ui_shards = 1, ui_iot_feature_dim = 0, ui_flush_update = True,
    ui_expected = [(''candidate_top_k'', VInt 7)],
    ui_prepared = Some (\<lparr>ag_state_dim = 12, ag_action_dim = 1, ag_net = ()\<rparr>, None, NewModel), ui_new_buffer = b, ui_meta = meta\<rparr>"
  have "read_update demo_lib (Inr (VDict demo_data)) None = Inr u"
    by (simp add: read_update_def load_update_input_def cfg fl demo_prepare b u_def)
  moreover define path where "path = online_buffer_path (\<lambda>_. []) ''models'' (''models'', ''ppo.pt'') [(''candidate_top_k'', VInt 7)]"
  moreover define pending where "pending = append_buffer empty_buffer b"
  moreover define res :: "unit update_result" where
    "res = new_result (ue_now env) demo_data 1 0 path b meta PendingNew 0 (rollout_stats pending)"
  moreover have "buffer_len empty_buffer = 0" by (simp add: buffer_len_def empty_buffer_def)
  moreover have "ui_data u = demo_data" "ui_shards u = 1" "ui_iot_feature_dim u = 0" "ui_flush_update u"
      "ui_expected u = [(''candidate_top_k'', VInt 7)]" "ui_new_buffer u = b" "ui_meta u = meta"
    by (simp_all add: u_def)
  ultimately have "demo_run env = train_pending demo_lib env u path pending res demo_disk"
    unfolding demo_run_def run_update_def
    by (simp add: assms dk b append_empty_len load_pending_buffer_def MIN_FLUSH_BATCH_SIZE_def Let_def)
  moreover have "ur_iot_feature_dim res = 0" by (simp add: res_def new_result_def)
  ultimately show ?thesis unfolding path_def by (intro exI [of _ u] exI [of _ pending] exI [of _ res]) (simp add: u_def)
qed

lemma demo_updates: "\<exists>res dk'. demo_run plain_run = (Inr res, dk') \<and> ur_updated res \<and> ur_iot_feature_dim res = 0"
proof -
  have "ue_mkdir_fault plain_run = None" by (simp add: plain_run_def)
  from demo_trains [OF this] show ?thesis
    by (auto simp: train_pending_def demo_lib_def plain_run_def writes_ok Let_def)
qed

section \<open>Properties\<close>

text \<open>
  C11. Online samples are neither lost nor repeated. However many feedback files of one
  configuration are processed, the transitions they bring, appended to those pending before,
  are cut into consecutive chunks of at least the flush size and a pending rest: the model is
  the result of one optimiser step on each chunk in turn, and the rest is what the next call
  loads from the rollout file. If fewer transitions than a batch were pending, fewer are pending after.
\<close>

theorem online_samples_conserved:
  assumes "run_updates lib dumps dir mp inputs dk = Inr dk'"
    and "\<forall>(env, data)\<in>set inputs. configured shards d expected data"
  shows "\<exists>chunks. concat chunks @ pending_rows dumps dir mp shards d expected dk' =
      pending_rows dumps dir mp shards d expected dk @ concat (map (new_rows \<circ> snd) inputs) \<and>
    (\<forall>c\<in>set chunks. MIN_FLUSH_BATCH_SIZE \<le> length c) \<and>
    trained_chunks lib shards d expected (dk_model dk) chunks (dk_model dk') \<and>
    (length (pending_rows dumps dir mp shards d expected dk) < BATCH_SIZE \<longrightarrow>
     length (pending_rows dumps dir mp shards d expected dk') < BATCH_SIZE)"
  by (rule run_updates_rows [OF assms])

theorem online_samples_conserved_witness:
  "\<exists>dk' chunks. run_updates demo_lib (\<lambda>_. []) ''models'' (''models'', ''ppo.pt'') [(plain_run, demo_data)] demo_disk = Inr dk' \<and>
     concat chunks @ pending_rows (\<lambda>_. []) ''models'' (''models'', ''ppo.pt'') 1 0 [(''candidate_top_k'', VInt 7)] dk' =
       pending_rows (\<lambda>_. []) ''models'' (''models'', ''ppo.pt'') 1 0 [(''candidate_top_k'', VInt 7)] demo_disk @
       new_rows demo_data"
proof -
  obtain res dk' where "demo_run plain_run = (Inr res, dk')" using demo_updates by blast
  then have run: "run_updates demo_lib (\<lambda>_. []) ''models'' (''models'', ''ppo.pt'') [(plain_run, demo_data)] demo_disk = Inr dk'"
    by (simp add: run_updates_def demo_run_def)
  show ?thesis
    using online_samples_conserved [OF run, of 1 0 "[(''candidate_top_k'', VInt 7)]"] run demo_configured by auto
qed

text \<open>
  C26. The buffer of one feedback file accounts for every action: each is either recorded or
  counted as skipped, the histogram counts the recorded ones, every recorded transition has a
  state and a successor of the expected size, a shard in range and a reward within the clip
  range, and a nonempty buffer has an end of trajectory.
\<close>

theorem feedback_buffer_spec:
  assumes "build_buffer_from_update data = Inr (b, meta)"
  shows "\<exists>actions. dict_get data ''actions'' (VList []) = VList actions \<and>
      buffer_len b + me_skipped meta = length actions \<and> sum_list (me_action_hist meta) = buffer_len b \<and>
      b = of_rows (rows b) \<and> list_all (online_row (me_shards meta) (me_state_dim meta)) (rows b) \<and>
      (\<forall>r\<in>set (rb_rewards b). \<bar>r\<bar> \<le> REWARD_CLIP) \<and> (b = empty_buffer \<or> True \<in> set (rb_dones b)) \<and>
      me_same_as_related_count meta \<le> me_related_known_count meta \<and>
      me_supervised_target_count meta \<le> me_related_known_count meta \<and>
      me_related_known_count meta \<le> buffer_len b"
  by (rule build_buffer_ok [OF assms]) (auto simp: holds_rows_rows)

theorem feedback_buffer_spec_witness:
  "\<exists>b meta. build_buffer_from_update demo_data = Inr (b, meta) \<and> sum_list (me_action_hist meta) = 256"
proof -
  obtain b meta where b: "build_buffer_from_update demo_data = Inr (b, meta)" "buffer_len b = 256"
    using demo_buffer by blast
  show ?thesis using feedback_buffer_spec [OF b(1)] b by auto
qed

text \<open>
  C23. An online update never overwrites a model it must not touch, and fails cleanly unless
  writing fails. If the model file is present and a call changes it, be it that the call fails
  later, then the file was readable and not of version 3, and when the request names an expected
  configuration the checkpoint had the expected dimensions and no mismatch. A call that fails
  while the operating system carries out its writes (a bad request, a refused or unreadable model,
  an error in the optimiser step) leaves the model and all rollout files as they were. When a
  write fails, files written before it stay written: see \<open>failed_update_keeps_model\<close>.
\<close>

theorem online_update_protects:
  assumes "update_main lib dumps dir mp env input dk = (entry, dk')"
  shows "(dk_model dk = Some file \<and> dk_model dk' \<noteq> dk_model dk \<longrightarrow>
      (\<exists>p data expected. file = Inr p \<and> is_v3 p = Inr False \<and> input = Inr (VDict data) \<and>
         dict_get data ''expected_checkpoint'' (VDict []) = VDict expected \<and>
         (expected \<noteq> [] \<longrightarrow>
            payload_dims p = Inr (update_state_dim (safe_int (dict_get data ''shards'' (VInt 4)) 4)
              (update_iot_feature_dim data), safe_int (dict_get data ''shards'' (VInt 4)) 4) \<and>
            (\<exists>extra. payload_extra p = Inr extra \<and> checkpoint_config_mismatches (map_of extra) expected = [])))) \<and>
    (\<forall>e. entry = Failed e \<and> ue_model_fault env = None \<and> ue_pending_fault env = None \<and> ue_log_fault env = None \<longrightarrow>
       dk_model dk' = dk_model dk \<and> dk_buffers dk' = dk_buffers dk)"
proof -
  obtain r dk1 where run: "run_update lib dumps dir mp env input dk = (r, dk1)"
    by (cases "run_update lib dumps dir mp env input dk")
  have m: "dk_model dk' = dk_model dk1" "dk_buffers dk' = dk_buffers dk1" and ent: "entry = (case r of Inl e \<Rightarrow> Failed e | Inr x \<Rightarrow> Finished x)"
    using assms run by (auto simp: update_main_def split: sum.splits)
  have "dk1 = dk" if "entry = Failed e" "ue_model_fault env = None" "ue_pending_fault env = None" "ue_log_fault env = None" for e
    using run_update_failed [of lib dumps dir mp env input dk e dk1] run ent that by (cases r) auto
  moreover have "\<exists>p data expected. file = Inr p \<and> is_v3 p = Inr False \<and> input = Inr (VDict data) \<and>
      dict_get data ''expected_checkpoint'' (VDict []) = VDict expected \<and>
      (expected \<noteq> [] \<longrightarrow>
         payload_dims p = Inr (update_state_dim (safe_int (dict_get data ''shards'' (VInt 4)) 4)
           (update_iot_feature_dim data), safe_int (dict_get data ''shards'' (VInt 4)) 4) \<and>
         (\<exists>extra. payload_extra p = Inr extra \<and> checkpoint_config_mismatches (map_of extra) expected = []))"
    if present: "dk_model dk = Some file" and ch: "dk_model dk' \<noteq> dk_model dk"
  proof -
    obtain u where u: "read_update lib input (dk_model dk) = Inr u" using run_update_reads [OF run] ch m by auto
    note f = read_update_fields [OF u]
    then have prep: "prepare_update lib (ui_data u) (ui_shards u) (ui_iot_feature_dim u) (Some file) = Inr (ui_expected u, ui_prepared u)"
      using present by auto
    show ?thesis
      by (rule prepare_update_model [OF prep]) (use f prepare_update_expected [OF prep] in auto)
  qed
  ultimately show ?thesis using m by auto
qed

text \<open>A call with a model that cannot be read fails and leaves it.\<close>

theorem online_update_protects_witness:
  "\<exists>e dk'. update_main demo_lib (\<lambda>_. []) ''models'' (''models'', ''ppo.pt'') plain_run (Inr (VDict demo_data))
       (demo_disk\<lparr>dk_model := Some (Inl RuntimeError)\<rparr>) = (Failed e, dk') \<and> dk_model dk' = Some (Inl RuntimeError) \<and>
     dk_buffers dk' = dk_buffers demo_disk"
proof -
  let ?dk = "demo_disk\<lparr>dk_model := Some (Inl RuntimeError)\<rparr>"
  have "read_update demo_lib (Inr (VDict demo_data)) (Some (Inl RuntimeError)) = Inl RuntimeError"
    by (simp add: read_update_def load_update_input_def prepare_update_def demo_data_def dict_get_def require_dict_def get_or_def scalar_eq_def)
  then obtain dk' where run: "update_main demo_lib (\<lambda>_. []) ''models'' (''models'', ''ppo.pt'') plain_run (Inr (VDict demo_data)) ?dk =
      (Failed RuntimeError, dk')"
    by (simp add: update_main_def run_update_def)
  then show ?thesis
    using online_update_protects [OF run, of "Inl RuntimeError"] by (auto simp: plain_run_def)
qed

text \<open>
  What an exception does not undo. If the rollout file cannot be removed after the model was
  saved, the call is reported as failed although the model was trained, and the transitions it
  was trained on are still pending; if only the log cannot be written, the model was trained and
  the rollout file is gone, and the call is reported as failed too.
\<close>

theorem failed_update_keeps_model:
  "\<exists>dk' p. update_main demo_lib (\<lambda>_. []) ''models'' (''models'', ''ppo.pt'')
       (plain_run\<lparr>ue_pending_fault := Some (RuntimeError, left)\<rparr>) (Inr (VDict demo_data)) demo_disk = (Failed RuntimeError, dk') \<and>
     dk_model dk' = Some (Inr p) \<and>
     dk_buffers dk' (online_buffer_path (\<lambda>_. []) ''models'' (''models'', ''ppo.pt'') [(''candidate_top_k'', VInt 7)]) = left"
  "\<exists>dk' p. update_main demo_lib (\<lambda>_. []) ''models'' (''models'', ''ppo.pt'')
       (plain_run\<lparr>ue_log_fault := Some RuntimeError\<rparr>) (Inr (VDict demo_data)) demo_disk = (Failed RuntimeError, dk') \<and>
     dk_model dk' = Some (Inr p) \<and> dk_model demo_disk = None"
proof -
  let ?e1 = "plain_run\<lparr>ue_pending_fault := Some (RuntimeError, left)\<rparr>" and ?e2 = "plain_run\<lparr>ue_log_fault := Some RuntimeError\<rparr>"
  have mk: "ue_mkdir_fault ?e1 = None" "ue_mkdir_fault ?e2 = None" by (simp_all add: plain_run_def)
  show "\<exists>dk' p. update_main demo_lib (\<lambda>_. []) ''models'' (''models'', ''ppo.pt'') ?e1 (Inr (VDict demo_data)) demo_disk =
       (Failed RuntimeError, dk') \<and> dk_model dk' = Some (Inr p) \<and>
     dk_buffers dk' (online_buffer_path (\<lambda>_. []) ''models'' (''models'', ''ppo.pt'') [(''candidate_top_k'', VInt 7)]) = left"
    using demo_trains [OF mk(1)]
    by (auto simp: update_main_def demo_run_def train_pending_def demo_lib_def plain_run_def write_model_def write_pending_def
        then_do_def Let_def)
  show "\<exists>dk' p. update_main demo_lib (\<lambda>_. []) ''models'' (''models'', ''ppo.pt'') ?e2 (Inr (VDict demo_data)) demo_disk =
       (Failed RuntimeError, dk') \<and> dk_model dk' = Some (Inr p) \<and> dk_model demo_disk = None"
    using demo_trains [OF mk(2)]
    by (auto simp: update_main_def demo_run_def train_pending_def demo_lib_def plain_run_def demo_disk_def write_model_def write_pending_def
        append_train_log_def then_do_def Let_def)
qed

text \<open>
  C24. A checkpoint that an online update saves can be used by the inference server afterwards:
  under an expected configuration without NaN, whose keys the update does not use for its own
  bookkeeping, the saved file has the expected dimensions and no mismatch with the configuration.
\<close>

theorem saved_checkpoint_compatible:
  fixes lib :: "('w, 'l) torch_lib"
  assumes "run_update lib dumps dir mp env (Inr (VDict data)) dk = (Inr res, dk')" and "ur_updated res"
    and "configured shards d expected data" and "expected \<noteq> []" and "distinct (map fst expected)"
    and "\<forall>(k, v)\<in>set expected. py_eq v v \<and> value_matches v v"
    and "\<forall>(k, v)\<in>set expected. k \<notin> set BOOKKEEPING \<or> (k = ''iot_feature_dim'' \<and> v = VInt d)"
    and "\<And>a b l a'. tl_update lib a b = Inr (l, a') \<Longrightarrow>
      ag_state_dim a' = ag_state_dim a \<and> ag_action_dim a' = ag_action_dim a"
  shows "\<exists>p extra. dk_model dk' = Some (Inr p) \<and> payload_dims p = Inr (update_state_dim shards d, shards) \<and>
    payload_extra p = Inr extra \<and> checkpoint_config_mismatches (map_of extra) expected = []"
proof -
  have cfg: "safe_int (dict_get data ''shards'' (VInt 4)) 4 = shards" "update_iot_feature_dim data = d"
    "dict_get data ''expected_checkpoint'' (VDict []) = VDict expected"
    using assms(3) by (simp_all add: configured_def)
  obtain expected' prepared pending where
    p: "prepare_update lib data shards d (dk_model dk) = Inr (expected', prepared)"
    and t: "trained_on lib shards d expected' pending (dk_model dk) (dk_model dk')"
    by (rule run_update_cases [OF assms(1), unfolded cfg]) (use assms(2) in blast)
  have "expected' = expected" using prepare_update_expected [OF p] cfg(3) by simp
  then show ?thesis using trained_model_compatible [OF t _ p] assms(4-8) by simp
qed

theorem saved_checkpoint_compatible_witness:
  "\<exists>res dk' p extra. demo_run plain_run = (Inr res, dk') \<and> dk_model dk' = Some (Inr p) \<and> payload_dims p = Inr (12, 1) \<and>
     payload_extra p = Inr extra \<and> checkpoint_config_mismatches (map_of extra) [(''candidate_top_k'', VInt 7)] = []"
proof -
  obtain res dk' where run: "demo_run plain_run = (Inr res, dk')" and u: "ur_updated res" using demo_updates by blast
  have keeps: "ag_state_dim a' = ag_state_dim a \<and> ag_action_dim a' = ag_action_dim a"
    if "tl_update demo_lib a b = Inr (l, a')" for a b l a'
    using that by (simp add: demo_lib_def)
  have "\<exists>p extra. dk_model dk' = Some (Inr p) \<and> payload_dims p = Inr (update_state_dim 1 0, 1) \<and>
      payload_extra p = Inr extra \<and> checkpoint_config_mismatches (map_of extra) [(''candidate_top_k'', VInt 7)] = []"
  proof (rule saved_checkpoint_compatible [OF run [unfolded demo_run_def] u demo_configured])
    show "tl_update demo_lib a b = Inr (l, a') \<Longrightarrow>
        ag_state_dim a' = ag_state_dim a \<and> ag_action_dim a' = ag_action_dim a" for a b l a'
      by (rule keeps)
  qed (simp_all add: scalar_eq_def value_matches_def BOOKKEEPING_def)
  moreover have "update_state_dim 1 0 = 12" by (simp add: update_state_dim_def state_dim_def)
  ultimately show ?thesis using run by auto
qed

end
