(* ===== verification/Logits.thy ===== *)
theory Logits
  imports Heuristic
begin

text \<open>
  From the network's output to a choice: \<open>mask_logits\<close> of \<open>action_mask.py\<close> and the
  categorical distribution over its result, and the fallback policy of \<open>heuristic.py\<close> on
  states that may contain infinities and NaN.

  A row of logits is a list of reals (a row that is not finite makes the distribution raise, see
  the inference entries). Single precision is not modelled except where the code relies on it:
  the exponential of a large negative number is zero.
\<close>

section \<open>Masked logits\<close>

definition FLOAT32_MAX :: real where
  "FLOAT32_MAX = (2 - 1 / 2 ^ 23) * 2 ^ 127"

definition MASK_FILL :: real where
  "MASK_FILL = - FLOAT32_MAX / 2"

definition mask_logits :: "real list \<Rightarrow> int list option \<Rightarrow> real list" where
  "mask_logits logits m =
     (case m of
        None \<Rightarrow> logits
      | Some m \<Rightarrow>
          if length m \<noteq> length logits then logits
          else
            (let safe_mask = (if list_ex (\<lambda>x. x \<noteq> 0) m then m else replicate (length m) 1)
             in map2 (\<lambda>l b. if b \<noteq> 0 then l else MASK_FILL) logits safe_mask))"

section \<open>The categorical distribution\<close>

text \<open>Below half of the least positive single-precision number the exponential is zero.\<close>

definition exp32 :: "real \<Rightarrow> real" where
  "exp32 x = (if exp x < 1 / 2 ^ 150 then 0 else exp x)"

definition max_of :: "real list \<Rightarrow> real" where
  "max_of zs = Max (set zs)"

definition weights :: "real list \<Rightarrow> real list" where
  "weights zs = map (\<lambda>z. exp32 (z - max_of zs)) zs"

definition softmax :: "real list \<Rightarrow> real list" where
  "softmax zs = map (\<lambda>e. e / sum_list (weights zs)) (weights zs)"

definition logsumexp :: "real list \<Rightarrow> real" where
  "logsumexp zs = max_of zs + ln (sum_list (weights zs))"

definition cat_log_prob :: "real list \<Rightarrow> nat \<Rightarrow> real" where
  "cat_log_prob zs a = zs ! a - logsumexp zs"

definition cat_entropy :: "real list \<Rightarrow> real" where
  "cat_entropy zs = - sum_list (map2 (\<lambda>z p. (z - logsumexp zs) * p) zs (softmax zs))"

lemma length_softmax [simp]: "length (softmax zs) = length zs"
  by (simp add: softmax_def weights_def)

lemma softmax_Nil [simp]: "softmax zs = [] \<longleftrightarrow> zs = []"
  by (simp flip: length_0_conv)

lemma exp32_nonneg [simp]: "0 \<le> exp32 x"
  by (simp add: exp32_def)

lemma exp32_0 [simp]: "exp32 0 = 1"
  by (simp add: exp32_def)

lemma weights_nonneg: "\<forall>e\<in>set (weights zs). 0 \<le> e"
  by (auto simp: weights_def)

lemma weights_max:
  assumes "zs \<noteq> []"
  obtains i where "i < length zs" and "zs ! i = max_of zs" and "weights zs ! i = 1"
proof -
  have "max_of zs \<in> set zs" using assms by (simp add: max_of_def)
  then obtain i where "i < length zs" "zs ! i = max_of zs" by (auto simp: in_set_conv_nth)
  then show thesis by (intro that [of i]) (simp_all add: weights_def)
qed

lemma weights_sum_ge_1:
  assumes "zs \<noteq> []"
  shows "1 \<le> sum_list (weights zs)"
proof (rule weights_max [OF assms])
  fix i
  assume "i < length zs" "weights zs ! i = 1"
  then have "1 \<in> set (weights zs)" using nth_mem [of i "weights zs"] by (simp add: weights_def)
  then show ?thesis by (rule member_le_sum_list_real [OF weights_nonneg])
qed

lemma softmax_distribution:
  assumes "zs \<noteq> []"
  shows "sum_list (softmax zs) = 1" and "\<forall>p\<in>set (softmax zs). 0 \<le> p \<and> p \<le> 1"
proof -
  let ?s = "sum_list (weights zs)"
  have s: "1 \<le> ?s" by (rule weights_sum_ge_1 [OF assms])
  have "sum_list (softmax zs) = ?s / ?s"
    using sum_list_map_divide [of "\<lambda>e. e" ?s "weights zs"] by (simp add: softmax_def)
  then show "sum_list (softmax zs) = 1" using s by simp
  show "\<forall>p\<in>set (softmax zs). 0 \<le> p \<and> p \<le> 1"
  proof
    fix p
    assume "p \<in> set (softmax zs)"
    then obtain e where e: "e \<in> set (weights zs)" "p = e / ?s" by (auto simp: softmax_def)
    then have "0 \<le> e" "e \<le> ?s"
      using weights_nonneg member_le_sum_list_real [OF weights_nonneg] by blast+
    then show "0 \<le> p \<and> p \<le> 1" using e(2) s by (simp add: divide_le_eq)
  qed
qed

text \<open>A network row is in the range the mask is made for: above the fill value with a margin.\<close>

definition logits_ok :: "real list \<Rightarrow> nat \<Rightarrow> bool" where
  "logits_ok logits n \<longleftrightarrow> length logits = n \<and> (\<forall>l\<in>set logits. MASK_FILL + 151 \<le> l)"

lemma exp32_fill: "MASK_FILL + 151 \<le> m \<Longrightarrow> exp32 (MASK_FILL - m) = 0"
proof -
  assume "MASK_FILL + 151 \<le> m"
  then have "exp (MASK_FILL - m) \<le> exp (- 151)" by simp
  also have "exp (- 151 :: real) = 1 / exp 1 ^ 151" by (simp add: exp_minus field_simps flip: exp_of_nat_mult)
  also have "\<dots> \<le> 1 / 2 ^ 151"
    using exp_ge_add_one_self [of "1 :: real"] by (intro divide_left_mono power_mono) auto
  also have "\<dots> < 1 / 2 ^ 150" by (simp add: field_simps)
  finally show ?thesis by (simp add: exp32_def)
qed

lemma masked_row:
  fixes mk :: "'a::linordered_idom list option"
  assumes "logits_ok logits (nat n)" and "0 < n"
  defines "zs \<equiv> mask_logits logits (Some (normalize_action_mask mk n))"
  shows "length zs = nat n"
    and "\<And>i. i < nat n \<Longrightarrow> zs ! i = (if action_allowed mk (int i) n then logits ! i else MASK_FILL)"
    and "MASK_FILL + 151 \<le> max_of zs"
proof -
  let ?m = "normalize_action_mask mk n"
  obtain j where j: "j < nat n" "?m ! j = 1" using normalize_has_one [OF assms(2)] by blast
  then have "list_ex (\<lambda>x. x \<noteq> 0) ?m" by (auto simp: list_ex_length)
  then have zs: "zs = map2 (\<lambda>l b. if b \<noteq> 0 then l else MASK_FILL) logits ?m"
    using assms(1) by (simp add: zs_def mask_logits_def logits_ok_def)
  then show len: "length zs = nat n" using assms(1) by (simp add: logits_ok_def)
  show nth: "zs ! i = (if action_allowed mk (int i) n then logits ! i else MASK_FILL)" if "i < nat n" for i
    using that zs assms(1) normalize_nth_01 [of i n mk] by (auto simp: logits_ok_def action_allowed_iff)
  have "zs ! j = logits ! j" using j zs assms(1) by (simp add: logits_ok_def)
  moreover have "MASK_FILL + 151 \<le> logits ! j" using j assms(1) by (simp add: logits_ok_def)
  moreover have "zs ! j \<le> max_of zs" using j len by (simp add: max_of_def)
  ultimately show "MASK_FILL + 151 \<le> max_of zs" by simp
qed

text \<open>Only allowed actions have a positive probability.\<close>

lemma softmax_support:
  assumes "logits_ok logits (nat n)" and "0 < n" and "i < nat n"
    and "0 < softmax (mask_logits logits (Some (normalize_action_mask mk n))) ! i"
  shows "action_allowed mk (int i) n"
proof (rule ccontr)
  let ?zs = "mask_logits logits (Some (normalize_action_mask mk n))"
  note row = masked_row [OF assms(1,2), where mk = mk]
  assume "\<not> ?thesis"
  then have "weights ?zs ! i = 0" using row assms(3) by (simp add: weights_def exp32_fill)
  then have "softmax ?zs ! i = 0" using row(1) assms(3) by (simp add: softmax_def weights_def)
  then show False using assms(4) by simp
qed

lemma argmax_positive:
  fixes key :: string and enable :: bool
  assumes "zs \<noteq> []" and "eps \<le> 0"
  defines "k \<equiv> tie_aware_argmax (softmax zs) key eps enable"
  shows "k < length zs" and "0 < softmax zs ! k"
proof -
  obtain i where i: "i < length zs" "weights zs ! i = 1" by (rule weights_max [OF assms(1)])
  then have pos: "0 < softmax zs ! i"
    using weights_sum_ge_1 [OF assms(1)] by (simp add: softmax_def) (simp add: weights_def)
  have "softmax zs \<noteq> []" using assms(1) by (simp flip: length_greater_0_conv)
  from tie_aware_argmax_near_max [OF this, of key eps enable, folded k_def]
  have "k < length zs" "\<forall>j<length zs. softmax zs ! j - max 0 eps \<le> softmax zs ! k" by auto
  moreover have "max 0 eps = 0" using assms(2) by simp
  ultimately have "k < length zs" "softmax zs ! i \<le> softmax zs ! k" using i(1) by auto
  then show "k < length zs" "0 < softmax zs ! k" using pos by simp_all
qed

section \<open>The fallback policy on arbitrary floats\<close>

definition heuristic_scores_float :: "pyfloat list \<Rightarrow> nat \<Rightarrow> pyfloat list" where
  "heuristic_scores_float state shards =
     (if length state < 11 * shards + 1 then replicate shards (Fin 0)
      else
        (let sender_pos = take shards (drop (10 * shards) state);
             loads = map (\<lambda>sid. fsum (map (\<lambda>w. state ! (w * shards + sid)) [0..<5])) [0..<shards]
         in map (\<lambda>sid. - (loads ! sid) +
                       (if sid < length sender_pos then Fin 1000 * sender_pos ! sid else Fin 0))
              [0..<shards]))"

text \<open>\<open>best_allowed_action\<close>; its first best score is minus infinity.\<close>

definition best_step_float ::
  "pyfloat list \<Rightarrow> int list \<Rightarrow> nat \<Rightarrow> nat \<times> pyfloat \<Rightarrow> nat \<times> pyfloat" where
  "best_step_float scores normalized sid best =
     (if sid \<ge> length normalized \<or> normalized ! sid \<le> 0 then best
      else
        (let score = (if sid < length scores then scores ! sid else Fin 0)
         in if snd best < score then (sid, score) else best))"

definition best_allowed_float :: "pyfloat list \<Rightarrow> int list \<Rightarrow> nat \<Rightarrow> nat" where
  "best_allowed_float scores normalized shards =
     fst (fold (best_step_float scores normalized) [0..<shards] (0, NInf))"

definition heuristic_float :: "pyfloat list \<Rightarrow> nat \<Rightarrow> int list \<Rightarrow> nat" where
  "heuristic_float state shards m = best_allowed_float (heuristic_scores_float state shards) m shards"

fun score_float :: "real option \<Rightarrow> pyfloat" where
  "score_float None = NInf"
| "score_float (Some x) = Fin x"

lemma best_allowed_float_finite:
  "fold (best_step_float (map Fin scores) m) ks (k, score_float b) =
     (let (k', b') = fold (best_step scores m) ks (k, b) in (k', score_float b'))"
proof (induction ks arbitrary: k b)
  case Nil
  then show ?case by simp
next
  case (Cons i ks)
  have "best_step_float (map Fin scores) m i (k, score_float b) =
      (let (k', b') = best_step scores m i (k, b) in (k', score_float b'))"
    by (cases b) (auto simp: best_step_float_def best_step_def Let_def)
  then show ?case using Cons.IH by (cases "best_step scores m i (k, b)") simp
qed

lemma heuristic_scores_finite:
  "heuristic_scores_float (map Fin state) shards = map Fin (heuristic_scores_from_state state shards)"
proof (cases "length state < 11 * shards + 1")
  case True
  then show ?thesis by (simp add: heuristic_scores_float_def heuristic_scores_from_state_def)
next
  case False
  have load: "fsum (map (\<lambda>w. map Fin state ! (w * shards + sid)) [0..<5]) =
      Fin (sum_list (map (\<lambda>w. take (5 * shards) state ! (w * shards + sid)) [0..<5]))" if sid: "sid < shards" for sid
  proof -
    have lt: "w * shards + sid < 5 * shards" if "w < 5" for w
    proof -
      have "w * shards + sid < Suc w * shards" using sid by simp
      also have "\<dots> \<le> 5 * shards" using that by (intro mult_le_mono1) simp
      finally show ?thesis .
    qed
    have "map (\<lambda>w. map Fin state ! (w * shards + sid)) [0..<5] =
        map Fin (map (\<lambda>w. take (5 * shards) state ! (w * shards + sid)) [0..<5])"
    proof (intro nth_equalityI)
      fix w
      assume "w < length (map (\<lambda>w. map Fin state ! (w * shards + sid)) [0..<5])"
      then have w: "w < 5" by simp
      then have "w * shards + sid < length state" using lt [OF w] False by linarith
      then show "map (\<lambda>w. map Fin state ! (w * shards + sid)) [0..<5] ! w =
          map Fin (map (\<lambda>w. take (5 * shards) state ! (w * shards + sid)) [0..<5]) ! w"
        using w lt [OF w] by simp
    qed simp
    then show ?thesis by (simp only: fsum_Fin)
  qed
  show ?thesis
    using False load
    by (auto simp: heuristic_scores_float_def heuristic_scores_from_state_def window_loads_def Let_def
        take_map drop_map)
qed

text \<open>On finite states the fallback is the policy of the offline environment.\<close>

lemma heuristic_float_finite:
  assumes "0 < shards"
  shows "heuristic_float (map Fin state) shards (normalize_action_mask mk (int shards)) =
    heuristic_from_state state shards mk"
  using assms best_allowed_float_finite [of _ _ _ 0 None]
  by (simp add: heuristic_float_def heuristic_from_state_def best_allowed_float_def best_allowed_action_def
      heuristic_scores_finite Let_def split: prod.split)

lemma best_step_float_range:
  "fst best < Suc n \<Longrightarrow> i \<le> n \<Longrightarrow> fst (best_step_float scores m i best) < Suc n"
  by (auto simp: best_step_float_def Let_def)

lemma heuristic_float_range:
  assumes "0 < shards"
  shows "heuristic_float state shards m < shards"
proof -
  have "fst (fold (best_step_float scores m) is b) < Suc n" if "fst b < Suc n" "\<forall>i\<in>set is. i \<le> n" for scores "is" b n
    using that by (induction "is" arbitrary: b) (simp_all add: best_step_float_range)
  moreover have "\<forall>i\<in>set [0..<shards]. i \<le> shards - 1" by auto
  ultimately have "fst (fold (best_step_float (heuristic_scores_float state shards) m) [0..<shards] (0, NInf)) <
      Suc (shards - 1)"
    by simp
  then show ?thesis using assms by (simp add: heuristic_float_def best_allowed_float_def)
qed

end
