(* ===== verification/Inference.thy ===== *)
theory Inference
  imports Agent Logits
begin

text \<open>
  The inference entries: the persistent server \<open>infer_server.py\<close> with its cache of the loaded
  agent, the one-shot batch \<open>infer_batch.py\<close> and the single query \<open>infer.py\<close>.

  The file system of the server is a map from model paths to the file's content and its
  modification time. It is shared: other processes (the online update, a training run) may act on
  it at each of the accesses of a request. Arguments are the library \<open>lib\<close> of torch, \<open>dumps\<close>
  (the JSON text of a configuration with sorted keys), \<open>draw\<close> (one action per row of
  probabilities, and the next state of the random generator), \<open>to_str\<close> (Python's \<open>str\<close> of a
  value that is not a text), \<open>decode\<close> and \<open>loads\<close> (the text of an input line and the value of a
  JSON text), and \<open>encode\<close> (the line of bytes of a response).
\<close>

section \<open>Requests\<close>

record item =
  it_address :: string
  it_related :: string
  it_state :: "pyfloat list"
  it_action_mask :: "pyval list"

definition py_str :: "(pyval \<Rightarrow> string) \<Rightarrow> pyval \<Rightarrow> string" where
  "py_str to_str v = (case v of VStr s \<Rightarrow> s | _ \<Rightarrow> to_str v)"

definition list_or_nil :: "pyval \<Rightarrow> pyval list" where
  "list_or_nil v = (case as_list v of None \<Rightarrow> [] | Some xs \<Rightarrow> xs)"

definition make_item :: "(pyval \<Rightarrow> string) \<Rightarrow> dict \<Rightarrow> item result" where
  "make_item to_str raw =
     bind_result (traverse float_of (list_or_nil (dict_get raw ''state'' (VList [])))) (\<lambda>state.
       return \<lparr>it_address = py_str to_str (dict_get raw ''address'' (VStr [])),
               it_related = py_str to_str (dict_get raw ''related'' (VStr [])),
               it_state = state,
               it_action_mask = list_or_nil (dict_get raw ''action_mask'' (VList []))\<rparr>)"

definition normalize_items :: "(pyval \<Rightarrow> string) \<Rightarrow> pyval \<Rightarrow> item list result" where
  "normalize_items to_str raw_items =
     (case as_list raw_items of
        None \<Rightarrow> return []
      | Some raws \<Rightarrow> traverse (make_item to_str) (List.map_filter as_dict raws))"

text \<open>\<open>normalize_action_mask\<close> on the values of a request: only the first \<open>shards\<close> are converted.\<close>

definition request_mask :: "pyval list \<Rightarrow> int \<Rightarrow> int list result" where
  "request_mask vals shards =
     bind_result (traverse float_of (take (nat shards) vals)) (\<lambda>xs.
       return (normalize_action_mask (Some (map (\<lambda>x. if Fin 0 < x then 1 else 0 :: int) xs)) shards))"

section \<open>Answers\<close>

datatype reason =
    NoModel
  | ModelDimMismatch int int int int
  | ConfigMismatch "mismatch list"
  | LoadFailed exn
  | DimMismatch
  | BadAction
  | UnknownOutput
  | SafeDefault

datatype infer_source = PythonPpo | PythonHeuristic reason | SafeDefaultAction

record prediction =
  an_address :: string
  an_related :: string
  an_shard :: int
  an_source :: infer_source
  an_confidence :: real
  an_entropy :: real
  an_log_prob :: real
  an_value :: real

record answer = prediction +
  an_batch_id :: int

definition safe_heuristic :: "item \<Rightarrow> int \<Rightarrow> reason \<Rightarrow> int \<Rightarrow> answer result" where
  "safe_heuristic it shards why request_id =
     bind_result (request_mask (it_action_mask it) shards) (\<lambda>m.
       let shard = int (heuristic_float (it_state it) (nat shards) m);
           bad = (shard < 0 \<or> shard \<ge> shards)
       in return \<lparr>an_address = it_address it, an_related = it_related it,
            an_shard = (if bad then 0 else shard),
            an_source = PythonHeuristic (if bad then SafeDefault else why),
            an_confidence = 0, an_entropy = 0, an_log_prob = 0, an_value = 0, an_batch_id = request_id\<rparr>)"

section \<open>The cached agent\<close>

record 'w agent_cache =
  ac_agent :: "'w agent option"
  ac_shards :: int
  ac_state_dim :: int
  ac_model_path :: string
  ac_model_mtime_ns :: int
  ac_signature :: string

type_synonym 'w model_store = "string \<rightharpoonup> 'w payload result \<times> int"

definition new_cache :: "'w agent_cache" where
  "new_cache = \<lparr>ac_agent = None, ac_shards = -1, ac_state_dim = -1, ac_model_path = [],
     ac_model_mtime_ns = -1, ac_signature = []\<rparr>"

text \<open>
  The circumstances of a request: its time, the initial weights that torch draws for a network
  built in it, and what other processes do to the files before each of its accesses. The accesses
  are numbered in the order of the code: \<open>exists\<close> and \<open>stat\<close> of the first \<open>_model_mtime\<close> (0
  and 1), \<open>exists\<close> (2), \<open>torch.load\<close> or \<open>agent.save\<close> (3), \<open>exists\<close> and \<open>stat\<close> of the
  second \<open>_model_mtime\<close> (4 and 5).
\<close>

record 'w moment =
  mo_now :: int
  mo_fresh :: "int \<Rightarrow> int \<Rightarrow> 'w result"
  mo_others :: "nat \<Rightarrow> 'w model_store \<Rightarrow> 'w model_store"

text \<open>The file may disappear between \<open>exists\<close>, in the first store, and \<open>stat\<close>, in the second.\<close>

definition model_mtime :: "'w model_store \<Rightarrow> 'w model_store \<Rightarrow> string \<Rightarrow> int result" where
  "model_mtime fs fs' path =
     (if fs path = None then return (-1)
      else (case fs' path of None \<Rightarrow> raise FileNotFoundError | Some (_, t) \<Rightarrow> return t))"

text \<open>
  The mechanism of an expected configuration. A version that is not a text is neither legacy nor
  v3, and a layout of another type is none of the known ones.
\<close>

definition expected_version :: "dict \<Rightarrow> string" where
  "expected_version expected =
     (case dict_get expected ''mechanism_version'' (VStr ''legacy'') of VStr s \<Rightarrow> s | _ \<Rightarrow> [])"

definition expected_layout :: "dict \<Rightarrow> string option" where
  "expected_layout expected =
     (case dict_get expected ''state_layout'' VNone of VNone \<Rightarrow> None | VStr s \<Rightarrow> Some s | _ \<Rightarrow> Some [])"

definition expected_input_dim :: "int \<Rightarrow> int \<Rightarrow> dict \<Rightarrow> int result" where
  "expected_input_dim shards iot_feature_dim expected =
     input_dim shards iot_feature_dim (expected_version expected) (expected_layout expected)"

text \<open>The part of \<open>get_agent\<close> in its \<open>try\<close> block: the loaded agent or the reason it is not used.\<close>

definition load_compatible ::
  "('w, 'l) torch_lib \<Rightarrow> int \<Rightarrow> int \<Rightarrow> dict \<Rightarrow> 'w payload result \<Rightarrow> 'w agent \<Rightarrow> reason + 'w agent" where
  "load_compatible lib expected_dim shards expected content agent =
     (case content of
        Inl e \<Rightarrow> Inl (LoadFailed e)
      | Inr p \<Rightarrow>
          (case payload_dims p of
             Inl e \<Rightarrow> Inl (LoadFailed e)
           | Inr (sdim, adim) \<Rightarrow>
               if sdim \<noteq> expected_dim \<or> adim \<noteq> shards
               then Inl (ModelDimMismatch sdim adim expected_dim shards)
               else
                 (case payload_extra p of
                    Inl e \<Rightarrow> Inl (LoadFailed e)
                  | Inr extra \<Rightarrow>
                      (let mismatches = checkpoint_config_mismatches (map_of extra) expected
                       in if mismatches \<noteq> [] then Inl (ConfigMismatch mismatches)
                          else
                            (case load_weights lib p agent of
                               (Inl e, _) \<Rightarrow> Inl (LoadFailed e)
                             | (Inr _, agent) \<Rightarrow> Inr agent)))))"

definition cache_hit :: "'w agent_cache \<Rightarrow> int \<Rightarrow> int \<Rightarrow> string \<Rightarrow> int \<Rightarrow> string \<Rightarrow> bool" where
  "cache_hit c shards expected_dim path mtime signature \<longleftrightarrow>
     ac_agent c \<noteq> None \<and> ac_shards c = shards \<and> ac_state_dim c = expected_dim \<and>
     ac_model_path c = path \<and> ac_model_mtime_ns c = mtime \<and> ac_signature c = signature"

definition create_fresh_agent :: "('w, 'l) torch_lib \<Rightarrow> 'w moment \<Rightarrow> int \<Rightarrow> int \<Rightarrow> 'w agent result" where
  "create_fresh_agent lib mo expected_dim shards = make_agent (lib\<lparr>tl_fresh := mo_fresh mo\<rparr>) expected_dim shards"

text \<open>
  The end of \<open>get_agent\<close>: the agent is remembered with the modification time that the file has
  now. If that cannot be read, the fields assigned before stay assigned.
\<close>

definition remember ::
  "'w moment \<Rightarrow> 'w agent \<Rightarrow> int \<Rightarrow> int \<Rightarrow> string \<Rightarrow> string \<Rightarrow> 'w agent_cache \<Rightarrow> 'w model_store \<Rightarrow>
   (reason + 'w agent) result \<times> 'w agent_cache \<times> 'w model_store" where
  "remember mo agent shards expected_dim path signature c fs =
     (let c = c\<lparr>ac_agent := Some agent, ac_shards := shards, ac_state_dim := expected_dim, ac_model_path := path\<rparr>;
          fs4 = mo_others mo 4 fs;
          fs5 = mo_others mo 5 fs4
      in case model_mtime fs4 fs5 path of
           Inl e \<Rightarrow> (raise e, c, fs5)
         | Inr t \<Rightarrow> (return (Inr agent), c\<lparr>ac_model_mtime_ns := t, ac_signature := signature\<rparr>, fs5))"

definition init_extra :: "dict \<Rightarrow> int \<Rightarrow> dict" where
  "init_extra expected iot_feature_dim = dict_merge expected
     [(''model_source'', VStr ''init_by_infer_server''), (''online_update_count'', VInt 0),
      (''iot_feature_dim'', VInt iot_feature_dim)]"

text \<open>The part of \<open>get_agent\<close> after a miss: a new model is written, or the file is loaded.\<close>

definition reload_agent ::
  "('w, 'l) torch_lib \<Rightarrow> 'w moment \<Rightarrow> int \<Rightarrow> int \<Rightarrow> string \<Rightarrow> int \<Rightarrow> bool \<Rightarrow> dict \<Rightarrow> string \<Rightarrow>
   'w agent_cache \<Rightarrow> 'w model_store \<Rightarrow> (reason + 'w agent) result \<times> 'w agent_cache \<times> 'w model_store" where
  "reload_agent lib mo shards expected_dim path iot_feature_dim allow_model_init expected signature c fs1 =
     (let fs2 = mo_others mo 2 fs1
      in if fs2 path = None \<and> \<not> allow_model_init then (return (Inl NoModel), c, fs2)
         else
           (case create_fresh_agent lib mo expected_dim shards of
              Inl e \<Rightarrow> (raise e, c, fs2)
            | Inr agent \<Rightarrow>
                (let fs3 = mo_others mo 3 fs2
                 in if fs2 path = None then
                      remember mo agent shards expected_dim path signature c
                        (fs3(path \<mapsto> (return (agent_save agent (init_extra expected iot_feature_dim)), mo_now mo)))
                    else
                      (case load_compatible lib expected_dim shards expected
                          (case fs3 path of None \<Rightarrow> raise FileNotFoundError | Some (content, _) \<Rightarrow> content) agent of
                         Inl why \<Rightarrow> (return (Inl why), c, fs3)
                       | Inr agent \<Rightarrow> remember mo agent shards expected_dim path signature c fs3))))"

text \<open>The agent or the reason it is not used, the cache and the files after the call.\<close>

definition get_agent ::
  "('w, 'l) torch_lib \<Rightarrow> (dict \<Rightarrow> string) \<Rightarrow> 'w moment \<Rightarrow> int \<Rightarrow> string \<Rightarrow> int \<Rightarrow> bool \<Rightarrow> dict \<Rightarrow>
   'w agent_cache \<Rightarrow> 'w model_store \<Rightarrow> (reason + 'w agent) result \<times> 'w agent_cache \<times> 'w model_store" where
  "get_agent lib dumps mo shards path iot_feature_dim allow_model_init expected c fs =
     (case expected_input_dim shards iot_feature_dim expected of
        Inl e \<Rightarrow> (raise e, c, fs)
      | Inr expected_dim \<Rightarrow>
          (let fs0 = mo_others mo 0 fs; fs1 = mo_others mo 1 fs0
           in case model_mtime fs0 fs1 path of
                Inl e \<Rightarrow> (raise e, c, fs1)
              | Inr current_mtime \<Rightarrow>
                  (let signature = dumps expected
                   in case (if cache_hit c shards expected_dim path current_mtime signature then ac_agent c else None) of
                        Some agent \<Rightarrow> (return (Inr agent), c, fs1)
                      | None \<Rightarrow>
                          reload_agent lib mo shards expected_dim path iot_feature_dim allow_model_init expected
                            signature c fs1)))"

section \<open>Inference on a list of items\<close>

definition ARGMAX_TIE_EPS :: real where
  "ARGMAX_TIE_EPS = 0"

definition ARGMAX_TIE_BREAK :: bool where
  "ARGMAX_TIE_BREAK = True"

text \<open>The first loop: an item with a state of the wrong size is answered at once.\<close>

definition triage :: "int \<Rightarrow> int \<Rightarrow> int \<Rightarrow> dict \<Rightarrow> item \<Rightarrow> (answer + item \<times> int list) result" where
  "triage expected_dim shards request_id expected it =
     (if int (length (it_state it)) \<noteq> expected_dim then
        (if expected \<noteq> [] then raise RuntimeError
         else bind_result (safe_heuristic it shards DimMismatch request_id) (\<lambda>a. return (Inl a)))
      else bind_result (request_mask (it_action_mask it) shards) (\<lambda>m. return (Inr (it, m))))"

definition row_logits ::
  "('w, 'l) torch_lib \<Rightarrow> 'w agent \<Rightarrow> item \<times> int list \<Rightarrow> (real list \<times> real) result" where
  "row_logits lib agent r =
     (case tl_forward lib (ag_net agent) (it_state (fst r)) of
        None \<Rightarrow> raise ValueError
      | Some (logits, v) \<Rightarrow> return (mask_logits logits (Some (snd r)), v))"

definition argmax_key :: "item \<Rightarrow> string" where
  "argmax_key it = it_address it @ ''|'' @ it_related it"

definition row_answer :: "int \<Rightarrow> int \<Rightarrow> (item \<times> int list) \<times> (real list \<times> real) \<times> int \<Rightarrow> answer result" where
  "row_answer shards request_id r =
     (case r of ((it, _), (masked, v), shard) \<Rightarrow>
        if shard < 0 \<or> shard \<ge> shards then safe_heuristic it shards BadAction request_id
        else return \<lparr>an_address = it_address it, an_related = it_related it, an_shard = shard,
          an_source = PythonPpo, an_confidence = softmax masked ! nat shard, an_entropy = cat_entropy masked,
          an_log_prob = cat_log_prob masked (nat shard), an_value = v, an_batch_id = request_id\<rparr>)"

text \<open>\<open>dist.log_prob\<close> rejects an action outside the distribution.\<close>

definition in_support :: "real list \<times> real \<Rightarrow> int \<Rightarrow> bool" where
  "in_support n a \<longleftrightarrow> 0 \<le> a \<and> a < int (length (fst n))"

definition infer_rows ::
  "('w, 'l) torch_lib \<Rightarrow> ('r \<Rightarrow> real list list \<Rightarrow> int list \<times> 'r) \<Rightarrow> 'w agent \<Rightarrow> int \<Rightarrow> bool \<Rightarrow> int \<Rightarrow>
   (item \<times> int list) list \<Rightarrow> 'r \<Rightarrow> answer list result \<times> 'r" where
  "infer_rows lib draw agent shards sample request_id rs rng =
     (if rs = [] then (return [], rng)
      else
        (case traverse (row_logits lib agent) rs of
           Inl e \<Rightarrow> (raise e, rng)
         | Inr nets \<Rightarrow>
             (let probs = map (softmax \<circ> fst) nets;
                  (actions, rng) =
                    (if sample then draw rng probs
                     else (map2 (\<lambda>r p. int (tie_aware_argmax p (argmax_key (fst r)) ARGMAX_TIE_EPS ARGMAX_TIE_BREAK))
                             rs probs, rng))
              in (bind_result (check (list_all2 in_support nets actions) ValueError) (\<lambda>_.
                    traverse (row_answer shards request_id) (zip rs (zip nets actions))), rng))))"

text \<open>The answers of the rows at the places of their items.\<close>

fun fill_outputs :: "(item \<Rightarrow> 'a result) \<Rightarrow> ('a + item \<times> int list) list \<Rightarrow> 'a list \<Rightarrow> 'a list result" where
  "fill_outputs fallback [] as = return []"
| "fill_outputs fallback (Inl a # cs) as =
     bind_result (fill_outputs fallback cs as) (\<lambda>rest. return (a # rest))"
| "fill_outputs fallback (Inr r # cs) (a # as) =
     bind_result (fill_outputs fallback cs as) (\<lambda>rest. return (a # rest))"
| "fill_outputs fallback (Inr r # cs) [] =
     bind_result (fallback (fst r)) (\<lambda>a.
     bind_result (fill_outputs fallback cs []) (\<lambda>rest. return (a # rest)))"

definition rows_of :: "('a + item \<times> int list) list \<Rightarrow> (item \<times> int list) list" where
  "rows_of cs = List.map_filter (\<lambda>c. case c of Inl _ \<Rightarrow> None | Inr r \<Rightarrow> Some r) cs"

record ('w, 'r) server =
  sv_cache :: "'w agent_cache"
  sv_files :: "'w model_store"
  sv_rng :: 'r

text \<open>The items with the agent at hand: the answers, and the state of the generator.\<close>

definition infer_with_agent ::
  "('w, 'l) torch_lib \<Rightarrow> ('r \<Rightarrow> real list list \<Rightarrow> int list \<times> 'r) \<Rightarrow> 'w agent \<Rightarrow> int \<Rightarrow> item list \<Rightarrow> int \<Rightarrow> bool \<Rightarrow>
   int \<Rightarrow> dict \<Rightarrow> 'r \<Rightarrow> answer list result \<times> 'r" where
  "infer_with_agent lib draw agent expected_dim items shards sample request_id expected rng =
     (case traverse (triage expected_dim shards request_id expected) items of
        Inl e \<Rightarrow> (raise e, rng)
      | Inr cs \<Rightarrow>
          (let (as, rng) = infer_rows lib draw agent shards sample request_id (rows_of cs) rng
           in (bind_result as (fill_outputs (\<lambda>it. safe_heuristic it shards UnknownOutput request_id) cs), rng)))"

definition infer_items ::
  "('w, 'l) torch_lib \<Rightarrow> (dict \<Rightarrow> string) \<Rightarrow> ('r \<Rightarrow> real list list \<Rightarrow> int list \<times> 'r) \<Rightarrow> 'w moment \<Rightarrow> item list \<Rightarrow> int \<Rightarrow> bool \<Rightarrow>
   int \<Rightarrow> string \<Rightarrow> int \<Rightarrow> bool \<Rightarrow> dict \<Rightarrow> ('w, 'r) server \<Rightarrow> answer list result \<times> ('w, 'r) server" where
  "infer_items lib dumps draw mo items shards sample request_id path iot_feature_dim allow_model_init expected sv =
     (case expected_input_dim shards iot_feature_dim expected of
        Inl e \<Rightarrow> (raise e, sv)
      | Inr expected_dim \<Rightarrow>
          (let (found, c, fs) = get_agent lib dumps mo shards path iot_feature_dim allow_model_init expected
                 (sv_cache sv) (sv_files sv);
               sv = sv\<lparr>sv_cache := c, sv_files := fs\<rparr>
           in case found of
                Inl e \<Rightarrow> (raise e, sv)
              | Inr (Inl why) \<Rightarrow>
                  (if expected \<noteq> [] then raise RuntimeError
                   else traverse (\<lambda>it. safe_heuristic it shards why request_id) items, sv)
              | Inr (Inr agent) \<Rightarrow>
                  (let (as, rng) = infer_with_agent lib draw agent expected_dim items shards sample request_id
                         expected (sv_rng sv)
                   in (as, sv\<lparr>sv_rng := rng\<rparr>))))"

section \<open>The server\<close>

datatype failure = InvalidShards int | Exception exn

record response =
  rs_request_id :: int
  rs_items :: "answer list"
  rs_error :: "failure option"

record parsed_request =
  pr_request_id :: int
  pr_shards :: int
  pr_iot_feature_dim :: int

definition parse_request :: "dict \<Rightarrow> parsed_request result" where
  "parse_request req =
     bind_result (int_of (dict_get req ''request_id'' (VInt 0))) (\<lambda>request_id.
     bind_result (int_of (dict_get req ''shards'' (VInt 4))) (\<lambda>shards.
     bind_result (int_of (dict_get req ''iot_feature_dim'' (VInt 0))) (\<lambda>dim.
       return \<lparr>pr_request_id = request_id, pr_shards = shards, pr_iot_feature_dim = max 0 dim\<rparr>)))"

definition handle_request ::
  "('w, 'l) torch_lib \<Rightarrow> (dict \<Rightarrow> string) \<Rightarrow> ('r \<Rightarrow> real list list \<Rightarrow> int list \<times> 'r) \<Rightarrow> (pyval \<Rightarrow> string) \<Rightarrow> string \<Rightarrow>
   'w moment \<Rightarrow> pyval \<Rightarrow> ('w, 'r) server \<Rightarrow> response result \<times> ('w, 'r) server" where
  "handle_request lib dumps draw to_str MODEL_PATH mo reqv sv =
     (case bind_result (require_dict reqv) (\<lambda>req. bind_result (parse_request req) (\<lambda>p. return (req, p))) of
        Inl e \<Rightarrow> (raise e, sv)
      | Inr (req, p) \<Rightarrow>
          (let allow_model_init = truthy (dict_get req ''allow_model_init'' (VBool True));
               sample = truthy (dict_get req ''sample'' (VBool False));
               path = py_str to_str (dict_get req ''model'' (VStr MODEL_PATH));
               expected = (case as_dict (dict_get req ''expected_checkpoint'' (VDict [])) of None \<Rightarrow> [] | Some d \<Rightarrow> d)
           in if pr_shards p \<le> 0 then
                (return \<lparr>rs_request_id = pr_request_id p, rs_items = [],
                         rs_error = Some (InvalidShards (pr_shards p))\<rparr>, sv)
              else
                (case normalize_items to_str (dict_get req ''items'' (VList [])) of
                   Inl e \<Rightarrow> (raise e, sv)
                 | Inr items \<Rightarrow>
                     (let (outputs, sv) = infer_items lib dumps draw mo items (pr_shards p) sample (pr_request_id p)
                        path (pr_iot_feature_dim p) allow_model_init expected sv
                      in (bind_result outputs (\<lambda>items.
                            return \<lparr>rs_request_id = pr_request_id p, rs_items = items, rs_error = None\<rparr>), sv)))))"

definition serve_line ::
  "('w, 'l) torch_lib \<Rightarrow> (dict \<Rightarrow> string) \<Rightarrow> ('r \<Rightarrow> real list list \<Rightarrow> int list \<times> 'r) \<Rightarrow> (pyval \<Rightarrow> string) \<Rightarrow> string \<Rightarrow>
   (string \<Rightarrow> pyval result) \<Rightarrow> 'w moment \<Rightarrow> string \<Rightarrow> ('w, 'r) server \<Rightarrow> response \<times> ('w, 'r) server" where
  "serve_line lib dumps draw to_str MODEL_PATH loads mo line sv =
     (let (r, sv) = (case loads line of
                       Inl e \<Rightarrow> (raise e, sv)
                     | Inr req \<Rightarrow> handle_request lib dumps draw to_str MODEL_PATH mo req sv)
      in case r of
           Inr resp \<Rightarrow> (resp, sv)
         | Inl e \<Rightarrow> (\<lparr>rs_request_id = 0, rs_items = [], rs_error = Some (Exception e)\<rparr>, sv))"

text \<open>
  The loop of \<open>main\<close> over the input lines, each with the circumstances in which it is handled:
  the lines written, the exception that ends the loop, and the state. Decoding the line and
  encoding the response are outside the \<open>try\<close> block, so an exception there ends the server.
\<close>

fun server_main ::
  "('w, 'l) torch_lib \<Rightarrow> (dict \<Rightarrow> string) \<Rightarrow> ('r \<Rightarrow> real list list \<Rightarrow> int list \<times> 'r) \<Rightarrow> (pyval \<Rightarrow> string) \<Rightarrow> string \<Rightarrow>
   (string \<Rightarrow> pyval result) \<Rightarrow> ('raw \<Rightarrow> string result) \<Rightarrow> (response \<Rightarrow> 'out result) \<Rightarrow> ('w moment \<times> 'raw) list \<Rightarrow>
   ('w, 'r) server \<Rightarrow> 'out list \<times> exn option \<times> ('w, 'r) server" where
  "server_main lib dumps draw to_str MODEL_PATH loads decode encode [] sv = ([], None, sv)"
| "server_main lib dumps draw to_str MODEL_PATH loads decode encode ((mo, raw) # input) sv =
     (case decode raw of
        Inl e \<Rightarrow> ([], Some e, sv)
      | Inr text \<Rightarrow>
          (let line = py_strip text in
           if line = [] then server_main lib dumps draw to_str MODEL_PATH loads decode encode input sv
           else
             (let (resp, sv) = serve_line lib dumps draw to_str MODEL_PATH loads mo line sv
              in case encode resp of
                   Inl e \<Rightarrow> ([], Some e, sv)
                 | Inr out \<Rightarrow>
                     (let (outs, e, sv) = server_main lib dumps draw to_str MODEL_PATH loads decode encode input sv
                      in (out # outs, e, sv)))))"

section \<open>The batch entry\<close>

text \<open>\<open>load_input\<close> of \<open>infer_batch.py\<close>: unlike the server it does not skip a bad item.\<close>

definition load_batch_input :: "(pyval \<Rightarrow> string) \<Rightarrow> pyval result \<Rightarrow> (item list \<times> int) result" where
  "load_batch_input to_str input =
     bind_result input (\<lambda>v. bind_result (require_dict v) (\<lambda>data.
     bind_result (int_of (dict_get data ''shards'' (VInt 4))) (\<lambda>shards.
       case as_list (dict_get data ''items'' (VList [])) of
         None \<Rightarrow> raise ValueError
       | Some raws \<Rightarrow>
           bind_result (traverse (\<lambda>raw. bind_result (require_dict raw) (make_item to_str)) raws) (\<lambda>items.
             return (items, shards)))))"

definition batch_safe_heuristic :: "item \<Rightarrow> int \<Rightarrow> reason \<Rightarrow> prediction result" where
  "batch_safe_heuristic it shards why =
     bind_result (request_mask (it_action_mask it) shards) (\<lambda>m.
       let shard = int (heuristic_float (it_state it) (nat shards) m);
           bad = (shard < 0 \<or> shard \<ge> shards)
       in return \<lparr>an_address = it_address it, an_related = it_related it,
            an_shard = (if bad then 0 else shard),
            an_source = PythonHeuristic (if bad then SafeDefault else why),
            an_confidence = 0, an_entropy = 0, an_log_prob = 0, an_value = 0\<rparr>)"

text \<open>The agent and the model file after \<open>load_agent\<close> of \<open>infer_batch.py\<close>.\<close>

definition reset_model :: "'w agent \<Rightarrow> string \<Rightarrow> dict \<Rightarrow> 'w agent \<times> 'w model_file" where
  "reset_model agent model_source details =
     (agent, Some (return (agent_save agent
        ([(''model_source'', VStr model_source), (''online_update_count'', VInt 0)] @ details))))"

definition load_batch_agent ::
  "('w, 'l) torch_lib \<Rightarrow> int \<Rightarrow> 'w model_file \<Rightarrow> ('w agent \<times> 'w model_file) result" where
  "load_batch_agent lib shards model =
     bind_result (case model of None \<Rightarrow> return False | Some content \<Rightarrow> bind_result content is_v3) (\<lambda>v3.
       if v3 then raise ValueError
       else
         (let expected_dim = state_dim shards 0 in
          bind_result (make_agent lib expected_dim shards) (\<lambda>agent.
            case model of
              None \<Rightarrow> return (reset_model agent ''init_by_infer_batch'' [])
            | Some content \<Rightarrow>
                (case agent_load lib content agent of
                   (Inl e, _) \<Rightarrow>
                     bind_result (make_agent lib expected_dim shards) (\<lambda>agent.
                       return (reset_model agent ''reset_load_failed_by_infer_batch'' []))
                 | (Inr p, agent) \<Rightarrow>
                     bind_result (payload_dims p) (\<lambda>(sdim, adim).
                       if sdim \<noteq> expected_dim \<or> adim \<noteq> shards then
                         bind_result (make_agent lib expected_dim shards) (\<lambda>agent.
                           return (reset_model agent ''reset_dim_mismatch_by_infer_batch''
                             [(''old_state_dim'', VInt sdim), (''old_action_dim'', VInt adim),
                              (''new_state_dim'', VInt expected_dim), (''new_action_dim'', VInt shards)]))
                       else return (agent, model))))))"

definition batch_triage :: "int \<Rightarrow> int \<Rightarrow> item \<Rightarrow> (prediction + item \<times> int list) result" where
  "batch_triage expected_dim shards it =
     (if int (length (it_state it)) \<noteq> expected_dim
      then bind_result (batch_safe_heuristic it shards DimMismatch) (\<lambda>a. return (Inl a))
      else bind_result (request_mask (it_action_mask it) shards) (\<lambda>m. return (Inr (it, m))))"

definition batch_answer :: "int \<Rightarrow> (item \<times> int list) \<times> (real list \<times> real) \<times> int \<Rightarrow> prediction" where
  "batch_answer shards r =
     (case r of ((it, _), (masked, v), shard) \<Rightarrow>
        (let bad = (shard < 0 \<or> shard \<ge> shards) in
         \<lparr>an_address = it_address it, an_related = it_related it, an_shard = (if bad then 0 else shard),
          an_source = (if bad then SafeDefaultAction else PythonPpo),
          an_confidence = (if bad then 0 else softmax masked ! nat shard),
          an_entropy = (if bad then 0 else cat_entropy masked),
          an_log_prob = (if bad then 0 else cat_log_prob masked (nat shard)),
          an_value = (if bad then 0 else v)\<rparr>))"

definition infer_batch ::
  "('w, 'l) torch_lib \<Rightarrow> ('r \<Rightarrow> real list list \<Rightarrow> int list \<times> 'r) \<Rightarrow> item list \<Rightarrow> int \<Rightarrow> bool \<Rightarrow> 'w model_file \<Rightarrow> 'r \<Rightarrow>
   (prediction list \<times> 'w model_file) result" where
  "infer_batch lib draw items shards sample model rng =
     bind_result (load_batch_agent lib shards model) (\<lambda>(agent, model).
     bind_result (traverse (batch_triage (state_dim shards 0) shards) items) (\<lambda>cs.
       let rs = rows_of cs;
           finish = (\<lambda>ps. bind_result (fill_outputs (\<lambda>it. batch_safe_heuristic it shards UnknownOutput) cs ps) (\<lambda>out.
             return (out, model)))
       in if rs = [] then finish []
       else
         bind_result (traverse (row_logits lib agent) rs) (\<lambda>nets.
           let probs = map (softmax \<circ> fst) nets;
               actions = (if sample then fst (draw rng probs) else map (int \<circ> argmax) probs)
           in bind_result (check (list_all2 in_support nets actions) ValueError) (\<lambda>_.
                finish (map (batch_answer shards) (zip rs (zip nets actions)))))))"

section \<open>The single query\<close>

definition load_query :: "pyval result \<Rightarrow> (pyfloat list \<times> int) result" where
  "load_query input =
     bind_result input (\<lambda>v. bind_result (require_dict v) (\<lambda>data.
     bind_result (int_of (dict_get data ''shards'' (VInt 4))) (\<lambda>shards.
       case as_list (dict_get data ''state'' (VList [])) of
         None \<Rightarrow> raise ValueError
       | Some xs \<Rightarrow> bind_result (traverse float_of xs) (\<lambda>state. return (state, shards)))))"

text \<open>\<open>deterministic_action\<close>: the softmax of a row with NaN is NaN everywhere.\<close>

definition deterministic_action :: "('w, 'l) torch_lib \<Rightarrow> 'w agent \<Rightarrow> pyfloat list \<Rightarrow> int \<times> pyfloat" where
  "deterministic_action lib agent state =
     (case tl_forward lib (ag_net agent) state of
        None \<Rightarrow> (0, NaN)
      | Some (logits, _) \<Rightarrow>
          (let probs = softmax (mask_logits logits
             (Some (normalize_action_mask (None :: int list option) (ag_action_dim agent))))
           in (int (argmax probs), Fin (probs ! argmax probs))))"

definition infer_with_model ::
  "('w, 'l) torch_lib \<Rightarrow> pyfloat list \<Rightarrow> int \<Rightarrow> 'w model_file \<Rightarrow> (reason + int \<times> pyfloat) result" where
  "infer_with_model lib state shards model =
     (let expected_dim = state_dim shards 0 in
      if int (length state) \<noteq> expected_dim then return (Inl DimMismatch)
      else
        (case model of
           None \<Rightarrow> return (Inl NoModel)
         | Some content \<Rightarrow>
             bind_result (make_agent lib expected_dim shards) (\<lambda>agent.
               case agent_load lib content agent of
                 (Inl e, _) \<Rightarrow> raise e
               | (Inr p, agent) \<Rightarrow>
                   bind_result (payload_dims p) (\<lambda>(sdim, adim).
                     if sdim \<noteq> expected_dim \<or> adim \<noteq> shards
                     then return (Inl (ModelDimMismatch sdim adim expected_dim shards))
                     else return (Inr (deterministic_action lib agent state))))))"

definition infer_main ::
  "('w, 'l) torch_lib \<Rightarrow> pyval result \<Rightarrow> 'w model_file \<Rightarrow> (int \<times> infer_source \<times> pyfloat) result" where
  "infer_main lib input model =
     bind_result (load_query input) (\<lambda>(state, shards).
     bind_result (infer_with_model lib state shards model) (\<lambda>r.
       let (shard, source, confidence) =
             (case r of
                Inr (a, c) \<Rightarrow> (a, PythonPpo, c)
              | Inl why \<Rightarrow> (int (heuristic_float state (nat shards)
                    (normalize_action_mask (None :: int list option) shards)), PythonHeuristic why, Fin 0))
       in if shard < 0 \<or> shard \<ge> shards then return (0, SafeDefaultAction, Fin 0)
          else return (shard, source, confidence)))"

end
