(* ===== verification/InferenceTheorems.thy ===== *)
theory InferenceTheorems
  imports Inference
begin

text \<open>
  The inference server: request lines are answered in order, until a line cannot be decoded or a
  response cannot be encoded; every item with a finite state gets an answer on a shard that exists
  and that its mask allows; a request with an expected configuration is answered by the network of
  the model file or not at all; and the cached agent is the one a fresh load would give, unless a
  request was overtaken by a process that replaced its model.
\<close>

section \<open>Masks and the fallback\<close>

lemma request_mask_normal:
  assumes "request_mask vals shards = Inr m"
  shows "\<exists>xs :: int list. m = normalize_action_mask (Some xs) shards"
  using assms by (auto simp: request_mask_def result_simps)

definition answers_item :: "int \<Rightarrow> item \<Rightarrow> ('z) prediction_scheme \<Rightarrow> bool" where
  "answers_item shards it a \<longleftrightarrow> an_address a = it_address it \<and> an_related a = it_related it \<and>
     0 \<le> an_shard a \<and> an_shard a < shards \<and>
     (\<exists>m. request_mask (it_action_mask it) shards = Inr m \<and> m ! nat (an_shard a) = 1)"

lemma heuristic_float_allowed:
  assumes "0 < shards" and "list_all is_finite state" and "m = normalize_action_mask mk shards"
  shows "m ! heuristic_float state (nat shards) m = 1"
proof -
  obtain xs where xs: "state = map Fin xs" using fin_val_map assms(2) by blast
  have "action_allowed mk (int (heuristic_from_state xs (nat shards) mk)) shards"
    using heuristic_from_state_allowed [of "nat shards" mk xs] assms(1) by simp
  moreover have "heuristic_float state (nat shards) m = heuristic_from_state xs (nat shards) mk"
    using heuristic_float_finite [of "nat shards" xs mk] assms(1,3) xs by simp
  ultimately show ?thesis using assms(3) by (simp add: action_allowed_iff)
qed

lemma fallback_shard_ok:
  assumes "request_mask (it_action_mask it) shards = Inr m" and "0 < shards" and "list_all is_finite (it_state it)"
  shows "int (heuristic_float (it_state it) (nat shards) m) < shards"
    and "m ! heuristic_float (it_state it) (nat shards) m = 1"
proof -
  obtain xs :: "int list" where "m = normalize_action_mask (Some xs) shards" using request_mask_normal [OF assms(1)] by blast
  from heuristic_float_allowed [OF assms(2,3) this] show "m ! heuristic_float (it_state it) (nat shards) m = 1" .
  have "heuristic_float (it_state it) (nat shards) m < nat shards" by (rule heuristic_float_range) (use assms(2) in simp)
  then show "int (heuristic_float (it_state it) (nat shards) m) < shards" by linarith
qed

lemma safe_heuristic_answers:
  assumes "safe_heuristic it shards why rid = Inr a" and "0 < shards" and "list_all is_finite (it_state it)"
  shows "answers_item shards it a" and "an_batch_id a = rid"
  using assms fallback_shard_ok [OF _ assms(2,3)]
  by (auto simp: safe_heuristic_def Let_def answers_item_def result_simps)

section \<open>Answers of the network\<close>

text \<open>
  What the entries rely on of torch. \<open>fits s n w\<close> stands for: \<open>w\<close> are weights of a network with
  \<open>s\<close> inputs and \<open>n\<close> outputs. A network is built with the dimensions asked for, or not at all
  (\<open>builds\<close>); a strict \<open>load_state_dict\<close> that succeeds keeps the dimensions (\<open>keeps_shape\<close>);
  on a finite input, unless NaN appears, the network gives one logit per output, above the lowest
  number of single precision, which the mask uses (\<open>emits\<close>). Samples have positive probability.
\<close>

definition builds :: "(int \<Rightarrow> int \<Rightarrow> 'w \<Rightarrow> bool) \<Rightarrow> (int \<Rightarrow> int \<Rightarrow> 'w result) \<Rightarrow> bool" where
  "builds fits fresh \<longleftrightarrow> (\<forall>s n. case fresh s n of Inr w \<Rightarrow> fits s n w | Inl _ \<Rightarrow> \<forall>w. \<not> fits s n w)"

definition keeps_shape :: "('w, 'l) torch_lib \<Rightarrow> (int \<Rightarrow> int \<Rightarrow> 'w \<Rightarrow> bool) \<Rightarrow> bool" where
  "keeps_shape lib fits \<longleftrightarrow>
     (\<forall>s n w w' net. fits s n w \<longrightarrow> tl_load_state_dict lib w w' = (None, net) \<longrightarrow> fits s n net)"

definition emits :: "('w, 'l) torch_lib \<Rightarrow> (int \<Rightarrow> int \<Rightarrow> 'w \<Rightarrow> bool) \<Rightarrow> bool" where
  "emits lib fits \<longleftrightarrow> (\<forall>s n w xs logits v. fits s n w \<longrightarrow> list_all is_finite xs \<longrightarrow>
     tl_forward lib w xs = Some (logits, v) \<longrightarrow> logits_ok logits (nat n))"

text \<open>The same of one agent, and of a row: a mask and a finite state.\<close>

definition agent_ok :: "('w, 'l) torch_lib \<Rightarrow> nat \<Rightarrow> 'w agent \<Rightarrow> bool" where
  "agent_ok lib n agent \<longleftrightarrow> (\<forall>xs logits v. list_all is_finite xs \<longrightarrow>
     tl_forward lib (ag_net agent) xs = Some (logits, v) \<longrightarrow> logits_ok logits n)"

definition row_ok :: "int \<Rightarrow> item \<times> int list \<Rightarrow> bool" where
  "row_ok shards r \<longleftrightarrow> request_mask (it_action_mask (fst r)) shards = Inr (snd r) \<and> list_all is_finite (it_state (fst r))"

lemma agent_okI: "emits lib fits \<Longrightarrow> fits s (int n) (ag_net agent) \<Longrightarrow> agent_ok lib n agent"
  unfolding emits_def agent_ok_def by (metis nat_int)

definition draw_ok :: "('r \<Rightarrow> real list list \<Rightarrow> int list \<times> 'r) \<Rightarrow> bool" where
  "draw_ok draw \<longleftrightarrow> (\<forall>rng ps. (\<forall>p\<in>set ps. \<exists>i<length p. 0 < p ! i) \<longrightarrow>
     list_all2 (\<lambda>p a. 0 \<le> a \<and> nat a < length p \<and> 0 < p ! nat a) ps (fst (draw rng ps)))"

text \<open>The action chosen for a row has a positive probability.\<close>

definition row_action_ok :: "real list \<times> real \<Rightarrow> int \<Rightarrow> bool" where
  "row_action_ok n act \<longleftrightarrow> 0 \<le> act \<and> nat act < length (fst n) \<and> 0 < softmax (fst n) ! nat act"

text \<open>One row with its mask, its network output and the action chosen for it.\<close>

lemma row_shard_ok:
  assumes "0 < shards" and "agent_ok lib (nat shards) agent" and "row_ok shards (it, m)"
    and "row_logits lib agent (it, m) = Inr n" and "row_action_ok n act"
  shows "act < shards" and "m ! nat act = 1"
proof -
  obtain logits v where l: "tl_forward lib (ag_net agent) (it_state it) = Some (logits, v)"
    and mk: "fst n = mask_logits logits (Some m)"
    using assms(4) by (auto simp: row_logits_def split: option.splits)
  have ok: "logits_ok logits (nat shards)" using assms(2,3) l by (auto simp: agent_ok_def row_ok_def)
  obtain xs :: "int list" where m: "m = normalize_action_mask (Some xs) shards"
    using request_mask_normal assms(3) unfolding row_ok_def by fastforce
  have act: "0 \<le> act" "nat act < length (fst n)" "0 < softmax (fst n) ! nat act"
    using assms(5) by (simp_all add: row_action_ok_def)
  have len: "nat act < nat shards" using act(2) masked_row(1) [OF ok assms(1), where mk = "Some xs"] by (simp only: mk m)
  have "action_allowed (Some xs) (int (nat act)) shards"
    by (rule softmax_support [OF ok assms(1) len]) (use act(3) mk m in simp)
  then show "act < shards" "m ! nat act = 1" using act(1) m by (simp_all add: action_allowed_iff)
qed

lemma row_answer_ok:
  assumes "0 < shards" and "agent_ok lib (nat shards) agent" and "row_ok shards (it, m)"
    and "row_logits lib agent (it, m) = Inr n" and "row_action_ok n act"
    and "row_answer shards rid ((it, m), n, act) = Inr a"
  shows "answers_item shards it a" and "an_batch_id a = rid" and "an_source a = PythonPpo"
  using row_shard_ok [OF assms(1-5)] assms(3,5,6)
  by (auto simp: row_answer_def answers_item_def row_action_ok_def row_ok_def split: prod.splits)

lemma triage_cases:
  assumes "triage expected_dim shards rid expected it = Inr c"
  shows "case c of
      Inl a \<Rightarrow> expected = [] \<and> safe_heuristic it shards DimMismatch rid = Inr a
    | Inr (it', m) \<Rightarrow> it' = it \<and> request_mask (it_action_mask it) shards = Inr m"
  using assms by (auto simp: triage_def result_simps split: if_splits)

lemma list_all2_map2_same:
  "list_all2 P xs ys \<Longrightarrow> (\<And>x y. P x y \<Longrightarrow> Q y (f x (g y))) \<Longrightarrow> list_all2 Q ys (map2 f xs (map g ys))"
  by (induction rule: list_all2_induct) simp_all

lemma row_logits_nonempty:
  assumes "0 < shards" and "agent_ok lib (nat shards) agent" and "row_ok shards (it, m)"
    and "row_logits lib agent (it, m) = Inr n"
  shows "fst n \<noteq> []"
proof -
  obtain logits v where l: "tl_forward lib (ag_net agent) (it_state it) = Some (logits, v)"
    and n: "n = (mask_logits logits (Some m), v)"
    using assms(4) by (auto simp: row_logits_def split: option.splits)
  have ok: "logits_ok logits (nat shards)" using assms(2,3) l by (auto simp: agent_ok_def row_ok_def)
  obtain xs :: "int list" where m: "m = normalize_action_mask (Some xs) shards"
    using request_mask_normal assms(3) unfolding row_ok_def by fastforce
  have "length (fst n) = nat shards"
    using masked_row(1) [OF ok assms(1), where mk = "Some xs"] by (simp only: n m fst_conv)
  then show ?thesis using assms(1) by auto
qed

lemma chosen_actions_ok:
  assumes "0 < shards" and "agent_ok lib (nat shards) agent" and "draw_ok draw" and "list_all (row_ok shards) rs"
    and "traverse (row_logits lib agent) rs = Inr nets"
    and "(actions, rng') = (if sample then draw rng (map (softmax \<circ> fst) nets)
      else (map2 (\<lambda>r p. int (tie_aware_argmax p (argmax_key (fst r)) ARGMAX_TIE_EPS ARGMAX_TIE_BREAK))
             rs (map (softmax \<circ> fst) nets), rng))"
  shows "list_all2 row_action_ok nets actions"
proof -
  have "list_all2 (\<lambda>r n. row_logits lib agent r = Inr n) rs nets" using assms(5) by (simp add: traverse_Inr_iff)
  then have ne: "list_all2 (\<lambda>r n. fst n \<noteq> []) rs nets"
    using assms(4) row_logits_nonempty [OF assms(1,2)]
    by (auto simp: list_all2_conv_all_nth list_all_length split: prod.splits) (metis prod.collapse)
  show ?thesis
  proof (cases sample)
    case True
    have "\<exists>i<length (softmax (fst n)). 0 < softmax (fst n) ! i" if "n \<in> set nets" for n
      using list_all2_set2 [OF ne that] argmax_positive [of "fst n" 0 "[]" True] by auto
    then have "\<forall>p\<in>set (map (softmax \<circ> fst) nets). \<exists>i<length p. 0 < p ! i" by auto
    then have "list_all2 (\<lambda>p a. 0 \<le> a \<and> nat a < length p \<and> 0 < p ! nat a) (map (softmax \<circ> fst) nets)
        (fst (draw rng (map (softmax \<circ> fst) nets)))"
      using assms(3) unfolding draw_ok_def by blast
    moreover have "actions = fst (draw rng (map (softmax \<circ> fst) nets))"
      using assms(6) True by (metis fst_conv)
    ultimately show ?thesis by (simp add: list_all2_map1 row_action_ok_def [abs_def])
  next
    case False
    have "list_all2 row_action_ok nets
        (map2 (\<lambda>r p. int (tie_aware_argmax p (argmax_key (fst r)) ARGMAX_TIE_EPS ARGMAX_TIE_BREAK))
           rs (map (softmax \<circ> fst) nets))"
      by (rule list_all2_map2_same [OF ne]) (use argmax_positive in \<open>simp add: row_action_ok_def ARGMAX_TIE_EPS_def\<close>)
    then show ?thesis using False assms(6) by simp
  qed
qed

lemma infer_rows_ok:
  assumes "0 < shards" and "agent_ok lib (nat shards) agent" and "draw_ok draw"
    and masks: "list_all (row_ok shards) rs"
    and "infer_rows lib draw agent shards sample rid rs rng = (Inr as, rng')"
  shows "list_all2 (\<lambda>(it, m) a. answers_item shards it a \<and> an_batch_id a = rid \<and> an_source a = PythonPpo) rs as"
proof (cases "rs = []")
  case True
  then show ?thesis using assms(5) by (simp add: infer_rows_def)
next
  case False
  obtain nets where nets: "traverse (row_logits lib agent) rs = Inr nets"
    using assms(5) False by (auto simp: infer_rows_def split: sum.splits)
  obtain actions rng1 where acts: "(actions, rng1) = (if sample then draw rng (map (softmax \<circ> fst) nets)
      else (map2 (\<lambda>r p. int (tie_aware_argmax p (argmax_key (fst r)) ARGMAX_TIE_EPS ARGMAX_TIE_BREAK))
             rs (map (softmax \<circ> fst) nets), rng))"
    by (metis surj_pair)
  have ans: "traverse (row_answer shards rid) (zip rs (zip nets actions)) = Inr as"
    using assms(5) False nets acts [symmetric] by (auto simp: infer_rows_def Let_def result_simps)
  have "list_all2 row_action_ok nets actions" by (rule chosen_actions_ok [OF assms(1-4) nets acts])
  moreover have "list_all2 (\<lambda>r n. row_logits lib agent r = Inr n) rs nets" using nets by (simp add: traverse_Inr_iff)
  moreover have "list_all2 (\<lambda>x a. row_answer shards rid x = Inr a) (zip rs (zip nets actions)) as"
    using ans by (simp add: traverse_Inr_iff)
  ultimately show ?thesis
    using masks row_answer_ok [OF assms(1,2)]
    by (auto simp: list_all2_conv_all_nth list_all_length split: prod.splits) (metis prod.collapse)+
qed

text \<open>If the network gives logits for every row, every row is answered.\<close>

lemma infer_rows_total:
  assumes "0 < shards" and "agent_ok lib (nat shards) agent" and "draw_ok draw" and ok: "list_all (row_ok shards) rs"
    and fw: "\<forall>r\<in>set rs. tl_forward lib (ag_net agent) (it_state (fst r)) \<noteq> None"
  shows "\<exists>as rng'. infer_rows lib draw agent shards sample rid rs rng = (Inr as, rng')"
proof (cases "rs = []")
  case True
  then show ?thesis by (simp add: infer_rows_def)
next
  case False
  have "row_logits lib agent r = Inr (projr (row_logits lib agent r))" if "r \<in> set rs" for r
    using fw that by (auto simp: row_logits_def)
  from traverse_total [of rs "row_logits lib agent", OF this]
  obtain nets where nets: "traverse (row_logits lib agent) rs = Inr nets" by blast
  obtain actions rng1 where acts: "(actions, rng1) = (if sample then draw rng (map (softmax \<circ> fst) nets)
      else (map2 (\<lambda>r p. int (tie_aware_argmax p (argmax_key (fst r)) ARGMAX_TIE_EPS ARGMAX_TIE_BREAK))
             rs (map (softmax \<circ> fst) nets), rng))"
    by (metis surj_pair)
  have act: "list_all2 row_action_ok nets actions" by (rule chosen_actions_ok [OF assms(1-4) nets acts])
  then have sup: "list_all2 in_support nets actions"
    by (rule list_all2_mono) (auto simp: row_action_ok_def in_support_def)
  have rl: "list_all2 (\<lambda>r n. row_logits lib agent r = Inr n) rs nets" using nets by (simp add: traverse_Inr_iff)
  have "\<exists>a. row_answer shards rid x = Inr a" if "x \<in> set (zip rs (zip nets actions))" for x
  proof -
    obtain i where i: "i < length rs" "i < length nets" "i < length actions" "x = (rs ! i, nets ! i, actions ! i)"
      using \<open>x \<in> set _\<close> by (auto simp: in_set_zip)
    obtain it m where r: "rs ! i = (it, m)" by (cases "rs ! i")
    have "actions ! i < shards"
      by (rule row_shard_ok [OF assms(1,2), of it m "nets ! i"])
         (use ok rl act i r in \<open>auto simp: list_all_length list_all2_conv_all_nth\<close>)
    moreover have "0 \<le> actions ! i" using act i by (auto simp: list_all2_conv_all_nth row_action_ok_def)
    ultimately show ?thesis using i r by (auto simp: row_answer_def split: prod.splits)
  qed
  then have "row_answer shards rid x = Inr (projr (row_answer shards rid x))" if "x \<in> set (zip rs (zip nets actions))" for x
    using that by fastforce
  from traverse_total [of _ "row_answer shards rid", OF this]
  obtain as where "traverse (row_answer shards rid) (zip rs (zip nets actions)) = Inr as" by blast
  then show ?thesis using False nets acts [symmetric] sup by (auto simp: infer_rows_def Let_def)
qed

section \<open>Answers in the place of their items\<close>

lemma rows_of_simps [simp]:
  "rows_of [] = []" "rows_of (Inl a # cs) = rows_of cs" "rows_of (Inr r # cs) = r # rows_of cs"
  by (simp_all add: rows_of_def List.map_filter_def)

lemma fill_outputs_ok:
  assumes "list_all2 (\<lambda>it c. case c of Inl a \<Rightarrow> R it a | Inr (it', m) \<Rightarrow> it' = it) items cs"
    and "list_all2 (\<lambda>(it, m) a. R it a) (rows_of cs) as"
  shows "\<exists>out. fill_outputs f cs as = Inr out \<and> list_all2 R items out"
  using assms
proof (induction items cs arbitrary: as rule: list_all2_induct)
  case Nil
  then show ?case by simp
next
  case (Cons it items c cs)
  show ?case
  proof (cases c)
    case (Inl a)
    then show ?thesis using Cons by fastforce
  next
    case (Inr r)
    then obtain a as' where "as = a # as'" "R (fst r) a" "list_all2 (\<lambda>(it, m) a. R it a) (rows_of cs) as'"
      using Cons.prems by (auto simp: list_all2_Cons1)
    moreover have "fst r = it" using Cons.hyps(1) Inr by (auto split: prod.splits)
    ultimately show ?thesis using Inr Cons.IH [of as'] by fastforce
  qed
qed

text \<open>The answer of the server to one item.\<close>

definition served :: "int \<Rightarrow> int \<Rightarrow> dict \<Rightarrow> item \<Rightarrow> answer \<Rightarrow> bool" where
  "served shards rid expected it a \<longleftrightarrow> answers_item shards it a \<and> an_batch_id a = rid \<and>
     (expected = [] \<or> an_source a = PythonPpo)"

lemma triage_rows:
  assumes "traverse (triage expected_dim shards rid expected) items = Inr cs" and "0 < shards"
    and "\<forall>it\<in>set items. list_all is_finite (it_state it)"
  shows "list_all2 (\<lambda>it c. case c of Inl a \<Rightarrow> served shards rid expected it a | Inr (it', m) \<Rightarrow> it' = it) items cs"
    and "list_all (row_ok shards) (rows_of cs)"
proof -
  have tr: "list_all2 (\<lambda>it c. triage expected_dim shards rid expected it = Inr c) items cs"
    using assms(1) by (simp add: traverse_Inr_iff)
  show "list_all2 (\<lambda>it c. case c of Inl a \<Rightarrow> served shards rid expected it a | Inr (it', m) \<Rightarrow> it' = it) items cs"
    using tr
  proof (rule list_all2_weaken)
    fix it c
    assume "it \<in> set items" "triage expected_dim shards rid expected it = Inr c"
    then show "case c of Inl a \<Rightarrow> served shards rid expected it a | Inr (it', m) \<Rightarrow> it' = it"
      using triage_cases [of expected_dim shards rid expected it c] safe_heuristic_answers assms(2,3)
      by (auto simp: served_def split: sum.splits)
  qed
  show "list_all (row_ok shards) (rows_of cs)"
    using tr assms(3)
  proof (induction rule: list_all2_induct)
    case (Cons it items c cs)
    then show ?case using triage_cases [OF Cons.hyps(1)] by (cases c) (auto simp: row_ok_def)
  qed simp
qed

lemma infer_with_agent_ok:
  assumes "infer_with_agent lib draw agent ed items shards sample rid expected rng = (Inr as, rng')"
    and "0 < shards" and "agent_ok lib (nat shards) agent" and "draw_ok draw"
    and fin: "\<forall>it\<in>set items. list_all is_finite (it_state it)"
  shows "list_all2 (served shards rid expected) items as"
proof -
  obtain cs where cs: "traverse (triage ed shards rid expected) items = Inr cs"
    using assms(1) by (auto simp: infer_with_agent_def split: sum.splits)
  obtain as1 rng1 where rows: "infer_rows lib draw agent shards sample rid (rows_of cs) rng = (Inr as1, rng1)"
    and fill: "fill_outputs (\<lambda>it. safe_heuristic it shards UnknownOutput rid) cs as1 = Inr as"
    using assms(1) cs by (auto simp: infer_with_agent_def Let_def result_simps split: prod.splits)
  note tr = triage_rows [OF cs assms(2) fin]
  have "list_all2 (\<lambda>(it, m) a. served shards rid expected it a) (rows_of cs) as1"
    by (rule list_all2_mono [OF infer_rows_ok [OF assms(2-4) tr(2) rows]]) (auto simp: served_def)
  from fill_outputs_ok [OF tr(1) this, of "\<lambda>it. safe_heuristic it shards UnknownOutput rid"] fill
  show ?thesis by auto
qed

text \<open>An answered call of \<open>infer_items\<close>: the heuristic alone, or the agent that was found.\<close>

lemma infer_items_cases:
  assumes "infer_items lib dumps draw mo items shards sample rid path fd init expected sv = (Inr as, sv')"
  obtains (heuristic) ed why c fs where "expected_input_dim shards fd expected = Inr ed"
      and "get_agent lib dumps mo shards path fd init expected (sv_cache sv) (sv_files sv) = (Inr (Inl why), c, fs)"
      and "sv_cache sv' = c" and "sv_files sv' = fs" and "expected = []"
      and "traverse (\<lambda>it. safe_heuristic it shards why rid) items = Inr as"
    | (network) ed agent c fs rng' where "expected_input_dim shards fd expected = Inr ed"
      and "get_agent lib dumps mo shards path fd init expected (sv_cache sv) (sv_files sv) = (Inr (Inr agent), c, fs)"
      and "sv_cache sv' = c" and "sv_files sv' = fs"
      and "infer_with_agent lib draw agent ed items shards sample rid expected (sv_rng sv) = (Inr as, rng')"
proof -
  obtain ed found c fs where ed: "expected_input_dim shards fd expected = Inr ed"
    and get: "get_agent lib dumps mo shards path fd init expected (sv_cache sv) (sv_files sv) = (found, c, fs)"
    using assms by (auto simp: infer_items_def Let_def split: sum.splits prod.splits)
  show thesis
  proof (cases found)
    case (Inl e)
    then show thesis using assms by (simp add: infer_items_def ed get)
  next
    case found: (Inr r)
    show thesis
    proof (cases r)
      case (Inl why)
      have "expected = []" "traverse (\<lambda>it. safe_heuristic it shards why rid) items = Inr as"
          "sv' = sv\<lparr>sv_cache := c, sv_files := fs\<rparr>"
        using assms by (auto simp: infer_items_def ed get found Inl split: if_splits)
      then show thesis using heuristic [OF ed] get found Inl by simp
    next
      case r: (Inr agent)
      obtain as1 rng1 where run: "infer_with_agent lib draw agent ed items shards sample rid expected (sv_rng sv) = (as1, rng1)"
        by (cases "infer_with_agent lib draw agent ed items shards sample rid expected (sv_rng sv)")
      have "as1 = Inr as" and sv': "sv' = sv\<lparr>sv_cache := c, sv_files := fs, sv_rng := rng1\<rparr>"
        using assms run by (simp_all add: infer_items_def ed get found r)
      then show thesis using network [OF ed] get run found r by simp
    qed
  qed
qed

lemma infer_items_ok:
  assumes run: "infer_items lib dumps draw mo items shards sample rid path fd init expected sv = (Inr as, sv')"
    and "0 < shards" and "draw_ok draw"
    and fin: "\<forall>it\<in>set items. list_all is_finite (it_state it)"
    and net: "\<And>agent c fs. get_agent lib dumps mo shards path fd init expected (sv_cache sv) (sv_files sv) =
      (Inr (Inr agent), c, fs) \<Longrightarrow> agent_ok lib (nat shards) agent"
  shows "list_all2 (served shards rid expected) items as"
  using run
proof (cases rule: infer_items_cases)
  case (heuristic ed why c fs)
  from heuristic(6) have "list_all2 (\<lambda>it a. safe_heuristic it shards why rid = Inr a) items as"
    by (simp add: traverse_Inr_iff)
  then show ?thesis
    by (rule list_all2_weaken) (use safe_heuristic_answers assms(2) fin heuristic(5) in \<open>auto simp: served_def\<close>)
next
  case (network ed agent c fs rng')
  show ?thesis by (rule infer_with_agent_ok [OF network(5) assms(2) net [OF network(2)] assms(3) fin])
qed

section \<open>The dimensions of the agent\<close>

lemma load_compatible_Inr:
  "load_compatible lib ed shards e content a0 = Inr a \<longleftrightarrow>
     (\<exists>p extra. content = Inr p \<and> payload_dims p = Inr (ed, shards) \<and> payload_extra p = Inr extra \<and>
        checkpoint_config_mismatches (map_of extra) e = [] \<and> load_weights lib p a0 = (Inr (), a))"
proof (cases content)
  case (Inl x)
  then show ?thesis by (simp add: load_compatible_def)
next
  case (Inr p)
  show ?thesis
  proof (cases "payload_dims p")
    case (Inl x)
    then show ?thesis using \<open>content = Inr p\<close> by (simp add: load_compatible_def)
  next
    case (Inr d)
    then show ?thesis
      using \<open>content = Inr p\<close>
      by (cases "payload_extra p"; cases "load_weights lib p a0"; cases "fst (load_weights lib p a0)"; cases d)
         (auto simp: load_compatible_def Let_def)
  qed
qed

lemma load_weights_Inr:
  "load_weights lib p a0 = (Inr (), a) \<longleftrightarrow>
     (\<exists>w net. pl_model_state_dict p = Some w \<and> tl_load_state_dict lib (ag_net a0) w = (None, net) \<and> a = a0\<lparr>ag_net := net\<rparr>)"
  by (auto simp: load_weights_def split: option.splits prod.splits)

lemma make_agent_dims:
  "make_agent lib ed shards = Inr a \<longleftrightarrow> (\<exists>w. tl_fresh lib ed shards = Inr w \<and>
     a = \<lparr>ag_state_dim = ed, ag_action_dim = shards, ag_net = w\<rparr>)"
  by (auto simp: make_agent_def result_simps)

lemma create_fresh_agent_iff:
  "create_fresh_agent lib mo ed shards = Inr a \<longleftrightarrow> (\<exists>w. mo_fresh mo ed shards = Inr w \<and>
     a = \<lparr>ag_state_dim = ed, ag_action_dim = shards, ag_net = w\<rparr>)"
  by (simp add: create_fresh_agent_def make_agent_dims)

lemma builds_fits: "builds fits fresh \<Longrightarrow> fresh s n = Inr w \<Longrightarrow> fits s n w"
  unfolding builds_def by (metis sum.case(2))


lemma remember_cases:
  assumes "remember mo agent shards ed path signature c fs = (r, c', fs')"
  shows "ac_agent c' = Some agent \<and> ac_shards c' = shards \<and> ac_state_dim c' = ed \<and> ac_model_path c' = path \<and>
    (r = Inr (Inr agent) \<or> isl r)"
  using assms by (auto simp: remember_def Let_def split: sum.splits)

text \<open>Whatever other processes do, an agent that is used or cached has the dimensions asked for.\<close>

definition cache_fits :: "(int \<Rightarrow> int \<Rightarrow> 'w \<Rightarrow> bool) \<Rightarrow> 'w agent_cache \<Rightarrow> bool" where
  "cache_fits fits c \<longleftrightarrow> (case ac_agent c of None \<Rightarrow> True | Some a \<Rightarrow> fits (ac_state_dim c) (ac_shards c) (ag_net a))"

definition found_fits :: "(int \<Rightarrow> int \<Rightarrow> 'w \<Rightarrow> bool) \<Rightarrow> int \<Rightarrow> int \<Rightarrow> (reason + 'w agent) result \<Rightarrow> bool" where
  "found_fits fits ed shards found \<longleftrightarrow> (\<forall>agent. found = Inr (Inr agent) \<longrightarrow> fits ed shards (ag_net agent))"

lemma remember_fits:
  assumes "remember mo agent shards ed path signature c fs = (found, c', fs')" and "fits ed shards (ag_net agent)"
  shows "cache_fits fits c' \<and> found_fits fits ed shards found"
  using remember_cases [OF assms(1)] assms(2) by (auto simp: cache_fits_def found_fits_def)

lemma load_compatible_fits:
  assumes "load_compatible lib ed shards e content a0 = Inr a" and "fits ed shards (ag_net a0)" and "keeps_shape lib fits"
  shows "fits ed shards (ag_net a)"
  using assms by (auto simp: load_compatible_Inr load_weights_Inr keeps_shape_def)

lemma reload_agent_fits:
  assumes get: "reload_agent lib mo shards ed path fd init expected signature c fs = (found, c', fs')"
    and c: "cache_fits fits c" and mo: "builds fits (mo_fresh mo)" and keep: "keeps_shape lib fits"
  shows "cache_fits fits c' \<and> found_fits fits ed shards found"
proof (cases "create_fresh_agent lib mo ed shards")
  case (Inl e)
  then show ?thesis using get c by (auto simp: reload_agent_def Let_def found_fits_def split: if_splits)
next
  case (Inr a0)
  then have a0: "fits ed shards (ag_net a0)" using builds_fits [OF mo] by (auto simp: create_fresh_agent_iff)
  have rem: ?thesis if "remember mo a shards ed path signature c g = (found, c', fs')" "fits ed shards (ag_net a)" for a g
    using remember_fits [where fits = fits, OF that] .
  note ld = load_compatible_fits [where fits = fits, OF _ a0 keep]
  show ?thesis
  proof (cases "mo_others mo 2 fs path")
    case None
    then show ?thesis using get Inr c rem [OF _ a0] by (auto simp: reload_agent_def Let_def found_fits_def split: if_splits)
  next
    case (Some f)
    then show ?thesis
      using get Inr c rem [OF _ ld] by (auto simp: reload_agent_def Let_def found_fits_def split: sum.splits)
  qed
qed

lemma get_agent_fits:
  assumes get: "get_agent lib dumps mo shards path fd init expected c fs = (found, c', fs')"
    and ed: "expected_input_dim shards fd expected = Inr ed"
    and c: "cache_fits fits c" and mo: "builds fits (mo_fresh mo)" and keep: "keeps_shape lib fits"
  shows "cache_fits fits c' \<and> found_fits fits ed shards found"
proof (cases "model_mtime (mo_others mo 0 fs) (mo_others mo 1 (mo_others mo 0 fs)) path")
  case (Inl e)
  then show ?thesis using get c by (auto simp: get_agent_def ed Let_def found_fits_def)
next
  case (Inr t)
  show ?thesis
  proof (cases "cache_hit c shards ed path t (dumps expected)")
    case True
    then show ?thesis
      using get c Inr by (cases "ac_agent c") (auto simp: get_agent_def ed cache_hit_def cache_fits_def found_fits_def)
  next
    case miss: False
    with get Inr have "reload_agent lib mo shards ed path fd init expected (dumps expected) c
        (mo_others mo 1 (mo_others mo 0 fs)) = (found, c', fs')"
      by (simp add: get_agent_def ed)
    from reload_agent_fits [OF this c mo keep] show ?thesis .
  qed
qed

section \<open>Requests that nobody interferes with\<close>

text \<open>No other process acts on the files during the request.\<close>

definition quiet :: "'w moment \<Rightarrow> bool" where
  "quiet mo \<longleftrightarrow> (\<forall>n fs. mo_others mo n fs = fs)"

definition mtime_of :: "'w model_store \<Rightarrow> string \<Rightarrow> int" where
  "mtime_of fs path = (case fs path of None \<Rightarrow> -1 | Some (_, t) \<Rightarrow> t)"

definition cached :: "'w agent \<Rightarrow> int \<Rightarrow> int \<Rightarrow> string \<Rightarrow> int \<Rightarrow> string \<Rightarrow> 'w agent_cache" where
  "cached agent shards ed path t signature =
     \<lparr>ac_agent = Some agent, ac_shards = shards, ac_state_dim = ed, ac_model_path = path,
      ac_model_mtime_ns = t, ac_signature = signature\<rparr>"

lemma model_mtime_same [simp]: "model_mtime fs fs path = Inr (mtime_of fs path)"
  by (auto simp: model_mtime_def mtime_of_def split: option.splits)

text \<open>The four ways through \<open>get_agent\<close>.\<close>

lemma get_agent_hit:
  assumes "quiet mo" and "expected_input_dim shards fd expected = Inr ed"
    and "cache_hit c shards ed path (mtime_of fs path) (dumps expected)"
  shows "get_agent lib dumps mo shards path fd init expected c fs = (Inr (Inr (the (ac_agent c))), c, fs)"
  using assms by (auto simp: get_agent_def cache_hit_def quiet_def)



lemma get_agent_load:
  assumes "quiet mo" and "expected_input_dim shards fd expected = Inr ed" and "fs path = Some (content, t)"
    and "\<not> cache_hit c shards ed path (mtime_of fs path) (dumps expected)"
  shows "get_agent lib dumps mo shards path fd init expected c fs =
    (case create_fresh_agent lib mo ed shards of
       Inl e \<Rightarrow> (Inl e, c, fs)
     | Inr agent \<Rightarrow>
         (case load_compatible lib ed shards expected content agent of
            Inl why \<Rightarrow> (Inr (Inl why), c, fs)
          | Inr agent \<Rightarrow> (Inr (Inr agent), cached agent shards ed path t (dumps expected), fs)))"
  using assms by (simp add: get_agent_def reload_agent_def quiet_def remember_def cached_def mtime_of_def split: sum.split)


section \<open>The cache and the files\<close>

text \<open>
  The server and the other processes that use the same model files. Somebody else may replace or
  remove files at any time, also between the accesses of a request; a replaced file has a
  modification time that is not the one in the cache. What is excluded is that a request is
  overtaken between reading its model (or writing a new one) and reading the modification time of
  the file after it: see \<open>stale_agent_race\<close>. A request that lets the server create a model names
  a configuration that the created model satisfies.
\<close>

definition others_ok :: "'w agent_cache \<Rightarrow> 'w model_store \<Rightarrow> 'w model_store \<Rightarrow> bool" where
  "others_ok c fs fs' \<longleftrightarrow> (\<forall>q. fs' q = fs q \<or> fs' q = None \<or>
     (\<exists>content t. fs' q = Some (content, t) \<and> 0 \<le> t \<and> t \<noteq> ac_model_mtime_ns c))"

definition settled :: "'w agent_cache \<Rightarrow> string \<Rightarrow> 'w moment \<Rightarrow> bool" where
  "settled c path mo \<longleftrightarrow> (\<forall>n fs. others_ok c fs (mo_others mo n fs)) \<and>
     (\<forall>fs. mo_others mo 4 fs path = fs path \<and> mo_others mo 5 fs path = fs path)"


text \<open>
  What the cache relies on: weights can be loaded into a network of their own dimensions and
  replace all that was there, and the JSON text of a configuration determines it, among the
  configurations in use.
\<close>

definition restores :: "('w, 'l) torch_lib \<Rightarrow> (int \<Rightarrow> int \<Rightarrow> 'w \<Rightarrow> bool) \<Rightarrow> bool" where
  "restores lib fits \<longleftrightarrow> (\<forall>s n w. fits s n w \<longrightarrow> tl_load_state_dict lib w w = (None, w)) \<and>
     (\<forall>s n w1 w2 w net. fits s n w1 \<longrightarrow> fits s n w2 \<longrightarrow> tl_load_state_dict lib w1 w = (None, net) \<longrightarrow>
        tl_load_state_dict lib w2 w = (None, net))"



















section \<open>Responses\<close>

lemma infer_rows_length:
  assumes "infer_rows lib draw agent shards sample rid rs rng = (Inr as, rng')"
  shows "length as = length rs"
proof (cases "rs = []")
  case True
  then show ?thesis using assms by (simp add: infer_rows_def)
next
  case False
  obtain nets where nets: "traverse (row_logits lib agent) rs = Inr nets"
    using assms False by (auto simp: infer_rows_def split: sum.splits)
  obtain actions rng1 where acts: "(actions, rng1) = (if sample then draw rng (map (softmax \<circ> fst) nets)
      else (map2 (\<lambda>r p. int (tie_aware_argmax p (argmax_key (fst r)) ARGMAX_TIE_EPS ARGMAX_TIE_BREAK))
             rs (map (softmax \<circ> fst) nets), rng))"
    by (metis surj_pair)
  have "list_all2 in_support nets actions" "traverse (row_answer shards rid) (zip rs (zip nets actions)) = Inr as"
    using assms False nets acts [symmetric] by (auto simp: infer_rows_def Let_def result_simps)
  then show ?thesis using traverse_length [OF nets] traverse_length list_all2_lengthD by fastforce
qed

lemma infer_with_agent_length:
  assumes "infer_with_agent lib draw agent ed items shards sample rid expected rng = (Inr as, rng')"
  shows "length as = length items"
proof -
  obtain cs where cs: "traverse (triage ed shards rid expected) items = Inr cs"
    using assms by (auto simp: infer_with_agent_def split: sum.splits)
  obtain as1 rng1 where rows: "infer_rows lib draw agent shards sample rid (rows_of cs) rng = (Inr as1, rng1)"
    and fill: "fill_outputs (\<lambda>it. safe_heuristic it shards UnknownOutput rid) cs as1 = Inr as"
    using assms cs by (auto simp: infer_with_agent_def Let_def result_simps split: prod.splits)
  have "list_all2 (\<lambda>it c. triage ed shards rid expected it = Inr c) items cs"
    using cs by (simp add: traverse_Inr_iff)
  then have "list_all2 (\<lambda>it c. case c of Inl a \<Rightarrow> True | Inr (it', m) \<Rightarrow> it' = it) items cs"
    by (rule list_all2_weaken) (use triage_cases in \<open>fastforce split: sum.splits\<close>)
  moreover have "list_all2 (\<lambda>(it, m) a. True) (rows_of cs) as1"
    using infer_rows_length [OF rows] by (simp add: list_all2_conv_all_nth split: prod.split)
  ultimately obtain out where "fill_outputs (\<lambda>it. safe_heuristic it shards UnknownOutput rid) cs as1 = Inr out"
      "list_all2 (\<lambda>_ _. True) items out"
    using fill_outputs_ok [of "\<lambda>_ _. True"] by blast
  then show ?thesis using fill by (simp add: list_all2_lengthD)
qed

lemma infer_items_length:
  assumes "infer_items lib dumps draw mo items shards sample rid path fd init expected sv = (Inr as, sv')"
  shows "length as = length items"
  using assms by (cases rule: infer_items_cases) (auto dest: traverse_length infer_with_agent_length)




text \<open>
  A response to a line of input: an error without items, if the line is no JSON text or handling
  the request raises; or an answer that carries the identity of the request and has one entry for
  each of its items, or reports that there is no shard.
\<close>

definition responds ::
  "('w, 'l) torch_lib \<Rightarrow> (dict \<Rightarrow> string) \<Rightarrow> ('r \<Rightarrow> real list list \<Rightarrow> int list \<times> 'r) \<Rightarrow> (pyval \<Rightarrow> string) \<Rightarrow> string \<Rightarrow>
   (string \<Rightarrow> pyval result) \<Rightarrow> string \<Rightarrow> response \<Rightarrow> bool" where
  "responds lib dumps draw to_str mp loads line resp \<longleftrightarrow>
     (\<exists>e. resp = \<lparr>rs_request_id = 0, rs_items = [], rs_error = Some (Exception e)\<rparr> \<and>
        (loads line = Inl e \<or>
         (\<exists>req mo sv sv'. loads line = Inr req \<and> handle_request lib dumps draw to_str mp mo req sv = (Inl e, sv')))) \<or>
     (\<exists>req p. loads line = Inr (VDict req) \<and> parse_request req = Inr p \<and> rs_request_id resp = pr_request_id p \<and>
        (if pr_shards p \<le> 0 then rs_items resp = [] \<and> rs_error resp = Some (InvalidShards (pr_shards p))
         else rs_error resp = None \<and>
           (\<exists>items. normalize_items to_str (dict_get req ''items'' (VList [])) = Inr items \<and>
              length (rs_items resp) = length items)))"

lemma serve_line_responds:
  "responds lib dumps draw to_str mp loads line (fst (serve_line lib dumps draw to_str mp loads mo line sv))"
proof (cases "loads line")
  case (Inl e)
  then show ?thesis by (simp add: serve_line_def responds_def)
next
  case req: (Inr reqv)
  obtain r sv' where h: "handle_request lib dumps draw to_str mp mo reqv sv = (r, sv')"
    by (cases "handle_request lib dumps draw to_str mp mo reqv sv")
  show ?thesis
  proof (cases r)
    case (Inl e)
    then show ?thesis using req h by (auto simp: serve_line_def responds_def)
  next
    case (Inr resp)
    obtain req where d: "reqv = VDict req"
      using h Inr by (auto simp: handle_request_def require_dict_def result_simps elim!: as_dict.elims split: sum.splits option.splits)
    then obtain p where p: "parse_request req = Inr p"
      using h Inr by (cases "parse_request req") (auto simp: handle_request_def require_dict_def)
    have "pr_shards p \<le> 0 \<Longrightarrow> resp = \<lparr>rs_request_id = pr_request_id p, rs_items = [], rs_error = Some (InvalidShards (pr_shards p))\<rparr>"
      using h by (simp add: handle_request_def require_dict_def p d Inr)
    moreover have "rs_request_id resp = pr_request_id p \<and> rs_error resp = None \<and>
        (\<exists>items. normalize_items to_str (dict_get req ''items'' (VList [])) = Inr items \<and> length (rs_items resp) = length items)"
      if "\<not> pr_shards p \<le> 0"
      using h that infer_items_length
      by (auto simp: handle_request_def require_dict_def p d Inr Let_def result_simps split: sum.splits prod.splits)
    ultimately have "responds lib dumps draw to_str mp loads line resp"
      using req d p unfolding responds_def by (cases "pr_shards p \<le> 0") auto
    then show ?thesis using req h Inr by (simp add: serve_line_def)
  qed
qed

definition request_lines :: "('raw \<Rightarrow> string result) \<Rightarrow> ('m \<times> 'raw) list \<Rightarrow> string list" where
  "request_lines decode input = filter (\<lambda>l. l \<noteq> []) (map (\<lambda>(_, raw). py_strip (projr (decode raw))) input)"

text \<open>
  A part of the input that was decoded and answered: one response per line that is not blank, in
  the order of the lines, and the line of output that encodes it.
\<close>

definition answered ::
  "(string \<Rightarrow> response \<Rightarrow> bool) \<Rightarrow> ('raw \<Rightarrow> string result) \<Rightarrow> (response \<Rightarrow> 'out result) \<Rightarrow> ('m \<times> 'raw) list \<Rightarrow> 'out list \<Rightarrow> bool" where
  "answered R decode encode input outs \<longleftrightarrow> (\<forall>x\<in>set input. \<not> isl (decode (snd x))) \<and>
     (\<exists>resps. list_all2 R (request_lines decode input) resps \<and> list_all2 (\<lambda>r out. encode r = Inr out) resps outs)"

lemma answered_Nil [simp]: "answered R decode encode [] outs \<longleftrightarrow> outs = []"
  by (auto simp: answered_def request_lines_def)

lemma answered_blank:
  "answered R decode encode input outs \<Longrightarrow> decode raw = Inr s0 \<Longrightarrow> py_strip s0 = [] \<Longrightarrow>
   answered R decode encode ((mo, raw) # input) outs"
  by (simp add: answered_def request_lines_def)

lemma answered_Cons:
  assumes "answered R decode encode input outs" and "decode raw = Inr s0" and "py_strip s0 \<noteq> []"
    and "R (py_strip s0) resp" and "encode resp = Inr out"
  shows "answered R decode encode ((mo, raw) # input) (out # outs)"
proof -
  obtain resps where "list_all2 R (request_lines decode input) resps" "list_all2 (\<lambda>r out. encode r = Inr out) resps outs"
    using assms(1) by (auto simp: answered_def)
  then show ?thesis
    using assms by (auto simp: answered_def request_lines_def intro!: exI [of _ "resp # resps"])
qed

text \<open>What ends the loop before the end of the input.\<close>

definition stops_at ::
  "(string \<Rightarrow> response \<Rightarrow> bool) \<Rightarrow> ('raw \<Rightarrow> string result) \<Rightarrow> (response \<Rightarrow> 'out result) \<Rightarrow> 'raw \<Rightarrow> exn \<Rightarrow> bool" where
  "stops_at R decode encode raw e \<longleftrightarrow> decode raw = Inl e \<or>
     (\<exists>s0 resp. decode raw = Inr s0 \<and> py_strip s0 \<noteq> [] \<and> R (py_strip s0) resp \<and> encode resp = Inl e)"

lemma server_main_spec:
  assumes "server_main lib dumps draw to_str mp loads decode encode input sv = (outs, stop, sv')"
  shows "case stop of
      None \<Rightarrow> answered (responds lib dumps draw to_str mp loads) decode encode input outs
    | Some e \<Rightarrow> \<exists>pre mo raw post. input = pre @ (mo, raw) # post \<and>
        answered (responds lib dumps draw to_str mp loads) decode encode pre outs \<and>
        stops_at (responds lib dumps draw to_str mp loads) decode encode raw e"
  (is "case stop of None \<Rightarrow> ?ans input outs | Some e \<Rightarrow> ?cut input outs e")
  using assms
proof (induction input arbitrary: sv outs)
  case Nil
  then show ?case by simp
next
  case (Cons x input)
  obtain mo raw where x: "x = (mo, raw)" by (cases x)
  have now: "?cut (x # input) [] e" if "stops_at (responds lib dumps draw to_str mp loads) decode encode raw e" for e
    using that by (intro exI [of _ "[]"]) (simp add: x)
  have later: "?cut (x # input) outs' e"
    if "?cut input outs e" "\<And>pre. ?ans pre outs \<Longrightarrow> ?ans (x # pre) outs'" for outs outs' e
    using that by (metis append_Cons)
  show ?case
  proof (cases "decode raw")
    case (Inl e)
    then have "outs = []" "stop = Some e" using Cons.prems by (simp_all add: x)
    then show ?thesis using now [of e] Inl by (simp add: stops_at_def)
  next
    case (Inr s0)
    let ?l = "py_strip s0"
    obtain resp sv1 where l: "serve_line lib dumps draw to_str mp loads mo ?l sv = (resp, sv1)"
      by (cases "serve_line lib dumps draw to_str mp loads mo ?l sv")
    have ok: "responds lib dumps draw to_str mp loads ?l resp"
      using serve_line_responds [of lib dumps draw to_str mp loads ?l mo sv] l by simp
    show ?thesis
    proof (cases "?l = []")
      case True
      then have "server_main lib dumps draw to_str mp loads decode encode input sv = (outs, stop, sv')"
        using Cons.prems Inr by (simp add: x)
      note IH = Cons.IH [OF this] and skip = answered_blank [where decode = decode and raw = raw, OF _ Inr True]
      show ?thesis
      proof (cases stop)
        case None
        then show ?thesis using IH skip by (simp add: x)
      next
        case (Some e)
        have "?ans (x # pre) outs" if "?ans pre outs" for pre unfolding x by (rule skip [OF that])
        from later [OF _ this] show ?thesis using IH Some by simp
      qed
    next
      case nonblank: False
      show ?thesis
      proof (cases "encode resp")
        case (Inl e)
        then have "outs = []" "stop = Some e" using Cons.prems Inr nonblank l by (simp_all add: x)
        moreover have "stops_at (responds lib dumps draw to_str mp loads) decode encode raw e"
          using Inr nonblank ok Inl by (auto simp: stops_at_def)
        ultimately show ?thesis using now [of e] by simp
      next
        case out: (Inr out)
        obtain outs1 where run: "server_main lib dumps draw to_str mp loads decode encode input sv1 = (outs1, stop, sv')"
          and outs: "outs = out # outs1"
          using Cons.prems Inr nonblank l out by (auto simp: x Let_def split: prod.splits)
        note IH = Cons.IH [OF run] and more_ok = answered_Cons [where decode = decode and raw = raw and encode = encode and R = "responds lib dumps draw to_str mp loads", OF _ Inr nonblank ok out]
        show ?thesis
        proof (cases stop)
          case None
          then show ?thesis using IH more_ok by (simp add: x outs)
        next
          case (Some e)
          have "?ans (x # pre) outs" if "?ans pre outs1" for pre unfolding x outs by (rule more_ok [OF that])
          from later [OF _ this] show ?thesis using IH Some by simp
        qed
      qed
    qed
  qed
qed

section \<open>The batch entry and the single query\<close>

lemma batch_safe_heuristic_answers:
  assumes "batch_safe_heuristic it shards why = Inr a" and "0 < shards" and "list_all is_finite (it_state it)"
  shows "answers_item shards it a"
  using assms fallback_shard_ok [OF _ assms(2,3)]
  by (auto simp: batch_safe_heuristic_def Let_def answers_item_def result_simps)

lemma batch_answer_ok:
  assumes "0 < shards" and "agent_ok lib (nat shards) agent" and "row_ok shards (it, m)"
    and "row_logits lib agent (it, m) = Inr n" and "row_action_ok n act"
  shows "answers_item shards it (batch_answer shards ((it, m), n, act))"
  using row_shard_ok [OF assms] assms(3,5)
  by (cases n) (auto simp: batch_answer_def answers_item_def row_action_ok_def row_ok_def Let_def)

text \<open>Every way of \<open>load_batch_agent\<close> builds the network for the number of shards.\<close>

lemma agent_load_fits:
  assumes "agent_load lib content a0 = (Inr p, a)" and "fits s n (ag_net a0)" and "keeps_shape lib fits"
  shows "fits s n (ag_net a)"
proof -
  have "load_weights lib p a0 = (Inr (), a)"
    using assms(1) by (auto simp: agent_load_def split: sum.splits prod.splits)
  then show ?thesis using assms(2,3) by (auto simp: load_weights_Inr keeps_shape_def)
qed

lemma load_batch_agent_fits:
  assumes ld: "load_batch_agent lib shards model = Inr (agent, model')" and bld: "builds fits (tl_fresh lib)"
    and keep: "keeps_shape lib fits"
  shows "fits (state_dim shards 0) shards (ag_net agent)"
proof -
  obtain a0 where a0: "make_agent lib (state_dim shards 0) shards = Inr a0"
    using ld by (auto simp: load_batch_agent_def Let_def result_simps split: if_splits)
  then have f0: "fits (state_dim shards 0) shards (ag_net a0)" using builds_fits [OF bld] by (auto simp: make_agent_dims)
  show ?thesis
  proof (cases model)
    case None
    then show ?thesis using ld a0 f0 by (auto simp: load_batch_agent_def Let_def reset_model_def split: if_splits)
  next
    case (Some content)
    obtain r a where l: "agent_load lib content a0 = (r, a)" by (cases "agent_load lib content a0")
    have "agent = a0 \<or> (agent = a \<and> (\<exists>p. r = Inr p))"
      using ld a0 Some l
      by (cases r) (auto simp: load_batch_agent_def Let_def reset_model_def result_simps split: if_splits prod.splits)
    then show ?thesis using f0 agent_load_fits [OF _ f0 keep] l by auto
  qed
qed

lemma infer_batch_answers:
  assumes "infer_batch lib draw items shards sample model rng = Inr (ps, model')"
    and "0 < shards" and net: "builds fits (tl_fresh lib)" "keeps_shape lib fits" "emits lib fits" and "draw_ok draw"
    and fin: "\<forall>it\<in>set items. list_all is_finite (it_state it)"
  shows "list_all2 (answers_item shards) items ps"
proof -
  obtain agent model1 cs where
    cs: "traverse (batch_triage (state_dim shards 0) shards) items = Inr cs"
    and ld: "load_batch_agent lib shards model = Inr (agent, model1)"
    using assms(1) by (auto simp: infer_batch_def result_simps)
  have ag: "agent_ok lib (nat shards) agent"
    by (rule agent_okI [OF net(3), of "state_dim shards 0"]) (use load_batch_agent_fits [OF ld net(1,2)] assms(2) in simp)
  have tr: "list_all2 (\<lambda>it c. batch_triage (state_dim shards 0) shards it = Inr c) items cs"
    using cs by (simp add: traverse_Inr_iff)
  have one: "list_all2 (\<lambda>it c. case c of Inl a \<Rightarrow> answers_item shards it a | Inr (it', m) \<Rightarrow> it' = it) items cs"
    by (rule list_all2_weaken [OF tr])
       (use batch_safe_heuristic_answers assms(2) fin in \<open>auto simp: batch_triage_def result_simps split: if_splits\<close>)
  have masks: "list_all (row_ok shards) (rows_of cs)"
    using tr fin
  proof (induction rule: list_all2_induct)
    case (Cons it items c cs)
    then show ?case by (cases c) (auto simp: batch_triage_def row_ok_def result_simps split: if_splits)
  qed simp
  let ?fill = "fill_outputs (\<lambda>it. batch_safe_heuristic it shards UnknownOutput) cs"
  have done_ok: "list_all2 (answers_item shards) items ps"
    if "?fill as = Inr ps" "list_all2 (\<lambda>(it, m) a. answers_item shards it a) (rows_of cs) as" for as
    using fill_outputs_ok [OF one that(2), of "\<lambda>it. batch_safe_heuristic it shards UnknownOutput"] that(1) by auto
  show ?thesis
  proof (cases "rows_of cs = []")
    case True
    then show ?thesis using assms(1) cs ld by (auto simp: infer_batch_def Let_def result_simps intro!: done_ok)
  next
    case False
    obtain nets where nets: "traverse (row_logits lib agent) (rows_of cs) = Inr nets"
      using assms(1) cs ld False by (auto simp: infer_batch_def Let_def result_simps)
    define actions where
      "actions = (if sample then fst (draw rng (map (softmax \<circ> fst) nets)) else map (int \<circ> argmax) (map (softmax \<circ> fst) nets))"
    have fill: "?fill (map (batch_answer shards) (zip (rows_of cs) (zip nets actions))) = Inr ps"
      using assms(1) cs ld False nets unfolding actions_def by (auto simp: infer_batch_def Let_def result_simps)
    have rl: "list_all2 (\<lambda>r n. row_logits lib agent r = Inr n) (rows_of cs) nets" using nets by (simp add: traverse_Inr_iff)
    have acts: "list_all2 row_action_ok nets actions"
    proof (cases sample)
      case True
      then have "(actions, snd (draw rng (map (softmax \<circ> fst) nets))) = (if sample then draw rng (map (softmax \<circ> fst) nets)
          else (map2 (\<lambda>r p. int (tie_aware_argmax p (argmax_key (fst r)) ARGMAX_TIE_EPS ARGMAX_TIE_BREAK))
             (rows_of cs) (map (softmax \<circ> fst) nets), rng))"
        by (simp add: actions_def)
      then show ?thesis by (rule chosen_actions_ok [OF assms(2) ag assms(6) masks nets])
    next
      case False
      have ne: "fst n \<noteq> []" if n: "n \<in> set nets" for n
      proof -
        obtain it m where "(it, m) \<in> set (rows_of cs)" and l: "row_logits lib agent (it, m) = Inr n"
          using list_all2_set2 [OF rl n] by auto
        then have "row_ok shards (it, m)" using masks by (auto simp: list_all_iff)
        then show ?thesis by (rule row_logits_nonempty [OF assms(2) ag _ l])
      qed
      have "row_action_ok n (int (argmax (softmax (fst n))))" if "n \<in> set nets" for n
        using argmax_positive [OF ne [OF that], of 0 "[]" False] ne [OF that]
        by (simp add: row_action_ok_def tie_aware_argmax_def)
      then show ?thesis using False by (auto simp: actions_def list_all2_map2 list.rel_refl_strong)
    qed
    have "list_all2 (\<lambda>(it, m) a. answers_item shards it a) (rows_of cs)
        (map (batch_answer shards) (zip (rows_of cs) (zip nets actions)))"
      using rl acts masks batch_answer_ok [OF assms(2) ag]
      by (auto simp: list_all2_conv_all_nth list_all_length split: prod.splits) (metis prod.collapse)
    then show ?thesis using fill by (rule done_ok [rotated])
  qed
qed

lemma infer_main_range:
  assumes "infer_main lib input model = Inr (shard, source, confidence)"
    and "load_query input = Inr (state, shards)" and "0 < shards"
  shows "0 \<le> shard \<and> shard < shards"
proof -
  obtain r where r: "infer_with_model lib state shards model = Inr r"
    using assms(1,2) by (auto simp: infer_main_def result_simps)
  show ?thesis
    using assms(1,3) by (cases r) (auto simp: infer_main_def assms(2) r Let_def split: prod.splits if_splits)
qed

section \<open>Properties\<close>

text \<open>
  A small library for the examples: a network that knows its dimensions and prefers one action,
  and a generator that draws the most likely action.
\<close>

definition shard_lib :: "(int \<times> int \<times> int, unit) torch_lib" where
  "shard_lib = \<lparr>tl_fresh = \<lambda>s n. Inr (s, n, 0),
     tl_load_state_dict = \<lambda>w w'. if fst w' = fst w \<and> fst (snd w') = fst (snd w) then (None, w') else (Some RuntimeError, w),
     tl_forward = \<lambda>w xs. if int (length xs) = fst w
       then Some (map (\<lambda>i. if int i = snd (snd w) then 1 else 0) [0..<nat (fst (snd w))], 0) else None,
     tl_update = \<lambda>a _. Inr ((), a)\<rparr>"

definition demo_fits :: "int \<Rightarrow> int \<Rightarrow> int \<times> int \<times> int \<Rightarrow> bool" where
  "demo_fits s n w \<longleftrightarrow> fst w = s \<and> fst (snd w) = n"

definition calm :: "int \<Rightarrow> (int \<times> int \<times> int) moment" where
  "calm t = \<lparr>mo_now = t, mo_fresh = tl_fresh shard_lib, mo_others = \<lambda>_ fs. fs\<rparr>"

definition greedy_draw :: "unit \<Rightarrow> real list list \<Rightarrow> int list \<times> unit" where
  "greedy_draw rng ps = (map (int \<circ> argmax) ps, rng)"

definition demo_request_item :: item where
  "demo_request_item = \<lparr>it_address = ''a'', it_related = ''b'', it_state = replicate 23 (Fin 0),
     it_action_mask = [VInt 0, VInt 1]\<rparr>"

definition demo_config :: dict where
  "demo_config = [(''candidate_top_k'', VInt 7)]"

definition demo_agent :: "int \<Rightarrow> (int \<times> int \<times> int) agent" where
  "demo_agent b = \<lparr>ag_state_dim = 23, ag_action_dim = 2, ag_net = (23, 2, b)\<rparr>"

definition demo_server :: "(int \<times> int \<times> int, unit) server" where
  "demo_server = \<lparr>sv_cache = new_cache, sv_files = [''m.pt'' \<mapsto> (Inr (agent_save (demo_agent 1) demo_config), 7)], sv_rng = ()\<rparr>"

lemma demo_contract:
  "builds demo_fits (mo_fresh (calm t))" "builds demo_fits (tl_fresh shard_lib)"
  "keeps_shape shard_lib demo_fits" "emits shard_lib demo_fits" "restores shard_lib demo_fits"
  by (auto simp: builds_def calm_def shard_lib_def demo_fits_def keeps_shape_def emits_def restores_def
      logits_ok_def MASK_FILL_def FLOAT32_MAX_def split: if_splits)

lemma demo_others: "quiet (calm t)" "settled c path (calm t)"
  by (simp_all add: quiet_def settled_def others_ok_def calm_def)

lemma greedy_draw_ok: "draw_ok greedy_draw"
  unfolding draw_ok_def
proof (intro allI impI)
  fix rng ps
  assume pos: "\<forall>p\<in>set ps. \<exists>i<length p. 0 < (p :: real list) ! i"
  have "0 \<le> int (argmax p) \<and> nat (int (argmax p)) < length p \<and> 0 < p ! nat (int (argmax p))" if p: "p \<in> set ps" for p
  proof -
    obtain i where i: "i < length p" "0 < p ! i" using pos p by blast
    then have "p \<noteq> []" by auto
    from argmax_spec(1,2) [OF this] i show ?thesis by fastforce
  qed
  then show "list_all2 (\<lambda>p a. 0 \<le> a \<and> nat a < length p \<and> 0 < p ! nat a) ps (fst (greedy_draw rng ps))"
    by (simp add: greedy_draw_def list_all2_map2 list.rel_refl_strong)
qed

lemma demo_mask: "request_mask (it_action_mask demo_request_item) 2 = Inr [0, 1]"
  by (simp add: demo_request_item_def request_mask_def double_overflow_def) code_simp

lemma demo_dim: "e = [] \<or> e = demo_config \<Longrightarrow> expected_input_dim 2 0 e = Inr 23"
  by (auto simp: expected_input_dim_def expected_version_def expected_layout_def demo_config_def dict_get_def input_dim_def
      address_flag_dim_def state_dim_def)

lemma demo_mismatches: "e = [] \<or> e = demo_config \<Longrightarrow> checkpoint_config_mismatches (map_of demo_config) e = []"
  by (auto simp: checkpoint_config_mismatches_def key_mismatch_def demo_config_def scalar_eq_def get_or_def value_matches_def)

lemma demo_load:
  assumes "e = [] \<or> e = demo_config"
  shows "load_compatible shard_lib 23 2 e (Inr (agent_save (demo_agent b) demo_config)) (demo_agent 0) = Inr (demo_agent b)"
  unfolding load_compatible_Inr load_weights_Inr
  using demo_mismatches [OF assms]
  by (intro exI [of _ "agent_save (demo_agent b) demo_config"] exI [of _ demo_config])
     (simp add: demo_agent_def shard_lib_def, simp add: agent_save_def)

lemma demo_fresh: "create_fresh_agent shard_lib (calm t) 23 2 = Inr (demo_agent 0)"
  by (simp add: create_fresh_agent_def make_agent_def calm_def shard_lib_def demo_agent_def)

text \<open>A request that loads the demonstration model.\<close>

lemma demo_get:
  assumes "e = [] \<or> e = demo_config" and "fs ''m.pt'' = Some (Inr (agent_save (demo_agent b) demo_config), m)"
  shows "get_agent shard_lib (\<lambda>_. []) (calm t) 2 ''m.pt'' 0 init e new_cache fs =
    (Inr (Inr (demo_agent b)), cached (demo_agent b) 2 23 ''m.pt'' m [], fs)"
  using get_agent_load [where fs = fs and path = "''m.pt''" and c = new_cache and dumps = "\<lambda>_. []" and lib = shard_lib,
      OF demo_others(1) demo_dim [OF assms(1)] assms(2)] demo_load [OF assms(1)]
  by (simp add: cache_hit_def new_cache_def demo_fresh)

text \<open>The demonstration item goes through the network.\<close>

lemma demo_answer:
  assumes "e = [] \<or> e = demo_config"
  shows "\<exists>a. infer_items shard_lib (\<lambda>_. []) greedy_draw (calm 9) [demo_request_item] 2 False 5 ''m.pt'' 0 False e demo_server =
    (Inr [a], demo_server\<lparr>sv_cache := cached (demo_agent 1) 2 23 ''m.pt'' 7 []\<rparr>)"
proof -
  have f: "sv_files demo_server ''m.pt'' = Some (Inr (agent_save (demo_agent 1) demo_config), 7)" by (simp add: demo_server_def)
  have c: "sv_cache demo_server = new_cache" by (simp add: demo_server_def)
  have "agent_ok shard_lib (nat 2) (demo_agent 1)"
    by (rule agent_okI [OF demo_contract(4), of 23]) (simp add: demo_fits_def demo_agent_def)
  moreover have "list_all (row_ok 2) [(demo_request_item, [0, 1])]"
    using demo_mask by (simp add: row_ok_def demo_request_item_def list_all_iff)
  moreover have "\<forall>r\<in>set [(demo_request_item, [0, 1 :: int])]. tl_forward shard_lib (ag_net (demo_agent 1)) (it_state (fst r)) \<noteq> None"
    by (simp add: shard_lib_def demo_agent_def demo_request_item_def)
  ultimately obtain as rng' where rows: "infer_rows shard_lib greedy_draw (demo_agent 1) 2 False 5 [(demo_request_item, [0, 1])] () = (Inr as, rng')"
    using infer_rows_total [of 2 shard_lib "demo_agent 1" greedy_draw "[(demo_request_item, [0, 1])]" False 5 "()"] greedy_draw_ok by auto
  obtain a where as: "as = [a]" using infer_rows_length [OF rows] by (auto simp: length_Suc_conv)
  have tri: "triage 23 2 5 e demo_request_item = Inr (Inr (demo_request_item, [0, 1]))"
    using demo_mask by (simp add: triage_def) (simp add: demo_request_item_def)
  have "infer_with_agent shard_lib greedy_draw (demo_agent 1) 23 [demo_request_item] 2 False 5 e () = (Inr [a], ())"
    using rows by (simp add: infer_with_agent_def tri as)
  moreover have "sv_rng demo_server = ()" by simp
  ultimately show ?thesis
    by (simp add: infer_items_def demo_dim [OF assms] c demo_get [where fs = "sv_files demo_server", OF assms f])
qed

text \<open>
  C12. Requests are answered in order until something outside the \<open>try\<close> block fails. The server
  writes exactly one line for each request line that is not blank, in the order of the lines: the
  encoding of an answer with the number of the request and one entry per item, of the report of an
  invalid number of shards, or of an error when the line is no JSON text or its handling raises.
  It reaches the end of the input unless a line cannot be decoded or its response cannot be
  encoded; then it ends with that exception, having answered all lines before that one.
\<close>

theorem server_answers_every_request:
  assumes "server_main lib dumps draw to_str mp loads decode encode input sv = (outs, stop, sv')"
  shows "case stop of
      None \<Rightarrow> answered (responds lib dumps draw to_str mp loads) decode encode input outs
    | Some e \<Rightarrow> \<exists>pre mo raw post. input = pre @ (mo, raw) # post \<and>
        answered (responds lib dumps draw to_str mp loads) decode encode pre outs \<and>
        (decode raw = Inl e \<or>
         (\<exists>line resp. decode raw = Inr line \<and> py_strip line \<noteq> [] \<and>
            responds lib dumps draw to_str mp loads (py_strip line) resp \<and> encode resp = Inl e))"
  using server_main_spec [OF assms] unfolding stops_at_def .

text \<open>One request that the network answers, between a line that is no JSON text and a blank one.\<close>

definition demo_loads :: "string \<Rightarrow> pyval result" where
  "demo_loads line = (if line = ''r'' then Inr (VDict [(''request_id'', VInt 5), (''shards'', VInt 2), (''allow_model_init'', VBool False),
       (''model'', VStr ''m.pt''), (''items'', VList [VDict [(''address'', VStr ''a''), (''related'', VStr ''b''),
         (''state'', VList (replicate 23 (VInt 0))), (''action_mask'', VList [VInt 0, VInt 1])]])])
     else Inl ValueError)"

lemma demo_request:
  "\<exists>a sv'. serve_line shard_lib (\<lambda>_. []) greedy_draw (\<lambda>_. []) ''x'' demo_loads (calm 9) ''r'' demo_server =
     (\<lparr>rs_request_id = 5, rs_items = [a], rs_error = None\<rparr>, sv')"
proof -
  have "traverse float_of (replicate n (VInt 0)) = Inr (replicate n (Fin 0))" for n
    by (induction n) (simp_all add: double_overflow_def)
  then have items: "normalize_items (\<lambda>_. []) (VList [VDict [(''address'', VStr ''a''), (''related'', VStr ''b''),
         (''state'', VList (replicate 23 (VInt 0))), (''action_mask'', VList [VInt 0, VInt 1])]]) = Inr [demo_request_item]"
    by (simp add: normalize_items_def make_item_def dict_get_def get_or_def List.map_filter_def list_or_nil_def py_str_def
        demo_request_item_def)
  obtain a sv' where "infer_items shard_lib (\<lambda>_. []) greedy_draw (calm 9) [demo_request_item] 2 False 5 ''m.pt'' 0 False [] demo_server = (Inr [a], sv')"
    using demo_answer [of "[]"] by blast
  then show ?thesis
    by (simp add: serve_line_def demo_loads_def handle_request_def require_dict_def parse_request_def dict_get_def get_or_def
        py_str_def items)
qed

theorem server_answers_every_request_witness:
  "\<exists>resp outs sv'. server_main shard_lib (\<lambda>_. []) greedy_draw (\<lambda>_. []) ''x'' demo_loads Inr Inr
      [(calm 9, ''r''), (calm 10, '' ''), (calm 11, ''{'')] demo_server = (resp # outs, None, sv') \<and>
     rs_request_id resp = 5 \<and> length (rs_items resp) = 1 \<and> rs_error resp = None \<and> length outs = 1"
proof -
  let ?in = "[(calm 9, ''r''), (calm 10, '' ''), (calm 11, ''{'')]"
  have lines: "py_strip ''r'' = ''r''" "py_strip '' '' = []" "py_strip ''{'' = ''{''" by code_simp+
  obtain a sv1 where r: "serve_line shard_lib (\<lambda>_. []) greedy_draw (\<lambda>_. []) ''x'' demo_loads (calm 9) ''r'' demo_server =
     (\<lparr>rs_request_id = 5, rs_items = [a], rs_error = None\<rparr>, sv1)"
    using demo_request by blast
  obtain resp2 sv' where "serve_line shard_lib (\<lambda>_. []) greedy_draw (\<lambda>_. []) ''x'' demo_loads (calm 11) ''{'' sv1 = (resp2, sv')"
    by (cases "serve_line shard_lib (\<lambda>_. []) greedy_draw (\<lambda>_. []) ''x'' demo_loads (calm 11) ''{'' sv1")
  with r obtain outs stop where run: "server_main shard_lib (\<lambda>_. []) greedy_draw (\<lambda>_. []) ''x'' demo_loads Inr Inr ?in demo_server =
      (\<lparr>rs_request_id = 5, rs_items = [a], rs_error = None\<rparr> # outs, stop, sv')" and "stop = None"
    by (simp add: lines)
  then have "answered (responds shard_lib (\<lambda>_. []) greedy_draw (\<lambda>_. []) ''x'' demo_loads) Inr Inr ?in
      (\<lparr>rs_request_id = 5, rs_items = [a], rs_error = None\<rparr> # outs)"
    using server_answers_every_request [OF run] by simp
  then have "length outs = 1" by (auto simp: answered_def request_lines_def lines dest!: list_all2_lengthD)
  then show ?thesis using run \<open>stop = None\<close> by auto
qed

text \<open>
  The encoding is outside the \<open>try\<close> block: a request whose response cannot be encoded (an address
  with half of a surrogate pair is echoed in it) ends the server, and later lines get no answer.
\<close>

theorem unencodable_answer_stops_server:
  assumes "decode raw = Inr line" and "py_strip line \<noteq> []"
    and "serve_line lib dumps draw to_str mp loads mo (py_strip line) sv = (resp, sv')" and "encode resp = Inl e"
  shows "server_main lib dumps draw to_str mp loads decode encode ((mo, raw) # input) sv = ([], Some e, sv')"
  using assms by simp

text \<open>
  C13. Every item of a request that is answered gets its own answer, in order, on an existing
  shard that its mask allows, whether the network sampled it, took the argmax, or the heuristic
  replaced it; and with an expected configuration only the network answers. This holds for items
  whose states are finite numbers, whatever other processes do to the model files meanwhile. It
  relies on torch: networks have the dimensions they are built with and keep them when weights are
  loaded, give one logit per output on a finite state, above the lowest number of single precision,
  and samples have positive probability. The cached agent, if any, has the dimensions it is cached
  with; this holds at the start and is kept by every request.
\<close>

theorem answers_are_legal:
  assumes "infer_items lib dumps draw mo items shards sample rid path fd init expected sv = (Inr as, sv')"
    and "0 < shards" and "\<forall>it\<in>set items. list_all is_finite (it_state it)"
    and "builds fits (mo_fresh mo)" and "keeps_shape lib fits" and "emits lib fits" and "draw_ok draw"
    and "cache_fits fits (sv_cache sv)"
  shows "list_all2 (\<lambda>it a. an_address a = it_address it \<and> an_related a = it_related it \<and> an_batch_id a = rid \<and>
      0 \<le> an_shard a \<and> an_shard a < shards \<and>
      (\<exists>m. request_mask (it_action_mask it) shards = Inr m \<and> m ! nat (an_shard a) = 1) \<and>
      (expected = [] \<or> an_source a = PythonPpo)) items as \<and> cache_fits fits (sv_cache sv')"
proof -
  obtain ed where ed: "expected_input_dim shards fd expected = Inr ed"
    using assms(1) by (auto simp: infer_items_def split: sum.splits)
  note fit = get_agent_fits [where fits = fits, OF _ ed assms(8,4,5)]
  have "agent_ok lib (nat shards) agent"
    if "get_agent lib dumps mo shards path fd init expected (sv_cache sv) (sv_files sv) = (Inr (Inr agent), c, fs)" for agent c fs
    by (rule agent_okI [OF assms(6), of ed]) (use fit [OF that] assms(2) in \<open>simp add: found_fits_def\<close>)
  note ok = infer_items_ok [OF assms(1,2,7,3) this]
  have "cache_fits fits (sv_cache sv')"
    using assms(1)
  proof (cases rule: infer_items_cases)
    case heuristic
    then show ?thesis using fit [OF heuristic(2)] by simp
  next
    case network
    then show ?thesis using fit [OF network(2)] by simp
  qed
  moreover have "list_all2 (\<lambda>it a. an_address a = it_address it \<and> an_related a = it_related it \<and> an_batch_id a = rid \<and>
      0 \<le> an_shard a \<and> an_shard a < shards \<and>
      (\<exists>m. request_mask (it_action_mask it) shards = Inr m \<and> m ! nat (an_shard a) = 1) \<and>
      (expected = [] \<or> an_source a = PythonPpo)) items as"
    using ok unfolding served_def answers_item_def by (rule list_all2_mono) auto
  ultimately show ?thesis by blast
qed

theorem answers_are_legal_witness:
  "\<exists>a sv'. infer_items shard_lib (\<lambda>_. []) greedy_draw (calm 9) [demo_request_item] 2 False 5 ''m.pt'' 0 False demo_config
      demo_server = (Inr [a], sv') \<and> an_shard a = 1 \<and> an_source a = PythonPpo"
proof -
  obtain a sv' where run: "infer_items shard_lib (\<lambda>_. []) greedy_draw (calm 9) [demo_request_item] 2 False 5 ''m.pt'' 0 False
      demo_config demo_server = (Inr [a], sv')"
    using demo_answer [of demo_config] by blast
  have "\<forall>it\<in>set [demo_request_item]. list_all is_finite (it_state it)" by (simp add: demo_request_item_def list_all_iff)
  moreover have "cache_fits demo_fits (sv_cache demo_server)" by (simp add: cache_fits_def demo_server_def new_cache_def)
  ultimately have "0 \<le> an_shard a \<and> an_shard a < 2 \<and> [0, 1 :: int] ! nat (an_shard a) = 1 \<and> an_source a = PythonPpo"
    using answers_are_legal [OF run _ _ demo_contract(1,3,4) greedy_draw_ok] demo_mask by (simp add: demo_config_def)
  then have "an_shard a = 1 \<and> an_source a = PythonPpo" by (cases "nat (an_shard a)") auto
  then show ?thesis using run by blast
qed





text \<open>
  The race: the modification time is read again after the model was loaded. If another process
  replaces the file in between, the old weights are cached under the time of the new file, and
  later requests are answered by the old network although loading the file would give the new one.
\<close>

definition overtaken :: "(int \<times> int \<times> int) moment" where
  "overtaken = (calm 9)\<lparr>mo_others := \<lambda>n fs. if n = 4
     then fs(''m.pt'' \<mapsto> (Inr (agent_save (demo_agent 0) demo_config), 8)) else fs\<rparr>"

theorem stale_agent_race:
  "\<exists>c fs. get_agent shard_lib (\<lambda>_. []) overtaken 2 ''m.pt'' 0 False demo_config new_cache (sv_files demo_server) =
       (Inr (Inr (demo_agent 1)), c, fs) \<and>
     fs ''m.pt'' = Some (Inr (agent_save (demo_agent 0) demo_config), 8) \<and>
     fst (get_agent shard_lib (\<lambda>_. []) (calm 10) 2 ''m.pt'' 0 False demo_config c fs) = Inr (Inr (demo_agent 1)) \<and>
     fst (get_agent shard_lib (\<lambda>_. []) (calm 10) 2 ''m.pt'' 0 False demo_config new_cache fs) = Inr (Inr (demo_agent 0)) \<and>
     demo_agent 1 \<noteq> demo_agent 0"
proof -
  let ?fs = "(sv_files demo_server)(''m.pt'' \<mapsto> (Inr (agent_save (demo_agent 0) demo_config), 8))"
  let ?c = "cached (demo_agent 1) 2 23 ''m.pt'' 8 []"
  have f: "sv_files demo_server ''m.pt'' = Some (Inr (agent_save (demo_agent 1) demo_config), 7)" by (simp add: demo_server_def)
  have acts: "mo_others overtaken n fs = (if n = 4 then fs(''m.pt'' \<mapsto> (Inr (agent_save (demo_agent 0) demo_config), 8)) else fs)" for n fs
    by (simp add: overtaken_def)
  have "create_fresh_agent shard_lib overtaken 23 2 = Inr (demo_agent 0)"
    using demo_fresh by (simp add: create_fresh_agent_def overtaken_def)
  then have first: "get_agent shard_lib (\<lambda>_. []) overtaken 2 ''m.pt'' 0 False demo_config new_cache (sv_files demo_server) =
      (Inr (Inr (demo_agent 1)), ?c, ?fs)"
    using demo_load [of demo_config 1] f
    by (simp add: get_agent_def demo_dim acts reload_agent_def remember_def model_mtime_def cache_hit_def new_cache_def cached_def)
  have "get_agent shard_lib (\<lambda>_. []) (calm 10) 2 ''m.pt'' 0 False demo_config ?c ?fs = (Inr (Inr (demo_agent 1)), ?c, ?fs)"
    using get_agent_hit [where fs = ?fs and c = ?c and path = "''m.pt''" and dumps = "\<lambda>_. []" and lib = shard_lib,
      OF demo_others(1) demo_dim [OF disjI2 [OF refl]]]
    by (simp add: cache_hit_def cached_def mtime_of_def)
  moreover have "get_agent shard_lib (\<lambda>_. []) (calm 10) 2 ''m.pt'' 0 False demo_config new_cache ?fs =
      (Inr (Inr (demo_agent 0)), cached (demo_agent 0) 2 23 ''m.pt'' 8 [], ?fs)"
    by (rule demo_get) simp_all
  ultimately show ?thesis using first by (intro exI [of _ ?c] exI [of _ ?fs]) (simp add: demo_agent_def)
qed



text \<open>
  The batch entry answers every item in order on an allowed shard under the same assumptions,
  and never replaces a model of version 3: for such a file it fails and returns nothing.
\<close>

theorem batch_inference_legal:
  assumes "infer_batch lib draw items shards sample model rng = Inr (ps, model')"
    and "0 < shards" and "builds fits (tl_fresh lib)" and "keeps_shape lib fits" and "emits lib fits" and "draw_ok draw"
    and "\<forall>it\<in>set items. list_all is_finite (it_state it)"
  shows "list_all2 (answers_item shards) items ps \<and> (\<forall>p. model = Some (Inr p) \<longrightarrow> is_v3 p = Inr False)"
proof -
  have "is_v3 p = Inr False" if "model = Some (Inr p)" for p
    using assms(1) that by (auto simp: infer_batch_def load_batch_agent_def result_simps split: if_splits)
  then show ?thesis using infer_batch_answers [OF assms] by blast
qed

theorem batch_inference_legal_witness:
  "\<exists>p model'. infer_batch shard_lib greedy_draw [demo_request_item\<lparr>it_state := []\<rparr>] 2 False None () = Inr ([p], model') \<and>
     an_shard p = 1"
proof -
  let ?it = "demo_request_item\<lparr>it_state := []\<rparr>"
  have mk: "request_mask (it_action_mask ?it) 2 = Inr [0, 1]" using demo_mask by simp
  obtain p where p: "batch_safe_heuristic ?it 2 DimMismatch = Inr p" using mk by (simp add: batch_safe_heuristic_def Let_def)
  obtain model' where run: "infer_batch shard_lib greedy_draw [?it] 2 False None () = Inr ([p], model')"
    using p by (simp add: infer_batch_def load_batch_agent_def make_agent_def shard_lib_def reset_model_def
        batch_triage_def state_dim_def demo_request_item_def)
  have "0 \<le> an_shard p \<and> an_shard p < 2 \<and> [0, 1 :: int] ! nat (an_shard p) = 1"
    using batch_inference_legal [OF run _ demo_contract(2,3,4) greedy_draw_ok] mk by (simp add: answers_item_def)
  then have "an_shard p = 1" by (cases "nat (an_shard p)") auto
  then show ?thesis using run by blast
qed

text \<open>
  The fallback can leave its mask: on a state of NaN no score compares as greater than minus
  infinity, and the first shard is returned although the mask excludes it.
\<close>

theorem nan_state_breaks_mask:
  "\<exists>a. safe_heuristic (demo_request_item\<lparr>it_state := replicate 23 NaN\<rparr>) 2 NoModel 0 = Inr a \<and>
     an_shard a = 0 \<and> request_mask (it_action_mask demo_request_item) 2 = Inr [0, 1]"
proof -
  have mk: "request_mask (it_action_mask demo_request_item) 2 = Inr [0, 1]"
    by (simp add: demo_request_item_def request_mask_def double_overflow_def) code_simp
  have "heuristic_scores_float (replicate 23 NaN) 2 = [NaN, NaN]"
    by (simp add: heuristic_scores_float_def fsum_def upt_rec numeral_2_eq_2)
  then have "heuristic_float (replicate 23 NaN) 2 [0, 1] = 0"
    by (simp add: heuristic_float_def best_allowed_float_def best_step_float_def numeral_2_eq_2)
  then show ?thesis using mk by (simp add: safe_heuristic_def demo_request_item_def Let_def)
qed

end
