(* ===== verification/EvalSummary.thy ===== *)
theory EvalSummary
  imports Training
begin

text \<open>
  The running summary of \<open>eval_offline.py\<close> and the report computed from it. It differs from the
  summary of the training loop: it keeps the load vectors of every kind, adds with
  \<open>enumerate\<close> throughout, and overwrites the pending loads with those of the last batch.
\<close>

record esummary =
  es_batches :: nat
  es_tx_count :: nat
  es_action_count :: nat
  es_effective_tx :: real
  es_cross_tx :: real
  es_reward_sum :: real
  es_norm_var_sum :: real
  es_r_cstr_sum :: real
  es_r_wlb_sum :: real
  es_active_shards_sum :: real
  es_active_shard_ratio_sum :: real
  es_max_load_share_sum :: real
  es_hotspot_penalty_sum :: real
  es_load_aware_bonus_sum :: real
  es_backlog_penalty_sum :: real
  es_communication_cost_sum :: real
  es_relation_effective_tx :: real
  es_relation_cross_tx :: real
  es_owner_loads :: "nat list"
  es_relation_effective_loads :: "real list"
  es_relation_cross_loads :: "real list"
  es_per_shard_capacity_tps :: real
  es_load_semantics_version :: string
  es_related_known_count :: nat
  es_same_as_related_count :: nat
  es_related_shard_hist :: "nat list"
  es_same_related_by_shard :: "nat list"
  es_confidence_sum :: real
  es_entropy_sum :: real
  es_action_hist :: "nat list"
  es_loads :: "nat list"
  es_effective_loads :: "real list"
  es_reward_loads :: "real list"
  es_committed_loads :: "real list"
  es_committed_stage_loads :: "real list"
  es_pending_loads :: "real list"

definition eval_new_summary :: "nat \<Rightarrow> int \<Rightarrow> int \<Rightarrow> esummary" where
  "eval_new_summary shards max_block_size block_interval_ms =
     \<lparr>es_batches = 0, es_tx_count = 0, es_action_count = 0, es_effective_tx = 0, es_cross_tx = 0,
      es_reward_sum = 0, es_norm_var_sum = 0, es_r_cstr_sum = 0, es_r_wlb_sum = 0,
      es_active_shards_sum = 0, es_active_shard_ratio_sum = 0, es_max_load_share_sum = 0,
      es_hotspot_penalty_sum = 0, es_load_aware_bonus_sum = 0, es_backlog_penalty_sum = 0,
      es_communication_cost_sum = 0, es_relation_effective_tx = 0, es_relation_cross_tx = 0,
      es_owner_loads = replicate shards 0, es_relation_effective_loads = replicate shards 0,
      es_relation_cross_loads = replicate shards 0,
      es_per_shard_capacity_tps = real_of_int max_block_size * 1000 / real_of_int (max 1 block_interval_ms),
      es_load_semantics_version = LOAD_SEMANTICS_VERSION, es_related_known_count = 0,
      es_same_as_related_count = 0, es_related_shard_hist = replicate shards 0,
      es_same_related_by_shard = replicate shards 0, es_confidence_sum = 0, es_entropy_sum = 0,
      es_action_hist = replicate shards 0, es_loads = replicate shards 0,
      es_effective_loads = replicate shards 0, es_reward_loads = replicate shards 0,
      es_committed_loads = replicate shards 0, es_committed_stage_loads = replicate shards 0,
      es_pending_loads = replicate shards 0\<rparr>"

text \<open>\<open>for sid, v in enumerate(ys): xs[sid] = v\<close>.\<close>

definition set_enumerated :: "'a list \<Rightarrow> 'a list \<Rightarrow> 'a list result" where
  "set_enumerated xs ys =
     (if length xs < length ys then raise IndexError else return (ys @ drop (length ys) xs))"

definition eval_update_summary :: "esummary \<Rightarrow> batch_metrics \<Rightarrow> esummary result" where
  "eval_update_summary s m =
     (let q = bm_parts m; n = real (bm_action_count m) in
      bind_result (add_enumerated (es_related_shard_hist s) (bm_related_shard_hist m)) (\<lambda>rel_hist.
      bind_result (add_enumerated (es_same_related_by_shard s) (bm_same_related_by_shard m)) (\<lambda>same_hist.
      bind_result (add_enumerated (es_action_hist s) (bm_action_hist m)) (\<lambda>hist.
      bind_result (add_enumerated (es_loads s) (bm_loads m)) (\<lambda>loads.
      bind_result (add_enumerated (es_effective_loads s) (bm_effective_loads m)) (\<lambda>effective.
      bind_result (add_enumerated (es_reward_loads s) (bm_reward_loads m)) (\<lambda>rewarded.
      bind_result (add_enumerated (es_committed_loads s) (bm_committed_loads m)) (\<lambda>committed.
      bind_result (add_enumerated (es_committed_stage_loads s) (bm_committed_stage_loads m)) (\<lambda>committed_stage.
      bind_result (set_enumerated (es_pending_loads s) (bm_pending_loads m)) (\<lambda>pending.
      bind_result (add_enumerated (es_owner_loads s) (bm_owner_loads m)) (\<lambda>owner.
      bind_result (add_enumerated (es_relation_effective_loads s) (bm_relation_effective_loads m)) (\<lambda>rel_eff.
      bind_result (add_enumerated (es_relation_cross_loads s) (bm_relation_cross_loads m)) (\<lambda>rel_cross.
        return (s\<lparr>es_load_semantics_version := bm_load_semantics_version m,
          es_batches := es_batches s + 1,
          es_tx_count := es_tx_count s + bm_tx_count m,
          es_action_count := es_action_count s + bm_action_count m,
          es_effective_tx := es_effective_tx s + rp_effective_tx q,
          es_cross_tx := es_cross_tx s + rp_cross_tx q,
          es_reward_sum := es_reward_sum s + bm_reward m,
          es_norm_var_sum := es_norm_var_sum s + rp_normalized_load_variance q,
          es_r_cstr_sum := es_r_cstr_sum s + rp_r_cstr q,
          es_r_wlb_sum := es_r_wlb_sum s + rp_r_wlb q,
          es_active_shards_sum := es_active_shards_sum s + rp_active_shards q,
          es_active_shard_ratio_sum := es_active_shard_ratio_sum s + rp_active_shard_ratio q,
          es_max_load_share_sum := es_max_load_share_sum s + rp_max_load_share q,
          es_hotspot_penalty_sum := es_hotspot_penalty_sum s + rp_hotspot_penalty q,
          es_load_aware_bonus_sum := es_load_aware_bonus_sum s + rp_load_aware_bonus q,
          es_backlog_penalty_sum := es_backlog_penalty_sum s + rp_backlog_penalty q,
          es_communication_cost_sum := es_communication_cost_sum s + rp_communication_cost q,
          es_relation_effective_tx := es_relation_effective_tx s + sum_list (bm_relation_effective_loads m),
          es_relation_cross_tx := es_relation_cross_tx s + sum_list (bm_relation_cross_loads m),
          es_related_known_count := es_related_known_count s + bm_related_known_count m,
          es_same_as_related_count := es_same_as_related_count s + bm_same_as_related_count m,
          es_related_shard_hist := rel_hist, es_same_related_by_shard := same_hist,
          es_confidence_sum := es_confidence_sum s + bm_confidence_mean m * n,
          es_entropy_sum := es_entropy_sum s + bm_entropy_mean m * n,
          es_action_hist := hist, es_loads := loads, es_effective_loads := effective,
          es_reward_loads := rewarded, es_committed_loads := committed,
          es_committed_stage_loads := committed_stage, es_pending_loads := pending,
          es_owner_loads := owner, es_relation_effective_loads := rel_eff,
          es_relation_cross_loads := rel_cross\<rparr>))))))))))))))"

section \<open>The report\<close>

record eview =
  ew_batches :: nat
  ew_tx_count :: nat
  ew_action_count :: nat
  ew_effective_tx :: real
  ew_cross_tx :: real
  ew_cross_ratio :: real
  ew_reward_mean :: real
  ew_norm_var_mean :: real
  ew_r_cstr_mean :: real
  ew_r_wlb_mean :: real
  ew_active_shards_mean :: real
  ew_active_shard_ratio_mean :: real
  ew_max_load_share_mean :: real
  ew_hotspot_penalty_mean :: real
  ew_load_aware_bonus_mean :: real
  ew_backlog_penalty_mean :: real
  ew_communication_cost_mean :: real
  ew_relation_cross_ratio :: real
  ew_owner_loads :: "nat list"
  ew_owner_load_dist :: "real list"
  ew_owner_max_load_share :: real
  ew_stage_load_dist :: "real list"
  ew_execution_load :: load_stats
  ew_stage_max_load_share :: real
  ew_stage_max_load_per_tx :: real
  ew_per_shard_capacity_tps :: real
  ew_owner_anchor_tps_ceiling :: real
  ew_system_stage_tps_ceiling :: real
  ew_relation_effective_loads :: "real list"
  ew_relation_cross_loads :: "real list"
  ew_load_semantics_version :: string
  ew_same_as_related_ratio :: real
  ew_related_known_count :: nat
  ew_same_as_related_count :: nat
  ew_related_shard_hist :: "nat list"
  ew_same_related_by_shard :: "nat list"
  ew_related_follow_by_shard :: "real list"
  ew_min_related_follow_ratio :: real
  ew_confidence_mean :: real
  ew_entropy_mean :: real
  ew_action_hist :: "nat list"
  ew_action_dist :: "real list"
  ew_loads :: "nat list"
  ew_effective_loads :: "real list"
  ew_load_dist :: "real list"
  ew_reward_loads :: "real list"
  ew_reward_load_dist :: "real list"
  ew_committed_loads :: "real list"
  ew_committed_load_dist :: "real list"
  ew_committed_stage_loads :: "real list"
  ew_committed_stage_load_dist :: "real list"
  ew_pending_loads :: "real list"

text \<open>\<open>[v / total if total else 0.0 for v in xs]\<close> on floats.\<close>

definition rdist_of :: "real list \<Rightarrow> real list" where
  "rdist_of xs = (let total = sum_list xs in map (\<lambda>v. if total \<noteq> 0 then v / total else 0) xs)"

definition eval_summary_view :: "esummary \<Rightarrow> eview result" where
  "eval_summary_view s =
     (let batches = real (max 1 (es_batches s));
          actions = real (max 1 (es_action_count s));
          follow = follow_ratios (es_related_shard_hist s) (es_same_related_by_shard s);
          tx_count = es_tx_count s;
          owner_dist = dist_of (es_owner_loads s);
          stage_dist = dist_of (es_loads s);
          owner_max = max_or_zero owner_dist;
          stage_max = max_or_zero stage_dist;
          stage_per_tx = (if tx_count > 0 \<and> es_loads s \<noteq> []
                          then list_max (map real (es_loads s)) / real tx_count else 0);
          capacity = es_per_shard_capacity_tps s
      in if length (es_same_related_by_shard s) < length (es_related_shard_hist s) then raise IndexError
         else bind_result (load_statistics (map (Fin \<circ> real) (es_loads s))) (\<lambda>execution.
           return \<lparr>ew_batches = es_batches s, ew_tx_count = tx_count, ew_action_count = es_action_count s,
             ew_effective_tx = es_effective_tx s, ew_cross_tx = es_cross_tx s,
             ew_cross_ratio = ratio_or_zero (es_cross_tx s) (es_effective_tx s),
             ew_reward_mean = es_reward_sum s / batches,
             ew_norm_var_mean = es_norm_var_sum s / batches,
             ew_r_cstr_mean = es_r_cstr_sum s / batches,
             ew_r_wlb_mean = es_r_wlb_sum s / batches,
             ew_active_shards_mean = es_active_shards_sum s / batches,
             ew_active_shard_ratio_mean = es_active_shard_ratio_sum s / batches,
             ew_max_load_share_mean = es_max_load_share_sum s / batches,
             ew_hotspot_penalty_mean = es_hotspot_penalty_sum s / batches,
             ew_load_aware_bonus_mean = es_load_aware_bonus_sum s / batches,
             ew_backlog_penalty_mean = es_backlog_penalty_sum s / batches,
             ew_communication_cost_mean = es_communication_cost_sum s / batches,
             ew_relation_cross_ratio = ratio_or_zero (es_relation_cross_tx s) (es_relation_effective_tx s),
             ew_owner_loads = es_owner_loads s, ew_owner_load_dist = owner_dist,
             ew_owner_max_load_share = owner_max, ew_stage_load_dist = stage_dist,
             ew_execution_load = execution, ew_stage_max_load_share = stage_max,
             ew_stage_max_load_per_tx = stage_per_tx, ew_per_shard_capacity_tps = capacity,
             ew_owner_anchor_tps_ceiling = ratio_or_zero capacity owner_max,
             ew_system_stage_tps_ceiling = ratio_or_zero capacity stage_per_tx,
             ew_relation_effective_loads = es_relation_effective_loads s,
             ew_relation_cross_loads = es_relation_cross_loads s,
             ew_load_semantics_version = es_load_semantics_version s,
             ew_same_as_related_ratio =
               ratio_or_zero (real (es_same_as_related_count s)) (real (es_related_known_count s)),
             ew_related_known_count = es_related_known_count s,
             ew_same_as_related_count = es_same_as_related_count s,
             ew_related_shard_hist = es_related_shard_hist s,
             ew_same_related_by_shard = es_same_related_by_shard s,
             ew_related_follow_by_shard = follow,
             ew_min_related_follow_ratio = min_follow (es_related_shard_hist s) follow,
             ew_confidence_mean = es_confidence_sum s / actions,
             ew_entropy_mean = es_entropy_sum s / actions,
             ew_action_hist = es_action_hist s, ew_action_dist = dist_of (es_action_hist s),
             ew_loads = es_loads s, ew_effective_loads = es_effective_loads s,
             ew_load_dist = rdist_of (es_effective_loads s), ew_reward_loads = es_reward_loads s,
             ew_reward_load_dist = rdist_of (es_reward_loads s),
             ew_committed_loads = es_committed_loads s,
             ew_committed_load_dist = rdist_of (es_committed_loads s),
             ew_committed_stage_loads = es_committed_stage_loads s,
             ew_committed_stage_load_dist = rdist_of (es_committed_stage_loads s),
             ew_pending_loads = es_pending_loads s\<rparr>))"

end
