(* ===== verification/Evaluation.thy ===== *)
theory Evaluation
  imports EvalSummary IotMetrics Agent Logits
begin

text \<open>
  The entry \<open>eval_offline.py\<close>: choice and loading of the data window, the checkpoint and its
  compatibility test, the policies, and the evaluation loop with the optional IoT measurement;
  and \<open>evaluation_context\<close> of \<open>iot_metrics.py\<close>, which prepares that measurement.

  The namespace of the command line is the record \<open>eval_args\<close>. Files are looked up by their path:
  \<open>data_files\<close> gives the rows of CSV files, the header and rows of sidecar files, and the
  \<open>index_offset\<close> of the metadata beside a sidecar. The generators of torch and of \<open>random.Random\<close>
  are the two functions of \<open>generators\<close> on one state. The loaders give transactions over
  \<open>pyfloat\<close>; the loop runs on their finite values, which the real-account loader guarantees.
\<close>

section \<open>Arguments and files\<close>

record eval_args =
  ev_csv :: string
  ev_sidecar :: string
  ev_mdp_mode :: string
  ev_tx_identity :: string
  ev_policy :: string
  ev_sample :: bool
  ev_shards :: int
  ev_start_tx :: int
  ev_max_txs :: int
  ev_tx_batch_size :: int
  ev_max_block_size :: int
  ev_block_interval_ms :: int
  ev_sender_pos_mode :: int
  ev_temporal_top_k :: int
  ev_params :: reward_params
  ev_local_reward_weight :: real
  ev_action_reward_scale :: real
  ev_capacity_backlog_mode :: int
  ev_candidate_top_k :: int
  ev_capacity_guard :: int
  ev_capacity_guard_factor :: real
  ev_candidate_load_weight :: real
  ev_argmax_tie_break :: int
  ev_argmax_tie_eps :: real
  ev_allow_checkpoint_config_mismatch :: bool
  ev_iot_metrics :: bool
  ev_iot_reference_start_tx :: int
  ev_iot_reference_max_txs :: int
  ev_mechanism_version :: string
  ev_feature_mode :: string
  ev_scene_cost_mode :: string
  ev_rollout_batches :: int

definition mech_args_of :: "eval_args \<Rightarrow> mech_args" where
  "mech_args_of a =
     \<lparr>arg_mechanism_version = Some (ev_mechanism_version a), arg_feature_mode = Some (ev_feature_mode a),
      arg_scene_cost_mode = Some (ev_scene_cost_mode a), arg_tx_identity = Some (ev_tx_identity a),
      arg_mdp_mode = Some (ev_mdp_mode a), arg_capacity_backlog_mode = Some (ev_capacity_backlog_mode a),
      arg_keep_placement = None, arg_rollout_batches = Some (ev_rollout_batches a),
      arg_reward_mode = Some (reward_mode (ev_params a)),
      arg_local_reward_weight = Some (Fin (ev_local_reward_weight a)),
      arg_action_reward_scale = Some (Fin (ev_action_reward_scale a)), arg_supervised_coef = None\<rparr>"

record data_files =
  df_csv :: "string \<Rightarrow> string list list option"
  df_sidecar :: "string \<Rightarrow> (string list \<times> row list) option"
  df_index_offset :: "string \<Rightarrow> int"

record 'r generators =
  gen_sample :: "'r \<Rightarrow> real list \<Rightarrow> int \<times> 'r"
  gen_randrange :: "'r \<Rightarrow> int \<Rightarrow> int \<times> 'r"

section \<open>What the arguments mean\<close>

definition is_iot_mdp :: "eval_args \<Rightarrow> bool" where
  "is_iot_mdp a \<longleftrightarrow> py_lower (py_strip (ev_mdp_mode a)) = ''iot''"

definition uses_iot_identity :: "eval_args \<Rightarrow> bool" where
  "uses_iot_identity a \<longleftrightarrow>
     (let mode = py_lower (py_strip (ev_tx_identity a)) in
      if mode \<in> {''iot'', ''iot_v2''} then True
      else if mode = ''raw'' then False
      else is_iot_mdp a)"

definition eval_identity :: "eval_args \<Rightarrow> string" where
  "eval_identity a = resolved_identity (ev_tx_identity a) (ev_mdp_mode a)"

definition load_semantics :: "eval_args \<Rightarrow> string" where
  "load_semantics a = (if eval_identity a = V2_IDENTITY then V2_LOAD_SEMANTICS else LOAD_SEMANTICS_VERSION)"

definition REWARD_MODE :: string where
  "REWARD_MODE = IOT_DENSE_BALANCED_REWARD_MODE"

definition normalize_reward_mode :: "eval_args \<Rightarrow> eval_args" where
  "normalize_reward_mode a =
     (if is_iot_mdp a \<and> reward_mode (ev_params a) = REWARD_MODE
      then a\<lparr>ev_params := (ev_params a)\<lparr>reward_mode := IOT_DENSE_BALANCED_REWARD_MODE\<rparr>\<rparr> else a)"

definition iot_feature_dim_for_args :: "eval_args \<Rightarrow> int" where
  "iot_feature_dim_for_args a = (if is_iot_mdp a then int IOT_FEATURE_DIM else 0)"

definition eval_state_dim :: "eval_args \<Rightarrow> int result" where
  "eval_state_dim a =
     bind_result (settings (mech_args_of a)) (\<lambda>s.
       input_dim (ev_shards a) (iot_feature_dim_for_args a) (mechanism_version s) None)"

definition resolve_csv_path :: "string \<Rightarrow> eval_args \<Rightarrow> string" where
  "resolve_csv_path ROOT_DIR a =
     (let csv_arg = py_strip (ev_csv a) in
      if csv_arg \<noteq> [] then csv_arg
      else if eval_identity a = ''iot_v2'' then ROOT_DIR @ ''/data_iot_v2/selectedTxs_iot_v2.csv''
      else if uses_iot_identity a then ROOT_DIR @ ''/data_iot/selectedTxs_iot_multi_anchor_full.csv''
      else ROOT_DIR @ ''/selectedTxs_300K.csv'')"

definition resolve_iot_sidecar_path :: "string \<Rightarrow> eval_args \<Rightarrow> string" where
  "resolve_iot_sidecar_path ROOT_DIR a =
     (let sidecar = py_strip (ev_sidecar a) in
      if sidecar \<noteq> [] then sidecar
      else if eval_identity a = ''iot_v2'' then ROOT_DIR @ ''/data_iot_v2/transaction_scene.csv''
      else ROOT_DIR @ ''/data_iot/iot_flow_sidecar_multi_anchor_full.csv'')"

text \<open>The transactions and the arguments with \<open>args.sidecar\<close> set.\<close>

definition load_eval_transactions ::
  "(string \<Rightarrow> bool) \<Rightarrow> data_files \<Rightarrow> string \<Rightarrow> eval_args \<Rightarrow> string list list \<Rightarrow> (pyfloat tx list \<times> eval_args) result" where
  "load_eval_transactions is_private fs ROOT_DIR a rows =
     (if uses_iot_identity a then
        (let sidecar_path = resolve_iot_sidecar_path ROOT_DIR a in
         case df_sidecar fs sidecar_path of
           None \<Rightarrow> raise FileNotFoundError
         | Some (header, scene) \<Rightarrow>
             bind_result (load_iot_transactions is_private (df_index_offset fs sidecar_path) rows header scene
                 (ev_max_txs a) (ev_start_tx a) (eval_identity a)) (\<lambda>txs.
               return (txs, a\<lparr>ev_sidecar := sidecar_path\<rparr>)))
      else bind_result (load_transactions rows (ev_max_txs a) (ev_start_tx a)) (\<lambda>txs. return (txs, a)))"

section \<open>The checkpoint\<close>

definition metadata_items :: "mech_metadata option \<Rightarrow> dict" where
  "metadata_items m =
     (case m of
        None \<Rightarrow> []
      | Some r \<Rightarrow> [(''mechanism_version'', VStr (mechanism_version r)), (''feature_mode'', VStr (feature_mode r)),
          (''scene_cost_mode'', VStr (scene_cost_mode r)), (''trajectory_version'', VStr (trajectory_version r)),
          (''reward_load_basis'', VStr (reward_load_basis r)), (''state_layout'', VStr (state_layout r))])"

definition expected_checkpoint_config :: "eval_args \<Rightarrow> dict result" where
  "expected_checkpoint_config a =
     bind_result (metadata (mech_args_of a)) (\<lambda>m.
       return (metadata_items m @
         [(''mdp_mode'', VStr (ev_mdp_mode a)), (''tx_identity_resolved'', VStr (eval_identity a)),
          (''shards'', VInt (ev_shards a)), (''iot_feature_dim'', VInt (iot_feature_dim_for_args a)),
          (''sender_pos_mode'', VInt (ev_sender_pos_mode a)), (''reward_mode'', VStr (reward_mode (ev_params a))),
          (''iot_cstr_weight'', VFloat (Fin (iot_cstr_weight (ev_params a)))),
          (''iot_balance_weight'', VFloat (Fin (iot_balance_weight (ev_params a)))),
          (''iot_comm_cost_weight'', VFloat (Fin (iot_comm_cost_weight (ev_params a)))),
          (''iot_hotspot_weight'', VFloat (Fin (iot_hotspot_weight (ev_params a)))),
          (''candidate_top_k'', VInt (ev_candidate_top_k a)), (''capacity_guard'', VInt (ev_capacity_guard a)),
          (''capacity_guard_factor'', VFloat (Fin (ev_capacity_guard_factor a))),
          (''candidate_load_weight'', VFloat (Fin (ev_candidate_load_weight a))),
          (''max_block_size'', VInt (ev_max_block_size a)),
          (''block_interval_ms'', VInt (ev_block_interval_ms a)),
          (''load_semantics_version'', VStr (load_semantics a))]))"

definition eval_load_agent ::
  "('w, 'l) torch_lib \<Rightarrow> 'w model_file \<Rightarrow> eval_args \<Rightarrow> 'w agent option result" where
  "eval_load_agent lib model a =
     (if ev_policy a \<noteq> ''ppo'' then return None
      else
        (case model of
           None \<Rightarrow> raise FileNotFoundError
         | Some content \<Rightarrow>
             bind_result (eval_state_dim a) (\<lambda>d.
             bind_result (make_agent lib d (ev_shards a)) (\<lambda>agent.
               case agent_load lib content agent of
                 (Inl e, _) \<Rightarrow> raise e
               | (Inr pl, agent) \<Rightarrow>
                   bind_result (payload_dims pl) (\<lambda>(sdim, adim).
                     if sdim \<noteq> d \<or> adim \<noteq> ev_shards a then raise ValueError
                     else
                       bind_result (payload_extra pl) (\<lambda>extra.
                       bind_result (expected_checkpoint_config a) (\<lambda>expected.
                         if checkpoint_config_mismatches (map_of extra) expected \<noteq> [] \<and>
                            \<not> ev_allow_checkpoint_config_mismatch a then raise ValueError
                         else return (Some agent))))))))"

section \<open>The policies\<close>

definition plain_output :: "int \<Rightarrow> string \<Rightarrow> policy_output" where
  "plain_output action source =
     \<lparr>po_action = action, po_log_prob = 0, po_value = 0, po_confidence = 0, po_entropy = 0, po_source = source\<rparr>"

text \<open>A row the network cannot evaluate, or an action outside the distribution, raises.\<close>

definition ppo_policy :: "('w, 'l) torch_lib \<Rightarrow> 'r generators \<Rightarrow> eval_args \<Rightarrow> 'w agent \<Rightarrow> 'r policy" where
  "ppo_policy lib gen a agent e rng state address related info =
     (case tl_forward lib (ag_net agent) (map Fin state) of
        None \<Rightarrow> raise ValueError
      | Some (logits, v) \<Rightarrow>
          (let masked = mask_logits logits (Some (normalize_action_mask (Some (sp_action_mask info)) (ag_action_dim agent)));
               probs = softmax masked;
               (action, rng) =
                 (if ev_sample a then gen_sample gen rng probs
                  else (int (tie_aware_argmax probs (address @ ''|'' @ related) (ev_argmax_tie_eps a)
                               (ev_argmax_tie_break a \<noteq> 0)), rng))
           in if action < 0 \<or> action \<ge> int (length masked) then raise ValueError
              else return (\<lparr>po_action = action, po_log_prob = cat_log_prob masked (nat action), po_value = v,
                     po_confidence = probs ! nat action, po_entropy = cat_entropy masked,
                     po_source = ''python_ppo''\<rparr>, rng)))"

text \<open>The scores of the heuristic on real accounts: the number of accounts already placed is its load.\<close>

definition v2_heuristic_score :: "env \<Rightarrow> nat \<Rightarrow> string \<Rightarrow> sender_pos_info \<Rightarrow> nat \<Rightarrow> real" where
  "v2_heuristic_score e shards address info sid =
     (if sp_related_known info then 1000 * sp_sender_pos info ! sid else 0) - real (shard_load e ! sid)
     + (if sid = addr2shard address shards then (if sp_related_known info then 0.001 else 1) else 0)"

definition heuristic_policy :: "eval_args \<Rightarrow> 'r policy" where
  "heuristic_policy a e rng state address related info =
     (let shards = nat (ev_shards a) in
      if eval_identity a = ''iot_v2'' then
        (if length (sp_sender_pos info) < shards \<or> length (shard_load e) < shards then raise IndexError
         else return (plain_output
           (int (min_by (\<lambda>sid. (- v2_heuristic_score e shards address info sid, sid)) [0..<shards])) ''heuristic'', rng))
      else return (plain_output (int (heuristic_from_state state shards (Some (sp_action_mask info)))) ''heuristic'', rng))"

definition hash_policy :: "eval_args \<Rightarrow> 'r policy" where
  "hash_policy a e rng state address related info =
     return (plain_output (int (addr2shard address (nat (ev_shards a)))) ''hash'', rng)"

definition random_policy :: "'r generators \<Rightarrow> eval_args \<Rightarrow> 'r policy" where
  "random_policy gen a e rng state address related info =
     (let (action, rng) = gen_randrange gen rng (ev_shards a)
      in return (plain_output action ''random'', rng))"

definition candidate_policy :: "'r policy" where
  "candidate_policy e rng state address related info =
     return (plain_output (int (best_candidate_action e address (sp_sender_pos info) (sp_action_mask info)))
       ''candidate_only'', rng)"

text \<open>\<open>make_policy(args, agent, env)\<close>; the network policy asserts its agent at the first call.\<close>

definition make_policy ::
  "('w, 'l) torch_lib \<Rightarrow> 'r generators \<Rightarrow> eval_args \<Rightarrow> 'w agent option \<Rightarrow> 'r policy result" where
  "make_policy lib gen a agent =
     (if ev_policy a = ''ppo'' then
        return (case agent of None \<Rightarrow> (\<lambda>_ _ _ _ _ _. raise AssertionError) | Some ag \<Rightarrow> ppo_policy lib gen a ag)
      else if ev_policy a = ''candidate_only'' then return candidate_policy
      else if ev_policy a = ''heuristic'' then return (heuristic_policy a)
      else if ev_policy a = ''hash'' then return (hash_policy a)
      else if ev_policy a = ''random'' then return (random_policy gen a)
      else raise ValueError)"

section \<open>The measurement\<close>

definition reference_threshold :: "('s \<Rightarrow> real) \<Rightarrow> 's list \<Rightarrow> real \<Rightarrow> real result" where
  "reference_threshold f scenes p =
     (case nearest_rank (map f scenes) p of None \<Rightarrow> raise TypeError | Some t \<Rightarrow> return t)"

text \<open>
  The thresholds come from a reference window before the evaluated one. A threshold \<open>None\<close>, of an
  empty reference, would raise at the first comparison; \<open>load_scenes\<close> never gives one.
\<close>

definition evaluation_context ::
  "int \<Rightarrow> string list list \<Rightarrow> row list \<Rightarrow> int \<Rightarrow> int \<Rightarrow> int \<Rightarrow> int \<Rightarrow> (scene list \<times> metric_manifest) result" where
  "evaluation_context offset chain sidecar start count reference_start reference_count =
     (if reference_start < 0 \<or> reference_count \<le> 0 \<or> reference_start + reference_count > start
      then raise ValueError
      else
        bind_result (load_scenes offset chain sidecar reference_start reference_count) (\<lambda>reference.
        bind_result (reference_threshold sc_cost reference 0.8) (\<lambda>high_cost.
        bind_result (reference_threshold sc_payload reference 0.8) (\<lambda>high_payload.
        bind_result (reference_threshold sc_distance reference 0.8) (\<lambda>long_distance.
        bind_result (reference_threshold sc_quality reference 0.2) (\<lambda>weak_link.
        bind_result (load_scenes offset chain sidecar start count) (\<lambda>scenes.
          return (scenes, \<lparr>mm_start_tx = start, mm_end_tx_exclusive = start + count,
            mm_thresholds = \<lparr>th_high_cost_ge = high_cost, th_high_payload_ge = high_payload,
              th_long_distance_ge = long_distance, th_weak_link_le = weak_link\<rparr>\<rparr>))))))))"

text \<open>One transaction after its batch was placed; the cursor counts the transactions measured.\<close>

definition measure_tx :: "env \<Rightarrow> scene list \<Rightarrow> real tx \<Rightarrow> nat \<times> metrics \<Rightarrow> (nat \<times> metrics) result" where
  "measure_tx e scenes tx st =
     (case st of (cursor, m) \<Rightarrow>
        if cursor \<ge> length scenes then raise IndexError
        else
          (let sc = scenes ! cursor in
           if (tx_sender tx, tx_recipient tx) \<noteq> (sc_sender sc, sc_recipient sc) then raise ValueError
           else
             (case (addr_shard e (tx_sender tx), addr_shard e (tx_recipient tx)) of
                (Some s, Some r) \<Rightarrow>
                  bind_result (metrics_add sc (of_bool (s \<noteq> r)) None m) (\<lambda>m. return (Suc cursor, m))
              | _ \<Rightarrow> raise KeyError)))"

section \<open>The evaluation\<close>

record eval_state =
  st_env :: env
  st_summary :: esummary
  st_metric :: "(nat \<times> metrics) option"

definition eval_batch ::
  "'r policy \<Rightarrow> scene list \<Rightarrow> real tx list \<Rightarrow> eval_state \<times> 'r \<Rightarrow> (eval_state \<times> 'r) result" where
  "eval_batch policy scenes batch st =
     (case st of (s, rng) \<Rightarrow>
        bind_result (run_batch policy (st_env s) batch rng) (\<lambda>(_, metrics, e, rng).
        bind_result (eval_update_summary (st_summary s) metrics) (\<lambda>summary.
        bind_result (case st_metric s of
                       None \<Rightarrow> return None
                     | Some cm \<Rightarrow> bind_result (fold_result (measure_tx e scenes) batch cm) (\<lambda>cm. return (Some cm)))
          (\<lambda>metric. return (\<lparr>st_env = e, st_summary = summary, st_metric = metric\<rparr>, rng)))))"

definition eval_env_args :: "eval_args \<Rightarrow> mech_settings \<Rightarrow> env_args" where
  "eval_env_args a s =
     (let unfiltered = ev_policy a \<in> {''hash'', ''random''} in
      \<lparr>ea_shards = ev_shards a, ea_tx_batch_size = ev_tx_batch_size a, ea_max_block_size = ev_max_block_size a,
       ea_block_interval_ms = ev_block_interval_ms a, ea_sender_pos_mode = ev_sender_pos_mode a,
       ea_temporal_top_k = ev_temporal_top_k a, ea_local_reward_weight = ev_local_reward_weight a,
       ea_action_reward_scale = ev_action_reward_scale a,
       ea_capacity_backlog_mode = ev_capacity_backlog_mode a, ea_params = ev_params a,
       ea_iot_feature_dim = iot_feature_dim_for_args a,
       ea_candidate_top_k = (if unfiltered then 0 else ev_candidate_top_k a),
       ea_capacity_guard = (if unfiltered then 0 else ev_capacity_guard a),
       ea_capacity_guard_factor = ev_capacity_guard_factor a,
       ea_candidate_load_weight = ev_candidate_load_weight a,
       ea_mechanism_version = mechanism_version s, ea_feature_mode = feature_mode s,
       ea_scene_cost_mode = scene_cost_mode s\<rparr>)"

text \<open>
  The environment of the model computes with real numbers, so the loop gets the values of the
  loaded transactions as reals. For real-account windows whose sidecar has no anchor columns all
  of them are finite and this is exact (\<open>real_tx_exact\<close>). The code passes a NaN or an infinity on
  to the environment as it is; here it becomes 0, so for such windows only what does not depend on
  features, weights and costs is meaningful: which transactions are read, counted and measured.
\<close>

definition real_tx :: "pyfloat tx \<Rightarrow> real tx" where
  "real_tx tx =
     \<lparr>tx_sender = tx_sender tx, tx_recipient = tx_recipient tx, tx_related = tx_related tx,
      tx_related_weights = map fin_val (tx_related_weights tx),
      tx_iot_features = map fin_val (tx_iot_features tx), tx_cost_weight = fin_val (tx_cost_weight tx),
      tx_real_accounts = tx_real_accounts tx, tx_value = tx_value tx,
      tx_recipient_iot_features = map fin_val (tx_recipient_iot_features tx),
      tx_recipient_cost_weight = fin_val (tx_recipient_cost_weight tx)\<rparr>"

text \<open>The result; the entries that repeat an argument are in \<open>er_args\<close>.\<close>

record eval_result =
  er_args :: eval_args
  er_csv :: string
  er_metadata :: dict
  er_loaded_txs :: nat
  er_dataset_end_tx_exclusive :: int
  er_state_dim :: int
  er_iot_feature_dim :: int
  er_load_semantics_version :: string
  er_candidate_top_k :: nat
  er_capacity_guard :: int
  er_summary :: eview
  er_iot_metrics :: "(grp \<Rightarrow> totals_view) option"

text \<open>The start of the measurement, when it is asked for.\<close>

definition start_metric ::
  "data_files \<Rightarrow> eval_args \<Rightarrow> string list list \<Rightarrow> nat \<Rightarrow> (scene list \<times> (nat \<times> metrics) option) result" where
  "start_metric fs a rows loaded =
     (if \<not> ev_iot_metrics a then return ([], None)
      else if eval_identity a \<noteq> ''iot_v2'' then raise ValueError
      else
        (case df_sidecar fs (ev_sidecar a) of
           None \<Rightarrow> raise FileNotFoundError
         | Some (_, scene) \<Rightarrow>
             bind_result (evaluation_context (df_index_offset fs (ev_sidecar a)) rows scene (ev_start_tx a) (int loaded)
                 (ev_iot_reference_start_tx a) (ev_iot_reference_max_txs a)) (\<lambda>(scenes, manifest).
               return (scenes, Some (0, new_metrics manifest)))))"

definition finish_metric :: "(nat \<times> metrics) option \<Rightarrow> (grp \<Rightarrow> totals_view) option result" where
  "finish_metric cm =
     (case cm of None \<Rightarrow> return None
      | Some (_, m) \<Rightarrow> bind_result (metrics_summary m) (\<lambda>v. return (Some v)))"

definition eval_run ::
  "('w, 'l) torch_lib \<Rightarrow> 'r generators \<Rightarrow> data_files \<Rightarrow> 'w model_file \<Rightarrow> string \<Rightarrow> string list list \<Rightarrow>
   real tx list \<Rightarrow> mech_settings \<Rightarrow> eval_args \<Rightarrow> 'r \<Rightarrow> eval_result result" where
  "eval_run lib gen fs model csv_path rows txs s a rng =
     bind_result (eval_load_agent lib model a) (\<lambda>agent.
     bind_result (make_env (eval_env_args a s)) (\<lambda>e0.
     bind_result (make_policy lib gen a agent) (\<lambda>policy.
     bind_result (start_metric fs a rows (length txs)) (\<lambda>(scenes, metric).
     bind_result (iter_batches txs (ev_tx_batch_size a)) (\<lambda>batches.
     bind_result (fold_result (eval_batch policy scenes) batches
         (\<lparr>st_env = e0,
           st_summary = eval_new_summary (nat (ev_shards a)) (ev_max_block_size a) (ev_block_interval_ms a),
           st_metric = metric\<rparr>, rng)) (\<lambda>(st, _).
     bind_result (eval_state_dim a) (\<lambda>d.
     bind_result (metadata (mech_args_of a)) (\<lambda>md.
     bind_result (eval_summary_view (st_summary st)) (\<lambda>view.
     bind_result (finish_metric (st_metric st)) (\<lambda>iot.
       return \<lparr>er_args = a, er_csv = csv_path, er_metadata = metadata_items md, er_loaded_txs = length txs,
         er_dataset_end_tx_exclusive = ev_start_tx a + int (length txs), er_state_dim = d,
         er_iot_feature_dim = iot_feature_dim_for_args a, er_load_semantics_version = load_semantics a,
         er_candidate_top_k = env_candidate_top_k (st_env st), er_capacity_guard = env_capacity_guard (st_env st),
         er_summary = view, er_iot_metrics = iot\<rparr>))))))))))"

definition evaluate ::
  "('w, 'l) torch_lib \<Rightarrow> (string \<Rightarrow> bool) \<Rightarrow> 'r generators \<Rightarrow> data_files \<Rightarrow> 'w model_file \<Rightarrow> string \<Rightarrow>
   eval_args \<Rightarrow> 'r \<Rightarrow> eval_result result" where
  "evaluate lib is_private gen fs model ROOT_DIR a rng =
     bind_result (validate_args (mech_args_of a)) (\<lambda>s.
       let csv_path = resolve_csv_path ROOT_DIR a; a = a\<lparr>ev_csv := csv_path\<rparr> in
       case df_csv fs csv_path of
         None \<Rightarrow> raise FileNotFoundError
       | Some rows \<Rightarrow>
           bind_result (load_eval_transactions is_private fs ROOT_DIR a rows) (\<lambda>(txs, a).
             if txs = [] then raise RuntimeError
             else if ev_max_txs a > 0 \<and> int (length txs) \<noteq> ev_max_txs a then raise RuntimeError
             else eval_run lib gen fs model csv_path rows (map real_tx txs) s a rng))"

text \<open>The command line entry.\<close>

definition eval_main ::
  "('w, 'l) torch_lib \<Rightarrow> (string \<Rightarrow> bool) \<Rightarrow> 'r generators \<Rightarrow> data_files \<Rightarrow> 'w model_file \<Rightarrow> string \<Rightarrow>
   eval_args \<Rightarrow> 'r \<Rightarrow> eval_result result" where
  "eval_main lib is_private gen fs model ROOT_DIR a rng =
     bind_result (validate_args (mech_args_of a)) (\<lambda>_.
       evaluate lib is_private gen fs model ROOT_DIR (normalize_reward_mode a) rng)"

end
