(* ===== verification/EvalInvariant.thy ===== *)
theory EvalInvariant
  imports Evaluation TrainTheorems MetricsTheorems LoadTheorems
begin

text \<open>
  The invariant of the evaluation loop of \<open>eval_offline.py\<close>: what its summary and its measurement
  have counted after some batches, and how a run is made up of its parts.
\<close>

section \<open>Summaries\<close>

definition emetrics_ok :: "nat \<Rightarrow> nat \<Rightarrow> nat \<Rightarrow> batch_metrics \<Rightarrow> bool" where
  "emetrics_ok n k c m \<longleftrightarrow> metrics_ok n k m \<and> sum_list (bm_loads m) = k + c \<and>
     (\<forall>xs\<in>{bm_effective_loads m, bm_reward_loads m, bm_committed_loads m, bm_committed_stage_loads m,
        bm_pending_loads m}. nonneg_vec n xs)"

definition esummary_ok :: "nat \<Rightarrow> nat \<Rightarrow> nat \<Rightarrow> esummary \<Rightarrow> bool" where
  "esummary_ok n k c s \<longleftrightarrow> es_tx_count s = k \<and> sum_list (es_owner_loads s) = k \<and>
     sum_list (es_loads s) = k + c \<and> sum_list (es_action_hist s) = es_action_count s \<and>
     (\<forall>xs\<in>{es_owner_loads s, es_loads s, es_action_hist s, es_related_shard_hist s,
        es_same_related_by_shard s}. length xs = n) \<and>
     length (es_relation_effective_loads s) = n \<and> length (es_relation_cross_loads s) = n \<and>
     (\<forall>xs\<in>{es_effective_loads s, es_reward_loads s, es_committed_loads s, es_committed_stage_loads s,
        es_pending_loads s}. nonneg_vec n xs)"

lemma capacity_vectors:
  assumes "nonneg_vec (env_shards e) st" and "nonneg_vec (env_shards e) ef"
    and cap: "apply_capacity_backlog e st ef cr = (cap, e')"
  shows "nonneg_vec (env_shards e) (cs_reward_loads cap)"
    and "nonneg_vec (env_shards e) (cs_committed_stage_loads cap)"
    and "nonneg_vec (env_shards e) (cs_committed_effective_loads cap)"
    and "nonneg_vec (env_shards e) (cs_pending_stage_loads cap)"
proof -
  let ?n = "env_shards e"
  let ?cap = "real_of_int (max 1 (env_max_block_size e))"
  let ?ep = "pressure (pending_effective_loads e) ef"
  let ?sp = "pressure (pending_loads e) st"
  have ratio: "0 \<le> commit_ratio ?cap (?sp sid)" for sid by (rule commit_ratio_bounds) simp_all
  have "nonneg_vec ?n (map ?ep [0..<?n])" "nonneg_vec ?n (map (\<lambda>sid. min (?sp sid) ?cap) [0..<?n])"
    "nonneg_vec ?n (map (\<lambda>sid. ?ep sid * commit_ratio ?cap (?sp sid)) [0..<?n])"
    "nonneg_vec ?n (map (\<lambda>sid. max 0 (?sp sid - min (?sp sid) ?cap)) [0..<?n])"
    by (intro map_nonneg_vec; use ratio in simp)+
  with cap assms(1,2) show "nonneg_vec ?n (cs_reward_loads cap)" "nonneg_vec ?n (cs_committed_stage_loads cap)"
    "nonneg_vec ?n (cs_committed_effective_loads cap)" "nonneg_vec ?n (cs_pending_stage_loads cap)"
    by (cases "env_capacity_backlog_mode e = 0"; simp add: apply_capacity_backlog_def Let_def; force)+
qed

lemma run_batch_emetrics:
  assumes "wf_env e" and run: "run_batch policy e txs p = Inr (acts, met, e', p')"
  shows "emetrics_ok (env_shards e) (length txs) (length (filter (crosses (addr_shard e')) txs)) met"
proof -
  from run obtain acts0 e1 bp sim e2 cap e3 r q where
    pb: "place_batch policy e txs p = Inr (acts0, e1, bp, p')" and
    sim: "simulate_batch_loads e1 txs = (sim, e2)" and
    cap: "apply_capacity_backlog e2 (map real (bl_stage_loads sim)) (bl_effective_loads sim)
       (bl_cross_loads sim) = (cap, e3)" and
    met: "met = collect_metrics e' txs acts sim cap r q"
    by (rule run_batch_parts)
  have e1: "wf_env e1" "env_shards e1 = env_shards e"
    using place_batch_spec [OF assms(1) pb] batch_start_spec(3) [OF assms(1), of txs]
    by (simp_all add: placed_from_def)
  note sb = simulate_batch_keeps [OF e1(1) sim]
  obtain m where m: "e2 = e1\<lparr>addr_shard := m\<rparr>" using sb(5) by blast
  have vec: "nonneg_vec (env_shards e2) (map real (bl_stage_loads sim))" "nonneg_vec (env_shards e2) (bl_effective_loads sim)"
    using sim_vectors [OF sb(1)] m by simp_all
  note cv = capacity_vectors [OF vec cap]
  have "sum_list (bm_loads met) = length txs + bm_total_relay1 met"
    using sb(2) by (simp add: met collect_metrics_def Let_def sim_account_def)
  then show ?thesis
    using cv m e1(2) run_batch_metrics [OF assms] run_batch_relays [OF assms]
    by (simp add: emetrics_ok_def met collect_metrics_def Let_def)
qed

lemma eval_new_summary_ok: "esummary_ok n 0 0 (eval_new_summary n b i)"
  by (simp add: esummary_ok_def eval_new_summary_def sum_list_replicate)

lemma set_enumerated_same: "length xs = length ys \<Longrightarrow> set_enumerated xs ys = Inr ys"
  by (simp add: set_enumerated_def)

lemma nonneg_vec_plus:
  assumes "nonneg_vec n xs" and "nonneg_vec n ys"
  shows "nonneg_vec n (map2 (+) xs ys)"
  using assms by (auto simp: nonneg_vec_def intro!: add_nonneg_nonneg dest: set_zip_leftD set_zip_rightD)

lemma nonneg_vec_length: "nonneg_vec n xs \<Longrightarrow> length xs = n"
  by (simp add: nonneg_vec_def)

lemma eval_update_summary_ok:
  assumes "esummary_ok n k c s" and "emetrics_ok n l d m"
  obtains s' where "eval_update_summary s m = Inr s'" and "esummary_ok n (k + l) (c + d) s'"
    and "es_batches s' = es_batches s + 1"
proof -
  note a = assms(1) [unfolded esummary_ok_def] and b = assms(2) [unfolded emetrics_ok_def metrics_ok_def]
  have len: "length (es_effective_loads s) = n" "length (es_reward_loads s) = n" "length (es_committed_loads s) = n"
    "length (es_committed_stage_loads s) = n" "length (es_pending_loads s) = n"
    "length (bm_effective_loads m) = n" "length (bm_reward_loads m) = n" "length (bm_committed_loads m) = n"
    "length (bm_committed_stage_loads m) = n" "length (bm_pending_loads m) = n"
    using a b by (auto intro: nonneg_vec_length)
  obtain s' where s': "eval_update_summary s m = Inr s'"
    using a b len by (simp add: eval_update_summary_def Let_def add_enumerated_same set_enumerated_same)
  moreover have eq: "s' = projr (eval_update_summary s m)" using s' by simp
  have "esummary_ok n (k + l) (c + d) s'" "es_batches s' = es_batches s + 1"
    unfolding eq using a b len
    by (simp_all add: eval_update_summary_def Let_def add_enumerated_same set_enumerated_same
        esummary_ok_def sum_list_map2_plus nonneg_vec_plus)
  ultimately show thesis by (rule that)
qed

section \<open>The measurement\<close>

definition measured :: "nat \<Rightarrow> nat \<Rightarrow> nat \<times> metrics \<Rightarrow> bool" where
  "measured k c cm \<longleftrightarrow> fst cm = k \<and> to_count (me_groups (snd cm) AllTx) = k \<and>
     to_cross (me_groups (snd cm) AllTx) = c"

lemma measured_new: "measured 0 0 (0, new_metrics mf)"
  by (simp add: measured_def new_metrics_def empty_totals_def)

lemma measure_tx_counts:
  assumes "measure_tx e scenes tx cm = Inr cm'" and "measured k c cm"
  shows "measured (Suc k) (c + of_bool (crosses (addr_shard e) tx)) cm'"
proof -
  obtain s r m' where sr: "addr_shard e (tx_sender tx) = Some s" "addr_shard e (tx_recipient tx) = Some r"
    and add: "metrics_add (scenes ! fst cm) (of_bool (s \<noteq> r)) None (snd cm) = Inr m'" and cm': "cm' = (Suc (fst cm), m')"
    using assms(1) by (cases cm) (auto simp: measure_tx_def Let_def result_simps split: if_splits option.splits)
  have "totals_add (me_groups (snd cm) AllTx) (scenes ! fst cm) (s \<noteq> r) None = Inr (me_groups m' AllTx)"
    using metrics_add_result(5) [OF add, of AllTx] by (auto split: if_splits)
  from totals_add_result(1,2) [OF this] show ?thesis
    using assms(2) sr cm' by (simp add: measured_def crosses_def)
qed

lemma measure_batch_counts:
  assumes "fold_result (measure_tx e scenes) txs cm = Inr cm'" and "measured k c cm"
  shows "measured (k + length txs) (c + length (filter (crosses (addr_shard e)) txs)) cm'"
  using assms
proof (induction txs arbitrary: cm k c)
  case (Cons tx txs)
  then obtain cm1 where one: "measure_tx e scenes tx cm = Inr cm1" "fold_result (measure_tx e scenes) txs cm1 = Inr cm'"
    by (auto simp: result_simps)
  from Cons.IH [OF one(2) measure_tx_counts [OF one(1) Cons.prems(2)]] show ?case
    by (cases "crosses (addr_shard e) tx") (simp_all add: add.assoc)
qed simp

section \<open>The loop\<close>

definition eval_inv :: "env \<Rightarrow> nat \<Rightarrow> nat \<Rightarrow> nat \<Rightarrow> eval_state \<Rightarrow> bool" where
  "eval_inv e0 b k c st \<longleftrightarrow> wf_env (st_env st) \<and> same_config e0 (st_env st) \<and>
     env_params (st_env st) = env_params e0 \<and> esummary_ok (env_shards e0) k c (st_summary st) \<and>
     es_batches (st_summary st) = b \<and> c \<le> k \<and> (case st_metric st of None \<Rightarrow> True | Some cm \<Rightarrow> measured k c cm)"

lemma eval_inv_shards: "eval_inv e0 b k c st \<Longrightarrow> env_shards (st_env st) = env_shards e0"
  by (simp add: eval_inv_def same_config_def)

lemma eval_batch_keeps:
  assumes "eval_batch policy scenes batch (st, rng) = Inr (st', rng')" and "eval_inv e0 b k c st"
  shows "eval_inv e0 (Suc b) (k + length batch) (c + length (filter (crosses (addr_shard (st_env st'))) batch)) st' \<and>
         (st_metric st' = None \<longleftrightarrow> st_metric st = None)"
proof -
  obtain acts met e summary metric where run: "run_batch policy (st_env st) batch rng = Inr (acts, met, e, rng')"
    and up: "eval_update_summary (st_summary st) met = Inr summary"
    and me: "(case st_metric st of None \<Rightarrow> return None
       | Some cm \<Rightarrow> bind_result (fold_result (measure_tx e scenes) batch cm) (\<lambda>cm. return (Some cm))) = Inr metric"
    and st': "st' = \<lparr>st_env = e, st_summary = summary, st_metric = metric\<rparr>"
    using assms(1) by (auto simp: eval_batch_def result_simps)
  note i = assms(2) [unfolded eval_inv_def]
  have wf: "wf_env (st_env st)" using i by blast
  let ?d = "length (filter (crosses (addr_shard e)) batch)"
  have sok: "esummary_ok (env_shards (st_env st)) k c (st_summary st)"
    using i eval_inv_shards [OF assms(2)] by simp
  obtain s where "eval_update_summary (st_summary st) met = Inr s"
    "esummary_ok (env_shards (st_env st)) (k + length batch) (c + ?d) s" "es_batches s = es_batches (st_summary st) + 1"
    by (rule eval_update_summary_ok [OF sok run_batch_emetrics [OF wf run]])
  then have "esummary_ok (env_shards e0) (k + length batch) (c + ?d) summary" "es_batches summary = Suc b"
    using up i eval_inv_shards [OF assms(2)] by simp_all
  moreover have "wf_env e" by (rule run_batch_spec(1) [OF wf run])
  moreover have "same_config e0 e" "env_params e = env_params e0"
    using run_batch_config [OF wf run] same_config_trans i by (blast, simp)
  moreover have "(case metric of None \<Rightarrow> True | Some cm \<Rightarrow> measured (k + length batch) (c + ?d) cm)"
    "metric = None \<longleftrightarrow> st_metric st = None"
    using me i measure_batch_counts by (auto simp: result_simps split: option.splits)
  moreover have "c + ?d \<le> k + length batch" using i length_filter_le [of _ batch] by (intro add_mono) auto
  ultimately show ?thesis by (simp add: eval_inv_def st')
qed

lemma eval_loop_keeps:
  assumes "fold_result (eval_batch policy scenes) batches (st, rng) = Inr (st', rng')" and "eval_inv e0 b k c st"
  shows "\<exists>d. eval_inv e0 (b + length batches) (k + length (concat batches)) d st' \<and>
         (st_metric st' = None \<longleftrightarrow> st_metric st = None)"
  using assms
proof (induction batches arbitrary: st rng b k c)
  case Nil
  then show ?case by auto
next
  case (Cons batch batches)
  obtain st1 rng1 where one: "eval_batch policy scenes batch (st, rng) = Inr (st1, rng1)"
    and rest: "fold_result (eval_batch policy scenes) batches (st1, rng1) = Inr (st', rng')"
    using Cons.prems(1) by (auto simp: result_simps)
  note keep = eval_batch_keeps [OF one Cons.prems(2)]
  from Cons.IH [OF rest conjunct1 [OF keep]] keep show ?case by (simp add: add.assoc)
qed

lemma evaluate_parts:
  assumes "evaluate lib ip gen fs model rdir a rng = Inr r"
  obtains s rows txs a' where "validate_args (mech_args_of a) = Inr s"
    "df_csv fs (resolve_csv_path rdir a) = Some rows"
    "load_eval_transactions ip fs rdir (a\<lparr>ev_csv := resolve_csv_path rdir a\<rparr>) rows = Inr (txs, a')"
    "txs \<noteq> []" "ev_max_txs a' > 0 \<longrightarrow> int (length txs) = ev_max_txs a'"
    "eval_run lib gen fs model (resolve_csv_path rdir a) rows (map real_tx txs) s a' rng = Inr r"
  using assms by (auto simp: evaluate_def Let_def result_simps split: option.splits if_splits)

lemma loaded_args:
  assumes "load_eval_transactions ip fs rdir a rows = Inr (txs, a')"
  shows "\<exists>p. a' = a\<lparr>ev_sidecar := p\<rparr>"
  using assms
  by (auto simp: load_eval_transactions_def Let_def result_simps split: if_splits option.splits
      intro: exI [of _ "ev_sidecar a"])

lemma eval_run_parts:
  assumes "eval_run lib gen fs model csv rows txs s a rng = Inr r"
  obtains agent e0 policy scenes metric batches st rng' where
    "eval_load_agent lib model a = Inr agent" "make_env (eval_env_args a s) = Inr e0"
    "make_policy lib gen a agent = Inr policy" "start_metric fs a rows (length txs) = Inr (scenes, metric)"
    "iter_batches txs (ev_tx_batch_size a) = Inr batches" "concat batches = txs"
    "fold_result (eval_batch policy scenes) batches
       (\<lparr>st_env = e0, st_summary = eval_new_summary (env_shards e0) (ev_max_block_size a) (ev_block_interval_ms a),
         st_metric = metric\<rparr>, rng) = Inr (st, rng')"
    "eval_summary_view (st_summary st) = Inr (er_summary r)" "finish_metric (st_metric st) = Inr (er_iot_metrics r)"
    "er_args r = a" "er_loaded_txs r = length txs" "er_dataset_end_tx_exclusive r = ev_start_tx a + int (length txs)"
    "er_candidate_top_k r = env_candidate_top_k (st_env st)" "er_capacity_guard r = env_capacity_guard (st_env st)"
proof -
  from assms obtain agent e0 policy scenes metric batches st rng' view iot where
    p: "eval_load_agent lib model a = Inr agent" "make_env (eval_env_args a s) = Inr e0"
    "make_policy lib gen a agent = Inr policy" "start_metric fs a rows (length txs) = Inr (scenes, metric)"
    "iter_batches txs (ev_tx_batch_size a) = Inr batches"
    "fold_result (eval_batch policy scenes) batches
       (\<lparr>st_env = e0, st_summary = eval_new_summary (nat (ev_shards a)) (ev_max_block_size a) (ev_block_interval_ms a),
         st_metric = metric\<rparr>, rng) = Inr (st, rng')"
    "eval_summary_view (st_summary st) = Inr view" "finish_metric (st_metric st) = Inr iot"
    and r: "er_summary r = view" "er_iot_metrics r = iot" "er_args r = a" "er_loaded_txs r = length txs"
    "er_dataset_end_tx_exclusive r = ev_start_tx a + int (length txs)"
    "er_candidate_top_k r = env_candidate_top_k (st_env st)" "er_capacity_guard r = env_capacity_guard (st_env st)"
    by (auto simp: eval_run_def result_simps)
  have sh: "env_shards e0 = nat (ev_shards a)" "0 < ev_tx_batch_size a"
    using make_env_shards [OF p(2)] by (simp_all add: eval_env_args_def Let_def)
  have "concat batches = txs"
    using p(5) sh(2) concat_cut_batches [of "nat (ev_tx_batch_size a)" txs "length txs"]
    by (auto simp: iter_batches_def split: if_splits)
  then show thesis using that [OF p(1-5)] p(6-8) r sh(1) by simp
qed

lemma make_env_candidates:
  assumes "make_env a = Inr e"
  shows "env_candidate_top_k e = nat (max 0 (ea_candidate_top_k a)) \<and> env_capacity_guard e = ea_capacity_guard a"
  using assms by (auto simp: make_env_def Let_def reset_def split: if_splits)

lemma eval_inv_start:
  assumes "make_env (eval_env_args a s) = Inr e0" and "start_metric fs a rows l = Inr (scenes, metric)"
  shows "eval_inv e0 0 0 0 \<lparr>st_env = e0, st_summary = eval_new_summary (env_shards e0) b i, st_metric = metric\<rparr>"
  using assms(2) measured_new make_env_wf [OF assms(1)] eval_new_summary_ok
  by (auto simp: eval_inv_def same_config_def eval_new_summary_def start_metric_def result_simps
      split: if_splits option.splits)

section \<open>The report\<close>

text \<open>A distribution, or zeros where nothing was counted.\<close>

definition share_vector :: "real list \<Rightarrow> bool" where
  "share_vector ds \<longleftrightarrow> (\<forall>d\<in>set ds. 0 \<le> d \<and> d \<le> 1) \<and> (sum_list ds = 1 \<or> sum_list ds = 0)"

lemma rdist_of_share:
  assumes "nonneg_vec n xs"
  shows "share_vector (rdist_of xs)"
proof (cases "sum_list xs = 0")
  case False
  have nn: "\<forall>x\<in>set xs. 0 \<le> x" using assms by (simp add: nonneg_vec_def)
  have pos: "0 < sum_list xs" using sum_list_nonneg_real [OF nn] False by simp
  have "sum_list (rdist_of xs) = 1"
    using False sum_list_map_divide [of "\<lambda>v. v" "sum_list xs" xs] by (simp add: rdist_of_def)
  moreover have "0 \<le> d \<and> d \<le> 1" if "d \<in> set (rdist_of xs)" for d
    using that nn pos member_le_sum_list_real [OF nn] False by (auto simp: rdist_of_def Let_def divide_le_eq)
  ultimately show ?thesis by (simp add: share_vector_def)
qed (auto simp: rdist_of_def share_vector_def)

lemma dist_of_share: "share_vector (dist_of xs)"
  using dist_of_nonneg dist_of_le_1 by (simp add: dist_of_sum share_vector_def)

lemma finish_metric_Some:
  "finish_metric (Some cm) = Inr x \<Longrightarrow> \<exists>v. x = Some v \<and> metrics_summary (snd cm) = Inr v"
  by (cases cm) (auto simp: finish_metric_def result_simps)

lemma eval_view_fields:
  assumes "eval_summary_view s = Inr v"
  shows "ew_tx_count v = es_tx_count s" "ew_batches v = es_batches s" "ew_owner_loads v = es_owner_loads s"
    "ew_loads v = es_loads s" "ew_action_hist v = es_action_hist s" "ew_action_count v = es_action_count s"
    "ew_action_dist v = dist_of (es_action_hist s)" "ew_owner_load_dist v = dist_of (es_owner_loads s)"
    "ew_stage_load_dist v = dist_of (es_loads s)" "ew_load_dist v = rdist_of (es_effective_loads s)"
    "ew_reward_load_dist v = rdist_of (es_reward_loads s)" "ew_committed_load_dist v = rdist_of (es_committed_loads s)"
    "ew_committed_stage_load_dist v = rdist_of (es_committed_stage_loads s)"
  using assms by (auto simp: eval_summary_view_def Let_def result_simps split: if_splits)

end
