(* ===== verification/EvalProgress.thy ===== *)
theory EvalProgress
  imports EvalInvariant
begin

text \<open>
  Progress of an offline evaluation on a real-account window: the policies answer, the scenes of
  the measurement are those of the loaded transactions, no turn of the loop raises, and the
  measurement is complete at the end.
\<close>

section \<open>The policies answer\<close>

text \<open>
  What the torch library and its generator have to provide for the network policy: on rows of the
  input size over the unit interval the network gives numbers, one logit per shard, and a sampled
  action is one of the shards.
\<close>

definition network_ready :: "('w, 'l) torch_lib \<Rightarrow> 'r generators \<Rightarrow> eval_args \<Rightarrow> 'w agent \<Rightarrow> bool" where
  "network_ready lib gen a agent \<longleftrightarrow>
     (\<forall>xs :: real list. eval_state_dim a = Inr (int (length xs)) \<and> (\<forall>x\<in>set xs. 0 \<le> x \<and> x \<le> 1) \<longrightarrow>
        (\<exists>logits v. tl_forward lib (ag_net agent) (map Fin xs) = Some (logits, v) \<and> length logits = nat (ev_shards a))) \<and>
     (ev_sample a \<longrightarrow> (\<forall>rng probs. probs \<noteq> [] \<longrightarrow>
        0 \<le> fst (gen_sample gen rng probs) \<and> fst (gen_sample gen rng probs) < int (length probs)))"

definition policy_ready :: "('w, 'l) torch_lib \<Rightarrow> 'r generators \<Rightarrow> 'w model_file \<Rightarrow> eval_args \<Rightarrow> bool" where
  "policy_ready lib gen model a \<longleftrightarrow>
     ev_policy a \<in> {''heuristic'', ''hash'', ''random'', ''candidate_only''} \<or>
     (ev_policy a = ''ppo'' \<and>
      (\<exists>agent. eval_load_agent lib model a = Inr (Some agent) \<and> network_ready lib gen a agent))"

lemma length_mask_logits [simp]: "length (mask_logits logits m) = length logits"
  by (auto simp: mask_logits_def Let_def split: option.split)

lemma argmax_less: "xs \<noteq> [] \<Longrightarrow> argmax xs < length xs"
  using argmax_spec by blast

lemma tie_aware_argmax_less:
  assumes "ps \<noteq> []"
  shows "tie_aware_argmax ps key eps b < length ps"
  using tie_aware_argmax_near_max [OF assms] by blast

lemma eval_env_dim:
  assumes "settings (mech_args_of a) = Inr s" and "make_env (eval_env_args a s) = Inr e0"
  shows "eval_state_dim a = input_dim (int (env_shards e0)) (int (env_iot_feature_dim e0)) (env_mechanism_version e0) None"
    and "int (env_shards e0) = ev_shards a"
  using assms(2)
  by (auto simp: eval_state_dim_def assms(1) make_env_def eval_env_args_def Let_def reset_def
      iot_feature_dim_for_args_def IOT_FEATURE_DIM_def split: if_splits)

lemma network_policy_answers:
  assumes "settings (mech_args_of a) = Inr s" and "make_env (eval_env_args a s) = Inr e0"
    and ready: "network_ready lib gen a agent"
  shows "policy_answers (ppo_policy lib gen a agent) e0"
  unfolding policy_answers_def
proof (intro allI impI, elim conjE)
  fix e rng and st :: "real list" and address related and info :: sender_pos_info
  assume wf: "wf_env e" and cfg: "same_config e0 e" and pos: "length (sp_sender_pos info) = env_shards e0"
    and d: "input_dim (int (env_shards e0)) (int (env_iot_feature_dim e0)) (env_mechanism_version e0) None
              = Inr (int (length st))" and unit: "\<forall>x\<in>set st. 0 \<le> x \<and> x \<le> 1"
  have "eval_state_dim a = Inr (int (length st))" using d eval_env_dim [OF assms(1,2)] by simp
  then obtain logits v where fw: "tl_forward lib (ag_net agent) (map Fin st) = Some (logits, v)"
    and len: "length logits = nat (ev_shards a)"
    using ready unit unfolding network_ready_def by blast
  let ?m = "mask_logits logits (Some (normalize_action_mask (Some (sp_action_mask info)) (ag_action_dim agent)))"
  have "0 < nat (ev_shards a)" using wf_env_shards [OF wf] cfg eval_env_dim(2) [OF assms(1,2)]
    by (simp add: same_config_def)
  then have ne: "softmax ?m \<noteq> []" using len by (auto simp flip: length_0_conv simp del: softmax_Nil)
  obtain action rng' where act: "(if ev_sample a then gen_sample gen rng (softmax ?m)
      else (int (tie_aware_argmax (softmax ?m) (address @ ''|'' @ related) (ev_argmax_tie_eps a)
              (ev_argmax_tie_break a \<noteq> 0)), rng)) = (action, rng')" by force
  have "0 \<le> fst (gen_sample gen rng (softmax ?m)) \<and> fst (gen_sample gen rng (softmax ?m)) < int (length (softmax ?m))"
    if "ev_sample a"
    using ready that ne unfolding network_ready_def by blast
  then have "0 \<le> action \<and> action < int (length (softmax ?m))"
    using act tie_aware_argmax_less [OF ne] by (cases "ev_sample a") auto
  then show "\<exists>out. ppo_policy lib gen a agent e rng st address related info = Inr out"
    by (simp add: ppo_policy_def fw Let_def act)
qed

lemma policy_ready_answers:
  assumes "settings (mech_args_of a) = Inr s" and e0: "make_env (eval_env_args a s) = Inr e0"
    and "policy_ready lib gen model a"
  shows "\<exists>agent policy. eval_load_agent lib model a = Inr agent \<and> make_policy lib gen a agent = Inr policy \<and>
           policy_answers policy e0"
proof -
  have n: "env_shards e0 = nat (ev_shards a)" using eval_env_dim(2) [OF assms(1,2)] by simp
  have heur: "policy_answers (heuristic_policy a) e0"
    using n by (auto simp: policy_answers_def heuristic_policy_def Let_def same_config_def wf_env_def)
  have others: "policy_answers (hash_policy a) e0" "policy_answers (random_policy gen a) e0" "policy_answers candidate_policy e0"
    by (auto simp: policy_answers_def hash_policy_def random_policy_def candidate_policy_def split: prod.split)
  from assms(3) consider (plain) "ev_policy a \<in> {''heuristic'', ''hash'', ''random'', ''candidate_only''}"
    | (net) agent where "ev_policy a = ''ppo''" "eval_load_agent lib model a = Inr (Some agent)" "network_ready lib gen a agent"
    by (auto simp: policy_ready_def)
  then show ?thesis
  proof cases
    case plain
    then show ?thesis using heur others by (auto simp: eval_load_agent_def make_policy_def)
  next
    case net
    then show ?thesis using network_policy_answers [OF assms(1,2) net(3)] by (auto simp: make_policy_def)
  qed
qed

section \<open>The batches\<close>

definition real_window :: "real tx list \<Rightarrow> bool" where
  "real_window txs \<longleftrightarrow> list_all tx_real_accounts txs \<and> scenes_complete txs"

lemma v2_real_window: "list_all v2_tx_ok txs \<Longrightarrow> real_window (map real_tx txs)"
  by (auto simp: real_window_def scenes_complete_def real_tx_def v2_tx_ok_def list_all_iff)

text \<open>On loaded real-account rows the conversion to real numbers loses nothing.\<close>

lemma unit_float_exact: "unit_float x \<Longrightarrow> Fin (fin_val x) = x"
  by (cases x) auto

lemma real_tx_exact:
  assumes "v2_tx_ok tx"
  shows "map Fin (tx_iot_features (real_tx tx)) = tx_iot_features tx"
    and "map Fin (tx_recipient_iot_features (real_tx tx)) = tx_recipient_iot_features tx"
    and "Fin (tx_cost_weight (real_tx tx)) = tx_cost_weight tx"
    and "Fin (tx_recipient_cost_weight (real_tx tx)) = tx_recipient_cost_weight tx"
  using assms unit_float_exact by (auto simp: v2_tx_ok_def real_tx_def list_all_iff comp_def intro!: map_idI)

lemma real_window_check:
  assumes "real_window batch" and "batch \<noteq> []" and "env_sender_pos_mode e \<in> {0, 1}"
  shows "batch_check e batch = Inr ()" and "scenes_complete batch"
  using assms by (cases batch; auto simp: batch_check_def batch_real_accounts_def real_window_def list_all_iff list_ex_iff)+

lemma cut_batches_parts:
  assumes "0 < b"
  shows "\<forall>c\<in>set (cut_batches fuel b xs). c \<noteq> [] \<and> set c \<subseteq> set xs"
  using assms
proof (induction fuel arbitrary: xs)
  case (Suc fuel)
  have "c \<noteq> [] \<and> set c \<subseteq> set xs" if "c \<in> set (cut_batches fuel b (drop b xs))" for c
    using Suc that set_drop_subset [of b xs] by blast
  then show ?case using Suc.prems by (auto dest: in_set_takeD)
qed simp

section \<open>The measurement\<close>

text \<open>The scenes from a position on belong to the given transactions and carry the row numbers of the window.\<close>

definition scenes_match :: "int \<Rightarrow> scene list \<Rightarrow> nat \<Rightarrow> real tx list \<Rightarrow> bool" where
  "scenes_match start scenes k txs \<longleftrightarrow>
     k + length txs \<le> length scenes \<and>
     (\<forall>i<length txs. sc_sender (scenes ! (k + i)) = tx_sender (txs ! i) \<and>
        sc_recipient (scenes ! (k + i)) = tx_recipient (txs ! i) \<and>
        sc_dataset_row (scenes ! (k + i)) = start + int (k + i))"

lemma scenes_match_Cons:
  "scenes_match start scenes k (tx # txs) \<longleftrightarrow>
     k < length scenes \<and> sc_sender (scenes ! k) = tx_sender tx \<and> sc_recipient (scenes ! k) = tx_recipient tx \<and>
     sc_dataset_row (scenes ! k) = start + int k \<and> scenes_match start scenes (Suc k) txs"
  unfolding scenes_match_def length_Cons All_less_Suc2 by auto

lemma scenes_match_append:
  "scenes_match start scenes k (xs @ ys) \<Longrightarrow>
     scenes_match start scenes k xs \<and> scenes_match start scenes (k + length xs) ys"
proof (induction xs arbitrary: k)
  case Nil
  then show ?case by (simp add: scenes_match_def)
next
  case (Cons x xs)
  then show ?case using Cons.IH [of "Suc k"] by (simp add: scenes_match_Cons)
qed

definition measure_ready :: "metric_manifest \<Rightarrow> int \<Rightarrow> nat \<Rightarrow> nat \<times> metrics \<Rightarrow> bool" where
  "measure_ready mf start k cm \<longleftrightarrow> fst cm = k \<and> me_manifest (snd cm) = mf \<and>
     me_seen (snd cm) = {start..<start + int k}"

lemma add_to_groups_total: "\<exists>gs'. fold_result (add_to_group sc c None) names gs = Inr gs'"
  by (induction names arbitrary: gs) (auto simp: add_to_group_def totals_add_def Let_def)

lemma measure_tx_returns:
  assumes "measure_ready mf start k cm" and "k < length scenes"
    and "sc_sender (scenes ! k) = tx_sender tx" and "sc_recipient (scenes ! k) = tx_recipient tx"
    and "sc_dataset_row (scenes ! k) = start + int k"
    and "addr_shard e (tx_sender tx) \<noteq> None" and "addr_shard e (tx_recipient tx) \<noteq> None"
  shows "\<exists>cm'. measure_tx e scenes tx cm = Inr cm' \<and> measure_ready mf start (Suc k) cm'"
proof -
  obtain m where cm: "cm = (k, m)" "me_manifest m = mf" "me_seen m = {start..<start + int k}"
    using assms(1) by (cases cm) (simp add: measure_ready_def)
  obtain s r where sr: "addr_shard e (tx_sender tx) = Some s" "addr_shard e (tx_recipient tx) = Some r"
    using assms(6,7) by blast
  obtain gs where gs: "fold_result (add_to_group (scenes ! k) (s \<noteq> r) None)
      (selected_groups (mm_thresholds mf) (scenes ! k)) (me_groups m) = Inr gs"
    using add_to_groups_total by blast
  have "metrics_add (scenes ! k) (of_bool (s \<noteq> r)) None m =
      Inr (m\<lparr>me_seen := insert (start + int k) (me_seen m), me_groups := gs\<rparr>)"
    using gs cm assms(5) by (cases "s = r") (simp_all add: metrics_add_def)
  moreover have "insert (start + int k) {start..<start + int k} = {start..<start + int (Suc k)}" by auto
  ultimately show ?thesis
    using assms(2-4) cm sr by (simp add: measure_tx_def Let_def measure_ready_def)
qed

lemma measure_batch_returns:
  assumes "measure_ready mf start k cm" and "scenes_match start scenes k batch"
    and "\<forall>tx\<in>set batch. addr_shard e (tx_sender tx) \<noteq> None \<and> addr_shard e (tx_recipient tx) \<noteq> None"
  shows "\<exists>cm'. fold_result (measure_tx e scenes) batch cm = Inr cm' \<and> measure_ready mf start (k + length batch) cm'"
  using assms
proof (induction batch arbitrary: k cm)
  case (Cons tx batch)
  obtain cm1 where one: "measure_tx e scenes tx cm = Inr cm1" "measure_ready mf start (Suc k) cm1"
    using measure_tx_returns [OF Cons.prems(1), of scenes tx e] Cons.prems(2,3) unfolding scenes_match_Cons
    by fastforce
  obtain cm' where "fold_result (measure_tx e scenes) batch cm1 = Inr cm'" "measure_ready mf start (Suc k + length batch) cm'"
    using Cons.IH [OF one(2)] Cons.prems(2,3) unfolding scenes_match_Cons by fastforce
  then show ?case using one(1) by simp
qed simp

text \<open>The scenes of the evaluated window and its transactions come from the same rows.\<close>

lemma window_of_length:
  assumes "window_of start m xs \<noteq> []"
  shows "window_of start (int (length (window_of start m xs))) xs = window_of start m xs"
  using assms by (auto simp: window_of_def Let_def min_def)

lemma address_key_chain: "chain_address a \<Longrightarrow> address_key a = normalize_address a"
  by (simp add: address_key_def chain_address_plain chain_address_lower chain_address_strip)
     (simp add: chain_address_def)

lemma scene_of_row_names:
  assumes "scene_of_row start row = Inr sc" and "v2_aligned offset i raw row"
  shows "sc_sender sc = normalize_address (raw ! 3)" and "sc_recipient sc = normalize_address (raw ! 4)"
proof -
  obtain a b where ab: "check_chain_row raw = Inr (a, b)" "check_alignment offset i (a, b) row = Inr ()"
    using assms(2) by (auto simp: v2_aligned_def)
  have addr: "a = raw ! 3" "b = raw ! 4" "chain_address a" "chain_address b"
    using ab(1) by (auto simp: check_chain_row_def split: if_splits)
  have "get_str row ''from_address'' = Inr a" "get_str row ''to_address'' = Inr b"
    using ab(2) by (auto simp: check_alignment_def result_simps get_field_def get_str_def str_field_def
        split: if_splits option.splits)
  then have "sc_sender sc = address_key a \<and> sc_recipient sc = address_key b"
    using assms(1) by (auto simp: scene_of_row_def result_simps make_scene_def split: if_splits)
  then show "sc_sender sc = normalize_address (raw ! 3)" "sc_recipient sc = normalize_address (raw ! 4)"
    using addr address_key_chain by simp_all
qed

lemma v2_tx_names:
  "v2_tx raw row = Inr tx \<Longrightarrow>
     tx_sender tx = normalize_address (raw ! 3) \<and> tx_recipient tx = normalize_address (raw ! 4)"
  by (auto simp: v2_tx_def result_simps split: option.splits)

lemma scenes_of_window:
  assumes "load_rows v2_tx offset rows scene start m = Inr txs" and "txs \<noteq> []"
    and "load_scenes offset rows scene start (int (length txs)) = Inr scenes"
  shows "scenes_match start scenes 0 (map real_tx txs)" and "length scenes = length txs"
proof -
  let ?E = "enumerate 0 (zip rows scene)" and ?W = "window_of start m (enumerate 0 (zip rows scene))"
  obtain scs where scs: "load_rows (\<lambda>_ row. scene_of_row start row) offset rows scene start (int (length txs)) = Inr scs"
    and sc: "scenes = map (\<lambda>(i, s). s\<lparr>sc_dataset_row := start + int i\<rparr>) (enumerate 0 scs)"
    using assms(3) by (auto simp: load_scenes_def result_simps split: if_splits)
  have t: "list_all2 (v2_matches v2_tx offset) ?W txs" using load_rows_window [OF assms(1)] by blast
  then have len: "length ?W = length txs" by (rule list_all2_lengthD)
  then have "window_of start (int (length txs)) ?E = ?W"
    using window_of_length [of start m ?E] assms(2) by (cases ?W) auto
  then have u: "list_all2 (v2_matches (\<lambda>_ row. scene_of_row start row) offset) ?W scs"
    using load_rows_window [OF scs] by simp
  then have len': "length scs = length txs" using len list_all2_lengthD by fastforce
  then show "length scenes = length txs" by (simp add: sc)
  have names: "sc_sender (scs ! i) = tx_sender (txs ! i) \<and> sc_recipient (scs ! i) = tx_recipient (txs ! i)"
    if i: "i < length txs" for i
  proof -
    obtain k raw row where w: "?W ! i = (k, raw, row)" by (cases "?W ! i")
    have "v2_matches v2_tx offset (k, raw, row) (txs ! i)"
      "v2_matches (\<lambda>_ row. scene_of_row start row) offset (k, raw, row) (scs ! i)"
      using list_all2_nthD2 [OF t i] list_all2_nthD2 [OF u, of i] i len' by (simp_all add: w)
    then show ?thesis
      using v2_tx_names [of raw row "txs ! i"] scene_of_row_names [of start row "scs ! i" offset k raw]
      by (simp add: v2_matches_def)
  qed
  then show "scenes_match start scenes 0 (map real_tx txs)"
    using len' by (auto simp: scenes_match_def sc nth_enumerate_eq real_tx_def)
qed

section \<open>The loop\<close>

definition metric_ready :: "metric_manifest \<Rightarrow> int \<Rightarrow> scene list \<Rightarrow> nat \<Rightarrow> (nat \<times> metrics) option \<Rightarrow> real tx list \<Rightarrow> bool" where
  "metric_ready mf start scenes k metric txs \<longleftrightarrow>
     (case metric of None \<Rightarrow> True | Some cm \<Rightarrow> measure_ready mf start k cm \<and> scenes_match start scenes k txs)"

lemma eval_batch_returns:
  assumes inv: "eval_inv e0 b k c st" and ans: "policy_answers policy e0"
    and mode: "known_reward_mode (env_params e0)" and pos: "env_sender_pos_mode e0 \<in> {0, 1}"
    and batch: "real_window batch" "batch \<noteq> []"
    and me: "metric_ready mf start scenes k (st_metric st) (batch @ rest)"
  shows "\<exists>st' rng'. eval_batch policy scenes batch (st, rng) = Inr (st', rng') \<and>
           metric_ready mf start scenes (k + length batch) (st_metric st') rest"
proof -
  have i: "wf_env (st_env st)" "same_config e0 (st_env st)" "env_params (st_env st) = env_params e0"
    "esummary_ok (env_shards (st_env st)) k c (st_summary st)"
    using inv eval_inv_shards [OF inv] by (simp_all add: eval_inv_def)
  have ans': "policy_answers policy (st_env st)"
    using ans i(2) by (simp add: policy_answers_def same_config_def)
  have pos': "env_sender_pos_mode (st_env st) \<in> {0, 1}" using pos i(2) by (simp add: same_config_def)
  obtain acts met e rng' where run: "run_batch policy (st_env st) batch rng = Inr (acts, met, e, rng')"
    using run_batch_exists [OF i(1) real_window_check(1) [OF batch pos'] _ _ ans', of rng]
      real_window_check(2) [OF batch pos'] mode i(3) by auto
  obtain s where s: "eval_update_summary (st_summary st) met = Inr s"
    by (rule eval_update_summary_ok [OF i(4) run_batch_emetrics [OF i(1) run]])
  have placed: "\<forall>tx\<in>set batch. addr_shard e (tx_sender tx) \<noteq> None \<and> addr_shard e (tx_recipient tx) \<noteq> None"
    by (rule run_batch_spec(4) [OF i(1) run])
  show ?thesis
  proof (cases "st_metric st")
    case None
    then show ?thesis by (simp add: eval_batch_def run s metric_ready_def)
  next
    case (Some cm)
    have cm: "measure_ready mf start k cm" "scenes_match start scenes k (batch @ rest)"
      using me Some by (simp_all add: metric_ready_def)
    note sm = scenes_match_append [OF cm(2)]
    obtain cm' where "fold_result (measure_tx e scenes) batch cm = Inr cm'" "measure_ready mf start (k + length batch) cm'"
      using measure_batch_returns [OF cm(1) conjunct1 [OF sm] placed] by blast
    then show ?thesis using sm by (simp add: eval_batch_def run s Some metric_ready_def)
  qed
qed

lemma eval_loop_returns:
  assumes "eval_inv e0 b k c st" and "policy_answers policy e0" and "known_reward_mode (env_params e0)"
    and "env_sender_pos_mode e0 \<in> {0, 1}" and "\<forall>batch\<in>set batches. real_window batch \<and> batch \<noteq> []"
    and "metric_ready mf start scenes k (st_metric st) (concat batches)"
  shows "\<exists>st' rng'. fold_result (eval_batch policy scenes) batches (st, rng) = Inr (st', rng') \<and>
           metric_ready mf start scenes (k + length (concat batches)) (st_metric st') []"
  using assms
proof (induction batches arbitrary: st rng b k c)
  case Nil
  then show ?case by simp
next
  case (Cons batch batches)
  have w: "real_window batch" "batch \<noteq> []" using Cons.prems(5) by simp_all
  have me: "metric_ready mf start scenes k (st_metric st) (batch @ concat batches)" using Cons.prems(6) by simp
  obtain st1 rng1 where one: "eval_batch policy scenes batch (st, rng) = Inr (st1, rng1)"
    and me1: "metric_ready mf start scenes (k + length batch) (st_metric st1) (concat batches)"
    using eval_batch_returns [OF Cons.prems(1-4) w me, of rng] by blast
  note keep = eval_batch_keeps [OF one Cons.prems(1)]
  obtain st' rng' where "fold_result (eval_batch policy scenes) batches (st1, rng1) = Inr (st', rng')"
    "metric_ready mf start scenes (k + length batch + length (concat batches)) (st_metric st') []"
    using Cons.IH [OF conjunct1 [OF keep] Cons.prems(2-4) _ me1, of rng1] Cons.prems(5) by auto
  then show ?case using one by (auto simp: add.assoc)
qed

lemma eval_view_returns:
  assumes "esummary_ok n k c s" and "0 < n"
  shows "\<exists>v. eval_summary_view s = Inr v"
proof -
  have ne: "es_loads s \<noteq> []" using assms by (auto simp: esummary_ok_def)
  then obtain st where "load_statistics (map (Fin \<circ> real) (es_loads s)) = Inr st"
    by (auto simp: load_statistics_def list_all_iff Let_def)
  then show ?thesis using assms(1) by (simp add: eval_summary_view_def Let_def esummary_ok_def)
qed

section \<open>The whole run\<close>

lemma validate_args_settings: "validate_args x = Inr s \<Longrightarrow> settings x = Inr s"
  by (auto simp: validate_args_def result_simps Let_def split: if_splits)

text \<open>The paths filled in by the run do not matter for the rest of the arguments.\<close>

lemma resolved_args [simp]:
  fixes a p q
  defines "a' \<equiv> a\<lparr>ev_csv := p, ev_sidecar := q\<rparr>"
  shows "mech_args_of a' = mech_args_of a" and "eval_identity a' = eval_identity a"
    and "iot_feature_dim_for_args a' = iot_feature_dim_for_args a" and "eval_state_dim a' = eval_state_dim a"
    and "eval_env_args a' s = eval_env_args a s"
    and "expected_checkpoint_config a' = expected_checkpoint_config a"
    and "eval_load_agent lib model a' = eval_load_agent lib model a"
proof -
  show m: "mech_args_of a' = mech_args_of a" "eval_identity a' = eval_identity a"
    "iot_feature_dim_for_args a' = iot_feature_dim_for_args a"
    by (simp_all add: a'_def mech_args_of_def eval_identity_def iot_feature_dim_for_args_def is_iot_mdp_def)
  show d: "eval_state_dim a' = eval_state_dim a" using m by (simp add: eval_state_dim_def) (simp add: a'_def)
  show "eval_env_args a' s = eval_env_args a s" using m by (simp add: eval_env_args_def Let_def) (simp add: a'_def)
  show c: "expected_checkpoint_config a' = expected_checkpoint_config a"
    using m by (simp add: expected_checkpoint_config_def load_semantics_def) (simp add: a'_def)
  have "ev_policy a' = ev_policy a" "ev_shards a' = ev_shards a"
    "ev_allow_checkpoint_config_mismatch a' = ev_allow_checkpoint_config_mismatch a"
    by (simp_all add: a'_def)
  then show "eval_load_agent lib model a' = eval_load_agent lib model a"
    unfolding eval_load_agent_def d c by (simp only:)
qed

lemma policy_ready_resolved:
  "policy_ready lib gen model (a\<lparr>ev_csv := p, ev_sidecar := q\<rparr>) = policy_ready lib gen model a"
  by (simp add: policy_ready_def network_ready_def)

lemma evaluation_context_parts:
  assumes "evaluation_context offset chain sidecar start count rs rc = Inr (scenes, mf)"
  shows "load_scenes offset chain sidecar start count = Inr scenes" and "mm_start_tx mf = start"
    and "mm_end_tx_exclusive mf = start + count"
  using assms by (auto simp: evaluation_context_def result_simps split: if_splits)

text \<open>The measurement starts at the first row of the window, when it is asked for.\<close>

lemma start_metric_ready:
  assumes "eval_identity a = ''iot_v2''" and "df_sidecar fs (ev_sidecar a) = Some (header, scene)"
    and "load_rows v2_tx (df_index_offset fs (ev_sidecar a)) rows scene (ev_start_tx a) m = Inr txs" and "txs \<noteq> []"
    and "ev_iot_metrics a \<longrightarrow> (\<exists>ctx. evaluation_context (df_index_offset fs (ev_sidecar a)) rows scene (ev_start_tx a)
           (int (length txs)) (ev_iot_reference_start_tx a) (ev_iot_reference_max_txs a) = Inr ctx)"
  obtains scenes metric mf where "start_metric fs a rows (length txs) = Inr (scenes, metric)"
    and "metric_ready mf (ev_start_tx a) scenes 0 metric (map real_tx txs)"
    and "metric \<noteq> None \<longrightarrow> mm_start_tx mf = ev_start_tx a \<and> mm_end_tx_exclusive mf = ev_start_tx a + int (length txs)"
proof (cases "ev_iot_metrics a")
  case False
  then show thesis by (intro that [of "[]" None undefined]) (simp_all add: start_metric_def metric_ready_def)
next
  case True
  then obtain scenes mf where ctx: "evaluation_context (df_index_offset fs (ev_sidecar a)) rows scene (ev_start_tx a)
      (int (length txs)) (ev_iot_reference_start_tx a) (ev_iot_reference_max_txs a) = Inr (scenes, mf)"
    using assms(5) by auto
  note parts = evaluation_context_parts [OF ctx]
  have "start_metric fs a rows (length txs) = Inr (scenes, Some (0, new_metrics mf))"
    using True assms(1,2) ctx by (simp add: start_metric_def)
  moreover have "measure_ready mf (ev_start_tx a) 0 (0, new_metrics mf)"
    by (simp add: measure_ready_def new_metrics_def)
  ultimately show thesis
    using scenes_of_window(1) [OF assms(3,4) parts(1)] parts(2,3) 
    by (intro that [of scenes "Some (0, new_metrics mf)" mf]) (simp_all add: metric_ready_def)
qed

lemma make_env_mode: "make_env a = Inr e \<Longrightarrow> env_sender_pos_mode e = ea_sender_pos_mode a"
  by (auto simp: make_env_def Let_def reset_def split: if_splits)

lemma eval_run_returns:
  assumes set: "settings (mech_args_of a) = Inr s" and env: "make_env (eval_env_args a s) = Inr e0"
    and mode: "known_reward_mode (env_params e0)" and pos: "ev_sender_pos_mode a \<in> {0, 1}"
    and ready: "policy_ready lib gen model a" and window: "real_window txs"
    and sm: "start_metric fs a rows (length txs) = Inr (scenes, metric)"
    and me: "metric_ready mf (ev_start_tx a) scenes 0 metric txs"
    and mf: "metric \<noteq> None \<longrightarrow> mm_start_tx mf = ev_start_tx a \<and> mm_end_tx_exclusive mf = ev_start_tx a + int (length txs)"
  shows "\<exists>r. eval_run lib gen fs model csv rows txs s a rng = Inr r"
proof -
  obtain agent policy where pol: "eval_load_agent lib model a = Inr agent" "make_policy lib gen a agent = Inr policy"
    and ans: "policy_answers policy e0"
    using policy_ready_answers [OF set env ready] by blast
  have bs: "0 < ev_tx_batch_size a" and n: "env_shards e0 = nat (ev_shards a)"
    using make_env_shards [OF env] by (simp_all add: eval_env_args_def Let_def)
  let ?batches = "cut_batches (length txs) (nat (ev_tx_batch_size a)) txs"
  have it: "iter_batches txs (ev_tx_batch_size a) = Inr ?batches" using bs by (simp add: iter_batches_def)
  have cc: "concat ?batches = txs"
    using concat_cut_batches [of "nat (ev_tx_batch_size a)" txs "length txs"] bs by simp
  have parts: "\<forall>batch\<in>set ?batches. real_window batch \<and> batch \<noteq> []"
    using cut_batches_parts [of "nat (ev_tx_batch_size a)" "length txs" txs] bs window
    by (auto simp: real_window_def scenes_complete_def list_all_iff)
  have pos': "env_sender_pos_mode e0 \<in> {0, 1}"
    using make_env_mode [OF env] pos by (simp add: eval_env_args_def Let_def)
  let ?st = "\<lparr>st_env = e0, st_summary = eval_new_summary (env_shards e0) (ev_max_block_size a) (ev_block_interval_ms a),
       st_metric = metric\<rparr>"
  have inv0: "eval_inv e0 0 0 0 ?st" by (rule eval_inv_start [OF env sm])
  obtain st rng' where loop: "fold_result (eval_batch policy scenes) ?batches (?st, rng) = Inr (st, rng')"
    and ready': "metric_ready mf (ev_start_tx a) scenes (length txs) (st_metric st) []"
    using eval_loop_returns [OF inv0 ans mode pos' parts, of mf "ev_start_tx a" scenes rng] me by (auto simp: cc)
  obtain c where inv: "eval_inv e0 (length ?batches) (length txs) c st" and some: "st_metric st = None \<longleftrightarrow> metric = None"
    using eval_loop_keeps [OF loop inv0] by (auto simp: cc)
  have ok: "esummary_ok (env_shards e0) (length txs) c (st_summary st)" using inv by (simp add: eval_inv_def)
  obtain v where v: "eval_summary_view (st_summary st) = Inr v"
    using eval_view_returns [OF ok wf_env_shards [OF make_env_wf [OF env]]] by blast
  obtain d where d: "eval_state_dim a = Inr d"
    using build_state_total [OF make_env_wf [OF env]] eval_env_dim(1) [OF set env] by fastforce
  obtain md where md: "metadata (mech_args_of a) = Inr md" by (simp add: metadata_def set)
  obtain iot where iot: "finish_metric (st_metric st) = Inr iot"
    using ready' some mf
    by (cases "st_metric st") (auto simp: finish_metric_def metric_ready_def measure_ready_def metrics_summary_def)
  show ?thesis
    using pol env sm it loop n d md v iot by (simp add: eval_run_def)
qed

lemma v2_identity:
  assumes "ev_tx_identity a = V2_IDENTITY"
  shows "eval_identity a = ''iot_v2''" and "uses_iot_identity a"
  using assms by (simp_all add: eval_identity_def resolved_identity_def uses_iot_identity_def V2_IDENTITY_def
      py_strip_def strip_by_def is_space_def py_lower_def lower_char_def)

lemma evaluation_returns:
  fixes a rdir
  defines "side \<equiv> resolve_iot_sidecar_path rdir a"
  assumes args: "validate_args (mech_args_of a) = Inr s" and v2: "ev_tx_identity a = V2_IDENTITY"
    and csv: "df_csv fs (resolve_csv_path rdir a) = Some rows" and scene: "df_sidecar fs side = Some (header, scene)"
    and load: "load_iot_transactions ip (df_index_offset fs side) rows header scene (ev_max_txs a) (ev_start_tx a) V2_IDENTITY = Inr txs"
    and txs: "txs \<noteq> []" and cols: "list_all scene_columns scene"
    and env: "make_env (eval_env_args a s) = Inr e0" and mode: "known_reward_mode (env_params e0)"
    and pos: "ev_sender_pos_mode a \<in> {0, 1}" and ready: "policy_ready lib gen model a"
    and ctx: "ev_iot_metrics a \<longrightarrow> (\<exists>ctx. evaluation_context (df_index_offset fs side) rows scene (ev_start_tx a)
           (int (length txs)) (ev_iot_reference_start_tx a) (ev_iot_reference_max_txs a) = Inr ctx)"
  shows "\<exists>r. evaluate lib ip gen fs model rdir a rng = Inr r"
proof -
  let ?a = "a\<lparr>ev_csv := resolve_csv_path rdir a, ev_sidecar := side\<rparr>"
  note id = v2_identity [OF v2]
  have rows: "load_rows v2_tx (df_index_offset fs side) rows scene (ev_start_tx a) (ev_max_txs a) = Inr txs"
    using load by (simp add: load_iot_transactions_def)
  have side': "resolve_iot_sidecar_path rdir (a\<lparr>ev_csv := resolve_csv_path rdir a\<rparr>) = side"
    by (simp add: side_def resolve_iot_sidecar_path_def eval_identity_def)
  have id': "eval_identity (a\<lparr>ev_csv := resolve_csv_path rdir a\<rparr>) = V2_IDENTITY"
    "uses_iot_identity (a\<lparr>ev_csv := resolve_csv_path rdir a\<rparr>)"
    using v2_identity [of "a\<lparr>ev_csv := resolve_csv_path rdir a\<rparr>"] v2 by (simp_all add: V2_IDENTITY_def)
  have loaded: "load_eval_transactions ip fs rdir (a\<lparr>ev_csv := resolve_csv_path rdir a\<rparr>) rows = Inr (txs, ?a)"
    using scene load by (simp add: load_eval_transactions_def id' side' Let_def)
  note lw = load_v2_ok [OF load cols]
  have "list_all v2_tx_ok txs"
    using list_all2_set2 [OF conjunct2 [OF conjunct2 [OF lw]]] by (fastforce simp: list_all_iff)
  then have window: "real_window (map real_tx txs)" by (rule v2_real_window)
  obtain scenes metric mf where sm: "start_metric fs ?a rows (length txs) = Inr (scenes, metric)"
    and me: "metric_ready mf (ev_start_tx ?a) scenes 0 metric (map real_tx txs)"
    and mf: "metric \<noteq> None \<longrightarrow> mm_start_tx mf = ev_start_tx ?a \<and> mm_end_tx_exclusive mf = ev_start_tx ?a + int (length txs)"
    by (rule start_metric_ready [of ?a fs header scene rows "ev_max_txs a" txs])
       (use id scene rows txs ctx in simp_all)
  have "\<exists>r. eval_run lib gen fs model (resolve_csv_path rdir a) rows (map real_tx txs) s ?a rng = Inr r"
    by (rule eval_run_returns [OF _ _ mode _ _ window _ me])
       (use validate_args_settings [OF args] env pos ready sm mf in \<open>simp_all add: policy_ready_resolved\<close>)
  moreover have "ev_max_txs a > 0 \<longrightarrow> int (length txs) = ev_max_txs a" using lw by auto
  ultimately show ?thesis using args csv loaded txs by (simp add: evaluate_def Let_def)
qed

end
