(* ===== verification/EvalTheorems.thy ===== *)
theory EvalTheorems
  imports EvalProgress
begin

text \<open>
  Theorems about an offline evaluation: that it completes, what its report counts, that the IoT
  measurement agrees with the executed stages, and which checkpoints it runs.
\<close>

section \<open>A small evaluation\<close>

text \<open>Two rows of real accounts: the first is the reference window, the second is evaluated.\<close>

definition demo_eval_scene :: "string \<Rightarrow> string \<Rightarrow> row" where
  "demo_eval_scene i r = LoadTheorems.demo_scene(''tx_index'' \<mapsto> Some i, ''source_row'' \<mapsto> Some r,
     ''is_control_protocol'' \<mapsto> Some ''1'')"

definition demo_eval_scenes :: "row list" where
  "demo_eval_scenes = [demo_eval_scene ''0'' ''1'', demo_eval_scene ''1'' ''2'']"

definition demo_eval_files :: data_files where
  "demo_eval_files = \<lparr>df_csv = (\<lambda>_. Some [demo_raw, demo_raw]), df_sidecar = (\<lambda>_. Some ([], demo_eval_scenes)),
     df_index_offset = (\<lambda>_. 0)\<rparr>"

definition demo_eval_args :: eval_args where
  "demo_eval_args = \<lparr>ev_csv = [], ev_sidecar = [], ev_mdp_mode = ''iot'', ev_tx_identity = ''iot_v2'',
     ev_policy = ''ppo'', ev_sample = False, ev_shards = 2, ev_start_tx = 1, ev_max_txs = 1, ev_tx_batch_size = 10,
     ev_max_block_size = 10, ev_block_interval_ms = 5000, ev_sender_pos_mode = 1, ev_temporal_top_k = 8,
     ev_params = default_params, ev_local_reward_weight = 0.65, ev_action_reward_scale = 0.1,
     ev_capacity_backlog_mode = 0, ev_candidate_top_k = 1, ev_capacity_guard = 0, ev_capacity_guard_factor = 1.5,
     ev_candidate_load_weight = 1, ev_argmax_tie_break = 1, ev_argmax_tie_eps = 0,
     ev_allow_checkpoint_config_mismatch = False, ev_iot_metrics = True, ev_iot_reference_start_tx = 0,
     ev_iot_reference_max_txs = 1, ev_mechanism_version = ''legacy'', ev_feature_mode = ''full'',
     ev_scene_cost_mode = ''auto'', ev_rollout_batches = 8\<rparr>"

definition demo_eval_lib :: "(unit, unit) torch_lib" where
  "demo_eval_lib = \<lparr>tl_fresh = (\<lambda>_ _. return ()), tl_load_state_dict = (\<lambda>_ _. (None, ())),
     tl_forward = (\<lambda>_ s. if list_all is_finite s then Some ([0, sum_list (map fin_val s)], 0) else None), tl_update = (\<lambda>a _. return ((), a))\<rparr>"

definition demo_generators :: "unit generators" where
  "demo_generators = \<lparr>gen_sample = (\<lambda>r _. (0, r)), gen_randrange = (\<lambda>r _. (0, r))\<rparr>"

definition demo_eval_config :: dict where
  "demo_eval_config = projr (expected_checkpoint_config demo_eval_args)"

definition demo_eval_model :: "unit model_file" where
  "demo_eval_model = Some (return (agent_save \<lparr>ag_state_dim = 35, ag_action_dim = 2, ag_net = ()\<rparr> demo_eval_config))"

lemma demo_eval_floats:
  "f \<notin> {''tx_index'', ''source_row'', ''is_control_protocol''} \<Longrightarrow>
     float_field (demo_eval_scene i r) f = float_field LoadTheorems.demo_scene f"
  by (simp add: float_field_def get_field_def demo_eval_scene_def)

lemma demo_eval_legacy: "\<exists>f. scene_for_legacy_features (demo_eval_scene i r) b = Inr f"
proof -
  have "traverse (check_scene_field (demo_eval_scene i r)) scene_fields_checked = Inr (replicate 8 ())"
    by (simp add: scene_fields_checked_def check_scene_field_def demo_eval_floats demo_scene_float eval_nat_numeral)
  then show ?thesis
    by (cases b) (simp_all add: scene_for_legacy_features_def get_field_def demo_eval_scene_def
        LoadTheorems.demo_scene_def text_row_def)
qed

lemma demo_eval_columns: "scene_columns (demo_eval_scene i r)"
  by (simp add: scene_columns_def demo_eval_scene_def LoadTheorems.demo_scene_def text_row_def)

lemma demo_eval_aligned:
  "check_alignment 0 0 (demo_a, demo_b) (demo_eval_scene ''0'' ''1'') = Inr ()"
  "check_alignment 0 1 (demo_a, demo_b) (demo_eval_scene ''1'' ''2'') = Inr ()"
  by (simp_all add: check_alignment_def int_field_def get_field_def demo_eval_scene_def
      LoadTheorems.demo_scene_def text_row_def text_eval)

lemma demo_eval_tx: "\<exists>tx. v2_tx demo_raw (demo_eval_scene i r) = Inr tx"
  using v2_tx_total [OF demo_chain demo_eval_columns] demo_eval_legacy by metis

lemma demo_eval_scene_row:
  assumes "0 \<le> start" and "py_int 10 i = Some k" and "0 \<le> k"
  shows "\<exists>sc. scene_of_row start (demo_eval_scene i r) = Inr sc"
proof -
  obtain f where f: "scene_for_legacy_features (demo_eval_scene i r) False = Inr f" using demo_eval_legacy by blast
  have "unit_float (iot_communication_cost_weight f)"
    by (rule iot_communication_cost_weight_unit [OF scene_row_ok [OF f demo_eval_columns]])
  then obtain c where c: "iot_communication_cost_weight f = Fin c" "0 \<le> c" "c \<le> 1"  by (rule unit_float_cases)
  have "int_field (demo_eval_scene i r) ''tx_index'' = Inr k"
    using assms(2) by (simp add: int_field_def get_field_def demo_eval_scene_def)
  moreover have "get_str (demo_eval_scene i r) ''from_address'' = Inr demo_a"
    "get_str (demo_eval_scene i r) ''to_address'' = Inr demo_b" "get_str (demo_eval_scene i r) ''is_control_protocol'' = Inr ''1''"
    by (simp_all add: get_str_def get_field_def str_field_def demo_eval_scene_def LoadTheorems.demo_scene_def text_row_def)
  ultimately show ?thesis
    using f c assms(1,3) by (simp add: scene_of_row_def demo_eval_floats demo_scene_float make_scene_def)
qed

lemma demo_eval_load:
  "\<exists>tx. load_iot_transactions ip 0 [demo_raw, demo_raw] [] demo_eval_scenes 1 1 V2_IDENTITY = Inr [tx]"
  using demo_eval_tx [of "''1''" "''2''"] demo_eval_aligned
  by (auto simp: load_iot_transactions_def load_rows_def demo_chain demo_eval_scenes_def)

lemma demo_load_scenes:
  "\<exists>sc. load_scenes 0 [demo_raw, demo_raw] demo_eval_scenes 0 1 = Inr [sc]"
  "\<exists>sc. load_scenes 0 [demo_raw, demo_raw] demo_eval_scenes 1 1 = Inr [sc]"
proof -
  have "py_int 10 ''0'' = Some 0" "py_int 10 ''1'' = Some 1" by (simp_all add: text_eval)
  then obtain s0 s1 where "scene_of_row 0 (demo_eval_scene ''0'' ''1'') = Inr s0"
    "scene_of_row 1 (demo_eval_scene ''1'' ''2'') = Inr s1"
    using demo_eval_scene_row [of 0 "''0''" 0] demo_eval_scene_row [of 1 "''1''" 1] by fastforce
  then show "\<exists>sc. load_scenes 0 [demo_raw, demo_raw] demo_eval_scenes 0 1 = Inr [sc]"
    "\<exists>sc. load_scenes 0 [demo_raw, demo_raw] demo_eval_scenes 1 1 = Inr [sc]"
    using demo_eval_aligned by (simp_all add: load_scenes_def load_rows_def demo_chain demo_eval_scenes_def)
qed

lemma demo_context:
  "\<exists>ctx. evaluation_context 0 [demo_raw, demo_raw] demo_eval_scenes 1 1 0 1 = Inr ctx"
  using demo_load_scenes by (auto simp: evaluation_context_def reference_threshold_def nearest_rank_def)

lemma demo_eval_settings:
  "settings (mech_args_of demo_eval_args) = Inr \<lparr>mechanism_version = ''legacy'', feature_mode = ''full'', scene_cost_mode = ''legacy''\<rparr>"
  "validate_args (mech_args_of demo_eval_args) = Inr \<lparr>mechanism_version = ''legacy'', feature_mode = ''full'', scene_cost_mode = ''legacy''\<rparr>"
proof -
  show s: "settings (mech_args_of demo_eval_args) =
      Inr \<lparr>mechanism_version = ''legacy'', feature_mode = ''full'', scene_cost_mode = ''legacy''\<rparr>"
    by (simp add: settings_def mech_args_of_def demo_eval_args_def Let_def)
  then show "validate_args (mech_args_of demo_eval_args) =
      Inr \<lparr>mechanism_version = ''legacy'', feature_mode = ''full'', scene_cost_mode = ''legacy''\<rparr>"
    unfolding validate_args_def s by simp
qed

lemma demo_iot_mdp: "is_iot_mdp demo_eval_args"
  by (simp add: is_iot_mdp_def demo_eval_args_def text_eval)

lemma demo_eval_dim: "eval_state_dim demo_eval_args = Inr 35"
  by (simp add: eval_state_dim_def demo_eval_settings iot_feature_dim_for_args_def demo_iot_mdp input_dim_def
      address_flag_dim_def state_dim_def IOT_FEATURE_DIM_def) (simp add: demo_eval_args_def)

lemma demo_eval_env:
  obtains e0 where "make_env (eval_env_args demo_eval_args
      \<lparr>mechanism_version = ''legacy'', feature_mode = ''full'', scene_cost_mode = ''legacy''\<rparr>) = Inr e0"
    and "known_reward_mode (env_params e0)"
proof -
  let ?args = "eval_env_args demo_eval_args
      \<lparr>mechanism_version = ''legacy'', feature_mode = ''full'', scene_cost_mode = ''legacy''\<rparr>"
  have a: "ea_shards ?args = 2" "ea_tx_batch_size ?args = 10" "ea_block_interval_ms ?args = 5000"
    "ea_mechanism_version ?args = ''legacy''" "ea_feature_mode ?args = ''full''" "ea_params ?args = default_params"
    by (simp_all add: eval_env_args_def demo_eval_args_def Let_def)
  obtain e0 where e0: "make_env ?args = Inr e0" by (simp add: make_env_def a Let_def)
  have "env_params e0 = default_params\<lparr>reward_mode := py_lower (py_strip (reward_mode default_params))\<rparr>"
    using e0 by (auto simp: make_env_def a Let_def reset_def)
  then have "known_reward_mode (env_params e0)"
    by (simp add: known_reward_mode_def default_params_def IOT_DENSE_BALANCED_REWARD_MODE_def
        IOT_GLOBAL_REWARD_MODES_def py_strip_def strip_by_def is_space_def py_lower_def lower_char_def)
  then show thesis using e0 that by blast
qed

lemma mismatches_self:
  assumes "distinct (map fst d)" and "\<forall>(k, v)\<in>set d. value_matches v v" and "map_of d ''mechanism_version'' = None"
  shows "checkpoint_config_mismatches (map_of d) d = []"
proof -
  have "key_mismatch (map_of d) x = []" if "x \<in> set d" for x
  proof -
    obtain k v where x: "x = (k, v)" by force
    then have "map_of d k = Some v" using that assms(1) by simp
    then show ?thesis using that assms(2) by (auto simp: key_mismatch_def x)
  qed
  then show ?thesis using assms(3) by (simp add: checkpoint_config_mismatches_def get_or_def scalar_eq_def)
qed

lemma demo_eval_agent:
  "eval_load_agent demo_eval_lib demo_eval_model demo_eval_args = Inr (Some \<lparr>ag_state_dim = 35, ag_action_dim = 2, ag_net = ()\<rparr>)"
proof -
  have cfg: "expected_checkpoint_config demo_eval_args = Inr demo_eval_config"
    by (simp add: demo_eval_config_def expected_checkpoint_config_def metadata_def demo_eval_settings)
  have "checkpoint_config_mismatches (map_of demo_eval_config) demo_eval_config = []"
    by (rule mismatches_self)
       (simp_all add: demo_eval_config_def expected_checkpoint_config_def metadata_def demo_eval_settings
         metadata_items_def value_matches_def scalar_eq_def)
  moreover have "ev_policy demo_eval_args = ''ppo''" "ev_shards demo_eval_args = 2" by (simp_all add: demo_eval_args_def)
  moreover have "agent_load demo_eval_lib (return (agent_save ag demo_eval_config)) ag = (Inr (agent_save ag demo_eval_config), ag)"
    for ag by (simp add: agent_load_def load_weights_def demo_eval_lib_def agent_save_def)
  moreover have "make_agent demo_eval_lib 35 2 = Inr \<lparr>ag_state_dim = 35, ag_action_dim = 2, ag_net = ()\<rparr>"
    by (simp add: make_agent_def demo_eval_lib_def)
  ultimately show ?thesis using cfg demo_eval_dim by (simp add: eval_load_agent_def demo_eval_model_def)
qed

lemma demo_eval_ready: "policy_ready demo_eval_lib demo_generators demo_eval_model demo_eval_args"
proof -
  have "network_ready demo_eval_lib demo_generators demo_eval_args \<lparr>ag_state_dim = 35, ag_action_dim = 2, ag_net = ()\<rparr>"
    by (simp add: network_ready_def demo_eval_lib_def demo_eval_args_def list_all_iff)
  then show ?thesis using demo_eval_agent unfolding policy_ready_def by (auto simp: demo_eval_args_def)
qed

lemma demo_evaluation: "\<exists>r. evaluate demo_eval_lib ip demo_generators demo_eval_files demo_eval_model rdir demo_eval_args () = Inr r"
proof -
  obtain tx where load: "load_iot_transactions ip 0 [demo_raw, demo_raw] [] demo_eval_scenes 1 1 V2_IDENTITY = Inr [tx]"
    using demo_eval_load by blast
  obtain e0 where env: "make_env (eval_env_args demo_eval_args
      \<lparr>mechanism_version = ''legacy'', feature_mode = ''full'', scene_cost_mode = ''legacy''\<rparr>) = Inr e0"
    and mode: "known_reward_mode (env_params e0)" by (rule demo_eval_env)
  show ?thesis
    by (rule evaluation_returns [where txs = "[tx]" and scene = demo_eval_scenes and rows = "[demo_raw, demo_raw]"
          and header = "[]", OF demo_eval_settings(2) _ _ _ _ _ _ env mode _ demo_eval_ready])
       (use load demo_context demo_eval_columns in
         \<open>simp_all add: demo_eval_files_def demo_eval_scenes_def demo_eval_args_def V2_IDENTITY_def\<close>)
qed

section \<open>The theorems\<close>

text \<open>
  C18. An offline evaluation reports on its whole window: when it returns, it has loaded exactly
  the requested number of transactions (or all of the file), at least one; the report counts all
  of them, its owner loads add up to them and its stage loads to at least one and at most two
  stages each; all seven load and action distributions are distributions, or zero where nothing
  was counted; and a hash or random baseline ran without candidate filter, as the result says.
\<close>

theorem evaluation_report_complete:
  assumes "evaluate lib ip gen fs model rdir a rng = Inr r"
  defines "v \<equiv> er_summary r" and "n \<equiv> er_loaded_txs r"
  shows "0 < n \<and> (ev_max_txs a > 0 \<longrightarrow> int n = ev_max_txs a) \<and>
         er_dataset_end_tx_exclusive r = ev_start_tx a + int n \<and> ew_tx_count v = n \<and>
         sum_list (ew_owner_loads v) = n \<and> n \<le> sum_list (ew_loads v) \<and> sum_list (ew_loads v) \<le> 2 * n \<and>
         sum_list (ew_action_hist v) = ew_action_count v \<and>
         list_all share_vector [ew_action_dist v, ew_owner_load_dist v, ew_stage_load_dist v, ew_load_dist v,
           ew_reward_load_dist v, ew_committed_load_dist v, ew_committed_stage_load_dist v] \<and>
         sum_list (ew_owner_load_dist v) = 1 \<and> sum_list (ew_stage_load_dist v) = 1 \<and>
         (ev_policy a \<in> {''hash'', ''random''} \<longrightarrow> er_candidate_top_k r = 0 \<and> er_capacity_guard r = 0)"
proof -
  obtain s rows txs a' where l: "load_eval_transactions ip fs rdir (a\<lparr>ev_csv := resolve_csv_path rdir a\<rparr>) rows = Inr (txs, a')"
    and txs: "txs \<noteq> []" "ev_max_txs a' > 0 \<longrightarrow> int (length txs) = ev_max_txs a'"
    and run: "eval_run lib gen fs model (resolve_csv_path rdir a) rows (map real_tx txs) s a' rng = Inr r"
    by (rule evaluate_parts [OF assms(1)])
  obtain p where a': "a' = a\<lparr>ev_csv := resolve_csv_path rdir a, ev_sidecar := p\<rparr>" using loaded_args [OF l] by blast
  obtain agent e0 policy scenes metric batches st rng' where e0: "make_env (eval_env_args a' s) = Inr e0"
    and sm: "start_metric fs a' rows (length (map real_tx txs)) = Inr (scenes, metric)" and cc: "concat batches = map real_tx txs"
    and loop: "fold_result (eval_batch policy scenes) batches
       (\<lparr>st_env = e0, st_summary = eval_new_summary (env_shards e0) (ev_max_block_size a') (ev_block_interval_ms a'),
         st_metric = metric\<rparr>, rng) = Inr (st, rng')"
    and view: "eval_summary_view (st_summary st) = Inr v"
    and res: "er_loaded_txs r = length (map real_tx txs)"
    "er_dataset_end_tx_exclusive r = ev_start_tx a' + int (length (map real_tx txs))"
    "er_candidate_top_k r = env_candidate_top_k (st_env st)" "er_capacity_guard r = env_capacity_guard (st_env st)"
    by (rule eval_run_parts [OF run, folded v_def])
  obtain c where inv: "eval_inv e0 (length batches) (length txs) c st"
    using eval_loop_keeps [OF loop eval_inv_start [OF e0 sm]] by (auto simp: cc)
  then have ok: "esummary_ok (env_shards e0) n c (st_summary st)" "c \<le> n" "same_config e0 (st_env st)"
    using res by (simp_all add: eval_inv_def n_def)
  have n: "0 < n" "n = length txs" using txs(1) res by (simp_all add: n_def)
  have "ev_policy a \<in> {''hash'', ''random''} \<longrightarrow> er_candidate_top_k r = 0 \<and> er_capacity_guard r = 0"
    using make_env_candidates [OF e0] res(3,4) ok(3) a' by (auto simp: same_config_def eval_env_args_def Let_def)
  moreover have "list_all share_vector [ew_action_dist v, ew_owner_load_dist v, ew_stage_load_dist v, ew_load_dist v,
      ew_reward_load_dist v, ew_committed_load_dist v, ew_committed_stage_load_dist v]"
    using rdist_of_share [of "env_shards e0"] ok(1)
    by (simp add: eval_view_fields [OF view] esummary_ok_def dist_of_share)
  moreover have "sum_list (ew_owner_load_dist v) = 1" "sum_list (ew_stage_load_dist v) = 1"
    using n ok(1) by (simp_all add: eval_view_fields [OF view] dist_of_sum esummary_ok_def del: sum_list_eq_0_iff)
  ultimately show ?thesis
    using n res txs(2) ok a' by (simp add: eval_view_fields [OF view] esummary_ok_def)
qed

theorem evaluation_report_complete_witness:
  "\<exists>r. evaluate demo_eval_lib (\<lambda>_. False) demo_generators demo_eval_files demo_eval_model ''repo'' demo_eval_args () = Inr r \<and>
     er_loaded_txs r = 1 \<and> sum_list (ew_owner_loads (er_summary r)) = 1"
proof -
  obtain r where r: "evaluate demo_eval_lib (\<lambda>_. False) demo_generators demo_eval_files demo_eval_model ''repo'' demo_eval_args () = Inr r"
    using demo_evaluation by blast
  have "ev_max_txs demo_eval_args = 1" by (simp add: demo_eval_args_def)
  then show ?thesis using r evaluation_report_complete [OF r] by auto
qed

text \<open>
  C16. The IoT measurement agrees with the simulated execution: it measures every loaded
  transaction once, and the cross-shard transactions it counts are exactly the relays, so that
  the executed stages of the report are the transactions plus the measured cross-shard ones.
\<close>

theorem measured_cross_is_relays:
  assumes "evaluate lib ip gen fs model rdir a rng = Inr r" and "ev_iot_metrics a"
  shows "\<exists>view. er_iot_metrics r = Some view \<and> tv_count (view AllTx) = er_loaded_txs r \<and>
     sum_list (ew_loads (er_summary r)) = er_loaded_txs r + tv_cross_count (view AllTx)"
proof -
  obtain s rows txs a' where l: "load_eval_transactions ip fs rdir (a\<lparr>ev_csv := resolve_csv_path rdir a\<rparr>) rows = Inr (txs, a')"
    and run: "eval_run lib gen fs model (resolve_csv_path rdir a) rows (map real_tx txs) s a' rng = Inr r"
    by (rule evaluate_parts [OF assms(1)])
  have m: "ev_iot_metrics a'" using loaded_args [OF l] assms(2) by auto
  obtain agent e0 policy scenes metric batches st rng' where e0: "make_env (eval_env_args a' s) = Inr e0"
    and sm: "start_metric fs a' rows (length (map real_tx txs)) = Inr (scenes, metric)" and cc: "concat batches = map real_tx txs"
    and loop: "fold_result (eval_batch policy scenes) batches
       (\<lparr>st_env = e0, st_summary = eval_new_summary (env_shards e0) (ev_max_block_size a') (ev_block_interval_ms a'),
         st_metric = metric\<rparr>, rng) = Inr (st, rng')"
    and view: "eval_summary_view (st_summary st) = Inr (er_summary r)"
    and fin: "finish_metric (st_metric st) = Inr (er_iot_metrics r)" and res: "er_loaded_txs r = length (map real_tx txs)"
    by (rule eval_run_parts [OF run])
  obtain c where inv: "eval_inv e0 (length batches) (length txs) c st" and some: "st_metric st = None \<longleftrightarrow> metric = None"
    using eval_loop_keeps [OF loop eval_inv_start [OF e0 sm]] by (auto simp: cc)
  have "metric \<noteq> None" using sm m by (auto simp: start_metric_def result_simps split: if_splits option.splits)
  then obtain cm where cm: "st_metric st = Some cm" "measured (length txs) c cm"
    using some inv by (auto simp: eval_inv_def)
  then obtain vw where vw: "er_iot_metrics r = Some vw" "metrics_summary (snd cm) = Inr vw"
    using fin finish_metric_Some by metis
  have "vw AllTx = totals_summary (me_groups (snd cm) AllTx)"
    using vw(2) by (auto simp: metrics_summary_def split: if_splits)
  then have "tv_count (vw AllTx) = length txs" "tv_cross_count (vw AllTx) = c"
    using cm(2) by (simp_all add: totals_summary_def measured_def)
  moreover have "sum_list (ew_loads (er_summary r)) = length txs + c"
    using inv by (simp add: eval_view_fields [OF view] eval_inv_def esummary_ok_def)
  ultimately show ?thesis using vw(1) res by simp
qed

theorem measured_cross_is_relays_witness:
  "\<exists>r view. evaluate demo_eval_lib (\<lambda>_. False) demo_generators demo_eval_files demo_eval_model ''repo'' demo_eval_args () = Inr r \<and>
     er_iot_metrics r = Some view \<and> tv_count (view AllTx) = er_loaded_txs r"
proof -
  obtain r where r: "evaluate demo_eval_lib (\<lambda>_. False) demo_generators demo_eval_files demo_eval_model ''repo'' demo_eval_args () = Inr r"
    using demo_evaluation by blast
  have "ev_iot_metrics demo_eval_args" by (simp add: demo_eval_args_def)
  from measured_cross_is_relays [OF r this] show ?thesis using r by blast
qed

text \<open>
  C17. A network is evaluated only in the configuration it was trained for: when an evaluation of
  the network policy returns and mismatches are not explicitly allowed, the model file was
  readable, its dimensions are those of the observation and of the shards, and its metadata agrees
  with the whole expected configuration, the mechanism version included.
\<close>

theorem evaluation_checkpoint_compatible:
  assumes "evaluate lib ip gen fs model rdir a rng = Inr r" and "ev_policy a = ''ppo''"
    and "\<not> ev_allow_checkpoint_config_mismatch a"
  shows "\<exists>pl d extra expected. model = Some (Inr pl) \<and> eval_state_dim a = Inr d \<and>
     payload_dims pl = Inr (d, ev_shards a) \<and> payload_extra pl = Inr extra \<and>
     expected_checkpoint_config a = Inr expected \<and> checkpoint_config_mismatches (map_of extra) expected = []"
proof -
  obtain s rows txs a' where l: "load_eval_transactions ip fs rdir (a\<lparr>ev_csv := resolve_csv_path rdir a\<rparr>) rows = Inr (txs, a')"
    and run: "eval_run lib gen fs model (resolve_csv_path rdir a) rows (map real_tx txs) s a' rng = Inr r"
    by (rule evaluate_parts [OF assms(1)])
  obtain q where a': "a' = a\<lparr>ev_csv := resolve_csv_path rdir a, ev_sidecar := q\<rparr>" using loaded_args [OF l] by blast
  obtain agent where "eval_load_agent lib model a' = Inr agent"
    using run by (auto simp: eval_run_def result_simps)
  then have load: "eval_load_agent lib model a = Inr agent" by (simp add: a')
  then obtain content where m: "model = Some content" using assms(2) by (cases model) (auto simp: eval_load_agent_def)
  obtain d ag where d: "eval_state_dim a = Inr d" and ag: "make_agent lib d (ev_shards a) = Inr ag"
    using load assms(2) by (auto simp: eval_load_agent_def m result_simps)
  obtain pl ag' where pl: "agent_load lib content ag = (Inr pl, ag')"
    using load assms(2) by (cases "agent_load lib content ag"; cases "fst (agent_load lib content ag)")
      (auto simp: eval_load_agent_def m d ag result_simps)
  then have "content = Inr pl" by (auto simp: agent_load_def split: sum.splits prod.splits)
  with load assms(2,3) pl show ?thesis
    by (auto simp: eval_load_agent_def m d ag result_simps split: if_splits)
qed

theorem evaluation_checkpoint_compatible_witness:
  "\<exists>r pl. evaluate demo_eval_lib (\<lambda>_. False) demo_generators demo_eval_files demo_eval_model ''repo'' demo_eval_args () = Inr r \<and>
     demo_eval_model = Some (Inr pl) \<and> payload_dims pl = Inr (35, 2)"
proof -
  obtain r where r: "evaluate demo_eval_lib (\<lambda>_. False) demo_generators demo_eval_files demo_eval_model ''repo'' demo_eval_args () = Inr r"
    using demo_evaluation by blast
  have "ev_policy demo_eval_args = ''ppo''" "\<not> ev_allow_checkpoint_config_mismatch demo_eval_args" "ev_shards demo_eval_args = 2"
    by (simp_all add: demo_eval_args_def)
  with evaluation_checkpoint_compatible [OF r] show ?thesis using r by (auto simp: demo_eval_dim)
qed

text \<open>
  C15. An evaluation of a real-account window completes. If the arguments pass their validation,
  the chain file and the sidecar exist and load to a nonempty window, the sidecar has no columns
  \<open>anchor_distances\<close> and \<open>anchor_link_qualities\<close> (so that all features are finite), the
  environment can be built, the reward mode and the sender position mode are known ones, the
  reference window of the measurement, if it is asked for, can be read, and the policy is ready,
  then no batch raises, every scene of the measurement is aligned with its transaction, the
  measurement covers the window exactly, and a result is returned. The heuristic, hash, random and
  candidate policies are always ready. The network policy is when the checkpoint loads, the
  network gives one logit per shard on observations of its input size with entries in the unit
  interval, and, when sampling, sampled actions are shards.
\<close>

theorem evaluation_completes:
  fixes a rdir
  defines "side \<equiv> resolve_iot_sidecar_path rdir a"
  assumes "validate_args (mech_args_of a) = Inr s" and "ev_tx_identity a = V2_IDENTITY"
    and "df_csv fs (resolve_csv_path rdir a) = Some rows" and "df_sidecar fs side = Some (header, scene)"
    and "load_iot_transactions ip (df_index_offset fs side) rows header scene (ev_max_txs a) (ev_start_tx a) V2_IDENTITY = Inr txs"
    and "txs \<noteq> []" and "list_all scene_columns scene"
    and "make_env (eval_env_args a s) = Inr e0" and "known_reward_mode (env_params e0)"
    and "ev_sender_pos_mode a \<in> {0, 1}" and "policy_ready lib gen model a"
    and "ev_iot_metrics a \<longrightarrow> (\<exists>ctx. evaluation_context (df_index_offset fs side) rows scene (ev_start_tx a)
           (int (length txs)) (ev_iot_reference_start_tx a) (ev_iot_reference_max_txs a) = Inr ctx)"
  shows "\<exists>r. evaluate lib ip gen fs model rdir a rng = Inr r"
  by (rule evaluation_returns [OF assms(2-13) [unfolded side_def]])

theorem evaluation_completes_witness:
  "\<exists>r. evaluate demo_eval_lib (\<lambda>_. False) demo_generators demo_eval_files demo_eval_model ''repo'' demo_eval_args () = Inr r"
proof -
  obtain tx where load: "load_iot_transactions (\<lambda>_. False) 0 [demo_raw, demo_raw] [] demo_eval_scenes 1 1 V2_IDENTITY = Inr [tx]"
    using demo_eval_load by blast
  obtain e0 where env: "make_env (eval_env_args demo_eval_args
      \<lparr>mechanism_version = ''legacy'', feature_mode = ''full'', scene_cost_mode = ''legacy''\<rparr>) = Inr e0"
    and mode: "known_reward_mode (env_params e0)" by (rule demo_eval_env)
  show ?thesis
    by (rule evaluation_completes [where txs = "[tx]" and scene = demo_eval_scenes and rows = "[demo_raw, demo_raw]"
          and header = "[]", OF demo_eval_settings(2) _ _ _ _ _ _ env mode _ demo_eval_ready])
       (use load demo_context demo_eval_columns in
         \<open>simp_all add: demo_eval_files_def demo_eval_scenes_def demo_eval_args_def V2_IDENTITY_def\<close>)
qed

end
