(* ===== verification/DecisionReport.thy ===== *)
theory DecisionReport
  imports JsonData IotMetrics
begin

text \<open>
  The report on the decisions of a run, \<open>analyze_decisions\<close> of \<open>analyze_block_eval.py\<close>. A decision
  record is the value of one line of \<open>decision_records.jsonl\<close>, or None where the line is not JSON.
  \<open>str_of\<close> is the text of a source that is not a string; the emulator writes strings.
\<close>

section \<open>Reading a record\<close>

text \<open>\<open>v or w\<close>.\<close>

definition py_or :: "pyval \<Rightarrow> pyval \<Rightarrow> pyval" where
  "py_or v w = (if truthy v then v else w)"

definition RELATION_EPS :: real where
  "RELATION_EPS = 1 / 10 ^ 12"

definition mask_positive :: "pyval \<Rightarrow> bool result" where
  "mask_positive v = bind_result (int_of (py_or v (VInt 0))) (\<lambda>i. return (i > 0))"

definition record_mask_size :: "dict \<Rightarrow> pyval \<Rightarrow> int result" where
  "record_mask_size rec raw_mask =
     (case as_list raw_mask of
        Some (v # vs) \<Rightarrow>
          bind_result (traverse mask_positive (v # vs)) (\<lambda>flags. return (int (length (filter id flags))))
      | _ \<Rightarrow> int_of (py_or (dict_get rec ''action_mask_count'' (VInt 0)) (VInt 0)))"

text \<open>\<open>len(state)\<close>, and the values of the slice for the related shards.\<close>

fun value_len :: "pyval \<Rightarrow> nat result" where
  "value_len (VList xs) = return (length xs)"
| "value_len (VStr s) = return (length s)"
| "value_len (VDict d) = return (length d)"
| "value_len _ = raise TypeError"

definition slice :: "nat \<Rightarrow> 'a list \<Rightarrow> 'a list" where
  "slice n xs = take n (drop (10 * n) xs)"

fun sender_slice :: "nat \<Rightarrow> pyval \<Rightarrow> pyval list result" where
  "sender_slice n (VList xs) = return (slice n xs)"
| "sender_slice n (VStr s) = return (map (\<lambda>c. VStr [c]) (slice n s))"
| "sender_slice n _ = raise TypeError"

definition record_sender_pos :: "int \<Rightarrow> dict \<Rightarrow> pyfloat list option result" where
  "record_sender_pos shards rec =
     (let state = py_or (dict_get rec ''state'' VNone) (VList []) in
      bind_result (value_len state) (\<lambda>len.
        if int len \<ge> 11 * shards
        then bind_result (sender_slice (nat shards) state) (\<lambda>vals.
             bind_result (traverse float_of vals) (\<lambda>sender_pos. return (Some sender_pos)))
        else return None))"

text \<open>\<open>max(range(shards), key=...)\<close>: the first shard whose value no later one exceeds.\<close>

definition first_max :: "pyfloat list \<Rightarrow> nat" where
  "first_max xs = fold (\<lambda>sid best. if xs ! best < xs ! sid then sid else best) [1..<length xs] 0"

definition exceeds :: "pyfloat \<Rightarrow> real \<Rightarrow> bool" where
  "exceeds x a \<longleftrightarrow> Fin a < x"

section \<open>The totals of the loop\<close>

record decision_totals =
  dt_count :: nat
  dt_action_hist :: "nat list"
  dt_confidence_sum :: pyfloat
  dt_entropy_sum :: pyfloat
  dt_source_hist :: "(string \<times> nat) list"
  dt_mask_size_hist :: "(int \<times> nat) list"
  dt_mask_size_sum :: real
  dt_mask_seen :: nat
  dt_sender_pos_nonzero :: nat
  dt_related_hist :: "nat list"
  dt_same_related :: "nat list"
  dt_selected_mass_count :: nat
  dt_selected_mass_sum :: pyfloat
  dt_identifiable_seen :: nat
  dt_major_in_mask :: nat
  dt_major_chosen :: nat
  dt_major_chosen_seen :: nat
  dt_all_related_in_mask :: nat
  dt_candidate_mass_sum :: pyfloat

definition empty_decisions :: "nat \<Rightarrow> decision_totals" where
  "empty_decisions n =
     \<lparr>dt_count = 0, dt_action_hist = replicate n 0, dt_confidence_sum = Fin 0, dt_entropy_sum = Fin 0,
      dt_source_hist = [], dt_mask_size_hist = [], dt_mask_size_sum = 0, dt_mask_seen = 0,
      dt_sender_pos_nonzero = 0, dt_related_hist = replicate n 0, dt_same_related = replicate n 0,
      dt_selected_mass_count = 0, dt_selected_mass_sum = Fin 0, dt_identifiable_seen = 0,
      dt_major_in_mask = 0, dt_major_chosen = 0, dt_major_chosen_seen = 0, dt_all_related_in_mask = 0,
      dt_candidate_mass_sum = Fin 0\<rparr>"

definition in_shards :: "int \<Rightarrow> int \<Rightarrow> bool" where
  "in_shards shards shard \<longleftrightarrow> 0 \<le> shard \<and> shard < shards"

text \<open>The first part of a turn: action, confidence, entropy and source.\<close>

definition count_action ::
  "(pyval \<Rightarrow> string) \<Rightarrow> int \<Rightarrow> int \<Rightarrow> dict \<Rightarrow> decision_totals \<Rightarrow> decision_totals result" where
  "count_action str_of shards shard rec t =
     bind_result (float_of (py_or (dict_get rec ''confidence'' (VFloat (Fin 0))) (VFloat (Fin 0)))) (\<lambda>confidence.
     bind_result (float_of (py_or (dict_get rec ''entropy'' (VFloat (Fin 0))) (VFloat (Fin 0)))) (\<lambda>entropy.
       let source = (case dict_get rec ''source'' (VStr ''unknown'') of VStr s \<Rightarrow> s | v \<Rightarrow> str_of v) in
       return
         (t\<lparr>dt_count := dt_count t + 1,
            dt_action_hist := (if in_shards shards shard then bump (nat shard) 1 (dt_action_hist t)
                               else dt_action_hist t),
            dt_confidence_sum := dt_confidence_sum t + confidence,
            dt_entropy_sum := dt_entropy_sum t + entropy,
            dt_source_hist := counter_add source 1 (dt_source_hist t)\<rparr>)))"

definition count_mask :: "int \<Rightarrow> decision_totals \<Rightarrow> decision_totals" where
  "count_mask mask_size t =
     (if mask_size > 0
      then t\<lparr>dt_mask_seen := dt_mask_seen t + 1,
             dt_mask_size_sum := dt_mask_size_sum t + real_of_int mask_size,
             dt_mask_size_hist := counter_add mask_size 1 (dt_mask_size_hist t)\<rparr>
      else t)"

text \<open>The relation of the chosen shard, and the diagnostics of a mask that covers all shards.\<close>

definition count_related :: "int \<Rightarrow> int \<Rightarrow> pyfloat list \<Rightarrow> decision_totals \<Rightarrow> decision_totals" where
  "count_related shards shard sender_pos t =
     (let related_shard = first_max sender_pos;
          follows = (shard = int related_shard);
          selected = (in_shards shards shard \<and> exceeds (sender_pos ! nat shard) RELATION_EPS)
      in t\<lparr>dt_sender_pos_nonzero := dt_sender_pos_nonzero t + 1,
           dt_related_hist := bump related_shard 1 (dt_related_hist t),
           dt_same_related := (if follows then bump related_shard 1 (dt_same_related t) else dt_same_related t),
           dt_selected_mass_count := dt_selected_mass_count t + of_bool selected,
           dt_selected_mass_sum := (if selected then dt_selected_mass_sum t + sender_pos ! nat shard
                                    else dt_selected_mass_sum t)\<rparr>)"

definition count_candidates :: "int \<Rightarrow> bool list \<Rightarrow> pyfloat list \<Rightarrow> decision_totals \<Rightarrow> decision_totals" where
  "count_candidates shard allowed sender_pos t =
     (let related_shard = first_max sender_pos;
          related_shards = filter (\<lambda>sid. exceeds (sender_pos ! sid) RELATION_EPS) [0..<length sender_pos];
          major_in_mask = allowed ! related_shard;
          total_mass = fsum sender_pos
      in t\<lparr>dt_identifiable_seen := dt_identifiable_seen t + 1,
           dt_major_in_mask := dt_major_in_mask t + of_bool major_in_mask,
           dt_major_chosen_seen := dt_major_chosen_seen t + of_bool major_in_mask,
           dt_major_chosen := dt_major_chosen t + of_bool (major_in_mask \<and> shard = int related_shard),
           dt_all_related_in_mask := dt_all_related_in_mask t +
             of_bool (related_shards \<noteq> [] \<and> list_all (\<lambda>sid. allowed ! sid) related_shards),
           dt_candidate_mass_sum :=
             (if exceeds total_mass RELATION_EPS
              then dt_candidate_mass_sum t +
                   fdiv (fsum (map (\<lambda>sid. sender_pos ! sid) (filter (\<lambda>sid. allowed ! sid) related_shards)))
                        total_mass
              else dt_candidate_mass_sum t)\<rparr>)"

text \<open>The part of a turn that needs a state with a relation to some shard.\<close>

definition relation_turn ::
  "int \<Rightarrow> int \<Rightarrow> pyval \<Rightarrow> pyfloat list option \<Rightarrow> decision_totals \<Rightarrow> decision_totals result" where
  "relation_turn shards shard raw_mask pos t =
     (case pos of
        None \<Rightarrow> return t
      | Some sender_pos \<Rightarrow>
          if \<not> list_ex (\<lambda>x. exceeds (fabs x) RELATION_EPS) sender_pos then return t
          else
            (let t = count_related shards shard sender_pos t in
             case as_list raw_mask of
               Some m \<Rightarrow>
                 if int (length m) \<ge> shards
                 then bind_result (traverse mask_positive (take (nat shards) m)) (\<lambda>allowed.
                        return (count_candidates shard allowed sender_pos t))
                 else return t
             | None \<Rightarrow> return t))"

definition decision_turn ::
  "(pyval \<Rightarrow> string) \<Rightarrow> int \<Rightarrow> pyval option \<Rightarrow> decision_totals \<Rightarrow> decision_totals result" where
  "decision_turn str_of shards line t =
     (case line of
        None \<Rightarrow> raise ValueError
      | Some v \<Rightarrow>
          bind_result (require_dict v) (\<lambda>rec.
          bind_result (int_of (dict_get rec ''shard'' (VInt (- 1)))) (\<lambda>shard.
          bind_result (count_action str_of shards shard rec t) (\<lambda>t.
          let raw_mask = py_or (dict_get rec ''action_mask'' VNone) (VList []) in
          bind_result (record_mask_size rec raw_mask) (\<lambda>mask_size.
          bind_result (record_sender_pos shards rec) (\<lambda>pos.
            relation_turn shards shard raw_mask pos (count_mask mask_size t)))))))"

section \<open>The report\<close>

text \<open>\<open>a / b if b else 0.0\<close>.\<close>

definition share :: "nat \<Rightarrow> nat \<Rightarrow> real" where
  "share a b = (if b \<noteq> 0 then real a / real b else 0)"

definition pshare :: "pyfloat \<Rightarrow> nat \<Rightarrow> pyfloat" where
  "pshare a b = (if b \<noteq> 0 then fdiv a (Fin (real b)) else Fin 0)"

definition hist_get :: "('k \<times> nat) list \<Rightarrow> 'k \<Rightarrow> nat" where
  "hist_get h k = (case map_of h k of None \<Rightarrow> 0 | Some v \<Rightarrow> v)"

definition hist_total :: "('k \<Rightarrow> bool) \<Rightarrow> ('k \<times> nat) list \<Rightarrow> nat" where
  "hist_total P h = sum_list (map snd (filter (P \<circ> fst) h))"

record decision_report =
  dr_decision_count :: nat
  dr_action_hist :: "nat list"
  dr_action_dist :: "real list"
  dr_confidence_mean :: pyfloat
  dr_entropy_mean :: pyfloat
  dr_source_hist :: "(string \<times> nat) list"
  dr_python_ppo_count :: nat
  dr_python_ppo_ratio :: real
  dr_fallback_count :: nat
  dr_fallback_ratio :: real
  dr_fallback_source_hist :: "(string \<times> nat) list"
  dr_candidate_only_count :: nat
  dr_candidate_only_ratio :: real
  dr_action_mask_seen :: nat
  dr_action_mask_seen_ratio :: real
  dr_action_mask_size_hist :: "(int \<times> nat) list"
  dr_action_mask_size_mean :: real
  dr_single_candidate_count :: nat
  dr_single_candidate_ratio :: real
  dr_multi_candidate_count :: nat
  dr_multi_candidate_ratio :: real
  dr_sender_pos_nonzero_ratio :: real
  dr_candidate_diagnostic_seen :: nat
  dr_candidate_diagnostic_seen_ratio :: real
  dr_major_anchor_coverage_count :: nat
  dr_major_anchor_coverage_ratio :: real
  dr_major_anchor_absent_ratio :: real
  dr_all_related_coverage_count :: nat
  dr_all_related_coverage_ratio :: real
  dr_related_mass_coverage_mean :: pyfloat
  dr_major_choice_count :: nat
  dr_major_choice_ratio :: real
  dr_major_not_chosen_ratio :: real
  dr_related_shard_hist :: "nat list"
  dr_same_related_by_shard :: "nat list"
  dr_related_follow_by_shard :: "real list"
  dr_major_related_follow_count :: nat
  dr_major_related_follow_ratio :: real
  dr_selected_related_mass_count :: nat
  dr_same_as_related_ratio :: real
  dr_chosen_related_mass_mean :: pyfloat
  dr_min_related_follow_ratio :: real

definition decision_view :: "decision_totals \<Rightarrow> decision_report" where
  "decision_view t =
     (let action_total = sum_list (dt_action_hist t);
          related_total = sum_list (dt_related_hist t);
          n = length (dt_related_hist t);
          follow = map (\<lambda>sid. share (dt_same_related t ! sid) (dt_related_hist t ! sid)) [0..<n];
          observed = map (\<lambda>sid. follow ! sid) (filter (\<lambda>sid. dt_related_hist t ! sid > 0) [0..<n]);
          single = hist_get (dt_mask_size_hist t) 1;
          multi = hist_total (\<lambda>size. size > 1) (dt_mask_size_hist t);
          ppo = hist_total (starts_with ''python_ppo'') (dt_source_hist t);
          fallback_hist = filter (\<lambda>(source, _). contains_str ''fallback'' (py_lower source)) (dt_source_hist t);
          fallback = sum_list (map snd fallback_hist);
          candidate_only = hist_get (dt_source_hist t) ''go_candidate_only''
      in \<lparr>dr_decision_count = dt_count t,
          dr_action_hist = dt_action_hist t,
          dr_action_dist = map (\<lambda>v. share v action_total) (dt_action_hist t),
          dr_confidence_mean = pshare (dt_confidence_sum t) (dt_count t),
          dr_entropy_mean = pshare (dt_entropy_sum t) (dt_count t),
          dr_source_hist = dt_source_hist t,
          dr_python_ppo_count = ppo,
          dr_python_ppo_ratio = share ppo (dt_count t),
          dr_fallback_count = fallback,
          dr_fallback_ratio = share fallback (dt_count t),
          dr_fallback_source_hist = fallback_hist,
          dr_candidate_only_count = candidate_only,
          dr_candidate_only_ratio = share candidate_only (dt_count t),
          dr_action_mask_seen = dt_mask_seen t,
          dr_action_mask_seen_ratio = share (dt_mask_seen t) (dt_count t),
          dr_action_mask_size_hist = sort_key fst (dt_mask_size_hist t),
          dr_action_mask_size_mean = (if dt_mask_seen t \<noteq> 0 then dt_mask_size_sum t / real (dt_mask_seen t) else 0),
          dr_single_candidate_count = single,
          dr_single_candidate_ratio = share single (dt_mask_seen t),
          dr_multi_candidate_count = multi,
          dr_multi_candidate_ratio = share multi (dt_mask_seen t),
          dr_sender_pos_nonzero_ratio = share (dt_sender_pos_nonzero t) (dt_count t),
          dr_candidate_diagnostic_seen = dt_identifiable_seen t,
          dr_candidate_diagnostic_seen_ratio = share (dt_identifiable_seen t) related_total,
          dr_major_anchor_coverage_count = dt_major_in_mask t,
          dr_major_anchor_coverage_ratio = share (dt_major_in_mask t) (dt_identifiable_seen t),
          dr_major_anchor_absent_ratio =
            (if dt_identifiable_seen t \<noteq> 0
             then (real (dt_identifiable_seen t) - real (dt_major_in_mask t)) / real (dt_identifiable_seen t)
             else 0),
          dr_all_related_coverage_count = dt_all_related_in_mask t,
          dr_all_related_coverage_ratio = share (dt_all_related_in_mask t) (dt_identifiable_seen t),
          dr_related_mass_coverage_mean = pshare (dt_candidate_mass_sum t) (dt_identifiable_seen t),
          dr_major_choice_count = dt_major_chosen t,
          dr_major_choice_ratio = share (dt_major_chosen t) (dt_major_chosen_seen t),
          dr_major_not_chosen_ratio =
            (if dt_major_chosen_seen t \<noteq> 0
             then (real (dt_major_chosen_seen t) - real (dt_major_chosen t)) / real (dt_major_chosen_seen t)
             else 0),
          dr_related_shard_hist = dt_related_hist t,
          dr_same_related_by_shard = dt_same_related t,
          dr_related_follow_by_shard = follow,
          dr_major_related_follow_count = sum_list (dt_same_related t),
          dr_major_related_follow_ratio = share (sum_list (dt_same_related t)) related_total,
          dr_selected_related_mass_count = dt_selected_mass_count t,
          dr_same_as_related_ratio = share (dt_selected_mass_count t) related_total,
          dr_chosen_related_mass_mean = pshare (dt_selected_mass_sum t) related_total,
          dr_min_related_follow_ratio = (if observed \<noteq> [] then list_min observed else 0)\<rparr>)"

text \<open>None stands for a missing directory or file, for which the source returns an empty report.\<close>

definition analyze_decisions ::
  "(pyval \<Rightarrow> string) \<Rightarrow> pyval option list option \<Rightarrow> int \<Rightarrow> decision_report option result" where
  "analyze_decisions str_of lines shards =
     (case lines of
        None \<Rightarrow> return None
      | Some ls \<Rightarrow>
          bind_result (fold_result (decision_turn str_of shards) ls (empty_decisions (nat shards))) (\<lambda>t.
            return (Some (decision_view t))))"

end
