(* ===== verification/BlockReport.thy ===== *)
theory BlockReport
  imports DecisionReport
begin

text \<open>
  The measurements of a chain run that \<open>analyze_block_eval.py\<close> takes from the CSV files of the
  supervisor: cells, epochs by their number, order statistics, the balance of the shard loads, the
  latencies of the transactions and the summary of a period. A row is a dictionary as in the
  sidecar theory; where the order of its columns matters it is the list of its items.
\<close>

section \<open>Cells\<close>

text \<open>\<open>row.get(name)\<close>; a missing column and a missing cell both give \<open>None\<close>.\<close>

definition get_cell :: "row \<Rightarrow> string \<Rightarrow> string option" where
  "get_cell row name = (case row name of Some v \<Rightarrow> v | None \<Rightarrow> None)"

definition as_float :: "string option \<Rightarrow> real option" where
  "as_float v =
     (case v of
        None \<Rightarrow> None
      | Some s \<Rightarrow> (case py_float s of Some (Fin x) \<Rightarrow> Some x | _ \<Rightarrow> None))"

text \<open>\<open>as_float(row.get(name)) or 0.0\<close>.\<close>

definition cell_or_zero :: "row \<Rightarrow> string \<Rightarrow> real" where
  "cell_or_zero row name = (case as_float (get_cell row name) of Some x \<Rightarrow> x | None \<Rightarrow> 0)"

definition cell_text :: "string option \<Rightarrow> string" where
  "cell_text v = (case v of Some s \<Rightarrow> s | None \<Rightarrow> ''None'')"

definition epoch_key :: "row \<Rightarrow> string" where
  "epoch_key row = (case row ''EpochID'' of None \<Rightarrow> [] | Some v \<Rightarrow> cell_text v)"

definition keyed_epochs :: "row list \<Rightarrow> (string \<rightharpoonup> row)" where
  "keyed_epochs rows = fold (\<lambda>row m. m(epoch_key row \<mapsto> row)) rows Map.empty"

definition total_tx :: "row \<Rightarrow> real" where
  "total_tx row = cell_or_zero row ''Total tx # in this epoch''"

definition normal_tx :: "row \<Rightarrow> real" where
  "normal_tx row = cell_or_zero row ''Normal tx # in this epoch''"

definition relay1_tx :: "row \<Rightarrow> real" where
  "relay1_tx row = cell_or_zero row ''Relay1 tx # in this epoch''"

definition relay2_tx :: "row \<Rightarrow> real" where
  "relay2_tx row = cell_or_zero row ''Relay2 tx # in this epoch''"

section \<open>Statistics\<close>

definition order_index :: "real \<Rightarrow> nat \<Rightarrow> nat" where
  "order_index q n = nat (min (max (\<lceil>q * real n\<rceil> - 1) 0) (int n - 1))"

definition percentile :: "real list \<Rightarrow> real \<Rightarrow> real" where
  "percentile vals q = (if vals = [] then 0 else sort vals ! order_index q (length vals))"

definition fmean :: "real list \<Rightarrow> real" where
  "fmean xs = sum_list xs / real (length xs)"

text \<open>\<open>statistics.mean(xs) if xs else 0.0\<close>, and the median likewise.\<close>

definition mean_or_zero :: "real list \<Rightarrow> real" where
  "mean_or_zero xs = (if xs \<noteq> [] then fmean xs else 0)"

definition median_or_zero :: "real list \<Rightarrow> real" where
  "median_or_zero xs =
     (if xs = [] then 0
      else let s = sort xs; n = length xs in
        if odd n then s ! (n div 2) else (s ! (n div 2 - 1) + s ! (n div 2)) / 2)"

definition pstdev :: "real list \<Rightarrow> real" where
  "pstdev xs = sqrt (sum_list (map (\<lambda>x. (x - fmean xs)\<^sup>2) xs) / real (length xs))"

section \<open>Load balance\<close>

definition load_column :: "nat \<Rightarrow> string" where
  "load_column sid = ''Shard_'' @ nat_to_string sid @ ''_Load''"

definition shard_load_values :: "row \<Rightarrow> int \<Rightarrow> real list" where
  "shard_load_values row shards =
     map (\<lambda>sid. case as_float (get_cell row (load_column sid)) of
                  Some v \<Rightarrow> if v \<ge> 0 then v else 0
                | None \<Rightarrow> 0) [0..<nat shards]"

definition jain_fairness :: "real list \<Rightarrow> real" where
  "jain_fairness vals =
     (if vals = [] then 0
      else let total = sum_list vals; sum_squares = sum_list (map (\<lambda>v. v * v) vals) in
        if total \<le> 0 \<or> sum_squares \<le> 0 then 0
        else total * total / (real (length vals) * sum_squares))"

definition load_cv :: "real list \<Rightarrow> real" where
  "load_cv vals =
     (if vals = [] then 0
      else if fmean vals \<le> 0 then 0
      else pstdev vals / fmean vals)"

record load_balance =
  lb_load_epoch_count :: nat
  lb_mean_max_shard_load_share :: real
  lb_p95_max_shard_load_share :: real
  lb_mean_active_shards :: real
  lb_min_active_shards :: real
  lb_mean_jain_fairness :: real
  lb_p05_jain_fairness :: real
  lb_mean_load_cv :: real
  lb_p95_load_cv :: real
  lb_aggregate_shard_loads :: "real list"
  lb_aggregate_max_shard_load_share :: real
  lb_aggregate_jain_fairness :: real

text \<open>The load vectors of the epochs that the loop does not skip.\<close>

definition epoch_loads :: "string list \<Rightarrow> (string \<rightharpoonup> row) \<Rightarrow> int \<Rightarrow> real list list" where
  "epoch_loads epoch_ids variance_by_epoch shards =
     filter (\<lambda>loads. \<not> sum_list loads \<le> 0)
       (map (\<lambda>row. shard_load_values row shards) (List.map_filter variance_by_epoch epoch_ids))"

definition add_vectors :: "'a::plus list \<Rightarrow> 'a list \<Rightarrow> 'a list" where
  "add_vectors loads acc = map2 (+) acc loads"

definition active_count :: "real list \<Rightarrow> real" where
  "active_count loads = real (length (filter (\<lambda>v. v > RELATION_EPS) loads))"

definition max_share :: "real list \<Rightarrow> real" where
  "max_share loads = list_max loads / sum_list loads"

definition summarize_load_balance :: "string list \<Rightarrow> (string \<rightharpoonup> row) \<Rightarrow> int \<Rightarrow> load_balance" where
  "summarize_load_balance epoch_ids variance_by_epoch shards =
     (let vectors = epoch_loads epoch_ids variance_by_epoch shards;
          max_shares = map max_share vectors;
          active_counts = map active_count vectors;
          fairness_values = map jain_fairness vectors;
          cv_values = map load_cv vectors;
          aggregate_loads = fold add_vectors vectors (replicate (nat shards) 0);
          aggregate_total = sum_list aggregate_loads
      in \<lparr>lb_load_epoch_count = length max_shares,
          lb_mean_max_shard_load_share = mean_or_zero max_shares,
          lb_p95_max_shard_load_share = percentile max_shares 0.95,
          lb_mean_active_shards = mean_or_zero active_counts,
          lb_min_active_shards = (if active_counts \<noteq> [] then list_min active_counts else 0),
          lb_mean_jain_fairness = mean_or_zero fairness_values,
          lb_p05_jain_fairness = percentile fairness_values 0.05,
          lb_mean_load_cv = mean_or_zero cv_values,
          lb_p95_load_cv = percentile cv_values 0.95,
          lb_aggregate_shard_loads = aggregate_loads,
          lb_aggregate_max_shard_load_share =
            (if aggregate_total > 0 then list_max aggregate_loads / aggregate_total else 0),
          lb_aggregate_jain_fairness = jain_fairness aggregate_loads\<rparr>)"

section \<open>Latencies of the transactions\<close>

type_synonym items = "(string \<times> string option) list"

definition hash_of_items :: "items \<Rightarrow> string" where
  "hash_of_items row =
     (case find (\<lambda>(key, _). key \<noteq> [] \<and> starts_with ''txhash'' (py_lower (py_strip key))) row of
        None \<Rightarrow> []
      | Some (_, raw) \<Rightarrow> py_strip (case raw of Some v \<Rightarrow> v | None \<Rightarrow> []))"

record latency_totals =
  lt_values_ms :: "real list"
  lt_row_count :: nat
  lt_seen :: "string list"
  lt_duplicates :: nat
  lt_missing :: nat

text \<open>One row; the set of hashes seen is the list of its members.\<close>

definition latency_row :: "items \<Rightarrow> latency_totals \<Rightarrow> latency_totals" where
  "latency_row row t =
     (let t = t\<lparr>lt_row_count := lt_row_count t + 1\<rparr>;
          tx_hash = hash_of_items row;
          t = (if tx_hash = [] then t\<lparr>lt_missing := lt_missing t + 1\<rparr>
               else if tx_hash \<in> set (lt_seen t) then t\<lparr>lt_duplicates := lt_duplicates t + 1\<rparr>
               else t\<lparr>lt_seen := tx_hash # lt_seen t\<rparr>)
      in (case as_float (get_cell (map_of row) ''Confirmed latency of this tx (ms)'') of
            Some v \<Rightarrow> if v \<ge> 0 then t\<lparr>lt_values_ms := lt_values_ms t @ [v]\<rparr> else t
          | None \<Rightarrow> t))"

record latency_times =
  lq_mean_sec :: real
  lq_p50_sec :: real
  lq_p95_sec :: real
  lq_p99_sec :: real
  lq_max_sec :: real

record latency_report =
  lr_row_count :: nat
  lr_valid_latency_count :: nat
  lr_invalid_latency_count :: nat
  lr_valid_latency_ratio :: real
  lr_unique_tx_hash_count :: nat
  lr_duplicate_tx_hash_count :: nat
  lr_missing_tx_hash_count :: nat
  lr_times :: "latency_times option"

definition latency_view :: "latency_totals \<Rightarrow> latency_report" where
  "latency_view t =
     (let ordered = sort (lt_values_ms t); n = length ordered;
          ordered_percentile = (\<lambda>q. ordered ! order_index q n / 1000)
      in \<lparr>lr_row_count = lt_row_count t,
          lr_valid_latency_count = n,
          lr_invalid_latency_count = lt_row_count t - n,
          lr_valid_latency_ratio = share n (lt_row_count t),
          lr_unique_tx_hash_count = length (lt_seen t),
          lr_duplicate_tx_hash_count = lt_duplicates t,
          lr_missing_tx_hash_count = lt_missing t,
          lr_times =
            (if ordered = [] then None
             else Some \<lparr>lq_mean_sec = fmean ordered / 1000, lq_p50_sec = ordered_percentile 0.5,
               lq_p95_sec = ordered_percentile 0.95, lq_p99_sec = ordered_percentile 0.99,
               lq_max_sec = last ordered / 1000\<rparr>)\<rparr>)"

definition analyze_tx_latency_details :: "items list option \<Rightarrow> latency_report option" where
  "analyze_tx_latency_details details =
     (case details of
        None \<Rightarrow> None
      | Some rows \<Rightarrow>
          Some (latency_view
            (fold latency_row rows
               \<lparr>lt_values_ms = [], lt_row_count = 0, lt_seen = [], lt_duplicates = 0, lt_missing = 0\<rparr>)))"

section \<open>One period\<close>

record period_detail =
  pd_first_epoch :: int
  pd_last_epoch :: int
  pd_normal_total :: real
  pd_relay1_total :: real
  pd_relay2_total :: real
  pd_cross_total :: real
  pd_weighted_cross_ratio :: real
  pd_avg_confirm_latency_sec :: real
  pd_wall_tps :: real
  pd_mean_epoch_tps :: real
  pd_median_epoch_tps :: real
  pd_p05_epoch_tps :: real
  pd_p95_epoch_tps :: real
  pd_mean_load_variance :: real
  pd_median_load_variance :: real
  pd_p95_load_variance :: real
  pd_load_balance :: load_balance

text \<open>The entries after the first three exist only when the period has rows.\<close>

record period =
  pe_name :: string
  pe_epoch_count :: nat
  pe_effective_total :: real
  pe_detail :: "period_detail option"

definition row_epoch_id :: "row \<Rightarrow> string result" where
  "row_epoch_id row = (case row ''EpochID'' of None \<Rightarrow> raise KeyError | Some v \<Rightarrow> return (cell_text v))"

text \<open>The values of a column of the epochs that a file has.\<close>

definition epoch_cells :: "(string \<rightharpoonup> row) \<Rightarrow> string list \<Rightarrow> string \<Rightarrow> real option list" where
  "epoch_cells by_epoch epoch_ids name =
     map (\<lambda>row. as_float (get_cell row name)) (List.map_filter by_epoch epoch_ids)"

definition sum_cells :: "(string \<rightharpoonup> row) \<Rightarrow> string list \<Rightarrow> string \<Rightarrow> real" where
  "sum_cells by_epoch epoch_ids name =
     sum_list (map (\<lambda>v. case v of Some x \<Rightarrow> x | None \<Rightarrow> 0) (epoch_cells by_epoch epoch_ids name))"

definition known_cells :: "(real \<Rightarrow> bool) \<Rightarrow> (string \<rightharpoonup> row) \<Rightarrow> string list \<Rightarrow> string \<Rightarrow> real list" where
  "known_cells P by_epoch epoch_ids name =
     filter P (List.map_filter id (epoch_cells by_epoch epoch_ids name))"

definition epoch_number :: "string \<Rightarrow> int result" where
  "epoch_number s = (case py_int 10 s of None \<Rightarrow> raise ValueError | Some i \<Rightarrow> return i)"

definition summarize_period ::
  "string \<Rightarrow> row list \<Rightarrow> (string \<rightharpoonup> row) \<Rightarrow> (string \<rightharpoonup> row) \<Rightarrow> (string \<rightharpoonup> row) \<Rightarrow> (string \<rightharpoonup> row) \<Rightarrow>
   int \<Rightarrow> pyfloat \<Rightarrow> period result" where
  "summarize_period name rows cross_by_epoch tps_by_epoch latency_by_epoch variance_by_epoch shards max_epoch_tps =
     (if rows = [] then
        return \<lparr>pe_name = name, pe_epoch_count = 0, pe_effective_total = 0, pe_detail = None\<rparr>
      else
        bind_result (traverse row_epoch_id rows) (\<lambda>epoch_ids.
        let effective_total = sum_list (map total_tx rows);
            cross_total = sum_cells cross_by_epoch epoch_ids ''CTX # in this epoch'';
            latency_total_sec = sum_cells latency_by_epoch epoch_ids ''Sum of All Tx TCL (sec.)'';
            start_times = known_cells (\<lambda>v. v > 0) tps_by_epoch epoch_ids ''Epoch start time'';
            end_times = known_cells (\<lambda>v. v > 0) tps_by_epoch epoch_ids ''Epoch end time'';
            wall_seconds = (if start_times \<noteq> [] \<and> end_times \<noteq> []
                            then (list_max end_times - list_min start_times) / 1000 else 0);
            tps_values = known_cells (\<lambda>v. 0 \<le> v \<and> Fin v \<le> max_epoch_tps) tps_by_epoch epoch_ids
                           ''Avg. TPS of this epoch'';
            variance_values = known_cells (\<lambda>_. True) variance_by_epoch epoch_ids ''ShardLoadVariance'';
            load_balance = summarize_load_balance epoch_ids variance_by_epoch shards
        in bind_result (epoch_number (hd epoch_ids)) (\<lambda>first_epoch.
           bind_result (epoch_number (last epoch_ids)) (\<lambda>last_epoch.
             return
               \<lparr>pe_name = name, pe_epoch_count = length rows, pe_effective_total = effective_total,
                pe_detail = Some
                  \<lparr>pd_first_epoch = first_epoch, pd_last_epoch = last_epoch,
                   pd_normal_total = sum_list (map normal_tx rows),
                   pd_relay1_total = sum_list (map relay1_tx rows),
                   pd_relay2_total = sum_list (map relay2_tx rows),
                   pd_cross_total = cross_total,
                   pd_weighted_cross_ratio = (if effective_total > 0 then cross_total / effective_total else 0),
                   pd_avg_confirm_latency_sec =
                     (if effective_total > 0 then latency_total_sec / effective_total else 0),
                   pd_wall_tps = (if wall_seconds > 0 then effective_total / wall_seconds else 0),
                   pd_mean_epoch_tps = mean_or_zero tps_values,
                   pd_median_epoch_tps = median_or_zero tps_values,
                   pd_p05_epoch_tps = percentile tps_values 0.05,
                   pd_p95_epoch_tps = percentile tps_values 0.95,
                   pd_mean_load_variance = mean_or_zero variance_values,
                   pd_median_load_variance = median_or_zero variance_values,
                   pd_p95_load_variance = percentile variance_values 0.95,
                   pd_load_balance = load_balance\<rparr>\<rparr>))))"

end
