(* ===== verification/RunLog.thy ===== *)
theory RunLog
  imports BlockReport
begin

text \<open>
  What \<open>analyze_block_eval.py\<close> reads from the text log of a run: the placement of the transactions
  that the supervisor sent (\<open>analyze_send_log\<close>) and the pace of the injection
  (\<open>analyze_injection_pace\<close>). The log is the list of its lines. The two regular expressions are
  sequences of literals, lazy gaps \<open>.*?\<close> and captured greedy runs of a class of characters, matched
  with backtracking as the library does.
\<close>

section \<open>Patterns\<close>

datatype piece =
    Lit string
  | Gap
  | Capture "bool" "char \<Rightarrow> bool"

text \<open>
  \<open>Capture True cls\<close> is \<open>(-?cls+)\<close> and \<open>Capture False cls\<close> is \<open>(cls+)\<close>. The runs of a class from the
  longest to the shortest, as pairs of the run and the rest.
\<close>

definition runs :: "(char \<Rightarrow> bool) \<Rightarrow> string \<Rightarrow> (string \<times> string) list" where
  "runs cls s = map (\<lambda>k. (take k s, drop k s)) (rev [1..<Suc (length (takeWhile cls s))])"

definition captures :: "bool \<Rightarrow> (char \<Rightarrow> bool) \<Rightarrow> string \<Rightarrow> (string \<times> string) list" where
  "captures neg cls s =
     (case s of
        c # cs \<Rightarrow> if neg \<and> c = CHR ''-'' then map (\<lambda>(r, rest). (c # r, rest)) (runs cls cs) @ runs cls s
                  else runs cls s
      | [] \<Rightarrow> [])"

text \<open>All the places where the rest of a pattern may start after a lazy gap, nearest first.\<close>

fun gap_rests :: "string \<Rightarrow> string list" where
  "gap_rests [] = [[]]"
| "gap_rests (c # cs) = (c # cs) # (if of_char c = (10 :: nat) then [] else gap_rests cs)"

fun first_some :: "('a \<Rightarrow> 'b option) \<Rightarrow> 'a list \<Rightarrow> 'b option" where
  "first_some f [] = None"
| "first_some f (x # xs) = (case f x of Some y \<Rightarrow> Some y | None \<Rightarrow> first_some f xs)"

text \<open>The groups of a match at the start of the text.\<close>

fun match_at :: "piece list \<Rightarrow> string \<Rightarrow> string list option" where
  "match_at [] s = Some []"
| "match_at (Lit l # ps) s = (if starts_with l s then match_at ps (drop (length l) s) else None)"
| "match_at (Gap # ps) s = first_some (match_at ps) (gap_rests s)"
| "match_at (Capture neg cls # ps) s =
     first_some (\<lambda>(r, rest). map_option ((#) r) (match_at ps rest)) (captures neg cls s)"

fun suffixes :: "string \<Rightarrow> string list" where
  "suffixes [] = [[]]"
| "suffixes (c # cs) = (c # cs) # suffixes cs"

definition pattern_search :: "piece list \<Rightarrow> string \<Rightarrow> string list option" where
  "pattern_search ps s = first_some (match_at ps) (suffixes s)"

definition is_digit_char :: "char \<Rightarrow> bool" where
  "is_digit_char c \<longleftrightarrow> (48 :: nat) \<le> of_char c \<and> of_char c \<le> (57 :: nat)"

definition is_decimal_char :: "char \<Rightarrow> bool" where
  "is_decimal_char c \<longleftrightarrow> is_digit_char c \<or> c = CHR ''.''"

definition is_count_char :: "char \<Rightarrow> bool" where
  "is_count_char c \<longleftrightarrow> is_digit_char c \<or> c = CHR '' ''"

section \<open>The send log\<close>

definition SEND_PATTERN :: "piece list" where
  "SEND_PATTERN =
     [Lit ''[SPRING SEND]'', Gap, Lit ''nowData='', Capture False is_digit_char, Gap,
      Lit ''counts=['', Capture False is_count_char, Lit '']'']"

text \<open>\<open>text.split()\<close> for a text of digits and blanks.\<close>

definition split_blanks :: "string \<Rightarrow> string list" where
  "split_blanks s = filter (\<lambda>w. w \<noteq> []) (split_on (CHR '' '') s)"

definition parse_count :: "string \<Rightarrow> int result" where
  "parse_count w = (case py_int 10 w of None \<Rightarrow> raise ValueError | Some i \<Rightarrow> return i)"

definition send_counts :: "int \<Rightarrow> string \<Rightarrow> int list option result" where
  "send_counts shards line =
     (case pattern_search SEND_PATTERN line of
        Some [now_data, counts_text] \<Rightarrow>
          bind_result (traverse parse_count (split_blanks counts_text)) (\<lambda>counts.
            return (if int (length counts) = shards then Some counts else None))
      | _ \<Rightarrow> return None)"

record send_report =
  sr_send_batch_count :: nat
  sr_tx_placement_totals :: "int list"
  sr_tx_placement_dist :: "real list"
  sr_mean_batch_max_share :: real
  sr_p95_batch_max_share :: real
  sr_extreme_batch_count_ge_0_8 :: nat

definition int_share :: "int \<Rightarrow> int \<Rightarrow> real" where
  "int_share a b = (if b \<noteq> 0 then real_of_int a / real_of_int b else 0)"

definition send_view :: "int \<Rightarrow> int list list \<Rightarrow> send_report" where
  "send_view shards rows =
     (let totals = fold add_vectors rows (replicate (nat shards) 0);
          max_shares = map (\<lambda>counts. int_share (list_max counts) (sum_list counts))
                         (filter (\<lambda>counts. sum_list counts > 0) rows);
          total_all = sum_list totals
      in \<lparr>sr_send_batch_count = length rows, sr_tx_placement_totals = totals,
          sr_tx_placement_dist = map (\<lambda>v. int_share v total_all) totals,
          sr_mean_batch_max_share = mean_or_zero max_shares,
          sr_p95_batch_max_share = percentile max_shares 0.95,
          sr_extreme_batch_count_ge_0_8 = length (filter (\<lambda>v. v \<ge> 0.8) max_shares)\<rparr>)"

definition analyze_send_log :: "string list option \<Rightarrow> int \<Rightarrow> send_report option result" where
  "analyze_send_log log_lines shards =
     (case log_lines of
        None \<Rightarrow> return None
      | Some ls \<Rightarrow>
          bind_result (traverse (send_counts shards) ls) (\<lambda>found.
            return (Some (send_view shards (List.map_filter id found)))))"

section \<open>The injection pace\<close>

definition PACE_PATTERN :: "piece list" where
  "PACE_PATTERN =
     [Lit ''[INJECTION PACE]'', Gap, Lit ''batchTx='', Capture False is_digit_char, Gap,
      Lit ''cumulativeTx='', Capture False is_digit_char, Gap,
      Lit ''targetTPS='', Capture False is_digit_char, Gap,
      Lit ''elapsedSec='', Capture False is_decimal_char, Gap,
      Lit ''actualOfferedTPS='', Capture False is_decimal_char, Gap,
      Lit ''scheduleLagMs='', Capture True is_decimal_char]"

record pace_row =
  pr_batch_tx :: pyfloat
  pr_cumulative_tx :: pyfloat
  pr_target_tps :: pyfloat
  pr_elapsed_sec :: pyfloat
  pr_actual_offered_tps :: pyfloat
  pr_schedule_lag_ms :: pyfloat

definition parse_float :: "string \<Rightarrow> pyfloat result" where
  "parse_float s = (case py_float s of None \<Rightarrow> raise ValueError | Some x \<Rightarrow> return x)"

definition pace_of_line :: "string \<Rightarrow> pace_row option result" where
  "pace_of_line line =
     (case pattern_search PACE_PATTERN line of
        None \<Rightarrow> return None
      | Some groups \<Rightarrow>
          bind_result (traverse parse_float groups) (\<lambda>vs.
            return (Some \<lparr>pr_batch_tx = vs ! 0, pr_cumulative_tx = vs ! 1, pr_target_tps = vs ! 2,
              pr_elapsed_sec = vs ! 3, pr_actual_offered_tps = vs ! 4, pr_schedule_lag_ms = vs ! 5\<rparr>)))"

record pace_report =
  pp_pace_record_count :: nat
  pp_final_cumulative_tx :: int
  pp_target_tps :: pyfloat
  pp_elapsed_sec :: pyfloat
  pp_actual_offered_tps :: pyfloat
  pp_attainment_ratio :: pyfloat
  pp_final_schedule_lag_ms :: pyfloat
  pp_max_abs_schedule_lag_ms :: pyfloat

definition pmax_list :: "pyfloat list \<Rightarrow> pyfloat" where
  "pmax_list xs = fold (\<lambda>x best. if best < x then x else best) (tl xs) (hd xs)"

definition analyze_injection_pace :: "string list option \<Rightarrow> pace_report option result" where
  "analyze_injection_pace log_lines =
     (case log_lines of
        None \<Rightarrow> return None
      | Some ls \<Rightarrow>
          bind_result (traverse pace_of_line ls) (\<lambda>found.
          let rows = List.map_filter id found in
          if rows = [] then return None
          else
            (let final = last rows in
             bind_result (int_of (VFloat (pr_cumulative_tx final))) (\<lambda>cumulative.
               return (Some
                 \<lparr>pp_pace_record_count = length rows, pp_final_cumulative_tx = cumulative,
                  pp_target_tps = pr_target_tps final, pp_elapsed_sec = pr_elapsed_sec final,
                  pp_actual_offered_tps = pr_actual_offered_tps final,
                  pp_attainment_ratio =
                    (if Fin 0 < pr_target_tps final
                     then fdiv (pr_actual_offered_tps final) (pr_target_tps final) else Fin 0),
                  pp_final_schedule_lag_ms = pr_schedule_lag_ms final,
                  pp_max_abs_schedule_lag_ms = pmax_list (map (fabs \<circ> pr_schedule_lag_ms) rows)\<rparr>)))))"

end
