(* ===== verification/BlockAnalysis.thy ===== *)
theory BlockAnalysis
  imports RunLog Evaluation
begin

text \<open>
  The entry of \<open>analyze_block_eval.py\<close> and \<open>chain_context\<close> of \<open>iot_metrics.py\<close>, which it calls for
  the measurements of a run with real accounts. \<open>run_files\<close> holds what the files of a run contain:
  the rows of the CSV files (None where a file is missing), the lines of the decisions and of the
  log, and the parsed configuration.
\<close>

record block_args =
  ba_shards :: int
  ba_min_effective_tx :: pyfloat
  ba_max_epoch_tps :: pyfloat
  ba_spring_io_path :: string
  ba_log :: string
  ba_iot_run_dir :: string
  ba_iot_dataset_dir :: string
  ba_iot_tx_metadata :: string
  ba_iot_reference_start_tx :: int
  ba_iot_reference_max_txs :: int

record run_files =
  rf_tx :: "row list option"
  rf_cross :: "row list option"
  rf_tps :: "row list option"
  rf_latency :: "row list option"
  rf_variance :: "row list option"
  rf_details :: "items list option"
  rf_decisions :: "pyval option list option"
  rf_log :: "string list option"
  rf_config :: "pyval option"
  rf_metadata :: "string \<Rightarrow> row list option"
  rf_data :: data_files

section \<open>The window of a chain run\<close>

definition read_file :: "'a option \<Rightarrow> 'a result" where
  "read_file f = (case f of None \<Rightarrow> raise FileNotFoundError | Some x \<Rightarrow> return x)"

definition dict_item :: "dict \<Rightarrow> string \<Rightarrow> pyval result" where
  "dict_item d key = (case map_of d key of None \<Rightarrow> raise KeyError | Some v \<Rightarrow> return v)"

text \<open>\<open>Path(value)\<close> needs a text.\<close>

definition path_of :: "pyval \<Rightarrow> string result" where
  "path_of v = (case v of VStr s \<Rightarrow> return s | _ \<Rightarrow> raise TypeError)"

definition window_paths :: "string \<Rightarrow> dict \<Rightarrow> (string \<times> string) result" where
  "window_paths directory config =
     (if directory \<noteq> []
      then return (directory @ ''/selectedTxs_iot_v2.csv'', directory @ ''/transaction_scene.csv'')
      else
        bind_result (bind_result (dict_item config ''DatasetFile'') path_of) (\<lambda>chain.
        bind_result (bind_result (dict_item config ''SpringIOTSidecarFile'') path_of) (\<lambda>sidecar.
          return (chain, sidecar))))"

text \<open>The first test of \<open>evaluation_context\<close>, made before a file is opened.\<close>

definition reference_before :: "block_args \<Rightarrow> int \<Rightarrow> bool" where
  "reference_before a start \<longleftrightarrow>
     0 \<le> ba_iot_reference_start_tx a \<and> 0 < ba_iot_reference_max_txs a \<and>
     ba_iot_reference_start_tx a + ba_iot_reference_max_txs a \<le> start"

definition chain_context :: "run_files \<Rightarrow> block_args \<Rightarrow> (scene list \<times> metric_manifest) result" where
  "chain_context fs a =
     bind_result (read_file (rf_config fs)) (\<lambda>v.
     bind_result (require_dict v) (\<lambda>config.
       if \<not> py_eq (dict_get config ''SpringIOTIdentityMode'' VNone) (VInt 2) \<or>
          \<not> py_eq (dict_get config ''SpringIOTMode'' VNone) (VInt 1) then raise ValueError
       else
         bind_result (window_paths (ba_iot_dataset_dir a) config) (\<lambda>(chain, sidecar).
         bind_result (bind_result (dict_item config ''DatasetStartTx'') int_of) (\<lambda>start.
         bind_result (bind_result (dict_item config ''TotalDataSize'') int_of) (\<lambda>count.
         bind_result (check (reference_before a start) ValueError) (\<lambda>_.
         bind_result (read_file (df_csv (rf_data fs) chain)) (\<lambda>chain_rows.
         bind_result (read_file (df_sidecar (rf_data fs) sidecar)) (\<lambda>(_, scene_rows).
           evaluation_context (df_index_offset (rf_data fs) sidecar) chain_rows scene_rows start count
             (ba_iot_reference_start_tx a) (ba_iot_reference_max_txs a)))))))))"

section \<open>The analysis\<close>

record periods =
  ps_all_active :: period
  ps_main_injection :: period
  ps_capacity_like :: period

record block_result =
  br_shards :: int
  br_periods :: periods
  br_decisions :: "decision_report option"
  br_send_log :: "send_report option"
  br_injection_pace :: "pace_report option"
  br_latency_details :: "latency_report option"
  br_iot_metrics :: "chain_report option"

definition analyze_periods :: "run_files \<Rightarrow> block_args \<Rightarrow> periods result" where
  "analyze_periods fs a =
     bind_result (read_file (rf_tx fs)) (\<lambda>tx_rows.
     bind_result (read_file (rf_cross fs)) (\<lambda>cross_rows.
     bind_result (read_file (rf_tps fs)) (\<lambda>tps_rows.
     bind_result (read_file (rf_latency fs)) (\<lambda>latency_rows.
     bind_result (read_file (rf_variance fs)) (\<lambda>variance_rows.
     let active_rows = filter (\<lambda>row. total_tx row > 0) tx_rows;
         injection_rows = filter (\<lambda>row. total_tx row > 0 \<and> normal_tx row > 0) tx_rows;
         capacity_rows = filter (\<lambda>row. ba_min_effective_tx a \<le> Fin (total_tx row)) tx_rows;
         summarize = (\<lambda>name rows. summarize_period name rows (keyed_epochs cross_rows) (keyed_epochs tps_rows)
                        (keyed_epochs latency_rows) (keyed_epochs variance_rows) (ba_shards a) (ba_max_epoch_tps a))
     in bind_result (summarize ''all_active'' active_rows) (\<lambda>all_active.
        bind_result (summarize ''main_injection'' injection_rows) (\<lambda>main_injection.
        bind_result (summarize ''capacity_like'' capacity_rows) (\<lambda>capacity_like.
          return \<lparr>ps_all_active = all_active, ps_main_injection = main_injection,
            ps_capacity_like = capacity_like\<rparr>))))))))"

text \<open>
  The totals of the transactions against the totals of the epochs. The second comparison, only
  made when the first one passes, needs the entry that an empty period does not have.
\<close>

definition check_totals :: "period \<Rightarrow> totals_view \<Rightarrow> unit result" where
  "check_totals chain iot =
     (if \<bar>pe_effective_total chain - real (tv_count iot)\<bar> > 1 / 10 ^ 6 then raise ValueError
      else
        (case pe_detail chain of
           None \<Rightarrow> raise KeyError
         | Some d \<Rightarrow> check (\<not> \<bar>pd_cross_total d - real (tv_cross_count iot)\<bar> > 1 / 10 ^ 6) ValueError))"

definition analyze_iot :: "run_files \<Rightarrow> block_args \<Rightarrow> periods \<Rightarrow> chain_report option result" where
  "analyze_iot fs a ps =
     (if ba_iot_run_dir a = [] then return None
      else
        bind_result (chain_context fs a) (\<lambda>(scenes, manifest).
        bind_result (read_file (rf_details fs)) (\<lambda>details.
        bind_result (if ba_iot_tx_metadata a = [] then return None
                     else bind_result (read_file (rf_metadata fs (ba_iot_tx_metadata a))) (\<lambda>m. return (Some m)))
          (\<lambda>meta.
        bind_result (analyze_chain_details (map map_of details) scenes manifest (nat (ba_shards a)) meta) (\<lambda>iot.
        bind_result (check_totals (ps_all_active ps) (cp_groups iot AllTx)) (\<lambda>_.
          return (Some iot)))))))"

definition analyze :: "(pyval \<Rightarrow> string) \<Rightarrow> run_files \<Rightarrow> block_args \<Rightarrow> block_result result" where
  "analyze str_of fs a =
     (if (ba_iot_tx_metadata a \<noteq> [] \<or> ba_iot_dataset_dir a \<noteq> []) \<and> ba_iot_run_dir a = []
      then raise ValueError
      else
        bind_result (analyze_periods fs a) (\<lambda>ps.
        bind_result (if ba_spring_io_path a \<noteq> []
                     then analyze_decisions str_of (rf_decisions fs) (ba_shards a) else return None) (\<lambda>decisions.
        bind_result (if ba_log a \<noteq> [] then analyze_send_log (rf_log fs) (ba_shards a) else return None) (\<lambda>send_log.
        bind_result (if ba_log a \<noteq> [] then analyze_injection_pace (rf_log fs) else return None) (\<lambda>pace.
        bind_result (analyze_iot fs a ps) (\<lambda>iot.
          return \<lparr>br_shards = ba_shards a, br_periods = ps, br_decisions = decisions,
            br_send_log = send_log, br_injection_pace = pace,
            br_latency_details = analyze_tx_latency_details (rf_details fs),
            br_iot_metrics = iot\<rparr>))))))"

end
