(* ===== verification/BlockFacts.thy ===== *)
theory BlockFacts
  imports BlockReport PolicyTheorems LibraryFacts
begin

text \<open>
  Facts on the statistics of a block run: order statistics, averages, the totals of the latency
  rows and the balance of loads.
\<close>

section \<open>Order statistics and averages\<close>

lemma order_index_less: "0 < n \<Longrightarrow> order_index q n < n"
  by (auto simp: order_index_def)

lemma order_index_mono: "p \<le> q \<Longrightarrow> order_index p n \<le> order_index q n"
  unfolding order_index_def
  by (intro nat_mono min.mono max.mono diff_mono ceiling_mono mult_right_mono) auto

lemma sort_nth_mono:
  "i \<le> j \<Longrightarrow> j < length xs \<Longrightarrow> sort xs ! i \<le> sort (xs :: real list) ! j"
  by (simp add: sorted_nth_mono)

lemma percentile_in: "xs \<noteq> [] \<Longrightarrow> percentile xs q \<in> set xs"
  using nth_mem [of "order_index q (length xs)" "sort xs"] order_index_less [of "length xs" q]
  by (simp add: percentile_def)

lemma percentile_mono:
  assumes "p \<le> q"
  shows "percentile xs p \<le> percentile xs q"
  using sort_nth_mono [OF order_index_mono [OF assms], of "length xs" xs] order_index_less [of "length xs" q]
  by (simp add: percentile_def)

lemma sum_list_bounds:
  assumes "\<forall>x\<in>set xs. a \<le> x \<and> x \<le> (b :: real)"
  shows "a * length xs \<le> sum_list xs" "sum_list xs \<le> b * length xs"
  using assms by (induction xs) (auto simp: algebra_simps)

lemma fmean_bounds:
  assumes "\<forall>x\<in>set xs. a \<le> x \<and> x \<le> b" and "xs \<noteq> []"
  shows "a \<le> fmean xs \<and> fmean xs \<le> b"
  using sum_list_bounds [OF assms(1)] assms(2) by (simp add: fmean_def field_simps)

lemma statistics_bounds [bound_intros]:
  assumes "\<forall>x\<in>set xs. a \<le> x \<and> x \<le> b" and "xs \<noteq> []"
  shows "a \<le> mean_or_zero xs \<and> mean_or_zero xs \<le> b" and "a \<le> percentile xs q \<and> percentile xs q \<le> b"
  using fmean_bounds [OF assms] percentile_in [OF assms(2), of q] assms by (simp_all add: mean_or_zero_def)

section \<open>Latencies\<close>

text \<open>What the loop over the rows has counted after the rows \<open>rows\<close>.\<close>

definition valid_latencies :: "items list \<Rightarrow> real list" where
  "valid_latencies rows =
     filter (\<lambda>v. v \<ge> 0)
       (List.map_filter (\<lambda>row. as_float (get_cell (map_of row) ''Confirmed latency of this tx (ms)'')) rows)"

definition latency_totals_of :: "items list \<Rightarrow> latency_totals" where
  "latency_totals_of rows = fold latency_row rows
     \<lparr>lt_values_ms = [], lt_row_count = 0, lt_seen = [], lt_duplicates = 0, lt_missing = 0\<rparr>"

lemma latency_row_fields:
  "lt_row_count (latency_row row t) = Suc (lt_row_count t)"
  "lt_values_ms (latency_row row t) = lt_values_ms t @ valid_latencies [row]"
  "lt_seen (latency_row row t) =
     (if hash_of_items row = [] \<or> hash_of_items row \<in> set (lt_seen t) then lt_seen t else hash_of_items row # lt_seen t)"
  "lt_missing (latency_row row t) = lt_missing t + of_bool (hash_of_items row = [])"
  "lt_duplicates (latency_row row t) =
     lt_duplicates t + of_bool (hash_of_items row \<noteq> [] \<and> hash_of_items row \<in> set (lt_seen t))"
  by (auto simp: latency_row_def Let_def valid_latencies_def List.map_filter_def split: option.splits)

lemma valid_latencies_append: "valid_latencies (rows @ rows') = valid_latencies rows @ valid_latencies rows'"
  by (simp add: valid_latencies_def map_filter_def)

lemma latency_totals_spec:
  fixes rows
  defines "t \<equiv> latency_totals_of rows"
  shows "lt_row_count t = length rows \<and> lt_values_ms t = valid_latencies rows \<and>
    distinct (lt_seen t) \<and> set (lt_seen t) = hash_of_items ` set rows - {[]} \<and>
    lt_missing t = length (filter (\<lambda>r. hash_of_items r = []) rows) \<and>
    length (lt_seen t) + lt_duplicates t + lt_missing t = length rows"
  unfolding t_def
proof (induction rows rule: rev_induct)
  case Nil
  then show ?case by (simp add: latency_totals_of_def valid_latencies_def map_filter_def)
next
  case (snoc row rows)
  have "latency_totals_of (rows @ [row]) = latency_row row (latency_totals_of rows)"
    by (simp add: latency_totals_of_def)
  then show ?case using snoc.IH by (auto simp: latency_row_fields valid_latencies_append)
qed

lemma valid_latencies_length: "length (valid_latencies rows) \<le> length rows"
proof (induction rows)
  case (Cons row rows)
  have "length (valid_latencies [row]) \<le> 1"
    by (auto simp: valid_latencies_def List.map_filter_def split: option.splits)
  then show ?case using Cons valid_latencies_append [of "[row]" rows] by simp
qed (simp add: valid_latencies_def map_filter_def)

section \<open>Load balance\<close>

text \<open>
  The fairness, the dispersion and the largest share of one vector are those of
  \<open>load_statistics\<close> in \<open>mechanism.py\<close>.
\<close>

lemma load_measures:
  assumes "\<forall>x\<in>set xs. 0 \<le> x" and "0 < sum_list xs"
  shows "\<exists>r. load_statistics (map Fin xs) = Inr r \<and> ls_loads r = xs \<and>
     ls_jain_fairness r = Some (jain_fairness xs) \<and> ls_max_share r = Some (max_share xs) \<and>
     ls_normalized_variance r = Some ((load_cv xs)\<^sup>2)"
proof -
  have ne: "xs \<noteq> []" using assms(2) by auto
  have "\<not> sum_list (map (\<lambda>v. v * v) xs) \<le> 0"
  proof
    assume "sum_list (map (\<lambda>v. v * v) xs) \<le> 0"
    moreover have "(sum_list xs)\<^sup>2 \<le> length xs * sum_list (map (\<lambda>v. v * v) xs)"
      using cauchy_list [of xs] by (simp add: power2_eq_square)
    ultimately have "(sum_list xs)\<^sup>2 \<le> 0"
      by (meson mult_nonneg_nonpos of_nat_0_le_iff order_trans)
    then show False using assms(2) by simp
  qed
  moreover have "map (fin_val \<circ> Fin) xs = xs" by (simp add: map_idI)
  moreover have "list_all (\<lambda>v. is_finite v \<and> \<not> v < Fin 0) (map Fin xs)"
    using assms(1) by (auto simp: list_all_iff not_less)
  moreover have "0 < sum_list xs / length xs" using assms(2) ne by simp
  moreover have "(load_cv xs)\<^sup>2 =
      sum_list (map (\<lambda>v. (v - sum_list xs / length xs)\<^sup>2) xs) / length xs /
      (sum_list xs / length xs * (sum_list xs / length xs))"
  proof -
    have "0 \<le> sum_list (map (\<lambda>v. (v - sum_list xs / length xs)\<^sup>2) xs) / length xs"
      by (intro divide_nonneg_nonneg sum_list_nonneg) auto
    note root = real_sqrt_pow2 [OF this]
    have mean: "\<not> sum_list xs / length xs \<le> 0" using assms(2) ne by (simp add: not_le)
    have "load_cv xs = sqrt (sum_list (map (\<lambda>v. (v - sum_list xs / length xs)\<^sup>2) xs) / length xs) /
        (sum_list xs / length xs)"
      unfolding load_cv_def pstdev_def fmean_def if_not_P [OF mean] if_not_P [OF ne] ..
    then show ?thesis unfolding power2_eq_square [symmetric] by (simp only: power_divide [of "sqrt _"] root)
  qed
  ultimately show ?thesis
    using assms(2) ne by (simp add: load_statistics_def jain_fairness_def max_share_def Let_def not_le)
qed

lemma load_measures_bounds:
  assumes "\<forall>x\<in>set xs. 0 \<le> x" and "0 < sum_list xs"
  shows "1 / length xs \<le> jain_fairness xs" "jain_fairness xs \<le> 1"
    and "1 / length xs \<le> max_share xs" "max_share xs \<le> 1"
    and "(load_cv xs)\<^sup>2 = 1 / jain_fairness xs - 1"
proof -
  obtain r where r: "load_statistics (map Fin xs) = Inr r" "ls_loads r = xs"
    "ls_jain_fairness r = Some (jain_fairness xs)" "ls_max_share r = Some (max_share xs)"
    "ls_normalized_variance r = Some ((load_cv xs)\<^sup>2)"
    using load_measures [OF assms] by blast
  note spec = load_statistics_spec [of "map Fin xs", unfolded r(1), simplified, unfolded r]
  show "1 / length xs \<le> jain_fairness xs" "jain_fairness xs \<le> 1"
    "1 / length xs \<le> max_share xs" "max_share xs \<le> 1" "(load_cv xs)\<^sup>2 = 1 / jain_fairness xs - 1"
    using spec assms(2) by (auto split: if_splits)
qed

lemma shard_load_values_nonneg: "\<forall>x\<in>set (shard_load_values row shards). 0 \<le> x"
  by (auto simp: shard_load_values_def split: option.splits)

lemma epoch_loads_vector:
  assumes "loads \<in> set (epoch_loads ids by_epoch shards)"
  shows "\<forall>x\<in>set loads. 0 \<le> x" and "0 < sum_list loads" and "length loads = nat shards"
  using assms shard_load_values_nonneg
  by (fastforce simp: epoch_loads_def shard_load_values_def not_le)+

lemma active_count_bounds:
  "0 \<le> active_count loads \<and> active_count loads \<le> length loads"
  by (simp add: active_count_def)

text \<open>The aggregate of the vectors, shard by shard.\<close>

lemma sum_add_vectors:
  fixes v :: "'a::comm_monoid_add list"
  shows "length v = length acc \<Longrightarrow> sum_list (add_vectors v acc) = sum_list acc + sum_list v"
  unfolding add_vectors_def by (induction v acc rule: list_induct2) (simp_all add: ac_simps)

lemma fold_add_vectors:
  fixes acc :: "'a::comm_monoid_add list"
  assumes "\<forall>v\<in>set vectors. length v = length acc"
  shows "length (fold add_vectors vectors acc) = length acc \<and>
     (\<forall>i<length acc. fold add_vectors vectors acc ! i = acc ! i + (\<Sum>v\<leftarrow>vectors. v ! i)) \<and>
     sum_list (fold add_vectors vectors acc) = sum_list acc + sum_list (map sum_list vectors)"
  using assms
proof (induction vectors arbitrary: acc)
  case (Cons v vectors)
  have "length (add_vectors v acc) = length acc" using Cons.prems by (simp add: add_vectors_def)
  then show ?case
    using Cons.IH [of "add_vectors v acc"] Cons.prems sum_add_vectors [of v acc] by (simp add: add_vectors_def ac_simps)
qed simp

end
