(* ===== verification/LogFacts.thy ===== *)
theory LogFacts
  imports RunLog LibraryFacts TrainTheorems
begin

text \<open>
  Reading the log of a run: the lines that the supervisor writes (\<open>committee_relay.go\<close>) match the
  patterns of the analysis, and give back the numbers that were printed.
\<close>

section \<open>The matcher\<close>

lemma starts_with_append [simp]: "starts_with l (l @ rest)"
  by (induction l) simp_all

lemma starts_with_iff: "starts_with l s \<longleftrightarrow> (\<exists>rest. s = l @ rest)"
proof (induction l s rule: starts_with.induct)
  case (3 p ps c cs)
  then show ?case by auto
qed auto

lemma match_literal: "match_at (Lit l # ps) (l @ rest) = match_at ps rest"
  by simp

text \<open>A lazy gap skips a text that does not contain the first character of the next literal.\<close>

lemma match_gap:
  assumes "match_at (Lit (c # l) # ps) rest = Some g" and "list_all (\<lambda>d. d \<noteq> c \<and> of_char d \<noteq> (10 :: nat)) mid"
  shows "match_at (Gap # Lit (c # l) # ps) (mid @ rest) = Some g"
  using assms(2)
proof (induction mid)
  case Nil
  then show ?case using assms(1) by (cases rest) simp_all
next
  case (Cons d mid)
  then show ?case by auto
qed

text \<open>A greedy run takes everything up to the first character outside its class.\<close>

lemma match_capture:
  assumes "match_at ps rest = Some g" and "list_all cls r" and "r \<noteq> []"
    and "rest = [] \<or> \<not> cls (hd rest)" and "\<not> neg \<or> hd r \<noteq> CHR ''-''"
  shows "match_at (Capture neg cls # ps) (r @ rest) = Some (r # g)"
proof -
  have "takeWhile cls (r @ rest) = r"
    using assms(2,4) by (cases rest) (auto simp: takeWhile_append list_all_iff)
  then have runs: "runs cls (r @ rest) = (r, rest) # map (\<lambda>k. (take k (r @ rest), drop k (r @ rest))) (rev [1..<length r])"
    using assms(3) by (cases r) (auto simp: runs_def)
  have "captures neg cls (r @ rest) = runs cls (r @ rest)"
    using assms(3,5) by (cases r) (auto simp: captures_def)
  then show ?thesis using assms(1) runs by simp
qed

text \<open>The search finds a pattern after a text without the first character of the pattern.\<close>

lemma pattern_search_skip:
  assumes "match_at (Lit (c # l) # ps) rest = Some g" and "c \<notin> set pre"
  shows "pattern_search (Lit (c # l) # ps) (pre @ rest) = Some g"
  using assms(2)
proof (induction pre)
  case Nil
  then show ?case using assms(1) by (cases rest) (simp_all add: pattern_search_def)
next
  case (Cons d pre)
  then show ?case by (simp add: pattern_search_def)
qed

lemma pattern_search_none: "\<not> contains_str l s \<Longrightarrow> pattern_search (Lit l # ps) s = None"
proof (induction s)
  case Nil
  then show ?case by (cases l) (simp_all add: pattern_search_def)
next
  case (Cons c s)
  then show ?case by (simp add: pattern_search_def)
qed

section \<open>Numbers\<close>

lemma digits_of_nat: "list_all is_digit_char (nat_to_string n)"
  using nat_to_string_digits [of n] by (simp add: is_digit_char_def [abs_def])

lemma digit_char_cases:
  assumes "is_digit_char c"
  shows "\<not> is_space c" and "c \<noteq> CHR ''-''" and "c \<noteq> CHR ''+''" and "c \<noteq> CHR '' ''"
  using assms by (auto simp: is_digit_char_def is_space_def Let_def)

lemma strip_none: "s \<noteq> [] \<Longrightarrow> \<not> p (hd s) \<Longrightarrow> \<not> p (last s) \<Longrightarrow> strip_by p s = s"
proof -
  assume s: "s \<noteq> []" "\<not> p (hd s)" "\<not> p (last s)"
  have "dropWhile p s = s" using s by (cases s) auto
  moreover have "dropWhile p (rev s) = rev s"
    using s by (cases "rev s") (auto simp: last_rev hd_rev [symmetric])
  ultimately show "strip_by p s = s" by (simp add: strip_by_def)
qed

lemma strip_digits: "list_all is_digit_char s \<Longrightarrow> py_strip s = s"
proof (cases "s = []")
  case False
  assume "list_all is_digit_char s"
  then show ?thesis
    unfolding py_strip_def using False digit_char_cases(1)
    by (intro strip_none) (auto simp: list_all_iff)
qed (simp add: py_strip_def strip_by_def)

lemma py_int_nat: "py_int 10 (nat_to_string n) = Some (int n)"
proof -
  obtain c cs where c: "nat_to_string n = c # cs" using nat_to_string_nonempty [of n] by (cases "nat_to_string n") auto
  then have "is_digit_char c" using digits_of_nat [of n] by simp
  then have "split_sign (py_strip (nat_to_string n)) = (False, nat_to_string n)"
    unfolding strip_digits [OF digits_of_nat] using c digit_char_cases by simp
  then show ?thesis by (simp add: py_int_def drop_base_prefix_def parse_nat_to_string)
qed

section \<open>Words\<close>

lemma split_on_word: "sep \<notin> set w \<Longrightarrow> split_on sep (w @ sep # s) = w # split_on sep s"
  by (induction w) auto

lemma split_on_single: "sep \<notin> set w \<Longrightarrow> split_on sep w = [w]"
  by (induction w) auto

lemma split_blanks_join:
  assumes "\<forall>w\<in>set ws. w \<noteq> [] \<and> CHR '' '' \<notin> set w"
  shows "split_blanks (join_with '' '' ws) = ws"
  using assms
proof (induction ws rule: induct_list012)
  case (3 w v ws)
  then show ?case using split_on_word [of "CHR '' ''" w "join_with '' '' (v # ws)"] by (simp add: split_blanks_def)
qed (simp_all add: split_blanks_def split_on_single)

lemma join_list_all:
  "list_all (list_all P) ws \<Longrightarrow> P (CHR '' '') \<Longrightarrow> list_all P (join_with '' '' ws)"
  by (induction ws rule: induct_list012) simp_all

lemma join_nonempty: "ws \<noteq> [] \<Longrightarrow> hd ws \<noteq> [] \<Longrightarrow> join_with sep ws \<noteq> []"
  by (induction ws rule: induct_list012) auto

lemma member_le_sum_list_int: "\<forall>x\<in>set xs. 0 \<le> x \<Longrightarrow> y \<in> set xs \<Longrightarrow> y \<le> sum_list (xs :: int list)"
proof (induction xs)
  case (Cons x xs)
  then show ?case using sum_list_nonneg [of xs] by fastforce
qed simp

section \<open>The lines of the supervisor\<close>

text \<open>The line of one sent batch, after the prefix of the logger.\<close>

definition send_line :: "nat \<Rightarrow> nat \<Rightarrow> nat \<Rightarrow> nat list \<Rightarrow> nat \<Rightarrow> string" where
  "send_line now_data txlist_len idx counts placement_size =
     ''[SPRING SEND] nowData='' @ nat_to_string now_data @ '' txlistLen='' @ nat_to_string txlist_len @
     '' idx='' @ nat_to_string idx @ '' counts=['' @ join_with '' '' (map nat_to_string counts) @
     ''] placementSize='' @ nat_to_string placement_size"

lemma digits_without: "\<not> is_digit_char c \<Longrightarrow> c \<notin> set (nat_to_string n)"
  using digits_of_nat [of n] by (auto simp: list_all_iff)

lemma digits_plain: "\<not> is_digit_char c \<Longrightarrow> list_all (\<lambda>d. d \<noteq> c \<and> of_char d \<noteq> (10 :: nat)) (nat_to_string n)"
  using digits_of_nat [of n] by (auto simp: list_all_iff is_digit_char_def)

lemma send_line_match:
  assumes "counts \<noteq> []"
  shows "match_at SEND_PATTERN (send_line a b i counts k) =
     Some [nat_to_string a, join_with '' '' (map nat_to_string counts)]"
proof -
  let ?cs = "join_with '' '' (map nat_to_string counts)"
  have "list_all (list_all is_count_char) (map nat_to_string counts)"
    using digits_of_nat by (simp add: list_all_iff is_count_char_def)
  then have cs: "list_all is_count_char ?cs" by (rule join_list_all) (simp add: is_count_char_def)
  have ne: "?cs \<noteq> []" using assms nat_to_string_nonempty by (intro join_nonempty) (simp_all add: hd_map)
  have "match_at [Capture False is_count_char, Lit '']''] (?cs @ ''] placementSize='' @ nat_to_string k) = Some [?cs]"
    using cs ne by (intro match_capture) (simp_all add: is_count_char_def is_digit_char_def)
  then have "match_at [Lit ''counts=['', Capture False is_count_char, Lit '']'']
      (''counts=['' @ ?cs @ ''] placementSize='' @ nat_to_string k) = Some [?cs]"
    by (simp only: match_literal)
  from match_gap [OF this, of "'' txlistLen='' @ nat_to_string b @ '' idx='' @ nat_to_string i @ '' ''"]
  have "match_at [Gap, Lit ''counts=['', Capture False is_count_char, Lit '']'']
      ('' txlistLen='' @ nat_to_string b @ '' idx='' @ nat_to_string i @ '' counts=['' @ ?cs @ ''] placementSize='' @ nat_to_string k)
      = Some [?cs]"
    by (simp add: digits_plain is_digit_char_def)
  then have "match_at [Capture False is_digit_char, Gap, Lit ''counts=['', Capture False is_count_char, Lit '']'']
      (nat_to_string a @ '' txlistLen='' @ nat_to_string b @ '' idx='' @ nat_to_string i @ '' counts=['' @ ?cs @
       ''] placementSize='' @ nat_to_string k) = Some [nat_to_string a, ?cs]"
    using digits_of_nat nat_to_string_nonempty by (intro match_capture) (simp_all add: is_digit_char_def)
  then have "match_at [Lit ''nowData='', Capture False is_digit_char, Gap, Lit ''counts=['', Capture False is_count_char, Lit '']'']
      (''nowData='' @ nat_to_string a @ '' txlistLen='' @ nat_to_string b @ '' idx='' @ nat_to_string i @ '' counts=['' @ ?cs @
       ''] placementSize='' @ nat_to_string k) = Some [nat_to_string a, ?cs]"
    by (simp only: match_literal)
  from match_gap [OF this, of "'' ''"] show ?thesis
    unfolding SEND_PATTERN_def send_line_def
    using match_literal [of "''[SPRING SEND]''" _ "'' nowData='' @ nat_to_string a @ '' txlistLen='' @ nat_to_string b @
       '' idx='' @ nat_to_string i @ '' counts=['' @ ?cs @ ''] placementSize='' @ nat_to_string k"] by simp
qed

lemma send_counts_line:
  assumes "counts \<noteq> []" and "CHR ''['' \<notin> set pre"
  shows "send_counts shards (pre @ send_line a b i counts k) =
     Inr (if int (length counts) = shards then Some (map int counts) else None)"
proof -
  have "pattern_search SEND_PATTERN (pre @ send_line a b i counts k) =
      Some [nat_to_string a, join_with '' '' (map nat_to_string counts)]"
    using send_line_match [OF assms(1), of a b i k] pattern_search_skip [OF _ assms(2)]
    unfolding SEND_PATTERN_def by blast
  moreover have "split_blanks (join_with '' '' (map nat_to_string counts)) = map nat_to_string counts"
    using nat_to_string_nonempty digits_without [of "CHR '' ''"]
    by (intro split_blanks_join) (auto simp: is_digit_char_def)
  moreover have "traverse parse_count (map nat_to_string cs) = Inr (map int cs)" for cs
    by (induction cs) (simp_all add: parse_count_def py_int_nat)
  ultimately show ?thesis by (simp add: send_counts_def)
qed

text \<open>A log: other lines, without the mark of a sent batch, and the lines of sent batches.\<close>

datatype log_entry =
    OtherLine string
  | Sent string nat nat nat "nat list" nat

fun entry_line :: "log_entry \<Rightarrow> string" where
  "entry_line (OtherLine s) = s"
| "entry_line (Sent pre a b i counts k) = pre @ send_line a b i counts k"

fun line_ok :: "nat \<Rightarrow> log_entry \<Rightarrow> bool" where
  "line_ok n (OtherLine s) = (\<not> contains_str ''[SPRING SEND]'' s)"
| "line_ok n (Sent pre a b i counts k) = (CHR ''['' \<notin> set pre \<and> length counts = n)"

fun sent_counts :: "log_entry list \<Rightarrow> nat list list" where
  "sent_counts [] = []"
| "sent_counts (OtherLine s # es) = sent_counts es"
| "sent_counts (Sent pre a b i counts k # es) = counts # sent_counts es"

lemma read_log:
  assumes "list_all (line_ok n) es" and "0 < n"
  shows "analyze_send_log (Some (map entry_line es)) (int n) =
     Inr (Some (send_view (int n) (map (map int) (sent_counts es))))"
proof -
  have "\<exists>found. traverse (send_counts (int n)) (map entry_line es) = Inr found \<and>
      List.map_filter (\<lambda>x. x) found = map (map int) (sent_counts es)"
    using assms(1)
  proof (induction es)
    case (Cons en es)
    then obtain found where IH: "traverse (send_counts (int n)) (map entry_line es) = Inr found"
      "List.map_filter (\<lambda>x. x) found = map (map int) (sent_counts es)" by auto
    show ?case
    proof (cases en)
      case (OtherLine s)
      then have "send_counts (int n) (entry_line en) = Inr None"
        using Cons.prems pattern_search_none [of "''[SPRING SEND]''" s] by (simp add: send_counts_def SEND_PATTERN_def)
      then show ?thesis using IH OtherLine by (simp add: map_filter_def)
    next
      case (Sent pre a b i counts k)
      then have "send_counts (int n) (entry_line en) = Inr (Some (map int counts))"
        using Cons.prems assms(2) send_counts_line [of counts pre "int n"] by auto
      then show ?thesis using IH Sent by (simp add: map_filter_def)
    qed
  qed (simp add: map_filter_def)
  then show ?thesis by (auto simp: analyze_send_log_def id_def)
qed

end
