(* ===== verification/DecisionFacts.thy ===== *)
theory DecisionFacts
  imports DecisionReport LibraryFacts
begin

text \<open>
  The invariant of the loop over the decision records, kept by each part of a turn, and what it
  implies for the report.
\<close>

section \<open>Histograms and shares\<close>

lemma share_bounds: "a \<le> b \<Longrightarrow> 0 \<le> share a b \<and> share a b \<le> 1"
  by (simp add: share_def)

lemma sum_shares: "sum_list (map (\<lambda>v. share v (sum_list h)) h) = of_bool (sum_list h \<noteq> 0)"
proof (cases "sum_list h = 0")
  case True
  then show ?thesis by (simp add: share_def)
next
  case False
  have "sum_list (map (\<lambda>v. real v / c) h) = real (sum_list h) / c" for c
    by (induction h) (simp_all add: add_divide_distrib)
  then show ?thesis using False by (simp add: share_def)
qed

lemma hist_total_le: "hist_total P h \<le> sum_list (map snd h)"
  by (induction h) (auto simp: hist_total_def)

lemma filter_sum_le: "sum_list (map snd (filter P h)) \<le> (sum_list (map snd h) :: nat)"
  by (induction h) auto

lemma hist_get_le: "hist_get h k \<le> sum_list (map snd h)"
  by (induction h) (auto simp: hist_get_def)

lemma hist_split:
  assumes "distinct (map fst h)" and "\<forall>k\<in>fst ` set h. 1 \<le> (k :: int)"
  shows "hist_get h 1 + hist_total (\<lambda>k. k > 1) h = sum_list (map snd h)"
  using assms
proof (induction h)
  case (Cons kv h)
  obtain k v where kv: "kv = (k, v)" by (cases kv)
  have "hist_get h k = 0" if "k = 1"
    using Cons.prems(1) kv by (simp add: hist_get_def map_of_eq_None_iff [THEN iffD2])
  then show ?case using Cons kv by (auto simp: hist_get_def hist_total_def split: option.splits)
qed (simp add: hist_get_def hist_total_def)

lemma counter_add_fst: "fst ` set (counter_add k d c) = insert k (fst ` set c)"
  using arg_cong [OF counter_add_keys [of k d c], of set] by (auto split: if_splits)

lemma counter_add_ge:
  assumes "\<forall>x\<in>set c. m \<le> fst x" and "m \<le> k"
  shows "\<forall>x\<in>set (counter_add k d c). m \<le> fst x"
  using assms by (induction c) (fastforce split: if_splits)+

lemma counter_add_distinct: "distinct (map fst c) \<Longrightarrow> distinct (map fst (counter_add k d c))"
  by (simp add: counter_add_keys)

lemma first_max_less: "xs \<noteq> [] \<Longrightarrow> first_max xs < length xs"
proof -
  assume "xs \<noteq> []"
  have "fold (\<lambda>sid best. if xs ! best < xs ! sid then sid else best) ids b < length xs"
    if "b < length xs" "set ids \<subseteq> {..<length xs}" for ids b
    using that by (induction ids arbitrary: b) auto
  from this [of 0 "[1..<length xs]"] show ?thesis using \<open>xs \<noteq> []\<close> by (simp add: first_max_def subset_eq)
qed

lemma record_sender_pos_length:
  assumes "record_sender_pos shards rec = Inr (Some pos)"
  shows "length pos = nat shards"
proof -
  define state where "state = py_or (dict_get rec ''state'' VNone) (VList [])"
  obtain len vals where len: "value_len state = Inr len" "11 * shards \<le> int len"
    and vals: "sender_slice (nat shards) state = Inr vals" "traverse float_of vals = Inr pos"
    using assms unfolding record_sender_pos_def Let_def state_def
    by (auto simp: result_simps split: if_splits)
  have "length vals = nat shards"
    using len vals(1) by (cases state) (auto simp: slice_def)
  then show ?thesis using traverse_length [OF vals(2)] by simp
qed

section \<open>The invariant of the loop\<close>

definition decisions_ok :: "nat \<Rightarrow> decision_totals \<Rightarrow> bool" where
  "decisions_ok n t \<longleftrightarrow>
     length (dt_action_hist t) = n \<and> length (dt_related_hist t) = n \<and> length (dt_same_related t) = n \<and>
     sum_list (dt_action_hist t) \<le> dt_count t \<and>
     sum_list (map snd (dt_source_hist t)) = dt_count t \<and> distinct (map fst (dt_source_hist t)) \<and>
     sum_list (map snd (dt_mask_size_hist t)) = dt_mask_seen t \<and> distinct (map fst (dt_mask_size_hist t)) \<and>
     (\<forall>k\<in>fst ` set (dt_mask_size_hist t). 1 \<le> k) \<and> dt_mask_seen t \<le> dt_count t \<and>
     sum_list (dt_related_hist t) = dt_sender_pos_nonzero t \<and> dt_sender_pos_nonzero t \<le> dt_count t \<and>
     (\<forall>i<n. dt_same_related t ! i \<le> dt_related_hist t ! i) \<and>
     dt_selected_mass_count t \<le> dt_sender_pos_nonzero t \<and>
     dt_identifiable_seen t \<le> dt_sender_pos_nonzero t \<and>
     dt_major_in_mask t \<le> dt_identifiable_seen t \<and> dt_major_chosen_seen t = dt_major_in_mask t \<and>
     dt_major_chosen t \<le> dt_major_chosen_seen t \<and> dt_all_related_in_mask t \<le> dt_identifiable_seen t"

lemma decisions_ok_empty: "decisions_ok n (empty_decisions n)"
  by (simp add: decisions_ok_def empty_decisions_def)

lemma dt_count_empty: "dt_count (empty_decisions n) = 0"
  by (simp add: empty_decisions_def)

lemma count_action_ok:
  assumes "decisions_ok (nat shards) t" and "count_action str_of shards shard rec t = Inr t'"
  shows "decisions_ok (nat shards) t' \<and> dt_mask_seen t' < dt_count t' \<and> dt_sender_pos_nonzero t' < dt_count t' \<and>
     dt_count t' = Suc (dt_count t)"
  using assms
  by (auto simp: count_action_def decisions_ok_def result_simps Let_def in_shards_def sum_counter_add
      counter_add_distinct)

lemma count_mask_ok:
  assumes "decisions_ok n t" and "dt_mask_seen t < dt_count t"
  shows "decisions_ok n (count_mask m t) \<and>
     dt_sender_pos_nonzero (count_mask m t) = dt_sender_pos_nonzero t \<and> dt_count (count_mask m t) = dt_count t"
proof (cases "0 < m")
  case True
  have "\<forall>x\<in>set (counter_add m (1 :: nat) (dt_mask_size_hist t)). 1 \<le> fst x"
    using assms(1) True by (intro counter_add_ge) (auto simp: decisions_ok_def)
  then show ?thesis
    using True assms by (simp add: count_mask_def decisions_ok_def sum_counter_add counter_add_distinct)
next
  case False
  then show ?thesis using assms by (simp add: count_mask_def)
qed

lemma count_related_ok:
  assumes "decisions_ok n t" and "dt_sender_pos_nonzero t < dt_count t"
    and "length pos = n" and "pos \<noteq> []"
  shows "decisions_ok n (count_related shards shard pos t) \<and>
     dt_identifiable_seen (count_related shards shard pos t) < dt_sender_pos_nonzero (count_related shards shard pos t)"
  using assms first_max_less [OF assms(4)]
  by (auto simp: count_related_def decisions_ok_def Let_def nth_bump)

lemma count_candidates_ok:
  assumes "decisions_ok n t" and "dt_identifiable_seen t < dt_sender_pos_nonzero t"
  shows "decisions_ok n (count_candidates shard allowed pos t)"
  using assms by (auto simp: count_candidates_def decisions_ok_def Let_def)

lemma dt_count_later:
  "dt_count (count_related shards shard pos t) = dt_count t"
  "dt_count (count_candidates shard allowed pos t) = dt_count t"
  by (simp_all add: count_related_def count_candidates_def Let_def)

lemma decision_turn_ok:
  assumes ok: "decisions_ok (nat shards) t" and turn: "decision_turn str_of shards line t = Inr t'"
  shows "decisions_ok (nat shards) t' \<and> dt_count t' = Suc (dt_count t)"
proof -
  obtain v rec shard t1 m pos where
    t1: "count_action str_of shards shard rec t = Inr t1"
    and pos: "record_sender_pos shards rec = Inr pos"
    and rest: "relation_turn shards shard (py_or (dict_get rec ''action_mask'' VNone) (VList [])) pos
                 (count_mask m t1) = Inr t'"
    using turn by (clarsimp simp: decision_turn_def Let_def result_simps split: option.splits)
  note ok1 = count_action_ok [OF ok t1]
  have ok2: "decisions_ok (nat shards) (count_mask m t1)"
    "dt_sender_pos_nonzero (count_mask m t1) < dt_count (count_mask m t1)"
    using ok1 count_mask_ok [of "nat shards" t1 m] by auto
  have count: "dt_count (count_mask m t1) = Suc (dt_count t)"
    using ok1 count_mask_ok [of "nat shards" t1 m] by simp
  show ?thesis
  proof (cases "\<exists>sp. pos = Some sp \<and> list_ex (\<lambda>x. exceeds (fabs x) RELATION_EPS) sp")
    case True
    then obtain sp where sp: "pos = Some sp" "list_ex (\<lambda>x. exceeds (fabs x) RELATION_EPS) sp" by blast
    then have "sp \<noteq> []" by (cases sp) simp_all
    note ok3 = count_related_ok [OF ok2 record_sender_pos_length [OF pos [unfolded sp(1)]] \<open>sp \<noteq> []\<close>, of shards shard]
    have "t' = count_related shards shard sp (count_mask m t1) \<or>
      (\<exists>allowed. t' = count_candidates shard allowed sp (count_related shards shard sp (count_mask m t1)))"
      using rest sp by (auto simp: relation_turn_def result_simps Let_def split: option.splits if_splits)
    then show ?thesis
      using ok3 count_candidates_ok [of "nat shards" "count_related shards shard sp (count_mask m t1)"] count
      by (elim disjE exE) (simp_all add: dt_count_later)
  next
    case False
    then have "t' = count_mask m t1" using rest by (auto simp: relation_turn_def split: option.splits if_splits)
    then show ?thesis using ok2 count by simp
  qed
qed

lemma decisions_fold_ok:
  assumes "fold_result (decision_turn str_of shards) ls (empty_decisions (nat shards)) = Inr t"
  shows "decisions_ok (nat shards) t \<and> dt_count t = length ls"
  using assms
  by (rule fold_result_inv [where P = "\<lambda>ys t. decisions_ok (nat shards) t \<and> dt_count t = length ys"])
    (auto simp: decisions_ok_empty dt_count_empty dest: decision_turn_ok)

section \<open>The report\<close>

text \<open>
  What the invariant gives for a report. The shares of one count in another are within the unit
  interval, and complementary counts add up.
\<close>

definition report_consistent :: "nat \<Rightarrow> nat \<Rightarrow> decision_report \<Rightarrow> bool" where
  "report_consistent records n r \<longleftrightarrow>
     dr_decision_count r = records \<and> length (dr_action_hist r) = n \<and>
     sum_list (map snd (dr_source_hist r)) = records \<and>
     sum_list (dr_action_hist r) \<le> records \<and>
     sum_list (dr_action_dist r) = of_bool (sum_list (dr_action_hist r) \<noteq> 0) \<and>
     dr_single_candidate_count r + dr_multi_candidate_count r = dr_action_mask_seen r \<and>
     dr_action_mask_seen r \<le> records \<and>
     dr_major_choice_count r \<le> dr_major_anchor_coverage_count r \<and>
     dr_major_anchor_coverage_count r \<le> dr_candidate_diagnostic_seen r \<and>
     dr_all_related_coverage_count r \<le> dr_candidate_diagnostic_seen r \<and>
     dr_candidate_diagnostic_seen r \<le> sum_list (dr_related_shard_hist r) \<and>
     dr_selected_related_mass_count r \<le> sum_list (dr_related_shard_hist r) \<and>
     dr_major_related_follow_count r \<le> sum_list (dr_related_shard_hist r) \<and>
     sum_list (dr_related_shard_hist r) \<le> records \<and>
     dr_major_anchor_coverage_ratio r + dr_major_anchor_absent_ratio r =
       of_bool (dr_candidate_diagnostic_seen r \<noteq> 0) \<and>
     dr_major_choice_ratio r + dr_major_not_chosen_ratio r =
       of_bool (dr_major_anchor_coverage_count r \<noteq> 0) \<and>
     (\<forall>x\<in>set ([dr_python_ppo_ratio r, dr_fallback_ratio r, dr_candidate_only_ratio r,
         dr_action_mask_seen_ratio r, dr_single_candidate_ratio r, dr_multi_candidate_ratio r,
         dr_sender_pos_nonzero_ratio r, dr_candidate_diagnostic_seen_ratio r,
         dr_major_anchor_coverage_ratio r, dr_all_related_coverage_ratio r, dr_major_choice_ratio r,
         dr_major_related_follow_ratio r, dr_same_as_related_ratio r, dr_min_related_follow_ratio r] @
         dr_related_follow_by_shard r). 0 \<le> x \<and> x \<le> 1)"

lemma sum_list_le_pointwise:
  "length xs = length ys \<Longrightarrow> \<forall>i<length xs. xs ! i \<le> ys ! i \<Longrightarrow> sum_list xs \<le> sum_list (ys :: nat list)"
  by (induction xs ys rule: list_induct2) (auto simp: All_less_Suc2 intro!: add_mono)

lemma share_complement:
  "0 < b \<Longrightarrow> share a b + (real b - real a) / real b = 1" "share a 0 = 0" "share 0 b = 0"
  by (simp_all add: share_def add_divide_distrib [symmetric])

lemma decision_view_consistent:
  assumes ok: "decisions_ok n t"
  shows "report_consistent (dt_count t) n (decision_view t)"
proof -
  have len: "length (dt_related_hist t) = n" "length (dt_same_related t) = n"
    and same: "\<forall>i<n. dt_same_related t ! i \<le> dt_related_hist t ! i"
    using ok by (simp_all add: decisions_ok_def)
  define follow where "follow = map (\<lambda>sid. share (dt_same_related t ! sid) (dt_related_hist t ! sid)) [0..<n]"
  define observed where "observed = map (\<lambda>sid. follow ! sid) (filter (\<lambda>sid. dt_related_hist t ! sid > 0) [0..<n])"
  have fol: "\<forall>x\<in>set follow. 0 \<le> x \<and> x \<le> 1"
    using same by (auto simp: follow_def intro!: share_bounds)
  have "set observed \<subseteq> set follow" by (auto simp: observed_def follow_def)
  then have low: "0 \<le> (if observed \<noteq> [] then list_min observed else 0) \<and>
      (if observed \<noteq> [] then list_min observed else 0) \<le> 1"
    using fol list_min_in [of observed] by auto
  have sums: "sum_list (dt_same_related t) \<le> sum_list (dt_related_hist t)"
    using sum_list_le_pointwise same len by metis
  have masks: "hist_get (dt_mask_size_hist t) 1 + hist_total (\<lambda>size. size > 1) (dt_mask_size_hist t) = dt_mask_seen t"
    using ok hist_split [of "dt_mask_size_hist t"] by (simp add: decisions_ok_def)
  have fallback: "sum_list (map snd (filter P (dt_source_hist t))) \<le> dt_count t" for P
    using ok filter_sum_le [of P "dt_source_hist t"] by (simp add: decisions_ok_def)
  have sources: "hist_total P (dt_source_hist t) \<le> dt_count t" "hist_get (dt_source_hist t) s \<le> dt_count t" for P s
    using ok hist_total_le [of P "dt_source_hist t"] hist_get_le [of "dt_source_hist t" s]
    by (simp_all add: decisions_ok_def)
  note ok' = ok [unfolded decisions_ok_def]
  show ?thesis
    unfolding report_consistent_def decision_view_def Let_def len follow_def [symmetric]
      observed_def [symmetric] decision_report.simps
    using ok' fol low sums masks fallback sources sum_shares [of "dt_action_hist t"]
    by (simp add: share_complement share_bounds)
qed

end
