(* ===== verification/DecisionTrace.thy ===== *)
theory DecisionTrace
  imports DecisionFacts TrainTheorems
begin

text \<open>
  The placements of the offline environment, written as decision records and read back by the
  analysis of \<open>analyze_block_eval.py\<close>: the state of a placement carries the relation vector at the
  offset where the analysis looks for it, and the largest entry is the related shard.
\<close>

section \<open>What a placement records\<close>

definition first_major :: "nat list \<Rightarrow> nat \<Rightarrow> bool" where
  "first_major cs i \<longleftrightarrow> i < length cs \<and> (\<forall>j<length cs. cs ! j \<le> cs ! i) \<and> (\<forall>j<i. cs ! j < cs ! i)"

text \<open>The relation vector comes from counts of the related accounts on each shard.\<close>

definition counted_relation :: "nat \<Rightarrow> nat \<Rightarrow> bool \<Rightarrow> int \<Rightarrow> real list \<Rightarrow> bool" where
  "counted_relation n peers kn shard pos \<longleftrightarrow>
     (\<exists>cs. length cs = n \<and> sum_list cs \<le> peers \<and> kn = (sum_list cs > 0) \<and>
        (if sum_list cs > 0
         then pos = map (\<lambda>c. real c / real (sum_list cs)) cs \<and> 0 \<le> shard \<and> first_major cs (nat shard)
         else pos = replicate n 0))"

definition action_traced :: "nat \<Rightarrow> nat \<Rightarrow> placement_action \<Rightarrow> bool" where
  "action_traced n iot_dim a \<longleftrightarrow>
     pa_action a < n \<and> zero_one_mask n (pa_action_mask a) \<and> slice n (pa_state a) = pa_sender_pos a \<and>
     11 * n \<le> length (pa_state a) \<and>
     counted_relation n (pa_related_count a) (pa_related_known a) (pa_related_shard a) (pa_sender_pos a) \<and>
     pa_same_as_related a =
       (pa_related_known a \<and>
        (if iot_dim > 0 then pa_sender_pos a ! pa_action a > EPS else int (pa_action a) = pa_related_shard a))"

lemma count_peer_known:
  "fst (snd (fold (count_peer e bp) ks (cs, kn, b))) \<le> kn + length ks"
proof (induction ks arbitrary: cs kn b)
  case (Cons k ks)
  obtain cs' kn' b' where st: "count_peer e bp k (cs, kn, b) = (cs', kn', b')" by (metis prod_cases3)
  then have "kn' \<le> kn + 1" by (auto simp: count_peer_def split: option.splits if_splits)
  then show ?case using Cons [of cs' kn' b'] st by simp
qed simp

lemma build_sender_pos_counts:
  fixes e addr fb bp br
  defines "info \<equiv> build_sender_pos e addr fb bp br"
  shows "counted_relation (env_shards e) (sp_related_count info) (sp_related_known info)
     (sp_related_shard info) (sp_sender_pos info)"
proof -
  let ?n = "env_shards e" and ?ks = "related_keys_of e addr fb br"
  obtain cs kn inb where f: "fold (count_peer e bp) ?ks (replicate ?n 0, 0, False) = (cs, kn, inb)"
    by (metis prod_cases3)
  have "counts_inv ?n (fold (count_peer e bp) ?ks (replicate ?n 0, 0, False))"
    by (rule fold_count_peer_inv) (simp add: counts_inv_def sum_list_replicate)
  then have cs: "length cs = ?n" "sum_list cs = kn" by (simp_all add: f counts_inv_def)
  have le: "kn \<le> length ?ks" using count_peer_known [of e bp ?ks "replicate ?n 0" 0 False] f by simp
  obtain ms mc where m: "fold major_step (zip [0..<?n] cs) (-1, 0) = (ms, mc)" by force
  have maj: "major_inv cs ?n (ms, mc)" using major_fold [of ?n cs] cs m by simp
  have eq: "sp_sender_pos info = (if kn > 0 then map (\<lambda>c. real c / real kn) cs else replicate ?n 0)"
    "sp_related_known info = (kn > 0 \<and> ms \<ge> 0)" "sp_related_shard info = ms"
    "sp_related_count info = length ?ks"
    by (simp_all add: info_def build_sender_pos_def Let_def f m)
  have "kn > 0 \<Longrightarrow> \<exists>i. ms = int i \<and> first_major cs i"
  proof -
    assume "kn > 0"
    then have "\<not> (\<forall>j<?n. cs ! j = 0)"
      using cs by (metis gr_implies_not0 in_set_conv_nth sum_list_eq_0_iff)
    then show ?thesis using maj cs by (auto simp: major_inv_def first_major_def split: if_splits)
  qed
  then show ?thesis using cs le eq unfolding counted_relation_def by (intro exI [of _ cs]) auto
qed

lemma build_state_slice:
  assumes wf: "wf_env e" and st: "build_state_from_sender_pos e pos flag feats = Inr s"
    and pos: "length pos = env_shards e" "\<forall>x\<in>set pos. 0 \<le> x \<and> x \<le> 1"
  shows "slice (env_shards e) s = pos" and "11 * env_shards e \<le> length s"
proof -
  let ?n = "env_shards e"
  let ?w = "\<lambda>g. concat (map (\<lambda>stat. map (\<lambda>sid. normalize_count e (g stat ! sid)) [0..<?n]) (recent_stats e))"
  have len: "length (recent_stats e) = 5" using wf by (simp add: wf_env_def wf_config_def Let_def)
  have w: "length (?w g) = 5 * ?n" for g
    using length_concat_const
      [of "recent_stats e" "\<lambda>stat. map (\<lambda>sid. normalize_count e (g stat ! sid)) [0..<?n]" ?n] len by simp
  have p: "map (\<lambda>sid. clamp (if sid < length pos then pos ! sid else 0) 0 1) [0..<?n] = pos"
    using pos by (intro nth_equalityI) (auto simp: clamp_def not_less)
  obtain rest where "s = (?w w_num @ ?w w_cross) @ pos @ rest"
    using st unfolding build_state_from_sender_pos_def Let_def p
    by (auto simp: result_simps split: if_splits)
  then show "slice ?n s = pos" "11 * ?n \<le> length s"
    using w [of w_num] w [of w_cross] pos(1) by (simp_all add: slice_def)
qed

lemma placement_record_more [simp]:
  fixes bid :: nat
  defines "r \<equiv> \<lambda>addr e info out s t slb lmb rw. placement_record bid addr e info out s t slb lmb rw"
  shows "pa_sender_pos (r addr e info out s t slb lmb rw) = sp_sender_pos info"
    and "pa_related_known (r addr e info out s t slb lmb rw) = sp_related_known info"
    and "pa_related_shard (r addr e info out s t slb lmb rw) = sp_related_shard info"
    and "pa_related_count (r addr e info out s t slb lmb rw) = sp_related_count info"
    and "pa_same_as_related (r addr e info out s t slb lmb rw) =
       (if env_iot_feature_dim e > 0
        then sp_related_known info \<and> nat (po_action out) < length (sp_sender_pos info) \<and>
             sp_sender_pos info ! nat (po_action out) > EPS
        else sp_related_known info \<and> int (nat (po_action out)) = sp_related_shard info)"
  by (simp_all add: r_def placement_record_def Let_def)

text \<open>The record of a placement, in terms of the relation vector and the state it was made from.\<close>

lemma place_address_record:
  assumes wf: "wf_env e" and pl: "place_address policy br bid rq (e, bp, p) = Inr (Some a, st')"
    and new: "addr_shard e (rq_addr rq) = None" "rq_addr rq \<noteq> []"
  defines "e1 \<equiv> e\<lparr>current_cost_vector := cost_vector e (rq_addr rq)\<rparr>"
  defines "info \<equiv> build_sender_pos e1 (rq_addr rq) (rq_fallback rq) bp br"
  defines "m \<equiv> build_candidate_action_mask e1 (rq_addr rq) (sp_sender_pos info)"
  obtains s raw t slb lmb rw where
    "build_state_from_sender_pos e1 (sp_sender_pos info)
       (address_flag_from_related_count (sp_related_count info)) (rq_features rq) = Inr s"
    "a = placement_record bid (rq_addr rq) e1 (info\<lparr>sp_action_mask := m\<rparr>)
         (safe_policy_output e1 raw (rq_addr rq) (sp_sender_pos info) m) s t slb lmb rw"
proof -
  have "wf_env e1" using wf by (simp add: e1_def wf_env_cost_vector)
  then obtain s where s: "build_state_from_sender_pos e1 (sp_sender_pos info)
          (address_flag_from_related_count (sp_related_count info)) (rq_features rq) = Inr s"
    using build_state_total by blast
  note place = pl [unfolded place_address_def Let_def prod.case]
  have guard: "\<not> (rq_addr rq = [] \<or> addr_shard e (rq_addr rq) \<noteq> None)" using new by simp
  note place = place [unfolded if_not_P [OF guard] e1_def [symmetric], folded info_def, folded m_def, unfolded s bind_result.simps]
  let ?info = "info\<lparr>sp_action_mask := m\<rparr>"
  have pos: "sp_sender_pos ?info = sp_sender_pos info" by simp
  obtain raw p' where pol: "policy e1 p s (rq_addr rq) (sp_related_summary ?info) ?info = Inr (raw, p')"
    using place by (cases "policy e1 p s (rq_addr rq) (sp_related_summary ?info) ?info") auto
  note place = place [unfolded pol bind_result.simps prod.case pos]
  obtain t slb lmb rw where "a = placement_record bid (rq_addr rq) e1 ?info
         (safe_policy_output e1 raw (rq_addr rq) (sp_sender_pos info) m) s t slb lmb rw"
    using place unfolding bind_result_eq_Inr by (elim exE conjE) (simp only: sum.inject prod.inject option.inject, blast)
  with s show thesis by (rule that)
qed

lemma place_address_traced:
  assumes wf: "wf_env e" and pl: "place_address policy br bid rq (e, bp, p) = Inr (Some a, st')"
    and new: "addr_shard e (rq_addr rq) = None" "rq_addr rq \<noteq> []"
  shows "action_traced (env_shards e) (env_iot_feature_dim e) a"
proof -
  let ?e = "e\<lparr>current_cost_vector := cost_vector e (rq_addr rq)\<rparr>"
  let ?info = "build_sender_pos ?e (rq_addr rq) (rq_fallback rq) bp br"
  let ?m = "build_candidate_action_mask ?e (rq_addr rq) (sp_sender_pos ?info)"
  have wfe: "wf_env ?e" using wf by (simp add: wf_env_cost_vector)
  have n: "0 < env_shards ?e" using wf_env_shards [OF wfe] .
  have info: "pos_distribution (env_shards ?e) ?info" by (rule build_sender_pos_distribution)
  obtain s raw t slb lmb rw where
    s: "build_state_from_sender_pos ?e (sp_sender_pos ?info)
          (address_flag_from_related_count (sp_related_count ?info)) (rq_features rq) = Inr s"
    and a: "a = placement_record bid (rq_addr rq) ?e (?info\<lparr>sp_action_mask := ?m\<rparr>)
         (safe_policy_output ?e raw (rq_addr rq) (sp_sender_pos ?info) ?m) s t slb lmb rw"
    by (rule place_address_record [OF assms])
  have c: "nat (po_action (safe_policy_output ?e raw (rq_addr rq) (sp_sender_pos ?info) ?m)) < env_shards e"
    using safe_policy_output_allowed [OF n, where out = raw and addr = "rq_addr rq" and pos = "sp_sender_pos ?info" and m = ?m] by simp
  have sl: "slice (env_shards e) s = sp_sender_pos ?info" "11 * env_shards e \<le> length s"
    using build_state_slice [OF wfe s] info by (simp_all add: pos_distribution_def)
  have m: "zero_one_mask (env_shards e) ?m" using candidate_mask_zero_one [OF n] by simp
  have len: "length (sp_sender_pos ?info) = env_shards e" using info by (simp add: pos_distribution_def)
  show ?thesis
    unfolding a action_traced_def
    using c sl m len build_sender_pos_counts [of ?e "rq_addr rq" "rq_fallback rq" bp br] by simp
qed

text \<open>The number of related accounts, for the modes that do not look back in time.\<close>

lemma related_keys_bound:
  assumes "env_sender_pos_mode e \<noteq> 2" and fin: "finite (br addr)"
  shows "length (related_keys_of e addr fb br) \<le> card (br addr) + 1"
proof -
  define S where "S = (case fb of None \<Rightarrow> br addr
     | Some f \<Rightarrow> if f \<noteq> [] \<and> (env_sender_pos_mode e \<noteq> 1 \<or> br addr = {}) then insert f (br addr) else br addr)"
  have keys: "related_keys_of e addr fb br = sorted_list_of_set {peer \<in> S. peer \<noteq> [] \<and> peer \<noteq> addr}"
    unfolding related_keys_of_def Let_def S_def if_not_P [OF assms(1)] by (rule refl)
  have S: "finite S" "card S \<le> card (br addr) + 1"
    using fin by (simp_all add: S_def card_insert_if split: option.split)
  have "card {peer \<in> S. peer \<noteq> [] \<and> peer \<noteq> addr} \<le> card S" by (rule card_mono [OF S(1)]) auto
  then show ?thesis unfolding keys using S(2) by simp
qed

lemma place_address_peers:
  assumes wf: "wf_env e" and pl: "place_address policy br bid rq (e, bp, p) = Inr (Some a, st')"
    and new: "addr_shard e (rq_addr rq) = None" "rq_addr rq \<noteq> []"
    and mode: "env_sender_pos_mode e \<noteq> 2" "\<And>addr. finite (br addr) \<and> card (br addr) < k"
  shows "pa_related_count a \<le> k"
proof -
  have count: "sp_related_count (build_sender_pos e' addr fb bp br) = length (related_keys_of e' addr fb br)" for e' addr fb
    by (simp add: build_sender_pos_def Let_def split: prod.splits)
  have bound: "length (related_keys_of e' addr fb br) \<le> k" if "env_sender_pos_mode e' \<noteq> 2" for e' addr fb
    using related_keys_bound [OF that, of br addr fb] mode(2) [of addr] by simp
  show ?thesis by (rule place_address_record [OF assms(1-4)]) (simp add: count bound mode(1))
qed

lemma place_all_each:
  assumes "place_all policy br bid rqs (e1, bp, p) acts = Inr (acts', st')"
    and "placed_from e acts e1" and "\<forall>a\<in>set acts. P a"
    and each: "\<And>e1 bp p rq a st'. wf_env e1 \<Longrightarrow> same_config e e1 \<Longrightarrow>
      place_address policy br bid rq (e1, bp, p) = Inr (Some a, st') \<Longrightarrow>
      addr_shard e1 (rq_addr rq) = None \<Longrightarrow> rq_addr rq \<noteq> [] \<Longrightarrow> P a"
  shows "\<forall>a\<in>set acts'. P a"
  using assms(1-3)
proof (induction rqs arbitrary: e1 bp p acts)
  case (Cons rq rqs)
  obtain a e2 bp' p' where pl: "place_address policy br bid rq (e1, bp, p) = Inr (a, e2, bp', p')"
    and rest: "place_all policy br bid rqs (e2, bp', p') (case a of None \<Rightarrow> acts | Some act \<Rightarrow> acts @ [act]) =
      Inr (acts', st')"
    using Cons.prems(1) by (auto simp: result_simps)
  have pf: "placed_from e (case a of None \<Rightarrow> acts | Some act \<Rightarrow> acts @ [act]) e2"
    using place_address_step [OF Cons.prems(2), of policy br bid rq bp p] pl by auto
  have e1: "wf_env e1" "same_config e e1"
    using Cons.prems(2) by (simp_all add: placed_from_def)
  have "P act" if "a = Some act" for act
  proof -
    have "\<not> (rq_addr rq = [] \<or> addr_shard e1 (rq_addr rq) \<noteq> None)"
    proof
      assume "rq_addr rq = [] \<or> addr_shard e1 (rq_addr rq) \<noteq> None"
      from place_address_known [OF this, of policy br bid bp p] pl that show False by simp
    qed
    then show ?thesis using each [OF e1] pl that by metis
  qed
  then have "\<forall>x\<in>set (case a of None \<Rightarrow> acts | Some act \<Rightarrow> acts @ [act]). P x"
    using Cons.prems(3) by (auto split: option.splits)
  then show ?case using Cons.IH [OF rest pf] by blast
qed simp

lemma run_batch_each:
  assumes wf: "wf_env e" and run: "run_batch policy e txs p = Inr (acts, met, e', p')"
    and each: "\<And>e1 bp p rq a st'. wf_env e1 \<Longrightarrow> same_config e e1 \<Longrightarrow>
      place_address policy (batch_graph e txs) (Suc (batch_id e)) rq (e1, bp, p) = Inr (Some a, st') \<Longrightarrow>
      addr_shard e1 (rq_addr rq) = None \<Longrightarrow> rq_addr rq \<noteq> [] \<Longrightarrow> P a"
    and keep: "\<And>a r b. P (a\<lparr>pa_reward := r, pa_done := b\<rparr>) = P a"
  shows "\<forall>a\<in>set acts. P a"
proof -
  from run obtain acts0 e1 bp r where pb: "place_batch policy e txs p = Inr (acts0, e1, bp, p')"
    and acts: "acts = shape_actions e' (clamp r (-1) 1) acts0"
    by (rule run_batch_parts)
  note st = batch_start_spec [OF wf, of txs]
  obtain rqs where all: "place_all policy (batch_graph e txs) (Suc (batch_id e)) rqs
       (batch_start e txs, Map.empty, p) [] = Inr (acts0, e1, bp, p')"
    using pb st(7) by (auto simp: place_batch_eq result_simps)
  have "\<forall>a\<in>set acts0. P a"
    using place_all_each [OF all placed_from_refl [OF st(1)], of P] each same_config_trans [OF st(8)] by auto
  then show ?thesis using acts keep by (auto simp: shape_actions_def enumerate_eq_zip dest: set_zip_rightD)
qed

lemma action_traced_update [simp]:
  "action_traced n d (a\<lparr>pa_reward := r, pa_done := b\<rparr>) = action_traced n d a"
  by (simp add: action_traced_def)

lemma run_batch_traced:
  assumes wf: "wf_env e" and run: "run_batch policy e txs p = Inr (acts, met, e', p')"
  shows "\<forall>a\<in>set acts. action_traced (env_shards e) (env_iot_feature_dim e) a"
  by (rule run_batch_each [OF wf run])
    (auto dest!: place_address_traced simp: same_config_def)

lemma run_batch_peers:
  assumes wf: "wf_env e" and run: "run_batch policy e txs p = Inr (acts, met, e', p')"
    and "env_sender_pos_mode e \<noteq> 2" "\<And>addr. finite (batch_graph e txs addr) \<and> card (batch_graph e txs addr) < k"
  shows "\<forall>a\<in>set acts. pa_related_count a \<le> k"
  by (rule run_batch_each [OF wf run])
    (use assms(3,4) in \<open>auto dest!: place_address_peers [where k = k] simp: same_config_def\<close>)

section \<open>Reading a placement back\<close>

text \<open>The decision record of a placement.\<close>

definition decision_items :: "placement_action \<Rightarrow> dict" where
  "decision_items a =
     [(''shard'', VInt (int (pa_action a))), (''state'', VList (map (VFloat \<circ> Fin) (pa_state a))),
      (''confidence'', VFloat (Fin (pa_confidence a))), (''entropy'', VFloat (Fin (pa_entropy a))),
      (''source'', VStr (pa_source a)), (''action_mask'', VList (map VInt (pa_action_mask a)))]"

definition decision_of :: "placement_action \<Rightarrow> pyval" where
  "decision_of a = VDict (decision_items a)"

definition max_upto :: "'a::linorder list \<Rightarrow> nat \<Rightarrow> nat \<Rightarrow> bool" where
  "max_upto ys m b \<longleftrightarrow> b < m \<and> (\<forall>j<m. ys ! j \<le> ys ! b) \<and> (\<forall>j<b. ys ! j < ys ! b)"

lemma max_upto_step:
  "max_upto ys m b \<Longrightarrow> max_upto ys (Suc m) (if ys ! b < ys ! m then m else b)"
  unfolding max_upto_def less_Suc_eq by (auto dest: le_less_trans less_imp_le)

lemma max_upto_unique: "max_upto ys m a \<Longrightarrow> max_upto ys m b \<Longrightarrow> a = b"
  unfolding max_upto_def by (metis leD linorder_neqE_nat order.strict_trans)

lemma first_max_fold:
  assumes "m < length ys"
  shows "max_upto ys (Suc m)
    (fold (\<lambda>sid best. if map Fin ys ! best < map Fin ys ! sid then sid else best) [1..<Suc m] 0)"
  using assms
proof (induction m)
  case 0
  then show ?case by (simp add: max_upto_def)
next
  case (Suc m)
  define b where "b = fold (\<lambda>sid best. if map Fin ys ! best < map Fin ys ! sid then sid else best) [1..<Suc m] 0"
  have b: "max_upto ys (Suc m) b" using Suc by (simp only: b_def Suc_lessD)
  then have "b < length ys" using Suc.prems by (simp add: max_upto_def)
  then have "(if map Fin ys ! b < map Fin ys ! Suc m then Suc m else b) = (if ys ! b < ys ! Suc m then Suc m else b)"
    using Suc.prems by simp
  moreover have "[1..<Suc (Suc m)] = [1..<Suc m] @ [Suc m]" by simp
  ultimately show ?case
    using max_upto_step [OF b] by (simp only: fold_append fold_simps comp_apply b_def [symmetric])
qed

lemma first_max_major:
  assumes "first_major cs i" and "0 < k"
  shows "first_max (map Fin (map (\<lambda>c. real c / real k) cs)) = i"
proof -
  let ?ys = "map (\<lambda>c. real c / real k) cs"
  have i: "i < length cs" "max_upto ?ys (length cs) i"
    using assms by (auto simp: first_major_def max_upto_def divide_right_mono divide_strict_right_mono)
  moreover obtain m where m: "length cs = Suc m" using i(1) by (cases "length cs") auto
  moreover have "max_upto ?ys (length cs) (first_max (map Fin ?ys))"
    using first_max_fold [of m ?ys] m by (simp only: first_max_def length_map lessI)
  ultimately show ?thesis by (blast intro: max_upto_unique)
qed

lemma counted_relation_read:
  assumes "counted_relation n peers kn shard pos" and "peers < 10 ^ 8"
  shows "length pos = n" and "list_ex (\<lambda>x. exceeds (fabs x) RELATION_EPS) (map Fin pos) = kn"
    and "kn \<Longrightarrow> first_max (map Fin pos) = nat shard" and "kn \<Longrightarrow> 0 \<le> shard \<and> nat shard < n"
    and "c < n \<Longrightarrow> exceeds (Fin (pos ! c)) RELATION_EPS = (pos ! c > EPS)"
proof -
  obtain cs where cs: "length cs = n" "sum_list cs \<le> peers" "kn = (sum_list cs > 0)"
    and pos: "if sum_list cs > 0
         then pos = map (\<lambda>c. real c / real (sum_list cs)) cs \<and> 0 \<le> shard \<and> first_major cs (nat shard)
         else pos = replicate n 0"
    using assms(1) by (auto simp: counted_relation_def)
  let ?k = "sum_list cs"
  show "length pos = n" using pos cs by (auto split: if_splits)
  have big: "1 / 10 ^ 8 < 1 / real ?k" if "0 < ?k"
    using that cs(2) assms(2) by (intro divide_strict_left_mono) auto
  have entry: "real c / real ?k > q \<longleftrightarrow> c > 0" if "0 < ?k" "q = 1 / 10 ^ 8 \<or> q = 1 / 10 ^ 12" for c q
  proof
    assume "c > 0"
    then have "1 / real ?k \<le> real c / real ?k" by (simp add: divide_right_mono)
    moreover have "q \<le> 1 / 10 ^ 8" using that(2) by auto
    ultimately show "real c / real ?k > q" using big [OF that(1)] by linarith
  next
    assume "real c / real ?k > q"
    moreover have "0 \<le> q" using that(2) by auto
    ultimately show "c > 0" by (cases c) auto
  qed
  show "list_ex (\<lambda>x. exceeds (fabs x) RELATION_EPS) (map Fin pos) = kn"
  proof (cases "0 < ?k")
    case True
    then obtain c where "c \<in> set cs" "c > 0" by (metis gr_zeroI not_gr_zero sum_list_eq_0_iff)
    then show ?thesis
      using True pos cs(3) entry [OF True, of "1 / 10 ^ 12" c]
      by (auto simp: list_ex_iff exceeds_def fabs_def RELATION_EPS_def)
  next
    case False
    then show ?thesis using pos cs(3) by (auto simp: list_ex_iff exceeds_def fabs_def RELATION_EPS_def)
  qed
  show "kn \<Longrightarrow> first_max (map Fin pos) = nat shard"
    using pos cs(3) first_max_major by simp
  show "kn \<Longrightarrow> 0 \<le> shard \<and> nat shard < n" using pos cs by (simp add: first_major_def)
  show "exceeds (Fin (pos ! c)) RELATION_EPS = (pos ! c > EPS)" if "c < n"
    using that pos cs entry [of "1 / 10 ^ 12"] entry [of "1 / 10 ^ 8"]
    by (cases "0 < ?k") (simp_all add: exceeds_def RELATION_EPS_def EPS_def)
qed

lemma py_or_float [simp]: "py_or (VFloat (Fin x)) (VFloat (Fin 0)) = VFloat (Fin x)"
  by (simp add: py_or_def)

lemma mask_positive_int [simp]: "mask_positive (VInt i) = Inr (i > 0)"
  by (simp add: mask_positive_def py_or_def)

lemma decision_of_fields:
  assumes "action_traced n d a" and "0 < n"
  shows "require_dict (decision_of a) = Inr (decision_items a)"
    and "dict_get (decision_items a) ''shard'' v = VInt (int (pa_action a))"
    and "py_or (dict_get (decision_items a) ''action_mask'' w) u = VList (map VInt (pa_action_mask a))"
    and "record_mask_size (decision_items a) (VList (map VInt (pa_action_mask a))) =
       Inr (int (length (filter (\<lambda>i. 0 < i) (pa_action_mask a))))"
    and "record_sender_pos (int n) (decision_items a) = Inr (Some (map Fin (pa_sender_pos a)))"
proof -
  have m: "zero_one_mask n (pa_action_mask a)" using assms by (simp add: action_traced_def)
  then have ne: "pa_action_mask a \<noteq> []" using assms(2) by (auto simp: zero_one_mask_def)
  show "require_dict (decision_of a) = Inr (decision_items a)"
    "dict_get (decision_items a) ''shard'' v = VInt (int (pa_action a))"
    "py_or (dict_get (decision_items a) ''action_mask'' w) u = VList (map VInt (pa_action_mask a))"
    using ne by (simp_all add: decision_of_def decision_items_def require_dict_def dict_get_def py_or_def)
  have "traverse mask_positive (map VInt xs) = Inr (map (\<lambda>i. i > 0) xs)" for xs
    by (induction xs) simp_all
  moreover have "length (filter id (map (\<lambda>i. i > 0) xs)) = length (filter (\<lambda>i. 0 < i) (xs :: int list))" for xs
    by (induction xs) simp_all
  ultimately show "record_mask_size (decision_items a) (VList (map VInt (pa_action_mask a))) =
       Inr (int (length (filter (\<lambda>i. 0 < i) (pa_action_mask a))))"
    using ne by (cases "pa_action_mask a") (simp_all add: record_mask_size_def)
  have "traverse float_of (map (VFloat \<circ> Fin) xs) = Inr (map Fin xs)" for xs
    by (induction xs) simp_all
  moreover have "slice n (map (VFloat \<circ> Fin) (pa_state a)) = map (VFloat \<circ> Fin) (pa_sender_pos a)"
    using assms(1) by (simp add: action_traced_def slice_def take_map drop_map)
  moreover have "pa_state a \<noteq> []" "11 * n \<le> length (pa_state a)" using assms by (auto simp: action_traced_def)
  ultimately show "record_sender_pos (int n) (decision_items a) = Inr (Some (map Fin (pa_sender_pos a)))"
    by (simp add: record_sender_pos_def decision_items_def dict_get_def py_or_def)
qed

text \<open>What a turn with the record of a placement adds to the totals.\<close>

definition counts_placement :: "placement_action \<Rightarrow> decision_totals \<Rightarrow> decision_totals \<Rightarrow> bool" where
  "counts_placement a t t' \<longleftrightarrow>
     (let kn = pa_related_known a; follows = (kn \<and> int (pa_action a) = pa_related_shard a) in
      dt_count t' = dt_count t + 1 \<and> dt_action_hist t' = bump (pa_action a) 1 (dt_action_hist t) \<and>
      dt_confidence_sum t' = dt_confidence_sum t + Fin (pa_confidence a) \<and>
      dt_entropy_sum t' = dt_entropy_sum t + Fin (pa_entropy a) \<and> dt_mask_seen t' = dt_mask_seen t + 1 \<and>
      dt_related_hist t' = (if kn then bump (nat (pa_related_shard a)) 1 (dt_related_hist t) else dt_related_hist t) \<and>
      dt_same_related t' = (if follows then bump (nat (pa_related_shard a)) 1 (dt_same_related t) else dt_same_related t) \<and>
      dt_selected_mass_count t' =
        dt_selected_mass_count t + of_bool (kn \<and> pa_sender_pos a ! pa_action a > EPS))"

lemma count_candidates_fields [simp]:
  "dt_action_hist (count_candidates c al pos t) = dt_action_hist t"
  "dt_confidence_sum (count_candidates c al pos t) = dt_confidence_sum t"
  "dt_entropy_sum (count_candidates c al pos t) = dt_entropy_sum t"
  "dt_mask_seen (count_candidates c al pos t) = dt_mask_seen t"
  "dt_related_hist (count_candidates c al pos t) = dt_related_hist t"
  "dt_same_related (count_candidates c al pos t) = dt_same_related t"
  "dt_selected_mass_count (count_candidates c al pos t) = dt_selected_mass_count t"
  by (simp_all add: count_candidates_def Let_def)

lemma decision_turn_placement:
  assumes tr: "action_traced n d a" and n: "0 < n" and peers: "pa_related_count a < 10 ^ 8"
  shows "\<exists>t'. decision_turn str_of (int n) (Some (decision_of a)) t = Inr t' \<and> counts_placement a t t'"
proof -
  let ?rec = "decision_items a" and ?c = "int (pa_action a)"
  let ?pos = "map Fin (pa_sender_pos a)"
  have c: "pa_action a < n" and mask: "zero_one_mask n (pa_action_mask a)"
    and rel: "counted_relation n (pa_related_count a) (pa_related_known a) (pa_related_shard a) (pa_sender_pos a)"
    using tr by (simp_all add: action_traced_def)
  note read = counted_relation_read [OF rel peers]
  have "1 \<in> set (filter (\<lambda>i. 0 < i) (pa_action_mask a))" using mask by (simp add: zero_one_mask_def)
  then have size: "0 < length (filter (\<lambda>i. 0 < i) (pa_action_mask a))" by (metis length_pos_if_in_set)
  obtain t1 where t1: "count_action str_of (int n) ?c ?rec t = Inr t1"
    and f1: "dt_count t1 = dt_count t + 1" "dt_action_hist t1 = bump (pa_action a) 1 (dt_action_hist t)"
      "dt_confidence_sum t1 = dt_confidence_sum t + Fin (pa_confidence a)"
      "dt_entropy_sum t1 = dt_entropy_sum t + Fin (pa_entropy a)" "dt_mask_seen t1 = dt_mask_seen t"
      "dt_related_hist t1 = dt_related_hist t" "dt_same_related t1 = dt_same_related t"
      "dt_selected_mass_count t1 = dt_selected_mass_count t"
    using c by (simp add: count_action_def decision_items_def dict_get_def in_shards_def)
  define t2 where "t2 = count_mask (int (length (filter (\<lambda>i. 0 < i) (pa_action_mask a)))) t1"
  have f2: "dt_mask_seen t2 = dt_mask_seen t + 1" "dt_count t2 = dt_count t1" "dt_action_hist t2 = dt_action_hist t1"
    "dt_confidence_sum t2 = dt_confidence_sum t1" "dt_entropy_sum t2 = dt_entropy_sum t1"
    "dt_related_hist t2 = dt_related_hist t1" "dt_same_related t2 = dt_same_related t1"
    "dt_selected_mass_count t2 = dt_selected_mass_count t1"
    using size f1(5) by (simp_all add: t2_def count_mask_def)
  have turn: "decision_turn str_of (int n) (Some (decision_of a)) t =
      relation_turn (int n) ?c (VList (map VInt (pa_action_mask a))) (Some ?pos) t2"
    unfolding decision_turn_def option.case decision_of_fields(1) [OF tr n]
    by (simp only: bind_result.simps decision_of_fields [OF tr n] int_of.simps t1 Let_def t2_def)
  show ?thesis
  proof (cases "pa_related_known a")
    case False
    then show ?thesis
      using turn read(2) f1 f2 by (simp add: relation_turn_def counts_placement_def Let_def)
  next
    case True
    have "traverse mask_positive (map VInt xs) = Inr (map (\<lambda>i. i > 0) xs)" for xs
      by (induction xs) simp_all
    moreover have "length (pa_action_mask a) = n" using mask by (simp add: zero_one_mask_def)
    ultimately have "decision_turn str_of (int n) (Some (decision_of a)) t =
        Inr (count_candidates ?c (map (\<lambda>i. i > 0) (pa_action_mask a)) ?pos (count_related (int n) ?c ?pos t2))"
      using turn read(2) True by (simp add: relation_turn_def Let_def)
    moreover have "exceeds (?pos ! pa_action a) RELATION_EPS = (pa_sender_pos a ! pa_action a > EPS)"
      using read(1) read(5) [OF c] c by simp
    ultimately show ?thesis
      using True f1 f2 c read(3,4) [OF True]
      by (auto simp: counts_placement_def Let_def count_related_def in_shards_def dt_count_later)
  qed
qed

definition tracked :: "nat \<Rightarrow> placement_action list \<Rightarrow> decision_totals \<Rightarrow> bool" where
  "tracked n acts t \<longleftrightarrow>
     dt_count t = length acts \<and> dt_action_hist t = shard_hist n (map pa_action acts) \<and>
     dt_confidence_sum t = Fin (sum_list (map pa_confidence acts)) \<and>
     dt_entropy_sum t = Fin (sum_list (map pa_entropy acts)) \<and> dt_mask_seen t = length acts \<and>
     dt_related_hist t = shard_hist n (map (nat \<circ> pa_related_shard) (filter pa_related_known acts)) \<and>
     dt_same_related t = shard_hist n (map (nat \<circ> pa_related_shard)
       (filter (\<lambda>a. pa_related_known a \<and> int (pa_action a) = pa_related_shard a) acts)) \<and>
     dt_selected_mass_count t =
       length (filter (\<lambda>a. pa_related_known a \<and> pa_sender_pos a ! pa_action a > EPS) acts)"

lemma shard_hist_snoc:
  "shard_hist n (sids @ [sid]) = (if sid < n then bump sid 1 (shard_hist n sids) else shard_hist n sids)"
  by (simp add: shard_hist_def)

lemma tracked_step:
  assumes "tracked n acts t" and "counts_placement a t t'" and "action_traced n d a"
    and "pa_related_count a < 10 ^ 8"
  shows "tracked n (acts @ [a]) t'"
proof -
  have "pa_action a < n"
    and rel: "counted_relation n (pa_related_count a) (pa_related_known a) (pa_related_shard a) (pa_sender_pos a)"
    using assms(3) by (simp_all add: action_traced_def)
  moreover have "pa_related_known a \<Longrightarrow> nat (pa_related_shard a) < n"
    using counted_relation_read(4) [OF rel assms(4)] by blast
  ultimately show ?thesis
    using assms(1,2) by (auto simp: tracked_def counts_placement_def Let_def shard_hist_snoc)
qed

lemma decisions_tracked:
  assumes "\<forall>a\<in>set acts. action_traced n d a \<and> pa_related_count a < 10 ^ 8" and "0 < n"
  shows "\<exists>t. fold_result (decision_turn str_of (int n)) (map (\<lambda>a. Some (decision_of a)) acts) (empty_decisions n) = Inr t \<and>
     tracked n acts t"
  using assms(1)
proof (induction acts rule: rev_induct)
  case Nil
  then show ?case by (simp add: tracked_def empty_decisions_def shard_hist_def)
next
  case (snoc a acts)
  then obtain t where t: "fold_result (decision_turn str_of (int n)) (map (\<lambda>a. Some (decision_of a)) acts) (empty_decisions n) = Inr t"
    "tracked n acts t" by auto
  obtain t' where "decision_turn str_of (int n) (Some (decision_of a)) t = Inr t'" "counts_placement a t t'"
    using decision_turn_placement [OF _ assms(2)] snoc.prems by fastforce
  then show ?case using t tracked_step [OF t(2)] snoc.prems by (auto simp: fold_result_append)
qed

section \<open>The metrics of a batch\<close>

lemma pshare_mean: "pshare (Fin (sum_list (map f xs))) (length xs) = Fin (mean_of f xs)"
  by (simp add: pshare_def mean_of_def)

lemma decisions_match:
  fixes str_of :: "pyval \<Rightarrow> string"
  assumes wf: "wf_env e" and run: "run_batch policy e txs p = Inr (acts, met, e', p')"
    and peers: "\<forall>a\<in>set acts. pa_related_count a < 10 ^ 8"
  shows "\<exists>r. analyze_decisions str_of (Some (map (\<lambda>a. Some (decision_of a)) acts)) (int (env_shards e)) = Inr (Some r) \<and>
     dr_decision_count r = bm_action_count met \<and> dr_action_hist r = bm_action_hist met \<and>
     dr_confidence_mean r = Fin (bm_confidence_mean met) \<and> dr_entropy_mean r = Fin (bm_entropy_mean met) \<and>
     dr_related_shard_hist r = bm_related_shard_hist met \<and>
     sum_list (dr_related_shard_hist r) = bm_related_known_count met \<and>
     (if env_iot_feature_dim e > 0
      then dr_selected_related_mass_count r = bm_same_as_related_count met
      else dr_major_related_follow_count r = bm_same_as_related_count met \<and>
           dr_same_related_by_shard r = bm_same_related_by_shard met)"
proof -
  let ?n = "env_shards e"
  have n: "0 < ?n" by (rule wf_env_shards [OF wf])
  have tr: "\<forall>a\<in>set acts. action_traced ?n (env_iot_feature_dim e) a \<and> pa_related_count a < 10 ^ 8"
    using run_batch_traced [OF wf run] peers by blast
  obtain t where t: "fold_result (decision_turn str_of (int ?n)) (map (\<lambda>a. Some (decision_of a)) acts) (empty_decisions ?n) = Inr t"
    "tracked ?n acts t"
    using decisions_tracked [OF tr n, of str_of] by blast
  have range: "0 \<le> pa_related_shard a \<and> pa_related_shard a < int ?n" if "a \<in> set acts" "pa_related_known a" for a
  proof -
    have "0 \<le> pa_related_shard a \<and> nat (pa_related_shard a) < ?n"
      using tr that counted_relation_read(4) unfolding action_traced_def by blast
    then show ?thesis by linarith
  qed
  obtain sim cap r q where met: "met = collect_metrics e' txs acts sim cap r q"
    using run_batch_parts [OF run] by metis
  have n': "env_shards e' = ?n" by (rule run_batch_spec(2) [OF wf run])
  have same: "pa_same_as_related a = (pa_related_known a \<and>
      (if env_iot_feature_dim e > 0 then pa_sender_pos a ! pa_action a > EPS else int (pa_action a) = pa_related_shard a))"
    if "a \<in> set acts" for a using tr that by (simp add: action_traced_def)
  have known: "filter (\<lambda>a. 0 \<le> pa_related_shard a \<and> pa_related_shard a < int ?n) (filter pa_related_known acts) =
      filter pa_related_known acts"
    using range by (intro filter_True) auto
  have same_filter: "filter pa_same_as_related acts = filter (\<lambda>a. pa_related_known a \<and>
      (if env_iot_feature_dim e > 0 then pa_sender_pos a ! pa_action a > EPS else int (pa_action a) = pa_related_shard a)) acts"
    using same by (intro filter_cong) auto
  have same_range: "filter (\<lambda>a. 0 \<le> pa_related_shard a \<and> pa_related_shard a < int ?n) (filter pa_same_as_related acts) =
      filter pa_same_as_related acts"
    using range same by (intro filter_True) auto
  have sums: "sum_list (shard_hist ?n (map (nat \<circ> pa_related_shard) (filter P acts))) = length (filter P acts)"
    if "\<And>a. P a \<Longrightarrow> pa_related_known a" for P
    using that range by (subst sum_shard_hist) (auto simp: nat_less_iff)
  show ?thesis
    using t known same_range same_filter sums [of pa_related_known]
      sums [of "\<lambda>a. pa_related_known a \<and> int (pa_action a) = pa_related_shard a"]
    by (auto simp: analyze_decisions_def decision_view_def Let_def tracked_def met collect_metrics_def n' pshare_mean)
qed

end
