(* ===== verification/BlockTheorems.thy ===== *)
theory BlockTheorems
  imports BlockAnalysis BlockFacts LogFacts DecisionTrace MetricsTheorems EnvTheorems EvalTheorems
begin

text \<open>
  What the analysis of a block run guarantees: its decision report agrees with the metrics of the
  offline environment, its counts and shares are consistent, the log of the supervisor is read
  back exactly, and a report with IoT measurements exists only for totals that agree.
\<close>

section \<open>Decisions\<close>

text \<open>
  C19. The decision report and the offline environment agree: the placements of a batch, written as
  decision records and analysed, give the action histogram, the related-shard histogram, the
  number of placements with a known relation and the mean confidence and entropy of the batch
  metrics. With IoT features the count of placements on a related shard is that of the batch
  metrics; without them it is the count of placements on the main related shard. A state refers to
  fewer than \<open>10^8\<close> related accounts, which keeps every share above both tolerances.
\<close>

theorem decision_report_matches_environment:
  assumes "wf_env e" and "run_batch policy e txs p = Inr (acts, met, e', p')"
    and "\<forall>a\<in>set acts. pa_related_count a < 10 ^ 8"
  shows "\<exists>r. analyze_decisions str_of (Some (map (\<lambda>a. Some (decision_of a)) acts)) (int (env_shards e)) = Inr (Some r) \<and>
     dr_decision_count r = bm_action_count met \<and> dr_action_hist r = bm_action_hist met \<and>
     dr_confidence_mean r = Fin (bm_confidence_mean met) \<and> dr_entropy_mean r = Fin (bm_entropy_mean met) \<and>
     dr_related_shard_hist r = bm_related_shard_hist met \<and>
     sum_list (dr_related_shard_hist r) = bm_related_known_count met \<and>
     (if env_iot_feature_dim e > 0
      then dr_selected_related_mass_count r = bm_same_as_related_count met
      else dr_major_related_follow_count r = bm_same_as_related_count met \<and>
           dr_same_related_by_shard r = bm_same_related_by_shard met)"
  by (rule decisions_match [OF assms])

lemma demo_graph: "batch_graph demo_env demo_txs = (\<lambda>_. {})(''bb'' := {''aa''}, ''aa'' := {''cc''})"
  by (simp add: batch_graph_def demo_txs_def demo_tx_def build_batch_related_def batch_related_step_def
      add_related_def fun_eq_iff)

theorem decision_report_matches_environment_witness:
  "\<exists>acts met e' p' r. run_batch demo_policy demo_env demo_txs () = Inr (acts, met, e', p') \<and>
     analyze_decisions (\<lambda>_. []) (Some (map (\<lambda>a. Some (decision_of a)) acts)) 2 = Inr (Some r) \<and>
     dr_action_hist r = bm_action_hist met \<and> dr_related_shard_hist r = bm_related_shard_hist met"
proof -
  obtain acts met e' p' where run: "run_batch demo_policy demo_env demo_txs () = Inr (acts, met, e', p')"
    using demo_run by blast
  have "\<forall>a\<in>set acts. pa_related_count a \<le> 2"
    by (rule run_batch_peers [OF demo_env_wf run]) (simp_all add: demo_graph)
  then have "\<forall>a\<in>set acts. pa_related_count a < 10 ^ 8" by fastforce
  from decision_report_matches_environment [OF demo_env_wf run this, of "\<lambda>_. []"] run show ?thesis by auto
qed

text \<open>
  C36. A decision report is consistent, whatever the records contain: every record is counted with
  one source and at most one action, the distribution of the actions adds up to one unless there is
  none, single and multiple candidates partition the masks seen, chosen anchors are among the
  covered ones and those among the diagnosed records, coverage and absence are complementary, and
  every ratio is within the unit interval.
\<close>

theorem decision_report_consistent:
  assumes "analyze_decisions str_of (Some records) shards = Inr (Some r)"
  shows "report_consistent (length records) (nat shards) r"
proof -
  obtain t where t: "fold_result (decision_turn str_of shards) records (empty_decisions (nat shards)) = Inr t"
    and r: "r = decision_view t"
    using assms by (auto simp: analyze_decisions_def result_simps)
  show ?thesis using decision_view_consistent decisions_fold_ok [OF t] r by metis
qed

definition demo_records :: "pyval option list" where
  "demo_records =
     [Some (VDict [(''shard'', VInt 1), (''source'', VStr ''python_ppo''), (''action_mask'', VList [VInt 0, VInt 1]),
        (''state'', VList (replicate 20 (VInt 0) @ [VInt 0, VInt 1]))]),
      Some (VDict [(''shard'', VInt 5), (''source'', VStr ''go_fallback'')])]"

lemma demo_records_analysed:
  "\<exists>r. analyze_decisions (\<lambda>_. []) (Some demo_records) 2 = Inr (Some r)"
  by (simp add: analyze_decisions_def demo_records_def decision_turn_def require_dict_def dict_get_def
      count_action_def py_or_def record_mask_size_def mask_positive_def record_sender_pos_def slice_def
      relation_turn_def double_overflow_def eval_nat_numeral Let_def)

theorem decision_report_consistent_witness:
  "\<exists>r. analyze_decisions (\<lambda>_. []) (Some demo_records) 2 = Inr (Some r) \<and> report_consistent 2 2 r"
proof -
  obtain r where r: "analyze_decisions (\<lambda>_. []) (Some demo_records) 2 = Inr (Some r)"
    using demo_records_analysed by blast
  have "report_consistent (length demo_records) (nat 2) r" by (rule decision_report_consistent [OF r])
  moreover have "length demo_records = 2" by (simp add: demo_records_def)
  ultimately have "report_consistent 2 2 r" by simp
  then show ?thesis using r by blast
qed

section \<open>Latencies and load\<close>

text \<open>
  C37. The latency report accounts for every row of the transaction details: valid and invalid
  latencies, and unique, repeated and missing hashes, add up to the rows; the unique ones are the
  different hashes of the file; and the mean and the percentiles are ordered and bounded by the
  largest latency.
\<close>

theorem latency_report_accounts:
  "\<exists>r. analyze_tx_latency_details (Some rows) = Some r \<and> lr_row_count r = length rows \<and>
     lr_valid_latency_count r + lr_invalid_latency_count r = length rows \<and>
     lr_valid_latency_count r = length (valid_latencies rows) \<and>
     lr_unique_tx_hash_count r + lr_duplicate_tx_hash_count r + lr_missing_tx_hash_count r = length rows \<and>
     lr_unique_tx_hash_count r = card (hash_of_items ` set rows - {[]}) \<and>
     0 \<le> lr_valid_latency_ratio r \<and> lr_valid_latency_ratio r \<le> 1 \<and>
     (case lr_times r of
        None \<Rightarrow> lr_valid_latency_count r = 0
      | Some q \<Rightarrow> 0 < lr_valid_latency_count r \<and> 0 \<le> lq_p50_sec q \<and> lq_p50_sec q \<le> lq_p95_sec q \<and>
          lq_p95_sec q \<le> lq_p99_sec q \<and> lq_p99_sec q \<le> lq_max_sec q \<and>
          lq_max_sec q * 1000 \<in> set (valid_latencies rows) \<and> 0 \<le> lq_mean_sec q \<and> lq_mean_sec q \<le> lq_max_sec q)"
proof -
  let ?t = "latency_totals_of rows" and ?v = "valid_latencies rows"
  let ?s = "sort ?v"
  note t = latency_totals_spec [of rows]
  have empty: "?s = [] \<longleftrightarrow> ?v = []" by (metis length_0_conv length_sort)
  have unique: "length (lt_seen ?t) = card (hash_of_items ` set rows - {[]})"
    using t distinct_card by metis
  have nonneg: "\<forall>x\<in>set ?v. 0 \<le> x" by (auto simp: valid_latencies_def)
  have ordered: "?s ! order_index p (length ?v) \<le> ?s ! order_index q (length ?v)" if "p \<le> q" "?v \<noteq> []" for p q
    using that by (intro sort_nth_mono order_index_mono order_index_less) auto
  have max: "x \<le> last ?s" if "x \<in> set ?v" for x
  proof -
    have "x \<in> set ?s" using that by simp
    then obtain i where i: "i < length ?s" "x = ?s ! i" unfolding in_set_conv_nth by blast
    then have "?s \<noteq> []" by (metis length_0_conv less_nat_zero_code)
    then have "last ?s = ?s ! (length ?v - 1)" using last_conv_nth [of ?s] by (metis length_sort)
    then show ?thesis using i sort_nth_mono [of i "length ?v - 1" ?v] by simp
  qed
  have entry: "?s ! order_index q (length ?v) \<in> set ?v" if "?v \<noteq> []" for q
    using nth_mem [of "order_index q (length ?v)" ?s] order_index_less [of "length ?v" q] that by simp
  have last: "last ?s \<in> set ?v" if "?v \<noteq> []"
    using that last_in_set [of ?s] by (metis length_0_conv length_sort set_sort)
  have mean: "0 \<le> fmean ?s \<and> fmean ?s \<le> last ?s" if "?v \<noteq> []"
    using that nonneg max empty by (intro fmean_bounds) auto
  show ?thesis
  proof (cases "?v = []")
    case True
    then show ?thesis
      using t unique empty
      by (simp add: analyze_tx_latency_details_def latency_view_def Let_def latency_totals_of_def [symmetric] share_def)
  next
    case False
    then show ?thesis
      using t unique valid_latencies_length [of rows] share_bounds [of "length ?v" "length rows"]
        ordered [of "0.5" "0.95"] ordered [of "0.95" "0.99"] max [OF entry [OF False]] nonneg entry [OF False] mean last empty
      by (simp add: analyze_tx_latency_details_def latency_view_def Let_def latency_totals_of_def [symmetric])
  qed
qed

text \<open>
  C35. The balance report over a period: the aggregated loads are, shard by shard, the sums over the
  epochs that were counted; the largest share and the fairness of every average lie between one
  over the number of shards and one, the active shards do not exceed the shards, and one more than
  the square of the dispersion of an epoch is the inverse of its fairness. The fairness and the
  largest share of an epoch are those of \<open>load_statistics\<close>.
\<close>

theorem load_balance_sound:
  "let vectors = epoch_loads ids by_epoch shards; b = summarize_load_balance ids by_epoch shards; n = nat shards in
   lb_load_epoch_count b = length vectors \<and> length (lb_aggregate_shard_loads b) = n \<and>
   (\<forall>i<n. lb_aggregate_shard_loads b ! i = (\<Sum>v\<leftarrow>vectors. v ! i)) \<and>
   (\<forall>v\<in>set vectors. (load_cv v)\<^sup>2 + 1 = 1 / jain_fairness v \<and>
      (\<exists>r. load_statistics (map Fin v) = Inr r \<and> ls_jain_fairness r = Some (jain_fairness v) \<and>
           ls_max_share r = Some (max_share v))) \<and>
   (if vectors = []
    then lb_mean_jain_fairness b = 0 \<and> lb_aggregate_jain_fairness b = 0 \<and> lb_mean_active_shards b = 0
    else (\<forall>x\<in>{lb_mean_max_shard_load_share b, lb_p95_max_shard_load_share b, lb_mean_jain_fairness b,
            lb_p05_jain_fairness b, lb_aggregate_max_shard_load_share b, lb_aggregate_jain_fairness b}.
            1 / n \<le> x \<and> x \<le> 1) \<and>
         0 \<le> lb_min_active_shards b \<and> lb_min_active_shards b \<le> lb_mean_active_shards b \<and>
         lb_mean_active_shards b \<le> n)"
proof -
  define vectors where "vectors = epoch_loads ids by_epoch shards"
  define agg where "agg = fold add_vectors vectors (replicate (nat shards) 0)"
  have vec: "\<forall>x\<in>set v. 0 \<le> x" "0 < sum_list v" "length v = nat shards" if "v \<in> set vectors" for v
    using that epoch_loads_vector unfolding vectors_def by blast+
  note bounds = load_measures_bounds [OF vec(1,2)]
  have a: "length agg = nat shards" "\<forall>i<nat shards. agg ! i = (\<Sum>v\<leftarrow>vectors. v ! i)"
    "sum_list agg = sum_list (map sum_list vectors)"
    using fold_add_vectors [of vectors "replicate (nat shards) (0 :: real)"] vec(3) by (auto simp: agg_def)
  have measures: "(load_cv v)\<^sup>2 + 1 = 1 / jain_fairness v \<and>
      (\<exists>r. load_statistics (map Fin v) = Inr r \<and> ls_jain_fairness r = Some (jain_fairness v) \<and>
           ls_max_share r = Some (max_share v))" if "v \<in> set vectors" for v
    using load_measures [OF vec(1) [OF that] vec(2) [OF that]] bounds(5) [OF that that] by auto
  have agg_bounds: "\<forall>x\<in>set agg. 0 \<le> x" "0 < sum_list agg" if "vectors \<noteq> []"
  proof -
    have "0 \<le> (\<Sum>v\<leftarrow>vectors. v ! i)" if "i < nat shards" for i
      using that vec(1,3) by (intro sum_list_nonneg) auto
    then show "\<forall>x\<in>set agg. 0 \<le> x" using a(1,2) by (auto simp: in_set_conv_nth)
    obtain v vs where "vectors = v # vs" using \<open>vectors \<noteq> []\<close> by (cases vectors) auto
    then show "0 < sum_list agg"
      using a(3) vec(2) sum_list_nonneg [of "map sum_list vs"] by (fastforce intro: add_pos_nonneg)
  qed
  let ?n = "real (nat shards)"
  have shares: "\<forall>x\<in>set (map max_share vectors). 1 / ?n \<le> x \<and> x \<le> 1"
    "\<forall>x\<in>set (map jain_fairness vectors). 1 / ?n \<le> x \<and> x \<le> 1"
    using bounds vec(3) by (metis (no_types, lifting) imageE set_map)+
  have act: "\<forall>x\<in>set (map active_count vectors). list_min (map active_count vectors) \<le> x \<and> x \<le> ?n"
  proof
    fix x
    assume x: "x \<in> set (map active_count vectors)"
    then obtain v where "v \<in> set vectors" "x = active_count v" by auto
    then show "list_min (map active_count vectors) \<le> x \<and> x \<le> ?n"
      using list_min_le [OF x] active_count_bounds [of v] vec(3) [of v] by simp
  qed
  show ?thesis
  proof (cases "vectors = []")
    case True
    then show ?thesis
      using a measures by (simp add: summarize_load_balance_def Let_def vectors_def [symmetric] agg_def [symmetric]
          mean_or_zero_def jain_fairness_def)
  next
    case False
    have "0 \<le> list_min (map active_count vectors)"
      using False list_min_in [of "map active_count vectors"] by (auto simp: active_count_def)
    then show ?thesis
      using False a measures statistics_bounds [OF shares(1)] statistics_bounds [OF shares(2)]
        statistics_bounds(1) [OF act] load_measures_bounds [OF agg_bounds [OF False]] agg_bounds(2) [OF False]
      by (simp add: summarize_load_balance_def Let_def vectors_def [symmetric] agg_def [symmetric] max_share_def)
  qed
qed

definition demo_epoch :: row where
  "demo_epoch = text_row [(''EpochID'', ''0''), (''Shard_0_Load'', ''3''), (''Shard_1_Load'', ''1'')]"

lemma demo_epoch_loads: "shard_load_values demo_epoch 2 = [3, 1]"
proof -
  have "py_float ''3'' = Some (Fin 3)" "py_float ''1'' = Some (Fin 1)"
    using py_float_plain [of "''3''" 3] py_float_plain [of "''1''" 1]
    by (simp_all add: plain_digits_def double_overflow_def text_eval)
  moreover have "load_column 0 = ''Shard_0_Load''" "load_column 1 = ''Shard_1_Load''" by code_simp+
  moreover have "[0..<nat 2] = [0, 1]" by code_simp
  ultimately show ?thesis
    by (simp add: shard_load_values_def as_float_def get_cell_def demo_epoch_def text_row_def)
qed

lemma demo_vectors: "epoch_loads [''0''] [''0'' \<mapsto> demo_epoch] 2 = [[3, 1]]"
  by (simp add: epoch_loads_def map_filter_def demo_epoch_loads)

theorem load_balance_sound_witness:
  "lb_aggregate_shard_loads (summarize_load_balance [''0''] [''0'' \<mapsto> demo_epoch] 2) ! 0 = 3 \<and>
   lb_aggregate_jain_fairness (summarize_load_balance [''0''] [''0'' \<mapsto> demo_epoch] 2) \<le> 1"
proof -
  note sound = load_balance_sound [of "[''0'']" "[''0'' \<mapsto> demo_epoch]" 2, unfolded demo_vectors Let_def]
  from sound have "lb_aggregate_shard_loads (summarize_load_balance [''0''] [''0'' \<mapsto> demo_epoch] 2) ! 0 = (\<Sum>v\<leftarrow>[[3, 1]]. v ! 0)"
    by simp
  moreover from sound have "lb_aggregate_jain_fairness (summarize_load_balance [''0''] [''0'' \<mapsto> demo_epoch] 2) \<le> 1" by simp
  ultimately show ?thesis by simp
qed

section \<open>The log\<close>

text \<open>
  C21. The log of the supervisor is read back exactly: from a log in which lines of sent batches, each
  with one count per shard after any prefix without a bracket, are mixed with other lines, the
  analysis finds every batch, adds the printed counts shard by shard, and its placement
  distribution adds up to one unless nothing was sent.
\<close>

theorem send_log_read_back:
  assumes "list_all (line_ok n) entries" and "0 < n"
  shows "\<exists>r. analyze_send_log (Some (map entry_line entries)) (int n) = Inr (Some r) \<and>
     sr_send_batch_count r = length (sent_counts entries) \<and>
     sr_tx_placement_totals r = map (\<lambda>i. int (\<Sum>c\<leftarrow>sent_counts entries. c ! i)) [0..<n] \<and>
     sum_list (sr_tx_placement_dist r) = of_bool (sum_list (map sum_list (sent_counts entries)) \<noteq> 0) \<and>
     0 \<le> sr_mean_batch_max_share r \<and> sr_mean_batch_max_share r \<le> 1"
proof -
  let ?rows = "map (map int) (sent_counts entries)"
  have len: "\<forall>c\<in>set (sent_counts entries). length c = n"
    using assms(1) by (induction entries rule: sent_counts.induct) auto
  define totals where "totals = fold add_vectors ?rows (replicate n 0)"
  have t: "length totals = n" "\<forall>i<n. totals ! i = (\<Sum>v\<leftarrow>?rows. v ! i)"
    "sum_list totals = sum_list (map sum_list ?rows)"
    using fold_add_vectors [of ?rows "replicate n 0"] len by (auto simp: totals_def)
  have int_sum: "(\<Sum>x\<leftarrow>xs. int (f x)) = int (\<Sum>x\<leftarrow>xs. f x)" for f :: "'a \<Rightarrow> nat" and xs
    by (induction xs) simp_all
  have "(\<Sum>v\<leftarrow>?rows. v ! i) = int (\<Sum>c\<leftarrow>sent_counts entries. c ! i)" if "i < n" for i
    unfolding map_map int_sum [symmetric] using that len by (intro arg_cong [of _ _ sum_list] map_cong) auto
  then have totals: "totals = map (\<lambda>i. int (\<Sum>c\<leftarrow>sent_counts entries. c ! i)) [0..<n]"
    using t by (intro nth_equalityI) auto
  have "map sum_list ?rows = map (\<lambda>c. int (sum_list c)) (sent_counts entries)"
    using int_sum [of "\<lambda>x. x"] by simp
  from t(3) [unfolded this int_sum] have sum: "sum_list totals = int (sum_list (map sum_list (sent_counts entries)))" .
  have dist: "sum_list (map (\<lambda>v. int_share v (sum_list xs)) xs) = of_bool (sum_list xs \<noteq> 0)" for xs
  proof (cases "sum_list xs = 0")
    case False
    have "sum_list (map (\<lambda>v. real_of_int v / c) ys) = real_of_int (sum_list ys) / c" for c ys
      by (induction ys) (simp_all add: add_divide_distrib)
    then show ?thesis using False by (simp add: int_share_def)
  qed (simp add: int_share_def)
  let ?shares = "map (\<lambda>c. int_share (list_max c) (sum_list c)) (filter (\<lambda>c. sum_list c > 0) ?rows)"
  have "0 \<le> int_share (list_max c) (sum_list c) \<and> int_share (list_max c) (sum_list c) \<le> 1"
    if "c \<in> set ?rows" "0 < sum_list c" for c
  proof -
    have "c \<noteq> []" "\<forall>x\<in>set c. 0 \<le> x" using that by auto
    then have "0 \<le> list_max c" "list_max c \<le> sum_list c"
      using list_max_in [of c] member_le_sum_list_int by auto
    then show ?thesis using that(2) by (simp add: int_share_def)
  qed
  then have "\<forall>x\<in>set ?shares. 0 \<le> x \<and> x \<le> 1" by auto
  then have "0 \<le> mean_or_zero ?shares \<and> mean_or_zero ?shares \<le> 1"
    using statistics_bounds(1) [of ?shares 0 1] by (cases "?shares = []") (simp_all add: mean_or_zero_def)
  then show ?thesis
    using read_log [OF assms] totals dist [of totals] sum
    by (simp add: send_view_def Let_def totals_def [symmetric])
qed

definition demo_log :: "log_entry list" where
  "demo_log = [OtherLine ''start'', Sent ''12:00 '' 10 5 1 [2, 3] 4]"

theorem send_log_read_back_witness:
  "\<exists>r. analyze_send_log (Some (map entry_line demo_log)) 2 = Inr (Some r) \<and> sr_tx_placement_totals r = [2, 3]"
proof -
  have "list_all (line_ok 2) demo_log" by (simp add: demo_log_def)
  from send_log_read_back [OF this] show ?thesis by (auto simp: demo_log_def upt_rec [of _ 2] upt_rec [of 1 2])
qed

section \<open>The whole analysis\<close>

lemma analysis_parts:
  assumes "analyze str_of fs a = Inr res"
  shows "analyze_periods fs a = Inr (br_periods res) \<and> analyze_iot fs a (br_periods res) = Inr (br_iot_metrics res)"
  using assms by (auto simp: analyze_def result_simps split: if_splits)

lemma active_total:
  assumes "analyze_periods fs a = Inr ps"
  shows "\<exists>tx_rows. rf_tx fs = Some tx_rows \<and>
     pe_effective_total (ps_all_active ps) = sum_list (map total_tx (filter (\<lambda>row. total_tx row > 0) tx_rows))"
proof -
  have period: "pe_effective_total pe = sum_list (map total_tx rows)"
    if "summarize_period name rows c t l v s mx = Inr pe" for name rows c t l v s mx pe
    using that by (auto simp: summarize_period_def Let_def result_simps split: if_splits)
  show ?thesis
    using assms unfolding analyze_periods_def read_file_def Let_def
    by (auto simp: result_simps dest!: period split: option.splits)
qed

text \<open>
  C20. An analysis with IoT measurements returns only when three independent sources agree: the window
  of the configuration, whose transactions are all matched exactly once with the details of the
  run; the sums of the epoch files, which give the same number of transactions and of cross-shard
  transactions up to the tolerance; and the reconstructed execution stages.
\<close>

theorem analysis_totals_agree:
  assumes "analyze str_of fs a = Inr res" and "ba_iot_run_dir a \<noteq> []"
  shows "\<exists>scenes mf iot d tx_rows. chain_context fs a = Inr (scenes, mf) \<and> br_iot_metrics res = Some iot \<and>
     pe_detail (ps_all_active (br_periods res)) = Some d \<and> rf_tx fs = Some tx_rows \<and>
     distinct (map sc_dataset_row scenes) \<and>
     sc_dataset_row ` set scenes = {mm_start_tx mf..<mm_end_tx_exclusive mf} \<and>
     tv_count (cp_groups iot AllTx) = length scenes \<and> cp_matched_count iot = length scenes \<and>
     \<bar>sum_list (map total_tx (filter (\<lambda>row. total_tx row > 0) tx_rows)) - real (length scenes)\<bar> \<le> 1 / 10 ^ 6 \<and>
     \<bar>pd_cross_total d - real (tv_cross_count (cp_groups iot AllTx))\<bar> \<le> 1 / 10 ^ 6 \<and>
     \<bar>ls_total (cp_execution_load iot) - (real (length scenes) + pd_cross_total d)\<bar> \<le> 1 / 10 ^ 6"
proof -
  note parts = analysis_parts [OF assms(1)]
  from parts assms(2) obtain scenes mf details meta iot where
    ctx: "chain_context fs a = Inr (scenes, mf)"
    and join: "analyze_chain_details (map map_of details) scenes mf (nat (ba_shards a)) meta = Inr iot"
    and totals: "check_totals (ps_all_active (br_periods res)) (cp_groups iot AllTx) = Inr ()"
    and iot: "br_iot_metrics res = Some iot"
    by (auto simp: analyze_iot_def result_simps)
  obtain tx_rows where rows: "rf_tx fs = Some tx_rows"
    "pe_effective_total (ps_all_active (br_periods res)) =
       sum_list (map total_tx (filter (\<lambda>row. total_tx row > 0) tx_rows))"
    using active_total parts by blast
  obtain d where d: "pe_detail (ps_all_active (br_periods res)) = Some d"
    "\<bar>pe_effective_total (ps_all_active (br_periods res)) - real (tv_count (cp_groups iot AllTx))\<bar> \<le> 1 / 10 ^ 6"
    "\<bar>pd_cross_total d - real (tv_cross_count (cp_groups iot AllTx))\<bar> \<le> 1 / 10 ^ 6"
    using totals by (auto simp: check_totals_def split: if_splits option.splits)
  note complete = chain_report_ok [OF join]
  have "ls_total (cp_execution_load iot) = real (length scenes) + real (tv_cross_count (cp_groups iot AllTx))"
    using complete by simp
  then have "\<bar>ls_total (cp_execution_load iot) - (real (length scenes) + pd_cross_total d)\<bar> \<le> 1 / 10 ^ 6"
    using d(3) by linarith
  then show ?thesis using ctx iot d rows complete by auto
qed

text \<open>A run of one transaction inside a shard, with the window of the evaluation example.\<close>

definition demo_items :: items where
  "demo_items = map (\<lambda>(k, v). (k, Some v))
     [(HASH_COLUMN, ''17''), (''Tx local nonce'', ''0''), (''Dataset row index'', ''1''),
      (''Sender address'', demo_a), (''Recipient address'', demo_b), (''Sender shard'', ''0''),
      (''Recipient shard'', ''0''), (''Cross shard'', ''0''), (''Tx propose timestamp'', ''1000''),
      (''Tx finally commit timestamp'', ''1005''), (''Confirmed latency of this tx (ms)'', ''5'')]"

definition demo_run_files :: run_files where
  "demo_run_files =
     \<lparr>rf_tx = Some [text_row [(''EpochID'', ''0''), (''Total tx # in this epoch'', ''1'')]], rf_cross = Some [],
      rf_tps = Some [], rf_latency = Some [], rf_variance = Some [], rf_details = Some [demo_items],
      rf_decisions = None, rf_log = None,
      rf_config = Some (VDict [(''SpringIOTIdentityMode'', VInt 2), (''SpringIOTMode'', VInt 1),
        (''DatasetStartTx'', VInt 1), (''TotalDataSize'', VInt 1)]),
      rf_metadata = (\<lambda>_. None), rf_data = demo_eval_files\<rparr>"

definition demo_block_args :: block_args where
  "demo_block_args = \<lparr>ba_shards = 2, ba_min_effective_tx = Fin 1000, ba_max_epoch_tps = Fin 5000,
     ba_spring_io_path = [], ba_log = [], ba_iot_run_dir = ''run'', ba_iot_dataset_dir = ''data'',
     ba_iot_tx_metadata = [], ba_iot_reference_start_tx = 0, ba_iot_reference_max_txs = 1\<rparr>"

lemma demo_item_ints:
  "int_field (map_of demo_items) ''Tx local nonce'' = Inr 0" "int_field (map_of demo_items) ''Dataset row index'' = Inr 1"
  "int_field (map_of demo_items) ''Sender shard'' = Inr 0" "int_field (map_of demo_items) ''Recipient shard'' = Inr 0"
  "int_field (map_of demo_items) ''Cross shard'' = Inr 0"
  by code_simp+

lemma demo_item_texts:
  "cell (map_of demo_items) HASH_COLUMN = ''17''" "str_field (map_of demo_items) ''Sender address'' = demo_a"
  "str_field (map_of demo_items) ''Recipient address'' = demo_b"
  "list_all (\<lambda>n. str_field (map_of demo_items) n \<noteq> []) META_COLUMNS"
  "cell (map_of demo_items) RELAY1 = []" "cell (map_of demo_items) RELAY2 = []"
  "\<not> list_ex (\<lambda>n. cell (map_of demo_items) n \<noteq> []) BROKER_COLUMNS"
  "cell (map_of demo_items) ''Tx propose timestamp'' = ''1000''"
  "cell (map_of demo_items) ''Tx finally commit timestamp'' = ''1005''"
  "cell (map_of demo_items) ''Confirmed latency of this tx (ms)'' = ''5''"
  by code_simp+

lemma demo_item_join:
  assumes sc: "sc_dataset_row sc = 1" "sc_sender sc = address_key demo_a" "sc_recipient sc = address_key demo_b"
    and mf: "mm_start_tx mf = 1" "mm_end_tx_exclusive mf = 2"
  shows "\<exists>r. analyze_chain_details [map_of demo_items] [sc] mf 2 None = Inr r \<and> tv_cross_count (cp_groups r AllTx) = 0"
proof -
  let ?l = "Some (Fin (1 / 200))"
  have "\<exists>gs'. fold_result (add_to_group sc False ?l) names gs = Inr gs'" for names gs
    by (induction names arbitrary: gs) (simp_all add: add_to_group_def totals_add_def Let_def)
  then obtain gs where "fold_result (add_to_group sc False ?l) (selected_groups (mm_thresholds mf) sc) (\<lambda>_. empty_totals) = Inr gs"
    by blast
  then obtain m where m: "metrics_add sc 0 ?l (new_metrics mf) = Inr m"
    by (simp add: metrics_add_def new_metrics_def)
  then have all: "add_all [(sc, 0, ?l)] (new_metrics mf) = Inr m" by (simp add: add_all_def)
  have "me_seen m = {1}" "me_manifest m = mf"
    using add_all_seen(1,2) [OF all] sc(1) by (simp_all add: row_of_def)
  moreover have "{1..<2 :: int} = {1}" by auto
  ultimately have summary: "metrics_summary m = Inr (\<lambda>g. totals_summary (me_groups m g))"
    using mf by (simp add: metrics_summary_def)
  have "real (to_cross (me_groups m AllTx)) = 0" unfolding tcross.group_sum [OF all] by (simp add: members_def)
  then have cross: "tv_cross_count (totals_summary (me_groups m AllTx)) = 0" by (simp add: totals_summary_def)
  have latency: "checked_latency (map_of demo_items) False = Inr (Fin 5)"
    by (simp add: checked_latency_def float_or_nan_def demo_item_texts demo_floats fabs_def)
  have hash: "unique_by_hash [map_of demo_items] = Inr [(17, map_of demo_items)]"
    using demo_texts(2,3) by (simp add: unique_by_hash_def add_unique_def demo_item_texts)
  have "\<exists>r. load_statistics (map Fin [1, 0]) = Inr r"
    by (simp add: load_statistics_def Let_def)
  then show ?thesis
    using summary cross
    by (auto simp: analyze_chain_details_def hash join_row_def demo_item_ints demo_item_texts latency m sc mf
        add_loads_def bump_def replicate_two)
qed

lemma demo_run_context:
  "\<exists>sc mf. chain_context demo_run_files demo_block_args = Inr ([sc], mf) \<and>
     sc_dataset_row sc = 1 \<and> sc_sender sc = address_key demo_a \<and> sc_recipient sc = address_key demo_b \<and>
     mm_start_tx mf = 1 \<and> mm_end_tx_exclusive mf = 2"
proof -
  obtain sc mf where ctx: "evaluation_context 0 [demo_raw, demo_raw] demo_eval_scenes 1 1 0 1 = Inr ([sc], mf)"
    and load: "load_scenes 0 [demo_raw, demo_raw] demo_eval_scenes 1 1 = Inr [sc]"
    using demo_context demo_load_scenes(2)
    by (auto simp: evaluation_context_def result_simps split: if_splits)
  have mf: "mm_start_tx mf = 1" "mm_end_tx_exclusive mf = 2"
    using ctx by (auto simp: evaluation_context_def result_simps split: if_splits)
  obtain s1 where s1: "scene_of_row 1 (demo_eval_scene ''1'' ''2'') = Inr s1" "sc = s1\<lparr>sc_dataset_row := 1\<rparr>"
    using load demo_eval_aligned by (auto simp: load_scenes_def load_rows_def demo_chain demo_eval_scenes_def result_simps)
  have "get_str (demo_eval_scene ''1'' ''2'') ''from_address'' = Inr demo_a"
    "get_str (demo_eval_scene ''1'' ''2'') ''to_address'' = Inr demo_b"
    by (simp_all add: get_str_def get_field_def str_field_def demo_eval_scene_def LoadTheorems.demo_scene_def text_row_def)
  then have "sc_sender s1 = address_key demo_a" "sc_recipient s1 = address_key demo_b"
    using s1(1) by (auto simp: scene_of_row_def make_scene_def result_simps split: if_splits)
  moreover have "chain_context demo_run_files demo_block_args = Inr ([sc], mf)"
    using ctx
    by (simp add: chain_context_def demo_run_files_def demo_block_args_def read_file_def require_dict_def dict_get_def
        scalar_eq_def window_paths_def dict_item_def reference_before_def demo_eval_files_def)
  ultimately show ?thesis using s1(2) mf by auto
qed

lemma demo_run_periods:
  "\<exists>ps d. analyze_periods demo_run_files demo_block_args = Inr ps \<and> pe_effective_total (ps_all_active ps) = 1 \<and>
     pe_detail (ps_all_active ps) = Some d \<and> pd_cross_total d = 0"
proof -
  let ?row = "text_row [(''EpochID'', ''0''), (''Total tx # in this epoch'', ''1'')]"
  have "py_float ''1'' = Some (Fin 1)"
    using py_float_plain [of "''1''" 1] by (simp add: plain_digits_def double_overflow_def text_eval)
  then have "total_tx ?row = 1" "normal_tx ?row = 0"
    by (simp_all add: total_tx_def normal_tx_def cell_or_zero_def as_float_def get_cell_def text_row_def)
  moreover have "row_epoch_id ?row = Inr ''0''" by (simp add: row_epoch_id_def text_row_def cell_text_def)
  moreover have "epoch_number ''0'' = Inr 0" by (simp add: epoch_number_def text_eval)
  ultimately show ?thesis
    by (simp add: analyze_periods_def demo_run_files_def demo_block_args_def read_file_def Let_def keyed_epochs_def
        summarize_period_def sum_cells_def epoch_cells_def map_filter_def)
qed

lemma demo_run_analysed: "\<exists>res. analyze (\<lambda>_. []) demo_run_files demo_block_args = Inr res"
proof -
  obtain sc mf where ctx: "chain_context demo_run_files demo_block_args = Inr ([sc], mf)"
    "sc_dataset_row sc = 1" "sc_sender sc = address_key demo_a" "sc_recipient sc = address_key demo_b"
    "mm_start_tx mf = 1" "mm_end_tx_exclusive mf = 2"
    using demo_run_context by blast
  obtain r where r: "analyze_chain_details [map_of demo_items] [sc] mf 2 None = Inr r" "tv_cross_count (cp_groups r AllTx) = 0"
    using demo_item_join ctx(2-6) by blast
  obtain ps d where ps: "analyze_periods demo_run_files demo_block_args = Inr ps"
    "pe_effective_total (ps_all_active ps) = 1" "pe_detail (ps_all_active ps) = Some d" "pd_cross_total d = 0"
    using demo_run_periods by blast
  have "check_totals (ps_all_active ps) (cp_groups r AllTx) = Inr ()"
    using ps r chain_report_ok [OF r(1)] by (simp add: check_totals_def)
  then have "analyze_iot demo_run_files demo_block_args ps = Inr (Some r)"
    using ctx(1) r(1) by (simp add: analyze_iot_def demo_block_args_def demo_run_files_def read_file_def)
  then show ?thesis using ps(1) by (simp add: analyze_def demo_block_args_def)
qed

theorem analysis_totals_agree_witness:
  "\<exists>res iot. analyze (\<lambda>_. []) demo_run_files demo_block_args = Inr res \<and> br_iot_metrics res = Some iot \<and>
     cp_matched_count iot = tv_count (cp_groups iot AllTx)"
proof -
  obtain res where res: "analyze (\<lambda>_. []) demo_run_files demo_block_args = Inr res"
    using demo_run_analysed by blast
  have "ba_iot_run_dir demo_block_args \<noteq> []" by (simp add: demo_block_args_def)
  from analysis_totals_agree [OF res this] res show ?thesis by force
qed

end
