(* ===== verification/Spec2Isabelle.thy ===== *)
theory Spec2Isabelle
  imports EnvTheorems PolicyTheorems LoadTheorems RolloutTheorems TrainTheorems CheckpointTheorems
    MetricsTheorems DatasetTheorems OnlineTheorems InferenceTheorems EvalTheorems BlockTheorems
begin

text \<open>
  \<^bold>\<open>Verification of the SPRING-lite shard placement system\<close>

  The repository extends the BlockEmulator test bed (in Go) with a Python system under
  \<open>spring_lite/\<close> that learns where to place new blockchain accounts on shards. This development
  models the Python side and proves what makes it correct.

  \<^bold>\<open>The program.\<close> Transactions are read from CSV files (\<open>offline_env.py\<close>, \<open>iot_v2.py\<close>) and cut
  into batches. For each batch the environment \<open>SpringOfflineEnv\<close> places every address it has not
  seen: it builds an observation, asks a policy for a shard, guards the answer with a candidate
  mask, and records the placement; then it simulates the execution of the batch on the shards
  (inner transactions and relay pairs), applies block capacity and a backlog, and computes a
  reward. The collector of \<open>continuous_rollout.py\<close> turns the placements into transitions for a PPO
  agent (\<open>ppo.py\<close>), \<open>train_offline.py\<close> evaluates the agent and keeps the Pareto frontier of its
  checkpoints, \<open>select_pareto_checkpoint.py\<close> picks one of them, \<open>checkpoint_compat.py\<close> checks it
  against a configuration, \<open>eval_offline.py\<close> runs a policy over a window of transactions and
  reports on it, \<open>iot_metrics.py\<close> measures a run, offline or on the chain, and
  \<open>analyze_block_eval.py\<close> reports on the files that a chain run leaves. The
  datasets with real accounts are built by \<open>prepare_iot_v2_dataset.py\<close> and checked by
  \<open>validate_iot_v2_dataset.py\<close>. A trained model answers the emulator through \<open>infer.py\<close>,
  \<open>infer_batch.py\<close> or the long-running \<open>infer_server.py\<close>, and \<open>update_online.py\<close> feeds the feedback
  of a run back into it.

  \<^bold>\<open>Theories.\<close>
  \<^item> \<open>Prelude\<close>: exceptions as values of \<open>exn + 'a\<close>, loops that may raise, vectors updated by
    index, counters, the locale \<open>loop_contract\<close>. \<open>PyValues\<close>: Python strings, \<open>int\<close> and \<open>float\<close> of
    texts, floats with infinities and NaN. \<open>Sha256\<close>: the digest, on words.
  \<^item> \<open>Mechanism\<close> (\<open>mechanism.py\<close>, \<open>config.py\<close>), \<open>ActionMask\<close> (\<open>action_mask.py\<close>,
    \<open>action_select.py\<close>; locale \<open>mask_choice\<close>), \<open>Heuristic\<close> (\<open>heuristic.py\<close>), \<open>Reward\<close> and \<open>TxModel\<close>
    (rewards and transactions of \<open>offline_env.py\<close>).
  \<^item> \<open>OfflineEnv\<close>: the record \<open>env\<close> is the state of \<open>SpringOfflineEnv\<close>; construction, observation,
    mask and placement of one address. \<open>OfflineBatch\<close>: one batch, with loads, backlog, rewards and
    metrics (\<open>run_batch\<close>). \<open>EnvInvariant\<close> and \<open>BatchInvariant\<close>: the invariant \<open>wf_env\<close> and the steps
    that keep it. \<open>EnvTheorems\<close>: the invariant, permanence of placements, legality of actions,
    totality, accounting of a batch, conservation of load. \<open>PolicyTheorems\<close>: the guarded action, the
    candidate mask, the observation, the argmax, the address hash, bounds of rewards and statistics.
  \<^item> \<open>IotFeatures\<close> and \<open>TxLoad\<close>: the features of a sidecar row and the loaders, over the parsed rows
    of the files; \<open>LoadTheorems\<close>: what a loaded window contains.
  \<^item> \<open>Rollout\<close>: buffer, collector, advantage estimate, placement diagnostics. \<open>RolloutTheorems\<close>: the
    relation \<open>collects\<close> of all interleavings of decisions, batches and finishes, its invariant by
    rule induction, and the returns it implies.
  \<^item> \<open>Training\<close> and \<open>TrainTheorems\<close>: summaries, evaluation, validation score and windows of
    \<open>train_offline.py\<close>. \<open>Checkpoint\<close> and \<open>CheckpointTheorems\<close>: dominance, frontier, selection and
    configuration of checkpoints.
  \<^item> \<open>IotMetrics\<close> and \<open>MetricsTheorems\<close>: scenes, totals per group (locale \<open>tally\<close>, interpreted for
    each field), quantiles, and the strict join with the details of a chain run.
  \<^item> \<open>SceneLibrary\<close>, \<open>Dataset\<close>: the generator of the real-account dataset and its validator;
    \<open>LibraryFacts\<close>: topology, sampling and well-formedness of a library; \<open>DatasetTheorems\<close>: the
    validator accepts what the generator builds, and the generator does not look ahead.
  \<^item> \<open>JsonData\<close>: JSON values with Python's \<open>float\<close>, \<open>int\<close>, truth and equality on them. \<open>Agent\<close>: the
    agent of \<open>ppo.py\<close> as seen by its users, over a record of what the torch library does
    (\<open>torch_lib\<close>: fresh weights, \<open>load_state_dict\<close>, the forward pass, an update). \<open>OnlineUpdate\<close>:
    \<open>update_online.py\<close>, from the parsed feedback to the saved checkpoint; \<open>OnlineRows\<close>: the buffers
    seen as queues of samples; \<open>OnlineTheorems\<close>: over calls that succeed no sample is lost or used
    twice, an update that fails its protections leaves all files alone, and a saved checkpoint passes
    the compatibility test of the entries that load it. A call carries the failures of its writes
    (\<open>update_env\<close>), and its outcome comes with the files as they are then, after an exception too.
  \<^item> \<open>Logits\<close>: masked logits, softmax and the categorical distribution on numbers with NaN.
    \<open>Inference\<close>: the server with its cached agent, the batch entry and the single entry. Each access
    of a request to the model file is a step of its own, before which other processes may change the
    files (\<open>moment\<close>), and the loop decodes its lines and encodes its responses outside the handler.
    \<open>InferenceTheorems\<close>: the reachable states of the server (\<open>server_reach\<close>); one reply per request
    up to the line, if any, that cannot be decoded or whose response cannot be encoded; the answers
    to finite states respect the masks; the cache does not change what a request gets unless
    an earlier request was overtaken by a write; and a frozen server answers with exactly
    the network loaded from the file of its configuration. What the theorems need of torch is named:
    networks have the dimensions they are built with (\<open>builds\<close>) and keep them (\<open>keeps_shape\<close>), give
    one logit per output on finite states (\<open>emits\<close>), and loading weights replaces all of them
    (\<open>restores\<close>).
  \<^item> \<open>EvalSummary\<close> and \<open>Evaluation\<close>: the record that \<open>eval_offline.py\<close> accumulates and the whole
    entry, from the loaded agent, configuration and transactions to the report. \<open>EvalInvariant\<close>:
    what one measured batch keeps of the summary; \<open>EvalProgress\<close>: no step of the entry raises on
    matching inputs. \<open>EvalTheorems\<close>: the evaluation completes, the cross-shard transactions it
    measures are the relays the environment executed, it runs only a compatible checkpoint, and its
    report covers every transaction.
  \<^item> \<open>DecisionReport\<close>, \<open>BlockReport\<close>, \<open>RunLog\<close> and \<open>BlockAnalysis\<close>: \<open>analyze_block_eval.py\<close>, from the
    decision records, the CSV rows and the log lines of a chain run to its report, with a matcher
    for the two patterns of the log, and \<open>chain_context\<close> of \<open>iot_metrics.py\<close>. \<open>DecisionFacts\<close>: the
    invariant of the loop over the decisions; \<open>DecisionTrace\<close>: the placements of the environment as
    decision records; \<open>LogFacts\<close>: the lines of the supervisor under the matcher; \<open>BlockFacts\<close>: order
    statistics, latencies and balance. \<open>BlockTheorems\<close>: the decision report agrees with the metrics of
    the environment, its counts are consistent, the log is read back, and a report with IoT
    measurements exists only when the totals agree.

  \<^bold>\<open>Decisions of the model.\<close> Floats of the simulation and of rewards are \<open>real\<close>: rounding and
  overflow of doubles are not modelled; floats read from text are \<open>pyfloat\<close>, with NaN and the
  infinities. Strings are ASCII. Dictionaries are maps, or association lists where their order is
  observed. An exception is \<open>Inl\<close>; the state at the time of a raise is dropped where no caller
  continues with it and nothing outlives the process, and kept elsewhere: the cache, files and
  generator of the server, which answers the next request after an error, and the files of an online
  update. The states of inference requests are \<open>pyfloat\<close>s, so NaN reaches the
  fallback as in the source; logits are real, and the underflow of \<open>exp\<close> on a masked logit is
  the only rounding represented. States stored in a rollout buffer are reals, without the
  conversion to single precision. Loaded transactions have \<open>pyfloat\<close> features; the evaluation runs
  the environment on reals, for which \<open>real_tx\<close> reads NaN and the infinities as 0, so that statements
  about rewards and observations of an evaluation say something about the code for finite features
  only (\<open>evaluation_completes\<close> asks for columns that guarantee them; the counts of the other
  evaluation theorems do not depend on features). A checkpoint candidate's field may be missing or
  null. A policy is a function of the environment, its own state and the
  observation, which may raise. Policies, the optimiser step, the random generator,
  \<open>datetime.fromisoformat\<close> and \<open>ipaddress.is_private\<close> are arguments. The fuel of \<open>cut_batches\<close> and of
  \<open>chunk\<close> is the length of the list, which bounds the number of pieces; all other recursions are
  structural or have a measure. CSV and JSON files enter as the rows and values read from them.

  \<^bold>\<open>Findings.\<close> A NaN in a sidecar cell passes the clamp of the features
  (\<open>nan_distance_reaches_features\<close>), also in the strict loader, by a column
  \<open>anchor_distances\<close> that its checks do not look at (\<open>nan_anchor_column_loads\<close>), and the tolerance of the dominance test makes it cyclic, so
  that the frontier of valid records can be empty (\<open>frontier_can_be_empty\<close>); \<open>frontier_correct\<close>
  states the condition under which it is right. A NaN in the state of a request makes the fallback of
  the inference entries answer shard 0 even when the mask excludes it
  (\<open>nan_state_breaks_mask\<close>). The server decodes a request line and encodes the response outside its
  \<open>try\<close>, so that a line that is not UTF-8, or an address with half of a surrogate pair, which the
  response repeats, ends it (\<open>unencodable_answer_stops_server\<close>). It reads the modification time
  of a model after loading it, so that a replacement in between leaves the old network cached under
  the time of the new file (\<open>stale_agent_race\<close>). An online update that fails after it saved the
  model is reported as failed although the model was trained, and its samples may still be pending
  (\<open>failed_update_keeps_model\<close>). A comment in
  \<open>update_online.py\<close> states another batch size than the code uses; and a comment in
  \<open>analyze_block_eval.py\<close> equates its share of related placements with that of the environment, which
  holds with IoT features only (\<open>decision_report_matches_environment\<close>).

  \<^bold>\<open>Not modelled.\<close> The network and the gradient step (torch), command lines, logging and file
  access, copies and digests of whole files, failures of \<open>mkdir\<close> and of \<open>agent.save\<close> in the server, the
  reports \<open>profile_iot_window.py\<close> and \<open>replay_iot_decisions.py\<close>, the earlier dataset
  generators, the preparation of runs, and the emulator in Go.
\<close>

end
